(* ===== verification/Prelude.thy ===== *)
theory Prelude
  imports Main "HOL-Library.List_Lexorder" "HOL-Library.Char_ord"
begin

text \<open>
  Shared vocabulary of the development: the exceptions the program raises, the result type
  of fallible operations with its bind, the fragment of Python's string operations that the
  program uses, JSON payloads, and the generic lemmas the component theories share.

  Conventions used by every theory:
  \<^item> an operation that may raise has a result of type \<open>exn + 'a\<close>; \<open>Inl\<close> is the
    exception. Exceptions keep the data that callers read from them; the message text,
    which the program only prints, is dropped;
  \<^item> text is a HOL \<open>string\<close>, read as a list of code points below 256;
  \<^item> an ISO-8601 UTC time stamp with seconds resolution (the only kind the program writes,
    \<open>utc_now_iso\<close>) is the \<open>int\<close> number of seconds it denotes. Text order of such
    stamps and numeric order agree;
  \<^item> SQL \<open>NULL\<close> and Python \<open>None\<close> are \<open>None\<close>.
\<close>

named_theorems result_simps \<open>rewriting of results and of their bind\<close>
named_theorems py_simps \<open>unfolding of the Python string fragment\<close>

section \<open>Exceptions and results\<close>

type_synonym timestamp = int

datatype exn =
    ValueError
  | TypeError
  | KeyError
  | RuntimeError
  | HomeUnknown
  | StatusVocabularyError
  | TicketStoreError
  | TicketCreationError
  | TicketBranchCollisionError string string string
  | TicketBranchCheckUnavailableError
  | GitRefStorageError
  | TicketRepositoryError
  | TicketRetryError
  | TicketBranchExistsError string string string
  | TicketDependencyError
  | SqlAbort string
  | RuntimeAdmissionError
  | RuntimeCapacityExceededError nat nat
  | RuntimeDependencyUnreleasedError string string "string option"
  | RuntimeExecutionPolicyError string string
  | ActiveAttemptExistsError
  | LeaseOwnershipError
  | LeaseExpiredError
  | RuntimePausedError
  | RuntimeKillRequested
  | RuntimeControlMigrationRequired
  | LifecycleTransitionError
  | AttemptNotActiveError
  | RuntimeCapacityError
  | ConcurrencyGateRefused
  | ExecutionPolicyError string
  | IntegrationStoreError
  | IntegrationLockUnavailable
  | UnsafeGitOperation
  | IntegrationGitError
  | IntegrationControllerError
  | IntegrationCleanupError
  | OSError
  | ExternalError string
  | GitHubPrError

type_synonym 'a result = "exn + 'a"

definition rbind :: "'a result \<Rightarrow> ('a \<Rightarrow> 'b result) \<Rightarrow> 'b result" where
  "rbind m f = (case m of Inl e \<Rightarrow> Inl e | Inr x \<Rightarrow> f x)"

definition guard_exn :: "bool \<Rightarrow> exn \<Rightarrow> unit result" where
  "guard_exn b e = (if b then Inr () else Inl e)"

definition is_ok :: "'a result \<Rightarrow> bool" where
  "is_ok r = (case r of Inl _ \<Rightarrow> False | Inr _ \<Rightarrow> True)"

lemma rbind_simps [simp, result_simps]:
  "rbind (Inl e) f = Inl e" "rbind (Inr x) f = f x"
  by (simp_all add: rbind_def)

lemma rbind_Inr_iff [result_simps]:
  "rbind m f = Inr y \<longleftrightarrow> (\<exists>x. m = Inr x \<and> f x = Inr y)"
  by (cases m) auto

lemma rbind_Inl_iff [result_simps]:
  "rbind m f = Inl e \<longleftrightarrow> m = Inl e \<or> (\<exists>x. m = Inr x \<and> f x = Inl e)"
  by (cases m) auto

lemma if_raise_Inr [result_simps]:
  "(if b then Inl e else m) = Inr y \<longleftrightarrow> \<not> b \<and> m = Inr y"
  "(if b then m else Inl e) = Inr y \<longleftrightarrow> b \<and> m = Inr y"
  by simp_all

lemma if_raise_Inl:
  "(if b then Inl e' else m) = Inl e \<longleftrightarrow> b \<and> e' = e \<or> \<not> b \<and> m = Inl e"
  by auto

lemma guard_exn_Inr_iff [simp, result_simps]: "guard_exn b e = Inr u \<longleftrightarrow> b"
  by (simp add: guard_exn_def)

lemma guard_exn_Inl_iff [simp, result_simps]: "guard_exn b e = Inl e' \<longleftrightarrow> \<not> b \<and> e' = e"
  by (auto simp: guard_exn_def)

lemma guard_exn_eval [simp]: "guard_exn True e = Inr ()" "guard_exn False e = Inl e"
  by (simp_all add: guard_exn_def)

lemma is_ok_simps [simp]: "is_ok (Inl e) = False" "is_ok (Inr x) = True"
  by (simp_all add: is_ok_def)

lemma is_ok_iff: "is_ok r \<longleftrightarrow> (\<exists>x. r = Inr x)"
  by (cases r) auto

section \<open>Python strings\<close>

definition py_isspace :: "char \<Rightarrow> bool" where
  "py_isspace c = (let n = (of_char c :: nat) in
     9 \<le> n \<and> n \<le> 13 \<or> 28 \<le> n \<and> n \<le> 32 \<or> n = 133 \<or> n = 160)"

definition py_isprintable :: "char \<Rightarrow> bool" where
  "py_isprintable c = (let n = (of_char c :: nat) in
     32 \<le> n \<and> n \<le> 126 \<or> 161 \<le> n \<and> n \<noteq> 173)"

definition py_isdigit :: "char \<Rightarrow> bool" where
  "py_isdigit c = (let n = (of_char c :: nat) in 48 \<le> n \<and> n \<le> 57)"

definition py_lower_char :: "char \<Rightarrow> char" where
  "py_lower_char c = (let n = (of_char c :: nat) in
     if 65 \<le> n \<and> n \<le> 90 \<or> 192 \<le> n \<and> n \<le> 222 \<and> n \<noteq> 215 then char_of (n + 32) else c)"

definition py_lower :: "string \<Rightarrow> string" where
  "py_lower s = map py_lower_char s"

definition lstrip_by :: "(char \<Rightarrow> bool) \<Rightarrow> string \<Rightarrow> string" where
  "lstrip_by p s = dropWhile p s"

definition rstrip_by :: "(char \<Rightarrow> bool) \<Rightarrow> string \<Rightarrow> string" where
  "rstrip_by p s = rev (dropWhile p (rev s))"

definition strip_by :: "(char \<Rightarrow> bool) \<Rightarrow> string \<Rightarrow> string" where
  "strip_by p s = rstrip_by p (lstrip_by p s)"

definition py_strip :: "string \<Rightarrow> string" where
  "py_strip s = strip_by py_isspace s"

definition starts_with :: "string \<Rightarrow> string \<Rightarrow> bool" where
  "starts_with p s = (take (length p) s = p)"

fun contains_sub :: "string \<Rightarrow> string \<Rightarrow> bool" where
  "contains_sub p [] = (p = [])"
| "contains_sub p (c # s) = (starts_with p (c # s) \<or> contains_sub p s)"

fun py_join :: "string \<Rightarrow> string list \<Rightarrow> string" where
  "py_join sep [] = []"
| "py_join sep [w] = w"
| "py_join sep (w # ws) = w @ sep @ py_join sep ws"

lemma set_lstrip_by: "set (lstrip_by p s) \<subseteq> set s"
  unfolding lstrip_by_def by (rule set_dropWhileD [THEN subsetI])

lemma set_rstrip_by: "set (rstrip_by p s) \<subseteq> set s"
  unfolding rstrip_by_def using set_dropWhileD by fastforce

lemma set_strip_by: "set (strip_by p s) \<subseteq> set s"
  unfolding strip_by_def using set_lstrip_by set_rstrip_by by blast

lemma rstrip_by_last: "rstrip_by p s \<noteq> [] \<Longrightarrow> \<not> p (last (rstrip_by p s))"
  unfolding rstrip_by_def by (metis hd_dropWhile last_rev rev_is_Nil_conv)

lemma rstrip_by_id [simp]: "s = [] \<or> \<not> p (last s) \<Longrightarrow> rstrip_by p s = s"
  unfolding rstrip_by_def
  by (metis dropWhile_eq_self_iff hd_rev rev_is_Nil_conv rev_swap)

lemma lstrip_by_id [simp]: "s = [] \<or> \<not> p (hd s) \<Longrightarrow> lstrip_by p s = s"
  unfolding lstrip_by_def by (metis dropWhile_eq_self_iff)

lemma rstrip_by_prefix: "\<exists>t. s = rstrip_by p s @ t \<and> (\<forall>c \<in> set t. p c)"
proof -
  have "s = rev (dropWhile p (rev s)) @ rev (takeWhile p (rev s))"
    by (metis rev_append rev_rev_ident takeWhile_dropWhile_id)
  then show ?thesis unfolding rstrip_by_def
    by (metis set_rev set_takeWhileD)
qed

lemma rstrip_by_hd: "rstrip_by p s \<noteq> [] \<Longrightarrow> hd (rstrip_by p s) = hd s"
  by (metis hd_append2 rstrip_by_prefix)

lemma strip_by_hd: "strip_by p s \<noteq> [] \<Longrightarrow> \<not> p (hd (strip_by p s))"
proof -
  assume ne: "strip_by p s \<noteq> []"
  then have "hd (strip_by p s) = hd (lstrip_by p s)"
    unfolding strip_by_def by (rule rstrip_by_hd)
  moreover have "lstrip_by p s \<noteq> []"
    using ne unfolding strip_by_def rstrip_by_def by auto
  ultimately show ?thesis unfolding lstrip_by_def by (simp add: hd_dropWhile)
qed

lemma strip_by_last: "strip_by p s \<noteq> [] \<Longrightarrow> \<not> p (last (strip_by p s))"
  unfolding strip_by_def by (rule rstrip_by_last)

lemma strip_by_idem [simp]: "strip_by p (strip_by p s) = strip_by p s"
proof (cases "strip_by p s = []")
  case False
  have "lstrip_by p (strip_by p s) = strip_by p s"
    using strip_by_hd [OF False] by simp
  moreover have "rstrip_by p (strip_by p s) = strip_by p s"
    using strip_by_last [OF False] by simp
  ultimately show ?thesis by (simp add: strip_by_def)
qed (simp add: strip_by_def)

lemma strip_by_id: "(\<forall>c \<in> set s. \<not> p c) \<Longrightarrow> strip_by p s = s"
  by (cases "s = []") (simp_all add: strip_by_def)

lemma py_strip_idem [simp]: "py_strip (py_strip s) = py_strip s"
  by (simp add: py_strip_def)

lemma starts_with_append [simp]: "starts_with p (p @ s)"
  by (simp add: starts_with_def)

lemma starts_with_iff: "starts_with p s \<longleftrightarrow> (\<exists>t. s = p @ t)"
  unfolding starts_with_def by (metis append_eq_conv_conj append_take_drop_id)

lemma contains_sub_iff: "contains_sub p s \<longleftrightarrow> (\<exists>u v. s = u @ p @ v)"
proof (induction s)
  case Nil
  then show ?case by simp
next
  case (Cons c s)
  have "contains_sub p (c # s) \<longleftrightarrow> (\<exists>v. c # s = p @ v) \<or> (\<exists>u v. s = u @ p @ v)"
    using Cons.IH by (simp add: starts_with_iff)
  also have "\<dots> \<longleftrightarrow> (\<exists>u v. c # s = u @ p @ v)"
    by (metis append_Cons append_Nil list.inject neq_Nil_conv)
  finally show ?case .
qed

section \<open>Small helpers of the program\<close>

text \<open>\<open>agent_taskflow._helpers\<close>: the strip-and-check used by every record.\<close>

definition require_non_empty :: "string \<Rightarrow> string result" where
  "require_non_empty value =
     (let normalized = py_strip value in
      if normalized = [] then Inl ValueError else Inr normalized)"

fun dedupe_loop :: "string list \<Rightarrow> string list \<Rightarrow> string list \<Rightarrow> string list" where
  "dedupe_loop seen acc [] = acc"
| "dedupe_loop seen acc (v # vs) =
     (if v \<in> set seen then dedupe_loop seen acc vs
      else dedupe_loop (v # seen) (acc @ [v]) vs)"

definition dedupe_preserve_order :: "string list \<Rightarrow> string list" where
  "dedupe_preserve_order values = dedupe_loop [] [] values"

fun dedupe_non_empty_loop :: "string list \<Rightarrow> string list \<Rightarrow> string list \<Rightarrow> string list" where
  "dedupe_non_empty_loop seen acc [] = acc"
| "dedupe_non_empty_loop seen acc (v # vs) =
     (if v = [] \<or> v \<in> set seen then dedupe_non_empty_loop seen acc vs
      else dedupe_non_empty_loop (v # seen) (acc @ [v]) vs)"

definition dedupe_non_empty_preserve_order :: "string list \<Rightarrow> string list" where
  "dedupe_non_empty_preserve_order values = dedupe_non_empty_loop [] [] values"

lemma require_non_empty_Inr [result_simps]:
  "require_non_empty v = Inr s \<longleftrightarrow> s = py_strip v \<and> s \<noteq> []"
  by (cases "py_strip v = []") (auto simp: require_non_empty_def Let_def)

lemma require_non_empty_idem:
  "require_non_empty v = Inr s \<Longrightarrow> require_non_empty s = Inr s"
  by (auto simp: require_non_empty_Inr)

lemma dedupe_loop_invariant:
  "\<lbrakk>distinct acc; set acc = set seen\<rbrakk> \<Longrightarrow>
     distinct (dedupe_loop seen acc vs) \<and> set (dedupe_loop seen acc vs) = set acc \<union> set vs"
  by (induction seen acc vs rule: dedupe_loop.induct) auto

lemma dedupe_non_empty_loop_invariant:
  "\<lbrakk>distinct acc; set acc = set seen\<rbrakk> \<Longrightarrow>
     distinct (dedupe_non_empty_loop seen acc vs) \<and>
     set (dedupe_non_empty_loop seen acc vs) = set acc \<union> (set vs - {[]})"
  by (induction seen acc vs rule: dedupe_non_empty_loop.induct) auto

section \<open>JSON payloads\<close>

text \<open>
  A payload column holds the text \<open>json.dumps\<close> writes; it is represented by the value that
  \<open>json.loads\<close> and \<open>json_extract\<close> read back from it.
\<close>

datatype json =
    JNull
  | JBool bool
  | JInt int
  | JStr string
  | JList "json list"
  | JObj "(string \<times> json) list"

definition jopt :: "string option \<Rightarrow> json" where
  "jopt v = (case v of None \<Rightarrow> JNull | Some s \<Rightarrow> JStr s)"

text \<open>Assignment to a key of a dict: in place when present, appended otherwise.\<close>

fun dict_set :: "'k \<Rightarrow> 'v \<Rightarrow> ('k \<times> 'v) list \<Rightarrow> ('k \<times> 'v) list" where
  "dict_set k v [] = [(k, v)]"
| "dict_set k v ((k', v') # kvs) =
     (if k' = k then (k, v) # kvs else (k', v') # dict_set k v kvs)"

fun json_get :: "json \<Rightarrow> string \<Rightarrow> json option" where
  "json_get (JObj kvs) k = map_of kvs k"
| "json_get _ k = None"

fun json_truthy :: "json option \<Rightarrow> bool" where
  "json_truthy None = False"
| "json_truthy (Some JNull) = False"
| "json_truthy (Some (JBool b)) = b"
| "json_truthy (Some (JInt n)) = (n \<noteq> 0)"
| "json_truthy (Some (JStr s)) = (s \<noteq> [])"
| "json_truthy (Some (JList xs)) = (xs \<noteq> [])"
| "json_truthy (Some (JObj kvs)) = (kvs \<noteq> [])"

section \<open>Lists as tables\<close>

text \<open>
  A table is the list of its rows in row-id order. \<open>find\<close> is a lookup by key,
  \<open>map_where\<close> an \<open>UPDATE ... WHERE\<close>.
\<close>

definition map_where :: "('a \<Rightarrow> bool) \<Rightarrow> ('a \<Rightarrow> 'a) \<Rightarrow> 'a list \<Rightarrow> 'a list" where
  "map_where p f xs = map (\<lambda>x. if p x then f x else x) xs"

lemma length_map_where [simp]: "length (map_where p f xs) = length xs"
  by (simp add: map_where_def)

lemma map_where_Nil [simp]: "map_where p f [] = []"
  by (simp add: map_where_def)

lemma map_where_Cons [simp]:
  "map_where p f (x # xs) = (if p x then f x else x) # map_where p f xs"
  by (simp add: map_where_def)

lemma map_where_append [simp]: "map_where p f (xs @ ys) = map_where p f xs @ map_where p f ys"
  by (simp add: map_where_def)

lemma set_map_where: "set (map_where p f xs) = (\<lambda>x. if p x then f x else x) ` set xs"
  by (simp add: map_where_def)

lemma map_map_where:
  "(\<And>x. p x \<Longrightarrow> k (f x) = k x) \<Longrightarrow> map k (map_where p f xs) = map k xs"
  by (simp add: map_where_def)

lemma find_map_where_same:
  "(\<And>x. k (f x) = k x) \<Longrightarrow>
     find (\<lambda>x. k x = a) (map_where (\<lambda>x. k x = a) f xs)
     = map_option f (find (\<lambda>x. k x = a) xs)"
  by (induction xs) auto

lemma find_map_where_other:
  "(\<And>x. k (f x) = k x) \<Longrightarrow> a \<noteq> b \<Longrightarrow>
     find (\<lambda>x. k x = b) (map_where (\<lambda>x. k x = a) f xs) = find (\<lambda>x. k x = b) xs"
  by (induction xs) auto

lemma find_map_where_guarded:
  "\<lbrakk>\<And>x. k (f x) = k x; find (\<lambda>x. k x = a) xs = Some r; q r\<rbrakk> \<Longrightarrow>
     find (\<lambda>x. k x = a) (map_where (\<lambda>x. k x = a \<and> q x) f xs) = Some (f r)"
  by (induction xs) (auto split: if_splits)

lemma find_map_where_guarded_other:
  "\<lbrakk>\<And>x. k (f x) = k x; a \<noteq> b\<rbrakk> \<Longrightarrow>
     find (\<lambda>x. k x = b) (map_where (\<lambda>x. k x = a \<and> q x) f xs) = find (\<lambda>x. k x = b) xs"
  by (induction xs) auto

lemma find_Some_set: "find P xs = Some x \<Longrightarrow> x \<in> set xs \<and> P x"
  by (metis find_Some_iff nth_mem)

lemma find_None_iff_ball: "find P xs = None \<longleftrightarrow> (\<forall>x \<in> set xs. \<not> P x)"
  by (auto simp: find_None_iff)

lemma find_distinct_key:
  "\<lbrakk>distinct (map k xs); x \<in> set xs\<rbrakk> \<Longrightarrow> find (\<lambda>y. k y = k x) xs = Some x"
  by (induction xs) (auto simp: image_iff)

lemma distinct_key_eq:
  "\<lbrakk>distinct (map k xs); x \<in> set xs; y \<in> set xs; k x = k y\<rbrakk> \<Longrightarrow> x = y"
  by (metis find_distinct_key option.inject)

lemma set_map_filter: "set (List.map_filter f xs) = {y. \<exists>x \<in> set xs. f x = Some y}"
  by (induction xs) (auto simp: List.map_filter_simps split: option.splits)

lemma find_append: "find P (xs @ ys) = (case find P xs of None \<Rightarrow> find P ys | Some x \<Rightarrow> Some x)"
  by (induction xs) auto

text \<open>A finite graph whose edges all go forward in some list of the nodes has no cycle.\<close>

definition position :: "'a list \<Rightarrow> 'a \<Rightarrow> nat" where
  "position order x = length (takeWhile (\<lambda>y. y \<noteq> x) order)"

lemma acyclic_by_position:
  assumes "list_all (\<lambda>e. position order (fst e) < position order (snd e)) es"
  shows "acyclic (set es)"
proof -
  have "set es \<subseteq> measure (position order)"
    using assms by (auto simp: list_all_iff)
  then show ?thesis using wf_acyclic [OF wf_measure] acyclic_subset by blast
qed

section \<open>Sequences of operations\<close>

text \<open>
  A client's history: each operation either commits a new state or is refused and leaves the
  state as it was.
\<close>

fun run_ops :: "('o \<Rightarrow> 's \<Rightarrow> 's option) \<Rightarrow> 'o list \<Rightarrow> 's \<Rightarrow> 's" where
  "run_ops step [] s = s"
| "run_ops step (x # xs) s =
     run_ops step xs (case step x s of None \<Rightarrow> s | Some s' \<Rightarrow> s')"

lemma run_ops_invariant:
  assumes "\<And>x s s'. step x s = Some s' \<Longrightarrow> I s \<Longrightarrow> I s'" and "I s"
  shows "I (run_ops step xs s)"
  using assms(2)
proof (induction xs arbitrary: s)
  case (Cons x xs)
  then show ?case using assms(1) by (cases "step x s") auto
qed simp

lemma run_ops_append: "run_ops step (xs @ ys) s = run_ops step ys (run_ops step xs s)"
  by (induction xs arbitrary: s) simp_all

definition committed :: "('s \<times> 'r) result \<Rightarrow> 's option" where
  "committed r = (case r of Inl _ \<Rightarrow> None | Inr (s, _) \<Rightarrow> Some s)"

lemma committed_Some: "committed r = Some s \<longleftrightarrow> (\<exists>x. r = Inr (s, x))"
  by (auto simp: committed_def split: sum.splits)

end
