(* ===== verification/Status_Vocab.thy ===== *)
theory Status_Vocab
  imports Prelude
begin

text \<open>
  The status vocabularies of \<open>models.py\<close>, \<open>ticket_models.py\<close>,
  \<open>attempt_models.py\<close> and \<open>status_vocab.py\<close>, the Ticket terminal statuses of
  \<open>ticket_lifecycle.py\<close> and the failure classes of \<open>attempt_failure_class.py\<close>.
  A status is the string the database stores; a Python \<open>dict\<close> literal is an association
  list in source order, read with \<open>map_of\<close>.

  Results: the display vocabulary round-trips through its persisted spelling, every stored
  status has a display name, collapsing aliases is idempotent, and the stored statuses are
  partitioned by their display name; a Ticket failure stops for a decision exactly when a
  validator was red.
\<close>

section \<open>Persisted vocabularies (models.py, attempt\_models.py)\<close>

definition TASK_STATUSES :: "string list" where
  "TASK_STATUSES =
     [''unknown'', ''created'', ''queued'', ''preparing'', ''implementing'', ''validating'',
      ''waiting_approval'', ''waiting_for_review'', ''blocked'', ''accepted'', ''rejected'',
      ''cleaned'', ''completed'', ''canceled'', ''archived'', ''paused'', ''needs_decision'',
      ''ready_for_integration'', ''integrating'', ''failed'',
      ''backlog'', ''todo'', ''in_progress'', ''review'', ''done'']"

definition TASK_EVENT_TYPES :: "string list" where
  "TASK_EVENT_TYPES =
     [''auto_retry'', ''auto_retry_exhausted'', ''created'', ''mirrored'', ''status_changed'',
      ''artifact_recorded'', ''github_issue_ingested'', ''task_execution_package_created'',
      ''pr_handoff_created'', ''pr_handoff_package_created'', ''draft_pr_created'',
      ''branch_pushed'', ''branch_push_completed'', ''local_cleanup_completed'',
      ''remote_branch_cleanup_completed'', ''task_closeout_completed'',
      ''task_evidence_archived'', ''scheduler_proposal_created'',
      ''scheduler_confirmation_created'', ''scheduler_confirmation_verifier_report_created'',
      ''scheduler_confirmation_consumed'', ''scheduler_confirmation_verifier_report_consumed'',
      ''intake_runner_handoff_created'', ''intake_runner_handoff_consumed'',
      ''runtime_preflight_finished'', ''runtime_execution_started'',
      ''runtime_execution_finished'', ''worktree_recorded'', ''cleanup_recorded'',
      ''integration_queued'', ''integration_producer_superseded'', ''integration_started'',
      ''integration_completed'', ''integration_blocked'', ''integration_crash_reconciled'',
      ''reintegration_required'', ''pr_state_polled'', ''pr_poll_failed'',
      ''pr_poll_escalated'', ''pr_poll_recovered'', ''pr_review_changes_requested'',
      ''pr_closed_unmerged'', ''merge_detected'', ''merge_verified'',
      ''integration_cleanup_completed'', ''note'', ''owner_feedback'', ''pr_feedback_attempt'',
      ''rework_created'', ''reworked_from'']"

definition TASK_WORKTREE_STATUSES :: "string list" where
  "TASK_WORKTREE_STATUSES = [''active'', ''cleaned'', ''missing'', ''unknown'']"

definition ATTEMPT_STATUSES :: "string list" where
  "ATTEMPT_STATUSES =
     [''created'', ''preparing'', ''implementing'', ''validating'', ''waiting_approval'',
      ''validation_failed'', ''execution_timeout'', ''execution_aborted'', ''blocked'',
      ''completed'', ''failed'', ''canceled'']"

text \<open>Every validator strips its argument and then checks membership.\<close>

definition validate_in :: "string list \<Rightarrow> string \<Rightarrow> string result" where
  "validate_in allowed value =
     rbind (require_non_empty value) (\<lambda>normalized.
       if normalized \<in> set allowed then Inr normalized else Inl ValueError)"

definition validate_task_status :: "string \<Rightarrow> string result" where
  "validate_task_status status = validate_in TASK_STATUSES status"

definition validate_task_event_type :: "string \<Rightarrow> string result" where
  "validate_task_event_type event_type = validate_in TASK_EVENT_TYPES event_type"

definition validate_task_worktree_status :: "string \<Rightarrow> string result" where
  "validate_task_worktree_status status = validate_in TASK_WORKTREE_STATUSES status"

definition validate_attempt_status :: "string \<Rightarrow> string result" where
  "validate_attempt_status status = validate_in ATTEMPT_STATUSES status"

section \<open>The Ticket vocabulary (ticket\_models.py)\<close>

definition TICKET_STATUS_SEQUENCE :: "string list" where
  "TICKET_STATUS_SEQUENCE =
     [''queued'', ''ready'', ''blocked'', ''paused'', ''preparing'', ''running'', ''validating'',
      ''ready_for_integration'', ''integrating'', ''needs_review'', ''needs_decision'',
      ''completed'', ''failed'', ''cancelled'']"

definition TICKET_PRIORITY_SEQUENCE :: "string list" where
  "TICKET_PRIORITY_SEQUENCE = [''critical'', ''high'', ''normal'', ''low'']"

definition AI_TITLE_STATUSES :: "string list" where
  "AI_TITLE_STATUSES = [''generated'', ''fallback'', ''not_attempted'']"

definition METADATA_SOURCES :: "string list" where
  "METADATA_SOURCES = [''ai'', ''fallback'']"

definition validate_ticket_status :: "string \<Rightarrow> string result" where
  "validate_ticket_status status = validate_in TICKET_STATUS_SEQUENCE status"

definition validate_ticket_priority :: "string \<Rightarrow> string result" where
  "validate_ticket_priority priority =
     rbind (require_non_empty priority) (\<lambda>stripped.
       let normalized = py_lower stripped in
       if normalized \<in> set TICKET_PRIORITY_SEQUENCE then Inr normalized else Inl ValueError)"

definition validate_ai_title_status :: "string \<Rightarrow> string result" where
  "validate_ai_title_status status = validate_in AI_TITLE_STATUSES status"

definition validate_metadata_source :: "string \<Rightarrow> string result" where
  "validate_metadata_source source = validate_in METADATA_SOURCES source"

definition initial_ticket_status :: "string option \<Rightarrow> string" where
  "initial_ticket_status blocked_by =
     (case blocked_by of
        None \<Rightarrow> ''ready''
      | Some b \<Rightarrow> if py_strip b \<noteq> [] then ''blocked'' else ''ready'')"

section \<open>The bridge between the vocabularies (status\_vocab.py)\<close>

definition DISPLAY_STATUS_SEQUENCE :: "string list" where
  "DISPLAY_STATUS_SEQUENCE = TICKET_STATUS_SEQUENCE"

definition DISPLAY_TO_PERSISTED :: "(string \<times> string) list" where
  "DISPLAY_TO_PERSISTED =
     [(''queued'', ''queued''), (''ready'', ''created''), (''blocked'', ''blocked''),
      (''paused'', ''paused''), (''preparing'', ''preparing''), (''running'', ''implementing''),
      (''validating'', ''validating''), (''ready_for_integration'', ''ready_for_integration''),
      (''integrating'', ''integrating''), (''needs_review'', ''waiting_for_review''),
      (''needs_decision'', ''needs_decision''), (''completed'', ''cleaned''),
      (''failed'', ''failed''), (''cancelled'', ''canceled'')]"

definition PERSISTED_TO_DISPLAY :: "(string \<times> string) list" where
  "PERSISTED_TO_DISPLAY =
     [(''queued'', ''queued''), (''created'', ''ready''), (''blocked'', ''blocked''),
      (''paused'', ''paused''), (''preparing'', ''preparing''), (''implementing'', ''running''),
      (''validating'', ''validating''), (''ready_for_integration'', ''ready_for_integration''),
      (''integrating'', ''integrating''), (''waiting_for_review'', ''needs_review''),
      (''needs_decision'', ''needs_decision''), (''cleaned'', ''completed''),
      (''failed'', ''failed''), (''canceled'', ''cancelled''),
      (''unknown'', ''needs_decision''), (''waiting_approval'', ''needs_review''),
      (''accepted'', ''needs_review''), (''rejected'', ''needs_decision''),
      (''completed'', ''completed''), (''archived'', ''cancelled''),
      (''backlog'', ''queued''), (''todo'', ''ready''), (''in_progress'', ''running''),
      (''review'', ''needs_review''), (''done'', ''completed'')]"

definition CANONICAL_PERSISTED_STATUSES :: "string list" where
  "CANONICAL_PERSISTED_STATUSES = map snd DISPLAY_TO_PERSISTED"

definition PERSISTED_ALIASES :: "(string \<times> string) list" where
  "PERSISTED_ALIASES =
     [(persisted, the (map_of DISPLAY_TO_PERSISTED display)).
        (persisted, display) \<leftarrow> PERSISTED_TO_DISPLAY,
        persisted \<notin> set CANONICAL_PERSISTED_STATUSES]"

definition to_persisted_status :: "string \<Rightarrow> string result" where
  "to_persisted_status display_status =
     rbind (require_non_empty display_status) (\<lambda>normalized.
       case map_of DISPLAY_TO_PERSISTED normalized of
         None \<Rightarrow> Inl StatusVocabularyError
       | Some persisted \<Rightarrow> Inr persisted)"

definition to_display_status :: "string \<Rightarrow> string result" where
  "to_display_status persisted_status =
     rbind (require_non_empty persisted_status) (\<lambda>normalized.
       case map_of PERSISTED_TO_DISPLAY normalized of
         None \<Rightarrow> Inl StatusVocabularyError
       | Some display \<Rightarrow> Inr display)"

definition canonical_persisted_status :: "string \<Rightarrow> string result" where
  "canonical_persisted_status persisted_status =
     rbind (to_display_status persisted_status) to_persisted_status"

definition persisted_statuses_for_display :: "string \<Rightarrow> string list result" where
  "persisted_statuses_for_display display_status =
     rbind (to_persisted_status display_status) (\<lambda>persisted.
     rbind (to_display_status persisted) (\<lambda>display.
       Inr [p. (p, mapped) \<leftarrow> PERSISTED_TO_DISPLAY, mapped = display]))"

definition is_alias_status :: "string \<Rightarrow> bool" where
  "is_alias_status persisted_status \<longleftrightarrow> persisted_status \<in> fst ` set PERSISTED_ALIASES"

definition unmapped_persisted_statuses :: "string list" where
  "unmapped_persisted_statuses =
     filter (\<lambda>s. s \<notin> fst ` set PERSISTED_TO_DISPLAY) TASK_STATUSES"

section \<open>Ticket terminal statuses (ticket\_lifecycle.py)\<close>

definition FAILURE_KINDS :: "string list" where
  "FAILURE_KINDS =
     [''governance_refusal'', ''worktree_preparation'', ''executor'', ''validator_red'',
      ''validator_error'', ''lease_expired'']"

definition TICKET_STOPPED_STATUSES :: "string list" where
  "TICKET_STOPPED_STATUSES = [''failed'', ''needs_decision'']"

definition ticket_success_status :: "bool \<Rightarrow> string" where
  "ticket_success_status ticket =
     (if ticket then ''ready_for_integration'' else ''waiting_approval'')"

definition ticket_failure_status :: "string \<Rightarrow> string result" where
  "ticket_failure_status kind =
     (if kind \<notin> set FAILURE_KINDS then Inl ValueError
      else if kind = ''validator_red'' then Inr ''needs_decision''
      else Inr ''failed'')"

section \<open>Failure classes of an Attempt (attempt\_failure\_class.py)\<close>

definition FAILURE_CLASS_BY_KIND :: "(string \<times> string) list" where
  "FAILURE_CLASS_BY_KIND =
     [(''executor'', ''execution_failure''), (''validator_red'', ''validation_failure''),
      (''validator_error'', ''tool_error'')]"

definition FAILURE_TASK_STATUSES :: "string list" where
  "FAILURE_TASK_STATUSES = [''blocked'', ''failed'', ''needs_decision'']"

definition failure_class_for_kind :: "string option \<Rightarrow> string" where
  "failure_class_for_kind kind =
     (case map_of FAILURE_CLASS_BY_KIND (case kind of None \<Rightarrow> [] | Some k \<Rightarrow> k) of
        None \<Rightarrow> ''unknown''
      | Some cls \<Rightarrow> cls)"

definition failure_class_metadata :: "string \<Rightarrow> string option \<Rightarrow> (string \<times> json) list" where
  "failure_class_metadata task_status kind =
     (if task_status \<notin> set FAILURE_TASK_STATUSES then []
      else let failure_class = failure_class_for_kind kind in
        [(''failure_class'', JStr failure_class), (''failure_kind'', jopt kind)] @
        (if failure_class = ''unknown''
         then [(''failure_class_reason'',
                JStr (if kind = None then ''failure_kind_not_supplied''
                      else ''failure_kind_unmapped''))]
         else []))"

section \<open>Lemmas\<close>

named_theorems vocab_defs \<open>the vocabulary tables\<close>

lemmas [vocab_defs] =
  TASK_STATUSES_def TICKET_STATUS_SEQUENCE_def DISPLAY_STATUS_SEQUENCE_def
  DISPLAY_TO_PERSISTED_def PERSISTED_TO_DISPLAY_def CANONICAL_PERSISTED_STATUSES_def
  FAILURE_KINDS_def TICKET_STOPPED_STATUSES_def FAILURE_CLASS_BY_KIND_def
  FAILURE_TASK_STATUSES_def TICKET_PRIORITY_SEQUENCE_def ATTEMPT_STATUSES_def

text \<open>A code point that survives \<open>strip\<close> wherever it stands: ASCII letters and underscore.\<close>

definition plain :: "string \<Rightarrow> bool" where
  "plain s \<longleftrightarrow> s \<noteq> [] \<and> \<not> py_isspace (hd s) \<and> \<not> py_isspace (last s)"

lemma plain_strip: "plain s \<Longrightarrow> py_strip s = s"
  by (simp add: plain_def py_strip_def strip_by_def)

lemma plain_require [simp]: "plain s \<Longrightarrow> require_non_empty s = Inr s"
  by (simp add: require_non_empty_def plain_strip) (simp add: plain_def)

lemma plain_task_statuses: "list_all plain TASK_STATUSES"
  by (simp add: plain_def TASK_STATUSES_def py_isspace_def)

lemma plain_display_statuses: "list_all plain DISPLAY_STATUS_SEQUENCE"
  by (simp add: plain_def vocab_defs py_isspace_def)

lemma display_table_ok:
  "list_all (\<lambda>(d, p). d \<in> set DISPLAY_STATUS_SEQUENCE \<and> p \<in> set TASK_STATUSES \<and>
     map_of PERSISTED_TO_DISPLAY p = Some d) DISPLAY_TO_PERSISTED"
  by code_simp

lemma persisted_table_ok:
  "list_all (\<lambda>(p, d). p \<in> set TASK_STATUSES \<and> d \<in> set DISPLAY_STATUS_SEQUENCE \<and>
     map_of DISPLAY_TO_PERSISTED d \<noteq> None) PERSISTED_TO_DISPLAY"
  by code_simp

lemma plain_in_tables:
  "s \<in> set TASK_STATUSES \<Longrightarrow> plain s" "s \<in> set DISPLAY_STATUS_SEQUENCE \<Longrightarrow> plain s"
  using plain_task_statuses plain_display_statuses by (simp_all add: list_all_iff)

lemma distinct_persisted_keys: "distinct (map fst PERSISTED_TO_DISPLAY)"
  by code_simp

lemma persisted_keys: "set (map fst PERSISTED_TO_DISPLAY) = set TASK_STATUSES"
  by code_simp

lemma to_persisted_Inr:
  "to_persisted_status d = Inr p \<longleftrightarrow> map_of DISPLAY_TO_PERSISTED (py_strip d) = Some p"
proof -
  have "map_of DISPLAY_TO_PERSISTED [] = None" by (simp add: DISPLAY_TO_PERSISTED_def)
  then show ?thesis
    by (auto simp: to_persisted_status_def require_non_empty_def Let_def split: option.splits)
qed

lemma to_display_Inr:
  "to_display_status p = Inr d \<longleftrightarrow> map_of PERSISTED_TO_DISPLAY (py_strip p) = Some d"
proof -
  have "map_of PERSISTED_TO_DISPLAY [] = None" by (simp add: PERSISTED_TO_DISPLAY_def)
  then show ?thesis
    by (auto simp: to_display_status_def require_non_empty_def Let_def split: option.splits)
qed

lemma display_entry:
  assumes "map_of DISPLAY_TO_PERSISTED d = Some p"
  shows "py_strip d = d" "py_strip p = p" "p \<in> set TASK_STATUSES"
    "map_of PERSISTED_TO_DISPLAY p = Some d"
  using map_of_SomeD [OF assms] display_table_ok by (auto simp: list_all_iff plain_strip plain_in_tables)

lemma persisted_entry:
  assumes "map_of PERSISTED_TO_DISPLAY p = Some d"
  shows "py_strip d = d" "py_strip p = p" "p \<in> set TASK_STATUSES"
    "\<exists>q. map_of DISPLAY_TO_PERSISTED d = Some q"
  using map_of_SomeD [OF assms] persisted_table_ok by (auto simp: list_all_iff plain_strip plain_in_tables)

section \<open>Properties\<close>

text \<open>
  Every display name round-trips: when \<open>to_persisted_status\<close> accepts a (possibly padded)
  display name, its result is a stored status of \<open>TASK_STATUSES\<close>, and \<open>to_display_status\<close>
  takes it back to exactly that name.
\<close>

lemma display_status_round_trip:
  assumes "to_persisted_status d = Inr p"
  shows "p \<in> set TASK_STATUSES \<and> to_display_status p = Inr (py_strip d)"
  using display_entry [OF assms [unfolded to_persisted_Inr]] by (simp add: to_display_Inr)

text \<open>
  Collapsing an alias onto its canonical spelling never changes the display name and is
  idempotent, for every stored status: each status of \<open>TASK_STATUSES\<close> has a canonical
  sibling, so the bridge is total.
\<close>

lemma canonical_status_total_idempotent:
  assumes "s \<in> set TASK_STATUSES"
  shows "\<exists>c. canonical_persisted_status s = Inr c \<and> canonical_persisted_status c = Inr c \<and>
             to_display_status c = to_display_status s"
proof -
  obtain d where d: "map_of PERSISTED_TO_DISPLAY s = Some d"
    using assms persisted_keys by (metis map_of_eq_None_iff not_None_eq set_map)
  note s = persisted_entry [OF d]
  obtain c where c: "map_of DISPLAY_TO_PERSISTED d = Some c" using s(4) by blast
  note dc = display_entry [OF c]
  have "to_display_status s = Inr d" using d s by (simp add: to_display_Inr)
  moreover have "to_display_status c = Inr d" using dc by (simp add: to_display_Inr)
  moreover have "to_persisted_status d = Inr c" using c s by (simp add: to_persisted_Inr)
  ultimately show ?thesis by (simp add: canonical_persisted_status_def)
qed

text \<open>
  Filtering stored rows by a display name is exact: the spellings
  \<open>persisted_statuses_for_display\<close> returns are all the stored statuses that display as
  that name, and no others.
\<close>

lemma persisted_statuses_for_display_exact:
  assumes "persisted_statuses_for_display d = Inr ps"
  shows "set ps = {p \<in> set TASK_STATUSES. to_display_status p = Inr (py_strip d)}"
proof -
  obtain q e where q: "to_persisted_status d = Inr q" and e: "to_display_status q = Inr e"
    and ps: "ps = [p. (p, mapped) \<leftarrow> PERSISTED_TO_DISPLAY, mapped = e]"
    using assms by (auto simp: persisted_statuses_for_display_def rbind_Inr_iff)
  note dq = display_entry [OF q [unfolded to_persisted_Inr]]
  have e_eq: "e = py_strip d" using e dq by (simp add: to_display_Inr)
  have "p \<in> set ps \<longleftrightarrow> map_of PERSISTED_TO_DISPLAY p = Some e" for p
    using distinct_persisted_keys by (auto simp: ps map_of_eq_Some_iff)
  moreover have "map_of PERSISTED_TO_DISPLAY p = Some e \<longleftrightarrow>
      p \<in> set TASK_STATUSES \<and> to_display_status p = Inr e" for p
    using persisted_entry(2,3) [of p] plain_task_statuses
    by (auto simp: to_display_Inr plain_strip plain_in_tables)
  ultimately show ?thesis using e_eq by blast
qed

text \<open>
  The failure remap of a Ticket: a known failure kind ends in one of the two stopped
  statuses, and it stops for a decision exactly when a validator was red; the failure class
  recorded beside it is a validation failure in exactly that case, and the recorded metadata
  always carries a class.
\<close>

lemma ticket_failure_remap:
  assumes "kind \<in> set FAILURE_KINDS"
  shows "\<exists>st. ticket_failure_status kind = Inr st \<and> st \<in> set TICKET_STOPPED_STATUSES \<and>
     (st = ''needs_decision'' \<longleftrightarrow> failure_class_for_kind (Some kind) = ''validation_failure'') \<and>
     map_of (failure_class_metadata st (Some kind)) ''failure_class''
       = Some (JStr (failure_class_for_kind (Some kind)))"
  using assms
  by (auto simp: vocab_defs ticket_failure_status_def failure_class_for_kind_def
      failure_class_metadata_def Let_def)

end
