(* ===== verification/Ticket_Metadata.thy ===== *)
theory Ticket_Metadata
  imports Status_Vocab
begin

text \<open>
  Deterministic Ticket metadata: task keys (\<open>tasks.py\<close>), the path helpers
  (\<open>worktree.py\<close>, \<open>artifacts.py\<close>) and the derivations of \<open>ticket_metadata.py\<close>.

  A \<open>pathlib\<close> path is its root and its list of parts; parsing drops empty and
  \<open>.\<close> parts, as \<open>PurePosixPath\<close> does. Home directories come from the environment and
  are a parameter (\<open>home\<close>, from a user name, empty for the current user).

  Results: task keys print and parse back to the same counter value, slugs are always
  ref-safe, derived branch names are ref-safe, and two different task keys of the global
  counter can never be given the same branch.
\<close>

section \<open>Task keys (tasks.py)\<close>

definition ascii_alnum :: "char \<Rightarrow> bool" where
  "ascii_alnum c = (let n = (of_char c :: nat) in
     48 \<le> n \<and> n \<le> 57 \<or> 65 \<le> n \<and> n \<le> 90 \<or> 97 \<le> n \<and> n \<le> 122)"

definition task_key_char :: "char \<Rightarrow> bool" where
  "task_key_char c \<longleftrightarrow> ascii_alnum c \<or> c \<in> {CHR ''.'', CHR ''_'', CHR ''-''}"

definition normalize_task_key :: "string \<Rightarrow> string result" where
  "normalize_task_key task_key =
     (let key = py_strip task_key in
      if key = [] then Inl ValueError
      else if \<not> list_all task_key_char key then Inl ValueError
      else Inr key)"

section \<open>Paths (worktree.py, artifacts.py)\<close>

datatype path = Path (path_root: string) (path_parts: "string list")

fun split_on :: "char \<Rightarrow> string \<Rightarrow> string list" where
  "split_on sep [] = [[]]"
| "split_on sep (c # s) =
     (if c = sep then [] # split_on sep s
      else case split_on sep s of
             [] \<Rightarrow> [[c]]
           | w # ws \<Rightarrow> (c # w) # ws)"

definition parse_path :: "string \<Rightarrow> path" where
  "parse_path s =
     Path (if starts_with ''//'' s \<and> \<not> starts_with ''///'' s then ''//''
           else if starts_with ''/'' s then ''/'' else [])
          (filter (\<lambda>p. p \<noteq> [] \<and> p \<noteq> ''.'') (split_on (CHR ''/'') s))"

definition path_str :: "path \<Rightarrow> string" where
  "path_str p =
     (if path_root p = [] \<and> path_parts p = [] then ''.''
      else path_root p @ py_join ''/'' (path_parts p))"

definition is_absolute :: "path \<Rightarrow> bool" where
  "is_absolute p \<longleftrightarrow> path_root p \<noteq> []"

definition path_join :: "path \<Rightarrow> path \<Rightarrow> path" where
  "path_join p q = (if is_absolute q then q else Path (path_root p) (path_parts p @ path_parts q))"

definition expanduser :: "(string \<Rightarrow> string option) \<Rightarrow> path \<Rightarrow> path result" where
  "expanduser home p =
     (case path_parts p of
        [] \<Rightarrow> Inr p
      | w # rest \<Rightarrow>
          (if path_root p \<noteq> [] \<or> \<not> starts_with ''~'' w then Inr p
           else case home (tl w) of
                  None \<Rightarrow> Inl HomeUnknown
                | Some h \<Rightarrow> Inr (path_join (parse_path h) (Path [] rest))))"

definition ensure_absolute_path :: "(string \<Rightarrow> string option) \<Rightarrow> string \<Rightarrow> path result" where
  "ensure_absolute_path home p =
     rbind (expanduser home (parse_path p)) (\<lambda>resolved.
       if is_absolute resolved then Inr resolved else Inl ValueError)"

definition require_absolute_path :: "(string \<Rightarrow> string option) \<Rightarrow> string \<Rightarrow> path result" where
  "require_absolute_path home p = ensure_absolute_path home p"

definition worktree_path_for :: "(string \<Rightarrow> string option) \<Rightarrow> string \<Rightarrow> string \<Rightarrow> path result" where
  "worktree_path_for home repo_path task_key =
     rbind (ensure_absolute_path home repo_path) (\<lambda>repo.
     rbind (normalize_task_key task_key) (\<lambda>key.
       Inr (path_join (path_join repo (parse_path ''.worktrees'')) (parse_path key))))"

definition worktree_path_from_base ::
  "(string \<Rightarrow> string option) \<Rightarrow> string \<Rightarrow> string \<Rightarrow> path result" where
  "worktree_path_from_base home worktrees_dir task_key =
     rbind (ensure_absolute_path home worktrees_dir) (\<lambda>base.
     rbind (normalize_task_key task_key) (\<lambda>key.
       Inr (path_join base (parse_path key))))"

definition artifact_dir_for :: "(string \<Rightarrow> string option) \<Rightarrow> string \<Rightarrow> string \<Rightarrow> path result" where
  "artifact_dir_for home task_key artifacts_root =
     rbind (ensure_absolute_path home artifacts_root) (\<lambda>root.
     rbind (normalize_task_key task_key) (\<lambda>key.
       Inr (path_join root (parse_path key))))"

section \<open>Text normalisation (ticket\_metadata.py)\<close>

fun py_split_loop :: "string \<Rightarrow> string \<Rightarrow> string list" where
  "py_split_loop word [] = (if word = [] then [] else [word])"
| "py_split_loop word (c # s) =
     (if py_isspace c
      then (if word = [] then py_split_loop [] s else word # py_split_loop [] s)
      else py_split_loop (word @ [c]) s)"

definition py_split :: "string \<Rightarrow> string list" where
  "py_split s = py_split_loop [] s"

definition normalize_prompt :: "string \<Rightarrow> string" where
  "normalize_prompt prompt =
     (let displayable = filter (\<lambda>c. py_isspace c \<or> py_isprintable c) prompt in
      py_join '' '' (py_split displayable))"

text \<open>\<open>re.sub("[^a-z0-9]+", "-", s)\<close>: every maximal run of other characters becomes one hyphen.\<close>

definition slug_char :: "char \<Rightarrow> bool" where
  "slug_char c = (let n = (of_char c :: nat) in 48 \<le> n \<and> n \<le> 57 \<or> 97 \<le> n \<and> n \<le> 122)"

fun hyphenate :: "bool \<Rightarrow> string \<Rightarrow> string" where
  "hyphenate in_run [] = []"
| "hyphenate in_run (c # s) =
     (if slug_char c then c # hyphenate False s
      else if in_run then hyphenate True s
      else CHR ''-'' # hyphenate True s)"

definition is_hyphen :: "char \<Rightarrow> bool" where
  "is_hyphen c \<longleftrightarrow> c = CHR ''-''"

definition BRANCH_SLUG_MAX_CHARS :: nat where
  "BRANCH_SLUG_MAX_CHARS = 40"

definition slugify_branch_component :: "string \<Rightarrow> string" where
  "slugify_branch_component value =
     (let lowered = py_lower (normalize_prompt value);
          slug = strip_by is_hyphen (hyphenate False lowered);
          slug = strip_by is_hyphen (take BRANCH_SLUG_MAX_CHARS slug)
      in if slug = [] then ''ticket'' else slug)"

section \<open>The global task-key counter (ticket\_metadata.py)\<close>

definition digit_char :: "nat \<Rightarrow> char" where
  "digit_char d = char_of (48 + d)"

definition digit_val :: "char \<Rightarrow> nat" where
  "digit_val c = of_char c - 48"

fun decimal :: "nat \<Rightarrow> string" where
  "decimal n = (if n < 10 then [digit_char n] else decimal (n div 10) @ [digit_char (n mod 10)])"

declare decimal.simps [simp del]

definition decimal_value :: "string \<Rightarrow> nat" where
  "decimal_value s = foldl (\<lambda>acc c. 10 * acc + digit_val c) 0 s"

definition TASK_KEY_SEQUENCE_PAD :: nat where
  "TASK_KEY_SEQUENCE_PAD = 4"

definition zero_padded :: "nat \<Rightarrow> string" where
  "zero_padded n =
     replicate (TASK_KEY_SEQUENCE_PAD - length (decimal n)) (CHR ''0'') @ decimal n"

definition format_task_key :: "int \<Rightarrow> string result" where
  "format_task_key sequence =
     (if sequence < 1 then Inl ValueError
      else normalize_task_key (''AT-'' @ zero_padded (nat sequence)))"

definition parse_task_key_sequence :: "string \<Rightarrow> int option" where
  "parse_task_key_sequence task_key =
     (let s = py_strip task_key; digits = drop 3 s in
      if starts_with ''AT-'' s \<and> digits \<noteq> [] \<and> list_all py_isdigit digits
      then Some (int (decimal_value digits)) else None)"

section \<open>Derived names (ticket\_metadata.py)\<close>

definition branch_char :: "char \<Rightarrow> bool" where
  "branch_char c \<longleftrightarrow> ascii_alnum c \<or> c \<in> {CHR ''.'', CHR ''_'', CHR ''/'', CHR ''-''}"

definition safe_branch_full :: "string \<Rightarrow> bool" where
  "safe_branch_full b \<longleftrightarrow> b \<noteq> [] \<and> ascii_alnum (hd b) \<and> list_all branch_char (tl b)"

text \<open>\<open>re.match\<close> with \<open>$\<close> also accepts one trailing newline.\<close>

definition safe_branch_name :: "string \<Rightarrow> bool" where
  "safe_branch_name b \<longleftrightarrow>
     safe_branch_full b \<or> (b \<noteq> [] \<and> last b = CHR 0x0A \<and> safe_branch_full (butlast b))"

definition derive_branch_name :: "string \<Rightarrow> string \<Rightarrow> string \<Rightarrow> string result" where
  "derive_branch_name branch_prefix task_key slug =
     rbind (normalize_task_key task_key) (\<lambda>normalized_id.
       let normalized_slug = slugify_branch_component slug;
           branch = py_strip branch_prefix @ normalized_id @ ''-'' @ normalized_slug
       in if \<not> safe_branch_name branch \<or> contains_sub ''..'' branch \<or> contains_sub ''//'' branch
          then Inl ValueError else Inr branch)"

record ticket_repository =
  repository :: string
  tr_repo_path :: string
  worktrees_dir :: string
  artifacts_root :: string
  tr_base_branch :: string
  branch_prefix :: string
  tr_github_repo :: "string option"

record ticket_derived_metadata =
  tdm_task_key :: string
  tdm_branch :: string
  tdm_worktree_path :: path
  tdm_artifact_dir :: path
  tdm_base_branch :: string
  tdm_repo_path :: string
  tdm_github_repo :: "string option"

definition derive_ticket_metadata ::
  "(string \<Rightarrow> string option) \<Rightarrow> ticket_repository \<Rightarrow> string \<Rightarrow> string
     \<Rightarrow> ticket_derived_metadata result" where
  "derive_ticket_metadata home repo task_key branch_slug =
     rbind (normalize_task_key task_key) (\<lambda>normalized_id.
     rbind (derive_branch_name (branch_prefix repo) normalized_id branch_slug) (\<lambda>branch.
     rbind (worktree_path_from_base home (worktrees_dir repo) normalized_id) (\<lambda>worktree.
     rbind (artifact_dir_for home normalized_id (artifacts_root repo)) (\<lambda>artifacts.
       Inr \<lparr>tdm_task_key = normalized_id, tdm_branch = branch, tdm_worktree_path = worktree,
            tdm_artifact_dir = artifacts, tdm_base_branch = tr_base_branch repo,
            tdm_repo_path = tr_repo_path repo, tdm_github_repo = tr_github_repo repo\<rparr>))))"

section \<open>Lemmas on task keys\<close>

named_theorems char_class_defs \<open>the character classes of the regular expressions\<close>

lemmas [char_class_defs] =
  ascii_alnum_def task_key_char_def slug_char_def branch_char_def py_isdigit_def py_isspace_def
  is_hyphen_def Let_def

lemma digit_char_code: "d < 10 \<Longrightarrow> of_char (digit_char d) = 48 + d"
  by (simp add: digit_char_def of_char_of take_bit_nat_eq_self)

lemma digit_val_char [simp]: "d < 10 \<Longrightarrow> digit_val (digit_char d) = d"
  by (simp add: digit_val_def digit_char_code)

lemma digit_char_isdigit [simp]: "d < 10 \<Longrightarrow> py_isdigit (digit_char d)"
  by (simp add: py_isdigit_def digit_char_code)

lemma decimal_nonempty [simp]: "decimal n \<noteq> []"
  by (subst decimal.simps) simp

lemma decimal_digits: "list_all py_isdigit (decimal n)"
proof (induction n rule: decimal.induct)
  case (1 n)
  then show ?case by (subst decimal.simps) simp
qed

lemma decimal_value_snoc [simp]: "decimal_value (s @ [c]) = 10 * decimal_value s + digit_val c"
  by (simp add: decimal_value_def)

lemma decimal_value_decimal [simp]: "decimal_value (decimal n) = n"
proof (induction n rule: decimal.induct)
  case (1 n)
  then show ?case
    by (subst decimal.simps) (auto simp: decimal_value_def)
qed

lemma decimal_value_zeros: "decimal_value (replicate k (CHR ''0'') @ s) = decimal_value s"
  by (induction k) (simp_all add: decimal_value_def digit_val_def)

lemma zero_padded_digits: "list_all py_isdigit (zero_padded n)"
  by (simp add: zero_padded_def decimal_digits) (simp add: list_all_iff py_isdigit_def)

lemma zero_padded_value [simp]: "decimal_value (zero_padded n) = n"
  by (simp add: zero_padded_def decimal_value_zeros)

lemma zero_padded_nonempty [simp]: "zero_padded n \<noteq> []"
  by (simp add: zero_padded_def)

lemma digit_not_space: "py_isdigit c \<Longrightarrow> \<not> py_isspace c"
  by (auto simp: char_class_defs)

lemma digit_key_char: "py_isdigit c \<Longrightarrow> task_key_char c"
  by (simp add: char_class_defs)

lemma key_char_not_space: "task_key_char c \<Longrightarrow> \<not> py_isspace c"
  by (auto simp: char_class_defs)

lemma list_all_key_chars_strip: "list_all task_key_char s \<Longrightarrow> py_strip s = s"
  unfolding py_strip_def
  by (rule strip_by_id) (auto simp: list_all_iff key_char_not_space)

lemma normalize_task_key_Inr:
  "normalize_task_key k = Inr n \<longleftrightarrow> n = py_strip k \<and> n \<noteq> [] \<and> list_all task_key_char n"
  by (auto simp: normalize_task_key_def Let_def)

lemma normalize_task_key_fixed:
  "\<lbrakk>k \<noteq> []; list_all task_key_char k\<rbrakk> \<Longrightarrow> normalize_task_key k = Inr k"
  by (simp add: normalize_task_key_Inr list_all_key_chars_strip)

lemma normalize_task_key_idem:
  "normalize_task_key k = Inr n \<Longrightarrow> normalize_task_key n = Inr n"
  by (auto simp: normalize_task_key_Inr)

lemma formatted_key_chars: "list_all task_key_char (''AT-'' @ zero_padded n)"
  using zero_padded_digits [of n]
  by (auto simp: list_all_iff digit_key_char) (simp_all add: char_class_defs)

lemma format_task_key_eq:
  "1 \<le> i \<Longrightarrow> format_task_key i = Inr (''AT-'' @ zero_padded (nat i))"
  using formatted_key_chars [of "nat i"] by (simp add: format_task_key_def normalize_task_key_fixed)

lemma format_task_key_Inr:
  "format_task_key i = Inr k \<longleftrightarrow> 1 \<le> i \<and> k = ''AT-'' @ zero_padded (nat i)"
proof (cases "1 \<le> i")
  case True
  then show ?thesis using format_task_key_eq by auto
qed (simp add: format_task_key_def)

lemma parse_formatted: "parse_task_key_sequence (''AT-'' @ zero_padded n) = Some (int n)"
  using list_all_key_chars_strip [OF formatted_key_chars [of n]] zero_padded_digits [of n]
  by (simp add: parse_task_key_sequence_def starts_with_def)

section \<open>Lemmas on slugs and branches\<close>

definition slug_safe :: "string \<Rightarrow> bool" where
  "slug_safe s \<longleftrightarrow> s \<noteq> [] \<and> length s \<le> BRANCH_SLUG_MAX_CHARS \<and>
     list_all (\<lambda>c. slug_char c \<or> is_hyphen c) s \<and> \<not> is_hyphen (hd s) \<and> \<not> is_hyphen (last s)"

lemma hyphenate_chars: "c \<in> set (hyphenate r s) \<Longrightarrow> slug_char c \<or> is_hyphen c"
  by (induction r s rule: hyphenate.induct) (auto simp: is_hyphen_def split: if_splits)

lemma length_lstrip: "length (lstrip_by p s) \<le> length s"
  by (simp add: lstrip_by_def length_dropWhile_le)

lemma length_rstrip: "length (rstrip_by p s) \<le> length s"
  unfolding rstrip_by_def by (metis length_dropWhile_le length_rev)

lemma length_strip: "length (strip_by p s) \<le> length s"
  unfolding strip_by_def using length_lstrip length_rstrip order_trans by blast

lemma slug_safe_ticket: "slug_safe ''ticket''"
  by (simp add: slug_safe_def BRANCH_SLUG_MAX_CHARS_def char_class_defs)

lemma slugify_safe: "slug_safe (slugify_branch_component v)"
proof -
  define h where "h = hyphenate False (py_lower (normalize_prompt v))"
  define t where "t = take BRANCH_SLUG_MAX_CHARS (strip_by is_hyphen h)"
  have len: "length (strip_by is_hyphen t) \<le> BRANCH_SLUG_MAX_CHARS"
    using length_strip [of is_hyphen t] by (simp add: t_def)
  have "set (strip_by is_hyphen t) \<subseteq> set h"
    using set_strip_by [of is_hyphen t] set_strip_by [of is_hyphen h] set_take_subset
    unfolding t_def by fast
  then have chars: "list_all (\<lambda>c. slug_char c \<or> is_hyphen c) (strip_by is_hyphen t)"
    unfolding h_def list_all_iff by (blast dest: hyphenate_chars)
  have "slugify_branch_component v = (if strip_by is_hyphen t = [] then ''ticket'' else strip_by is_hyphen t)"
    by (simp add: slugify_branch_component_def Let_def h_def t_def)
  then show ?thesis
    using slug_safe_ticket len chars strip_by_hd [of is_hyphen t] strip_by_last [of is_hyphen t]
    by (auto simp: slug_safe_def)
qed

lemma derive_branch_name_Inr:
  assumes "derive_branch_name p k s = Inr b"
  shows "b = py_strip p @ py_strip k @ ''-'' @ slugify_branch_component s"
    and "safe_branch_name b" and "\<not> contains_sub ''..'' b" and "\<not> contains_sub ''//'' b"
  using assms
  by (auto simp: derive_branch_name_def Let_def rbind_Inr_iff normalize_task_key_Inr
      split: if_splits)

lemma takeWhile_digits_hyphen:
  "list_all py_isdigit d \<Longrightarrow> takeWhile py_isdigit (d @ CHR ''-'' # s) = d"
  by (induction d) (auto simp: py_isdigit_def)

section \<open>Properties\<close>

text \<open>
  Task keys round-trip: for every counter value from 1 on, \<open>format_task_key\<close> returns a
  key (the error branch is not reached), normalising it again changes nothing, and
  \<open>parse_task_key_sequence\<close> reads the same counter value back.
\<close>

lemma task_key_round_trip:
  assumes "1 \<le> sequence"
  shows "\<exists>key. format_task_key sequence = Inr key \<and> normalize_task_key key = Inr key \<and>
           parse_task_key_sequence key = Some sequence"
  using assms formatted_key_chars [of "nat sequence"]
  by (simp add: format_task_key_eq parse_formatted normalize_task_key_fixed del: append_Cons)

text \<open>
  A derived branch name is always ref-safe and ends in a safe slug: it starts with an
  ASCII alphanumeric, holds only \<open>[A-Za-z0-9._/-]\<close>, never two dots or slashes in a row and
  never a line break; the slug has at most 40 characters of \<open>[a-z0-9-]\<close> and neither starts
  nor ends with a hyphen.
\<close>

lemma derived_branch_ref_safe:
  assumes "derive_branch_name prefix key slug = Inr branch"
  shows "safe_branch_full branch \<and> \<not> contains_sub ''..'' branch \<and> \<not> contains_sub ''//'' branch \<and>
     slug_safe (slugify_branch_component slug) \<and>
     branch = py_strip prefix @ py_strip key @ ''-'' @ slugify_branch_component slug"
proof -
  note b = derive_branch_name_Inr [OF assms]
  have safe: "slug_safe (slugify_branch_component slug)" by (rule slugify_safe)
  then have "last branch = last (slugify_branch_component slug)"
    using b(1) by (simp add: slug_safe_def)
  moreover have "last (slugify_branch_component slug) \<in> set (slugify_branch_component slug)"
    using safe by (simp add: slug_safe_def)
  ultimately have "slug_char (last branch) \<or> is_hyphen (last branch)"
    using safe by (auto simp: slug_safe_def list_all_iff)
  then have "last branch \<noteq> CHR 0x0A" by (auto simp: char_class_defs)
  then show ?thesis using b safe by (simp add: safe_branch_name_def)
qed

text \<open>
  Branches of different Tickets never collide: if the global counter gives two keys and
  the same prefix yields the same branch for both, whatever their slugs, the counter values
  are equal.
\<close>

lemma derived_branches_distinct:
  assumes "format_task_key i = Inr ki" and "format_task_key j = Inr kj"
    and "derive_branch_name prefix ki si = Inr branch"
    and "derive_branch_name prefix kj sj = Inr branch"
  shows "i = j"
proof -
  have k: "1 \<le> i" "1 \<le> j" "ki = ''AT-'' @ zero_padded (nat i)" "kj = ''AT-'' @ zero_padded (nat j)"
    using assms(1,2) by (auto simp: format_task_key_Inr)
  have st: "py_strip ki = ki" "py_strip kj = kj"
    using k formatted_key_chars list_all_key_chars_strip by simp_all
  have "zero_padded (nat i) @ CHR ''-'' # slugify_branch_component si
        = zero_padded (nat j) @ CHR ''-'' # slugify_branch_component sj"
    using derive_branch_name_Inr(1) [OF assms(3)] derive_branch_name_Inr(1) [OF assms(4)] st k
    by simp
  then have "zero_padded (nat i) = zero_padded (nat j)"
    by (metis takeWhile_digits_hyphen zero_padded_digits)
  then have "nat i = nat j" by (metis zero_padded_value)
  then show ?thesis using k by linarith
qed

end
