(* ===== verification/Database.thy ===== *)
theory Database
  imports Ticket_Metadata
begin

text \<open>
  The SQLite state the control plane shares: the tables of \<open>store.py\<close>,
  \<open>attempt_schema.py\<close>, \<open>runtime_admission_schema.py\<close>,
  \<open>canonical_runtime_schema.py\<close> and \<open>lifecycle_control_schema.py\<close>, with the
  constraints and triggers of a database on which every migration has run (so the
  \<open>init_db\<close> call with which an operation starts, which only migrates, changes nothing).

  A table is the list of its rows. A statement that a constraint or a trigger aborts is
  \<open>Inl (SqlAbort message)\<close>; since every operation runs in one transaction, the caller then
  keeps the database it started with. Schema probes (\<open>sqlite_master\<close>,
  \<open>PRAGMA table_info\<close>, \<open>schema_migrations\<close>, the scopes named by the
  \<open>CHECK\<close> of \<open>runtime_controls\<close>) read the name lists of the record.
\<close>

section \<open>Rows\<close>

record task_row =
  t_key :: string
  t_project :: string
  t_title :: "string option"
  t_status :: string
  t_repo_path :: string
  t_artifact_dir :: "string option"
  t_blocked_reason :: "string option"
  t_created_at :: timestamp
  t_updated_at :: timestamp
  t_last_synced_at :: "timestamp option"
  t_executor :: "string option"
  t_model :: "string option"
  t_prompt :: "string option"
  t_priority :: "string option"
  t_ai_title_status :: "string option"
  t_branch_slug_source :: "string option"
  t_blocked_by :: "string option"
  t_github_repo :: "string option"
  t_base_branch :: "string option"
  t_branch :: "string option"
  t_worktree_path :: "string option"
  t_commit_message_suggestion :: "string option"
  t_task_id :: "string option"
  t_task_class :: string
  t_active_attempt_id :: "string option"
  t_is_legacy :: bool
  t_board :: "string option"
  t_hermes_task_id :: "string option"
  t_provider :: "string option"
  t_tools :: "string list option"
  t_pi_bin :: "string option"
  t_reset_generation :: nat

record event_row =
  ev_id :: nat
  ev_task_key :: string
  ev_type :: string
  ev_source :: string
  ev_payload :: json
  ev_created_at :: timestamp

record worktree_row =
  w_task_key :: string
  w_repo_path :: string
  w_worktree_path :: string
  w_branch :: string
  w_base_branch :: "string option"
  w_base_sha :: "string option"
  w_status :: string
  w_created_at :: timestamp
  w_cleaned_at :: "timestamp option"

record artifact_row =
  ar_task_key :: string
  ar_type :: string
  ar_path :: string
  ar_created_at :: timestamp

record process_row =
  xp_process_id :: string
  xp_task_id :: string
  xp_attempt_id :: string
  xp_state :: string
  xp_termination_reason :: "string option"

record resource_row =
  rs_attempt_id :: string
  rs_task_key :: string
  rs_attempt_number :: nat
  rs_status :: string
  rs_artifact_base_root :: "string option"

record attempt_row =
  a_id :: string
  a_task_id :: string
  a_number :: nat
  a_status :: string
  a_is_active :: bool
  a_is_legacy :: bool
  a_executor :: "string option"
  a_model :: "string option"
  a_base_commit :: "string option"
  a_policy_version :: "string option"
  a_config_snapshot_hash :: "string option"
  a_prompt_template_version :: "string option"
  a_permission_profile :: "string option"
  a_worktree_path :: "string option"
  a_artifact_root :: "string option"
  a_started_at :: "timestamp option"
  a_ended_at :: "timestamp option"
  a_execution_result :: "string option"
  a_validation_result :: "string option"
  a_merge_recommendation :: "string option"
  a_created_at :: timestamp
  a_updated_at :: timestamp

record lease_row =
  l_id :: string
  l_task_id :: string
  l_attempt_id :: string
  l_owner_id :: string
  l_token_hash :: string
  l_auth_mode :: string
  l_ttl_seconds :: int
  l_acquired_at :: timestamp
  l_heartbeat_at :: timestamp
  l_expires_at :: timestamp
  l_released_at :: "timestamp option"
  l_release_reason :: "string option"
  l_is_active :: bool

record lifecycle_row =
  le_task_id :: string
  le_attempt_id :: "string option"
  le_from_status :: "string option"
  le_to_status :: string
  le_reason_code :: string
  le_actor :: string
  le_timestamp :: timestamp
  le_metadata :: "(string \<times> json) list"

record control_row =
  rc_scope_kind :: string
  rc_scope_id :: string
  rc_mode :: string
  rc_reason_code :: string
  rc_requested_by :: string
  rc_requested_at :: timestamp
  rc_generation :: nat
  rc_metadata :: "(string \<times> json) list"

record control_event_row =
  ce_scope_kind :: string
  ce_scope_id :: string
  ce_from_mode :: "string option"
  ce_to_mode :: string
  ce_reason_code :: string
  ce_actor :: string
  ce_generation :: nat
  ce_timestamp :: timestamp
  ce_metadata :: "(string \<times> json) list"

record capacity_row =
  cc_max_concurrent_tasks :: nat
  cc_evidence_path :: "string option"
  cc_evidence_sha256 :: "string option"
  cc_evidence_schema_version :: "string option"
  cc_evidence_repo_sha :: "string option"
  cc_reason_code :: string
  cc_requested_by :: string
  cc_requested_at :: timestamp
  cc_generation :: nat
  cc_metadata :: "(string \<times> json) list"

record capacity_event_row =
  cv_from_max :: "nat option"
  cv_to_max :: nat
  cv_evidence_path :: "string option"
  cv_evidence_sha256 :: "string option"
  cv_reason_code :: string
  cv_actor :: string
  cv_generation :: nat
  cv_timestamp :: timestamp
  cv_metadata :: "(string \<times> json) list"

record db =
  db_tables :: "string list"
  db_task_columns :: "string list"
  db_migrations :: "string list"
  db_control_scopes :: "string list"
  db_tasks :: "task_row list"
  db_events :: "event_row list"
  db_worktrees :: "worktree_row list"
  db_attempts :: "attempt_row list"
  db_leases :: "lease_row list"
  db_suppressions :: "string list"
  db_reset_suppressions :: "(string \<times> string) list"
  db_lifecycle :: "lifecycle_row list"
  db_controls :: "control_row list"
  db_control_events :: "control_event_row list"
  db_capacity :: "capacity_row option"
  db_capacity_events :: "capacity_event_row list"
  db_artifacts :: "artifact_row list"
  db_processes :: "process_row list"
  db_resources :: "resource_row list"

section \<open>Queries\<close>

definition truthy :: "string option \<Rightarrow> bool" where
  "truthy v = (case v of None \<Rightarrow> False | Some s \<Rightarrow> s \<noteq> [])"

definition get_task :: "db \<Rightarrow> string \<Rightarrow> task_row option" where
  "get_task db key = find (\<lambda>t. t_key t = key) (db_tasks db)"

definition task_status_of :: "db \<Rightarrow> string \<Rightarrow> string option" where
  "task_status_of db key = map_option t_status (get_task db key)"

definition active_leases :: "db \<Rightarrow> lease_row list" where
  "active_leases db = filter l_is_active (db_leases db)"

definition next_event_id :: "db \<Rightarrow> nat" where
  "next_event_id db = Suc (foldr max (map ev_id (db_events db)) 0)"

definition task_events :: "db \<Rightarrow> string \<Rightarrow> event_row list" where
  "task_events db key = filter (\<lambda>e. ev_task_key e = key) (db_events db)"

definition suppressed :: "db \<Rightarrow> task_row \<Rightarrow> bool" where
  "suppressed db t \<longleftrightarrow>
     (case t_task_id t of None \<Rightarrow> ''task:'' @ t_key t | Some i \<Rightarrow> i) \<in> set (db_suppressions db)"

definition live_lease_of :: "timestamp \<Rightarrow> db \<Rightarrow> task_row \<Rightarrow> bool" where
  "live_lease_of now db t \<longleftrightarrow>
     list_ex (\<lambda>l. l_is_active l \<and> t_task_id t = Some (l_task_id l) \<and>
        t_active_attempt_id t = Some (l_attempt_id l) \<and> now < l_expires_at l) (db_leases db)"

section \<open>Triggers and guarded statements\<close>

definition RUNTIME_TERMINAL_STATUSES :: "string list" where
  "RUNTIME_TERMINAL_STATUSES = [''blocked'', ''waiting_approval'', ''canceled'', ''completed'']"

text \<open>
  The \<open>BEFORE UPDATE OF status ON tasks\<close> triggers: duplicate pickup, canonical claim,
  live lease and owned release of the canonical runtime schema, then the admission guard of the
  project controls and the retry guard of the reset lineage.
\<close>

definition control_halts :: "db \<Rightarrow> task_row \<Rightarrow> bool" where
  "control_halts db t \<longleftrightarrow>
     list_ex (\<lambda>c. rc_mode c \<in> {''paused'', ''kill_requested''} \<and>
        (rc_scope_kind c = ''global'' \<and> rc_scope_id c = ''*'' \<or>
         rc_scope_kind c = ''project'' \<and> rc_scope_id c = t_project t \<or>
         rc_scope_kind c = ''task'' \<and> rc_scope_id c = t_key t)) (db_controls db)"

definition tasks_status_guard ::
  "timestamp \<Rightarrow> db \<Rightarrow> task_row \<Rightarrow> task_row \<Rightarrow> unit result" where
  "tasks_status_guard now db old new =
     (if t_status new = ''preparing'' \<and> t_status old = ''preparing'' \<and> \<not> suppressed db new
      then Inl (SqlAbort ''runtime pickup already claimed'')
      else if t_status new = ''preparing'' \<and> t_status old \<noteq> ''preparing'' \<and> \<not> suppressed db new
      then Inl (SqlAbort ''canonical runtime admission claim required'')
      else if t_status new \<in> {''implementing'', ''validating''} \<and> t_status old \<noteq> t_status new
        \<and> \<not> live_lease_of now db new
      then Inl (SqlAbort ''runtime transition requires active unexpired lease'')
      else if t_status new \<in> set RUNTIME_TERMINAL_STATUSES \<and> t_status old \<noteq> t_status new
        \<and> t_active_attempt_id new \<noteq> None
        \<and> list_ex (\<lambda>l. t_task_id new = Some (l_task_id l) \<and>
             t_active_attempt_id new = Some (l_attempt_id l) \<and>
             l_auth_mode l = ''token'' \<and> l_is_active l) (db_leases db)
        \<and> \<not> (case t_task_id new of None \<Rightarrow> False | Some i \<Rightarrow> i \<in> set (db_suppressions db))
      then Inl (SqlAbort ''token runtime lease requires owned release'')
      else if t_status new = ''preparing'' \<and> t_status old \<noteq> ''preparing'' \<and> \<not> t_is_legacy new
        \<and> control_halts db new
      then Inl (SqlAbort ''Level 2 runtime admission denied by persisted control'')
      else if t_status old = ''blocked'' \<and> t_status new = ''queued''
        \<and> \<not> list_ex (\<lambda>(i, a). t_task_id new = Some i \<and> t_active_attempt_id new = Some a)
              (db_reset_suppressions db)
      then Inl (SqlAbort ''reset lineage reservation required'')
      else Inr ())"

text \<open>\<open>tasks_active_attempt_guard\<close>: a new \<open>active_attempt_id\<close> names an active Attempt of the task.\<close>

definition tasks_active_attempt_guard :: "db \<Rightarrow> task_row \<Rightarrow> unit result" where
  "tasks_active_attempt_guard db new =
     guard_exn
       (case t_active_attempt_id new of
          None \<Rightarrow> True
        | Some a \<Rightarrow> list_ex (\<lambda>r. a_id r = a \<and> Some (a_task_id r) = t_task_id new \<and> a_is_active r)
            (db_attempts db))
       (SqlAbort ''active_attempt_id must reference an active attempt for the same task'')"

fun check_rows :: "('r \<Rightarrow> unit result) \<Rightarrow> 'r list \<Rightarrow> unit result" where
  "check_rows g [] = Inr ()"
| "check_rows g (r # rs) = rbind (g r) (\<lambda>_. check_rows g rs)"

text \<open>\<open>UPDATE tasks SET ... WHERE p\<close>, without and with a write to \<open>status\<close> and
  \<open>active_attempt_id\<close>.\<close>

definition update_tasks :: "(task_row \<Rightarrow> bool) \<Rightarrow> (task_row \<Rightarrow> task_row) \<Rightarrow> db \<Rightarrow> db" where
  "update_tasks p f db = db\<lparr>db_tasks := map_where p f (db_tasks db)\<rparr>"

definition update_tasks_status ::
  "timestamp \<Rightarrow> (task_row \<Rightarrow> bool) \<Rightarrow> (task_row \<Rightarrow> task_row) \<Rightarrow> db \<Rightarrow> db result" where
  "update_tasks_status now p f db =
     rbind (check_rows (\<lambda>r. tasks_status_guard now db r (f r)) (filter p (db_tasks db)))
       (\<lambda>_. Inr (update_tasks p f db))"

definition update_tasks_attempt ::
  "timestamp \<Rightarrow> (task_row \<Rightarrow> bool) \<Rightarrow> (task_row \<Rightarrow> task_row) \<Rightarrow> db \<Rightarrow> db result" where
  "update_tasks_attempt now p f db =
     rbind (check_rows (\<lambda>r. tasks_active_attempt_guard db (f r)) (filter p (db_tasks db)))
       (\<lambda>_. update_tasks_status now p f db)"

text \<open>
  \<open>INSERT INTO task_events\<close>: foreign key, the executor-start trigger before the insert and
  the compatibility heartbeat after it (implicit leases only, on a canonical database).
\<close>

definition executor_start_ok :: "db \<Rightarrow> string \<Rightarrow> string \<Rightarrow> json \<Rightarrow> timestamp \<Rightarrow> bool" where
  "executor_start_ok db key etype payload created_at \<longleftrightarrow>
     \<not> (etype = ''note'' \<and> json_get payload ''kind'' = Some (JStr ''executor_run_started'')) \<or>
     list_ex (\<lambda>t. t_key t = key \<and>
       list_ex (\<lambda>l. t_task_id t = Some (l_task_id l) \<and>
          t_active_attempt_id t = Some (l_attempt_id l) \<and> l_auth_mode l = ''token'' \<and>
          l_is_active l \<and> created_at < l_expires_at l \<and>
          json_get payload ''runtime_attempt_id'' = Some (JStr (l_attempt_id l)) \<and>
          json_get payload ''runtime_lease_id'' = Some (JStr (l_id l)) \<and>
          json_get payload ''runtime_owner_id'' = Some (JStr (l_owner_id l))) (db_leases db))
       (db_tasks db)"

definition heartbeat_implicit :: "string \<Rightarrow> timestamp \<Rightarrow> db \<Rightarrow> db" where
  "heartbeat_implicit key created_at db =
     (case get_task db key of
        None \<Rightarrow> db
      | Some t \<Rightarrow>
          let owned = (\<lambda>l. t_task_id t = Some (l_task_id l) \<and>
                t_active_attempt_id t = Some (l_attempt_id l) \<and>
                l_auth_mode l = ''implicit_status'' \<and> l_is_active l)
          in if list_ex (\<lambda>l. owned l \<and> created_at < l_expires_at l) (db_leases db)
             then db\<lparr>db_leases := map_where owned
                 (\<lambda>l. l\<lparr>l_heartbeat_at := created_at,
                        l_expires_at := created_at + l_ttl_seconds l\<rparr>) (db_leases db)\<rparr>
             else db)"

definition insert_event ::
  "string \<Rightarrow> string \<Rightarrow> string \<Rightarrow> json \<Rightarrow> timestamp \<Rightarrow> db \<Rightarrow> db result" where
  "insert_event key etype source payload created_at db =
     (if get_task db key = None then Inl (SqlAbort ''FOREIGN KEY constraint failed'')
      else if \<not> executor_start_ok db key etype payload created_at
      then Inl (SqlAbort ''executor start requires canonical runtime claim metadata'')
      else Inr (heartbeat_implicit key created_at
        (db\<lparr>db_events := db_events db @
           [\<lparr>ev_id = next_event_id db, ev_task_key = key, ev_type = etype, ev_source = source,
             ev_payload = payload, ev_created_at = created_at\<rparr>]\<rparr>)))"

definition task_id_exists :: "db \<Rightarrow> string \<Rightarrow> bool" where
  "task_id_exists db i \<longleftrightarrow> list_ex (\<lambda>t. t_task_id t = Some i) (db_tasks db)"

definition insert_suppression :: "string \<Rightarrow> db \<Rightarrow> db result" where
  "insert_suppression task_id db =
     (if \<not> task_id_exists db task_id then Inl (SqlAbort ''FOREIGN KEY constraint failed'')
      else if task_id \<in> set (db_suppressions db) then Inl (SqlAbort ''UNIQUE constraint failed'')
      else Inr (db\<lparr>db_suppressions := db_suppressions db @ [task_id]\<rparr>))"

definition delete_suppression :: "string \<Rightarrow> db \<Rightarrow> db" where
  "delete_suppression task_id db =
     db\<lparr>db_suppressions := filter (\<lambda>i. i \<noteq> task_id) (db_suppressions db)\<rparr>"

definition insert_attempt :: "attempt_row \<Rightarrow> db \<Rightarrow> db result" where
  "insert_attempt a db =
     (if list_ex (\<lambda>r. a_id r = a_id a) (db_attempts db) \<or>
         list_ex (\<lambda>r. a_task_id r = a_task_id a \<and> a_number r = a_number a) (db_attempts db) \<or>
         a_is_active a \<and> list_ex (\<lambda>r. a_task_id r = a_task_id a \<and> a_is_active r) (db_attempts db) \<or>
         \<not> task_id_exists db (a_task_id a) \<or> a_number a < 1 \<or> (a_is_active a \<longleftrightarrow> a_ended_at a \<noteq> None)
      then Inl (SqlAbort ''attempts constraint failed'')
      else Inr (db\<lparr>db_attempts := db_attempts db @ [a]\<rparr>))"

definition insert_lease :: "lease_row \<Rightarrow> db \<Rightarrow> db result" where
  "insert_lease l db =
     (if list_ex (\<lambda>r. l_id r = l_id l) (db_leases db) \<or>
         list_ex (\<lambda>r. l_token_hash r = l_token_hash l) (db_leases db) \<or>
         l_is_active l \<and> list_ex (\<lambda>r. l_task_id r = l_task_id l \<and> l_is_active r) (db_leases db) \<or>
         l_is_active l \<and> list_ex (\<lambda>r. l_attempt_id r = l_attempt_id l \<and> l_is_active r) (db_leases db) \<or>
         \<not> task_id_exists db (l_task_id l) \<or> \<not> list_ex (\<lambda>a. a_id a = l_attempt_id l) (db_attempts db) \<or>
         l_ttl_seconds l < 1 \<or> (l_is_active l \<longleftrightarrow> l_released_at l \<noteq> None)
      then Inl (SqlAbort ''runtime_leases constraint failed'')
      else Inr (db\<lparr>db_leases := db_leases db @ [l]\<rparr>))"

definition insert_lifecycle :: "lifecycle_row \<Rightarrow> db \<Rightarrow> db result" where
  "insert_lifecycle e db =
     (if (case le_attempt_id e of
            None \<Rightarrow> False
          | Some a \<Rightarrow> \<not> list_ex (\<lambda>r. a_id r = a \<and> a_task_id r = le_task_id e) (db_attempts db))
      then Inl (SqlAbort ''lifecycle attempt does not belong to task'')
      else if \<not> task_id_exists db (le_task_id e) then Inl (SqlAbort ''FOREIGN KEY constraint failed'')
      else Inr (db\<lparr>db_lifecycle := db_lifecycle db @ [e]\<rparr>))"

text \<open>
  \<open>UPDATE attempts SET status ...\<close> with \<open>lifecycle_attempt_transition_guard\<close>. No
  authorisation row of the advisory recovery path is modelled, so only the generic graph
  \<open>ATTEMPT_TRANSITIONS\<close> is accepted.
\<close>

definition ATTEMPT_TRANSITIONS :: "(string \<times> string) list" where
  "ATTEMPT_TRANSITIONS =
     map (Pair ''created'')
       [''preparing'', ''implementing'', ''validating'', ''waiting_approval'', ''validation_failed'',
        ''execution_timeout'', ''execution_aborted'', ''blocked'', ''completed'', ''failed'',
        ''canceled''] @
     map (Pair ''preparing'')
       [''implementing'', ''validating'', ''waiting_approval'', ''validation_failed'',
        ''execution_timeout'', ''execution_aborted'', ''blocked'', ''completed'', ''failed'',
        ''canceled''] @
     map (Pair ''implementing'')
       [''validating'', ''waiting_approval'', ''execution_timeout'', ''execution_aborted'',
        ''blocked'', ''completed'', ''failed'', ''canceled''] @
     map (Pair ''validating'')
       [''waiting_approval'', ''validation_failed'', ''execution_timeout'', ''execution_aborted'',
        ''blocked'', ''completed'', ''failed'', ''canceled'']"

definition attempt_transition_ok :: "string \<Rightarrow> string \<Rightarrow> bool" where
  "attempt_transition_ok from_status to_status \<longleftrightarrow>
     from_status = to_status \<or> (from_status, to_status) \<in> set ATTEMPT_TRANSITIONS"

definition update_attempts ::
  "(attempt_row \<Rightarrow> bool) \<Rightarrow> (attempt_row \<Rightarrow> attempt_row) \<Rightarrow> db \<Rightarrow> db result" where
  "update_attempts p f db =
     rbind (check_rows
         (\<lambda>r. guard_exn (attempt_transition_ok (a_status r) (a_status (f r)))
            (SqlAbort ''illegal attempt lifecycle transition''))
         (filter p (db_attempts db)))
       (\<lambda>_. Inr (db\<lparr>db_attempts := map_where p f (db_attempts db)\<rparr>))"

definition update_leases :: "(lease_row \<Rightarrow> bool) \<Rightarrow> (lease_row \<Rightarrow> lease_row) \<Rightarrow> db \<Rightarrow> db" where
  "update_leases p f db = db\<lparr>db_leases := map_where p f (db_leases db)\<rparr>"

section \<open>A small database\<close>

text \<open>The Ticket rows and the otherwise empty database on which witnesses evaluate.\<close>

definition example_ticket :: "string \<Rightarrow> string \<Rightarrow> task_row" where
  "example_ticket key status =
     \<lparr>t_key = key, t_project = ''proj'', t_title = Some ''Title'', t_status = status,
      t_repo_path = ''/repo'', t_artifact_dir = None, t_blocked_reason = None, t_created_at = 10,
      t_updated_at = 10, t_last_synced_at = None, t_executor = None, t_model = None,
      t_prompt = Some ''Do it'', t_priority = Some ''P2'', t_ai_title_status = None,
      t_branch_slug_source = None, t_blocked_by = None, t_github_repo = None,
      t_base_branch = Some ''main'', t_branch = Some (''task/'' @ key), t_worktree_path = None,
      t_commit_message_suggestion = None, t_task_id = Some (''task:'' @ key),
      t_task_class = ''feature'', t_active_attempt_id = None, t_is_legacy = False, t_board = None,
      t_hermes_task_id = None, t_provider = None, t_tools = None, t_pi_bin = None,
      t_reset_generation = 0\<rparr>"

definition example_db :: "task_row list \<Rightarrow> db" where
  "example_db ts =
     \<lparr>db_tables = [''tasks'', ''runtime_leases'', ''runtime_controls'', ''runtime_capacity_controls'', ''attempts'',
        ''lifecycle_events'', ''executor_processes'', ''attempt_resources''],
      db_task_columns = [''prompt'', ''blocked_by'', ''task_id'', ''active_attempt_id'', ''reset_generation''],
      db_migrations = [''level2_project_class_controls_v1''],
      db_control_scopes = [''global'', ''project'', ''task_class'', ''task'', ''attempt''],
      db_tasks = ts, db_events = [], db_worktrees = [], db_attempts = [], db_leases = [],
      db_suppressions = [], db_reset_suppressions = [], db_lifecycle = [], db_controls = [],
      db_control_events = [], db_capacity = None, db_capacity_events = [], db_artifacts = [],
      db_processes = [], db_resources = []\<rparr>"

section \<open>Lemmas\<close>

named_theorems frame_simps \<open>what a statement leaves unchanged\<close>

lemma check_rows_Inr: "check_rows g rs = Inr u \<longleftrightarrow> (\<forall>r \<in> set rs. g r = Inr ())"
  by (induction rs) (auto simp: rbind_Inr_iff)

lemma update_tasks_frame [simp, frame_simps]:
  "db_events (update_tasks p f db) = db_events db"
  "db_attempts (update_tasks p f db) = db_attempts db"
  "db_leases (update_tasks p f db) = db_leases db"
  "db_suppressions (update_tasks p f db) = db_suppressions db"
  "db_controls (update_tasks p f db) = db_controls db"
  "db_capacity (update_tasks p f db) = db_capacity db"
  "db_worktrees (update_tasks p f db) = db_worktrees db"
  "db_lifecycle (update_tasks p f db) = db_lifecycle db"
  "db_tables (update_tasks p f db) = db_tables db"
  "db_task_columns (update_tasks p f db) = db_task_columns db"
  "db_tasks (update_tasks p f db) = map_where p f (db_tasks db)"
  by (simp_all add: update_tasks_def)

text \<open>A status no trigger names may be written from any row.\<close>

definition GUARDED_STATUSES :: "string list" where
  "GUARDED_STATUSES =
     [''preparing'', ''implementing'', ''validating'', ''queued''] @ RUNTIME_TERMINAL_STATUSES"

lemma tasks_status_guard_free:
  assumes "t_status new \<notin> set GUARDED_STATUSES"
  shows "tasks_status_guard now db old new = Inr ()"
proof -
  have "t_status new \<noteq> ''preparing''" "t_status new \<notin> {''implementing'', ''validating''}"
    "t_status new \<notin> set RUNTIME_TERMINAL_STATUSES" "t_status new \<noteq> ''queued''"
    using assms by (auto simp: GUARDED_STATUSES_def)
  then show ?thesis by (simp only: tasks_status_guard_def simp_thms if_False)
qed

lemma unguarded_statuses:
  "''created'' \<notin> set GUARDED_STATUSES" "''needs_decision'' \<notin> set GUARDED_STATUSES"
  "''failed'' \<notin> set GUARDED_STATUSES" "''ready_for_integration'' \<notin> set GUARDED_STATUSES"
  "''integrating'' \<notin> set GUARDED_STATUSES" "''waiting_for_review'' \<notin> set GUARDED_STATUSES"
  "''cleaned'' \<notin> set GUARDED_STATUSES"
  by (simp_all add: GUARDED_STATUSES_def RUNTIME_TERMINAL_STATUSES_def)

lemma update_tasks_status_Inr:
  "update_tasks_status now p f db = Inr db' \<longleftrightarrow>
     db' = update_tasks p f db \<and>
     (\<forall>r \<in> set (db_tasks db). p r \<longrightarrow> tasks_status_guard now db r (f r) = Inr ())"
  by (auto simp: update_tasks_status_def rbind_Inr_iff check_rows_Inr)

lemma update_tasks_attempt_Inr:
  "update_tasks_attempt now p f db = Inr db' \<longleftrightarrow>
     db' = update_tasks p f db \<and>
     (\<forall>r \<in> set (db_tasks db). p r \<longrightarrow>
        tasks_active_attempt_guard db (f r) = Inr () \<and> tasks_status_guard now db r (f r) = Inr ())"
  by (auto simp: update_tasks_attempt_def rbind_Inr_iff check_rows_Inr update_tasks_status_Inr)

lemma heartbeat_implicit_frame [simp, frame_simps]:
  "db_tasks (heartbeat_implicit k n db) = db_tasks db"
  "db_events (heartbeat_implicit k n db) = db_events db"
  "db_attempts (heartbeat_implicit k n db) = db_attempts db"
  "db_suppressions (heartbeat_implicit k n db) = db_suppressions db"
  "db_controls (heartbeat_implicit k n db) = db_controls db"
  "db_capacity (heartbeat_implicit k n db) = db_capacity db"
  "db_worktrees (heartbeat_implicit k n db) = db_worktrees db"
  "db_lifecycle (heartbeat_implicit k n db) = db_lifecycle db"
  "db_tables (heartbeat_implicit k n db) = db_tables db"
  "db_task_columns (heartbeat_implicit k n db) = db_task_columns db"
  by (simp_all add: heartbeat_implicit_def Let_def split: option.split)

text \<open>The compatibility heartbeat moves only the clock fields of implicit leases.\<close>

lemma map_heartbeat_leases:
  assumes "\<And>l a b. g (l\<lparr>l_heartbeat_at := a, l_expires_at := b\<rparr>) = g l"
  shows "map g (db_leases (heartbeat_implicit k n db)) = map g (db_leases db)"
  by (simp add: heartbeat_implicit_def Let_def assms map_map_where split: option.split)

lemma token_leases_unchanged:
  assumes "\<forall>l \<in> set (db_leases db). l_auth_mode l \<noteq> ''implicit_status''"
  shows "heartbeat_implicit k n db = db"
proof (cases "get_task db k")
  case (Some t)
  have "\<not> list_ex (\<lambda>l. (t_task_id t = Some (l_task_id l) \<and>
      t_active_attempt_id t = Some (l_attempt_id l) \<and> l_auth_mode l = ''implicit_status'' \<and>
      l_is_active l) \<and> n < l_expires_at l) (db_leases db)"
    using assms by (auto simp: list_ex_iff)
  then show ?thesis by (simp only: heartbeat_implicit_def Let_def Some option.case if_False)
qed (simp add: heartbeat_implicit_def)

text \<open>
  What an event insert may change: it appends to the log and moves clock fields of implicit
  leases; everything else stays.
\<close>

definition lease_core :: "lease_row \<Rightarrow> lease_row" where
  "lease_core l = l\<lparr>l_heartbeat_at := 0, l_expires_at := 0\<rparr>"

definition events_only :: "db \<Rightarrow> db \<Rightarrow> bool" where
  "events_only db db' \<longleftrightarrow>
     (\<exists>es ls. db' = db\<lparr>db_events := db_events db @ es, db_leases := ls\<rparr> \<and>
        map lease_core ls = map lease_core (db_leases db))"

lemma events_only_refl [simp]: "events_only db db"
  unfolding events_only_def
  by (intro exI [of _ "[]"] exI [of _ "db_leases db"]) simp

lemma events_only_trans: "\<lbrakk>events_only a b; events_only b c\<rbrakk> \<Longrightarrow> events_only a c"
  unfolding events_only_def by force

lemma events_onlyD:
  assumes "events_only db db'"
  shows "db_tasks db' = db_tasks db" "db_attempts db' = db_attempts db"
    "db_suppressions db' = db_suppressions db" "db_controls db' = db_controls db"
    "db_reset_suppressions db' = db_reset_suppressions db"
    "db_capacity db' = db_capacity db" "db_worktrees db' = db_worktrees db"
    "db_lifecycle db' = db_lifecycle db" "db_tables db' = db_tables db"
    "db_task_columns db' = db_task_columns db" "get_task db' = get_task db"
    "map lease_core (db_leases db') = map lease_core (db_leases db)"
  using assms by (auto simp: events_only_def get_task_def)

lemma insert_event_events_only:
  assumes "insert_event k ty src pl n db = Inr db'"
  shows "events_only db db'"
proof -
  let ?d = "db\<lparr>db_events := db_events db @ [\<lparr>ev_id = next_event_id db, ev_task_key = k,
    ev_type = ty, ev_source = src, ev_payload = pl, ev_created_at = n\<rparr>]\<rparr>"
  have eq: "db' = heartbeat_implicit k n ?d" using assms by (auto simp: insert_event_def split: if_splits)
  have "map lease_core (db_leases db') = map lease_core (db_leases ?d)"
    unfolding eq by (rule map_heartbeat_leases) (simp add: lease_core_def)
  moreover have "db' = ?d\<lparr>db_leases := db_leases db'\<rparr>"
    by (simp add: eq heartbeat_implicit_def Let_def split: option.split)
  ultimately have "db' = db\<lparr>db_events := db_events ?d, db_leases := db_leases db'\<rparr> \<and>
      map lease_core (db_leases db') = map lease_core (db_leases db)" by simp
  then show ?thesis unfolding events_only_def
    by (intro exI [of _ "[\<lparr>ev_id = next_event_id db, ev_task_key = k,
      ev_type = ty, ev_source = src, ev_payload = pl, ev_created_at = n\<rparr>]"]
      exI [of _ "db_leases db'"]) simp
qed

lemma insert_event_ok:
  "\<lbrakk>get_task db k \<noteq> None; executor_start_ok db k ty pl n\<rbrakk> \<Longrightarrow>
     \<exists>db'. insert_event k ty src pl n db = Inr db'"
  by (simp add: insert_event_def)

lemma insert_event_log:
  assumes "insert_event k ty src pl n db = Inr db'"
  shows "db_events db' = db_events db @
      [\<lparr>ev_id = next_event_id db, ev_task_key = k, ev_type = ty, ev_source = src,
        ev_payload = pl, ev_created_at = n\<rparr>]"
  using assms by (auto simp: insert_event_def split: if_splits)

lemma next_event_id_fresh: "e \<in> set (db_events db) \<Longrightarrow> ev_id e < next_event_id db"
proof -
  have "x \<in> set xs \<Longrightarrow> (x::nat) \<le> foldr max xs 0" for x xs
    by (induction xs) auto
  then show "e \<in> set (db_events db) \<Longrightarrow> ev_id e < next_event_id db"
    by (simp add: next_event_id_def le_imp_less_Suc)
qed

lemma get_task_Some: "get_task db k = Some t \<Longrightarrow> t \<in> set (db_tasks db) \<and> t_key t = k"
  unfolding get_task_def by (rule find_Some_set)

lemma get_task_update_same:
  "(\<And>t. t_key (f t) = t_key t) \<Longrightarrow>
     get_task (update_tasks (\<lambda>t. t_key t = k) f db) k = map_option f (get_task db k)"
  unfolding get_task_def by (simp add: find_map_where_same)

lemma get_task_update_other:
  "(\<And>t. t_key (f t) = t_key t) \<Longrightarrow> k' \<noteq> k \<Longrightarrow>
     get_task (update_tasks (\<lambda>t. t_key t = k) f db) k' = get_task db k'"
  unfolding get_task_def by (simp add: find_map_where_other)

lemma get_task_keys: "get_task db k \<noteq> None \<longleftrightarrow> k \<in> set (map t_key (db_tasks db))"
  by (auto simp: get_task_def find_None_iff)

lemma get_task_cong: "db_tasks db' = db_tasks db \<Longrightarrow> get_task db' k = get_task db k"
  by (simp add: get_task_def)

lemma truthy_simps [simp]: "truthy None = False" "truthy (Some s) = (s \<noteq> [])"
  by (simp_all add: truthy_def)

end
