(* ===== verification/Dependencies.thy ===== *)
theory Dependencies
  imports Database
begin

text \<open>
  Ticket dependencies (\<open>ticket_dependencies.py\<close>): setting, replacing and removing
  \<open>blocked_by\<close>, releasing dependents of a completed blocker and stopping dependents of a
  failed or cancelled one. Every public operation is one transaction: its model takes the
  database and returns the changed one, or the exception with which nothing was written.

  Results: the cycle search terminates and finds exactly the closed chains, so no sequence of
  operations can build a dependency cycle; a Ticket is released only when its blocker is
  completed, and a running dependent is never touched.
\<close>

section \<open>Constants and small predicates\<close>

definition DEPENDENCY_SOURCE :: string where
  "DEPENDENCY_SOURCE = ''ticket_dependencies''"

definition DEPENDENCY_REASON_PREFIX :: string where
  "DEPENDENCY_REASON_PREFIX = ''blocked_by ''"

definition display_group :: "string \<Rightarrow> string list" where
  "display_group d = (case persisted_statuses_for_display d of Inl _ \<Rightarrow> [] | Inr ps \<Rightarrow> ps)"

definition COMPLETED_BLOCKER_STATUSES :: "string list" where
  "COMPLETED_BLOCKER_STATUSES = display_group ''completed''"

definition STOPPED_BLOCKER_STATUSES :: "string list" where
  "STOPPED_BLOCKER_STATUSES = display_group ''failed'' @ display_group ''cancelled''"

definition RUNNING_STATUSES :: "string list" where
  "RUNNING_STATUSES = [''preparing'', ''implementing'', ''validating'']"

definition READY_STATUSES :: "string list" where
  "READY_STATUSES = [''created'', ''queued'']"

definition NOT_REDIRECTED_STATUSES :: "string list" where
  "NOT_REDIRECTED_STATUSES =
     [''needs_decision'', ''paused''] @ COMPLETED_BLOCKER_STATUSES @ display_group ''cancelled''"

definition dependency_blocked_reason :: "string \<Rightarrow> string result" where
  "dependency_blocked_reason blocker =
     rbind (normalize_task_key blocker) (\<lambda>key.
       Inr (DEPENDENCY_REASON_PREFIX @ key @ '': waiting for the blocker to complete''))"

definition is_dependency_blocked_reason :: "string option \<Rightarrow> bool" where
  "is_dependency_blocked_reason reason =
     (case reason of
        None \<Rightarrow> True
      | Some r \<Rightarrow> py_strip r = [] \<or> starts_with DEPENDENCY_REASON_PREFIX r)"

record dependency_change =
  dc_task_key :: string
  dc_blocked_by :: "string option"
  dc_previous_blocked_by :: "string option"
  dc_from_status :: string
  dc_to_status :: string

record dependency_maintenance_result =
  dm_released :: "string list"
  dm_needs_decision :: "string list"
  dm_deferred_running :: "string list"

section \<open>Helpers inside the caller's transaction\<close>

definition tasks_has_ticket_columns :: "db \<Rightarrow> bool" where
  "tasks_has_ticket_columns db \<longleftrightarrow> ''prompt'' \<in> set (db_task_columns db)"

definition require_ticket_schema :: "db \<Rightarrow> unit result" where
  "require_ticket_schema db = guard_exn (tasks_has_ticket_columns db) TicketDependencyError"

definition ticket_row :: "db \<Rightarrow> string \<Rightarrow> task_row result" where
  "ticket_row db task_key =
     (case get_task db task_key of
        None \<Rightarrow> Inl TicketDependencyError
      | Some row \<Rightarrow> if t_prompt row = None then Inl TicketDependencyError else Inr row)"

text \<open>The \<open>while True\<close> loop of \<open>_cycle_path\<close>.\<close>

function cycle_loop ::
  "db \<Rightarrow> string \<Rightarrow> string list \<Rightarrow> string list \<Rightarrow> string \<Rightarrow> string list option" where
  "cycle_loop db task_key path seen current =
     (case get_task db current of
        None \<Rightarrow> None
      | Some row \<Rightarrow>
          (case t_blocked_by row of
             None \<Rightarrow> None
           | Some nxt \<Rightarrow>
               if nxt = [] then None
               else if nxt = task_key then Some (path @ [nxt])
               else if nxt \<in> set seen then None
               else cycle_loop db task_key (path @ [nxt]) (nxt # seen) nxt))"
  by pat_completeness auto

text \<open>
  Termination: a continued step leaves a stored key behind, and \<open>seen\<close> never forgets; the
  first component covers a call whose \<open>current\<close> is not in \<open>seen\<close>, which the program never
  makes.
\<close>

definition unseen_keys :: "db \<Rightarrow> string list \<Rightarrow> string \<Rightarrow> nat" where
  "unseen_keys db seen current =
     length (filter (\<lambda>k. k \<notin> set seen \<or> k = current) (map t_key (db_tasks db)))"

lemma unseen_keys_less:
  assumes "current \<in> set seen" and "get_task db current = Some row" and "nxt \<notin> set seen"
  shows "unseen_keys db (nxt # seen) nxt < unseen_keys db seen current"
proof -
  let ?ks = "map t_key (db_tasks db)"
  let ?old = "\<lambda>k. k \<notin> set seen \<or> k = current" and ?new = "\<lambda>k. k \<notin> set (nxt # seen) \<or> k = nxt"
  have mem: "current \<in> set ?ks" using get_task_Some [OF assms(2)] by force
  have imp: "?new k \<Longrightarrow> ?old k" and neq: "?new k \<Longrightarrow> k \<noteq> current" for k
    using assms(1,3) by auto
  have "filter ?new ?ks = filter ?new (filter ?old ?ks)"
    using imp by (auto intro: filter_cong)
  moreover have "length (filter ?new (filter ?old ?ks)) < length (filter ?old ?ks)"
    using mem neq by (intro length_filter_less [where x = current]) auto
  ultimately show ?thesis by (simp only: unseen_keys_def)
qed

termination cycle_loop
  by (relation "measures [\<lambda>(db, k, path, seen, current). if current \<in> set seen then 0 else 1,
        \<lambda>(db, k, path, seen, current). unseen_keys db seen current]")
     (auto intro: unseen_keys_less)

declare cycle_loop.simps [simp del]

definition cycle_path :: "db \<Rightarrow> string \<Rightarrow> string \<Rightarrow> string list option" where
  "cycle_path db task_key blocker = cycle_loop db task_key [task_key, blocker] [blocker] blocker"

definition latest_event :: "db \<Rightarrow> (event_row \<Rightarrow> bool) \<Rightarrow> event_row option" where
  "latest_event db p =
     (case rev (filter p (db_events db)) of [] \<Rightarrow> None | e # _ \<Rightarrow> Some e)"

definition last_status_source :: "db \<Rightarrow> string \<Rightarrow> string option" where
  "last_status_source db task_key =
     map_option ev_source
       (latest_event db (\<lambda>e. ev_task_key e = task_key \<and> ev_type e = ''status_changed''))"

definition last_blocker_stop_was_dependency_owned :: "db \<Rightarrow> string \<Rightarrow> bool" where
  "last_blocker_stop_was_dependency_owned db task_key =
     (case latest_event db (\<lambda>e. ev_task_key e = task_key \<and> ev_type e = ''note'' \<and>
             ev_source e = DEPENDENCY_SOURCE \<and>
             json_get (ev_payload e) ''kind'' = Some (JStr ''ticket_dependency_blocker_stopped'')) of
        None \<Rightarrow> False
      | Some e \<Rightarrow> json_truthy (json_get (ev_payload e) ''dependency_owned''))"

definition active_attempt_id :: "db \<Rightarrow> string \<Rightarrow> string option" where
  "active_attempt_id db task_key =
     (if ''active_attempt_id'' \<notin> set (db_task_columns db) then None
      else Option.bind (get_task db task_key) t_active_attempt_id)"

definition dependency_owned :: "db \<Rightarrow> task_row \<Rightarrow> bool" where
  "dependency_owned db row =
     (if t_status row = ''blocked''
      then truthy (t_blocked_by row) \<and> is_dependency_blocked_reason (t_blocked_reason row)
      else if t_status row = ''needs_decision''
      then last_status_source db (t_key row) = Some DEPENDENCY_SOURCE \<and>
           last_blocker_stop_was_dependency_owned db (t_key row)
      else False)"

definition write_dependency ::
  "timestamp \<Rightarrow> string \<Rightarrow> string option \<Rightarrow> string \<Rightarrow> string \<Rightarrow> string option \<Rightarrow> string
     \<Rightarrow> (string \<times> json) list \<Rightarrow> db \<Rightarrow> db result" where
  "write_dependency now task_key blocked_by from_status to_status blocked_reason kind payload db =
     rbind (if from_status = to_status
            then Inr (update_tasks (\<lambda>t. t_key t = task_key)
                   (\<lambda>t. t\<lparr>t_blocked_by := blocked_by, t_blocked_reason := blocked_reason,
                          t_updated_at := now, t_last_synced_at := Some now\<rparr>) db)
            else update_tasks_status now (\<lambda>t. t_key t = task_key \<and> t_status t = from_status)
                   (\<lambda>t. t\<lparr>t_blocked_by := blocked_by, t_status := to_status,
                          t_blocked_reason := blocked_reason,
                          t_updated_at := now, t_last_synced_at := Some now\<rparr>) db) (\<lambda>db.
     rbind (if from_status \<noteq> to_status
            then insert_event task_key ''status_changed'' DEPENDENCY_SOURCE
                   (JObj [(''status'', JStr to_status),
                          (''blocked_reason'',
                           if to_status = ''blocked'' then jopt blocked_reason else JNull)]) now db
            else Inr db) (\<lambda>db.
     insert_event task_key ''note'' DEPENDENCY_SOURCE
       (JObj ([(''kind'', JStr kind), (''from_status'', JStr from_status),
               (''to_status'', JStr to_status), (''blocked_by'', jopt blocked_by)] @ payload))
       now db))"

section \<open>Public operations\<close>

definition validate_dependency :: "db \<Rightarrow> string \<Rightarrow> string \<Rightarrow> task_row result" where
  "validate_dependency db task_key blocker =
     rbind (ticket_row db task_key) (\<lambda>row.
       if blocker = task_key then Inl TicketDependencyError
       else if get_task db blocker = None then Inl TicketDependencyError
       else if cycle_path db task_key blocker \<noteq> None then Inl TicketDependencyError
       else Inr row)"

definition validate_blocked_by :: "db \<Rightarrow> string \<Rightarrow> string \<Rightarrow> unit result" where
  "validate_blocked_by db task_key blocker =
     rbind (normalize_task_key task_key) (\<lambda>normalized.
     rbind (normalize_task_key blocker) (\<lambda>normalized_blocker.
     rbind (require_ticket_schema db) (\<lambda>_.
     rbind (validate_dependency db normalized normalized_blocker) (\<lambda>_. Inr ()))))"

definition set_blocked_by ::
  "timestamp \<Rightarrow> string \<Rightarrow> string \<Rightarrow> string \<Rightarrow> string option \<Rightarrow> db
     \<Rightarrow> (db \<times> dependency_change) result" where
  "set_blocked_by now task_key blocker actor reason db =
     rbind (normalize_task_key task_key) (\<lambda>normalized.
     rbind (normalize_task_key blocker) (\<lambda>normalized_blocker.
     rbind (require_ticket_schema db) (\<lambda>_.
     rbind (validate_dependency db normalized normalized_blocker) (\<lambda>row.
       let from_status = t_status row in
       if from_status \<in> set READY_STATUSES \<and> truthy (active_attempt_id db normalized)
       then Inl TicketDependencyError
       else
         rbind (if from_status \<in> set READY_STATUSES \<or> dependency_owned db row
                then rbind (dependency_blocked_reason normalized_blocker)
                       (\<lambda>r. Inr (''blocked'', Some r))
                else Inr (from_status, t_blocked_reason row)) (\<lambda>(to_status, blocked_reason).
         rbind (write_dependency now normalized (Some normalized_blocker) from_status to_status
                  blocked_reason ''ticket_dependency_set''
                  [(''previous_blocked_by'', jopt (t_blocked_by row)), (''actor'', JStr actor),
                   (''reason'', jopt reason)] db) (\<lambda>db'.
         Inr (db', \<lparr>dc_task_key = normalized, dc_blocked_by = Some normalized_blocker,
                    dc_previous_blocked_by = t_blocked_by row, dc_from_status = from_status,
                    dc_to_status = to_status\<rparr>)))))))"

definition remove_blocked_by ::
  "timestamp \<Rightarrow> string \<Rightarrow> string \<Rightarrow> string option \<Rightarrow> db \<Rightarrow> (db \<times> dependency_change) result" where
  "remove_blocked_by now task_key actor reason db =
     rbind (normalize_task_key task_key) (\<lambda>normalized.
     rbind (require_ticket_schema db) (\<lambda>_.
     rbind (ticket_row db normalized) (\<lambda>row.
       if \<not> truthy (t_blocked_by row) then Inl TicketDependencyError
       else
         let from_status = t_status row;
             (to_status, blocked_reason) =
               (if dependency_owned db row then (''created'', None)
                else (from_status, t_blocked_reason row))
         in rbind (write_dependency now normalized None from_status to_status blocked_reason
                     ''ticket_dependency_removed''
                     [(''previous_blocked_by'', jopt (t_blocked_by row)), (''actor'', JStr actor),
                      (''reason'', jopt reason)] db) (\<lambda>db'.
            Inr (db', \<lparr>dc_task_key = normalized, dc_blocked_by = None,
                       dc_previous_blocked_by = t_blocked_by row, dc_from_status = from_status,
                       dc_to_status = to_status\<rparr>)))))"

text \<open>The rows of the \<open>LEFT JOIN\<close>: dependents in key order with their blocker's status.\<close>

definition dependency_rows :: "db \<Rightarrow> (task_row \<times> string \<times> string option) list" where
  "dependency_rows db =
     [(t, b, task_status_of db b).
        t \<leftarrow> sort_key t_key (filter (\<lambda>t. t_prompt t \<noteq> None) (db_tasks db)),
        b \<leftarrow> (case t_blocked_by t of None \<Rightarrow> [] | Some b \<Rightarrow> [b])]"

datatype maintenance_action = Skip | Release | Defer | Stop bool

definition maintenance_decision ::
  "db \<Rightarrow> task_row \<Rightarrow> string option \<Rightarrow> maintenance_action" where
  "maintenance_decision db row blocker_status =
     (if blocker_status \<in> Some ` set COMPLETED_BLOCKER_STATUSES
      then (if t_status row = ''blocked'' \<and> is_dependency_blocked_reason (t_blocked_reason row)
               \<and> \<not> truthy (active_attempt_id db (t_key row))
            then Release else Skip)
      else if blocker_status = None \<or> blocker_status \<in> Some ` set STOPPED_BLOCKER_STATUSES
      then (if t_status row \<in> set RUNNING_STATUSES then Defer
            else if t_status row \<in> set NOT_REDIRECTED_STATUSES then Skip
            else let owned = (t_status row \<in> set READY_STATUSES \<or>
                     t_status row = ''blocked'' \<and> is_dependency_blocked_reason (t_blocked_reason row))
                 in if t_status row = ''blocked'' \<and> \<not> owned then Skip else Stop owned)
      else Skip)"

definition maintain_row ::
  "timestamp \<Rightarrow> string \<Rightarrow> task_row \<times> string \<times> string option
     \<Rightarrow> db \<times> dependency_maintenance_result \<Rightarrow> (db \<times> dependency_maintenance_result) result" where
  "maintain_row now actor r st =
     (case (r, st) of ((row, blocker, blocker_status), (db, res)) \<Rightarrow>
       (case maintenance_decision db row blocker_status of
          Skip \<Rightarrow> Inr (db, res)
        | Defer \<Rightarrow> Inr (db, res\<lparr>dm_deferred_running := dm_deferred_running res @ [t_key row]\<rparr>)
        | Release \<Rightarrow>
            rbind (write_dependency now (t_key row) None ''blocked'' ''created'' None
                     ''ticket_dependency_released''
                     [(''released_blocker'', JStr blocker), (''blocker_status'', jopt blocker_status),
                      (''actor'', JStr actor)] db) (\<lambda>db'.
            Inr (db', res\<lparr>dm_released := dm_released res @ [t_key row]\<rparr>))
        | Stop owned \<Rightarrow>
            rbind (write_dependency now (t_key row) (Some blocker) (t_status row) ''needs_decision''
                     None ''ticket_dependency_blocker_stopped''
                     [(''blocker_status'',
                       JStr (case blocker_status of None \<Rightarrow> ''missing'' | Some s \<Rightarrow> s)),
                      (''actor'', JStr actor), (''previous_status'', JStr (t_status row)),
                      (''dependency_owned'', JBool owned)] db) (\<lambda>db'.
            Inr (db', res\<lparr>dm_needs_decision := dm_needs_decision res @ [t_key row]\<rparr>))))"

fun fold_result :: "('r \<Rightarrow> 's \<Rightarrow> 's result) \<Rightarrow> 'r list \<Rightarrow> 's \<Rightarrow> 's result" where
  "fold_result f [] s = Inr s"
| "fold_result f (r # rs) s = rbind (f r s) (fold_result f rs)"

definition empty_maintenance :: dependency_maintenance_result where
  "empty_maintenance = \<lparr>dm_released = [], dm_needs_decision = [], dm_deferred_running = []\<rparr>"

definition maintain_dependencies ::
  "timestamp \<Rightarrow> string \<Rightarrow> db \<Rightarrow> (db \<times> dependency_maintenance_result) result" where
  "maintain_dependencies now actor db =
     (if ''tasks'' \<notin> set (db_tables db) \<or> \<not> tasks_has_ticket_columns db
      then Inr (db, empty_maintenance)
      else if \<not> list_ex (\<lambda>t. t_prompt t \<noteq> None \<and> t_blocked_by t \<noteq> None) (db_tasks db)
      then Inr (db, empty_maintenance)
      else fold_result (maintain_row now actor) (dependency_rows db) (db, empty_maintenance))"

definition unreleased_dependency_in_connection ::
  "db \<Rightarrow> string \<Rightarrow> (string \<times> string option) option result" where
  "unreleased_dependency_in_connection db task_key =
     (if ''blocked_by'' \<notin> set (db_task_columns db) then Inr None
      else rbind (normalize_task_key task_key) (\<lambda>key.
        Inr (case Option.bind (get_task db key) t_blocked_by of
               None \<Rightarrow> None
             | Some blocker \<Rightarrow>
                 if blocker = [] then None
                 else case get_task db blocker of
                        None \<Rightarrow> Some (blocker, None)
                      | Some b \<Rightarrow>
                          if t_status b \<in> set COMPLETED_BLOCKER_STATUSES then None
                          else Some (blocker, Some (t_status b)))))"

definition unreleased_blocker :: "db \<Rightarrow> string option \<Rightarrow> bool" where
  "unreleased_blocker db blocked_by =
     (truthy blocked_by \<and>
      (case task_status_of db (the blocked_by) of
         None \<Rightarrow> True
       | Some s \<Rightarrow> s \<notin> set COMPLETED_BLOCKER_STATUSES))"

section \<open>The dependency graph\<close>

definition blockers :: "db \<Rightarrow> string \<Rightarrow> string option" where
  "blockers db k =
     (case Option.bind (get_task db k) t_blocked_by of
        None \<Rightarrow> None
      | Some b \<Rightarrow> if b = [] then None else Some b)"

definition graph_of :: "(string \<Rightarrow> string option) \<Rightarrow> (string \<times> string) set" where
  "graph_of f = {(a, b). f a = Some b}"

definition deps_acyclic :: "db \<Rightarrow> bool" where
  "deps_acyclic db \<longleftrightarrow> acyclic (graph_of (blockers db))"

lemma graph_of_iff [simp]: "(a, b) \<in> graph_of f \<longleftrightarrow> f a = Some b"
  by (simp add: graph_of_def)

lemma graph_of_step:
  assumes "f a = Some b"
  shows "(a, c) \<in> (graph_of f)\<^sup>+ \<longleftrightarrow> b = c \<or> (b, c) \<in> (graph_of f)\<^sup>+"
  using assms by (auto dest: tranclD simp: rtrancl_eq_or_trancl intro: trancl_into_trancl2)

lemma graph_of_closed:
  assumes "\<forall>x \<in> S. \<exists>y \<in> S. f x = Some y \<and> y \<noteq> t" and "x \<in> S"
  shows "(x, t) \<notin> (graph_of f)\<^sup>+"
proof -
  have "z \<in> S \<and> z \<noteq> t" if "(x, z) \<in> (graph_of f)\<^sup>+" for z
    using that by (induction rule: trancl_induct) (use assms in \<open>fastforce+\<close>)
  then show ?thesis by blast
qed

lemma acyclic_fun_upd:
  assumes "acyclic (graph_of f)" and "a \<noteq> b" and "(b, a) \<notin> (graph_of f)\<^sup>+"
  shows "acyclic (graph_of (f(a \<mapsto> b)))"
proof -
  have "graph_of (f(a \<mapsto> b)) \<subseteq> insert (a, b) (graph_of f)"
    by (auto simp: graph_of_def split: if_splits)
  moreover have "acyclic (insert (a, b) (graph_of f))"
    using assms by (simp add: acyclic_insert rtrancl_eq_or_trancl)
  ultimately show ?thesis using acyclic_subset by blast
qed

lemma acyclic_fun_del: "acyclic (graph_of f) \<Longrightarrow> acyclic (graph_of (f(a := None)))"
  by (rule acyclic_subset) (auto simp: graph_of_def split: if_splits)

lemma cycle_loop_unfold:
  "cycle_loop db t path seen c =
     (case blockers db c of
        None \<Rightarrow> None
      | Some nxt \<Rightarrow>
          if nxt = t then Some (path @ [nxt])
          else if nxt \<in> set seen then None
          else cycle_loop db t (path @ [nxt]) (nxt # seen) nxt)"
  by (subst cycle_loop.simps) (auto simp: blockers_def split: option.splits)

lemma cycle_loop_sound:
  "cycle_loop db t path seen c = Some p \<Longrightarrow> (c, t) \<in> (graph_of (blockers db))\<^sup>+"
proof (induction db t path seen c rule: cycle_loop.induct)
  case (1 db t path seen c)
  obtain nxt where nxt: "blockers db c = Some nxt"
    using "1.prems" by (subst (asm) cycle_loop_unfold) (auto split: option.splits)
  show ?case
  proof (cases "nxt = t")
    case False
    with nxt "1.prems" have "nxt \<notin> set seen" "cycle_loop db t (path @ [nxt]) (nxt # seen) nxt = Some p"
      by (subst (asm) cycle_loop_unfold, simp split: if_splits)+
    moreover obtain row where "get_task db c = Some row" "t_blocked_by row = Some nxt" "nxt \<noteq> []"
      using nxt by (auto simp: blockers_def split: option.splits if_splits bind_splits)
    ultimately have "(nxt, t) \<in> (graph_of (blockers db))\<^sup>+"
      using "1.IH" False by blast
    then show ?thesis using nxt by (simp add: graph_of_step)
  qed (use nxt in auto)
qed

lemma cycle_loop_complete:
  "\<lbrakk>cycle_loop db t path seen c = None; c \<in> set seen;
     \<forall>x \<in> set seen. x = c \<or> (\<exists>y \<in> set seen. blockers db x = Some y \<and> y \<noteq> t)\<rbrakk>
   \<Longrightarrow> (c, t) \<notin> (graph_of (blockers db))\<^sup>+"
proof (induction db t path seen c rule: cycle_loop.induct)
  case (1 db t path seen c)
  show ?case
  proof (cases "blockers db c")
    case None
    then show ?thesis by (auto dest: tranclD)
  next
    case (Some nxt)
    have neq: "nxt \<noteq> t" using "1.prems"(1) Some by (subst (asm) cycle_loop_unfold) auto
    show ?thesis
    proof (cases "nxt \<in> set seen")
      case True
      then have "\<forall>x \<in> set seen. \<exists>y \<in> set seen. blockers db x = Some y \<and> y \<noteq> t"
        using "1.prems"(2,3) Some neq by metis
      then show ?thesis using graph_of_closed "1.prems"(2) by blast
    next
      case False
      then have rec: "cycle_loop db t (path @ [nxt]) (nxt # seen) nxt = None"
        using "1.prems"(1) Some neq by (subst (asm) cycle_loop_unfold) simp
      obtain row where row: "get_task db c = Some row" "t_blocked_by row = Some nxt" "nxt \<noteq> []"
        using Some by (auto simp: blockers_def split: option.splits if_splits bind_splits)
      have "\<forall>x \<in> set (nxt # seen). x = nxt \<or>
          (\<exists>y \<in> set (nxt # seen). blockers db x = Some y \<and> y \<noteq> t)"
        using "1.prems"(3) Some neq by auto
      then have "(nxt, t) \<notin> (graph_of (blockers db))\<^sup>+"
        using "1.IH" [OF row neq False rec] by simp
      then show ?thesis using Some neq by (simp add: graph_of_step)
    qed
  qed
qed

lemma cycle_path_None_iff:
  "cycle_path db task_key blocker = None \<longleftrightarrow>
     (blocker, task_key) \<notin> (graph_of (blockers db))\<^sup>+"
proof
  assume "cycle_path db task_key blocker = None"
  then show "(blocker, task_key) \<notin> (graph_of (blockers db))\<^sup>+"
    unfolding cycle_path_def by (rule cycle_loop_complete) simp_all
next
  assume "(blocker, task_key) \<notin> (graph_of (blockers db))\<^sup>+"
  then show "cycle_path db task_key blocker = None"
    unfolding cycle_path_def using cycle_loop_sound by (metis not_None_eq)
qed

section \<open>What a dependency write does\<close>

definition dependency_update ::
  "timestamp \<Rightarrow> string option \<Rightarrow> string \<Rightarrow> string option \<Rightarrow> task_row \<Rightarrow> task_row" where
  "dependency_update now bb to reason t =
     t\<lparr>t_blocked_by := bb, t_status := to, t_blocked_reason := reason,
       t_updated_at := now, t_last_synced_at := Some now\<rparr>"

lemma dependency_update_key [simp]: "t_key (dependency_update now bb to reason t) = t_key t"
  by (simp add: dependency_update_def)

text \<open>Both branches of \<open>_write\<close> are one conditional update of the row, then event inserts.\<close>

lemma write_dependency_shape:
  assumes "write_dependency now k bb from to reason kind payload db = Inr db'"
  shows "\<exists>db1 f p. db1 = update_tasks (\<lambda>t. t_key t = k \<and> p t) f db \<and> events_only db1 db' \<and>
     (\<forall>t. t_key (f t) = t_key t) \<and>
     (\<forall>t. t_status t = from \<longrightarrow> p t \<and> f t = dependency_update now bb to reason t)"
proof -
  obtain db1 where ev: "events_only db1 db'" and
    u: "(if from = to
         then Inr (update_tasks (\<lambda>t. t_key t = k)
                (\<lambda>t. t\<lparr>t_blocked_by := bb, t_blocked_reason := reason,
                       t_updated_at := now, t_last_synced_at := Some now\<rparr>) db)
         else update_tasks_status now (\<lambda>t. t_key t = k \<and> t_status t = from)
                (\<lambda>t. t\<lparr>t_blocked_by := bb, t_status := to, t_blocked_reason := reason,
                       t_updated_at := now, t_last_synced_at := Some now\<rparr>) db) = Inr db1"
    using assms unfolding write_dependency_def
    by (fastforce simp: rbind_Inr_iff dest: insert_event_events_only
        intro: events_only_trans split: if_splits)
  show ?thesis
  proof (cases "from = to")
    case True
    then show ?thesis using u ev
      by (intro exI [of _ db1] exI [of _ "\<lambda>t. t\<lparr>t_blocked_by := bb, t_blocked_reason := reason,
            t_updated_at := now, t_last_synced_at := Some now\<rparr>"] exI [of _ "\<lambda>_. True"])
         (auto simp: dependency_update_def)
  next
    case False
    then show ?thesis using u ev
      by (intro exI [of _ db1] exI [of _ "dependency_update now bb to reason"]
            exI [of _ "\<lambda>t. t_status t = from"])
         (auto simp: dependency_update_def [abs_def] update_tasks_status_Inr)
  qed
qed

lemma write_dependency_effect:
  assumes w: "write_dependency now k bb from to reason kind payload db = Inr db'"
    and row: "get_task db k = Some row" and st: "t_status row = from"
  shows "get_task db' k = Some (dependency_update now bb to reason row)"
    and "k' \<noteq> k \<Longrightarrow> get_task db' k' = get_task db k'"
    and "map t_key (db_tasks db') = map t_key (db_tasks db)"
    and "db_task_columns db' = db_task_columns db" and "db_attempts db' = db_attempts db"
    and "map lease_core (db_leases db') = map lease_core (db_leases db)"
proof -
  obtain db1 f p where db1: "db1 = update_tasks (\<lambda>t. t_key t = k \<and> p t) f db"
    and ev: "events_only db1 db'" and key: "\<And>t. t_key (f t) = t_key t"
    and f: "p row" "f row = dependency_update now bb to reason row"
    using write_dependency_shape [OF w] st by blast
  note ev = events_onlyD [OF ev]
  show "get_task db' k = Some (dependency_update now bb to reason row)"
    using row f key by (simp add: ev db1) (simp add: get_task_def find_map_where_guarded)
  show "k' \<noteq> k \<Longrightarrow> get_task db' k' = get_task db k'"
    using key by (simp add: ev db1) (simp add: get_task_def find_map_where_guarded_other)
  show "map t_key (db_tasks db') = map t_key (db_tasks db)"
    using key by (simp add: ev db1 map_map_where)
  show "db_task_columns db' = db_task_columns db" "db_attempts db' = db_attempts db"
    "map lease_core (db_leases db') = map lease_core (db_leases db)"
    by (simp_all add: ev db1)
qed

definition non_blank :: "string option \<Rightarrow> string option" where
  "non_blank v = (if v = Some [] then None else v)"

lemma blockers_eq: "blockers db k = non_blank (Option.bind (get_task db k) t_blocked_by)"
  by (auto simp: blockers_def non_blank_def split: option.split)

lemma write_dependency_blockers:
  assumes "write_dependency now k bb from to reason kind payload db = Inr db'"
    and "get_task db k = Some row" and "t_status row = from"
  shows "blockers db' = (blockers db)(k := non_blank bb)"
proof
  fix x
  show "blockers db' x = ((blockers db)(k := non_blank bb)) x"
    using write_dependency_effect(1) [OF assms] write_dependency_effect(2) [OF assms, of x]
    by (cases "x = k") (simp_all add: blockers_eq dependency_update_def)
qed

text \<open>A write whose target status no trigger guards always goes through.\<close>

lemma write_dependency_ok:
  assumes "get_task db k \<noteq> None" and "to = from \<or> to \<in> {''created'', ''needs_decision''}"
    and "kind \<noteq> ''executor_run_started''"
  shows "\<exists>db'. write_dependency now k bb from to reason kind payload db = Inr db'"
proof -
  have g: "to \<in> {''created'', ''needs_decision''} \<Longrightarrow>
      tasks_status_guard now d old (old\<lparr>t_blocked_by := bb, t_status := to,
      t_blocked_reason := reason, t_updated_at := now, t_last_synced_at := Some now\<rparr>) = Inr ()"
    for d old
    by (rule tasks_status_guard_free) (use unguarded_statuses in auto)
  let ?u = "(if from = to
         then Inr (update_tasks (\<lambda>t. t_key t = k)
                (\<lambda>t. t\<lparr>t_blocked_by := bb, t_blocked_reason := reason,
                       t_updated_at := now, t_last_synced_at := Some now\<rparr>) db)
         else update_tasks_status now (\<lambda>t. t_key t = k \<and> t_status t = from)
                (\<lambda>t. t\<lparr>t_blocked_by := bb, t_status := to, t_blocked_reason := reason,
                       t_updated_at := now, t_last_synced_at := Some now\<rparr>) db)"
  have "\<exists>db1. ?u = Inr db1 \<and> map t_key (db_tasks db1) = map t_key (db_tasks db)"
  proof (cases "from = to")
    case False
    then show ?thesis using assms(2) g by (simp add: update_tasks_status_Inr map_map_where)
  qed (simp add: map_map_where)
  then obtain db1 where u: "?u = Inr db1" and keys: "map t_key (db_tasks db1) = map t_key (db_tasks db)"
    by blast
  have k1: "get_task db1 k \<noteq> None"
    using assms(1) keys by (metis (no_types, lifting) get_task_keys)
  let ?pl = "JObj [(''status'', JStr to), (''blocked_reason'',
       if to = ''blocked'' then jopt reason else JNull)]"
  obtain db2 where e1: "(if from \<noteq> to
      then insert_event k ''status_changed'' DEPENDENCY_SOURCE ?pl now db1 else Inr db1) = Inr db2"
    and k2: "get_task db2 k \<noteq> None"
  proof (cases "from = to")
    case False
    obtain d where d: "insert_event k ''status_changed'' DEPENDENCY_SOURCE ?pl now db1 = Inr d"
      using insert_event_ok [OF k1] by (force simp: executor_start_ok_def)
    then have "get_task d k \<noteq> None" using k1 events_onlyD(11) [OF insert_event_events_only] by metis
    then show ?thesis using that d False by simp
  qed (use that k1 in simp)
  have "\<exists>d. insert_event k ''note'' DEPENDENCY_SOURCE
      (JObj ([(''kind'', JStr kind), (''from_status'', JStr from), (''to_status'', JStr to),
        (''blocked_by'', jopt bb)] @ payload)) now db2 = Inr d"
    using assms(3) by (intro insert_event_ok k2) (simp add: executor_start_ok_def)
  then show ?thesis unfolding write_dependency_def u e1 rbind_simps by (simp only: u e1 rbind_simps)
qed

section \<open>The effect of each operation\<close>

lemma ticket_row_Inr:
  "ticket_row db k = Inr row \<longleftrightarrow> get_task db k = Some row \<and> t_prompt row \<noteq> None"
  by (auto simp: ticket_row_def split: option.splits)

lemma validate_dependency_Inr:
  "validate_dependency db k b = Inr row \<longleftrightarrow>
     get_task db k = Some row \<and> t_prompt row \<noteq> None \<and> b \<noteq> k \<and> get_task db b \<noteq> None \<and>
     (b, k) \<notin> (graph_of (blockers db))\<^sup>+"
  by (auto simp: validate_dependency_def rbind_Inr_iff ticket_row_Inr cycle_path_None_iff
      split: if_splits)

lemma set_blocked_by_Inr:
  assumes "set_blocked_by now task_key blocker actor reason db = Inr (db', change)"
  obtains k b row to br kind payload where
    "normalize_task_key task_key = Inr k" "normalize_task_key blocker = Inr b"
    "validate_dependency db k b = Inr row"
    "write_dependency now k (Some b) (t_status row) to br kind payload db = Inr db'"
    "to = (if t_status row \<in> set READY_STATUSES \<or> dependency_owned db row
           then ''blocked'' else t_status row)"
    "t_status row \<in> set READY_STATUSES \<longrightarrow> \<not> truthy (active_attempt_id db k)"
    "dc_to_status change = to" "dc_from_status change = t_status row"
  using assms
  by (auto simp: set_blocked_by_def rbind_Inr_iff Let_def split: if_splits prod.splits)

lemma remove_blocked_by_Inr:
  assumes "remove_blocked_by now task_key actor reason db = Inr (db', change)"
  obtains k row to br kind payload where
    "normalize_task_key task_key = Inr k" "get_task db k = Some row" "truthy (t_blocked_by row)"
    "write_dependency now k None (t_status row) to br kind payload db = Inr db'"
    "to = (if dependency_owned db row then ''created'' else t_status row)"
  using assms
  by (auto simp: remove_blocked_by_def rbind_Inr_iff ticket_row_Inr Let_def
      split: if_splits prod.splits)

lemma set_blocked_by_blockers:
  assumes "set_blocked_by now task_key blocker actor reason db = Inr (db', change)"
  shows "\<exists>k b. blockers db' = (blockers db)(k \<mapsto> b) \<and> k \<noteq> b \<and>
     (b, k) \<notin> (graph_of (blockers db))\<^sup>+"
  using assms
proof (rule set_blocked_by_Inr)
  fix k b row to br kind payload
  assume n: "normalize_task_key blocker = Inr b" and v: "validate_dependency db k b = Inr row"
    and w: "write_dependency now k (Some b) (t_status row) to br kind payload db = Inr db'"
  have "blockers db' = (blockers db)(k := non_blank (Some b))"
    using write_dependency_blockers [OF w] v by (simp add: validate_dependency_Inr)
  moreover have "b \<noteq> []" using n by (auto simp: normalize_task_key_Inr)
  ultimately show ?thesis using v by (auto simp: validate_dependency_Inr non_blank_def)
qed

lemma remove_blocked_by_blockers:
  assumes "remove_blocked_by now task_key actor reason db = Inr (db', change)"
  shows "\<exists>k. blockers db' = (blockers db)(k := None)"
  using assms
proof (rule remove_blocked_by_Inr)
  fix k row to br kind payload
  assume "get_task db k = Some row"
    and w: "write_dependency now k None (t_status row) to br kind payload db = Inr db'"
  then have "blockers db' = (blockers db)(k := non_blank None)"
    by (intro write_dependency_blockers [OF w]) simp_all
  then show ?thesis by (auto simp: non_blank_def)
qed

subsection \<open>The maintenance pass\<close>

lemma dependency_rows_mem:
  assumes "distinct (map t_key (db_tasks db))" and "(row, b, bs) \<in> set (dependency_rows db)"
  shows "get_task db (t_key row) = Some row" "t_prompt row \<noteq> None" "t_blocked_by row = Some b"
    "bs = task_status_of db b"
proof -
  have row: "row \<in> set (db_tasks db)" "t_prompt row \<noteq> None" "t_blocked_by row = Some b"
    "bs = task_status_of db b"
    using assms(2) by (auto simp: dependency_rows_def split: option.splits)
  show "get_task db (t_key row) = Some row"
    using find_distinct_key [OF assms(1) row(1)] by (simp add: get_task_def)
  show "t_prompt row \<noteq> None" "t_blocked_by row = Some b" "bs = task_status_of db b"
    using row by simp_all
qed

lemma join_rows_distinct:
  "distinct (map t_key ts) \<Longrightarrow>
   distinct (map (t_key \<circ> fst)
     [(t, b, g b). t \<leftarrow> ts, b \<leftarrow> (case t_blocked_by t of None \<Rightarrow> [] | Some b \<Rightarrow> [b])])"
  by (induction ts) (auto split: option.splits)

lemma dependency_rows_distinct:
  assumes "distinct (map t_key (db_tasks db))"
  shows "distinct (map (t_key \<circ> fst) (dependency_rows db))"
  unfolding dependency_rows_def using assms
  by (intro join_rows_distinct) (auto simp: distinct_map inj_on_def)

text \<open>What a pass that has got to \<open>(db, res)\<close> has done so far, key by key.\<close>

definition maintained ::
  "timestamp \<Rightarrow> db \<Rightarrow> db \<times> dependency_maintenance_result \<Rightarrow> string \<Rightarrow> bool" where
  "maintained now db0 st k \<longleftrightarrow>
     (k \<in> set (dm_released (snd st)) \<longrightarrow>
        (\<exists>t b. get_task db0 k = Some t \<and> t_status t = ''blocked'' \<and> t_blocked_by t = Some b \<and>
           t_prompt t \<noteq> None \<and> is_dependency_blocked_reason (t_blocked_reason t) \<and> \<not> truthy (active_attempt_id db0 k) \<and>
           task_status_of db0 b \<in> Some ` set COMPLETED_BLOCKER_STATUSES \<and>
           get_task (fst st) k = Some (dependency_update now None ''created'' None t))) \<and>
     (k \<in> set (dm_needs_decision (snd st)) \<longrightarrow>
        (\<exists>t b. get_task db0 k = Some t \<and> t_prompt t \<noteq> None \<and>
           t_status t \<notin> set RUNNING_STATUSES \<union> set NOT_REDIRECTED_STATUSES \<and>
           (t_status t = ''blocked'' \<longrightarrow> is_dependency_blocked_reason (t_blocked_reason t)) \<and> t_blocked_by t = Some b \<and>
           (task_status_of db0 b = None \<or> task_status_of db0 b \<in> Some ` set STOPPED_BLOCKER_STATUSES) \<and>
           get_task (fst st) k = Some (dependency_update now (Some b) ''needs_decision'' None t))) \<and>
     (k \<notin> set (dm_released (snd st)) \<union> set (dm_needs_decision (snd st)) \<longrightarrow>
        get_task (fst st) k = get_task db0 k) \<and>
     db_task_columns (fst st) = db_task_columns db0"

definition touched :: "dependency_maintenance_result \<Rightarrow> string set" where
  "touched res = set (dm_released res) \<union> set (dm_needs_decision res)"

text \<open>A decision that was due has been carried out.\<close>

definition carried_out :: "maintenance_action \<Rightarrow> string \<Rightarrow> dependency_maintenance_result \<Rightarrow> bool" where
  "carried_out a k res \<longleftrightarrow>
     (case a of Release \<Rightarrow> k \<in> set (dm_released res) | Stop _ \<Rightarrow> k \<in> set (dm_needs_decision res) | _ \<Rightarrow> True)"

lemma maintain_row_step:
  assumes row: "get_task db0 (t_key row) = Some row" "t_blocked_by row = Some b" "t_prompt row \<noteq> None"
      "bs = task_status_of db0 b"
    and inv: "\<forall>k. maintained now db0 (db, res) k" and fresh: "t_key row \<notin> touched res"
  shows "\<exists>st'. maintain_row now actor (row, b, bs) (db, res) = Inr st' \<and>
     (\<forall>k. maintained now db0 st' k) \<and> touched (snd st') \<subseteq> insert (t_key row) (touched res) \<and>
     (blockers (fst st') = blockers db \<or> blockers (fst st') = (blockers db)(t_key row := None)) \<and>
     map t_key (db_tasks (fst st')) = map t_key (db_tasks db) \<and>
     carried_out (maintenance_decision db0 row bs) (t_key row) (snd st') \<and>
     (\<forall>a k. carried_out a k res \<longrightarrow> carried_out a k (snd st'))"
proof -
  have cur: "get_task db (t_key row) = Some row"
    using inv fresh row(1) by (auto simp: maintained_def touched_def)
  have cols: "db_task_columns db = db_task_columns db0" using inv by (simp add: maintained_def)
  have active: "active_attempt_id db (t_key row) = active_attempt_id db0 (t_key row)"
    by (simp add: active_attempt_id_def cur row(1) cols)
  have decision: "maintenance_decision db0 row bs = maintenance_decision db row bs"
    by (simp add: maintenance_decision_def active)
  show ?thesis
  proof (cases "maintenance_decision db row bs")
    case Skip
    then show ?thesis using inv by (intro exI [of _ "(db, res)"]) (auto simp: maintain_row_def decision carried_out_def)
  next
    case Defer
    then show ?thesis
      using inv by (auto simp: maintain_row_def maintained_def touched_def decision carried_out_def split: maintenance_action.splits)
  next
    case Release
    then have st: "t_status row = ''blocked''" "is_dependency_blocked_reason (t_blocked_reason row)"
      "bs \<in> Some ` set COMPLETED_BLOCKER_STATUSES" "\<not> truthy (active_attempt_id db0 (t_key row))"
      unfolding active [symmetric] by (auto simp: maintenance_decision_def Let_def split: if_splits)
    obtain db' where w: "write_dependency now (t_key row) None ''blocked'' ''created'' None
        ''ticket_dependency_released''
        [(''released_blocker'', JStr b), (''blocker_status'', jopt bs), (''actor'', JStr actor)] db
        = Inr db'"
      using write_dependency_ok [of db "t_key row"] cur by fastforce
    note eff = write_dependency_effect [OF w cur st(1)]
    have "maintained now db0 (db', res\<lparr>dm_released := dm_released res @ [t_key row]\<rparr>) k" for k
      using inv [rule_format, of k] eff(1) eff(2) [of k] eff(4) row st fresh
      by (cases "k = t_key row") (auto simp: maintained_def touched_def)
    then show ?thesis
      using Release w write_dependency_blockers [OF w cur st(1)] eff(3)
      by (auto simp: maintain_row_def non_blank_def touched_def decision carried_out_def split: maintenance_action.splits)
  next
    case (Stop owned)
    then have st: "t_status row \<notin> set RUNNING_STATUSES \<union> set NOT_REDIRECTED_STATUSES"
      "t_status row = ''blocked'' \<longrightarrow> is_dependency_blocked_reason (t_blocked_reason row)"
      "bs = None \<or> bs \<in> Some ` set STOPPED_BLOCKER_STATUSES"
      by (auto simp: maintenance_decision_def Let_def READY_STATUSES_def split: if_splits)
    obtain db' where w: "write_dependency now (t_key row) (Some b) (t_status row) ''needs_decision''
        None ''ticket_dependency_blocker_stopped''
        [(''blocker_status'', JStr (case bs of None \<Rightarrow> ''missing'' | Some s \<Rightarrow> s)),
         (''actor'', JStr actor), (''previous_status'', JStr (t_status row)),
         (''dependency_owned'', JBool owned)] db = Inr db'"
      using write_dependency_ok [of db "t_key row"] cur by fastforce
    note eff = write_dependency_effect [OF w cur refl]
    have "maintained now db0 (db', res\<lparr>dm_needs_decision := dm_needs_decision res @ [t_key row]\<rparr>) k"
      for k
      using inv [rule_format, of k] eff(1) eff(2) [of k] eff(4) row st fresh
      by (cases "k = t_key row") (auto simp: maintained_def touched_def)
    moreover have "blockers db' = blockers db"
      using write_dependency_blockers [OF w cur refl] cur row(2)
      by (auto simp: blockers_eq)
    ultimately show ?thesis
      using Stop w eff(3)
      by (auto simp: maintain_row_def touched_def decision carried_out_def split: maintenance_action.splits)
  qed
qed

lemma maintain_fold:
  assumes "\<forall>(row, b, bs) \<in> set rs. get_task db0 (t_key row) = Some row \<and>
      t_blocked_by row = Some b \<and> t_prompt row \<noteq> None \<and> bs = task_status_of db0 b"
    and "distinct (map (t_key \<circ> fst) rs)" and "\<forall>k. maintained now db0 (db, res) k"
    and "touched res \<inter> set (map (t_key \<circ> fst) rs) = {}" and "acyclic (graph_of (blockers db))"
  shows "\<exists>st'. fold_result (maintain_row now actor) rs (db, res) = Inr st' \<and>
     (\<forall>k. maintained now db0 st' k) \<and> acyclic (graph_of (blockers (fst st'))) \<and>
     map t_key (db_tasks (fst st')) = map t_key (db_tasks db) \<and>
     (\<forall>(row, b, bs) \<in> set rs. carried_out (maintenance_decision db0 row bs) (t_key row) (snd st')) \<and>
     (\<forall>a k. carried_out a k res \<longrightarrow> carried_out a k (snd st'))"
  using assms
proof (induction rs arbitrary: db res)
  case Nil
  then show ?case by simp
next
  case (Cons r rs)
  obtain row b bs where r: "r = (row, b, bs)" by (cases r) auto
  have "get_task db0 (t_key row) = Some row" "t_blocked_by row = Some b" "t_prompt row \<noteq> None" "bs = task_status_of db0 b"
    and "t_key row \<notin> touched res"
    using Cons.prems(1,4) r by auto
  from maintain_row_step [OF this(1-4) Cons.prems(3) this(5)]
  obtain db1 res1 where step: "maintain_row now actor r (db, res) = Inr (db1, res1)"
    "\<forall>k. maintained now db0 (db1, res1) k" "touched res1 \<subseteq> insert (t_key row) (touched res)"
    "blockers db1 = blockers db \<or> blockers db1 = (blockers db)(t_key row := None)"
    "map t_key (db_tasks db1) = map t_key (db_tasks db)"
    "carried_out (maintenance_decision db0 row bs) (t_key row) res1" "\<forall>a k. carried_out a k res \<longrightarrow> carried_out a k res1"
    unfolding r by (metis prod.collapse)
  have "acyclic (graph_of (blockers db1))"
    using step(4) Cons.prems(5) acyclic_fun_del by auto
  moreover have "touched res1 \<inter> set (map (t_key \<circ> fst) rs) = {}"
  proof -
    define K where "K = set (map (t_key \<circ> fst) rs)"
    have "t_key row \<notin> K" using Cons.prems(2) by (simp add: r K_def)
    moreover have "touched res \<inter> insert (t_key row) K = {}"
      using Cons.prems(4) by (simp add: r K_def)
    ultimately show ?thesis using step(3) unfolding K_def [symmetric] by blast
  qed
  ultimately obtain st' where rest: "fold_result (maintain_row now actor) rs (db1, res1) = Inr st'"
     "\<forall>k. maintained now db0 st' k" "acyclic (graph_of (blockers (fst st')))"
     "map t_key (db_tasks (fst st')) = map t_key (db_tasks db1)"
     "\<forall>(row, b, bs) \<in> set rs. carried_out (maintenance_decision db0 row bs) (t_key row) (snd st')"
     "\<forall>a k. carried_out a k res1 \<longrightarrow> carried_out a k (snd st')"
    using Cons.IH [OF _ _ step(2)] Cons.prems(1,2) by auto
  then show ?case using step(1,5,6,7) by (intro exI [of _ st']) (auto simp: r)
qed

lemma maintained_start: "maintained now db (db, empty_maintenance) k"
  by (simp add: maintained_def empty_maintenance_def)

lemma dependency_rows_complete:
  assumes "t \<in> set (db_tasks db)" "t_prompt t \<noteq> None" "t_blocked_by t = Some b"
  shows "(t, b, task_status_of db b) \<in> set (dependency_rows db)"
  using assms by (force simp: dependency_rows_def)

lemma maintain_dependencies_spec:
  assumes "distinct (map t_key (db_tasks db))" and "acyclic (graph_of (blockers db))"
  shows "\<exists>st'. maintain_dependencies now actor db = Inr st' \<and> (\<forall>k. maintained now db st' k) \<and>
     acyclic (graph_of (blockers (fst st'))) \<and>
     map t_key (db_tasks (fst st')) = map t_key (db_tasks db) \<and>
     (''tasks'' \<in> set (db_tables db) \<and> tasks_has_ticket_columns db \<longrightarrow>
        (\<forall>t b. t \<in> set (db_tasks db) \<and> t_prompt t \<noteq> None \<and> t_blocked_by t = Some b \<longrightarrow>
           carried_out (maintenance_decision db t (task_status_of db b)) (t_key t) (snd st')))"
proof -
  have "\<exists>st'. fold_result (maintain_row now actor) (dependency_rows db) (db, empty_maintenance) = Inr st' \<and>
     (\<forall>k. maintained now db st' k) \<and> acyclic (graph_of (blockers (fst st'))) \<and>
     map t_key (db_tasks (fst st')) = map t_key (db_tasks db) \<and>
     (\<forall>(row, b, bs) \<in> set (dependency_rows db). carried_out (maintenance_decision db row bs) (t_key row) (snd st')) \<and>
     (\<forall>a k. carried_out a k empty_maintenance \<longrightarrow> carried_out a k (snd st'))"
    using dependency_rows_mem [OF assms(1)] dependency_rows_distinct [OF assms(1)] assms(2)
    by (intro maintain_fold allI maintained_start) (auto simp: touched_def empty_maintenance_def)
  then obtain st' where f: "fold_result (maintain_row now actor) (dependency_rows db) (db, empty_maintenance) = Inr st'"
     "\<forall>k. maintained now db st' k" "acyclic (graph_of (blockers (fst st')))"
     "map t_key (db_tasks (fst st')) = map t_key (db_tasks db)"
     "\<forall>(row, b, bs) \<in> set (dependency_rows db). carried_out (maintenance_decision db row bs) (t_key row) (snd st')"
    by blast
  have "\<forall>t b. t \<in> set (db_tasks db) \<and> t_prompt t \<noteq> None \<and> t_blocked_by t = Some b \<longrightarrow>
      carried_out (maintenance_decision db t (task_status_of db b)) (t_key t) (snd st')"
    using f(5) dependency_rows_complete by fast
  then have work: ?thesis if "''tasks'' \<in> set (db_tables db)" "tasks_has_ticket_columns db"
      "list_ex (\<lambda>t. t_prompt t \<noteq> None \<and> t_blocked_by t \<noteq> None) (db_tasks db)"
    using that f by (intro exI [of _ st']) (simp add: maintain_dependencies_def)
  have idle: ?thesis if "maintain_dependencies now actor db = Inr (db, empty_maintenance)"
      "\<not> (''tasks'' \<in> set (db_tables db) \<and> tasks_has_ticket_columns db \<and>
          list_ex (\<lambda>t. t_prompt t \<noteq> None \<and> t_blocked_by t \<noteq> None) (db_tasks db))"
    using that assms(2) maintained_start by (intro exI [of _ "(db, empty_maintenance)"]) (auto simp: list_ex_iff)
  show ?thesis
  proof (cases "''tasks'' \<in> set (db_tables db) \<and> tasks_has_ticket_columns db \<and>
      list_ex (\<lambda>t. t_prompt t \<noteq> None \<and> t_blocked_by t \<noteq> None) (db_tasks db)")
    case True
    then show ?thesis using work by blast
  next
    case False
    then have "maintain_dependencies now actor db = Inr (db, empty_maintenance)" by (auto simp: maintain_dependencies_def)
    then show ?thesis by (rule idle [OF _ False])
  qed
qed

lemma maintained_blockers:
  assumes "\<forall>k. maintained now db st k"
  shows "blockers (fst st) =
     (\<lambda>k. if k \<in> set (dm_released (snd st)) then None else blockers db k)"
proof
  fix k
  note m = assms [rule_format, of k, unfolded maintained_def]
  show "blockers (fst st) k = (if k \<in> set (dm_released (snd st)) then None else blockers db k)"
  proof (cases "k \<in> set (dm_released (snd st))")
    case True
    then obtain t where "get_task (fst st) k = Some (dependency_update now None ''created'' None t)"
      using m by blast
    then show ?thesis using True by (simp add: blockers_eq dependency_update_def non_blank_def)
  next
    case out: False
    show ?thesis
    proof (cases "k \<in> set (dm_needs_decision (snd st))")
      case True
      then obtain t b where "get_task db k = Some t" "t_blocked_by t = Some b"
        "get_task (fst st) k = Some (dependency_update now (Some b) ''needs_decision'' None t)"
        using m by blast
      then show ?thesis using out by (simp add: blockers_eq dependency_update_def)
    next
      case False
      then have "get_task (fst st) k = get_task db k" using m out by blast
      then show ?thesis using out by (simp add: blockers_eq)
    qed
  qed
qed

section \<open>The store contract and its interpretation\<close>

text \<open>
  What a store of \<open>blocked_by\<close> links promises: an accepted link starts at a key its target
  does not already reach, and every other operation only removes links. Under that contract
  no history builds a cycle.
\<close>

locale dep_store =
  fixes graph :: "'s \<Rightarrow> string \<Rightarrow> string option"
    and inv :: "'s \<Rightarrow> bool"
    and link :: "'l \<Rightarrow> 's \<Rightarrow> 's option"
    and unlink :: "'u \<Rightarrow> 's \<Rightarrow> 's option"
  assumes link_inv: "\<lbrakk>inv s; link l s = Some s'\<rbrakk> \<Longrightarrow> inv s'"
    and link_law: "\<lbrakk>inv s; link l s = Some s'\<rbrakk> \<Longrightarrow>
      \<exists>a b. graph s' = (graph s)(a \<mapsto> b) \<and> a \<noteq> b \<and> (b, a) \<notin> (graph_of (graph s))\<^sup>+"
    and unlink_inv: "\<lbrakk>inv s; acyclic (graph_of (graph s)); unlink u s = Some s'\<rbrakk> \<Longrightarrow> inv s'"
    and unlink_law: "\<lbrakk>inv s; acyclic (graph_of (graph s)); unlink u s = Some s'\<rbrakk> \<Longrightarrow>
      \<exists>A. graph s' = (\<lambda>k. if k \<in> A then None else graph s k)"
begin

lemma link_acyclic:
  "\<lbrakk>inv s; acyclic (graph_of (graph s)); link l s = Some s'\<rbrakk> \<Longrightarrow> acyclic (graph_of (graph s'))"
  using link_law acyclic_fun_upd by metis

lemma unlink_acyclic:
  assumes "inv s" "acyclic (graph_of (graph s))" "unlink u s = Some s'"
  shows "acyclic (graph_of (graph s'))"
proof -
  obtain A where "graph s' = (\<lambda>k. if k \<in> A then None else graph s k)"
    using unlink_law [OF assms] by blast
  then have "graph_of (graph s') \<subseteq> graph_of (graph s)"
    by (auto simp: graph_of_def split: if_splits)
  then show ?thesis using assms(2) acyclic_subset by blast
qed

lemma history_acyclic:
  assumes "inv s" "acyclic (graph_of (graph s))"
  shows "inv (run_ops (case_sum link unlink) ops s) \<and>
     acyclic (graph_of (graph (run_ops (case_sum link unlink) ops s)))"
proof (rule run_ops_invariant [where I = "\<lambda>s. inv s \<and> acyclic (graph_of (graph s))"])
  fix x s s'
  assume step: "case_sum link unlink x s = Some s'" and i: "inv s \<and> acyclic (graph_of (graph s))"
  show "inv s' \<and> acyclic (graph_of (graph s'))"
  proof (cases x)
    case (Inl l)
    then have "link l s = Some s'" using step by simp
    then show ?thesis using i link_inv link_acyclic by blast
  next
    case (Inr u)
    then have "unlink u s = Some s'" using step by simp
    then show ?thesis using i unlink_inv unlink_acyclic by blast
  qed
qed (use assms in simp)

end

datatype set_op = SetBlockedBy timestamp string string string "string option"

datatype drop_op =
    RemoveBlockedBy timestamp string string "string option"
  | MaintainDependencies timestamp string

fun set_step :: "set_op \<Rightarrow> db \<Rightarrow> db option" where
  "set_step (SetBlockedBy now task_key blocker actor reason) db =
     committed (set_blocked_by now task_key blocker actor reason db)"

fun drop_step :: "drop_op \<Rightarrow> db \<Rightarrow> db option" where
  "drop_step (RemoveBlockedBy now task_key actor reason) db =
     committed (remove_blocked_by now task_key actor reason db)"
| "drop_step (MaintainDependencies now actor) db = committed (maintain_dependencies now actor db)"

definition keys_distinct :: "db \<Rightarrow> bool" where
  "keys_distinct db \<longleftrightarrow> distinct (map t_key (db_tasks db))"

lemma set_blocked_by_keys:
  assumes "set_blocked_by now task_key blocker actor reason db = Inr (db', change)"
  shows "map t_key (db_tasks db') = map t_key (db_tasks db)"
  using assms
proof (rule set_blocked_by_Inr)
  fix k b row to br kind payload
  assume "validate_dependency db k b = Inr row"
    and w: "write_dependency now k (Some b) (t_status row) to br kind payload db = Inr db'"
  then show ?thesis
    by (intro write_dependency_effect(3) [OF w]) (simp_all add: validate_dependency_Inr)
qed

lemma remove_blocked_by_keys:
  assumes "remove_blocked_by now task_key actor reason db = Inr (db', change)"
  shows "map t_key (db_tasks db') = map t_key (db_tasks db)"
  using assms
proof (rule remove_blocked_by_Inr)
  fix k row to br kind payload
  assume row: "get_task db k = Some row"
    and w: "write_dependency now k None (t_status row) to br kind payload db = Inr db'"
  show ?thesis by (rule write_dependency_effect(3) [OF w row refl])
qed

interpretation dep: dep_store blockers keys_distinct set_step drop_step
proof unfold_locales
  fix s s' l
  assume "keys_distinct s" "set_step l s = Some s'"
  then show "keys_distinct s'"
    by (cases l) (auto simp: committed_Some keys_distinct_def dest: set_blocked_by_keys)
next
  fix s s' l
  assume "set_step l s = Some s'"
  then show "\<exists>a b. blockers s' = (blockers s)(a \<mapsto> b) \<and> a \<noteq> b \<and> (b, a) \<notin> (graph_of (blockers s))\<^sup>+"
    by (cases l) (auto simp: committed_Some dest: set_blocked_by_blockers)
next
  fix s s' u
  assume a: "keys_distinct s" "acyclic (graph_of (blockers s))" "drop_step u s = Some s'"
  then show "keys_distinct s'"
  proof (cases u)
    case (MaintainDependencies now actor)
    then show ?thesis using a maintain_dependencies_spec [of s now actor]
      by (auto simp: committed_Some keys_distinct_def)
  qed (auto simp: committed_Some keys_distinct_def dest: remove_blocked_by_keys)
next
  fix s s' u
  assume a: "keys_distinct s" "acyclic (graph_of (blockers s))" "drop_step u s = Some s'"
  show "\<exists>A. blockers s' = (\<lambda>k. if k \<in> A then None else blockers s k)"
  proof (cases u)
    case (RemoveBlockedBy now k actor reason)
    then obtain c where "blockers s' = (blockers s)(c := None)"
      using a(3) by (auto simp: committed_Some dest: remove_blocked_by_blockers)
    then show ?thesis by (intro exI [of _ "{c}"]) (auto simp: fun_upd_def)
  next
    case (MaintainDependencies now actor)
    then obtain res where "maintain_dependencies now actor s = Inr (s', res)"
      using a(3) by (auto simp: committed_Some)
    then have "\<forall>k. maintained now s (s', res) k"
      using maintain_dependencies_spec [of s now actor] a(1,2) by (auto simp: keys_distinct_def)
    from maintained_blockers [OF this] show ?thesis by auto
  qed
qed

section \<open>Properties\<close>

text \<open>
  C23. The cycle search is exact on every database, also on one that already holds a cycle
  (a self-dependent Ticket, a hand-edited row): \<open>_cycle_path\<close> always returns, and it reports a
  path exactly when the proposed blocker already reaches the Ticket through one or more stored
  \<open>blocked_by\<close> links.
\<close>

theorem cycle_path_exact:
  "(\<exists>path. cycle_path db task_key blocker = Some path) \<longleftrightarrow>
     (blocker, task_key) \<in> (graph_of (blockers db))\<^sup>+"
  using cycle_path_None_iff [of db task_key blocker]
  by (cases "cycle_path db task_key blocker") simp_all

text \<open>
  C22. No history of dependency operations builds a cycle: starting from an acyclic database with
  unique keys, after any sequence of \<open>set_blocked_by\<close>, \<open>remove_blocked_by\<close> and
  \<open>maintain_dependencies\<close> calls, refused ones included, keys are still unique and the
  \<open>blocked_by\<close> links still form no cycle.
\<close>

theorem dependency_history_acyclic:
  assumes "keys_distinct db" and "deps_acyclic db"
  shows "keys_distinct (run_ops (case_sum set_step drop_step) ops db) \<and>
     deps_acyclic (run_ops (case_sum set_step drop_step) ops db)"
  using dep.history_acyclic assms unfolding deps_acyclic_def by blast

definition two_tickets :: db where
  "two_tickets = example_db [example_ticket ''AT-0001'' ''completed'', example_ticket ''AT-0002'' ''created'']"

lemma no_blockers_acyclic: "(\<forall>k. blockers db k = None) \<Longrightarrow> deps_acyclic db"
  by (simp add: deps_acyclic_def graph_of_def acyclic_def)

lemma two_tickets_ok: "keys_distinct two_tickets" "deps_acyclic two_tickets"
  by (simp_all add: no_blockers_acyclic blockers_def get_task_def keys_distinct_def
      two_tickets_def example_db_def example_ticket_def)

theorem dependency_history_acyclic_witness:
  "keys_distinct two_tickets \<and> deps_acyclic two_tickets \<and>
   deps_acyclic (run_ops (case_sum set_step drop_step)
     [Inl (SetBlockedBy 20 ''AT-0002'' ''AT-0001'' ''operator'' None),
      Inl (SetBlockedBy 30 ''AT-0001'' ''AT-0002'' ''operator'' None),
      Inr (MaintainDependencies 40 ''tick'')] two_tickets)"
  using dependency_history_acyclic [OF two_tickets_ok] two_tickets_ok by blast

text \<open>
  What an accepted \<open>set_blocked_by\<close> does: the Ticket row gets the normalised blocker; it
  moves to \<open>blocked\<close> when it was ready or its wait already belonged to the dependency, and
  keeps its status otherwise; its prompt, branch and active Attempt are untouched, no other Ticket
  row changes, and the returned change reports exactly these two statuses. A ready Ticket with
  an active Attempt is never re-blocked.
\<close>

lemma set_blocked_by_effect:
  assumes "set_blocked_by now task_key blocker actor reason db = Inr (db', change)"
  shows "\<exists>k b row br. normalize_task_key task_key = Inr k \<and> normalize_task_key blocker = Inr b \<and>
     get_task db k = Some row \<and>
     get_task db' k = Some (row\<lparr>t_blocked_by := Some b,
       t_status := (if t_status row \<in> set READY_STATUSES \<or> dependency_owned db row
                    then ''blocked'' else t_status row),
       t_blocked_reason := br, t_updated_at := now, t_last_synced_at := Some now\<rparr>) \<and>
     (\<forall>k'. k' \<noteq> k \<longrightarrow> get_task db' k' = get_task db k') \<and>
     dc_from_status change = t_status row \<and> task_status_of db' k = Some (dc_to_status change) \<and>
     (t_status row \<in> set READY_STATUSES \<longrightarrow> \<not> truthy (active_attempt_id db k))"
  using assms
proof (rule set_blocked_by_Inr)
  fix k b row to br kind payload
  assume n: "normalize_task_key task_key = Inr k" "normalize_task_key blocker = Inr b"
    and v: "validate_dependency db k b = Inr row"
    and w: "write_dependency now k (Some b) (t_status row) to br kind payload db = Inr db'"
    and to: "to = (if t_status row \<in> set READY_STATUSES \<or> dependency_owned db row
           then ''blocked'' else t_status row)"
    and act: "t_status row \<in> set READY_STATUSES \<longrightarrow> \<not> truthy (active_attempt_id db k)"
    and ch: "dc_to_status change = to" "dc_from_status change = t_status row"
  have row: "get_task db k = Some row" using v by (simp add: validate_dependency_Inr)
  note eff = write_dependency_effect [OF w row refl]
  show ?thesis
    using n row eff(1) eff(2) ch act
    by (intro exI [of _ k] exI [of _ b] exI [of _ row] exI [of _ br])
       (simp add: dependency_update_def task_status_of_def to)
qed

lemma two_tickets_set:
  "is_ok (set_blocked_by 20 ''AT-0002'' ''AT-0001'' ''operator'' None two_tickets)"
  by code_simp

lemma stopped_not_completed: "set STOPPED_BLOCKER_STATUSES \<inter> set COMPLETED_BLOCKER_STATUSES = {}"
  by code_simp

text \<open>
  C24. The maintenance pass always completes on a database with unique keys and acyclic links, and does exactly what is
  due. It releases exactly the \<open>blocked\<close> Tickets whose block is the dependency's (by their reason), that have no
  active Attempt and whose own blocker is completed: back to \<open>created\<close>, with the link removed. It moves to
  \<open>needs_decision\<close>, keeping the link, exactly the Tickets whose blocker is missing, failed or cancelled,
  that are neither running nor in a status that is not redirected and that, if \<open>blocked\<close>, are
  blocked by the dependency. Every other row is unchanged. No pass introduces a cycle.
\<close>

theorem maintain_dependencies_conservative:
  assumes "keys_distinct db" and "deps_acyclic db" and "''tasks'' \<in> set (db_tables db)" and "tasks_has_ticket_columns db"
  shows "\<exists>db' res. maintain_dependencies now actor db = Inr (db', res) \<and> deps_acyclic db' \<and>
     (\<forall>k. (k \<in> set (dm_released res) \<longleftrightarrow>
        (\<exists>t b. get_task db k = Some t \<and> t_prompt t \<noteq> None \<and> t_status t = ''blocked'' \<and> t_blocked_by t = Some b \<and>
           is_dependency_blocked_reason (t_blocked_reason t) \<and> \<not> truthy (active_attempt_id db k) \<and>
           task_status_of db b \<in> Some ` set COMPLETED_BLOCKER_STATUSES)) \<and>
       (k \<in> set (dm_needs_decision res) \<longleftrightarrow>
        (\<exists>t b. get_task db k = Some t \<and> t_prompt t \<noteq> None \<and> t_blocked_by t = Some b \<and>
           t_status t \<notin> set RUNNING_STATUSES \<union> set NOT_REDIRECTED_STATUSES \<and>
           (t_status t = ''blocked'' \<longrightarrow> is_dependency_blocked_reason (t_blocked_reason t)) \<and>
           (task_status_of db b = None \<or> task_status_of db b \<in> Some ` set STOPPED_BLOCKER_STATUSES))) \<and>
       get_task db' k =
         (if k \<in> set (dm_released res) then map_option (dependency_update now None ''created'' None) (get_task db k)
          else if k \<in> set (dm_needs_decision res)
          then map_option (\<lambda>t. dependency_update now (t_blocked_by t) ''needs_decision'' None t) (get_task db k)
          else get_task db k))"
proof -
  obtain db' res where m: "maintain_dependencies now actor db = Inr (db', res)"
    and all: "\<forall>k. maintained now db (db', res) k" and ac: "deps_acyclic db'"
    and due: "\<And>t b. \<lbrakk>t \<in> set (db_tasks db); t_prompt t \<noteq> None; t_blocked_by t = Some b\<rbrakk> \<Longrightarrow>
       carried_out (maintenance_decision db t (task_status_of db b)) (t_key t) res"
    using maintain_dependencies_spec [of db now actor] assms
    unfolding keys_distinct_def deps_acyclic_def by fastforce
  note k = all [unfolded maintained_def fst_conv snd_conv, rule_format]
  have release: "k \<in> set (dm_released res)"
    if "get_task db k = Some t" "t_prompt t \<noteq> None" "t_status t = ''blocked''" "t_blocked_by t = Some b"
      "is_dependency_blocked_reason (t_blocked_reason t)" "\<not> truthy (active_attempt_id db k)"
      "task_status_of db b \<in> Some ` set COMPLETED_BLOCKER_STATUSES" for k t b
    using due [of t b] get_task_Some [OF that(1)] that by (simp add: maintenance_decision_def carried_out_def)
  have stop: "k \<in> set (dm_needs_decision res)"
    if "get_task db k = Some t" "t_prompt t \<noteq> None" "t_blocked_by t = Some b"
      "t_status t \<notin> set RUNNING_STATUSES \<union> set NOT_REDIRECTED_STATUSES"
      "t_status t = ''blocked'' \<longrightarrow> is_dependency_blocked_reason (t_blocked_reason t)"
      "task_status_of db b = None \<or> task_status_of db b \<in> Some ` set STOPPED_BLOCKER_STATUSES" for k t b
  proof -
    have "task_status_of db b \<notin> Some ` set COMPLETED_BLOCKER_STATUSES"
      using that(6) stopped_not_completed by auto
    then show ?thesis
      using due [of t b] get_task_Some [OF that(1)] that by (auto simp: maintenance_decision_def carried_out_def Let_def split: if_splits)
  qed
  have r: "k \<in> set (dm_released res) \<longleftrightarrow>
      (\<exists>t b. get_task db k = Some t \<and> t_prompt t \<noteq> None \<and> t_status t = ''blocked'' \<and> t_blocked_by t = Some b \<and>
         is_dependency_blocked_reason (t_blocked_reason t) \<and> \<not> truthy (active_attempt_id db k) \<and>
         task_status_of db b \<in> Some ` set COMPLETED_BLOCKER_STATUSES)" for k
    using k [of k] release [of k] by blast
  have n: "k \<in> set (dm_needs_decision res) \<longleftrightarrow>
      (\<exists>t b. get_task db k = Some t \<and> t_prompt t \<noteq> None \<and> t_blocked_by t = Some b \<and>
         t_status t \<notin> set RUNNING_STATUSES \<union> set NOT_REDIRECTED_STATUSES \<and>
         (t_status t = ''blocked'' \<longrightarrow> is_dependency_blocked_reason (t_blocked_reason t)) \<and>
         (task_status_of db b = None \<or> task_status_of db b \<in> Some ` set STOPPED_BLOCKER_STATUSES))" for k
    using k [of k] stop [of k] by blast
  have row: "get_task db' k =
         (if k \<in> set (dm_released res) then map_option (dependency_update now None ''created'' None) (get_task db k)
          else if k \<in> set (dm_needs_decision res)
          then map_option (\<lambda>t. dependency_update now (t_blocked_by t) ''needs_decision'' None t) (get_task db k)
          else get_task db k)" for k
    using k [of k] by auto
  show ?thesis
    by (intro exI [of _ db'] exI [of _ res] conjI allI m ac r n row)
qed

definition waiting_pair :: db where
  "waiting_pair = example_db [example_ticket ''AT-0001'' ''completed'',
     (example_ticket ''AT-0002'' ''blocked'')\<lparr>t_blocked_by := Some ''AT-0001'', t_blocked_reason := None\<rparr>]"

lemma waiting_pair_ok:
  "keys_distinct waiting_pair" "deps_acyclic waiting_pair" "''tasks'' \<in> set (db_tables waiting_pair)"
  "tasks_has_ticket_columns waiting_pair"
proof -
  show "keys_distinct waiting_pair" "''tasks'' \<in> set (db_tables waiting_pair)" "tasks_has_ticket_columns waiting_pair"
    by code_simp+
  have "blockers waiting_pair = [''AT-0002'' \<mapsto> ''AT-0001'']"
    by (auto simp: blockers_def get_task_def non_blank_def waiting_pair_def example_db_def example_ticket_def)
  then have "graph_of (blockers waiting_pair) = {(''AT-0002'', ''AT-0001'')}" by (auto simp: graph_of_def split: if_splits)
  then show "deps_acyclic waiting_pair" by (auto simp: deps_acyclic_def acyclic_def elim: trancl.cases)
qed

text \<open>The dependent of a completed Ticket is released.\<close>

theorem maintain_dependencies_conservative_witness:
  "\<exists>db' res. maintain_dependencies 40 ''tick'' waiting_pair = Inr (db', res) \<and> ''AT-0002'' \<in> set (dm_released res) \<and>
     map_option t_status (get_task db' ''AT-0002'') = Some ''created''"
  using maintain_dependencies_conservative [OF waiting_pair_ok, of 40 "''tick''"]
proof (elim exE conjE allE [of _ "''AT-0002''"])
  let ?t = "(example_ticket ''AT-0002'' ''blocked'')\<lparr>t_blocked_by := Some ''AT-0001'', t_blocked_reason := None\<rparr>"
  fix db' res
  assume m: "maintain_dependencies 40 ''tick'' waiting_pair = Inr (db', res)"
    and k: "''AT-0002'' \<in> set (dm_released res) \<longleftrightarrow>
        (\<exists>t b. get_task waiting_pair ''AT-0002'' = Some t \<and> t_prompt t \<noteq> None \<and> t_status t = ''blocked'' \<and> t_blocked_by t = Some b \<and>
           is_dependency_blocked_reason (t_blocked_reason t) \<and> \<not> truthy (active_attempt_id waiting_pair ''AT-0002'') \<and>
           task_status_of waiting_pair b \<in> Some ` set COMPLETED_BLOCKER_STATUSES)"
      "get_task db' ''AT-0002'' =
         (if ''AT-0002'' \<in> set (dm_released res) then map_option (dependency_update 40 None ''created'' None) (get_task waiting_pair ''AT-0002'')
          else if ''AT-0002'' \<in> set (dm_needs_decision res)
          then map_option (\<lambda>t. dependency_update 40 (t_blocked_by t) ''needs_decision'' None t) (get_task waiting_pair ''AT-0002'')
          else get_task waiting_pair ''AT-0002'')"
  have t: "get_task waiting_pair ''AT-0002'' = Some ?t" "t_prompt ?t \<noteq> None" "t_status ?t = ''blocked''" "t_blocked_by ?t = Some ''AT-0001''"
    "is_dependency_blocked_reason (t_blocked_reason ?t)" "\<not> truthy (active_attempt_id waiting_pair ''AT-0002'')"
    by (simp_all add: waiting_pair_def example_db_def example_ticket_def get_task_def active_attempt_id_def
        is_dependency_blocked_reason_def truthy_def)
  have blocker: "task_status_of waiting_pair ''AT-0001'' \<in> Some ` set COMPLETED_BLOCKER_STATUSES" by code_simp
  have in_res: "''AT-0002'' \<in> set (dm_released res)"
    by (rule k(1) [THEN iffD2]) (intro exI [of _ ?t] exI [of _ "''AT-0001''"] conjI t blocker)
  have "get_task db' ''AT-0002'' = map_option (dependency_update 40 None ''created'' None) (get_task waiting_pair ''AT-0002'')"
    using k(2) by (simp only: in_res if_True)
  then have "map_option t_status (get_task db' ''AT-0002'') = Some ''created''"
    unfolding t(1) by (simp add: dependency_update_def)
  with m in_res show ?thesis by blast
qed

text \<open>
  The validation of a dependency accepts exactly the well-formed ones: both keys are
  non-empty after stripping and use only task key characters, the database has the Ticket columns, the Ticket exists and has a
  prompt, the blocker exists and is another task, and it does not already wait, directly or
  through others, for the Ticket. Every other request is refused.
\<close>

lemma validate_blocked_by_exact:
  "validate_blocked_by db task_key blocker = Inr () \<longleftrightarrow>
     tasks_has_ticket_columns db \<and>
     (\<exists>k b row. k = py_strip task_key \<and> b = py_strip blocker \<and> k \<noteq> [] \<and> b \<noteq> [] \<and>
        list_all task_key_char (k @ b) \<and> get_task db k = Some row \<and> t_prompt row \<noteq> None \<and> b \<noteq> k \<and> get_task db b \<noteq> None \<and>
        (b, k) \<notin> (graph_of (blockers db))\<^sup>+)"
  unfolding validate_blocked_by_def rbind_Inr_iff require_ticket_schema_def guard_exn_Inr_iff
    validate_dependency_Inr normalize_task_key_Inr
  by auto

end
