(* ===== verification/Runtime_Control.thy ===== *)
theory Runtime_Control
  imports Dependencies
begin

text \<open>
  The persisted control plane (\<open>lifecycle_control.py\<close>): the lifecycle graph of Attempts, the
  reason-code taxonomy, and the pause, kill and task-class governance switches of
  \<open>RuntimeControlStore\<close>. A switch is one row per scope with a generation counter, and an
  append-only event per change.

  Results: the Attempt graph is acyclic and its terminal statuses are final; setting a control
  changes exactly its own scope and records it; admission is allowed exactly when no pause or
  kill of the global, project or task scope is in force, and the database trigger that backs
  the check agrees with it.
\<close>

section \<open>Vocabulary\<close>

definition CONTROL_MODES :: "string list" where
  "CONTROL_MODES = [''running'', ''paused'', ''kill_requested'']"

definition CONTROL_SCOPES :: "string list" where
  "CONTROL_SCOPES = [''global'', ''project'', ''task_class'', ''task'', ''attempt'']"

definition ACTIVE_ATTEMPT_STATUSES :: "string list" where
  "ACTIVE_ATTEMPT_STATUSES = [''created'', ''preparing'', ''implementing'', ''validating'']"

definition TERMINAL_ATTEMPT_STATUSES :: "string list" where
  "TERMINAL_ATTEMPT_STATUSES =
     [''waiting_approval'', ''validation_failed'', ''execution_timeout'', ''execution_aborted'',
      ''blocked'', ''completed'', ''failed'', ''canceled'']"

definition RUNTIME_REASON_CODES :: "string list" where
  "RUNTIME_REASON_CODES =
     [''runtime_preparing'', ''runtime_implementing'', ''runtime_validating'',
      ''runtime_waiting_approval'', ''runtime_ready_for_integration'', ''runtime_completed'',
      ''runtime_canceled'', ''executor_failed'', ''executor_timeout'', ''executor_aborted'',
      ''executor_blocked'', ''validator_failed'', ''validator_timeout'', ''validator_blocked'',
      ''operator_pause_requested'', ''operator_pause_cleared'', ''operator_kill_requested'',
      ''operator_kill_cleared'', ''operator_task_class_governance_disabled'',
      ''operator_task_class_governance_cleared'', ''runtime_lease_expired'',
      ''runtime_internal_error'', ''runtime_governance_blocked'', ''runtime_failed'',
      ''attempt_resource_allocation_failed'', ''advisory_evidence_retry_recovered'']"

definition TASK_STATUS_BY_ATTEMPT_STATUS :: "(string \<times> string) list" where
  "TASK_STATUS_BY_ATTEMPT_STATUS =
     [(''preparing'', ''preparing''), (''implementing'', ''implementing''),
      (''validating'', ''validating''), (''waiting_approval'', ''waiting_approval''),
      (''validation_failed'', ''blocked''), (''execution_timeout'', ''blocked''),
      (''execution_aborted'', ''blocked''), (''blocked'', ''blocked''), (''failed'', ''blocked''),
      (''completed'', ''completed''), (''canceled'', ''canceled'')]"

definition validate_reason_code :: "string \<Rightarrow> string result" where
  "validate_reason_code reason_code =
     rbind (require_non_empty reason_code) (\<lambda>normalized.
       if normalized \<notin> set RUNTIME_REASON_CODES then Inl ValueError else Inr normalized)"

definition validate_attempt_transition :: "string \<Rightarrow> string \<Rightarrow> (string \<times> string) result" where
  "validate_attempt_transition from_status to_status =
     rbind (validate_attempt_status from_status) (\<lambda>source.
     rbind (validate_attempt_status to_status) (\<lambda>target.
       if source = target then Inr (source, target)
       else if (source, target) \<notin> set ATTEMPT_TRANSITIONS then Inl LifecycleTransitionError
       else Inr (source, target)))"

definition task_status_for_attempt :: "string \<Rightarrow> string result" where
  "task_status_for_attempt attempt_status =
     rbind (validate_attempt_status attempt_status) (\<lambda>normalized.
       case map_of TASK_STATUS_BY_ATTEMPT_STATUS normalized of
         None \<Rightarrow> Inl LifecycleTransitionError
       | Some s \<Rightarrow> Inr s)"

section \<open>Scopes\<close>

definition normalize_project_control_id :: "string \<Rightarrow> string result" where
  "normalize_project_control_id project = require_non_empty project"

definition normalize_task_class_control_id :: "string \<Rightarrow> string result" where
  "normalize_task_class_control_id task_class = require_non_empty task_class"

definition normalize_scope :: "string \<Rightarrow> string option \<Rightarrow> (string \<times> string) result" where
  "normalize_scope scope_kind scope_id =
     rbind (require_non_empty scope_kind) (\<lambda>stripped.
       let kind = py_lower stripped in
       if kind \<notin> set CONTROL_SCOPES then Inl ValueError
       else if kind = ''global'' then Inr (kind, ''*'')
       else rbind (require_non_empty (case scope_id of None \<Rightarrow> [] | Some i \<Rightarrow> i)) (\<lambda>raw.
         if kind = ''project'' then rbind (normalize_project_control_id raw) (\<lambda>i. Inr (kind, i))
         else if kind = ''task_class''
         then rbind (normalize_task_class_control_id raw) (\<lambda>i. Inr (kind, i))
         else if kind = ''task'' then rbind (normalize_task_key raw) (\<lambda>i. Inr (kind, i))
         else Inr (kind, raw)))"

definition validate_scope_mode :: "string \<Rightarrow> string \<Rightarrow> unit result" where
  "validate_scope_mode scope_kind mode =
     (if scope_kind = ''project'' \<and> mode = ''kill_requested'' then Inl ValueError
      else if scope_kind = ''task_class'' \<and> mode = ''paused'' then Inl ValueError
      else Inr ())"

definition PROJECT_CLASS_CONTROLS_MIGRATION :: string where
  "PROJECT_CLASS_CONTROLS_MIGRATION = ''level2_project_class_controls_v1''"

definition project_class_controls_deployed_in_connection :: "db \<Rightarrow> bool" where
  "project_class_controls_deployed_in_connection db \<longleftrightarrow>
     list_all (\<lambda>scope. scope \<in> set (db_control_scopes db)) CONTROL_SCOPES \<and>
     PROJECT_CLASS_CONTROLS_MIGRATION \<in> set (db_migrations db)"

definition require_project_class_controls_deployed :: "db \<Rightarrow> unit result" where
  "require_project_class_controls_deployed db =
     guard_exn (project_class_controls_deployed_in_connection db) RuntimeControlMigrationRequired"

section \<open>Reading controls\<close>

definition find_control :: "db \<Rightarrow> string \<times> string \<Rightarrow> control_row option" where
  "find_control db scope = find (\<lambda>c. (rc_scope_kind c, rc_scope_id c) = scope) (db_controls db)"

record effective_runtime_control =
  ef_mode :: string
  ef_matched_controls :: "control_row list"

text \<open>\<open>AttemptStore.get_task_identity_in_connection\<close>: the row, when it has a stable id.\<close>

definition get_task_identity_in_connection :: "db \<Rightarrow> string \<Rightarrow> task_row option result" where
  "get_task_identity_in_connection db task_key =
     rbind (normalize_task_key task_key) (\<lambda>key.
       Inr (case get_task db key of
              None \<Rightarrow> None
            | Some t \<Rightarrow> if t_task_id t = None then None else Some t))"

definition control_scopes_for ::
  "db \<Rightarrow> string option \<Rightarrow> string option \<Rightarrow> (string \<times> string) list result" where
  "control_scopes_for db task_key attempt_id =
     rbind (case task_key of
              None \<Rightarrow> Inr []
            | Some k \<Rightarrow>
                rbind (normalize_task_key k) (\<lambda>normalized_task.
                rbind (get_task_identity_in_connection db normalized_task) (\<lambda>identity.
                rbind (case identity of
                         None \<Rightarrow> Inr []
                       | Some t \<Rightarrow> rbind (normalize_project_control_id (t_project t))
                           (\<lambda>p. Inr [(''project'', p)])) (\<lambda>ps.
                Inr (ps @ [(''task'', normalized_task)]))))) (\<lambda>task_scopes.
     rbind (case attempt_id of
              None \<Rightarrow> Inr []
            | Some a \<Rightarrow> rbind (require_non_empty a) (\<lambda>i. Inr [(''attempt'', i)])) (\<lambda>attempt_scopes.
     Inr ([(''global'', ''*'')] @ task_scopes @ attempt_scopes)))"

definition effective_runtime_control_in_connection ::
  "db \<Rightarrow> string option \<Rightarrow> string option \<Rightarrow> effective_runtime_control result" where
  "effective_runtime_control_in_connection db task_key attempt_id =
     rbind (control_scopes_for db task_key attempt_id) (\<lambda>scopes.
       if ''runtime_controls'' \<notin> set (db_tables db)
       then Inr \<lparr>ef_mode = ''running'', ef_matched_controls = []\<rparr>
       else
         let controls = List.map_filter (find_control db) scopes;
             active = filter (\<lambda>c. rc_mode c \<noteq> ''running'') controls;
             mode = (if list_ex (\<lambda>c. rc_mode c = ''kill_requested'') active then ''kill_requested''
                     else if list_ex (\<lambda>c. rc_mode c = ''paused'') active then ''paused''
                     else ''running'')
         in Inr \<lparr>ef_mode = mode, ef_matched_controls = active\<rparr>)"

definition get_control :: "db \<Rightarrow> string \<Rightarrow> string option \<Rightarrow> control_row option result" where
  "get_control db scope_kind scope_id =
     rbind (normalize_scope scope_kind scope_id) (\<lambda>scope. Inr (find_control db scope))"

definition assert_admission_allowed :: "db \<Rightarrow> string \<Rightarrow> unit result" where
  "assert_admission_allowed db task_key =
     rbind (effective_runtime_control_in_connection db (Some task_key) None) (\<lambda>control.
       if ef_mode control = ''kill_requested'' then Inl RuntimeKillRequested
       else if ef_mode control = ''paused'' then Inl RuntimePausedError
       else Inr ())"

definition assert_not_killed :: "db \<Rightarrow> string \<Rightarrow> string option \<Rightarrow> unit result" where
  "assert_not_killed db task_key attempt_id =
     rbind (effective_runtime_control_in_connection db (Some task_key) attempt_id) (\<lambda>control.
       if ef_mode control = ''kill_requested'' then Inl RuntimeKillRequested else Inr ())"

section \<open>Setting controls\<close>

definition upsert_control :: "control_row \<Rightarrow> control_row list \<Rightarrow> control_row list" where
  "upsert_control c cs =
     (let same = (\<lambda>x. (rc_scope_kind x, rc_scope_id x) = (rc_scope_kind c, rc_scope_id c)) in
      if list_ex same cs then map_where same (\<lambda>_. c) cs else cs @ [c])"

definition set_control ::
  "timestamp \<Rightarrow> string \<Rightarrow> string \<Rightarrow> string option \<Rightarrow> string \<Rightarrow> string
     \<Rightarrow> (string \<times> json) list \<Rightarrow> db \<Rightarrow> (db \<times> control_row) result" where
  "set_control now mode scope_kind scope_id actor reason_code metadata db =
     rbind (require_non_empty mode) (\<lambda>stripped.
       let normalized_mode = py_lower stripped in
       if normalized_mode \<notin> set CONTROL_MODES then Inl ValueError
       else
     rbind (normalize_scope scope_kind scope_id) (\<lambda>(kind, identifier).
     rbind (validate_scope_mode kind normalized_mode) (\<lambda>_.
     rbind (require_non_empty actor) (\<lambda>normalized_actor.
     rbind (validate_reason_code reason_code) (\<lambda>normalized_reason.
       if kind = ''task_class'' \<and>
          normalized_reason \<noteq> (if normalized_mode = ''kill_requested''
             then ''operator_task_class_governance_disabled''
             else ''operator_task_class_governance_cleared'')
       then Inl ValueError
       else
     rbind (if kind \<in> {''project'', ''task_class''}
            then require_project_class_controls_deployed db else Inr ()) (\<lambda>_.
       let previous = find_control db (kind, identifier);
           generation = (case previous of None \<Rightarrow> 1 | Some p \<Rightarrow> rc_generation p + 1);
           row = \<lparr>rc_scope_kind = kind, rc_scope_id = identifier, rc_mode = normalized_mode,
                  rc_reason_code = normalized_reason, rc_requested_by = normalized_actor,
                  rc_requested_at = now, rc_generation = generation, rc_metadata = metadata\<rparr>;
           event = \<lparr>ce_scope_kind = kind, ce_scope_id = identifier,
                    ce_from_mode = map_option rc_mode previous, ce_to_mode = normalized_mode,
                    ce_reason_code = normalized_reason, ce_actor = normalized_actor,
                    ce_generation = generation, ce_timestamp = now, ce_metadata = metadata\<rparr>
       in if kind \<notin> set (db_control_scopes db) then Inl (SqlAbort ''CHECK constraint failed'')
          else Inr (db\<lparr>db_controls := upsert_control row (db_controls db),
                       db_control_events := db_control_events db @ [event]\<rparr>, row)))))))"

definition pause ::
  "timestamp \<Rightarrow> string \<Rightarrow> string option \<Rightarrow> string \<Rightarrow> (string \<times> json) list \<Rightarrow> db
     \<Rightarrow> (db \<times> control_row) result" where
  "pause now scope_kind scope_id actor metadata db =
     set_control now ''paused'' scope_kind scope_id actor ''operator_pause_requested'' metadata db"

definition request_kill ::
  "timestamp \<Rightarrow> string \<Rightarrow> string option \<Rightarrow> string \<Rightarrow> (string \<times> json) list \<Rightarrow> db
     \<Rightarrow> (db \<times> control_row) result" where
  "request_kill now scope_kind scope_id actor metadata db =
     rbind (normalize_scope scope_kind scope_id) (\<lambda>(kind, _).
       if kind = ''task_class'' then Inl ValueError
       else set_control now ''kill_requested'' scope_kind scope_id actor ''operator_kill_requested''
              metadata db)"

definition disable_task_class_governance ::
  "timestamp \<Rightarrow> string \<Rightarrow> string \<Rightarrow> (string \<times> json) list \<Rightarrow> db \<Rightarrow> (db \<times> control_row) result" where
  "disable_task_class_governance now task_class actor metadata db =
     set_control now ''kill_requested'' ''task_class'' (Some task_class) actor
       ''operator_task_class_governance_disabled'' metadata db"

definition clear ::
  "timestamp \<Rightarrow> string \<Rightarrow> string option \<Rightarrow> string \<Rightarrow> (string \<times> json) list \<Rightarrow> db
     \<Rightarrow> (db \<times> control_row) result" where
  "clear now scope_kind scope_id actor metadata db =
     rbind (normalize_scope scope_kind scope_id) (\<lambda>(kind, identifier).
     rbind (get_control db kind (Some identifier)) (\<lambda>previous.
       let reason = (if kind = ''task_class'' then ''operator_task_class_governance_cleared''
                     else if map_option rc_mode previous = Some ''kill_requested''
                     then ''operator_kill_cleared'' else ''operator_pause_cleared'')
       in set_control now ''running'' kind (Some identifier) actor reason metadata db))"

definition task_class_governance_permitted :: "db \<Rightarrow> string \<Rightarrow> bool result" where
  "task_class_governance_permitted db task_class =
     rbind (require_project_class_controls_deployed db) (\<lambda>_.
     rbind (normalize_task_class_control_id task_class) (\<lambda>c.
       Inr (case find_control db (''task_class'', c) of
              None \<Rightarrow> True | Some r \<Rightarrow> rc_mode r = ''running'')))"

record task_class_governance_decision =
  gd_task_key :: string
  gd_project :: string
  gd_task_class :: string
  gd_class_control_allows_auto_merge :: bool
  gd_matched_control :: "control_row option"
  gd_actual_auto_merge_enabled :: bool

definition task_identity_for_controls :: "db \<Rightarrow> string \<Rightarrow> task_row result" where
  "task_identity_for_controls db task_key =
     rbind (normalize_task_key task_key) (\<lambda>normalized.
     rbind (get_task_identity_in_connection db normalized) (\<lambda>identity.
       case identity of
         None \<Rightarrow> Inl KeyError
       | Some t \<Rightarrow>
           rbind (normalize_project_control_id (t_project t)) (\<lambda>_.
           rbind (normalize_task_class_control_id (t_task_class t)) (\<lambda>_. Inr t))))"

definition class_control_allows_auto_merge ::
  "db \<Rightarrow> string \<Rightarrow> task_class_governance_decision result" where
  "class_control_allows_auto_merge db task_key =
     rbind (require_project_class_controls_deployed db) (\<lambda>_.
     rbind (task_identity_for_controls db task_key) (\<lambda>t.
     rbind (normalize_task_class_control_id (t_task_class t)) (\<lambda>c.
     rbind (normalize_task_key (t_key t)) (\<lambda>k.
     rbind (normalize_project_control_id (t_project t)) (\<lambda>p.
       let control = find_control db (''task_class'', c)
       in Inr \<lparr>gd_task_key = k, gd_project = p, gd_task_class = c,
               gd_class_control_allows_auto_merge =
                 (case control of None \<Rightarrow> True | Some r \<Rightarrow> rc_mode r = ''running''),
               gd_matched_control = control, gd_actual_auto_merge_enabled = False\<rparr>)))))"

definition list_control_events ::
  "db \<Rightarrow> string \<Rightarrow> string option \<Rightarrow> control_event_row list result" where
  "list_control_events db scope_kind scope_id =
     rbind (normalize_scope scope_kind scope_id) (\<lambda>(kind, identifier).
       Inr (filter (\<lambda>e. ce_scope_kind e = kind \<and> ce_scope_id e = identifier)
              (db_control_events db)))"

section \<open>Lemmas\<close>

definition control_scope :: "control_row \<Rightarrow> string \<times> string" where
  "control_scope c = (rc_scope_kind c, rc_scope_id c)"

definition controls_wf :: "db \<Rightarrow> bool" where
  "controls_wf db \<longleftrightarrow> distinct (map control_scope (db_controls db)) \<and>
     list_all (\<lambda>c. rc_mode c \<in> set CONTROL_MODES \<and> 1 \<le> rc_generation c) (db_controls db)"

lemma find_control_eq: "find_control db scope = find (\<lambda>c. control_scope c = scope) (db_controls db)"
  by (simp add: find_control_def control_scope_def)

lemma upsert_control_eq:
  "upsert_control c cs =
     (if list_ex (\<lambda>x. control_scope x = control_scope c) cs
      then map_where (\<lambda>x. control_scope x = control_scope c) (\<lambda>_. c) cs else cs @ [c])"
  by (simp add: upsert_control_def control_scope_def Let_def)

lemma find_upsert_same:
  "find (\<lambda>x. control_scope x = control_scope c) (upsert_control c cs) = Some c"
  by (induction cs) (auto simp: upsert_control_eq)

lemma find_upsert_other:
  "scope \<noteq> control_scope c \<Longrightarrow>
     find (\<lambda>x. control_scope x = scope) (upsert_control c cs) = find (\<lambda>x. control_scope x = scope) cs"
proof -
  assume ne: "scope \<noteq> control_scope c"
  then have "find (\<lambda>x. control_scope x = scope) (map_where (\<lambda>x. control_scope x = control_scope c) (\<lambda>_. c) cs)
      = find (\<lambda>x. control_scope x = scope) cs" by (induction cs) auto
  then show ?thesis using ne by (auto simp: upsert_control_eq find_append split: option.split)
qed

lemma upsert_control_scopes:
  "distinct (map control_scope cs) \<Longrightarrow> distinct (map control_scope (upsert_control c cs))"
proof -
  have "map control_scope (map_where (\<lambda>x. control_scope x = control_scope c) (\<lambda>_. c) cs) = map control_scope cs"
    by (induction cs) auto
  then show "distinct (map control_scope cs) \<Longrightarrow> ?thesis"
    by (auto simp: upsert_control_eq list_ex_iff)
qed

lemma set_upsert_control: "x \<in> set (upsert_control c cs) \<Longrightarrow> x = c \<or> x \<in> set cs"
  by (auto simp: upsert_control_def Let_def set_map_where split: if_splits)

lemma set_control_shape:
  assumes "set_control now mode scope_kind scope_id actor reason_code metadata db = Inr (db', row)"
  obtains kind i act reason e where
    "normalize_scope scope_kind scope_id = Inr (kind, i)"
    "py_lower (py_strip mode) \<in> set CONTROL_MODES" "reason \<in> set RUNTIME_REASON_CODES"
    "row = \<lparr>rc_scope_kind = kind, rc_scope_id = i, rc_mode = py_lower (py_strip mode),
       rc_reason_code = reason, rc_requested_by = act, rc_requested_at = now,
       rc_generation = (case find_control db (kind, i) of None \<Rightarrow> 1 | Some p \<Rightarrow> rc_generation p + 1),
       rc_metadata = metadata\<rparr>"
    "e = \<lparr>ce_scope_kind = kind, ce_scope_id = i,
       ce_from_mode = map_option rc_mode (find_control db (kind, i)), ce_to_mode = rc_mode row,
       ce_reason_code = reason, ce_actor = act, ce_generation = rc_generation row,
       ce_timestamp = now, ce_metadata = metadata\<rparr>"
    "db' = db\<lparr>db_controls := upsert_control row (db_controls db),
       db_control_events := db_control_events db @ [e]\<rparr>"
proof -
  from assms obtain stripped where s: "require_non_empty mode = Inr stripped"
    "py_lower stripped \<in> set CONTROL_MODES"
    unfolding set_control_def Let_def result_simps(3) if_raise_Inr by blast
  obtain kind i where sc: "normalize_scope scope_kind scope_id = Inr (kind, i)"
    using assms s unfolding set_control_def Let_def rbind_Inr_iff if_raise_Inr by fast
  from assms obtain act reason where
    "validate_reason_code reason_code = Inr reason"
    and fin: "Inr (db\<lparr>db_controls := upsert_control \<lparr>rc_scope_kind = kind, rc_scope_id = i,
       rc_mode = py_lower stripped,
       rc_reason_code = reason, rc_requested_by = act, rc_requested_at = now,
       rc_generation = (case find_control db (kind, i) of None \<Rightarrow> 1 | Some p \<Rightarrow> rc_generation p + 1),
       rc_metadata = metadata\<rparr> (db_controls db),
       db_control_events := db_control_events db @ [\<lparr>ce_scope_kind = kind, ce_scope_id = i,
       ce_from_mode = map_option rc_mode (find_control db (kind, i)), ce_to_mode = py_lower stripped,
       ce_reason_code = reason, ce_actor = act,
       ce_generation = (case find_control db (kind, i) of None \<Rightarrow> 1 | Some p \<Rightarrow> rc_generation p + 1),
       ce_timestamp = now, ce_metadata = metadata\<rparr>]\<rparr>,
       \<lparr>rc_scope_kind = kind, rc_scope_id = i, rc_mode = py_lower stripped,
       rc_reason_code = reason, rc_requested_by = act, rc_requested_at = now,
       rc_generation = (case find_control db (kind, i) of None \<Rightarrow> 1 | Some p \<Rightarrow> rc_generation p + 1),
       rc_metadata = metadata\<rparr>) = (Inr (db', row) :: (db \<times> control_row) result)"
    unfolding set_control_def Let_def s(1) sc rbind_simps prod.case rbind_Inr_iff if_raise_Inr
    by blast
  moreover have "stripped = py_strip mode" using s(1) by (simp add: require_non_empty_Inr)
  moreover have "reason \<in> set RUNTIME_REASON_CODES"
    using calculation(1) by (auto simp: validate_reason_code_def rbind_Inr_iff split: if_splits)
  ultimately show ?thesis using that sc s(2) by auto
qed

lemma set_control_Inr:
  assumes "set_control now mode scope_kind scope_id actor reason_code metadata db = Inr (db', row)"
  shows "normalize_scope scope_kind scope_id = Inr (control_scope row)"
    "rc_mode row = py_lower (py_strip mode)" "rc_mode row \<in> set CONTROL_MODES"
    "rc_generation row = (case find_control db (control_scope row) of None \<Rightarrow> 1 | Some p \<Rightarrow> rc_generation p + 1)"
    "rc_reason_code row \<in> set RUNTIME_REASON_CODES"
    "\<exists>e. db' = db\<lparr>db_controls := upsert_control row (db_controls db),
       db_control_events := db_control_events db @ [e]\<rparr> \<and>
       (ce_scope_kind e, ce_scope_id e) = control_scope row \<and> ce_to_mode e = rc_mode row \<and>
       ce_from_mode e = map_option rc_mode (find_control db (control_scope row)) \<and>
       ce_generation e = rc_generation row"
proof -
  obtain kind i act reason e where *: "normalize_scope scope_kind scope_id = Inr (kind, i)"
    "py_lower (py_strip mode) \<in> set CONTROL_MODES" "reason \<in> set RUNTIME_REASON_CODES"
    "row = \<lparr>rc_scope_kind = kind, rc_scope_id = i, rc_mode = py_lower (py_strip mode),
       rc_reason_code = reason, rc_requested_by = act, rc_requested_at = now,
       rc_generation = (case find_control db (kind, i) of None \<Rightarrow> 1 | Some p \<Rightarrow> rc_generation p + 1),
       rc_metadata = metadata\<rparr>"
    "e = \<lparr>ce_scope_kind = kind, ce_scope_id = i,
       ce_from_mode = map_option rc_mode (find_control db (kind, i)), ce_to_mode = rc_mode row,
       ce_reason_code = reason, ce_actor = act, ce_generation = rc_generation row,
       ce_timestamp = now, ce_metadata = metadata\<rparr>"
    and db': "db' = db\<lparr>db_controls := upsert_control row (db_controls db),
       db_control_events := db_control_events db @ [e]\<rparr>"
    by (rule set_control_shape [OF assms])
  have sc: "control_scope row = (kind, i)" by (simp add: *(4) control_scope_def)
  show "normalize_scope scope_kind scope_id = Inr (control_scope row)"
    "rc_mode row = py_lower (py_strip mode)" "rc_mode row \<in> set CONTROL_MODES"
    "rc_generation row = (case find_control db (control_scope row) of None \<Rightarrow> 1 | Some p \<Rightarrow> rc_generation p + 1)"
    "rc_reason_code row \<in> set RUNTIME_REASON_CODES"
    unfolding sc using *(1,2,3) by (simp_all add: *(4))
  show "\<exists>e. db' = db\<lparr>db_controls := upsert_control row (db_controls db),
       db_control_events := db_control_events db @ [e]\<rparr> \<and>
       (ce_scope_kind e, ce_scope_id e) = control_scope row \<and> ce_to_mode e = rc_mode row \<and>
       ce_from_mode e = map_option rc_mode (find_control db (control_scope row)) \<and>
       ce_generation e = rc_generation row"
    unfolding sc by (intro exI [of _ e] conjI db') (simp_all add: *(5))
qed

lemma set_control_frame:
  assumes "set_control now mode scope_kind scope_id actor reason_code metadata db = Inr (db', row)"
  shows "db_tasks db' = db_tasks db" "db_tables db' = db_tables db"
    "get_task db' = get_task db"
    "find_control db' (control_scope row) = Some row"
    "scope \<noteq> control_scope row \<Longrightarrow> find_control db' scope = find_control db scope"
  using set_control_Inr(6) [OF assms]
  by (auto simp: get_task_def find_control_eq find_upsert_same find_upsert_other)

lemma set_control_wf:
  assumes "controls_wf db"
    "set_control now mode scope_kind scope_id actor reason_code metadata db = Inr (db', row)"
  shows "controls_wf db'"
proof -
  have "1 \<le> rc_generation row" using set_control_Inr(4) [OF assms(2)] by (simp split: option.splits)
  then have "\<forall>c \<in> set (upsert_control row (db_controls db)).
      rc_mode c \<in> set CONTROL_MODES \<and> 1 \<le> rc_generation c"
    using set_control_Inr(3) [OF assms(2)] assms(1) set_upsert_control
    unfolding controls_wf_def list_all_iff by metis
  then show ?thesis
    using set_control_Inr(6) [OF assms(2)] assms(1)
    by (auto simp: controls_wf_def upsert_control_scopes list_all_iff)
qed

text \<open>The scopes that decide over one identified task.\<close>

definition task_scopes :: "task_row \<Rightarrow> (string \<times> string) list" where
  "task_scopes t = [(''global'', ''*''), (''project'', t_project t), (''task'', t_key t)]"

definition controllable :: "db \<Rightarrow> task_row \<Rightarrow> bool" where
  "controllable db t \<longleftrightarrow> get_task db (t_key t) = Some t \<and> t_task_id t \<noteq> None \<and>
     normalize_task_key (t_key t) = Inr (t_key t) \<and> require_non_empty (t_project t) = Inr (t_project t) \<and>
     ''runtime_controls'' \<in> set (db_tables db)"

lemma control_scopes_for_task:
  "controllable db t \<Longrightarrow> control_scopes_for db (Some (t_key t)) None = Inr (task_scopes t)"
  by (clarsimp simp: controllable_def control_scopes_for_def get_task_identity_in_connection_def
      normalize_project_control_id_def task_scopes_def)

lemma find_control_Some_iff:
  "controls_wf db \<Longrightarrow>
     find_control db scope = Some c \<longleftrightarrow> c \<in> set (db_controls db) \<and> control_scope c = scope"
  using find_Some_set [of "\<lambda>c. control_scope c = scope" "db_controls db" c]
    find_distinct_key [of control_scope "db_controls db" c]
  unfolding controls_wf_def find_control_eq by auto

definition halting :: "db \<Rightarrow> string \<Rightarrow> task_row \<Rightarrow> bool" where
  "halting db mode t \<longleftrightarrow>
     (\<exists>scope \<in> set (task_scopes t). map_option rc_mode (find_control db scope) = Some mode)"

lemma effective_mode:
  assumes "controllable db t"
  shows "map_sum id ef_mode (effective_runtime_control_in_connection db (Some (t_key t)) None) =
     Inr (if halting db ''kill_requested'' t then ''kill_requested''
          else if halting db ''paused'' t then ''paused'' else ''running'')"
proof -
  let ?cs = "filter (\<lambda>c. rc_mode c \<noteq> ''running'') (List.map_filter (find_control db) (task_scopes t))"
  have mem: "list_ex (\<lambda>c. rc_mode c = m) ?cs \<longleftrightarrow> halting db m t" if "m \<noteq> ''running''" for m
    using that unfolding list_ex_iff halting_def set_filter set_map_filter map_option_eq_Some by blast
  have "''runtime_controls'' \<in> set (db_tables db)" using assms by (simp add: controllable_def)
  then show ?thesis
    by (simp add: effective_runtime_control_in_connection_def control_scopes_for_task [OF assms]
        Let_def mem)
qed

lemma assert_admission_exact:
  assumes "controllable db t"
  shows "assert_admission_allowed db (t_key t) =
     (if halting db ''kill_requested'' t then Inl RuntimeKillRequested
      else if halting db ''paused'' t then Inl RuntimePausedError else Inr ())"
proof -
  obtain c where c: "effective_runtime_control_in_connection db (Some (t_key t)) None = Inr c"
    "ef_mode c = (if halting db ''kill_requested'' t then ''kill_requested''
          else if halting db ''paused'' t then ''paused'' else ''running'')"
    using effective_mode [OF assms]
    by (cases "effective_runtime_control_in_connection db (Some (t_key t)) None") auto
  show ?thesis by (simp add: assert_admission_allowed_def c)
qed

lemma control_halts_iff:
  assumes "controls_wf db"
  shows "control_halts db t \<longleftrightarrow> halting db ''kill_requested'' t \<or> halting db ''paused'' t"
proof -
  have "halting db m t \<longleftrightarrow> (\<exists>c \<in> set (db_controls db). rc_mode c = m \<and> control_scope c \<in> set (task_scopes t))"
    for m
    unfolding halting_def map_option_eq_Some find_control_Some_iff [OF assms] by blast
  then show ?thesis
    unfolding control_halts_def list_ex_iff by (auto simp: task_scopes_def control_scope_def)
qed

lemma admission_agrees_with_trigger:
  "\<lbrakk>controls_wf db; controllable db t\<rbrakk> \<Longrightarrow>
     assert_admission_allowed db (t_key t) = Inr () \<longleftrightarrow> \<not> control_halts db t"
  by (simp add: assert_admission_exact control_halts_iff)

lemma normalize_scope_kind:
  "normalize_scope kind i = Inr (k, j) \<Longrightarrow> k = py_lower (py_strip kind)"
  by (auto simp: normalize_scope_def Let_def rbind_Inr_iff require_non_empty_Inr if_raise_Inr
      split: if_splits)

lemma controllable_set_control:
  assumes "set_control now mode scope_kind scope_id actor reason_code metadata db = Inr (db', row)"
  shows "controllable db' t \<longleftrightarrow> controllable db t"
  by (simp add: controllable_def set_control_frame [OF assms])

definition control_example :: db where
  "control_example = example_db [example_ticket ''AT-0001'' ''created'']"

lemma control_example_ok: "controls_wf control_example"
  "controllable control_example (example_ticket ''AT-0001'' ''created'')"
  by (simp add: controls_wf_def control_example_def example_db_def) code_simp

section \<open>Properties\<close>

text \<open>
  Setting a control is exact: on success the scope's row carries the requested mode (one of the
  three) under a generation one above the previous one (1 for a new scope), every other scope keeps
  its row, and exactly one event recording the change of mode is appended. Nothing but these two
  tables changes, and the control table stays well formed.
\<close>

lemma set_control_exact:
  assumes "controls_wf db"
    and "set_control now mode scope_kind scope_id actor reason_code metadata db = Inr (db', row)"
  shows "controls_wf db' \<and> find_control db' (control_scope row) = Some row \<and>
     rc_mode row = py_lower (py_strip mode) \<and> rc_mode row \<in> set CONTROL_MODES \<and>
     rc_generation row = (case find_control db (control_scope row) of
        None \<Rightarrow> 1 | Some p \<Rightarrow> rc_generation p + 1) \<and>
     (\<forall>scope. scope \<noteq> control_scope row \<longrightarrow> find_control db' scope = find_control db scope) \<and>
     (\<exists>e. db' = db\<lparr>db_controls := db_controls db',
        db_control_events := db_control_events db @ [e]\<rparr> \<and>
        (ce_scope_kind e, ce_scope_id e) = control_scope row \<and> ce_to_mode e = rc_mode row \<and>
        ce_from_mode e = map_option rc_mode (find_control db (control_scope row)) \<and>
        ce_generation e = rc_generation row)"
proof -
  obtain e where e: "db' = db\<lparr>db_controls := upsert_control row (db_controls db),
        db_control_events := db_control_events db @ [e]\<rparr>"
    "(ce_scope_kind e, ce_scope_id e) = control_scope row" "ce_to_mode e = rc_mode row"
    "ce_from_mode e = map_option rc_mode (find_control db (control_scope row))"
    "ce_generation e = rc_generation row"
    using set_control_Inr(6) [OF assms(2)] by blast
  have "db' = db\<lparr>db_controls := db_controls db', db_control_events := db_control_events db @ [e]\<rparr>"
    by (simp add: e(1))
  then show ?thesis
    using set_control_wf [OF assms] set_control_frame(4,5) [OF assms(2)]
      set_control_Inr(2-4) [OF assms(2)] e(2-5) by blast
qed

lemma pause_example: "is_ok (set_control 5 ''Paused '' ''project'' (Some ''proj'') ''op''
    ''operator_pause_requested'' [] control_example)"
  by code_simp

text \<open>
  Admission is decided by the global, project and task controls alone, kill before pause: a task
  with a stable id is refused with \<open>RuntimeKillRequested\<close> when one of the three scopes asks for a
  kill, otherwise with \<open>RuntimePausedError\<close> when one is paused, and is admitted otherwise. This
  is exactly the condition that the database trigger behind the claim tests, so a check that passed
  is not overruled by it, and one that failed cannot be circumvented.
\<close>

lemma admission_exact:
  assumes "controls_wf db" and "controllable db t"
  shows "assert_admission_allowed db (t_key t) =
     (if halting db ''kill_requested'' t then Inl RuntimeKillRequested
      else if halting db ''paused'' t then Inl RuntimePausedError else Inr ()) \<and>
     (assert_admission_allowed db (t_key t) = Inr () \<longleftrightarrow> \<not> control_halts db t)"
  using assert_admission_exact [OF assms(2)] admission_agrees_with_trigger [OF assms] by blast

text \<open>
  A pause takes effect at once and for the whole scope: after a successful \<open>pause\<close> of the
  global scope, of a project or of a task, no task of that scope is admitted, and a task outside
  the scope is decided as before.
\<close>

lemma pause_stops_admission:
  assumes "controls_wf db" and "pause now scope_kind scope_id actor metadata db = Inr (db', row)"
    and "controllable db t"
  shows "(control_scope row \<in> set (task_scopes t) \<longrightarrow> \<not> is_ok (assert_admission_allowed db' (t_key t))) \<and>
     (control_scope row \<notin> set (task_scopes t) \<longrightarrow>
        assert_admission_allowed db' (t_key t) = assert_admission_allowed db (t_key t))"
proof -
  have s: "set_control now ''paused'' scope_kind scope_id actor ''operator_pause_requested'' metadata db
      = Inr (db', row)"
    using assms(2) by (simp add: pause_def)
  have "rc_mode row = ''paused''"
    using set_control_Inr(2) [OF s] by (simp add: py_lower_def py_strip_def strip_by_def lstrip_by_def
        rstrip_by_def py_isspace_def py_lower_char_def)
  then have in_scope: "control_scope row \<in> set (task_scopes t) \<Longrightarrow> halting db' ''paused'' t"
    using set_control_frame(4) [OF s] unfolding halting_def map_option_eq_Some by blast
  have "control_scope row \<notin> set (task_scopes t) \<Longrightarrow> halting db' m t = halting db m t" for m
    using set_control_frame(5) [OF s] unfolding halting_def by metis
  moreover have "controllable db' t" using assms(3) controllable_set_control [OF s] by blast
  ultimately show ?thesis
    using in_scope assert_admission_exact [OF assms(3)] assert_admission_exact [of db' t] by simp
qed

lemma pause_project_example:
  "is_ok (pause 5 ''project'' (Some ''proj'') ''op'' [] control_example)"
  by code_simp

text \<open>
  The table \<open>ATTEMPT_TRANSITIONS\<close> is a finite one-way graph (the recovery edge from \<open>blocked\<close> back to
  \<open>waiting_approval\<close> that the lifecycle schema adds beside it is not part of the table): every status is active or terminal and not both,
  legal changes start only at active statuses and never form a cycle, so every sequence of changes
  ends; and every status but \<open>created\<close> has a task status that it projects to.
\<close>

lemma attempt_lifecycle_one_way:
  "set ACTIVE_ATTEMPT_STATUSES \<union> set TERMINAL_ATTEMPT_STATUSES = set ATTEMPT_STATUSES \<and>
   set ACTIVE_ATTEMPT_STATUSES \<inter> set TERMINAL_ATTEMPT_STATUSES = {} \<and>
   fst ` set ATTEMPT_TRANSITIONS \<subseteq> set ACTIVE_ATTEMPT_STATUSES \<and>
   wf (set ATTEMPT_TRANSITIONS) \<and> wf ((set ATTEMPT_TRANSITIONS)\<inverse>) \<and>
   filter (\<lambda>s. \<not> is_ok (task_status_for_attempt s)) ATTEMPT_STATUSES = [''created'']"
proof -
  have ac: "acyclic (set ATTEMPT_TRANSITIONS)"
    by (rule acyclic_by_position [where order = ATTEMPT_STATUSES]) code_simp
  have split: "set ACTIVE_ATTEMPT_STATUSES \<union> set TERMINAL_ATTEMPT_STATUSES = set ATTEMPT_STATUSES"
    by (simp only: ACTIVE_ATTEMPT_STATUSES_def TERMINAL_ATTEMPT_STATUSES_def ATTEMPT_STATUSES_def
        list.set Un_insert_left Un_empty_left)
  have "list_all (\<lambda>s. s \<notin> set TERMINAL_ATTEMPT_STATUSES) ACTIVE_ATTEMPT_STATUSES" by code_simp
  then have disj: "set ACTIVE_ATTEMPT_STATUSES \<inter> set TERMINAL_ATTEMPT_STATUSES = {}"
    unfolding list_all_iff by blast
  have "list_all (\<lambda>e. fst e \<in> set ACTIVE_ATTEMPT_STATUSES) ATTEMPT_TRANSITIONS"
    by code_simp
  then have "fst ` set ATTEMPT_TRANSITIONS \<subseteq> set ACTIVE_ATTEMPT_STATUSES"
    unfolding list_all_iff by blast
  moreover have "filter (\<lambda>s. \<not> is_ok (task_status_for_attempt s)) ATTEMPT_STATUSES = [''created'']"
    by code_simp
  ultimately show ?thesis
    using split disj finite_acyclic_wf [OF finite_set ac] finite_acyclic_wf_converse [OF finite_set ac]
    by blast
qed

end
