(* ===== verification/Runtime_Capacity.thy ===== *)
theory Runtime_Capacity
  imports Runtime_Control
begin

text \<open>
  The global concurrency limit (\<open>runtime_capacity.py\<close>) and the evidence gate that guards it
  (\<open>concurrency_gate.py\<close>). The file system, \<open>json.loads\<close>, SHA-256 and
  \<open>git rev-parse HEAD\<close> are the fields of \<open>gate_env\<close>, an argument of the operations
  that use them.

  Results: the gate passes exactly on complete evidence bound to the repository's own
  \<open>HEAD\<close>; no limit above 1 is ever stored without it (or, on a disposable database, without
  its own reason code); the effective limit is at least 1 and is 1 by default.
\<close>

section \<open>The evidence gate (concurrency\_gate.py)\<close>

definition CONCURRENCY_REHEARSAL_SCHEMA_VERSION :: string where
  "CONCURRENCY_REHEARSAL_SCHEMA_VERSION = ''v1_step4_concurrency_rehearsal.v1''"

definition CONCURRENCY_GATE_SCHEMA_VERSION :: string where
  "CONCURRENCY_GATE_SCHEMA_VERSION = ''v1_step4_concurrency_gate.v1''"

definition REQUIRED_CONCURRENCY_CHECKS :: "(string \<times> string list) list" where
  "REQUIRED_CONCURRENCY_CHECKS =
     [(''19.1'',
       [''atomic_claim_threads_explicit_single_winner'',
        ''atomic_claim_processes_explicit_single_winner'',
        ''atomic_claim_threads_dispatcher_single_winner'',
        ''atomic_claim_processes_dispatcher_single_winner'',
        ''atomic_claim_losers_typed_refusal'',
        ''atomic_claim_single_attempt_and_lease'']),
      (''19.2'',
       [''concurrent_writes_no_lost_write'',
        ''concurrent_writes_integrity_check_ok'',
        ''concurrent_writes_lifecycle_log_valid'',
        ''concurrent_writes_contention_observable'']),
      (''19.3'',
       [''crash_holder_sigkilled'',
        ''crash_lease_expired'',
        ''crash_ticket_recovered_via_retry'',
        ''crash_nothing_running_forever'',
        ''crash_no_double_ownership'',
        ''crash_previous_attempt_auditable''])]"

record gate_env =
  ge_read :: "string \<Rightarrow> string option"
  ge_json_loads :: "string \<Rightarrow> json option"
  ge_sha256 :: "string \<Rightarrow> string"
  ge_git_head :: "string \<Rightarrow> string option"

text \<open>\<open>_load\<close>: payload, raw bytes and whether there was an error.\<close>

definition gate_load :: "gate_env \<Rightarrow> string \<Rightarrow> json option \<times> string option \<times> string list" where
  "gate_load env path =
     (case ge_read env path of
        None \<Rightarrow> (None, None, [''cannot read evidence''])
      | Some raw \<Rightarrow>
          (case ge_json_loads env raw of
             None \<Rightarrow> (None, Some raw, [''invalid evidence JSON''])
           | Some (JObj kvs) \<Rightarrow> (Some (JObj kvs), Some raw, [])
           | Some _ \<Rightarrow> (None, Some raw, [''top-level JSON must be an object''])))"

record gate_report =
  gr_gate :: string
  gr_errors :: "string list"
  gr_evidence_path :: string
  gr_evidence_sha256 :: "string option"
  gr_evidence_schema_version :: "json option"
  gr_evidence_repo_sha :: "json option"
  gr_audited_repo_sha :: "string option"

definition error_unless :: "bool \<Rightarrow> string \<Rightarrow> string list" where
  "error_unless b e = (if b then [] else [e])"

definition check_errors :: "json \<Rightarrow> (string \<times> string list) list \<Rightarrow> string list" where
  "check_errors checks required =
     concat (map (\<lambda>(section, names).
       concat (map (\<lambda>name. error_unless (json_get checks name = Some (JBool True)) name) names))
     required)"

definition payload_errors :: "json \<Rightarrow> string option \<Rightarrow> string list" where
  "payload_errors payload audited_sha =
     error_unless (json_get payload ''schema_version'' = Some (JStr CONCURRENCY_REHEARSAL_SCHEMA_VERSION))
       ''schema_version'' @
     (case audited_sha of
        None \<Rightarrow> [''cannot resolve git HEAD'']
      | Some sha \<Rightarrow> error_unless (json_get payload ''repo_sha'' = Some (JStr sha)) ''repo_sha'') @
     error_unless (json_get payload ''disposable_database'' = Some (JBool True)) ''disposable_database'' @
     error_unless (json_get payload ''production_database_touched'' = Some (JBool False))
       ''production_database_touched'' @
     (let (checks, es) = (case json_get payload ''checks'' of
            Some (JObj kvs) \<Rightarrow> (JObj kvs, [])
          | _ \<Rightarrow> (JObj [], [''checks must be an object'']))
      in es @ check_errors checks REQUIRED_CONCURRENCY_CHECKS) @
     error_unless (json_get payload ''all_checks_passed'' = Some (JBool True)) ''all_checks_passed''"

definition evaluate_concurrency_evidence :: "gate_env \<Rightarrow> string \<Rightarrow> string \<Rightarrow> gate_report" where
  "evaluate_concurrency_evidence env path root =
     (let (payload, raw, load_errors) = gate_load env path;
          audited_sha = ge_git_head env root;
          errors = load_errors @
            (case payload of None \<Rightarrow> [] | Some p \<Rightarrow> payload_errors p audited_sha)
      in \<lparr>gr_gate = (if errors \<noteq> [] then ''blocked'' else ''passed''), gr_errors = errors,
          gr_evidence_path = path, gr_evidence_sha256 = map_option (ge_sha256 env) raw,
          gr_evidence_schema_version = Option.bind payload (\<lambda>p. json_get p ''schema_version''),
          gr_evidence_repo_sha = Option.bind payload (\<lambda>p. json_get p ''repo_sha''),
          gr_audited_repo_sha = audited_sha\<rparr>)"

section \<open>The setting (runtime\_capacity.py)\<close>

definition DEFAULT_MAX_CONCURRENT_TASKS :: nat where
  "DEFAULT_MAX_CONCURRENT_TASKS = 1"

definition CAPACITY_SET_REASON :: string where
  "CAPACITY_SET_REASON = ''operator_capacity_set''"

definition DISPOSABLE_FIXTURE_CAPACITY_REASON :: string where
  "DISPOSABLE_FIXTURE_CAPACITY_REASON = ''disposable_fixture_capacity''"

record runtime_capacity_setting =
  cs_max_concurrent_tasks :: nat
  cs_source :: string
  cs_generation :: "nat option"
  cs_requested_by :: "string option"
  cs_requested_at :: "timestamp option"
  cs_evidence_path :: "string option"
  cs_evidence_sha256 :: "string option"
  cs_evidence_repo_sha :: "string option"

definition default_setting :: runtime_capacity_setting where
  "default_setting =
     \<lparr>cs_max_concurrent_tasks = DEFAULT_MAX_CONCURRENT_TASKS, cs_source = ''default'',
      cs_generation = None, cs_requested_by = None, cs_requested_at = None,
      cs_evidence_path = None, cs_evidence_sha256 = None, cs_evidence_repo_sha = None\<rparr>"

definition runtime_capacity_in_connection :: "db \<Rightarrow> runtime_capacity_setting" where
  "runtime_capacity_in_connection db =
     (if ''runtime_capacity_controls'' \<notin> set (db_tables db) then default_setting
      else case db_capacity db of
             None \<Rightarrow> default_setting
           | Some row \<Rightarrow>
               \<lparr>cs_max_concurrent_tasks = cc_max_concurrent_tasks row,
                cs_source = (if cc_reason_code row = DISPOSABLE_FIXTURE_CAPACITY_REASON
                             then ''disposable_fixture'' else ''configured''),
                cs_generation = Some (cc_generation row), cs_requested_by = Some (cc_requested_by row),
                cs_requested_at = Some (cc_requested_at row), cs_evidence_path = cc_evidence_path row,
                cs_evidence_sha256 = cc_evidence_sha256 row,
                cs_evidence_repo_sha = cc_evidence_repo_sha row\<rparr>)"

definition count_active_executor_leases_in_connection :: "db \<Rightarrow> nat" where
  "count_active_executor_leases_in_connection db =
     (if ''runtime_leases'' \<notin> set (db_tables db) then 0
      else length (filter l_is_active (db_leases db)))"

fun require_limit :: "json \<Rightarrow> nat result" where
  "require_limit (JInt n) = (if n < 1 then Inl ValueError else Inr (nat n))"
| "require_limit _ = Inl ValueError"

definition require_actor :: "string option \<Rightarrow> string result" where
  "require_actor actor =
     (let normalized = py_strip (case actor of None \<Rightarrow> [] | Some a \<Rightarrow> a) in
      if normalized = [] then Inl ValueError else Inr normalized)"

record evidence_fields =
  ef_path :: "string option"
  ef_sha256 :: "string option"
  ef_schema_version :: "string option"
  ef_repo_sha :: "string option"

definition no_evidence :: evidence_fields where
  "no_evidence = \<lparr>ef_path = None, ef_sha256 = None, ef_schema_version = None, ef_repo_sha = None\<rparr>"

definition write_setting ::
  "timestamp \<Rightarrow> nat \<Rightarrow> string \<Rightarrow> string \<Rightarrow> evidence_fields \<Rightarrow> (string \<times> json) list \<Rightarrow> db
     \<Rightarrow> (db \<times> runtime_capacity_setting) result" where
  "write_setting now limit actor reason_code evidence metadata db =
     (let previous = db_capacity db;
          generation = (case previous of None \<Rightarrow> 1 | Some p \<Rightarrow> cc_generation p + 1);
          row = \<lparr>cc_max_concurrent_tasks = limit, cc_evidence_path = ef_path evidence,
                 cc_evidence_sha256 = ef_sha256 evidence,
                 cc_evidence_schema_version = ef_schema_version evidence,
                 cc_evidence_repo_sha = ef_repo_sha evidence, cc_reason_code = reason_code,
                 cc_requested_by = actor, cc_requested_at = now, cc_generation = generation,
                 cc_metadata = metadata\<rparr>;
          event = \<lparr>cv_from_max = map_option cc_max_concurrent_tasks previous, cv_to_max = limit,
                   cv_evidence_path = ef_path evidence, cv_evidence_sha256 = ef_sha256 evidence,
                   cv_reason_code = reason_code, cv_actor = actor, cv_generation = generation,
                   cv_timestamp = now, cv_metadata = metadata\<rparr>
      in if limit < 1 \<or>
            \<not> (limit = 1 \<or> map_option length (ef_sha256 evidence) = Some 64 \<or>
               reason_code = DISPOSABLE_FIXTURE_CAPACITY_REASON)
         then Inl (SqlAbort ''CHECK constraint failed'')
         else let db' = db\<lparr>db_capacity := Some row,
                           db_capacity_events := db_capacity_events db @ [event]\<rparr>
              in Inr (db', runtime_capacity_in_connection db'))"

fun json_text :: "json option \<Rightarrow> string option" where
  "json_text (Some (JStr s)) = Some s"
| "json_text _ = None"

text \<open>The \<open>if limit > 1\<close> block of \<open>set_max_concurrent_tasks\<close>.\<close>

definition gate_evidence ::
  "gate_env \<Rightarrow> nat \<Rightarrow> string option \<Rightarrow> string \<Rightarrow> (string \<times> json) list
     \<Rightarrow> (evidence_fields \<times> (string \<times> json) list) result" where
  "gate_evidence env limit evidence_path repo_root metadata =
     (if limit > 1
     then (case evidence_path of
             None \<Rightarrow> Inl ConcurrencyGateRefused
           | Some path \<Rightarrow>
               let report = evaluate_concurrency_evidence env path repo_root in
               if gr_gate report \<noteq> ''passed'' then Inl ConcurrencyGateRefused
               else Inr (\<lparr>ef_path = Some (gr_evidence_path report),
                          ef_sha256 = gr_evidence_sha256 report,
                          ef_schema_version = json_text (gr_evidence_schema_version report),
                          ef_repo_sha = json_text (gr_evidence_repo_sha report)\<rparr>,
                         dict_set ''gate''
                           (JObj [(''schema_version'', JStr CONCURRENCY_GATE_SCHEMA_VERSION),
                                  (''audited_repo_sha'', jopt (gr_audited_repo_sha report))])
                           metadata))
     else Inr (no_evidence, metadata))"

definition set_max_concurrent_tasks ::
  "gate_env \<Rightarrow> timestamp \<Rightarrow> json \<Rightarrow> string option \<Rightarrow> string option \<Rightarrow> string
     \<Rightarrow> (string \<times> json) list \<Rightarrow> db \<Rightarrow> (db \<times> runtime_capacity_setting) result" where
  "set_max_concurrent_tasks env now value actor evidence_path repo_root metadata db =
     rbind (require_limit value) (\<lambda>limit.
     rbind (require_actor actor) (\<lambda>normalized_actor.
     rbind (gate_evidence env limit evidence_path repo_root metadata) (\<lambda>(evidence, event_metadata).
     write_setting now limit normalized_actor CAPACITY_SET_REASON evidence event_metadata db)))"

definition set_disposable_fixture_capacity ::
  "bool \<Rightarrow> timestamp \<Rightarrow> json \<Rightarrow> string \<Rightarrow> db \<Rightarrow> (db \<times> runtime_capacity_setting) result" where
  "set_disposable_fixture_capacity is_default_db now value fixture db =
     (if is_default_db then Inl RuntimeCapacityError
      else rbind (require_limit value) (\<lambda>limit.
        rbind (require_actor (Some fixture)) (\<lambda>f.
        write_setting now limit (''fixture:'' @ f) DISPOSABLE_FIXTURE_CAPACITY_REASON no_evidence
          [(''fixture'', JStr (py_strip fixture)), (''disposable_database'', JBool True)] db)))"

section \<open>Lemmas\<close>

lemma error_unless_Nil [simp]: "error_unless b e = [] \<longleftrightarrow> b"
  by (simp add: error_unless_def)

lemma payload_errors_Nil:
  "payload_errors p head = [] \<longleftrightarrow>
     json_get p ''schema_version'' = Some (JStr CONCURRENCY_REHEARSAL_SCHEMA_VERSION) \<and>
     (\<exists>sha. head = Some sha \<and> json_get p ''repo_sha'' = Some (JStr sha)) \<and>
     json_get p ''disposable_database'' = Some (JBool True) \<and>
     json_get p ''production_database_touched'' = Some (JBool False) \<and>
     (\<exists>kvs. json_get p ''checks'' = Some (JObj kvs) \<and>
        (\<forall>names \<in> snd ` set REQUIRED_CONCURRENCY_CHECKS. \<forall>name \<in> set names. map_of kvs name = Some (JBool True))) \<and>
     json_get p ''all_checks_passed'' = Some (JBool True)"
proof -
  have "check_errors (JObj kvs) rs = [] \<longleftrightarrow>
      (\<forall>names \<in> snd ` set rs. \<forall>name \<in> set names. map_of kvs name = Some (JBool True))" for kvs rs
    unfolding check_errors_def by (induction rs) auto
  then show ?thesis
    unfolding payload_errors_def append_is_Nil_conv error_unless_Nil Let_def
    by (cases head; cases "json_get p ''checks''"; simp split: json.split)
qed

lemma gate_passed_iff:
  "gr_gate (evaluate_concurrency_evidence env path root) = ''passed'' \<longleftrightarrow>
     (\<exists>raw kvs. ge_read env path = Some raw \<and> ge_json_loads env raw = Some (JObj kvs) \<and>
        payload_errors (JObj kvs) (ge_git_head env root) = [])"
  by (auto simp: evaluate_concurrency_evidence_def gate_load_def Let_def
      split: option.splits json.splits)

text \<open>The capacity table respects its \<open>CHECK\<close> constraints.\<close>

definition capacity_wf :: "db \<Rightarrow> bool" where
  "capacity_wf db \<longleftrightarrow> (case db_capacity db of None \<Rightarrow> True | Some c \<Rightarrow> 1 \<le> cc_max_concurrent_tasks c)"

lemma capacity_positive: "capacity_wf db \<Longrightarrow> 1 \<le> cs_max_concurrent_tasks (runtime_capacity_in_connection db)"
  by (auto simp: capacity_wf_def runtime_capacity_in_connection_def default_setting_def
      DEFAULT_MAX_CONCURRENT_TASKS_def split: option.splits)

lemma write_setting_Inr:
  assumes "write_setting now limit actor reason evidence metadata db = Inr (db', setting)"
  shows "1 \<le> limit" "setting = runtime_capacity_in_connection db'"
    "\<exists>row event. db' = db\<lparr>db_capacity := Some row, db_capacity_events := db_capacity_events db @ [event]\<rparr> \<and>
       cc_max_concurrent_tasks row = limit \<and> cc_reason_code row = reason \<and> cc_requested_by row = actor \<and>
       cc_evidence_path row = ef_path evidence \<and> cc_evidence_repo_sha row = ef_repo_sha evidence \<and>
       cc_generation row = (case db_capacity db of None \<Rightarrow> 1 | Some p \<Rightarrow> cc_generation p + 1) \<and>
       cv_to_max event = limit \<and> cv_from_max event = map_option cc_max_concurrent_tasks (db_capacity db) \<and>
       cv_generation event = cc_generation row"
proof -
  let ?g = "case db_capacity db of None \<Rightarrow> 1 | Some p \<Rightarrow> cc_generation p + 1"
  let ?row = "\<lparr>cc_max_concurrent_tasks = limit, cc_evidence_path = ef_path evidence,
      cc_evidence_sha256 = ef_sha256 evidence, cc_evidence_schema_version = ef_schema_version evidence,
      cc_evidence_repo_sha = ef_repo_sha evidence, cc_reason_code = reason, cc_requested_by = actor,
      cc_requested_at = now, cc_generation = ?g, cc_metadata = metadata\<rparr>"
  let ?event = "\<lparr>cv_from_max = map_option cc_max_concurrent_tasks (db_capacity db), cv_to_max = limit,
      cv_evidence_path = ef_path evidence, cv_evidence_sha256 = ef_sha256 evidence,
      cv_reason_code = reason, cv_actor = actor, cv_generation = ?g, cv_timestamp = now,
      cv_metadata = metadata\<rparr>"
  have *: "\<not> limit < 1" "db' = db\<lparr>db_capacity := Some ?row, db_capacity_events := db_capacity_events db @ [?event]\<rparr>"
    and st: "setting = runtime_capacity_in_connection db'"
    using assms unfolding write_setting_def Let_def if_raise_Inr by auto
  show "1 \<le> limit" "setting = runtime_capacity_in_connection db'" using * st by simp_all
  show "\<exists>row event. db' = db\<lparr>db_capacity := Some row, db_capacity_events := db_capacity_events db @ [event]\<rparr> \<and>
       cc_max_concurrent_tasks row = limit \<and> cc_reason_code row = reason \<and> cc_requested_by row = actor \<and>
       cc_evidence_path row = ef_path evidence \<and> cc_evidence_repo_sha row = ef_repo_sha evidence \<and>
       cc_generation row = ?g \<and>
       cv_to_max event = limit \<and> cv_from_max event = map_option cc_max_concurrent_tasks (db_capacity db) \<and>
       cv_generation event = cc_generation row"
    by (intro exI [of _ ?row] exI [of _ ?event] conjI *(2)) simp_all
qed

section \<open>Properties\<close>

text \<open>
  C26. The concurrency gate is exact and fails closed: it passes precisely when the evidence file can
  be read and parses to an object of the rehearsal schema, its \<open>repo_sha\<close> is the resolvable
  \<open>HEAD\<close> of the audited repository, it was taken on a disposable database without touching
  production, and every one of the required checks and the summary flag is literally true.
\<close>

theorem concurrency_gate_exact:
  "gr_gate (evaluate_concurrency_evidence env path root) = ''passed'' \<longleftrightarrow>
     (\<exists>raw kvs sha checks. ge_read env path = Some raw \<and> ge_json_loads env raw = Some (JObj kvs) \<and>
        map_of kvs ''schema_version'' = Some (JStr CONCURRENCY_REHEARSAL_SCHEMA_VERSION) \<and>
        ge_git_head env root = Some sha \<and> map_of kvs ''repo_sha'' = Some (JStr sha) \<and>
        map_of kvs ''disposable_database'' = Some (JBool True) \<and>
        map_of kvs ''production_database_touched'' = Some (JBool False) \<and>
        map_of kvs ''checks'' = Some (JObj checks) \<and>
        list_all (\<lambda>(section, names). list_all (\<lambda>name. map_of checks name = Some (JBool True)) names)
          REQUIRED_CONCURRENCY_CHECKS \<and>
        map_of kvs ''all_checks_passed'' = Some (JBool True))"
  unfolding gate_passed_iff payload_errors_Nil list_all_iff
  by (simp add: split_beta) blast

text \<open>
  C25. The limit is raised only on evidence: when \<open>set_max_concurrent_tasks\<close> stores a limit above 1,
  an evidence path was given and the gate passed on it for the repository's own \<open>HEAD\<close>, which is
  the commit recorded with the limit. Every accepted limit is at least 1, is the effective limit
  afterwards, and is recorded in one event with the limit before it.
\<close>

theorem raise_needs_evidence:
  assumes "set_max_concurrent_tasks env now value actor evidence_path repo_root metadata db = Inr (db', setting)"
    and "''runtime_capacity_controls'' \<in> set (db_tables db)"
  shows "\<exists>limit event. value = JInt (int limit) \<and> 1 \<le> limit \<and>
     cs_max_concurrent_tasks (runtime_capacity_in_connection db') = limit \<and>
     setting = runtime_capacity_in_connection db' \<and> cs_source setting = ''configured'' \<and>
     db_capacity_events db' = db_capacity_events db @ [event] \<and> cv_to_max event = limit \<and>
     cv_from_max event = map_option cc_max_concurrent_tasks (db_capacity db) \<and>
     (1 < limit \<longrightarrow> (\<exists>path sha. evidence_path = Some path \<and>
        gr_gate (evaluate_concurrency_evidence env path repo_root) = ''passed'' \<and>
        ge_git_head env repo_root = Some sha \<and> cs_evidence_repo_sha setting = Some sha))"
proof -
  obtain limit act ev md where l: "require_limit value = Inr limit"
    and e: "(gate_evidence env limit evidence_path repo_root metadata) = Inr (ev, md)"
    and w: "write_setting now limit act CAPACITY_SET_REASON ev md db = Inr (db', setting)"
    using assms(1) unfolding set_max_concurrent_tasks_def rbind_Inr_iff by (auto split: prod.splits)
  note ws = write_setting_Inr [OF w]
  have v: "value = JInt (int limit)" using l by (cases "value") (auto split: if_splits)
  have gate: "\<exists>path sha. evidence_path = Some path \<and>
        gr_gate (evaluate_concurrency_evidence env path repo_root) = ''passed'' \<and>
        ge_git_head env repo_root = Some sha \<and> ef_repo_sha ev = Some sha" if big: "1 < limit"
  proof -
    obtain path where p: "evidence_path = Some path"
      "gr_gate (evaluate_concurrency_evidence env path repo_root) = ''passed''"
      "ef_repo_sha ev = json_text (gr_evidence_repo_sha (evaluate_concurrency_evidence env path repo_root))"
      using e big by (auto simp: gate_evidence_def Let_def split: option.splits if_splits)
    then obtain raw kvs sha where "ge_read env path = Some raw" "ge_json_loads env raw = Some (JObj kvs)"
      "ge_git_head env repo_root = Some sha" "json_get (JObj kvs) ''repo_sha'' = Some (JStr sha)"
      unfolding gate_passed_iff payload_errors_Nil by blast
    then show ?thesis using p
      by (simp add: evaluate_concurrency_evidence_def gate_load_def Let_def)
  qed
  obtain row event where r: "db' = db\<lparr>db_capacity := Some row, db_capacity_events := db_capacity_events db @ [event]\<rparr>"
    "cc_max_concurrent_tasks row = limit" "cc_reason_code row = CAPACITY_SET_REASON"
    "cc_evidence_repo_sha row = ef_repo_sha ev" "cv_to_max event = limit"
    "cv_from_max event = map_option cc_max_concurrent_tasks (db_capacity db)"
    using ws(3) by blast
  have eff: "runtime_capacity_in_connection db' =
      \<lparr>cs_max_concurrent_tasks = limit, cs_source = ''configured'',
       cs_generation = Some (cc_generation row), cs_requested_by = Some (cc_requested_by row),
       cs_requested_at = Some (cc_requested_at row), cs_evidence_path = cc_evidence_path row,
       cs_evidence_sha256 = cc_evidence_sha256 row, cs_evidence_repo_sha = ef_repo_sha ev\<rparr>"
    using assms(2) r
    by (simp add: runtime_capacity_in_connection_def CAPACITY_SET_REASON_def
        DISPOSABLE_FIXTURE_CAPACITY_REASON_def)
  show ?thesis
    using v ws(1,2) eff r gate by (intro exI [of _ limit] exI [of _ event]) simp
qed

definition rehearsal_payload :: json where
  "rehearsal_payload = JObj
     [(''schema_version'', JStr CONCURRENCY_REHEARSAL_SCHEMA_VERSION), (''repo_sha'', JStr ''abc''),
      (''disposable_database'', JBool True), (''production_database_touched'', JBool False),
      (''checks'', JObj (concat (map (\<lambda>(section, names). map (\<lambda>n. (n, JBool True)) names)
          REQUIRED_CONCURRENCY_CHECKS))),
      (''all_checks_passed'', JBool True)]"

definition rehearsal_env :: gate_env where
  "rehearsal_env = \<lparr>ge_read = (\<lambda>_. Some ''raw''), ge_json_loads = (\<lambda>_. Some rehearsal_payload),
     ge_sha256 = (\<lambda>_. replicate 64 CHR ''0''), ge_git_head = (\<lambda>_. Some ''abc'')\<rparr>"

lemma raise_example:
  "is_ok (set_max_concurrent_tasks rehearsal_env 7 (JInt 4) (Some ''op'') (Some ''/e'') ''/repo'' [] (example_db []))"
  by code_simp

theorem raise_needs_evidence_witness:
  "\<exists>db' setting. set_max_concurrent_tasks rehearsal_env 7 (JInt 4) (Some ''op'') (Some ''/e'') ''/repo'' []
       (example_db []) = Inr (db', setting) \<and>
     cs_max_concurrent_tasks (runtime_capacity_in_connection db') = 4"
proof -
  obtain db' setting where s: "set_max_concurrent_tasks rehearsal_env 7 (JInt 4) (Some ''op'') (Some ''/e'')
      ''/repo'' [] (example_db []) = Inr (db', setting)"
    using raise_example unfolding is_ok_iff by (metis surj_pair)
  have "''runtime_capacity_controls'' \<in> set (db_tables (example_db []))" by (simp add: example_db_def)
  from raise_needs_evidence [OF s this] show ?thesis using s by auto
qed

end
