(* ===== verification/Execution_Policy.thy ===== *)
theory Execution_Policy
  imports Ticket_Metadata
begin

text \<open>
  The execution policy resolver (\<open>execution_policy.py\<close>): the only source of how a Ticket
  runs. It validates a project's \<open>execution:\<close> block strictly and refuses everything else with a
  reason code.

  The registry file, the YAML parser, \<open>Path.resolve\<close> (which follows symbolic links) and
  SHA-256 of the canonical JSON are fields of \<open>policy_env\<close>. YAML values are \<open>json\<close>
  values: mappings with text keys, lists, texts, integers, booleans and null.

  Results: an accepted policy has an allowed executor, bounded timeouts, non-empty validator lists
  without duplicates, and an argument vector in which each placeholder occurs exactly once; every
  refusal carries a known reason code. One gap is proved as well: the brace check of \<open>argv\<close>
  removes placeholders one after the other, so a nested placeholder passes it and survives in the
  resolved argument vector.
\<close>

section \<open>Python string operations used by the parser\<close>

function py_replace :: "string \<Rightarrow> string \<Rightarrow> string \<Rightarrow> string" where
  "py_replace p r [] = []"
| "py_replace p r (c # s) =
     (if p \<noteq> [] \<and> starts_with p (c # s) then r @ py_replace p r (drop (length p) (c # s))
      else c # py_replace p r s)"
  by pat_completeness auto
termination
  by (relation "measure (\<lambda>(p, r, s). length s)") auto

function py_count :: "string \<Rightarrow> string \<Rightarrow> nat" where
  "py_count p [] = 0"
| "py_count p (c # s) =
     (if p \<noteq> [] \<and> starts_with p (c # s) then Suc (py_count p (drop (length p) (c # s)))
      else py_count p s)"
  by pat_completeness auto
termination
  by (relation "measure (\<lambda>(p, s). length s)") auto

fun map_result :: "('a \<Rightarrow> 'b result) \<Rightarrow> 'a list \<Rightarrow> 'b list result" where
  "map_result f [] = Inr []"
| "map_result f (x # xs) = rbind (f x) (\<lambda>y. rbind (map_result f xs) (\<lambda>ys. Inr (y # ys)))"

section \<open>Reason codes and records\<close>

definition EXECUTOR_ALLOWLIST :: "string list" where
  "EXECUTOR_ALLOWLIST = [''claude-code'']"

definition POLICY_REGISTRY_UNAVAILABLE :: string where
  "POLICY_REGISTRY_UNAVAILABLE = ''execution_policy_registry_unavailable''"
definition POLICY_PROJECT_NOT_REGISTERED :: string where
  "POLICY_PROJECT_NOT_REGISTERED = ''execution_policy_project_not_registered''"
definition POLICY_MISSING :: string where
  "POLICY_MISSING = ''execution_policy_missing''"
definition POLICY_INVALID :: string where
  "POLICY_INVALID = ''execution_policy_invalid''"
definition POLICY_EXECUTOR_NOT_ALLOWED :: string where
  "POLICY_EXECUTOR_NOT_ALLOWED = ''execution_policy_executor_not_allowed''"
definition POLICY_VALIDATORS_EMPTY :: string where
  "POLICY_VALIDATORS_EMPTY = ''execution_policy_validators_empty''"
definition POLICY_TIMEOUT_MISSING :: string where
  "POLICY_TIMEOUT_MISSING = ''execution_policy_timeout_missing''"
definition POLICY_OVERRIDE_REFUSED :: string where
  "POLICY_OVERRIDE_REFUSED = ''execution_policy_override_refused''"
definition POLICY_CHANGED :: string where
  "POLICY_CHANGED = ''execution_policy_changed''"
definition POLICY_REPO_PATH_MISMATCH :: string where
  "POLICY_REPO_PATH_MISMATCH = ''execution_policy_repo_path_mismatch''"

definition POLICY_REASON_CODES :: "string list" where
  "POLICY_REASON_CODES =
     [POLICY_REGISTRY_UNAVAILABLE, POLICY_PROJECT_NOT_REGISTERED, POLICY_MISSING, POLICY_INVALID,
      POLICY_EXECUTOR_NOT_ALLOWED, POLICY_VALIDATORS_EMPTY, POLICY_TIMEOUT_MISSING,
      POLICY_OVERRIDE_REFUSED, POLICY_CHANGED, POLICY_REPO_PATH_MISMATCH]"

definition MAX_TIMEOUT_SECONDS :: int where
  "MAX_TIMEOUT_SECONDS = 86400"

definition POLICY_KEYS :: "string list" where
  "POLICY_KEYS =
     [''executor'', ''argv'', ''model'', ''effort'', ''timeout_seconds'', ''permission_profile'',
      ''policy_version'', ''implementation_validators'', ''integration_validators'', ''pr_feedback'']"

definition PLACEHOLDERS :: "string list" where
  "PLACEHOLDERS = [''{model}'', ''{effort}'']"

definition list_validator_names :: "string list" where
  "list_validator_names = [''pytest'', ''compile'', ''affected-tests'']"

record implementation_validator_policy =
  iv_name :: string
  iv_timeout_seconds :: int

record integration_validator_policy =
  gv_name :: string
  gv_command :: "string list"
  gv_timeout_seconds :: int

record execution_policy =
  ep_project :: string
  ep_executor :: string
  ep_argv :: "string list"
  ep_model :: string
  ep_effort :: string
  ep_timeout_seconds :: int
  ep_permission_profile :: string
  ep_policy_version :: string
  ep_implementation_validators :: "implementation_validator_policy list"
  ep_integration_validators :: "integration_validator_policy list"
  ep_registry_path :: string
  ep_sha256 :: string
  ep_repo_path :: "path option"
  ep_pr_feedback :: "json option"

text \<open>What reading and strictly parsing the registry file gives.\<close>

datatype registry_read = Unreadable | DuplicateKey | Loaded json

record policy_env =
  pe_default_path :: string
  pe_read :: "string \<Rightarrow> registry_read"
  pe_sha256 :: "json \<Rightarrow> string"
  pe_resolve :: "path \<Rightarrow> path"
  pe_home :: "string \<Rightarrow> string option"

section \<open>The canonical block\<close>

definition canonical_block ::
  "string \<Rightarrow> string list \<Rightarrow> string \<Rightarrow> string \<Rightarrow> int \<Rightarrow> string \<Rightarrow> string
     \<Rightarrow> implementation_validator_policy list \<Rightarrow> integration_validator_policy list \<Rightarrow> json option
     \<Rightarrow> json" where
  "canonical_block executor argv model effort timeout_seconds permission_profile policy_version
     implementation integration pr_feedback =
     JObj ([(''executor'', JStr executor), (''argv'', JList (map JStr argv)), (''model'', JStr model),
       (''effort'', JStr effort), (''timeout_seconds'', JInt timeout_seconds),
       (''permission_profile'', JStr permission_profile), (''policy_version'', JStr policy_version),
       (''implementation_validators'', JList (map (\<lambda>v.
          JObj [(''name'', JStr (iv_name v)), (''timeout_seconds'', JInt (iv_timeout_seconds v))])
          implementation)),
       (''integration_validators'', JList (map (\<lambda>v.
          JObj [(''name'', JStr (gv_name v)), (''command'', JList (map JStr (gv_command v))),
                (''timeout_seconds'', JInt (gv_timeout_seconds v))]) integration))] @
       (case pr_feedback of None \<Rightarrow> [] | Some f \<Rightarrow> [(''pr_feedback'', f)]))"

definition canonical :: "execution_policy \<Rightarrow> json" where
  "canonical p =
     canonical_block (ep_executor p) (ep_argv p) (ep_model p) (ep_effort p) (ep_timeout_seconds p)
       (ep_permission_profile p) (ep_policy_version p) (ep_implementation_validators p)
       (ep_integration_validators p) (ep_pr_feedback p)"

definition resolved_argv :: "execution_policy \<Rightarrow> string list" where
  "resolved_argv p =
     map (\<lambda>part. py_replace ''{effort}'' (ep_effort p) (py_replace ''{model}'' (ep_model p) part))
       (ep_argv p)"

definition implementation_validator_timeout :: "execution_policy \<Rightarrow> string \<Rightarrow> int result" where
  "implementation_validator_timeout p name =
     (case find (\<lambda>v. iv_name v = name) (ep_implementation_validators p) of
        None \<Rightarrow> Inl KeyError
      | Some v \<Rightarrow> Inr (iv_timeout_seconds v))"

section \<open>Parsing one block\<close>

definition policy_invalid :: exn where
  "policy_invalid = ExecutionPolicyError POLICY_INVALID"

text \<open>The regular expression \<open>_TOKEN\<close> as \<open>re.match\<close> reads it: \<open>$\<close> also matches before a
  final line feed.\<close>

definition token_char :: "char \<Rightarrow> bool" where
  "token_char c \<longleftrightarrow> ascii_alnum c \<or>
     c \<in> {CHR ''.'', CHR ''_'', CHR '':'', CHR ''/'', CHR ''@'', CHR ''+'', CHR ''-''}"

definition token_match :: "string \<Rightarrow> bool" where
  "token_match s =
     (case s of
        [] \<Rightarrow> False
      | c # cs \<Rightarrow> ascii_alnum c \<and>
          list_all token_char (if cs \<noteq> [] \<and> last cs = CHR 0x0A then butlast cs else cs))"

definition token :: "json \<Rightarrow> string \<Rightarrow> string result" where
  "token block key =
     (case json_get block key of
        Some (JStr v) \<Rightarrow> if token_match v then Inr v else Inl policy_invalid
      | _ \<Rightarrow> Inl policy_invalid)"

definition timeout :: "json option \<Rightarrow> int result" where
  "timeout v =
     (case v of
        None \<Rightarrow> Inl (ExecutionPolicyError POLICY_TIMEOUT_MISSING)
      | Some JNull \<Rightarrow> Inl (ExecutionPolicyError POLICY_TIMEOUT_MISSING)
      | Some (JInt n) \<Rightarrow> if 1 \<le> n \<and> n \<le> MAX_TIMEOUT_SECONDS then Inr n else Inl policy_invalid
      | Some _ \<Rightarrow> Inl policy_invalid)"

text \<open>\<open>str(value)\<close> of a scalar name; lists and mappings, which no later check accepts, are
  compared by value.\<close>

fun str_of_scalar :: "json option \<Rightarrow> json" where
  "str_of_scalar None = JStr ''None''"
| "str_of_scalar (Some JNull) = JStr ''None''"
| "str_of_scalar (Some (JBool b)) = JStr (if b then ''True'' else ''False'')"
| "str_of_scalar (Some (JInt n)) =
     JStr (if n < 0 then CHR ''-'' # decimal (nat (- n)) else decimal (nat n))"
| "str_of_scalar (Some v) = v"

fun is_obj :: "json \<Rightarrow> bool" where
  "is_obj (JObj _) = True"
| "is_obj _ = False"

fun obj_keys :: "json \<Rightarrow> string list" where
  "obj_keys (JObj kvs) = map fst kvs"
| "obj_keys _ = []"

definition validator_list :: "json \<Rightarrow> string \<Rightarrow> json list result" where
  "validator_list block key =
     (case json_get block key of
        None \<Rightarrow> Inl (ExecutionPolicyError POLICY_VALIDATORS_EMPTY)
      | Some JNull \<Rightarrow> Inl (ExecutionPolicyError POLICY_VALIDATORS_EMPTY)
      | Some (JList vs) \<Rightarrow>
          if vs = [] then Inl (ExecutionPolicyError POLICY_VALIDATORS_EMPTY)
          else if \<not> list_all is_obj vs then Inl policy_invalid
          else if \<not> distinct (map (\<lambda>v. str_of_scalar (json_get v ''name'')) vs) then Inl policy_invalid
          else Inr vs
      | Some _ \<Rightarrow> Inl policy_invalid)"

definition parse_executor :: "json \<Rightarrow> string result" where
  "parse_executor block =
     (case json_get block ''executor'' of
        Some (JStr e) \<Rightarrow>
          if py_strip e = [] then Inl policy_invalid
          else if e \<notin> set EXECUTOR_ALLOWLIST
          then Inl (ExecutionPolicyError POLICY_EXECUTOR_NOT_ALLOWED)
          else Inr e
      | _ \<Rightarrow> Inl policy_invalid)"

fun str_list :: "json option \<Rightarrow> string list option" where
  "str_list (Some (JList vs)) =
     (if list_all (\<lambda>v. case v of JStr _ \<Rightarrow> True | _ \<Rightarrow> False) vs
      then Some (map (\<lambda>v. case v of JStr s \<Rightarrow> s | _ \<Rightarrow> []) vs) else None)"
| "str_list _ = None"

definition parse_argv :: "json \<Rightarrow> string list result" where
  "parse_argv block =
     (case str_list (json_get block ''argv'') of
        None \<Rightarrow> Inl policy_invalid
      | Some argv \<Rightarrow>
          if argv = [] \<or> list_ex (\<lambda>part. py_strip part = []) argv then Inl policy_invalid
          else
            let joined = py_join [CHR 0x00] argv;
                stripped = foldl (\<lambda>s p. py_replace p [] s) joined PLACEHOLDERS
            in if list_ex (\<lambda>p. py_count p joined \<noteq> 1) PLACEHOLDERS then Inl policy_invalid
               else if CHR ''{'' \<in> set stripped \<or> CHR ''}'' \<in> set stripped then Inl policy_invalid
               else if CHR ''{'' \<in> set (hd argv) then Inl policy_invalid
               else Inr argv)"

definition parse_policy_version :: "json \<Rightarrow> string result" where
  "parse_policy_version block =
     (case json_get block ''policy_version'' of
        Some (JInt _) \<Rightarrow> Inl policy_invalid
      | _ \<Rightarrow> token block ''policy_version'')"

definition parse_implementation_validator :: "json \<Rightarrow> implementation_validator_policy result" where
  "parse_implementation_validator v =
     (if \<not> list_all (\<lambda>k. k \<in> {''name'', ''timeout_seconds''}) (obj_keys v) then Inl policy_invalid
      else case json_get v ''name'' of
             Some (JStr name) \<Rightarrow>
               if name \<notin> set list_validator_names then Inl policy_invalid
               else rbind (timeout (json_get v ''timeout_seconds'')) (\<lambda>t.
                      Inr \<lparr>iv_name = name, iv_timeout_seconds = t\<rparr>)
           | _ \<Rightarrow> Inl policy_invalid)"

definition parse_integration_validator :: "json \<Rightarrow> integration_validator_policy result" where
  "parse_integration_validator v =
     (if \<not> list_all (\<lambda>k. k \<in> {''name'', ''command'', ''timeout_seconds''}) (obj_keys v)
      then Inl policy_invalid
      else case json_get v ''name'' of
             Some (JStr name) \<Rightarrow>
               if \<not> token_match name then Inl policy_invalid
               else (case str_list (json_get v ''command'') of
                  None \<Rightarrow> Inl policy_invalid
                | Some command \<Rightarrow>
                    if command = [] \<or> list_ex (\<lambda>part. part = []) command then Inl policy_invalid
                    else rbind (timeout (json_get v ''timeout_seconds'')) (\<lambda>t.
                      Inr \<lparr>gv_name = name, gv_command = command, gv_timeout_seconds = t\<rparr>))
           | _ \<Rightarrow> Inl policy_invalid)"

definition login_char :: "char \<Rightarrow> bool" where
  "login_char c \<longleftrightarrow> ascii_alnum c \<or> c = CHR ''-''"

definition get_default :: "json \<Rightarrow> string \<Rightarrow> json \<Rightarrow> json" where
  "get_default obj key d = (case json_get obj key of None \<Rightarrow> d | Some v \<Rightarrow> v)"

definition parse_pr_feedback :: "json \<Rightarrow> json option result" where
  "parse_pr_feedback block =
     (case json_get block ''pr_feedback'' of
        None \<Rightarrow> Inr None
      | Some feedback \<Rightarrow>
          if \<not> is_obj feedback \<or>
             \<not> list_all (\<lambda>k. k \<in> {''trigger'', ''allowed_authors'', ''max_ci_fix_attempts''}) (obj_keys feedback)
          then Inl policy_invalid
          else
            (case get_default feedback ''trigger'' (JStr ''@taskflow'') of
               JStr trigger \<Rightarrow>
                 if py_strip trigger = [] then Inl policy_invalid
                 else
                   let authors = get_default feedback ''allowed_authors'' JNull in
                   if authors \<noteq> JNull \<and>
                      (case str_list (Some authors) of
                         None \<Rightarrow> True
                       | Some as \<Rightarrow> as = [] \<or> \<not> list_all (\<lambda>a. a \<noteq> [] \<and> list_all login_char a) as)
                   then Inl policy_invalid
                   else
                     (case get_default feedback ''max_ci_fix_attempts'' (JInt 2) of
                        JInt maximum \<Rightarrow>
                          if maximum < 0 then Inl policy_invalid
                          else Inr (Some (JObj ([(''trigger'', JStr trigger),
                                 (''max_ci_fix_attempts'', JInt maximum)] @
                                 (if authors = JNull then [] else [(''allowed_authors'', authors)]))))
                      | _ \<Rightarrow> Inl policy_invalid)
             | _ \<Rightarrow> Inl policy_invalid))"

definition parse_execution_policy ::
  "policy_env \<Rightarrow> string \<Rightarrow> json option \<Rightarrow> string \<Rightarrow> execution_policy result" where
  "parse_execution_policy env project block_opt registry_path =
     (if block_opt = None \<or> block_opt = Some JNull
      then Inl (ExecutionPolicyError POLICY_MISSING)
      else
        let block = the block_opt in
        if \<not> is_obj block then Inl policy_invalid
        else if \<not> list_all (\<lambda>k. k \<in> set POLICY_KEYS) (obj_keys block) then Inl policy_invalid
        else
     rbind (parse_executor block) (\<lambda>executor.
     rbind (timeout (json_get block ''timeout_seconds'')) (\<lambda>timeout_seconds.
     rbind (parse_argv block) (\<lambda>argv.
     rbind (token block ''model'') (\<lambda>model.
     rbind (token block ''effort'') (\<lambda>effort.
     rbind (token block ''permission_profile'') (\<lambda>permission_profile.
     rbind (parse_policy_version block) (\<lambda>policy_version.
     rbind (validator_list block ''implementation_validators'') (\<lambda>ivs.
     rbind (map_result parse_implementation_validator ivs) (\<lambda>implementation.
     rbind (validator_list block ''integration_validators'') (\<lambda>gvs.
     rbind (map_result parse_integration_validator gvs) (\<lambda>integration.
     rbind (parse_pr_feedback block) (\<lambda>feedback.
       Inr \<lparr>ep_project = project, ep_executor = executor, ep_argv = argv, ep_model = model,
            ep_effort = effort, ep_timeout_seconds = timeout_seconds,
            ep_permission_profile = permission_profile, ep_policy_version = policy_version,
            ep_implementation_validators = implementation, ep_integration_validators = integration,
            ep_registry_path = registry_path,
            ep_sha256 = pe_sha256 env (canonical_block executor argv model effort timeout_seconds
              permission_profile policy_version implementation integration feedback),
            ep_repo_path = None, ep_pr_feedback = feedback\<rparr>)))))))))))))"

section \<open>The registry\<close>

definition registry_path :: "policy_env \<Rightarrow> string option \<Rightarrow> string result" where
  "registry_path env config_path =
     (let path = parse_path (case config_path of None \<Rightarrow> pe_default_path env | Some p \<Rightarrow> p) in
      if \<not> is_absolute path then Inl (ExecutionPolicyError POLICY_REGISTRY_UNAVAILABLE)
      else Inr (path_str path))"

definition load_registry_projects ::
  "policy_env \<Rightarrow> string option \<Rightarrow> (string \<times> (string \<times> json) list) result" where
  "load_registry_projects env config_path =
     rbind (registry_path env config_path) (\<lambda>path.
       case pe_read env path of
         Unreadable \<Rightarrow> Inl (ExecutionPolicyError POLICY_REGISTRY_UNAVAILABLE)
       | DuplicateKey \<Rightarrow> Inl policy_invalid
       | Loaded data \<Rightarrow>
           (case json_get data ''projects'' of
              Some (JObj projects) \<Rightarrow> Inr (path, projects)
            | _ \<Rightarrow> Inl (ExecutionPolicyError POLICY_REGISTRY_UNAVAILABLE)))"

definition resolve_execution_policy ::
  "policy_env \<Rightarrow> string \<Rightarrow> string option \<Rightarrow> execution_policy result" where
  "resolve_execution_policy env project config_path =
     rbind (load_registry_projects env config_path) (\<lambda>(path, projects).
       let name = py_strip project in
       case (if name = [] then None else map_of projects name) of
         Some (JObj entry) \<Rightarrow>
           rbind (parse_execution_policy env name (map_of entry ''execution'') path) (\<lambda>policy.
             let repo = (case map_of entry ''repo_path'' of
                   Some (JStr raw) \<Rightarrow> if is_absolute (parse_path raw) then Some (parse_path raw) else None
                 | _ \<Rightarrow> None)
             in Inr (policy\<lparr>ep_repo_path := repo\<rparr>))
       | _ \<Rightarrow> Inl (ExecutionPolicyError POLICY_PROJECT_NOT_REGISTERED))"

definition resolved_repo :: "policy_env \<Rightarrow> string option \<Rightarrow> path option" where
  "resolved_repo env v =
     (case v of
        None \<Rightarrow> None
      | Some s \<Rightarrow> if py_strip s = [] \<or> \<not> is_absolute (parse_path s) then None
                  else Some (pe_resolve env (parse_path s)))"

definition ticket_repo_path_refusal ::
  "policy_env \<Rightarrow> execution_policy \<Rightarrow> string option \<Rightarrow> exn option" where
  "ticket_repo_path_refusal env policy ticket_repo_path =
     (let registry_repo = resolved_repo env (map_option path_str (ep_repo_path policy));
          ticket_repo = resolved_repo env ticket_repo_path
      in if registry_repo = None \<or> ticket_repo = None \<or> registry_repo \<noteq> ticket_repo
         then Some (ExecutionPolicyError POLICY_REPO_PATH_MISMATCH) else None)"

definition execution_policy_refusal :: "policy_env \<Rightarrow> string \<Rightarrow> string option \<Rightarrow> exn option" where
  "execution_policy_refusal env project config_path =
     (case resolve_execution_policy env project config_path of Inl e \<Rightarrow> Some e | Inr _ \<Rightarrow> None)"

text \<open>\<open>str(value or "").strip()\<close>; a list or a mapping, whose text is no repository name, is \<open>None\<close>.\<close>

definition github_repo_text :: "json option \<Rightarrow> string option" where
  "github_repo_text v =
     (if json_truthy v then (case str_of_scalar v of JStr s \<Rightarrow> Some (py_strip s) | _ \<Rightarrow> None)
      else Some [])"

fun matching_projects ::
  "policy_env \<Rightarrow> string \<Rightarrow> path \<Rightarrow> (string \<times> json) list \<Rightarrow> string list result" where
  "matching_projects env github_repo target [] = Inr []"
| "matching_projects env github_repo target ((name, entry) # rest) =
     rbind (if is_obj entry \<and> github_repo_text (json_get entry ''github_repo'') = Some github_repo
            then (case json_get entry ''repo_path'' of
                    Some (JStr raw) \<Rightarrow>
                      rbind (expanduser (pe_home env) (parse_path raw)) (\<lambda>p.
                        Inr (pe_resolve env p = target))
                  | _ \<Rightarrow> Inr False)
            else Inr False) (\<lambda>hit.
     rbind (matching_projects env github_repo target rest) (\<lambda>names.
     Inr (if hit then name # names else names)))"

definition resolve_repository_execution_policy ::
  "policy_env \<Rightarrow> string \<Rightarrow> string \<Rightarrow> string option \<Rightarrow> execution_policy result" where
  "resolve_repository_execution_policy env github_repo repo_path config_path =
     rbind (load_registry_projects env config_path) (\<lambda>(path, projects).
     rbind (expanduser (pe_home env) (parse_path repo_path)) (\<lambda>expanded.
     rbind (matching_projects env github_repo (pe_resolve env expanded) projects) (\<lambda>matches.
       case matches of
         [name] \<Rightarrow> resolve_execution_policy env name (Some path)
       | _ \<Rightarrow> Inl (ExecutionPolicyError POLICY_PROJECT_NOT_REGISTERED))))"

section \<open>Lemmas\<close>

lemma map_result_Inr: "map_result f xs = Inr ys \<longleftrightarrow> list_all2 (\<lambda>x y. f x = Inr y) xs ys"
  by (induction xs arbitrary: ys) (auto simp: rbind_Inr_iff list_all2_Cons1)

lemma map_result_Inl: "map_result f xs = Inl e \<Longrightarrow> \<exists>x \<in> set xs. f x = Inl e"
  by (induction xs) (auto simp: rbind_Inl_iff)

definition timeout_ok :: "int \<Rightarrow> bool" where
  "timeout_ok t \<longleftrightarrow> 1 \<le> t \<and> t \<le> MAX_TIMEOUT_SECONDS"

definition argv_ok :: "string list \<Rightarrow> bool" where
  "argv_ok argv \<longleftrightarrow> argv \<noteq> [] \<and> list_all (\<lambda>part. py_strip part \<noteq> []) argv \<and>
     py_count ''{model}'' (py_join [CHR 0x00] argv) = 1 \<and>
     py_count ''{effort}'' (py_join [CHR 0x00] argv) = 1 \<and> CHR ''{'' \<notin> set (hd argv)"

definition policy_wf :: "execution_policy \<Rightarrow> bool" where
  "policy_wf p \<longleftrightarrow> ep_executor p \<in> set EXECUTOR_ALLOWLIST \<and> timeout_ok (ep_timeout_seconds p) \<and>
     argv_ok (ep_argv p) \<and>
     list_all token_match [ep_model p, ep_effort p, ep_permission_profile p, ep_policy_version p] \<and>
     ep_implementation_validators p \<noteq> [] \<and> distinct (map iv_name (ep_implementation_validators p)) \<and>
     list_all (\<lambda>v. iv_name v \<in> set list_validator_names \<and> timeout_ok (iv_timeout_seconds v))
       (ep_implementation_validators p) \<and>
     ep_integration_validators p \<noteq> [] \<and> distinct (map gv_name (ep_integration_validators p)) \<and>
     list_all (\<lambda>v. token_match (gv_name v) \<and> gv_command v \<noteq> [] \<and> timeout_ok (gv_timeout_seconds v))
       (ep_integration_validators p)"

lemma timeout_Inr: "timeout v = Inr t \<Longrightarrow> timeout_ok t"
  by (auto simp: timeout_def timeout_ok_def split: option.splits json.splits if_splits)

lemma token_Inr: "token b k = Inr v \<Longrightarrow> token_match v"
  by (auto simp: token_def split: option.splits json.splits if_splits)

lemma parse_policy_version_Inr: "parse_policy_version b = Inr v \<Longrightarrow> token_match v"
  by (auto simp: parse_policy_version_def dest: token_Inr split: option.splits json.splits)

lemma parse_executor_Inr: "parse_executor b = Inr e \<Longrightarrow> e \<in> set EXECUTOR_ALLOWLIST"
  by (auto simp: parse_executor_def split: option.splits json.splits if_splits)

lemma parse_argv_Inr: "parse_argv b = Inr argv \<Longrightarrow> argv_ok argv"
  by (auto simp: parse_argv_def argv_ok_def Let_def PLACEHOLDERS_def list_all_iff list_ex_iff
      split: option.splits if_splits)

lemma validator_list_Inr:
  "validator_list b k = Inr vs \<Longrightarrow>
     vs \<noteq> [] \<and> distinct (map (\<lambda>v. str_of_scalar (json_get v ''name'')) vs)"
  by (auto simp: validator_list_def split: option.splits json.splits if_splits)

lemma parse_implementation_validator_Inr:
  assumes "parse_implementation_validator v = Inr p"
  shows "json_get v ''name'' = Some (JStr (iv_name p))" "iv_name p \<in> set list_validator_names"
    "timeout_ok (iv_timeout_seconds p)"
  using assms
  by (auto simp: parse_implementation_validator_def rbind_Inr_iff dest: timeout_Inr
      split: option.splits json.splits if_splits)

lemma parse_integration_validator_Inr:
  assumes "parse_integration_validator v = Inr p"
  shows "json_get v ''name'' = Some (JStr (gv_name p))" "token_match (gv_name p)"
    "gv_command p \<noteq> []" "timeout_ok (gv_timeout_seconds p)"
  using assms
  by (auto simp: parse_integration_validator_def rbind_Inr_iff dest: timeout_Inr
      split: option.splits json.splits if_splits)

lemma parsed_names_distinct:
  assumes "list_all2 (\<lambda>v p. json_get v ''name'' = Some (JStr (name p))) vs ps"
    and "distinct (map (\<lambda>v. str_of_scalar (json_get v ''name'')) vs)"
  shows "distinct (map name ps)"
proof -
  have "map (\<lambda>v. str_of_scalar (json_get v ''name'')) vs = map JStr (map name ps)"
    using assms(1) by (induction rule: list_all2_induct) auto
  then show ?thesis using assms(2) by (metis distinct_map)
qed

lemma list_all2_right: "list_all2 P xs ys \<Longrightarrow> (\<And>x y. P x y \<Longrightarrow> Q y) \<Longrightarrow> list_all Q ys"
  by (induction rule: list_all2_induct) auto

lemma parse_execution_policy_wf:
  assumes "parse_execution_policy env project block path = Inr p"
  shows "policy_wf p" "ep_sha256 p = pe_sha256 env (canonical p)" "ep_repo_path p = None"
    "ep_project p = project"
proof -
  define b where "b = the block"
  obtain executor t argv m e pp v ivs impl gvs integ fb where
    b: "parse_executor b = Inr executor" "timeout (json_get b ''timeout_seconds'') = Inr t"
    "parse_argv b = Inr argv" "token b ''model'' = Inr m" "token b ''effort'' = Inr e"
    "token b ''permission_profile'' = Inr pp" "parse_policy_version b = Inr v"
    and iv: "validator_list b ''implementation_validators'' = Inr ivs"
    "map_result parse_implementation_validator ivs = Inr impl"
    and gv: "validator_list b ''integration_validators'' = Inr gvs"
    "map_result parse_integration_validator gvs = Inr integ"
    and fin: "Inr \<lparr>ep_project = project, ep_executor = executor, ep_argv = argv, ep_model = m,
            ep_effort = e, ep_timeout_seconds = t,
            ep_permission_profile = pp, ep_policy_version = v,
            ep_implementation_validators = impl, ep_integration_validators = integ,
            ep_registry_path = path,
            ep_sha256 = pe_sha256 env (canonical_block executor argv m e t pp v impl integ fb),
            ep_repo_path = None, ep_pr_feedback = fb\<rparr> = (Inr p :: execution_policy result)"
    using assms unfolding parse_execution_policy_def Let_def if_raise_Inr rbind_Inr_iff b_def [symmetric]
    by blast
  note p = sum.inject(2) [THEN iffD1, OF fin, symmetric]
  have i2: "list_all2 (\<lambda>v p. parse_implementation_validator v = Inr p) ivs impl"
    using iv(2) by (simp add: map_result_Inr)
  have g2: "list_all2 (\<lambda>v p. parse_integration_validator v = Inr p) gvs integ"
    using gv(2) by (simp add: map_result_Inr)
  have "distinct (map iv_name impl)"
    by (rule parsed_names_distinct [OF list_all2_mono [OF i2]])
       (use parse_implementation_validator_Inr(1) validator_list_Inr [OF iv(1)] in blast)+
  moreover have "distinct (map gv_name integ)"
    by (rule parsed_names_distinct [OF list_all2_mono [OF g2]])
       (use parse_integration_validator_Inr(1) validator_list_Inr [OF gv(1)] in blast)+
  moreover have "impl \<noteq> []" "integ \<noteq> []"
    using validator_list_Inr [OF iv(1)] validator_list_Inr [OF gv(1)] i2 g2 by auto
  moreover have "list_all (\<lambda>v. iv_name v \<in> set list_validator_names \<and> timeout_ok (iv_timeout_seconds v)) impl"
    using parse_implementation_validator_Inr by (intro list_all2_right [OF i2]) blast
  moreover have "list_all (\<lambda>v. token_match (gv_name v) \<and> gv_command v \<noteq> [] \<and> timeout_ok (gv_timeout_seconds v)) integ"
    using parse_integration_validator_Inr by (intro list_all2_right [OF g2]) blast
  ultimately show "policy_wf p"
    using parse_executor_Inr [OF b(1)] timeout_Inr [OF b(2)] parse_argv_Inr [OF b(3)]
      token_Inr [OF b(4)] token_Inr [OF b(5)] token_Inr [OF b(6)] parse_policy_version_Inr [OF b(7)]
    by (simp add: policy_wf_def p)
  show "ep_sha256 p = pe_sha256 env (canonical p)" "ep_repo_path p = None" "ep_project p = project"
    by (simp_all add: p canonical_def)
qed

lemma resolve_execution_policy_Inr:
  assumes "resolve_execution_policy env project config = Inr policy"
  obtains p path entry where
    "parse_execution_policy env (py_strip project) (map_of entry ''execution'') path = Inr p"
    "policy = p\<lparr>ep_repo_path := ep_repo_path policy\<rparr>" "py_strip project \<noteq> []"
proof -
  obtain path projects where l: "load_registry_projects env config = Inr (path, projects)"
    using assms by (auto simp: resolve_execution_policy_def rbind_Inr_iff)
  obtain entry where e: "py_strip project \<noteq> []" "map_of projects (py_strip project) = Some (JObj entry)"
    using assms by (auto simp: resolve_execution_policy_def l Let_def
        split: option.splits json.splits if_splits)
  have r: "rbind (parse_execution_policy env (py_strip project) (map_of entry ''execution'') path) (\<lambda>policy.
             Inr (policy\<lparr>ep_repo_path := (case map_of entry ''repo_path'' of
                   Some (JStr raw) \<Rightarrow> if is_absolute (parse_path raw) then Some (parse_path raw) else None
                 | _ \<Rightarrow> None)\<rparr>)) = Inr policy"
    using assms unfolding resolve_execution_policy_def l Let_def rbind_simps prod.case by (simp add: e)
  then obtain p where "parse_execution_policy env (py_strip project) (map_of entry ''execution'') path = Inr p"
    and pol: "policy = p\<lparr>ep_repo_path := (case map_of entry ''repo_path'' of
                   Some (JStr raw) \<Rightarrow> if is_absolute (parse_path raw) then Some (parse_path raw) else None
                 | _ \<Rightarrow> None)\<rparr>"
    unfolding rbind_Inr_iff by blast
  moreover have "policy = p\<lparr>ep_repo_path := ep_repo_path policy\<rparr>" by (simp add: pol)
  ultimately show ?thesis using that e(1) by blast
qed

definition policy_refusal :: "exn \<Rightarrow> bool" where
  "policy_refusal e \<longleftrightarrow> (\<exists>c \<in> set POLICY_REASON_CODES. e = ExecutionPolicyError c)"

lemma policy_refusal_codes [simp, intro]:
  "policy_refusal policy_invalid"
  "policy_refusal (ExecutionPolicyError POLICY_REGISTRY_UNAVAILABLE)"
  "policy_refusal (ExecutionPolicyError POLICY_PROJECT_NOT_REGISTERED)"
  "policy_refusal (ExecutionPolicyError POLICY_MISSING)"
  "policy_refusal (ExecutionPolicyError POLICY_EXECUTOR_NOT_ALLOWED)"
  "policy_refusal (ExecutionPolicyError POLICY_VALIDATORS_EMPTY)"
  "policy_refusal (ExecutionPolicyError POLICY_TIMEOUT_MISSING)"
  by (simp_all add: policy_refusal_def POLICY_REASON_CODES_def policy_invalid_def)

named_theorems refusal_rules \<open>every step of the parser refuses with a reason code\<close>

lemma token_Inl [refusal_rules]: "token b k = Inl e \<Longrightarrow> policy_refusal e"
  by (auto simp: token_def split: option.splits json.splits if_splits)
lemma timeout_Inl [refusal_rules]: "timeout v = Inl e \<Longrightarrow> policy_refusal e"
  by (auto simp: timeout_def split: option.splits json.splits if_splits)
lemma parse_policy_version_Inl [refusal_rules]: "parse_policy_version b = Inl e \<Longrightarrow> policy_refusal e"
  by (auto simp: parse_policy_version_def dest: token_Inl split: option.splits json.splits)
lemma parse_executor_Inl [refusal_rules]: "parse_executor b = Inl e \<Longrightarrow> policy_refusal e"
  by (auto simp: parse_executor_def split: option.splits json.splits if_splits)
lemma parse_argv_Inl [refusal_rules]: "parse_argv b = Inl e \<Longrightarrow> policy_refusal e"
  by (auto simp: parse_argv_def Let_def split: option.splits if_splits)
lemma validator_list_Inl [refusal_rules]: "validator_list b k = Inl e \<Longrightarrow> policy_refusal e"
  by (auto simp: validator_list_def split: option.splits json.splits if_splits)
lemma parse_implementation_validator_Inl [refusal_rules]:
  "parse_implementation_validator v = Inl e \<Longrightarrow> policy_refusal e"
  by (auto simp: parse_implementation_validator_def rbind_Inl_iff dest: timeout_Inl
      split: option.splits json.splits if_splits)
lemma parse_integration_validator_Inl [refusal_rules]:
  "parse_integration_validator v = Inl e \<Longrightarrow> policy_refusal e"
  by (auto simp: parse_integration_validator_def rbind_Inl_iff dest: timeout_Inl
      split: option.splits json.splits if_splits)
lemma parse_pr_feedback_Inl [refusal_rules]: "parse_pr_feedback b = Inl e \<Longrightarrow> policy_refusal e"
  by (auto simp: parse_pr_feedback_def Let_def split: option.splits json.splits if_splits)
lemma map_result_refusal [refusal_rules]:
  "\<lbrakk>map_result f xs = Inl e; \<And>x. f x = Inl e \<Longrightarrow> policy_refusal e\<rbrakk> \<Longrightarrow> policy_refusal e"
  using map_result_Inl by blast

lemma parse_execution_policy_Inl:
  assumes "parse_execution_policy env project block path = Inl e"
  shows "policy_refusal e"
  using assms unfolding parse_execution_policy_def Let_def if_raise_Inl rbind_Inl_iff
  by (elim disjE conjE exE) (auto intro: refusal_rules)

lemma load_registry_projects_Inl:
  assumes "load_registry_projects env config = Inl e"
  shows "policy_refusal e"
proof (cases "registry_path env config")
  case (Inl x)
  then have "policy_refusal x" by (auto simp: registry_path_def Let_def split: if_splits)
  then show ?thesis using Inl assms by (simp add: load_registry_projects_def)
next
  case (Inr path)
  then show ?thesis using assms
    by (auto simp: load_registry_projects_def split: registry_read.splits option.splits json.splits)
qed

lemma resolve_execution_policy_Inl:
  assumes "resolve_execution_policy env project config = Inl e"
  shows "policy_refusal e"
proof (cases "load_registry_projects env config")
  case (Inr r)
  then show ?thesis using assms
    by (auto simp: resolve_execution_policy_def rbind_Inl_iff Let_def
        dest: parse_execution_policy_Inl split: prod.splits option.splits json.splits)
qed (use assms load_registry_projects_Inl in \<open>auto simp: resolve_execution_policy_def\<close>)

definition example_block :: "string list \<Rightarrow> json" where
  "example_block argv = JObj
     [(''executor'', JStr ''claude-code''), (''argv'', JList (map JStr argv)), (''model'', JStr ''opus''),
      (''effort'', JStr ''high''), (''timeout_seconds'', JInt 3600), (''permission_profile'', JStr ''std''),
      (''policy_version'', JStr ''v1''),
      (''implementation_validators'', JList [JObj [(''name'', JStr ''pytest''), (''timeout_seconds'', JInt 9)]]),
      (''integration_validators'', JList [JObj [(''name'', JStr ''t''), (''command'', JList [JStr ''x'']),
         (''timeout_seconds'', JInt 9)]])]"

definition example_policy_env :: "string list \<Rightarrow> policy_env" where
  "example_policy_env argv =
     \<lparr>pe_default_path = ''/r/projects.yaml'',
      pe_read = (\<lambda>_. Loaded (JObj [(''projects'', JObj [(''proj'', JObj
         [(''repo_path'', JStr ''/repo''), (''execution'', example_block argv)])])])),
      pe_sha256 = (\<lambda>_. ''sha''), pe_resolve = id, pe_home = (\<lambda>_. None)\<rparr>"

definition example_argv :: "string list" where
  "example_argv = [''claude'', ''{model}'', ''{effort}'']"

section \<open>Properties\<close>

text \<open>
  C27. Every policy the resolver returns is complete and within bounds: the executor is on the allow
  list, all timeouts lie in 1 to 86400 seconds, model, effort, permission profile and version are
  tokens, the argument vector names an executable and contains each of the two placeholders exactly
  once, both validator lists are non-empty and free of duplicate names, every implementation
  validator is a registered one; and the recorded hash is the hash of the policy's own canonical
  block.
\<close>

theorem resolved_policy_wf:
  assumes "resolve_execution_policy env project config = Inr policy"
  shows "policy_wf policy \<and> ep_sha256 policy = pe_sha256 env (canonical policy) \<and>
     ep_project policy = py_strip project \<and> py_strip project \<noteq> []"
  using assms
proof (rule resolve_execution_policy_Inr)
  fix p path entry
  assume p: "parse_execution_policy env (py_strip project) (map_of entry ''execution'') path = Inr p"
    and eq: "policy = p\<lparr>ep_repo_path := ep_repo_path policy\<rparr>" and ne: "py_strip project \<noteq> []"
  obtain r where r: "policy = p\<lparr>ep_repo_path := r\<rparr>" using eq by blast
  show ?thesis using parse_execution_policy_wf [OF p] ne
    by (simp add: r policy_wf_def canonical_def)
qed

lemma example_policy_resolves:
  "is_ok (resolve_execution_policy (example_policy_env example_argv) ''proj'' None)"
  by code_simp

theorem resolved_policy_wf_witness:
  "\<exists>policy. resolve_execution_policy (example_policy_env example_argv) ''proj'' None = Inr policy \<and>
     policy_wf policy"
  using example_policy_resolves resolved_policy_wf unfolding is_ok_iff by blast

text \<open>
  The resolver fails closed with a reason: whatever the registry holds, a refused project is refused
  with an \<open>ExecutionPolicyError\<close> whose reason code is one of the ten published ones, for a
  project name as for a repository lookup that finds its project.
\<close>

lemma policy_refusal_has_reason:
  "(\<exists>policy. resolve_execution_policy env project config = Inr policy) \<or>
   (\<exists>code. code \<in> set POLICY_REASON_CODES \<and>
      resolve_execution_policy env project config = Inl (ExecutionPolicyError code) \<and>
      execution_policy_refusal env project config = Some (ExecutionPolicyError code))"
proof (cases "resolve_execution_policy env project config")
  case (Inl e)
  then show ?thesis using resolve_execution_policy_Inl [OF Inl]
    by (auto simp: policy_refusal_def execution_policy_refusal_def)
qed simp

text \<open>
  The brace check of \<open>argv\<close> has a gap: it deletes \<open>{model}\<close> before \<open>{effort}\<close>, so a
  placeholder nested in the letters of the other one is accepted, although the check is there to allow
  only the two placeholders; the argument the executor then receives still contains braces.
\<close>

lemma nested_placeholder_accepted:
  "\<exists>policy. parse_execution_policy env ''proj''
       (Some (example_block [''claude'', ''{eff{model}ort}'', ''{effort}''])) path = Inr policy \<and>
     resolved_argv policy = [''claude'', ''{effopusort}'', ''high'']"
proof -
  let ?b = "example_block [''claude'', ''{eff{model}ort}'', ''{effort}'']"
  have parts: "parse_executor ?b = Inr ''claude-code''"
    "timeout (json_get ?b ''timeout_seconds'') = Inr 3600"
    "parse_argv ?b = Inr [''claude'', ''{eff{model}ort}'', ''{effort}'']"
    "token ?b ''model'' = Inr ''opus''" "token ?b ''effort'' = Inr ''high''"
    "token ?b ''permission_profile'' = Inr ''std''" "parse_policy_version ?b = Inr ''v1''"
    "rbind (validator_list ?b ''implementation_validators'') (map_result parse_implementation_validator) =
       Inr [\<lparr>iv_name = ''pytest'', iv_timeout_seconds = 9\<rparr>]"
    "rbind (validator_list ?b ''integration_validators'') (map_result parse_integration_validator) =
       Inr [\<lparr>gv_name = ''t'', gv_command = [''x''], gv_timeout_seconds = 9\<rparr>]"
    "parse_pr_feedback ?b = Inr None" "list_all (\<lambda>k. k \<in> set POLICY_KEYS) (obj_keys ?b)"
    by code_simp+
  obtain ivs gvs where v: "validator_list ?b ''implementation_validators'' = Inr ivs"
    "map_result parse_implementation_validator ivs = Inr [\<lparr>iv_name = ''pytest'', iv_timeout_seconds = 9\<rparr>]"
    "validator_list ?b ''integration_validators'' = Inr gvs"
    "map_result parse_integration_validator gvs = Inr [\<lparr>gv_name = ''t'', gv_command = [''x''], gv_timeout_seconds = 9\<rparr>]"
    using parts(8,9) unfolding rbind_Inr_iff by blast
  have obj: "?b \<noteq> JNull" "is_obj ?b" by (simp_all add: example_block_def)
  have "resolved_argv p = [''claude'', ''{effopusort}'', ''high'']"
    if "ep_model p = ''opus''" "ep_effort p = ''high''"
      "ep_argv p = [''claude'', ''{eff{model}ort}'', ''{effort}'']" for p :: execution_policy
    by (simp add: resolved_argv_def that starts_with_def)
  then show ?thesis
    unfolding parse_execution_policy_def using parts(1-7,10,11) v obj
    by (simp add: Let_def)
qed

end
