(* ===== verification/Runtime_Admission.thy ===== *)
theory Runtime_Admission
  imports Runtime_Capacity Execution_Policy "HOL-Library.Product_Lexorder"
begin

text \<open>
  Runtime admission (\<open>runtime_admission.py\<close>): the atomic claim that creates an Attempt and its
  token lease, heartbeat, release and the reaper of stale leases. \<open>uuid4\<close>,
  \<open>secrets.token_urlsafe\<close> and the clock are arguments of the operations; the token hash and
  the policy environment are fields of \<open>admission_env\<close>. The closeout ledger that release and
  the reaper write after their transaction (\<open>outcome_ledger.py\<close>) is not part of the state.
\<close>

section \<open>Admission checks\<close>

record admission_env =
  ae_policy :: policy_env
  ae_token_hash :: "string \<Rightarrow> string"
  ae_home :: "string \<Rightarrow> string option"

definition DEFAULT_LEASE_TTL_SECONDS :: int where
  "DEFAULT_LEASE_TTL_SECONDS = 3600"

definition is_ticket_in_connection :: "db \<Rightarrow> string \<Rightarrow> bool result" where
  "is_ticket_in_connection db task_key =
     (if \<not> tasks_has_ticket_columns db then Inr False
      else rbind (normalize_task_key task_key) (\<lambda>key.
        Inr (case get_task db key of None \<Rightarrow> False | Some t \<Rightarrow> t_prompt t \<noteq> None)))"

definition assert_runtime_capacity_available :: "db \<Rightarrow> unit result" where
  "assert_runtime_capacity_available db =
     (let limit = cs_max_concurrent_tasks (runtime_capacity_in_connection db);
          active = count_active_executor_leases_in_connection db
      in if active \<ge> limit then Inl (RuntimeCapacityExceededError limit active) else Inr ())"

definition assert_dependency_released :: "db \<Rightarrow> string \<Rightarrow> unit result" where
  "assert_dependency_released db task_key =
     rbind (unreleased_dependency_in_connection db task_key) (\<lambda>unreleased.
       case unreleased of
         None \<Rightarrow> Inr ()
       | Some (blocker, blocker_status) \<Rightarrow>
           rbind (normalize_task_key task_key) (\<lambda>key.
             Inl (RuntimeDependencyUnreleasedError key blocker blocker_status)))"

record attempt_policy =
  ap_executor :: "string option"
  ap_model :: "string option"
  ap_policy_version :: "string option"
  ap_config_snapshot_hash :: "string option"
  ap_permission_profile :: "string option"

definition policy_fields_list :: "attempt_policy \<Rightarrow> (string \<times> string option) list" where
  "policy_fields_list f =
     [(''executor'', ap_executor f), (''model'', ap_model f), (''policy_version'', ap_policy_version f),
      (''config_snapshot_hash'', ap_config_snapshot_hash f),
      (''permission_profile'', ap_permission_profile f)]"

text \<open>The loop over the fields: the first supplied value that differs is refused.\<close>

fun check_overrides ::
  "string \<Rightarrow> (string \<times> string option) list \<Rightarrow> (string \<times> string option) list \<Rightarrow> unit result" where
  "check_overrides key ((name, supplied) # cs) ((_, eff) # es) =
     (if supplied \<noteq> None \<and> supplied \<noteq> eff
      then Inl (RuntimeExecutionPolicyError key
             (if name = ''config_snapshot_hash'' then POLICY_CHANGED else POLICY_OVERRIDE_REFUSED))
      else check_overrides key cs es)"
| "check_overrides key _ _ = Inr ()"

definition policy_error :: "string \<Rightarrow> exn \<Rightarrow> exn" where
  "policy_error key e =
     (case e of ExecutionPolicyError code \<Rightarrow> RuntimeExecutionPolicyError key code | _ \<Rightarrow> e)"

definition attempt_policy_fields ::
  "policy_env \<Rightarrow> db \<Rightarrow> string \<Rightarrow> attempt_policy \<Rightarrow> attempt_policy result" where
  "attempt_policy_fields env db task_key caller =
     rbind (normalize_task_key task_key) (\<lambda>normalized.
     rbind (is_ticket_in_connection db normalized) (\<lambda>ticket.
       if \<not> ticket then Inr caller
       else
         case resolve_execution_policy env
                (case get_task db normalized of None \<Rightarrow> [] | Some t \<Rightarrow> t_project t) None of
           Inl e \<Rightarrow> Inl (policy_error normalized e)
         | Inr policy \<Rightarrow>
             (case ticket_repo_path_refusal env policy (map_option t_repo_path (get_task db normalized)) of
                Some e \<Rightarrow> Inl (policy_error normalized e)
              | None \<Rightarrow>
                  let effective = \<lparr>ap_executor = Some (ep_executor policy), ap_model = Some (ep_model policy),
                        ap_policy_version = Some (ep_policy_version policy),
                        ap_config_snapshot_hash = Some (ep_sha256 policy),
                        ap_permission_profile = Some (ep_permission_profile policy)\<rparr>
                  in rbind (check_overrides normalized (policy_fields_list caller)
                              (policy_fields_list effective)) (\<lambda>_. Inr effective))))"

section \<open>Small statements\<close>

definition default_task_id :: "string \<Rightarrow> string result" where
  "default_task_id task_key = rbind (normalize_task_key task_key) (\<lambda>k. Inr (''task:'' @ k))"

definition ensure_task_identity :: "db \<Rightarrow> string \<Rightarrow> (db \<times> task_row) result" where
  "ensure_task_identity db task_key =
     rbind (normalize_task_key task_key) (\<lambda>normalized.
       case get_task db normalized of
         None \<Rightarrow> Inl KeyError
       | Some row \<Rightarrow>
           if truthy (t_task_id row) then Inr (db, row)
           else rbind (default_task_id normalized) (\<lambda>i.
             if list_ex (\<lambda>t. t_key t \<noteq> normalized \<and> t_task_id t = Some i) (db_tasks db)
             then Inl (SqlAbort ''UNIQUE constraint failed'')
             else let f = (\<lambda>t. t\<lparr>t_task_id := Some i, t_task_class := ''legacy'', t_is_legacy := True\<rparr>)
                  in Inr (update_tasks (\<lambda>t. t_key t = normalized) f db, f row)))"

definition insert_lifecycle_event ::
  "string \<Rightarrow> string \<Rightarrow> string option \<Rightarrow> string \<Rightarrow> string \<Rightarrow> string \<Rightarrow> timestamp
     \<Rightarrow> (string \<times> json) list \<Rightarrow> db \<Rightarrow> db result" where
  "insert_lifecycle_event task_id attempt_id from_status to_status reason_code actor now metadata db =
     rbind (require_non_empty to_status) (\<lambda>to.
     rbind (require_non_empty reason_code) (\<lambda>reason.
     rbind (require_non_empty actor) (\<lambda>act.
     insert_lifecycle \<lparr>le_task_id = task_id, le_attempt_id = Some attempt_id,
       le_from_status = from_status, le_to_status = to, le_reason_code = reason, le_actor = act,
       le_timestamp = now, le_metadata = metadata\<rparr> db)))"

definition insert_status_event ::
  "string \<Rightarrow> string \<Rightarrow> string \<Rightarrow> timestamp \<Rightarrow> string option \<Rightarrow> db \<Rightarrow> db result" where
  "insert_status_event task_key status source created_at blocked_reason db =
     insert_event task_key ''status_changed'' source
       (JObj [(''status'', JStr status), (''blocked_reason'', jopt blocked_reason)]) created_at db"

definition dict_merge :: "('k \<times> 'v) list \<Rightarrow> ('k \<times> 'v) list \<Rightarrow> ('k \<times> 'v) list" where
  "dict_merge d e = foldl (\<lambda>acc (k, v). dict_set k v acc) d e"

section \<open>Claim\<close>

record claim_request =
  cr_executor :: "string option"
  cr_model :: "string option"
  cr_base_commit :: "string option"
  cr_policy_version :: "string option"
  cr_config_snapshot_hash :: "string option"
  cr_prompt_template_version :: "string option"
  cr_permission_profile :: "string option"
  cr_worktree_path :: "string option"
  cr_artifact_root :: "string option"
  cr_reason_code :: string
  cr_metadata :: "(string \<times> json) list"

record fresh_ids =
  fi_attempt_id :: string
  fi_lease_id :: string
  fi_token :: string

record runtime_claim =
  cl_task_key :: string
  cl_task_id :: string
  cl_attempt_id :: string
  cl_attempt_number :: nat
  cl_lease_id :: string
  cl_owner_id :: string
  cl_lease_token :: string
  cl_acquired_at :: timestamp
  cl_heartbeat_at :: timestamp
  cl_expires_at :: timestamp

definition or_else :: "string option \<Rightarrow> string option \<Rightarrow> string option" where
  "or_else a b = (if truthy a then a else b)"

definition absolute_or_none ::
  "(string \<Rightarrow> string option) \<Rightarrow> string option \<Rightarrow> string option result" where
  "absolute_or_none home p =
     (case p of None \<Rightarrow> Inr None
      | Some s \<Rightarrow> rbind (require_absolute_path home s) (\<lambda>q. Inr (Some (path_str q))))"

definition next_attempt_number :: "db \<Rightarrow> string \<Rightarrow> nat" where
  "next_attempt_number db task_id =
     foldr max (map a_number (filter (\<lambda>a. a_task_id a = task_id) (db_attempts db))) 0 + 1"

definition runtime_owned :: "db \<Rightarrow> task_row \<Rightarrow> bool" where
  "runtime_owned db task \<longleftrightarrow>
     truthy (t_active_attempt_id task) \<or>
     list_ex (\<lambda>a. Some (a_task_id a) = t_task_id task \<and> a_is_active a) (db_attempts db) \<or>
     list_ex (\<lambda>l. Some (l_task_id l) = t_task_id task \<and> l_is_active l) (db_leases db)"

text \<open>The checks at the head of the claim transaction, up to the first insert.\<close>

definition claim_checks ::
  "admission_env \<Rightarrow> string \<Rightarrow> claim_request \<Rightarrow> db
     \<Rightarrow> (db \<times> task_row \<times> attempt_policy) result" where
  "claim_checks env key req db =
     rbind (assert_runtime_capacity_available db) (\<lambda>_.
     rbind (ensure_task_identity db key) (\<lambda>(db, task).
     rbind (assert_admission_allowed db key) (\<lambda>_.
       if t_status task \<notin> {''created'', ''queued''} then Inl RuntimeAdmissionError
       else
     rbind (assert_dependency_released db key) (\<lambda>_.
     rbind (attempt_policy_fields (ae_policy env) db key
              \<lparr>ap_executor = or_else (cr_executor req) (t_executor task),
               ap_model = or_else (cr_model req) (t_model task),
               ap_policy_version = cr_policy_version req,
               ap_config_snapshot_hash = cr_config_snapshot_hash req,
               ap_permission_profile = cr_permission_profile req\<rparr>) (\<lambda>pfields.
       if runtime_owned db task then Inl ActiveAttemptExistsError
       else Inr (db, task, pfields))))))"

text \<open>The writes of the claim transaction.\<close>

definition claim_attempt ::
  "fresh_ids \<Rightarrow> timestamp \<Rightarrow> claim_request \<Rightarrow> attempt_policy \<Rightarrow> string \<Rightarrow> nat
     \<Rightarrow> string option \<Rightarrow> string option \<Rightarrow> attempt_row" where
  "claim_attempt ids now req pfields task_id number worktree artifact_root =
     \<lparr>a_id = fi_attempt_id ids, a_task_id = task_id, a_number = number, a_status = ''preparing'',
      a_is_active = True, a_is_legacy = False, a_executor = ap_executor pfields,
      a_model = ap_model pfields, a_base_commit = cr_base_commit req,
      a_policy_version = ap_policy_version pfields,
      a_config_snapshot_hash = ap_config_snapshot_hash pfields,
      a_prompt_template_version = cr_prompt_template_version req,
      a_permission_profile = ap_permission_profile pfields, a_worktree_path = worktree,
      a_artifact_root = artifact_root, a_started_at = Some now, a_ended_at = None,
      a_execution_result = None, a_validation_result = None, a_merge_recommendation = None,
      a_created_at = now, a_updated_at = now\<rparr>"

definition claim_lease ::
  "admission_env \<Rightarrow> fresh_ids \<Rightarrow> timestamp \<Rightarrow> string \<Rightarrow> string \<Rightarrow> int \<Rightarrow> lease_row" where
  "claim_lease env ids now task_id owner ttl =
     \<lparr>l_id = fi_lease_id ids, l_task_id = task_id, l_attempt_id = fi_attempt_id ids,
      l_owner_id = owner, l_token_hash = ae_token_hash env (fi_token ids), l_auth_mode = ''token'',
      l_ttl_seconds = ttl, l_acquired_at = now, l_heartbeat_at = now, l_expires_at = now + ttl,
      l_released_at = None, l_release_reason = None, l_is_active = True\<rparr>"

definition claim_task :: "fresh_ids \<Rightarrow> timestamp \<Rightarrow> task_row \<Rightarrow> task_row" where
  "claim_task ids now t =
     t\<lparr>t_active_attempt_id := Some (fi_attempt_id ids), t_status := ''preparing'',
       t_blocked_reason := None, t_updated_at := now, t_last_synced_at := Some now\<rparr>"

definition claim_writes ::
  "admission_env \<Rightarrow> fresh_ids \<Rightarrow> timestamp \<Rightarrow> string \<Rightarrow> string \<Rightarrow> int \<Rightarrow> claim_request
     \<Rightarrow> string option \<Rightarrow> string option \<Rightarrow> task_row \<Rightarrow> attempt_policy \<Rightarrow> db \<Rightarrow> db result" where
  "claim_writes env ids now key owner ttl req worktree artifact task pfields db =
     (let task_id = (case t_task_id task of None \<Rightarrow> [] | Some i \<Rightarrow> i);
          attempt = claim_attempt ids now req pfields task_id (next_attempt_number db task_id) worktree
            (if artifact \<noteq> None then artifact else t_artifact_dir task)
      in
     rbind (insert_suppression task_id db) (\<lambda>db.
     rbind (insert_attempt attempt db) (\<lambda>db.
     rbind (insert_lease (claim_lease env ids now task_id owner ttl) db) (\<lambda>db.
     rbind (update_tasks_attempt now (\<lambda>t. t_task_id t = Some task_id) (claim_task ids now) db) (\<lambda>db.
     rbind (insert_lifecycle_event task_id (fi_attempt_id ids) (Some (t_status task)) ''preparing''
              (cr_reason_code req) owner now
              (dict_merge [(''lease_id'', JStr (fi_lease_id ids)), (''auth_mode'', JStr ''token'')]
                 (cr_metadata req)) db) (\<lambda>db.
     rbind (insert_status_event key ''preparing'' owner now None db) (\<lambda>db.
     Inr (delete_suppression task_id db))))))))"

definition claim ::
  "admission_env \<Rightarrow> fresh_ids \<Rightarrow> timestamp \<Rightarrow> string \<Rightarrow> string \<Rightarrow> int \<Rightarrow> claim_request \<Rightarrow> db
     \<Rightarrow> (db \<times> runtime_claim) result" where
  "claim env ids now task_key owner_id ttl req db =
     rbind (normalize_task_key task_key) (\<lambda>key.
     rbind (require_non_empty owner_id) (\<lambda>owner.
       if ttl < 1 then Inl ValueError
       else
     rbind (absolute_or_none (ae_home env) (cr_worktree_path req)) (\<lambda>worktree.
     rbind (absolute_or_none (ae_home env) (cr_artifact_root req)) (\<lambda>artifact.
     rbind (claim_checks env key req db) (\<lambda>(db, task, pfields).
     rbind (claim_writes env ids now key owner ttl req worktree artifact task pfields db) (\<lambda>db'.
     Inr (db', \<lparr>cl_task_key = key,
        cl_task_id = (case t_task_id task of None \<Rightarrow> [] | Some i \<Rightarrow> i),
        cl_attempt_id = fi_attempt_id ids,
        cl_attempt_number = next_attempt_number db (case t_task_id task of None \<Rightarrow> [] | Some i \<Rightarrow> i),
        cl_lease_id = fi_lease_id ids, cl_owner_id = owner, cl_lease_token = fi_token ids,
        cl_acquired_at = now, cl_heartbeat_at = now, cl_expires_at = now + ttl\<rparr>)))))))"

section \<open>Heartbeat and release\<close>

definition verify_owned_lease ::
  "admission_env \<Rightarrow> lease_row option \<Rightarrow> string \<Rightarrow> string \<Rightarrow> timestamp \<Rightarrow> bool \<Rightarrow> lease_row result" where
  "verify_owned_lease env row owner_id lease_token now allow_expired =
     (case row of
        None \<Rightarrow> Inl LeaseOwnershipError
      | Some l \<Rightarrow>
          if \<not> l_is_active l then Inl LeaseOwnershipError
          else if l_auth_mode l \<noteq> ''token'' then Inl LeaseOwnershipError
          else if l_owner_id l \<noteq> owner_id \<or> l_token_hash l \<noteq> ae_token_hash env lease_token
          then Inl LeaseOwnershipError
          else if \<not> allow_expired \<and> l_expires_at l \<le> now then Inl LeaseExpiredError
          else Inr l)"

definition get_attempt_row :: "db \<Rightarrow> string \<Rightarrow> attempt_row option" where
  "get_attempt_row db attempt_id = find (\<lambda>a. a_id a = attempt_id) (db_attempts db)"

definition task_of_id :: "db \<Rightarrow> string \<Rightarrow> task_row option" where
  "task_of_id db task_id = find (\<lambda>t. t_task_id t = Some task_id) (db_tasks db)"

text \<open>\<open>runtime_leases JOIN attempts\<close> for one Attempt, and the same joined with its task.\<close>

definition active_lease_of_attempt :: "db \<Rightarrow> string \<Rightarrow> lease_row option" where
  "active_lease_of_attempt db attempt_id =
     (if get_attempt_row db attempt_id = None then None
      else find (\<lambda>l. l_attempt_id l = attempt_id \<and> l_is_active l) (db_leases db))"

definition active_lease_with_task :: "db \<Rightarrow> string \<Rightarrow> lease_row option" where
  "active_lease_with_task db attempt_id =
     (if get_attempt_row db attempt_id = None then None
      else find (\<lambda>l. l_attempt_id l = attempt_id \<and> l_is_active l \<and> task_of_id db (l_task_id l) \<noteq> None)
             (db_leases db))"

definition attempt_status_of :: "db \<Rightarrow> string \<Rightarrow> string" where
  "attempt_status_of db attempt_id =
     (case get_attempt_row db attempt_id of None \<Rightarrow> [] | Some a \<Rightarrow> a_status a)"

definition get_lease :: "db \<Rightarrow> string \<Rightarrow> lease_row option" where
  "get_lease db lease_id = find (\<lambda>l. l_id l = lease_id) (db_leases db)"

definition heartbeat ::
  "admission_env \<Rightarrow> timestamp \<Rightarrow> string \<Rightarrow> string \<Rightarrow> string \<Rightarrow> int option \<Rightarrow> db
     \<Rightarrow> (db \<times> lease_row option) result" where
  "heartbeat env now attempt_id owner_id lease_token ttl_seconds db =
     rbind (require_non_empty owner_id) (\<lambda>owner.
     rbind (require_non_empty lease_token) (\<lambda>tok.
     rbind (verify_owned_lease env (active_lease_of_attempt db attempt_id) owner tok now False) (\<lambda>row.
       let ttl = (case ttl_seconds of None \<Rightarrow> l_ttl_seconds row | Some t \<Rightarrow> t) in
       if ttl < 1 then Inl ValueError
       else
         let status = attempt_status_of db attempt_id;
             db = update_leases (\<lambda>l. l_id l = l_id row \<and> l_is_active l)
               (\<lambda>l. l\<lparr>l_ttl_seconds := ttl, l_heartbeat_at := now, l_expires_at := now + ttl\<rparr>) db
         in
     rbind (update_attempts (\<lambda>a. a_id a = attempt_id) (\<lambda>a. a\<lparr>a_updated_at := now\<rparr>) db) (\<lambda>db.
     rbind (insert_lifecycle_event (l_task_id row) attempt_id (Some status) status
              ''runtime_lease_heartbeat'' owner now
              [(''lease_id'', JStr (l_id row)), (''expires_at'', JInt (now + ttl))] db) (\<lambda>db.
     Inr (db, get_lease db (l_id row)))))))"

text \<open>The writes with which an owner or the reaper closes an active Attempt.\<close>

definition close_lease :: "timestamp \<Rightarrow> string \<Rightarrow> lease_row \<Rightarrow> lease_row" where
  "close_lease now reason l =
     l\<lparr>l_is_active := False, l_released_at := Some now, l_release_reason := Some reason\<rparr>"

definition close_task ::
  "timestamp \<Rightarrow> string \<Rightarrow> string option \<Rightarrow> task_row \<Rightarrow> task_row" where
  "close_task now status blocked_reason t =
     t\<lparr>t_active_attempt_id := None, t_status := status, t_blocked_reason := blocked_reason,
       t_updated_at := now, t_last_synced_at := Some now\<rparr>"

definition close_writes ::
  "timestamp \<Rightarrow> lease_row \<Rightarrow> string \<Rightarrow> string \<Rightarrow> string \<Rightarrow> string \<Rightarrow> string option
     \<Rightarrow> (attempt_row \<Rightarrow> attempt_row) \<Rightarrow> string \<Rightarrow> (string \<times> json) list \<Rightarrow> db \<Rightarrow> db result" where
  "close_writes now row key actor attempt_status task_status blocked_reason close_attempt reason metadata db =
     (let status = attempt_status_of db (l_attempt_id row) in
     rbind (insert_suppression (l_task_id row) db) (\<lambda>db.
     rbind (insert_lifecycle_event (l_task_id row) (l_attempt_id row) (Some status) attempt_status
              reason actor now metadata db) (\<lambda>db.
       let db = update_leases (\<lambda>l. l_id l = l_id row \<and> l_is_active l) (close_lease now reason) db in
     rbind (update_attempts (\<lambda>a. a_id a = l_attempt_id row \<and> a_is_active a) close_attempt db) (\<lambda>db.
     rbind (update_tasks_attempt now
              (\<lambda>t. t_task_id t = Some (l_task_id row) \<and> t_active_attempt_id t = Some (l_attempt_id row))
              (close_task now task_status blocked_reason) db) (\<lambda>db.
     rbind (insert_status_event key task_status actor now blocked_reason db) (\<lambda>db.
     Inr (delete_suppression (l_task_id row) db)))))))"

record release_request =
  rr_attempt_status :: string
  rr_task_status :: string
  rr_reason_code :: string
  rr_execution_result :: "string option"
  rr_validation_result :: "string option"
  rr_merge_recommendation :: "string option"
  rr_metadata :: "(string \<times> json) list"

definition release ::
  "admission_env \<Rightarrow> timestamp \<Rightarrow> string \<Rightarrow> string \<Rightarrow> string \<Rightarrow> release_request \<Rightarrow> db
     \<Rightarrow> (db \<times> lease_row option) result" where
  "release env now attempt_id owner_id lease_token req db =
     rbind (require_non_empty owner_id) (\<lambda>owner.
     rbind (require_non_empty lease_token) (\<lambda>tok.
     rbind (validate_attempt_status (rr_attempt_status req)) (\<lambda>final_attempt_status.
     rbind (validate_task_status (rr_task_status req)) (\<lambda>final_task_status.
     rbind (verify_owned_lease env (active_lease_with_task db attempt_id) owner tok now True) (\<lambda>row.
       let key = (case task_of_id db (l_task_id row) of None \<Rightarrow> [] | Some t \<Rightarrow> t_key t) in
     rbind (close_writes now row key owner final_attempt_status final_task_status
              (if final_task_status = ''blocked'' then Some (rr_reason_code req) else None)
              (\<lambda>a. a\<lparr>a_status := final_attempt_status, a_is_active := False, a_ended_at := Some now,
                     a_execution_result := rr_execution_result req,
                     a_validation_result := rr_validation_result req,
                     a_merge_recommendation := rr_merge_recommendation req, a_updated_at := now\<rparr>)
              (rr_reason_code req)
              (dict_merge [(''task_status'', JStr final_task_status)] (rr_metadata req)) db) (\<lambda>db'.
     Inr (db', get_lease db' (l_id row))))))))"

section \<open>The reaper\<close>

definition stale_leases :: "timestamp \<Rightarrow> db \<Rightarrow> lease_row list" where
  "stale_leases now db =
     sort_key (\<lambda>l. (l_expires_at l, l_id l))
       (filter (\<lambda>l. l_is_active l \<and> l_expires_at l \<le> now \<and>
          get_attempt_row db (l_attempt_id l) \<noteq> None \<and> task_of_id db (l_task_id l) \<noteq> None)
        (db_leases db))"

definition reap_lease :: "timestamp \<Rightarrow> lease_row \<times> string \<Rightarrow> db \<times> string list \<Rightarrow> (db \<times> string list) result" where
  "reap_lease now lease_key st =
     (case (lease_key, st) of ((row, key), (db, expired)) \<Rightarrow>
     rbind (is_ticket_in_connection db key) (\<lambda>ticket.
     rbind (close_writes now row key ''runtime_lease_reaper'' ''execution_aborted''
              (if ticket then ''failed'' else ''blocked'')
              (if ticket then None else Some ''runtime_lease_expired'')
              (\<lambda>a. a\<lparr>a_status := ''execution_aborted'', a_is_active := False, a_ended_at := Some now,
                     a_execution_result := Some ''lease_expired'', a_updated_at := now\<rparr>)
              ''runtime_lease_expired''
              [(''lease_id'', JStr (l_id row)), (''owner_id'', JStr (l_owner_id row)),
               (''expired_at'', JInt (l_expires_at row))] db) (\<lambda>db'.
     Inr (db', expired @ [l_attempt_id row]))))"

definition expire_stale_leases :: "timestamp \<Rightarrow> db \<Rightarrow> (db \<times> string list) result" where
  "expire_stale_leases now db =
     fold_result (reap_lease now)
       (map (\<lambda>l. (l, case task_of_id db (l_task_id l) of None \<Rightarrow> [] | Some t \<Rightarrow> t_key t))
          (stale_leases now db))
       (db, [])"

section \<open>Reads\<close>

definition get_active_lease :: "db \<Rightarrow> string \<Rightarrow> lease_row option result" where
  "get_active_lease db task_key =
     rbind (normalize_task_key task_key) (\<lambda>normalized.
       Inr (case get_task db normalized of
              None \<Rightarrow> None
            | Some t \<Rightarrow> find (\<lambda>l. t_task_id t = Some (l_task_id l) \<and> l_is_active l) (db_leases db)))"

definition assert_executor_start_allowed :: "timestamp \<Rightarrow> db \<Rightarrow> string \<Rightarrow> lease_row result" where
  "assert_executor_start_allowed now db task_key =
     rbind (get_active_lease db task_key) (\<lambda>lease.
       case lease of
         None \<Rightarrow> Inl RuntimeAdmissionError
       | Some l \<Rightarrow> if l_expires_at l \<le> now then Inl LeaseExpiredError else Inr l)"

end
