(* ===== verification/Runtime_Ownership.thy ===== *)
theory Runtime_Ownership
  imports Runtime_Admission
begin

text \<open>
  The ownership invariant of the runtime and what every admission operation does to it. The
  invariant is stated over the identities in the three tables: tasks, Attempts and leases. It says
  that ids are unique, that a task has at most one active Attempt and at most one active lease,
  that an active lease is backed by the active Attempt it names and by the task that points to
  that Attempt, and that a task never points to an Attempt that is not active.

  On top of it stands the contract of an exclusive lock (\<open>exclusive_lock\<close>): a holder is replaced
  only after an operation that was entitled to free it. It is interpreted on claim, heartbeat,
  release and the reaper.
\<close>

section \<open>The invariant\<close>

type_synonym task_id_row = "string \<times> string option \<times> string option"
type_synonym attempt_id_row = "string \<times> string \<times> bool"
type_synonym lease_id_row = "string \<times> string \<times> string \<times> bool"

definition task_ids :: "task_row \<Rightarrow> task_id_row" where
  "task_ids t = (t_key t, t_task_id t, t_active_attempt_id t)"

definition attempt_ids :: "attempt_row \<Rightarrow> attempt_id_row" where
  "attempt_ids a = (a_id a, a_task_id a, a_is_active a)"

definition lease_ids :: "lease_row \<Rightarrow> lease_id_row" where
  "lease_ids l = (l_id l, l_task_id l, l_attempt_id l, l_is_active l)"

definition no_blank_ids :: "task_id_row list \<Rightarrow> bool" where
  "no_blank_ids T \<longleftrightarrow> list_all (\<lambda>t. fst (snd t) \<noteq> Some []) T"

definition ownership ::
  "task_id_row list \<Rightarrow> attempt_id_row list \<Rightarrow> lease_id_row list \<Rightarrow> bool" where
  "ownership T A L \<longleftrightarrow>
     distinct (map fst T) \<and> distinct (map fst A) \<and> distinct (map fst L) \<and>
     (\<forall>k k' i x x'. (k, Some i, x) \<in> set T \<and> (k', Some i, x') \<in> set T \<longrightarrow> k = k' \<and> x = x') \<and>
     (\<forall>a a' i. (a, i, True) \<in> set A \<and> (a', i, True) \<in> set A \<longrightarrow> a = a') \<and>
     (\<forall>l l' i x x'. (l, i, x, True) \<in> set L \<and> (l', i, x', True) \<in> set L \<longrightarrow> l = l' \<and> x = x') \<and>
     (\<forall>l i x. (l, i, x, True) \<in> set L \<longrightarrow> (x, i, True) \<in> set A \<and> (\<exists>k. (k, Some i, Some x) \<in> set T)) \<and>
     (\<forall>k i x. (k, i, Some x) \<in> set T \<longrightarrow> (\<exists>j. i = Some j \<and> (x, j, True) \<in> set A)) \<and>
     no_blank_ids T"

definition runtime_inv :: "db \<Rightarrow> bool" where
  "runtime_inv db \<longleftrightarrow>
     ownership (map task_ids (db_tasks db)) (map attempt_ids (db_attempts db))
       (map lease_ids (db_leases db)) \<and> db_suppressions db = []"

definition same_ownership :: "db \<Rightarrow> db \<Rightarrow> bool" where
  "same_ownership db db' \<longleftrightarrow>
     map task_ids (db_tasks db') = map task_ids (db_tasks db) \<and>
     map attempt_ids (db_attempts db') = map attempt_ids (db_attempts db) \<and>
     map lease_ids (db_leases db') = map lease_ids (db_leases db) \<and>
     db_suppressions db' = db_suppressions db"

lemma same_ownership_inv: "same_ownership db db' \<Longrightarrow> runtime_inv db \<Longrightarrow> runtime_inv db'"
  by (simp add: same_ownership_def runtime_inv_def)

lemma ownershipD:
  assumes "ownership T A L"
  shows "distinct (map fst T)" "distinct (map fst A)" "distinct (map fst L)"
    "\<lbrakk>(k, Some i, x) \<in> set T; (k', Some i, x') \<in> set T\<rbrakk> \<Longrightarrow> k = k' \<and> x = x'"
    "\<lbrakk>(a, i, True) \<in> set A; (a', i, True) \<in> set A\<rbrakk> \<Longrightarrow> a = a'"
    "\<lbrakk>(l, i, y, True) \<in> set L; (l', i, y', True) \<in> set L\<rbrakk> \<Longrightarrow> l = l' \<and> y = y'"
    "(l, i, y, True) \<in> set L \<Longrightarrow> (y, i, True) \<in> set A"
    "(l, i, y, True) \<in> set L \<Longrightarrow> \<exists>k. (k, Some i, Some y) \<in> set T"
    "(k, j, Some y) \<in> set T \<Longrightarrow> \<exists>i. j = Some i \<and> (y, i, True) \<in> set A"
    "no_blank_ids T"
  using assms unfolding ownership_def by blast+

section \<open>Acquiring and closing, on identities\<close>

lemma ownership_acquire:
  assumes own: "ownership T A L"
    and free: "\<And>x. (x, i, True) \<notin> set A" "\<And>l x. (l, i, x, True) \<notin> set L"
    and fresh: "a \<notin> fst ` set A" "l \<notin> fst ` set L" and task: "(k, Some i, x0) \<in> set T"
  shows "ownership (map_where (\<lambda>t. fst (snd t) = Some i) (\<lambda>t. (fst t, fst (snd t), Some a)) T)
     (A @ [(a, i, True)]) (L @ [(l, i, a, True)])"
proof -
  let ?T = "map_where (\<lambda>t. fst (snd t) = Some i) (\<lambda>t. (fst t, fst (snd t), Some a)) T"
  have keys: "map fst ?T = map fst T" by (simp add: map_map_where)
  have mem: "(k', j, y) \<in> set ?T \<longleftrightarrow>
      (if j = Some i then y = Some a \<and> (\<exists>z. (k', j, z) \<in> set T) else (k', j, y) \<in> set T)" for k' j y
    by (force simp: set_map_where image_iff)
  have d: "distinct (map fst ?T)" "distinct (map fst (A @ [(a, i, True)]))"
    "distinct (map fst (L @ [(l, i, a, True)]))"
    using own fresh unfolding keys ownership_def by auto
  have t: "\<forall>k k' i x x'. (k, Some i, x) \<in> set ?T \<and> (k', Some i, x') \<in> set ?T \<longrightarrow> k = k' \<and> x = x'"
    using own unfolding mem ownership_def by (auto split: if_splits)
  have l: "\<forall>l' j x. (l', j, x, True) \<in> set (L @ [(l, i, a, True)]) \<longrightarrow>
      (x, j, True) \<in> set (A @ [(a, i, True)]) \<and> (\<exists>k. (k, Some j, Some x) \<in> set ?T)"
  proof (intro allI impI)
    fix l' j x
    assume "(l', j, x, True) \<in> set (L @ [(l, i, a, True)])"
    then consider "(l', j, x) = (l, i, a)" | "(l', j, x, True) \<in> set L" "j \<noteq> i"
      using free(2) by auto
    then show "(x, j, True) \<in> set (A @ [(a, i, True)]) \<and> (\<exists>k. (k, Some j, Some x) \<in> set ?T)"
    proof cases
      case 1
      then show ?thesis using task unfolding mem by auto
    next
      case 2
      then show ?thesis using ownershipD(7,8) [OF own 2(1)] unfolding mem by simp
    qed
  qed
  have b: "\<forall>k j x. (k, j, Some x) \<in> set ?T \<longrightarrow> (\<exists>j'. j = Some j' \<and> (x, j', True) \<in> set (A @ [(a, i, True)]))"
  proof (intro allI impI)
    fix k j x
    assume "(k, j, Some x) \<in> set ?T"
    then consider "j = Some i" "x = a" | "(k, j, Some x) \<in> set T" unfolding mem by (auto split: if_splits)
    then show "\<exists>j'. j = Some j' \<and> (x, j', True) \<in> set (A @ [(a, i, True)])"
      by cases (auto dest: ownershipD(9) [OF own])
  qed
  have "\<forall>u u' j. (u, j, True) \<in> set (A @ [(a, i, True)]) \<and> (u', j, True) \<in> set (A @ [(a, i, True)]) \<longrightarrow> u = u'"
    using free(1) ownershipD(5) [OF own] by auto
  moreover have "\<forall>u u' j x x'. (u, j, x, True) \<in> set (L @ [(l, i, a, True)]) \<and>
      (u', j, x', True) \<in> set (L @ [(l, i, a, True)]) \<longrightarrow> u = u' \<and> x = x'"
    using free(2) ownershipD(6) [OF own] by auto
  moreover have "no_blank_ids ?T"
    using ownershipD(10) [OF own] by (auto simp: no_blank_ids_def list_all_iff set_map_where)
  ultimately show ?thesis using d t l b unfolding ownership_def by (intro conjI)
qed

lemma ownership_close:
  assumes own: "ownership T A L" and lease: "(l, i, x, True) \<in> set L"
  shows "ownership
     (map_where (\<lambda>t. fst (snd t) = Some i \<and> snd (snd t) = Some x) (\<lambda>t. (fst t, fst (snd t), None)) T)
     (map_where (\<lambda>a. fst a = x \<and> snd (snd a)) (\<lambda>a. (fst a, fst (snd a), False)) A)
     (map_where (\<lambda>r. fst r = l \<and> snd (snd (snd r))) (\<lambda>r. (fst r, fst (snd r), fst (snd (snd r)), False)) L)"
    (is "ownership ?T ?A ?L")
proof -
  have keys: "map fst ?T = map fst T" "map fst ?A = map fst A" "map fst ?L = map fst L"
    by (simp_all add: map_map_where)
  have T: "(k, j, y) \<in> set ?T \<longleftrightarrow>
      (k, j, y) \<in> set T \<and> \<not> (j = Some i \<and> y = Some x) \<or> y = None \<and> j = Some i \<and> (k, j, Some x) \<in> set T"
    for k j y by (force simp: set_map_where image_iff)
  have A: "(a, j, True) \<in> set ?A \<longleftrightarrow> (a, j, True) \<in> set A \<and> a \<noteq> x" for a j
    by (force simp: set_map_where image_iff)
  have L: "(l', j, y, True) \<in> set ?L \<longleftrightarrow> (l', j, y, True) \<in> set L \<and> l' \<noteq> l" for l' j y
    by (force simp: set_map_where image_iff)
  have xi: "(x, i, True) \<in> set A" using own lease unfolding ownership_def by blast
  have x_task: "(x, j, b) \<in> set A \<Longrightarrow> j = i" for j b
    using own xi eq_key_imp_eq_value [of A x "(j, b)" "(i, True)"] unfolding ownership_def by auto
  have l_task: "(l', i, y, True) \<in> set L \<Longrightarrow> l' = l \<and> y = x" for l' y
    using own lease unfolding ownership_def by blast
  have t: "\<forall>k k' i x x'. (k, Some i, x) \<in> set ?T \<and> (k', Some i, x') \<in> set ?T \<longrightarrow> k = k' \<and> x = x'"
    using own unfolding T ownership_def by blast
  have backed: "\<forall>l' j y. (l', j, y, True) \<in> set ?L \<longrightarrow> (y, j, True) \<in> set ?A \<and> (\<exists>k. (k, Some j, Some y) \<in> set ?T)"
  proof (intro allI impI)
    fix l' j y
    assume "(l', j, y, True) \<in> set ?L"
    then have m: "(l', j, y, True) \<in> set L" "l' \<noteq> l" unfolding L by auto
    then have "j \<noteq> i" using l_task by blast
    moreover have "(y, j, True) \<in> set A" "\<exists>k. (k, Some j, Some y) \<in> set T"
      using own m(1) unfolding ownership_def by blast+
    ultimately show "(y, j, True) \<in> set ?A \<and> (\<exists>k. (k, Some j, Some y) \<in> set ?T)"
      unfolding A T using x_task by blast
  qed
  have "\<forall>k j y. (k, j, Some y) \<in> set ?T \<longrightarrow> (\<exists>j'. j = Some j' \<and> (y, j', True) \<in> set ?A)"
  proof (intro allI impI)
    fix k j y
    assume "(k, j, Some y) \<in> set ?T"
    then have m: "(k, j, Some y) \<in> set T" "j = Some i \<longrightarrow> y \<noteq> x" unfolding T by auto
    obtain j' where j: "j = Some j'" "(y, j', True) \<in> set A" using ownershipD(9) [OF own m(1)] by blast
    then have "y \<noteq> x" using m(2) x_task by blast
    then show "\<exists>j'. j = Some j' \<and> (y, j', True) \<in> set ?A" unfolding A using j by blast
  qed
  moreover have "\<forall>a a' i. (a, i, True) \<in> set ?A \<and> (a', i, True) \<in> set ?A \<longrightarrow> a = a'"
    using own unfolding A ownership_def by blast
  moreover have "\<forall>l l' i x x'. (l, i, x, True) \<in> set ?L \<and> (l', i, x', True) \<in> set ?L \<longrightarrow> l = l' \<and> x = x'"
    using own unfolding L ownership_def by blast
  moreover have "distinct (map fst ?T)" "distinct (map fst ?A)" "distinct (map fst ?L)"
    using own unfolding keys ownership_def by blast+
  moreover have "no_blank_ids ?T"
    using ownershipD(10) [OF own] by (auto simp: no_blank_ids_def list_all_iff set_map_where)
  ultimately show ?thesis using t backed unfolding ownership_def by (intro conjI)
qed

lemma ownership_identify:
  assumes own: "ownership T A L" and task: "(k, None, x) \<in> set T" and i: "i \<noteq> []"
    and fresh: "\<And>k' y. (k', Some i, y) \<notin> set T"
  shows "ownership (map_where (\<lambda>t. fst t = k) (\<lambda>t. (fst t, Some i, snd (snd t))) T) A L"
    (is "ownership ?T A L")
proof -
  have keys: "map fst ?T = map fst T" by (simp add: map_map_where)
  have none: "x = None"
  proof (rule ccontr)
    assume "x \<noteq> None"
    then obtain y where "(k, None, Some y) \<in> set T" using task by auto
    then show False using ownershipD(9) [OF own] by blast
  qed
  have only: "(k, j, y) \<in> set T \<Longrightarrow> j = None \<and> y = None" for j y
    using task none eq_key_imp_eq_value [OF ownershipD(1) [OF own], of k "(j, y)" "(None, x)"] by auto
  have mem: "(k', j, y) \<in> set ?T \<longleftrightarrow>
      (if k' = k then j = Some i \<and> y = None else (k', j, y) \<in> set T)" for k' j y
    using task none only by (force simp: set_map_where image_iff)
  have "\<forall>k k' i x x'. (k, Some i, x) \<in> set ?T \<and> (k', Some i, x') \<in> set ?T \<longrightarrow> k = k' \<and> x = x'"
    using ownershipD(4) [OF own] fresh unfolding mem by (auto split: if_splits)
  moreover have "\<forall>l j y. (l, j, y, True) \<in> set L \<longrightarrow> (y, j, True) \<in> set A \<and> (\<exists>k. (k, Some j, Some y) \<in> set ?T)"
    using ownershipD(7,8) [OF own] only unfolding mem by (metis option.distinct(1))
  moreover have "\<forall>k' j y. (k', j, Some y) \<in> set ?T \<longrightarrow> (\<exists>j'. j = Some j' \<and> (y, j', True) \<in> set A)"
    using ownershipD(9) [OF own] unfolding mem by (auto split: if_splits)
  moreover have "no_blank_ids ?T"
    using ownershipD(10) [OF own] i by (auto simp: no_blank_ids_def list_all_iff set_map_where)
  ultimately show ?thesis
    using own unfolding ownership_def keys by (intro conjI) blast+
qed

section \<open>Effects of the statements\<close>

lemma insert_suppression_Inr:
  "insert_suppression i db = Inr db' \<longleftrightarrow>
     task_id_exists db i \<and> i \<notin> set (db_suppressions db) \<and>
     db' = db\<lparr>db_suppressions := db_suppressions db @ [i]\<rparr>"
  by (auto simp: insert_suppression_def)

lemma insert_attempt_Inr:
  assumes "insert_attempt a db = Inr db'"
  shows "db' = db\<lparr>db_attempts := db_attempts db @ [a]\<rparr>" "a_id a \<notin> a_id ` set (db_attempts db)"
  using assms by (auto simp: insert_attempt_def list_ex_iff split: if_splits)

lemma insert_lease_Inr:
  assumes "insert_lease l db = Inr db'"
  shows "db' = db\<lparr>db_leases := db_leases db @ [l]\<rparr>" "l_id l \<notin> l_id ` set (db_leases db)"
    "l_token_hash l \<notin> l_token_hash ` set (db_leases db)"
  using assms by (auto simp: insert_lease_def list_ex_iff split: if_splits)

lemma insert_lifecycle_event_Inr:
  assumes "insert_lifecycle_event i a from to reason act now md db = Inr db'"
  shows "\<exists>e. db' = db\<lparr>db_lifecycle := db_lifecycle db @ [e]\<rparr> \<and> le_task_id e = i \<and>
     le_attempt_id e = Some a \<and> le_from_status e = from \<and> le_to_status e = py_strip to \<and>
     le_timestamp e = now"
  using assms unfolding insert_lifecycle_event_def rbind_Inr_iff insert_lifecycle_def if_raise_Inr
    require_non_empty_Inr by auto

lemma insert_status_event_events_only:
  "insert_status_event k st src now br db = Inr db' \<Longrightarrow> events_only db db'"
  unfolding insert_status_event_def by (rule insert_event_events_only)

lemma update_attempts_Inr:
  "update_attempts p f db = Inr db' \<longleftrightarrow>
     db' = db\<lparr>db_attempts := map_where p f (db_attempts db)\<rparr> \<and>
     (\<forall>r \<in> set (db_attempts db). p r \<longrightarrow> attempt_transition_ok (a_status r) (a_status (f r)))"
  by (auto simp: update_attempts_def rbind_Inr_iff check_rows_Inr)

lemma lease_ids_core [simp]: "lease_ids (lease_core l) = lease_ids l"
  by (simp add: lease_ids_def lease_core_def)

lemma lease_ids_of_core:
  "map lease_core ls = map lease_core ls' \<Longrightarrow> map lease_ids ls = map lease_ids ls'"
proof -
  assume "map lease_core ls = map lease_core ls'"
  then have "map lease_ids (map lease_core ls) = map lease_ids (map lease_core ls')" by simp
  then show ?thesis by (simp add: comp_def)
qed

lemma events_only_same_ownership: "events_only db db' \<Longrightarrow> same_ownership db db'"
  by (auto simp: same_ownership_def events_onlyD intro: lease_ids_of_core)

text \<open>An \<open>UPDATE\<close> seen through a projection of the rows.\<close>

lemma map_where_project:
  "\<lbrakk>\<And>x. p x = p' (k x); \<And>x. p x \<Longrightarrow> k (f x) = f' (k x)\<rbrakk> \<Longrightarrow>
     map k (map_where p f xs) = map_where p' f' (map k xs)"
  by (simp add: map_where_def)

section \<open>What a claim writes\<close>

lemma claim_writes_shape:
  assumes "claim_writes env ids now key owner ttl req wt art task pf db = Inr db'"
    and id: "t_task_id task = Some i"
  obtains
    "db_tasks db' = map_where (\<lambda>t. t_task_id t = Some i) (claim_task ids now) (db_tasks db)"
    "db_attempts db' = db_attempts db @ [claim_attempt ids now req pf i (next_attempt_number db i) wt
        (if art \<noteq> None then art else t_artifact_dir task)]"
    "map lease_core (db_leases db') =
       map lease_core (db_leases db @ [claim_lease env ids now i owner ttl])"
    "db_suppressions db' = db_suppressions db"
    "fi_attempt_id ids \<notin> a_id ` set (db_attempts db)" "fi_lease_id ids \<notin> l_id ` set (db_leases db)"
    "db_controls db' = db_controls db" "db_capacity db' = db_capacity db"
    "db_tables db' = db_tables db" "db_task_columns db' = db_task_columns db"
proof -
  let ?a = "claim_attempt ids now req pf i (next_attempt_number db i) wt
        (if art \<noteq> None then art else t_artifact_dir task)"
  obtain d1 d2 d3 d4 d5 d6 where
    s: "insert_suppression i db = Inr d1" "insert_attempt ?a d1 = Inr d2"
    "insert_lease (claim_lease env ids now i owner ttl) d2 = Inr d3"
    "update_tasks_attempt now (\<lambda>t. t_task_id t = Some i) (claim_task ids now) d3 = Inr d4"
    and lc: "insert_lifecycle_event i (fi_attempt_id ids) (Some (t_status task)) ''preparing''
              (cr_reason_code req) owner now
              (dict_merge [(''lease_id'', JStr (fi_lease_id ids)), (''auth_mode'', JStr ''token'')]
                 (cr_metadata req)) d4 = Inr d5"
    and ev: "insert_status_event key ''preparing'' owner now None d5 = Inr d6"
    and db': "db' = delete_suppression i d6"
    using assms(1) unfolding claim_writes_def Let_def id option.case rbind_Inr_iff by blast
  obtain e where e: "d5 = d4\<lparr>db_lifecycle := db_lifecycle d4 @ [e]\<rparr>"
    using insert_lifecycle_event_Inr [OF lc] by blast
  have sup: "i \<notin> set (db_suppressions db)" using s(1) by (simp add: insert_suppression_Inr)
  note eqs = e s(4) [unfolded update_tasks_attempt_Inr, THEN conjunct1] insert_lease_Inr(1) [OF s(3)]
    insert_attempt_Inr(1) [OF s(2)] s(1) [unfolded insert_suppression_Inr, THEN conjunct2, THEN conjunct2]
  note only = events_onlyD [OF insert_status_event_events_only [OF ev]]
  have "filter (\<lambda>j. j \<noteq> i) (db_suppressions db) = db_suppressions db"
    using sup by (auto intro: filter_True)
  then show ?thesis
    using that only insert_attempt_Inr(2) [OF s(2)] insert_lease_Inr(2) [OF s(3)]
    by (simp add: db' delete_suppression_def eqs claim_attempt_def claim_lease_def)
qed

lemma claim_writes_inv:
  assumes c: "claim_writes env ids now key owner ttl req wt art task pf db = Inr db'"
    and id: "t_task_id task = Some i" and task: "task \<in> set (db_tasks db)"
    and own: "\<not> runtime_owned db task" and inv: "runtime_inv db"
  shows "runtime_inv db'"
    "map lease_ids (db_leases db') = map lease_ids (db_leases db) @ [(fi_lease_id ids, i, fi_attempt_id ids, True)]"
proof -
  let ?T = "map task_ids (db_tasks db)" and ?A = "map attempt_ids (db_attempts db)"
    and ?L = "map lease_ids (db_leases db)"
  let ?a = "fi_attempt_id ids" and ?l = "fi_lease_id ids"
  have "runtime_inv db' \<and> map lease_ids (db_leases db') = ?L @ [(?l, i, ?a, True)]"
  proof (rule claim_writes_shape [OF c id])
    assume t: "db_tasks db' = map_where (\<lambda>t. t_task_id t = Some i) (claim_task ids now) (db_tasks db)"
      and a: "db_attempts db' = db_attempts db @ [claim_attempt ids now req pf i (next_attempt_number db i) wt
        (if art \<noteq> None then art else t_artifact_dir task)]"
      and l: "map lease_core (db_leases db') = map lease_core (db_leases db @ [claim_lease env ids now i owner ttl])"
      and s: "db_suppressions db' = db_suppressions db"
      and fresh: "?a \<notin> a_id ` set (db_attempts db)" "?l \<notin> l_id ` set (db_leases db)"
    have T: "map task_ids (db_tasks db') =
        map_where (\<lambda>t. fst (snd t) = Some i) (\<lambda>t. (fst t, fst (snd t), Some ?a)) ?T"
      unfolding t by (rule map_where_project) (simp_all add: task_ids_def claim_task_def)
    have A: "map attempt_ids (db_attempts db') = ?A @ [(?a, i, True)]"
      unfolding a by (simp add: attempt_ids_def claim_attempt_def)
    have L: "map lease_ids (db_leases db') = ?L @ [(?l, i, ?a, True)]"
      using lease_ids_of_core [OF l] by (simp add: lease_ids_def claim_lease_def)
    have "ownership (map_where (\<lambda>t. fst (snd t) = Some i) (\<lambda>t. (fst t, fst (snd t), Some ?a)) ?T)
        (?A @ [(?a, i, True)]) (?L @ [(?l, i, ?a, True)])"
    proof (rule ownership_acquire)
      show "ownership ?T ?A ?L" using inv by (simp add: runtime_inv_def)
      show "(x, i, True) \<notin> set ?A" for x
        using own id by (auto simp: runtime_owned_def attempt_ids_def list_ex_iff)
      show "(l, i, x, True) \<notin> set ?L" for l x
        using own id by (auto simp: runtime_owned_def lease_ids_def list_ex_iff)
      show "?a \<notin> fst ` set ?A" using fresh(1) by (auto simp: attempt_ids_def)
      show "?l \<notin> fst ` set ?L" using fresh(2) by (auto simp: lease_ids_def)
      show "(t_key task, Some i, t_active_attempt_id task) \<in> set ?T"
        using task id by (force simp: task_ids_def)
    qed
    then show ?thesis using inv by (simp add: runtime_inv_def T A L s)
  qed
  then show "runtime_inv db'" "map lease_ids (db_leases db') = ?L @ [(?l, i, ?a, True)]" by blast+
qed

section \<open>What closing an Attempt writes\<close>

lemma close_writes_shape:
  assumes "close_writes now row key actor ast tst br g reason md db = Inr db'"
  obtains
    "db_tasks db' = map_where
       (\<lambda>t. t_task_id t = Some (l_task_id row) \<and> t_active_attempt_id t = Some (l_attempt_id row))
       (close_task now tst br) (db_tasks db)"
    "db_attempts db' = map_where (\<lambda>a. a_id a = l_attempt_id row \<and> a_is_active a) g (db_attempts db)"
    "map lease_core (db_leases db') = map lease_core
       (map_where (\<lambda>l. l_id l = l_id row \<and> l_is_active l) (close_lease now reason) (db_leases db))"
    "db_suppressions db' = db_suppressions db"
    "db_controls db' = db_controls db" "db_capacity db' = db_capacity db"
    "db_tables db' = db_tables db" "db_task_columns db' = db_task_columns db"
proof -
  let ?d3 = "\<lambda>d. update_leases (\<lambda>l. l_id l = l_id row \<and> l_is_active l) (close_lease now reason) d"
  obtain d1 d2 d4 d5 d6 where
    s: "insert_suppression (l_task_id row) db = Inr d1"
    and lc: "insert_lifecycle_event (l_task_id row) (l_attempt_id row)
         (Some (attempt_status_of db (l_attempt_id row))) ast reason actor now md d1 = Inr d2"
    and at: "update_attempts (\<lambda>a. a_id a = l_attempt_id row \<and> a_is_active a) g (?d3 d2) = Inr d4"
    and tk: "update_tasks_attempt now
       (\<lambda>t. t_task_id t = Some (l_task_id row) \<and> t_active_attempt_id t = Some (l_attempt_id row))
       (close_task now tst br) d4 = Inr d5"
    and ev: "insert_status_event key tst actor now br d5 = Inr d6"
    and db': "db' = delete_suppression (l_task_id row) d6"
    using assms unfolding close_writes_def Let_def rbind_Inr_iff by blast
  obtain e where e: "d2 = d1\<lparr>db_lifecycle := db_lifecycle d1 @ [e]\<rparr>"
    using insert_lifecycle_event_Inr [OF lc] by blast
  have sup: "l_task_id row \<notin> set (db_suppressions db)" using s by (simp add: insert_suppression_Inr)
  note eqs = tk [unfolded update_tasks_attempt_Inr, THEN conjunct1]
    at [unfolded update_attempts_Inr, THEN conjunct1] e
    s [unfolded insert_suppression_Inr, THEN conjunct2, THEN conjunct2]
  note only = events_onlyD [OF insert_status_event_events_only [OF ev]]
  have "filter (\<lambda>j. j \<noteq> l_task_id row) (db_suppressions db) = db_suppressions db"
    using sup by (auto intro: filter_True)
  then show ?thesis
    using that only by (simp add: db' delete_suppression_def eqs update_leases_def)
qed

lemma close_writes_inv:
  assumes c: "close_writes now row key actor ast tst br g reason md db = Inr db'"
    and g: "\<And>a. a_id (g a) = a_id a" "\<And>a. a_task_id (g a) = a_task_id a" "\<And>a. \<not> a_is_active (g a)"
    and row: "lease_ids row \<in> lease_ids ` set (db_leases db)" "l_is_active row" and inv: "runtime_inv db"
  shows "runtime_inv db'"
    "map lease_ids (db_leases db') =
       map_where (\<lambda>r. fst r = l_id row \<and> snd (snd (snd r)))
         (\<lambda>r. (fst r, fst (snd r), fst (snd (snd r)), False)) (map lease_ids (db_leases db))"
proof -
  let ?T = "map task_ids (db_tasks db)" and ?A = "map attempt_ids (db_attempts db)"
    and ?L = "map lease_ids (db_leases db)"
  let ?L' = "map_where (\<lambda>r. fst r = l_id row \<and> snd (snd (snd r)))
         (\<lambda>r. (fst r, fst (snd r), fst (snd (snd r)), False)) ?L"
  have "runtime_inv db' \<and> map lease_ids (db_leases db') = ?L'"
  proof (rule close_writes_shape [OF c])
    assume t: "db_tasks db' = map_where
       (\<lambda>t. t_task_id t = Some (l_task_id row) \<and> t_active_attempt_id t = Some (l_attempt_id row))
       (close_task now tst br) (db_tasks db)"
      and a: "db_attempts db' = map_where (\<lambda>a. a_id a = l_attempt_id row \<and> a_is_active a) g (db_attempts db)"
      and l: "map lease_core (db_leases db') = map lease_core
       (map_where (\<lambda>l. l_id l = l_id row \<and> l_is_active l) (close_lease now reason) (db_leases db))"
      and s: "db_suppressions db' = db_suppressions db"
    have T: "map task_ids (db_tasks db') =
        map_where (\<lambda>t. fst (snd t) = Some (l_task_id row) \<and> snd (snd t) = Some (l_attempt_id row))
          (\<lambda>t. (fst t, fst (snd t), None)) ?T"
      unfolding t by (rule map_where_project) (simp_all add: task_ids_def close_task_def)
    have A: "map attempt_ids (db_attempts db') =
        map_where (\<lambda>a. fst a = l_attempt_id row \<and> snd (snd a)) (\<lambda>a. (fst a, fst (snd a), False)) ?A"
      unfolding a by (rule map_where_project) (simp_all add: attempt_ids_def g)
    have L: "map lease_ids (db_leases db') = ?L'"
      unfolding lease_ids_of_core [OF l]
      by (rule map_where_project) (simp_all add: lease_ids_def close_lease_def)
    have "lease_ids row \<in> set ?L" using row(1) by simp
    then have mem: "(l_id row, l_task_id row, l_attempt_id row, True) \<in> set ?L"
      using row(2) by (simp add: lease_ids_def)
    show ?thesis
      using ownership_close [OF _ mem] inv by (simp add: runtime_inv_def T A L s)
  qed
  then show "runtime_inv db'" "map lease_ids (db_leases db') = ?L'" by blast+
qed

section \<open>The operations\<close>

lemma ensure_task_identity_Inr:
  assumes "ensure_task_identity db key = Inr (db1, row)" and inv: "runtime_inv db"
  shows "runtime_inv db1" "row \<in> set (db_tasks db1)" "t_key row = py_strip key"
    "\<exists>i. t_task_id row = Some i \<and> i \<noteq> []"
    "db_leases db1 = db_leases db" "db_attempts db1 = db_attempts db"
    "db_capacity db1 = db_capacity db" "db_tables db1 = db_tables db" "db_controls db1 = db_controls db"
    "\<exists>row0. get_task db (py_strip key) = Some row0 \<and> t_status row = t_status row0 \<and>
       t_blocked_by row = t_blocked_by row0 \<and> t_prompt row = t_prompt row0 \<and>
       (truthy (t_task_id row0) \<longrightarrow> db1 = db \<and> row = row0)"
proof -
  obtain k row0 where k: "normalize_task_key key = Inr k" "get_task db k = Some row0"
    using assms(1) by (auto simp: ensure_task_identity_def rbind_Inr_iff split: option.splits)
  have key: "k = py_strip key" "normalize_task_key k = Inr k"
    using k(1) normalize_task_key_idem by (auto simp: normalize_task_key_Inr)
  have row0: "row0 \<in> set (db_tasks db)" "t_key row0 = k" using get_task_Some [OF k(2)] by auto
  have "runtime_inv db1 \<and> row \<in> set (db_tasks db1) \<and> t_key row = py_strip key \<and>
    (\<exists>i. t_task_id row = Some i \<and> i \<noteq> []) \<and>
    db_leases db1 = db_leases db \<and> db_attempts db1 = db_attempts db \<and>
    db_capacity db1 = db_capacity db \<and> db_tables db1 = db_tables db \<and> db_controls db1 = db_controls db \<and>
    (\<exists>row0. get_task db (py_strip key) = Some row0 \<and> t_status row = t_status row0 \<and>
       t_blocked_by row = t_blocked_by row0 \<and> t_prompt row = t_prompt row0 \<and>
       (truthy (t_task_id row0) \<longrightarrow> db1 = db \<and> row = row0))"
  proof (cases "truthy (t_task_id row0)")
    case True
    then have "db1 = db" "row = row0" using assms(1) by (simp_all add: ensure_task_identity_def k)
    then show ?thesis using True k(2) row0 key inv by (auto simp: truthy_def split: option.splits)
  next
    case False
    let ?i = "''task:'' @ k"
    let ?f = "\<lambda>t. t\<lparr>t_task_id := Some ?i, t_task_class := ''legacy'', t_is_legacy := True\<rparr>"
    have fresh: "\<not> list_ex (\<lambda>t. t_key t \<noteq> k \<and> t_task_id t = Some ?i) (db_tasks db)"
      and db1: "db1 = update_tasks (\<lambda>t. t_key t = k) ?f db" and row: "row = ?f row0"
      using assms(1) False
      by (auto simp: ensure_task_identity_def k default_task_id_def key(2) Let_def split: if_splits)
    have own: "ownership (map task_ids (db_tasks db)) (map attempt_ids (db_attempts db)) (map lease_ids (db_leases db))"
      using inv by (simp add: runtime_inv_def)
    have none: "t_task_id row0 = None"
    proof -
      have "t_task_id row0 \<noteq> Some []"
        using ownershipD(10) [OF own] row0 by (auto simp: no_blank_ids_def list_all_iff task_ids_def)
      then show ?thesis using False by (cases "t_task_id row0") auto
    qed
    then have mem: "(k, None, t_active_attempt_id row0) \<in> set (map task_ids (db_tasks db))"
      using row0 by (force simp: task_ids_def)
    have "(k', Some ?i, y) \<notin> set (map task_ids (db_tasks db))" for k' y
    proof
      assume m: "(k', Some ?i, y) \<in> set (map task_ids (db_tasks db))"
      then have "k' = k" using fresh by (auto simp: task_ids_def list_ex_iff)
      then show False
        using m mem eq_key_imp_eq_value [OF ownershipD(1) [OF own], of k "(Some ?i, y)" "(None, t_active_attempt_id row0)"]
        by auto
    qed
    then have "ownership (map_where (\<lambda>t. fst t = k) (\<lambda>t. (fst t, Some ?i, snd (snd t))) (map task_ids (db_tasks db)))
        (map attempt_ids (db_attempts db)) (map lease_ids (db_leases db))"
      by (intro ownership_identify [OF own mem]) simp_all
    moreover have "map task_ids (map_where (\<lambda>t. t_key t = k) ?f (db_tasks db)) =
        map_where (\<lambda>t. fst t = k) (\<lambda>t. (fst t, Some ?i, snd (snd t))) (map task_ids (db_tasks db))"
      by (rule map_where_project) (simp_all add: task_ids_def)
    ultimately have "runtime_inv db1" using inv by (simp add: runtime_inv_def db1)
    moreover have "row \<in> set (db_tasks db1)"
      using row0 by (auto simp: db1 row set_map_where image_iff)
    ultimately show ?thesis using False k(2) row0 key by (simp add: db1 row)
  qed
  then show "runtime_inv db1" "row \<in> set (db_tasks db1)" "t_key row = py_strip key"
    "\<exists>i. t_task_id row = Some i \<and> i \<noteq> []"
    "db_leases db1 = db_leases db" "db_attempts db1 = db_attempts db"
    "db_capacity db1 = db_capacity db" "db_tables db1 = db_tables db" "db_controls db1 = db_controls db"
    "\<exists>row0. get_task db (py_strip key) = Some row0 \<and> t_status row = t_status row0 \<and>
       t_blocked_by row = t_blocked_by row0 \<and> t_prompt row = t_prompt row0 \<and>
       (truthy (t_task_id row0) \<longrightarrow> db1 = db \<and> row = row0)"
    by blast+
qed

lemma claim_checks_Inr:
  assumes "claim_checks env key req db = Inr (db1, task, pf)"
  shows "assert_runtime_capacity_available db = Inr ()" "ensure_task_identity db key = Inr (db1, task)"
    "assert_admission_allowed db1 key = Inr ()" "t_status task \<in> {''created'', ''queued''}"
    "assert_dependency_released db1 key = Inr ()"
    "attempt_policy_fields (ae_policy env) db1 key
              \<lparr>ap_executor = or_else (cr_executor req) (t_executor task),
               ap_model = or_else (cr_model req) (t_model task),
               ap_policy_version = cr_policy_version req,
               ap_config_snapshot_hash = cr_config_snapshot_hash req,
               ap_permission_profile = cr_permission_profile req\<rparr> = Inr pf"
    "\<not> runtime_owned db1 task"
proof -
  obtain d t where e: "ensure_task_identity db key = Inr (d, t)"
    using assms unfolding claim_checks_def rbind_Inr_iff by fast
  note c = assms [unfolded claim_checks_def e rbind_simps prod.case, unfolded rbind_Inr_iff if_raise_Inr]
  have "d = db1 \<and> t = task" using c by blast
  then show "assert_runtime_capacity_available db = Inr ()" "ensure_task_identity db key = Inr (db1, task)"
    "assert_admission_allowed db1 key = Inr ()" "t_status task \<in> {''created'', ''queued''}"
    "assert_dependency_released db1 key = Inr ()"
    "attempt_policy_fields (ae_policy env) db1 key
              \<lparr>ap_executor = or_else (cr_executor req) (t_executor task),
               ap_model = or_else (cr_model req) (t_model task),
               ap_policy_version = cr_policy_version req,
               ap_config_snapshot_hash = cr_config_snapshot_hash req,
               ap_permission_profile = cr_permission_profile req\<rparr> = Inr pf"
    "\<not> runtime_owned db1 task"
    using c e by auto
qed

lemma claim_Inr:
  assumes "claim env ids now task_key owner_id ttl req db = Inr (db', c)"
  obtains key db1 task pf wt art where
    "normalize_task_key task_key = Inr key" "py_strip owner_id \<noteq> []" "1 \<le> ttl"
    "claim_checks env key req db = Inr (db1, task, pf)"
    "claim_writes env ids now key (py_strip owner_id) ttl req wt art task pf db1 = Inr db'"
    "cl_task_key c = key" "cl_lease_id c = fi_lease_id ids" "cl_attempt_id c = fi_attempt_id ids"
    "cl_owner_id c = py_strip owner_id" "cl_expires_at c = now + ttl" "cl_lease_token c = fi_token ids"
    "cl_task_id c = (case t_task_id task of None \<Rightarrow> [] | Some i \<Rightarrow> i)"
proof -
  obtain key owner where k: "normalize_task_key task_key = Inr key" "require_non_empty owner_id = Inr owner"
    and ttl: "\<not> ttl < 1"
    using assms unfolding claim_def rbind_Inr_iff if_raise_Inr by blast
  obtain wt art where p: "absolute_or_none (ae_home env) (cr_worktree_path req) = Inr wt"
    "absolute_or_none (ae_home env) (cr_artifact_root req) = Inr art"
    using assms unfolding claim_def k rbind_simps if_raise_Inr rbind_Inr_iff by blast
  obtain db1 task pf where ch: "claim_checks env key req db = Inr (db1, task, pf)"
    using assms unfolding claim_def k p rbind_simps if_raise_Inr rbind_Inr_iff by fast
  have own: "owner = py_strip owner_id" "owner \<noteq> []" using k(2) by (auto simp: require_non_empty_Inr)
  have "rbind (claim_writes env ids now key owner ttl req wt art task pf db1) (\<lambda>db'.
     Inr (db', \<lparr>cl_task_key = key,
        cl_task_id = (case t_task_id task of None \<Rightarrow> [] | Some i \<Rightarrow> i),
        cl_attempt_id = fi_attempt_id ids,
        cl_attempt_number = next_attempt_number db1 (case t_task_id task of None \<Rightarrow> [] | Some i \<Rightarrow> i),
        cl_lease_id = fi_lease_id ids, cl_owner_id = owner, cl_lease_token = fi_token ids,
        cl_acquired_at = now, cl_heartbeat_at = now, cl_expires_at = now + ttl\<rparr>)) = Inr (db', c)"
    using assms unfolding claim_def k p ch rbind_simps if_raise_Inr prod.case by blast
  then show ?thesis
    using that [of key db1 task pf wt art] k(1) ttl own ch unfolding rbind_Inr_iff by auto
qed

lemma claim_effect:
  assumes inv: "runtime_inv db" and c: "claim env ids now task_key owner_id ttl req db = Inr (db', c)"
  shows "runtime_inv db'"
    "map lease_ids (db_leases db') =
       map lease_ids (db_leases db) @ [(cl_lease_id c, cl_task_id c, cl_attempt_id c, True)]"
    "(l, cl_task_id c, x, True) \<notin> set (map lease_ids (db_leases db))"
proof -
  have "runtime_inv db' \<and> map lease_ids (db_leases db') =
       map lease_ids (db_leases db) @ [(cl_lease_id c, cl_task_id c, cl_attempt_id c, True)] \<and>
     (l, cl_task_id c, x, True) \<notin> set (map lease_ids (db_leases db))"
    using c
  proof (rule claim_Inr)
    fix key db1 task pf wt art
    assume ch: "claim_checks env key req db = Inr (db1, task, pf)"
      and w: "claim_writes env ids now key (py_strip owner_id) ttl req wt art task pf db1 = Inr db'"
      and ids: "cl_lease_id c = fi_lease_id ids" "cl_attempt_id c = fi_attempt_id ids"
        "cl_task_id c = (case t_task_id task of None \<Rightarrow> [] | Some i \<Rightarrow> i)"
    note e = ensure_task_identity_Inr [OF claim_checks_Inr(2) [OF ch] inv]
    obtain i where i: "t_task_id task = Some i" using e(4) by blast
    have "\<not> runtime_owned db1 task" by (rule claim_checks_Inr(7) [OF ch])
    then have "(l, i, x, True) \<notin> set (map lease_ids (db_leases db1))"
      using i by (auto simp: runtime_owned_def lease_ids_def list_ex_iff)
    then show ?thesis
      using claim_writes_inv [OF w i e(2) claim_checks_Inr(7) [OF ch] e(1)] i ids e(5) by simp
  qed
  then show "runtime_inv db'"
    "map lease_ids (db_leases db') =
       map lease_ids (db_leases db) @ [(cl_lease_id c, cl_task_id c, cl_attempt_id c, True)]"
    "(l, cl_task_id c, x, True) \<notin> set (map lease_ids (db_leases db))" by blast+
qed

lemma verify_owned_lease_Inr:
  "verify_owned_lease env row owner tok now allow = Inr l \<longleftrightarrow>
     row = Some l \<and> l_is_active l \<and> l_auth_mode l = ''token'' \<and> l_owner_id l = owner \<and>
     l_token_hash l = ae_token_hash env tok \<and> (allow \<or> now < l_expires_at l)"
  by (cases row) (auto simp: verify_owned_lease_def)

lemma heartbeat_Inr:
  assumes "heartbeat env now attempt_id owner_id lease_token ttl db = Inr (db', r)"
  obtains row where "active_lease_of_attempt db attempt_id = Some row" "l_is_active row"
    "l_owner_id row = py_strip owner_id" "l_token_hash row = ae_token_hash env (py_strip lease_token)"
    "now < l_expires_at row" "same_ownership db db'"
    "db_leases db' = map_where (\<lambda>l. l_id l = l_id row \<and> l_is_active l)
       (\<lambda>l. l\<lparr>l_ttl_seconds := (case ttl of None \<Rightarrow> l_ttl_seconds row | Some t \<Rightarrow> t), l_heartbeat_at := now,
              l_expires_at := now + (case ttl of None \<Rightarrow> l_ttl_seconds row | Some t \<Rightarrow> t)\<rparr>) (db_leases db)"
    "db_tasks db' = db_tasks db" "1 \<le> (case ttl of None \<Rightarrow> l_ttl_seconds row | Some t \<Rightarrow> t)"
proof -
  obtain owner tok row where o: "require_non_empty owner_id = Inr owner" "require_non_empty lease_token = Inr tok"
    and v: "verify_owned_lease env (active_lease_of_attempt db attempt_id) owner tok now False = Inr row"
    using assms unfolding heartbeat_def rbind_Inr_iff by blast
  define T where "T = (case ttl of None \<Rightarrow> l_ttl_seconds row | Some t \<Rightarrow> t)"
  define u where "u = update_leases (\<lambda>l. l_id l = l_id row \<and> l_is_active l)
       (\<lambda>l. l\<lparr>l_ttl_seconds := T, l_heartbeat_at := now, l_expires_at := now + T\<rparr>) db"
  obtain d1 d2 where t: "\<not> T < 1"
    and a: "update_attempts (\<lambda>a. a_id a = attempt_id) (\<lambda>a. a\<lparr>a_updated_at := now\<rparr>) u = Inr d1"
    and lc: "insert_lifecycle_event (l_task_id row) attempt_id (Some (attempt_status_of db attempt_id))
        (attempt_status_of db attempt_id) ''runtime_lease_heartbeat'' owner now
        [(''lease_id'', JStr (l_id row)), (''expires_at'', JInt (now + T))] d1 = Inr d2"
    and d2: "db' = d2"
    using assms unfolding heartbeat_def o v rbind_simps Let_def if_raise_Inr rbind_Inr_iff
      T_def [symmetric] u_def [symmetric] by auto
  obtain e where e: "d2 = d1\<lparr>db_lifecycle := db_lifecycle d1 @ [e]\<rparr>"
    using insert_lifecycle_event_Inr [OF lc] by blast
  note d1 = a [unfolded update_attempts_Inr, THEN conjunct1]
  have "same_ownership db db'"
    by (simp add: same_ownership_def d2 e d1 u_def update_leases_def map_map_where attempt_ids_def lease_ids_def)
  moreover have "db_leases db' = map_where (\<lambda>l. l_id l = l_id row \<and> l_is_active l)
       (\<lambda>l. l\<lparr>l_ttl_seconds := T, l_heartbeat_at := now, l_expires_at := now + T\<rparr>) (db_leases db)"
    "db_tasks db' = db_tasks db"
    by (simp_all add: d2 e d1 u_def update_leases_def)
  ultimately show ?thesis
    using that [of row] v o t unfolding verify_owned_lease_Inr T_def by (auto simp: require_non_empty_Inr)
qed

lemma active_lease_with_task_Some:
  assumes "active_lease_with_task db attempt_id = Some row"
  shows "row \<in> set (db_leases db)" "l_attempt_id row = attempt_id" "l_is_active row"
    "task_of_id db (l_task_id row) \<noteq> None"
  using assms by (auto simp: active_lease_with_task_def dest: find_Some_set split: if_splits)

lemma release_Inr:
  assumes "release env now attempt_id owner_id lease_token req db = Inr (db', r)"
  obtains row key ast tst where "active_lease_with_task db attempt_id = Some row"
    "l_auth_mode row = ''token''" "l_owner_id row = py_strip owner_id"
    "l_token_hash row = ae_token_hash env (py_strip lease_token)"
    "validate_attempt_status (rr_attempt_status req) = Inr ast"
    "validate_task_status (rr_task_status req) = Inr tst"
    "close_writes now row key (py_strip owner_id) ast tst
       (if tst = ''blocked'' then Some (rr_reason_code req) else None)
       (\<lambda>a. a\<lparr>a_status := ast, a_is_active := False, a_ended_at := Some now,
              a_execution_result := rr_execution_result req,
              a_validation_result := rr_validation_result req,
              a_merge_recommendation := rr_merge_recommendation req, a_updated_at := now\<rparr>)
       (rr_reason_code req) (dict_merge [(''task_status'', JStr tst)] (rr_metadata req)) db = Inr db'"
    "key = (case task_of_id db (l_task_id row) of None \<Rightarrow> [] | Some t \<Rightarrow> t_key t)"
proof -
  obtain owner tok ast tst row where o: "require_non_empty owner_id = Inr owner"
    "require_non_empty lease_token = Inr tok" "validate_attempt_status (rr_attempt_status req) = Inr ast"
    "validate_task_status (rr_task_status req) = Inr tst"
    "verify_owned_lease env (active_lease_with_task db attempt_id) owner tok now True = Inr row"
    using assms unfolding release_def rbind_Inr_iff by blast
  have "owner = py_strip owner_id" "tok = py_strip lease_token" using o(1,2) by (auto simp: require_non_empty_Inr)
  moreover obtain d where
    "close_writes now row (case task_of_id db (l_task_id row) of None \<Rightarrow> [] | Some t \<Rightarrow> t_key t) owner ast tst
       (if tst = ''blocked'' then Some (rr_reason_code req) else None)
       (\<lambda>a. a\<lparr>a_status := ast, a_is_active := False, a_ended_at := Some now,
              a_execution_result := rr_execution_result req,
              a_validation_result := rr_validation_result req,
              a_merge_recommendation := rr_merge_recommendation req, a_updated_at := now\<rparr>)
       (rr_reason_code req) (dict_merge [(''task_status'', JStr tst)] (rr_metadata req)) db = Inr d" "d = db'"
    using assms unfolding release_def o rbind_simps Let_def rbind_Inr_iff by auto
  ultimately show ?thesis using that o(3-5) unfolding verify_owned_lease_Inr by blast
qed

text \<open>The lease identities after closing one lease.\<close>

definition closed :: "string \<Rightarrow> lease_id_row list \<Rightarrow> lease_id_row list" where
  "closed l L = map_where (\<lambda>r. fst r = l \<and> snd (snd (snd r)))
     (\<lambda>r. (fst r, fst (snd r), fst (snd (snd r)), False)) L"

lemma closed_mem:
  "(l', i, x, True) \<in> set (closed l L) \<longleftrightarrow> (l', i, x, True) \<in> set L \<and> l' \<noteq> l"
  by (force simp: closed_def set_map_where image_iff)

lemma release_effect:
  assumes inv: "runtime_inv db" and r: "release env now attempt_id owner_id lease_token req db = Inr (db', r)"
  shows "runtime_inv db'"
    "\<exists>row. row \<in> set (db_leases db) \<and> l_is_active row \<and> l_attempt_id row = attempt_id \<and>
       l_owner_id row = py_strip owner_id \<and> l_token_hash row = ae_token_hash env (py_strip lease_token) \<and>
       map lease_ids (db_leases db') = closed (l_id row) (map lease_ids (db_leases db))"
proof -
  have "runtime_inv db' \<and> (\<exists>row. row \<in> set (db_leases db) \<and> l_is_active row \<and> l_attempt_id row = attempt_id \<and>
       l_owner_id row = py_strip owner_id \<and> l_token_hash row = ae_token_hash env (py_strip lease_token) \<and>
       map lease_ids (db_leases db') = closed (l_id row) (map lease_ids (db_leases db)))"
    using r
  proof (rule release_Inr)
    fix row key ast tst
    assume row: "active_lease_with_task db attempt_id = Some row"
      and own: "l_owner_id row = py_strip owner_id" "l_token_hash row = ae_token_hash env (py_strip lease_token)"
      and w: "close_writes now row key (py_strip owner_id) ast tst
       (if tst = ''blocked'' then Some (rr_reason_code req) else None)
       (\<lambda>a. a\<lparr>a_status := ast, a_is_active := False, a_ended_at := Some now,
              a_execution_result := rr_execution_result req,
              a_validation_result := rr_validation_result req,
              a_merge_recommendation := rr_merge_recommendation req, a_updated_at := now\<rparr>)
       (rr_reason_code req) (dict_merge [(''task_status'', JStr tst)] (rr_metadata req)) db = Inr db'"
    note m = active_lease_with_task_Some [OF row]
    have "runtime_inv db'" "map lease_ids (db_leases db') = closed (l_id row) (map lease_ids (db_leases db))"
      unfolding closed_def by (rule close_writes_inv [OF w]; use m inv in simp)+
    then show ?thesis using m own by blast
  qed
  then show "runtime_inv db'"
    "\<exists>row. row \<in> set (db_leases db) \<and> l_is_active row \<and> l_attempt_id row = attempt_id \<and>
       l_owner_id row = py_strip owner_id \<and> l_token_hash row = ae_token_hash env (py_strip lease_token) \<and>
       map lease_ids (db_leases db') = closed (l_id row) (map lease_ids (db_leases db))" by blast+
qed

lemma reap_lease_Inr:
  assumes inv: "runtime_inv db" and act: "l_is_active row" "lease_ids row \<in> set (map lease_ids (db_leases db))"
    and r: "reap_lease now (row, key) (db, acc) = Inr (db', acc')"
  shows "runtime_inv db'" "acc' = acc @ [l_attempt_id row]"
    "map lease_ids (db_leases db') = closed (l_id row) (map lease_ids (db_leases db))"
proof -
  obtain ticket where w: "close_writes now row key ''runtime_lease_reaper'' ''execution_aborted''
              (if ticket then ''failed'' else ''blocked'')
              (if ticket then None else Some ''runtime_lease_expired'')
              (\<lambda>a. a\<lparr>a_status := ''execution_aborted'', a_is_active := False, a_ended_at := Some now,
                     a_execution_result := Some ''lease_expired'', a_updated_at := now\<rparr>)
              ''runtime_lease_expired''
              [(''lease_id'', JStr (l_id row)), (''owner_id'', JStr (l_owner_id row)),
               (''expired_at'', JInt (l_expires_at row))] db = Inr db'"
    and a: "acc' = acc @ [l_attempt_id row]"
    using r unfolding reap_lease_def prod.case rbind_Inr_iff by auto
  show "runtime_inv db'" "map lease_ids (db_leases db') = closed (l_id row) (map lease_ids (db_leases db))"
    unfolding closed_def by (rule close_writes_inv [OF w]; use act inv in simp)+
  show "acc' = acc @ [l_attempt_id row]" by (rule a)
qed

lemma reap_fold:
  assumes "runtime_inv db"
    and "\<forall>r \<in> set rs. l_is_active (fst r) \<and> lease_ids (fst r) \<in> set (map lease_ids (db_leases db))"
    and "distinct (map (l_id \<circ> fst) rs)" and "fold_result (reap_lease now) rs (db, acc) = Inr (db', out)"
  shows "runtime_inv db' \<and> out = acc @ map (l_attempt_id \<circ> fst) rs \<and>
     map lease_ids (db_leases db') = fold closed (map (l_id \<circ> fst) rs) (map lease_ids (db_leases db))"
  using assms
proof (induction rs arbitrary: db acc)
  case (Cons r rs)
  obtain row key where r: "r = (row, key)" by force
  obtain db1 acc1 where s: "reap_lease now (row, key) (db, acc) = Inr (db1, acc1)"
    and rest: "fold_result (reap_lease now) rs (db1, acc1) = Inr (db', out)"
    using Cons.prems(4) by (auto simp: r rbind_Inr_iff)
  have act: "l_is_active row" "lease_ids row \<in> set (map lease_ids (db_leases db))"
    using Cons.prems(2) by (simp_all add: r)
  note e = reap_lease_Inr [OF Cons.prems(1) act s]
  have "\<forall>q \<in> set rs. l_is_active (fst q) \<and> lease_ids (fst q) \<in> set (map lease_ids (db_leases db1))"
  proof
    fix q assume q: "q \<in> set rs"
    then have "l_is_active (fst q)" "lease_ids (fst q) \<in> set (map lease_ids (db_leases db))"
      "l_id (fst q) \<noteq> l_id row"
      using Cons.prems(2,3) by (auto simp: r image_iff)
    then show "l_is_active (fst q) \<and> lease_ids (fst q) \<in> set (map lease_ids (db_leases db1))"
      unfolding e(3) by (simp add: lease_ids_def closed_mem)
  qed
  then show ?case using Cons.IH [OF e(1) _ _ rest] Cons.prems(3) e(2,3) by (simp add: r)
qed simp

lemma fold_closed_mem:
  "(l', i, x, True) \<in> set (fold closed ls L) \<longleftrightarrow> (l', i, x, True) \<in> set L \<and> l' \<notin> set ls"
  by (induction ls arbitrary: L) (auto simp: closed_mem)

lemma active_lease_backed:
  assumes inv: "runtime_inv db" and l: "l \<in> set (db_leases db)" "l_is_active l"
  shows "get_attempt_row db (l_attempt_id l) \<noteq> None" "task_of_id db (l_task_id l) \<noteq> None"
    "\<exists>t. task_of_id db (l_task_id l) = Some t \<and> t_active_attempt_id t = Some (l_attempt_id l)"
proof -
  have own: "ownership (map task_ids (db_tasks db)) (map attempt_ids (db_attempts db)) (map lease_ids (db_leases db))"
    using inv by (simp add: runtime_inv_def)
  have mem: "(l_id l, l_task_id l, l_attempt_id l, True) \<in> set (map lease_ids (db_leases db))"
    using l by (force simp: lease_ids_def)
  obtain a where a: "a \<in> set (db_attempts db)" "a_id a = l_attempt_id l"
    using ownershipD(7) [OF own mem] by (auto simp: attempt_ids_def)
  then show "get_attempt_row db (l_attempt_id l) \<noteq> None"
    unfolding get_attempt_row_def find_None_iff_ball by blast
  obtain t where t: "t \<in> set (db_tasks db)" "t_task_id t = Some (l_task_id l)" "t_active_attempt_id t = Some (l_attempt_id l)"
    using ownershipD(8) [OF own mem] by (auto simp: task_ids_def)
  then have "task_of_id db (l_task_id l) \<noteq> None"
    unfolding task_of_id_def find_None_iff_ball by blast
  then obtain u where u: "task_of_id db (l_task_id l) = Some u" by blast
  then have "u \<in> set (db_tasks db)" "t_task_id u = Some (l_task_id l)"
    using find_Some_set unfolding task_of_id_def by fastforce+
  then have "t_active_attempt_id u = Some (l_attempt_id l)"
    using t ownershipD(4) [OF own, of "t_key u" "l_task_id l" "t_active_attempt_id u" "t_key t" "Some (l_attempt_id l)"]
    by (force simp: task_ids_def)
  then show "task_of_id db (l_task_id l) \<noteq> None"
    "\<exists>t. task_of_id db (l_task_id l) = Some t \<and> t_active_attempt_id t = Some (l_attempt_id l)"
    using u by simp_all
qed

lemma stale_leases_set:
  assumes "runtime_inv db"
  shows "set (stale_leases now db) = {l \<in> set (db_leases db). l_is_active l \<and> l_expires_at l \<le> now}"
  using active_lease_backed [OF assms] by (auto simp: stale_leases_def)

lemma distinct_lease_ids: "runtime_inv db \<Longrightarrow> distinct (map l_id (db_leases db))"
  using ownershipD(3) by (fastforce simp: runtime_inv_def lease_ids_def comp_def)

lemma stale_leases_distinct:
  assumes "runtime_inv db"
  shows "distinct (map l_id (stale_leases now db))"
  using distinct_lease_ids [OF assms] by (simp add: stale_leases_def distinct_map inj_on_def)

lemma expire_effect:
  assumes inv: "runtime_inv db" and e: "expire_stale_leases now db = Inr (db', out)"
  shows "runtime_inv db'" "out = map l_attempt_id (stale_leases now db)"
    "(l, i, x, True) \<in> set (map lease_ids (db_leases db')) \<longleftrightarrow>
       (l, i, x, True) \<in> set (map lease_ids (db_leases db)) \<and> l \<notin> l_id ` set (stale_leases now db)"
proof -
  let ?rs = "map (\<lambda>l. (l, case task_of_id db (l_task_id l) of None \<Rightarrow> [] | Some t \<Rightarrow> t_key t))
          (stale_leases now db)"
  have ids: "map (l_id \<circ> fst) ?rs = map l_id (stale_leases now db)"
    "map (l_attempt_id \<circ> fst) ?rs = map l_attempt_id (stale_leases now db)" by simp_all
  have act: "\<forall>r \<in> set ?rs. l_is_active (fst r) \<and> lease_ids (fst r) \<in> set (map lease_ids (db_leases db))"
    using stale_leases_set [OF inv] by auto
  note f = reap_fold [OF inv act _ e [unfolded expire_stale_leases_def], unfolded ids,
      OF stale_leases_distinct [OF inv]]
  show "runtime_inv db'" "out = map l_attempt_id (stale_leases now db)" using f by simp_all
  show "(l, i, x, True) \<in> set (map lease_ids (db_leases db')) \<longleftrightarrow>
       (l, i, x, True) \<in> set (map lease_ids (db_leases db)) \<and> l \<notin> l_id ` set (stale_leases now db)"
    using f fold_closed_mem by simp
qed

section \<open>The lock contract\<close>

locale exclusive_lock =
  fixes inv :: "'s \<Rightarrow> bool"
    and holder :: "'s \<Rightarrow> 'k \<Rightarrow> 'h option"
    and step :: "'o \<Rightarrow> 's \<Rightarrow> 's option"
    and entitled :: "'o \<Rightarrow> 's \<Rightarrow> 'k \<Rightarrow> bool"
  assumes step_inv: "\<lbrakk>inv s; step x s = Some s'\<rbrakk> \<Longrightarrow> inv s'"
    and keeps: "\<lbrakk>inv s; step x s = Some s'; holder s k = Some h; \<not> entitled x s k\<rbrakk> \<Longrightarrow> holder s' k = Some h"
    and no_steal: "\<lbrakk>inv s; step x s = Some s'; holder s k = Some h\<rbrakk> \<Longrightarrow> holder s' k = Some h \<or> holder s' k = None"
begin

lemma history_inv: "inv s \<Longrightarrow> inv (run_ops step xs s)"
  by (rule run_ops_invariant [where I = inv]) (rule step_inv)

lemma handover:
  assumes "inv s" "holder s k = Some h" "holder (run_ops step xs s) k \<noteq> Some h"
  shows "\<exists>ys x zs. xs = ys @ x # zs \<and> holder (run_ops step ys s) k = Some h \<and>
     entitled x (run_ops step ys s) k \<and> holder (run_ops step (ys @ [x]) s) k = None"
  using assms
proof (induction xs arbitrary: s)
  case (Cons x xs)
  define s1 where "s1 = (case step x s of None \<Rightarrow> s | Some s' \<Rightarrow> s')"
  have s1: "run_ops step (x # zs) s = run_ops step zs s1" for zs by (simp add: s1_def)
  have i1: "inv s1" using Cons.prems(1) step_inv by (auto simp: s1_def split: option.splits)
  show ?case
  proof (cases "holder s1 k = Some h")
    case True
    obtain ys y zs where "xs = ys @ y # zs" "holder (run_ops step ys s1) k = Some h"
      "entitled y (run_ops step ys s1) k" "holder (run_ops step (ys @ [y]) s1) k = None"
      using Cons.IH [OF i1 True] Cons.prems(3) s1 by metis
    then show ?thesis by (intro exI [of _ "x # ys"] exI [of _ y] exI [of _ zs]) (simp add: s1_def [symmetric])
  next
    case False
    then obtain s' where st: "step x s = Some s'" "s1 = s'"
      using Cons.prems(2) by (auto simp: s1_def split: option.splits)
    have "entitled x s k" "holder s' k = None"
      using keeps [OF Cons.prems(1) st(1) Cons.prems(2)] no_steal [OF Cons.prems(1) st(1) Cons.prems(2)]
        False st(2) by blast+
    then show ?thesis using Cons.prems(2) st(1) by (intro exI [of _ "[]"] exI [of _ x] exI [of _ xs]) simp
  qed
qed simp

end

section \<open>The runtime as a lock\<close>

datatype runtime_op =
    Claim fresh_ids timestamp string string int claim_request
  | Heartbeat timestamp string string string "int option"
  | Release timestamp string string string release_request
  | ExpireStaleLeases timestamp

fun runtime_step :: "admission_env \<Rightarrow> runtime_op \<Rightarrow> db \<Rightarrow> db option" where
  "runtime_step env (Claim ids now key owner ttl req) db = committed (claim env ids now key owner ttl req db)"
| "runtime_step env (Heartbeat now attempt owner tok ttl) db =
     committed (heartbeat env now attempt owner tok ttl db)"
| "runtime_step env (Release now attempt owner tok req) db =
     committed (release env now attempt owner tok req db)"
| "runtime_step env (ExpireStaleLeases now) db = committed (expire_stale_leases now db)"

definition holder :: "db \<Rightarrow> string \<Rightarrow> string option" where
  "holder db task_id =
     map_option l_id (find (\<lambda>l. l_is_active l \<and> l_task_id l = task_id) (db_leases db))"

text \<open>
  Who may free a task: the caller of a release that names the owner and the token of its active
  lease, and the reaper once that lease has expired.
\<close>

fun entitled :: "admission_env \<Rightarrow> runtime_op \<Rightarrow> db \<Rightarrow> string \<Rightarrow> bool" where
  "entitled env (Release now attempt owner tok req) db task_id =
     list_ex (\<lambda>l. l_is_active l \<and> l_task_id l = task_id \<and> l_attempt_id l = attempt \<and>
       l_owner_id l = py_strip owner \<and> l_token_hash l = ae_token_hash env (py_strip tok)) (db_leases db)"
| "entitled env (ExpireStaleLeases now) db task_id =
     list_ex (\<lambda>l. l_is_active l \<and> l_task_id l = task_id \<and> l_expires_at l \<le> now) (db_leases db)"
| "entitled env _ db task_id = False"

definition holds :: "db \<Rightarrow> string \<Rightarrow> string \<Rightarrow> bool" where
  "holds db i h \<longleftrightarrow> (\<exists>x. (h, i, x, True) \<in> set (map lease_ids (db_leases db)))"

lemma holds_unique: "\<lbrakk>runtime_inv db; holds db i h; holds db i h'\<rbrakk> \<Longrightarrow> h = h'"
  using ownershipD(6) unfolding runtime_inv_def holds_def by blast

lemma holds_lease: "holds db i h \<longleftrightarrow> (\<exists>l \<in> set (db_leases db). l_is_active l \<and> l_task_id l = i \<and> l_id l = h)"
  by (auto simp: holds_def lease_ids_def image_iff)

lemma holder_Some_iff:
  assumes "runtime_inv db"
  shows "holder db i = Some h \<longleftrightarrow> holds db i h"
proof
  assume "holder db i = Some h"
  then show "holds db i h" by (auto simp: holder_def holds_lease dest!: find_Some_set)
next
  assume h: "holds db i h"
  then obtain l where "find (\<lambda>l. l_is_active l \<and> l_task_id l = i) (db_leases db) = Some l"
    by (cases "find (\<lambda>l. l_is_active l \<and> l_task_id l = i) (db_leases db)")
       (auto simp: find_None_iff_ball holds_lease)
  moreover from this have "holds db i (l_id l)" by (auto simp: holds_lease dest!: find_Some_set)
  ultimately show "holder db i = Some h" using holds_unique [OF assms h] by (simp add: holder_def)
qed

lemma lease_task_unique:
  "\<lbrakk>runtime_inv db; l \<in> set (db_leases db); l' \<in> set (db_leases db); l_id l = l_id l'\<rbrakk> \<Longrightarrow> l = l'"
  by (rule distinct_key_eq [OF distinct_lease_ids])

lemma claim_step:
  assumes inv: "runtime_inv db" and c: "claim env ids now key owner ttl req db = Inr (db', c)"
  shows "holds db' i h \<longleftrightarrow> holds db i h \<or> i = cl_task_id c \<and> h = cl_lease_id c"
    "\<not> holds db (cl_task_id c) h"
  using claim_effect(2,3) [OF inv c] unfolding holds_def by auto

lemma release_step:
  assumes inv: "runtime_inv db" and r: "release env now a owner tok req db = Inr (db', r)"
  shows "holds db' i h \<Longrightarrow> holds db i h"
    "\<lbrakk>holds db i h; \<not> entitled env (Release now a owner tok req) db i\<rbrakk> \<Longrightarrow> holds db' i h"
proof -
  obtain row where row: "row \<in> set (db_leases db)" "l_is_active row" "l_attempt_id row = a"
    "l_owner_id row = py_strip owner" "l_token_hash row = ae_token_hash env (py_strip tok)"
    "map lease_ids (db_leases db') = closed (l_id row) (map lease_ids (db_leases db))"
    using release_effect(2) [OF inv r] by blast
  have eq: "holds db' i h \<longleftrightarrow> holds db i h \<and> h \<noteq> l_id row" for i h
    unfolding holds_def row(6) closed_mem by blast
  show "holds db' i h \<Longrightarrow> holds db i h" unfolding eq by blast
  assume h: "holds db i h" and ne: "\<not> entitled env (Release now a owner tok req) db i"
  have "h \<noteq> l_id row"
  proof
    assume "h = l_id row"
    then have "l_task_id row = i" using h row(1) lease_task_unique [OF inv] unfolding holds_lease by blast
    then show False using ne row(1-5) by (auto simp: list_ex_iff)
  qed
  then show "holds db' i h" using h unfolding eq by blast
qed

lemma expire_step:
  assumes inv: "runtime_inv db" and e: "expire_stale_leases now db = Inr (db', out)"
  shows "holds db' i h \<Longrightarrow> holds db i h"
    "\<lbrakk>holds db i h; \<not> entitled env (ExpireStaleLeases now) db i\<rbrakk> \<Longrightarrow> holds db' i h"
proof -
  have eq: "holds db' i h \<longleftrightarrow> holds db i h \<and> h \<notin> l_id ` set (stale_leases now db)" for i h
    unfolding holds_def using expire_effect(3) [OF inv e] by blast
  show "holds db' i h \<Longrightarrow> holds db i h" unfolding eq by blast
  assume h: "holds db i h" and ne: "\<not> entitled env (ExpireStaleLeases now) db i"
  have "h \<notin> l_id ` set (stale_leases now db)"
  proof
    assume "h \<in> l_id ` set (stale_leases now db)"
    then obtain l where l: "l \<in> set (db_leases db)" "l_is_active l" "l_expires_at l \<le> now" "l_id l = h"
      using stale_leases_set [OF inv] by auto
    then have "l_task_id l = i" using h lease_task_unique [OF inv] unfolding holds_lease by blast
    then show False using ne l by (auto simp: list_ex_iff)
  qed
  then show "holds db' i h" using h unfolding eq by blast
qed

lemma runtime_step_inv:
  assumes "runtime_inv db" "runtime_step env x db = Some db'"
  shows "runtime_inv db'"
proof (cases x)
  case (Claim ids now key owner ttl req)
  then show ?thesis using assms(2) by (auto simp: committed_Some dest: claim_effect(1) [OF assms(1)])
next
  case (Heartbeat now a owner tok ttl)
  then obtain r where r: "heartbeat env now a owner tok ttl db = Inr (db', r)"
    using assms(2) by (auto simp: committed_Some)
  have "same_ownership db db'" by (rule heartbeat_Inr [OF r])
  then show ?thesis using same_ownership_inv assms(1) by blast
next
  case (Release now a owner tok req)
  then show ?thesis using assms(2) by (auto simp: committed_Some dest: release_effect(1) [OF assms(1)])
next
  case (ExpireStaleLeases now)
  then show ?thesis using assms(2) by (auto simp: committed_Some dest: expire_effect(1) [OF assms(1)])
qed

lemma runtime_step_holds:
  assumes inv: "runtime_inv db" and s: "runtime_step env x db = Some db'" and h: "holds db i h"
  shows "\<not> entitled env x db i \<Longrightarrow> holds db' i h" "holds db' i h' \<Longrightarrow> h' = h"
proof -
  have "(\<not> entitled env x db i \<longrightarrow> holds db' i h) \<and> (holds db' i h' \<longrightarrow> h' = h)"
  proof (cases x)
    case (Claim ids now key owner ttl req)
    then obtain c where c: "claim env ids now key owner ttl req db = Inr (db', c)"
      using s by (auto simp: committed_Some)
    have "\<not> holds db (cl_task_id c) h" by (rule claim_step(2) [OF inv c])
    then have "i \<noteq> cl_task_id c" using h by blast
    then have "holds db' i u \<longleftrightarrow> holds db i u" for u using claim_step(1) [OF inv c] by simp
    then show ?thesis using h holds_unique [OF inv h] by blast
  next
    case (Heartbeat now a owner tok ttl)
    then obtain r where r: "heartbeat env now a owner tok ttl db = Inr (db', r)"
      using s by (auto simp: committed_Some)
    have "same_ownership db db'" by (rule heartbeat_Inr [OF r])
    then have "holds db' i u \<longleftrightarrow> holds db i u" for u by (simp add: holds_def same_ownership_def)
    then show ?thesis using h holds_unique [OF inv h] by blast
  next
    case (Release now a owner tok req)
    then obtain r where r: "release env now a owner tok req db = Inr (db', r)"
      using s by (auto simp: committed_Some)
    show ?thesis using release_step [OF inv r] h holds_unique [OF inv h] Release by blast
  next
    case (ExpireStaleLeases now)
    then obtain out where e: "expire_stale_leases now db = Inr (db', out)"
      using s by (auto simp: committed_Some)
    show ?thesis using expire_step [OF inv e] h holds_unique [OF inv h] ExpireStaleLeases by blast
  qed
  then show "\<not> entitled env x db i \<Longrightarrow> holds db' i h" "holds db' i h' \<Longrightarrow> h' = h" by blast+
qed

interpretation lock: exclusive_lock runtime_inv holder "runtime_step env" "entitled env" for env
proof unfold_locales
  fix s s' x
  assume "runtime_inv s" "runtime_step env x s = Some s'"
  then show "runtime_inv s'" by (rule runtime_step_inv)
next
  fix s s' x k h
  assume a: "runtime_inv s" "runtime_step env x s = Some s'" "holder s k = Some h" "\<not> entitled env x s k"
  then show "holder s' k = Some h"
    using runtime_step_holds(1) [OF a(1,2)] runtime_step_inv [OF a(1,2)] by (simp add: holder_Some_iff)
next
  fix s s' x k h
  assume a: "runtime_inv s" "runtime_step env x s = Some s'" "holder s k = Some h"
  have "holds s k h" using a holder_Some_iff by blast
  then show "holder s' k = Some h \<or> holder s' k = None"
    using runtime_step_holds(2) [OF a(1,2)] holder_Some_iff [OF runtime_step_inv [OF a(1,2)], of k]
    by (cases "holder s' k") auto
qed

end
