(* ===== verification/Runtime_Safety.thy ===== *)
theory Runtime_Safety
  imports Runtime_Ownership
begin

text \<open>
  The properties of runtime admission: who may start a Ticket, that a Ticket has one owner at a
  time, who may end its Attempt, and that the reaper always finishes and leaves no stale lease.
\<close>

section \<open>The admission conditions\<close>

text \<open>What the identity step of a claim leaves unchanged on every row.\<close>

definition row_facts :: "task_row \<Rightarrow> string \<times> string option \<times> string option \<times> string \<times> string" where
  "row_facts t = (t_status t, t_blocked_by t, t_prompt t, t_project t, t_repo_path t)"

lemma ensure_task_identity_frame:
  assumes "ensure_task_identity db key = Inr (db1, row)"
  shows "map_option row_facts (get_task db1 k) = map_option row_facts (get_task db k)"
    "db_task_columns db1 = db_task_columns db" "get_task db1 (py_strip key) = Some row"
proof -
  obtain n row0 where n: "normalize_task_key key = Inr n" "get_task db n = Some row0"
    using assms by (auto simp: ensure_task_identity_def rbind_Inr_iff split: option.splits)
  have key: "n = py_strip key" "normalize_task_key n = Inr n"
    using n(1) normalize_task_key_idem by (auto simp: normalize_task_key_Inr)
  have "map_option row_facts (get_task db1 k) = map_option row_facts (get_task db k) \<and>
    db_task_columns db1 = db_task_columns db \<and> get_task db1 (py_strip key) = Some row"
  proof (cases "truthy (t_task_id row0)")
    case True
    then show ?thesis using assms n key by (simp add: ensure_task_identity_def)
  next
    case False
    define f where "f = (\<lambda>t :: task_row. t\<lparr>t_task_id := Some (''task:'' @ n), t_task_class := ''legacy'', t_is_legacy := True\<rparr>)"
    have f: "t_key (f t) = t_key t" "row_facts (f t) = row_facts t" for t
      by (simp_all add: f_def row_facts_def)
    have "db1 = update_tasks (\<lambda>t. t_key t = n) f db" "row = f row0"
      using assms False
      by (auto simp: ensure_task_identity_def n default_task_id_def key(2) Let_def f_def split: if_splits)
    then show ?thesis
      using n(2) key(1) get_task_update_same [of f n db, OF f(1)] get_task_update_other [of f k n db, OF f(1)] f(2)
      by (cases "k = n") (simp_all add: option.map_comp comp_def)
  qed
  then show "map_option row_facts (get_task db1 k) = map_option row_facts (get_task db k)"
    "db_task_columns db1 = db_task_columns db" "get_task db1 (py_strip key) = Some row" by blast+
qed

lemma unreleased_dependency_cong:
  assumes rows: "\<And>k. map_option row_facts (get_task db1 k) = map_option row_facts (get_task db k)"
    and cols: "db_task_columns db1 = db_task_columns db"
  shows "unreleased_dependency_in_connection db1 key = unreleased_dependency_in_connection db key"
proof -
  have b: "Option.bind (get_task db1 k) t_blocked_by = Option.bind (get_task db k) t_blocked_by" for k
    using rows [of k] by (cases "get_task db1 k"; cases "get_task db k") (auto simp: row_facts_def)
  have st: "(case get_task db1 k of None \<Rightarrow> Some (k, None)
      | Some t \<Rightarrow> if t_status t \<in> set COMPLETED_BLOCKER_STATUSES then None else Some (k, Some (t_status t))) =
     (case get_task db k of None \<Rightarrow> Some (k, None)
      | Some t \<Rightarrow> if t_status t \<in> set COMPLETED_BLOCKER_STATUSES then None else Some (k, Some (t_status t)))" for k
    using rows [of k] by (cases "get_task db1 k"; cases "get_task db k") (auto simp: row_facts_def)
  show ?thesis unfolding unreleased_dependency_in_connection_def cols b st ..
qed

lemma assert_dependency_released_Inr:
  "assert_dependency_released db key = Inr () \<longleftrightarrow> unreleased_dependency_in_connection db key = Inr None"
  by (auto simp: assert_dependency_released_def rbind_Inr_iff split: option.splits)

lemma unreleased_None_completed:
  assumes "unreleased_dependency_in_connection db key = Inr None"
    and "''blocked_by'' \<in> set (db_task_columns db)" "get_task db (py_strip key) = Some t"
    and "t_blocked_by t = Some b" "b \<noteq> []"
  shows "task_status_of db b \<in> Some ` set COMPLETED_BLOCKER_STATUSES"
proof -
  have "normalize_task_key key = Inr (py_strip key)"
    using assms(1,2) by (auto simp: unreleased_dependency_in_connection_def rbind_Inr_iff normalize_task_key_Inr)
  then show ?thesis using assms
    by (auto simp: unreleased_dependency_in_connection_def task_status_of_def split: option.splits if_splits)
qed

lemma claim_conditions:
  assumes inv: "runtime_inv db" and c: "claim env ids now task_key owner ttl req db = Inr (db', c)"
  shows "\<exists>row. get_task db (cl_task_key c) = Some row \<and> t_status row \<in> {''created'', ''queued''}"
    "count_active_executor_leases_in_connection db < cs_max_concurrent_tasks (runtime_capacity_in_connection db)"
    "unreleased_dependency_in_connection db (cl_task_key c) = Inr None"
    "get_task db (cl_task_key c) = Some row \<Longrightarrow> truthy (t_task_id row) \<Longrightarrow>
       assert_admission_allowed db (cl_task_key c) = Inr () \<and> \<not> runtime_owned db row"
    "cl_task_key c = py_strip task_key" "py_strip (cl_task_key c) = cl_task_key c"
proof -
  obtain key db1 task pf wt art where k: "normalize_task_key task_key = Inr key"
    and ch: "claim_checks env key req db = Inr (db1, task, pf)" and ck: "cl_task_key c = key"
    by (rule claim_Inr [OF c])
  note cc = claim_checks_Inr [OF ch]
  note e = ensure_task_identity_Inr [OF cc(2) inv] and fr = ensure_task_identity_frame [OF cc(2)]
  have key: "key = py_strip task_key" "py_strip key = key" using k by (auto simp: normalize_task_key_Inr)
  obtain row0 where row0: "get_task db key = Some row0" "t_status task = t_status row0"
    "truthy (t_task_id row0) \<longrightarrow> db1 = db \<and> task = row0"
    using e(10) key by auto
  show "\<exists>row. get_task db (cl_task_key c) = Some row \<and> t_status row \<in> {''created'', ''queued''}"
    using cc(4) row0 ck by auto
  show "count_active_executor_leases_in_connection db < cs_max_concurrent_tasks (runtime_capacity_in_connection db)"
    using cc(1) by (auto simp: assert_runtime_capacity_available_def Let_def split: if_splits)
  show "unreleased_dependency_in_connection db (cl_task_key c) = Inr None"
    using cc(5) unreleased_dependency_cong [OF fr(1,2)] ck by (simp add: assert_dependency_released_Inr)
  show "get_task db (cl_task_key c) = Some row \<Longrightarrow> truthy (t_task_id row) \<Longrightarrow>
       assert_admission_allowed db (cl_task_key c) = Inr () \<and> \<not> runtime_owned db row"
    using cc(3,7) row0 ck by simp
  show "cl_task_key c = py_strip task_key" "py_strip (cl_task_key c) = cl_task_key c" using key ck by simp_all
qed

lemma count_active_lease_ids:
  "''runtime_leases'' \<in> set (db_tables db) \<Longrightarrow>
     count_active_executor_leases_in_connection db =
     length (filter (\<lambda>r. snd (snd (snd r))) (map lease_ids (db_leases db)))"
  by (simp add: count_active_executor_leases_in_connection_def lease_ids_def filter_map comp_def)

lemma claim_frame:
  assumes inv: "runtime_inv db" and c: "claim env ids now task_key owner ttl req db = Inr (db', c)"
  shows "db_tables db' = db_tables db" "db_capacity db' = db_capacity db" "db_controls db' = db_controls db"
proof -
  obtain key db1 task pf wt art where ch: "claim_checks env key req db = Inr (db1, task, pf)"
    and w: "claim_writes env ids now key (py_strip owner) ttl req wt art task pf db1 = Inr db'"
    by (rule claim_Inr [OF c])
  note e = ensure_task_identity_Inr [OF claim_checks_Inr(2) [OF ch] inv]
  obtain i where i: "t_task_id task = Some i" using e(4) by blast
  show "db_tables db' = db_tables db" "db_capacity db' = db_capacity db" "db_controls db' = db_controls db"
    by (rule claim_writes_shape [OF w i]; use e in simp)+
qed

section \<open>Example\<close>

definition example_env :: admission_env where
  "example_env = \<lparr>ae_policy = example_policy_env example_argv, ae_token_hash = (\<lambda>t. ''h:'' @ t),
     ae_home = (\<lambda>_. None)\<rparr>"

definition example_ids :: fresh_ids where
  "example_ids = \<lparr>fi_attempt_id = ''attempt-1'', fi_lease_id = ''lease-1'', fi_token = ''tok''\<rparr>"

definition example_request :: claim_request where
  "example_request = \<lparr>cr_executor = None, cr_model = None, cr_base_commit = None, cr_policy_version = None,
     cr_config_snapshot_hash = None, cr_prompt_template_version = None, cr_permission_profile = None,
     cr_worktree_path = None, cr_artifact_root = None, cr_reason_code = ''runtime_pickup_claimed'',
     cr_metadata = []\<rparr>"

definition ready_db :: db where
  "ready_db = example_db [example_ticket ''AT-0001'' ''created'']"

text \<open>The database right after the example claim.\<close>

definition claimed_db :: db where
  "claimed_db = ready_db\<lparr>
     db_tasks := [claim_task example_ids 100 (example_ticket ''AT-0001'' ''created'')],
     db_events := [\<lparr>ev_id = 1, ev_task_key = ''AT-0001'', ev_type = ''status_changed'', ev_source = ''worker'',
        ev_payload = JObj [(''status'', JStr ''preparing''), (''blocked_reason'', JNull)], ev_created_at = 100\<rparr>],
     db_attempts := [claim_attempt example_ids 100 example_request
        \<lparr>ap_executor = Some ''claude-code'', ap_model = Some ''opus'', ap_policy_version = Some ''v1'',
         ap_config_snapshot_hash = Some ''sha'', ap_permission_profile = Some ''std''\<rparr>
        ''task:AT-0001'' 1 None None],
     db_leases := [claim_lease example_env example_ids 100 ''task:AT-0001'' ''worker'' 60],
     db_lifecycle := [\<lparr>le_task_id = ''task:AT-0001'', le_attempt_id = Some ''attempt-1'',
        le_from_status = Some ''created'', le_to_status = ''preparing'',
        le_reason_code = ''runtime_pickup_claimed'', le_actor = ''worker'', le_timestamp = 100,
        le_metadata = [(''lease_id'', JStr ''lease-1''), (''auth_mode'', JStr ''token'')]\<rparr>]\<rparr>"

definition example_claim :: runtime_claim where
  "example_claim = \<lparr>cl_task_key = ''AT-0001'', cl_task_id = ''task:AT-0001'', cl_attempt_id = ''attempt-1'',
     cl_attempt_number = 1, cl_lease_id = ''lease-1'', cl_owner_id = ''worker'', cl_lease_token = ''tok'',
     cl_acquired_at = 100, cl_heartbeat_at = 100, cl_expires_at = 160\<rparr>"

lemma ready_db_inv: "runtime_inv ready_db"
  by (simp add: runtime_inv_def ownership_def no_blank_ids_def ready_db_def example_db_def
      example_ticket_def task_ids_def)

lemma claim_example:
  "claim example_env example_ids 100 ''AT-0001'' ''worker'' 60 example_request ready_db = Inr (claimed_db, example_claim)"
  by code_simp

lemma claimed_db_inv: "runtime_inv claimed_db"
  by (rule claim_effect(1) [OF ready_db_inv claim_example])

section \<open>Properties\<close>

text \<open>
  C1. The ownership invariant holds forever: from a consistent database, after any history of claims,
  heartbeats, releases and reaper runs, refused ones included, a task has at most one active lease
  and at most one active Attempt, every active lease belongs to the active Attempt that its task
  points to, no task points to an Attempt that is not active, and no claim suppression is left
  behind.
\<close>

theorem ownership_preserved:
  assumes "runtime_inv db"
  shows "runtime_inv (run_ops (runtime_step env) ops db)"
  using assms by (rule lock.history_inv)

theorem ownership_preserved_witness:
  "runtime_inv ready_db \<and>
   runtime_inv (run_ops (runtime_step example_env)
     [Claim example_ids 100 ''AT-0001'' ''worker'' 60 example_request, ExpireStaleLeases 500] ready_db)"
  using ownership_preserved [OF ready_db_inv] ready_db_inv by blast

text \<open>
  C2. Mutual exclusion over time: once a lease holds a task, it keeps the task through every history of
  operations until one that was entitled to end it. If the lease no longer holds the task at the end,
  then at some point of the history, while it still held it, either a release was made in the name of
  its owner with a token of matching hash for its Attempt, or the reaper ran after its expiry; and
  right after that operation nobody held the task. No claim ever takes a task over directly.
\<close>

theorem lease_handover:
  assumes "runtime_inv db" and "holder db task_id = Some lease"
    and "holder (run_ops (runtime_step env) ops db) task_id \<noteq> Some lease"
  shows "\<exists>before x after. ops = before @ x # after \<and>
     holder (run_ops (runtime_step env) before db) task_id = Some lease \<and>
     entitled env x (run_ops (runtime_step env) before db) task_id \<and>
     holder (run_ops (runtime_step env) (before @ [x]) db) task_id = None"
  using assms by (rule lock.handover)

lemma handover_example:
  "holder claimed_db ''task:AT-0001'' = Some ''lease-1''"
  "holder (run_ops (runtime_step example_env) [ExpireStaleLeases 160] claimed_db) ''task:AT-0001'' = None"
  by code_simp+

theorem lease_handover_witness:
  "runtime_inv claimed_db \<and> holder claimed_db ''task:AT-0001'' = Some ''lease-1'' \<and>
   (\<exists>before x after. [ExpireStaleLeases 160] = before @ x # after \<and>
     entitled example_env x (run_ops (runtime_step example_env) before claimed_db) ''task:AT-0001'')"
proof -
  have e: "holder (run_ops (runtime_step example_env) [ExpireStaleLeases 160] claimed_db) ''task:AT-0001'' \<noteq> Some ''lease-1''"
    unfolding handover_example(2) by simp
  show ?thesis using lease_handover [OF claimed_db_inv handover_example(1) e] claimed_db_inv handover_example(1) by blast
qed

text \<open>
  C17. Only a startable Ticket is started: a claim that succeeds found the task in status \<open>created\<close>
  or \<open>queued\<close> (so never blocked, paused, running or finished), with its \<open>blocked_by\<close> blocker
  completed, with a free slot under the global limit, and, when the task has its stable id, with no
  pause or kill in force on it and with no active Attempt or lease.
\<close>

theorem claim_admits_only_startable:
  assumes "runtime_inv db" and "claim env ids now task_key owner ttl req db = Inr (db', c)"
    and "''blocked_by'' \<in> set (db_task_columns db)"
  shows "\<exists>row. get_task db (py_strip task_key) = Some row \<and> t_status row \<in> {''created'', ''queued''} \<and>
     (\<forall>b. t_blocked_by row = Some b \<and> b \<noteq> [] \<longrightarrow>
        task_status_of db b \<in> Some ` set COMPLETED_BLOCKER_STATUSES) \<and>
     count_active_executor_leases_in_connection db < cs_max_concurrent_tasks (runtime_capacity_in_connection db) \<and>
     (truthy (t_task_id row) \<longrightarrow>
        assert_admission_allowed db (py_strip task_key) = Inr () \<and> \<not> runtime_owned db row)"
proof -
  note cc = claim_conditions [OF assms(1,2)]
  obtain row where row: "get_task db (cl_task_key c) = Some row" "t_status row \<in> {''created'', ''queued''}"
    using cc(1) by blast
  have "task_status_of db b \<in> Some ` set COMPLETED_BLOCKER_STATUSES" if "t_blocked_by row = Some b" "b \<noteq> []" for b
    using unreleased_None_completed [OF cc(3) assms(3)] row(1) cc(6) that by simp
  then show ?thesis using row cc(2,4,5) by (intro exI [of _ row]) simp
qed

theorem claim_admits_only_startable_witness:
  "\<exists>db' c row. claim example_env example_ids 100 ''AT-0001'' ''worker'' 60 example_request ready_db = Inr (db', c) \<and>
     get_task ready_db ''AT-0001'' = Some row \<and> t_status row \<in> {''created'', ''queued''}"
proof -
  have "''blocked_by'' \<in> set (db_task_columns ready_db)" "py_strip ''AT-0001'' = ''AT-0001''" by code_simp+
  then show ?thesis using claim_admits_only_startable [OF ready_db_inv claim_example] claim_example by metis
qed

lemma claim_capacity_cases:
  assumes "runtime_inv db" and "''runtime_leases'' \<in> set (db_tables db)"
  shows "claim env ids now task_key owner ttl req db = Inr (db', c) \<Longrightarrow>
       count_active_executor_leases_in_connection db' = count_active_executor_leases_in_connection db + 1 \<and>
       count_active_executor_leases_in_connection db' \<le> cs_max_concurrent_tasks (runtime_capacity_in_connection db')"
    and "\<lbrakk>cs_max_concurrent_tasks (runtime_capacity_in_connection db) \<le> count_active_executor_leases_in_connection db;
       normalize_task_key task_key = Inr key; py_strip owner \<noteq> []; 1 \<le> ttl;
       cr_worktree_path req = None; cr_artifact_root req = None\<rbrakk> \<Longrightarrow>
       claim env ids now task_key owner ttl req db =
         Inl (RuntimeCapacityExceededError (cs_max_concurrent_tasks (runtime_capacity_in_connection db))
           (count_active_executor_leases_in_connection db))"
proof -
  assume c: "claim env ids now task_key owner ttl req db = Inr (db', c)"
  have tabs: "''runtime_leases'' \<in> set (db_tables db')" using assms(2) claim_frame(1) [OF assms(1) c] by simp
  have "count_active_executor_leases_in_connection db' = count_active_executor_leases_in_connection db + 1"
    unfolding count_active_lease_ids [OF tabs] count_active_lease_ids [OF assms(2)]
      claim_effect(2) [OF assms(1) c] by simp
  moreover have "runtime_capacity_in_connection db' = runtime_capacity_in_connection db"
    using claim_frame [OF assms(1) c] by (simp add: runtime_capacity_in_connection_def)
  ultimately show "count_active_executor_leases_in_connection db' = count_active_executor_leases_in_connection db + 1 \<and>
       count_active_executor_leases_in_connection db' \<le> cs_max_concurrent_tasks (runtime_capacity_in_connection db')"
    using claim_conditions(2) [OF assms(1) c] by simp
next
  assume "cs_max_concurrent_tasks (runtime_capacity_in_connection db) \<le> count_active_executor_leases_in_connection db"
    "normalize_task_key task_key = Inr key" "py_strip owner \<noteq> []" "1 \<le> ttl"
    "cr_worktree_path req = None" "cr_artifact_root req = None"
  moreover have "require_non_empty owner = Inr (py_strip owner)"
    using \<open>py_strip owner \<noteq> []\<close> by (simp add: require_non_empty_Inr)
  ultimately show "claim env ids now task_key owner ttl req db =
         Inl (RuntimeCapacityExceededError (cs_max_concurrent_tasks (runtime_capacity_in_connection db))
           (count_active_executor_leases_in_connection db))"
    by (simp add: claim_def claim_checks_def assert_runtime_capacity_available_def absolute_or_none_def)
qed

text \<open>
  C16. The limit is never exceeded by a claim: each successful claim adds exactly one active lease and
  the number of active leases afterwards is at most the configured limit; when every slot is taken,
  the claim is refused with the limit and the count and nothing is written.
\<close>

theorem claim_respects_capacity:
  assumes "runtime_inv db" and "''runtime_leases'' \<in> set (db_tables db)"
  shows "(claim env ids now task_key owner ttl req db = Inr (db', c) \<longrightarrow>
       count_active_executor_leases_in_connection db' = count_active_executor_leases_in_connection db + 1 \<and>
       count_active_executor_leases_in_connection db' \<le> cs_max_concurrent_tasks (runtime_capacity_in_connection db')) \<and>
     (cs_max_concurrent_tasks (runtime_capacity_in_connection db) \<le> count_active_executor_leases_in_connection db \<and>
       normalize_task_key task_key = Inr key \<and> py_strip owner \<noteq> [] \<and> 1 \<le> ttl \<and>
       cr_worktree_path req = None \<and> cr_artifact_root req = None \<longrightarrow>
       claim env ids now task_key owner ttl req db =
         Inl (RuntimeCapacityExceededError (cs_max_concurrent_tasks (runtime_capacity_in_connection db))
           (count_active_executor_leases_in_connection db)))"
  using claim_capacity_cases [OF assms] by blast

theorem claim_respects_capacity_witness:
  "\<exists>db' c. claim example_env example_ids 100 ''AT-0001'' ''worker'' 60 example_request ready_db = Inr (db', c) \<and>
     count_active_executor_leases_in_connection db' \<le> cs_max_concurrent_tasks (runtime_capacity_in_connection db')"
proof -
  have "''runtime_leases'' \<in> set (db_tables ready_db)" by code_simp
  then show ?thesis using claim_respects_capacity [OF ready_db_inv] claim_example by blast
qed

lemma lease_authority_cases:
  assumes "runtime_inv db"
  shows "release env now attempt_id owner tok req db = Inr (db', r) \<Longrightarrow>
       \<exists>l \<in> set (db_leases db). l_is_active l \<and> l_attempt_id l = attempt_id \<and>
         l_owner_id l = py_strip owner \<and> l_token_hash l = ae_token_hash env (py_strip tok) \<and>
         \<not> holds db' (l_task_id l) (l_id l)"
    and "heartbeat env now attempt_id owner tok ttl db = Inr (db', r) \<Longrightarrow>
       \<exists>l \<in> set (db_leases db). l_is_active l \<and> l_attempt_id l = attempt_id \<and>
         l_owner_id l = py_strip owner \<and> l_token_hash l = ae_token_hash env (py_strip tok) \<and>
         now < l_expires_at l \<and> db_tasks db' = db_tasks db \<and>
         (\<exists>t. 1 \<le> t \<and> db_leases db' = map_where (\<lambda>x. l_id x = l_id l \<and> l_is_active x)
           (\<lambda>x. x\<lparr>l_ttl_seconds := t, l_heartbeat_at := now, l_expires_at := now + t\<rparr>) (db_leases db))"
proof -
  assume r: "release env now attempt_id owner tok req db = Inr (db', r)"
  obtain l where l: "l \<in> set (db_leases db)" "l_is_active l" "l_attempt_id l = attempt_id"
    "l_owner_id l = py_strip owner" "l_token_hash l = ae_token_hash env (py_strip tok)"
    "map lease_ids (db_leases db') = closed (l_id l) (map lease_ids (db_leases db))"
    using release_effect(2) [OF assms r] by blast
  have "\<not> holds db' (l_task_id l) (l_id l)" unfolding holds_def l(6) closed_mem by blast
  then show "\<exists>l \<in> set (db_leases db). l_is_active l \<and> l_attempt_id l = attempt_id \<and>
         l_owner_id l = py_strip owner \<and> l_token_hash l = ae_token_hash env (py_strip tok) \<and>
         \<not> holds db' (l_task_id l) (l_id l)" using l(1-5) by blast
next
  assume h: "heartbeat env now attempt_id owner tok ttl db = Inr (db', r)"
  show "\<exists>l \<in> set (db_leases db). l_is_active l \<and> l_attempt_id l = attempt_id \<and>
         l_owner_id l = py_strip owner \<and> l_token_hash l = ae_token_hash env (py_strip tok) \<and>
         now < l_expires_at l \<and> db_tasks db' = db_tasks db \<and>
         (\<exists>t. 1 \<le> t \<and> db_leases db' = map_where (\<lambda>x. l_id x = l_id l \<and> l_is_active x)
           (\<lambda>x. x\<lparr>l_ttl_seconds := t, l_heartbeat_at := now, l_expires_at := now + t\<rparr>) (db_leases db))"
    by (rule heartbeat_Inr [OF h])
       (auto simp: active_lease_of_attempt_def dest!: find_Some_set split: if_splits)
qed

text \<open>
  C20. Only the holder of the token ends an Attempt or extends its lease: release and heartbeat succeed
  only when the Attempt has an active token lease of that owner whose stored hash is the hash of the
  presented token; and a heartbeat only before the lease has expired, so an expired lease cannot be
  revived. A heartbeat moves exactly that lease's clock.
\<close>

theorem lease_authority:
  assumes "runtime_inv db"
  shows "(release env now attempt_id owner tok req db = Inr (db', r) \<longrightarrow>
       (\<exists>l. l \<in> set (db_leases db) \<and> l_is_active l \<and> l_attempt_id l = attempt_id \<and>
         l_owner_id l = py_strip owner \<and> l_token_hash l = ae_token_hash env (py_strip tok) \<and>
         \<not> holds db' (l_task_id l) (l_id l))) \<and>
     (heartbeat env now attempt_id owner tok ttl db = Inr (db', r) \<longrightarrow>
       (\<exists>l. l \<in> set (db_leases db) \<and> l_is_active l \<and> l_attempt_id l = attempt_id \<and>
         l_owner_id l = py_strip owner \<and> l_token_hash l = ae_token_hash env (py_strip tok) \<and>
         now < l_expires_at l \<and> db_tasks db' = db_tasks db \<and>
         (\<exists>t. 1 \<le> t \<and> db_leases db' = map_where (\<lambda>x. l_id x = l_id l \<and> l_is_active x)
           (\<lambda>x. x\<lparr>l_ttl_seconds := t, l_heartbeat_at := now, l_expires_at := now + t\<rparr>) (db_leases db))))"
  using lease_authority_cases [OF assms] unfolding Bex_def by blast

lemma heartbeat_example:
  "is_ok (heartbeat example_env 120 ''attempt-1'' ''worker'' ''tok'' None claimed_db) \<and>
   heartbeat example_env 160 ''attempt-1'' ''worker'' ''tok'' None claimed_db = Inl LeaseExpiredError \<and>
   heartbeat example_env 120 ''attempt-1'' ''worker'' ''guess'' None claimed_db = Inl LeaseOwnershipError"
  by code_simp

theorem lease_authority_witness:
  "\<exists>db' r l. heartbeat example_env 120 ''attempt-1'' ''worker'' ''tok'' None claimed_db = Inr (db', r) \<and>
     l \<in> set (db_leases claimed_db) \<and> l_is_active l \<and> 120 < l_expires_at l"
proof -
  obtain db' r where h: "heartbeat example_env 120 ''attempt-1'' ''worker'' ''tok'' None claimed_db = Inr (db', r)"
    using heartbeat_example unfolding is_ok_iff by (metis surj_pair)
  from lease_authority [OF claimed_db_inv, THEN conjunct2, rule_format, OF h] h show ?thesis by blast
qed

end
