(* ===== verification/Runtime_Reaper.thy ===== *)
theory Runtime_Reaper
  imports Runtime_Safety
begin

text \<open>
  Exact effect of ending an Attempt, and totality of the reaper: from a consistent database
  \<open>expire_stale_leases\<close> always commits, closes exactly the expired leases and leaves every
  other lease, Attempt and task as it was.
\<close>

section \<open>Closing one Attempt, exactly\<close>

lemma heartbeat_implicit_inactive:
  "\<lbrakk>get_task db k = Some t; t_active_attempt_id t = None\<rbrakk> \<Longrightarrow> heartbeat_implicit k n db = db"
  by (simp add: heartbeat_implicit_def Let_def list_ex_iff)

lemma insert_status_event_exact:
  assumes "insert_status_event k st src now br db = Inr db'" "get_task db k = Some t" "t_active_attempt_id t = None"
  shows "\<exists>e. db' = db\<lparr>db_events := db_events db @ [e]\<rparr>"
proof -
  let ?d = "\<lambda>e. db\<lparr>db_events := db_events db @ [e]\<rparr>"
  obtain e where "db' = heartbeat_implicit k now (?d e)"
    using assms(1) by (auto simp: insert_status_event_def insert_event_def split: if_splits)
  moreover have "heartbeat_implicit k now (?d e) = ?d e"
    by (rule heartbeat_implicit_inactive [OF _ assms(3)]) (use assms(2) in \<open>simp add: get_task_def\<close>)
  ultimately show ?thesis by blast
qed

text \<open>The lease row of an active lease, its task and the task's key.\<close>

definition owned_by :: "db \<Rightarrow> lease_row \<Rightarrow> task_row \<Rightarrow> bool" where
  "owned_by db row t \<longleftrightarrow> get_task db (t_key t) = Some t \<and> t_task_id t = Some (l_task_id row) \<and>
     t_active_attempt_id t = Some (l_attempt_id row)"

lemma runtime_inv_tasks:
  assumes "runtime_inv db"
  shows "distinct (map t_key (db_tasks db))"
    "\<lbrakk>t \<in> set (db_tasks db); u \<in> set (db_tasks db); t_task_id t = Some i; t_task_id u = Some i\<rbrakk> \<Longrightarrow> t = u"
proof -
  have own: "ownership (map task_ids (db_tasks db)) (map attempt_ids (db_attempts db)) (map lease_ids (db_leases db))"
    using assms by (simp add: runtime_inv_def)
  show d: "distinct (map t_key (db_tasks db))"
    using ownershipD(1) [OF own] by (simp add: task_ids_def comp_def)
  assume t: "t \<in> set (db_tasks db)" "u \<in> set (db_tasks db)" "t_task_id t = Some i" "t_task_id u = Some i"
  have "t_key t = t_key u"
    using ownershipD(4) [OF own, of "t_key t" i "t_active_attempt_id t" "t_key u" "t_active_attempt_id u"] t
    by (force simp: task_ids_def)
  then show "t = u" using distinct_key_eq [OF d t(1,2)] by blast
qed

lemma lease_owner_task:
  assumes inv: "runtime_inv db" and l: "l \<in> set (db_leases db)" "l_is_active l"
  shows "\<exists>t. task_of_id db (l_task_id l) = Some t \<and> owned_by db l t"
proof -
  obtain t where t: "task_of_id db (l_task_id l) = Some t" "t_active_attempt_id t = Some (l_attempt_id l)"
    using active_lease_backed(3) [OF assms] by blast
  then have "t \<in> set (db_tasks db)" "t_task_id t = Some (l_task_id l)"
    by (auto simp: task_of_id_def dest!: find_Some_set)
  moreover from this have "get_task db (t_key t) = Some t"
    unfolding get_task_def by (intro find_distinct_key runtime_inv_tasks(1) [OF inv])
  ultimately show ?thesis using t by (auto simp: owned_by_def)
qed

lemma close_writes_exact:
  assumes inv: "runtime_inv db" and t: "owned_by db row t"
    and c: "close_writes now row (t_key t) actor ast tst br g reason md db = Inr db'"
  shows "db_leases db' = map_where (\<lambda>l. l_id l = l_id row \<and> l_is_active l) (close_lease now reason) (db_leases db)"
    "db_attempts db' = map_where (\<lambda>a. a_id a = l_attempt_id row \<and> a_is_active a) g (db_attempts db)"
    "get_task db' (t_key t) = Some (close_task now tst br t)"
    "k \<noteq> t_key t \<Longrightarrow> get_task db' k = get_task db k"
    "map t_key (db_tasks db') = map t_key (db_tasks db)" "db_task_columns db' = db_task_columns db"
proof -
  let ?p = "\<lambda>u. t_task_id u = Some (l_task_id row) \<and> t_active_attempt_id u = Some (l_attempt_id row)"
  let ?f = "close_task now tst br"
  have tm: "t \<in> set (db_tasks db)" "t_task_id t = Some (l_task_id row)"
    "t_active_attempt_id t = Some (l_attempt_id row)" "get_task db (t_key t) = Some t"
    using t get_task_Some [of db "t_key t" t] by (auto simp: owned_by_def)
  have pk: "u \<in> set (db_tasks db) \<Longrightarrow> ?p u \<longleftrightarrow> t_key u = t_key t" for u
  proof -
    assume u: "u \<in> set (db_tasks db)"
    have "?p u \<Longrightarrow> u = t" using runtime_inv_tasks(2) [OF inv u tm(1)] tm(2) by blast
    moreover have "t_key u = t_key t \<Longrightarrow> u = t" by (rule distinct_key_eq [OF runtime_inv_tasks(1) [OF inv] u tm(1)])
    ultimately show ?thesis using tm(2,3) by blast
  qed
  have "map_where ?p ?f (db_tasks db) = map_where (\<lambda>u. t_key u = t_key t) ?f (db_tasks db)"
    unfolding map_where_def by (intro map_cong refl) (simp only: pk)
  moreover have "db_tasks db' = map_where ?p ?f (db_tasks db)" by (rule close_writes_shape [OF c])
  ultimately have tasks: "db_tasks db' = map_where (\<lambda>u. t_key u = t_key t) ?f (db_tasks db)" by simp
  have key: "t_key (?f u) = t_key u" for u by (simp add: close_task_def)
  show "db_attempts db' = map_where (\<lambda>a. a_id a = l_attempt_id row \<and> a_is_active a) g (db_attempts db)"
    "db_task_columns db' = db_task_columns db" by (rule close_writes_shape [OF c], simp)+
  show "map t_key (db_tasks db') = map t_key (db_tasks db)" unfolding tasks by (simp add: map_map_where key)
  show g1: "get_task db' (t_key t) = Some (?f t)"
    unfolding get_task_def tasks using tm(4) by (simp add: find_map_where_same key get_task_def)
  show "k \<noteq> t_key t \<Longrightarrow> get_task db' k = get_task db k"
    unfolding get_task_def tasks by (simp add: find_map_where_other key)
  obtain d1 d2 d4 d5 d6 where
    s: "insert_suppression (l_task_id row) db = Inr d1"
    and lc: "insert_lifecycle_event (l_task_id row) (l_attempt_id row)
         (Some (attempt_status_of db (l_attempt_id row))) ast reason actor now md d1 = Inr d2"
    and at: "update_attempts (\<lambda>a. a_id a = l_attempt_id row \<and> a_is_active a) g
        (update_leases (\<lambda>l. l_id l = l_id row \<and> l_is_active l) (close_lease now reason) d2) = Inr d4"
    and tk: "update_tasks_attempt now ?p ?f d4 = Inr d5"
    and ev: "insert_status_event (t_key t) tst actor now br d5 = Inr d6"
    and db': "db' = delete_suppression (l_task_id row) d6"
    using c unfolding close_writes_def Let_def rbind_Inr_iff by blast
  have "db_tasks db' = db_tasks d5"
    using events_onlyD(1) [OF insert_status_event_events_only [OF ev]] by (simp add: db' delete_suppression_def)
  then have "get_task d5 (t_key t) = Some (?f t)" using g1 by (simp add: get_task_def)
  moreover have "t_active_attempt_id (?f t) = None" by (simp add: close_task_def)
  ultimately obtain e where e: "d6 = d5\<lparr>db_events := db_events d5 @ [e]\<rparr>"
    using insert_status_event_exact [OF ev] by blast
  obtain e' where e': "d2 = d1\<lparr>db_lifecycle := db_lifecycle d1 @ [e']\<rparr>"
    using insert_lifecycle_event_Inr [OF lc] by blast
  show "db_leases db' = map_where (\<lambda>l. l_id l = l_id row \<and> l_is_active l) (close_lease now reason) (db_leases db)"
    by (simp add: db' delete_suppression_def e e' tk [unfolded update_tasks_attempt_Inr, THEN conjunct1]
        at [unfolded update_attempts_Inr, THEN conjunct1] update_leases_def
        s [unfolded insert_suppression_Inr, THEN conjunct2, THEN conjunct2])
qed

section \<open>Closing always succeeds\<close>

lemma closed_status_guard:
  assumes "tst \<notin> set GUARDED_STATUSES \<or> tst = ''blocked''"
  shows "tasks_status_guard now db old (close_task now tst br u) = Inr ()"
proof (cases "tst = ''blocked''")
  case True
  have ne: "''blocked'' \<noteq> ''preparing''" "''blocked'' \<notin> {''implementing'', ''validating''}" "''blocked'' \<noteq> ''queued''"
    by simp_all
  have f: "t_status (close_task now tst br u) = ''blocked''" "t_active_attempt_id (close_task now tst br u) = None"
    by (simp_all add: close_task_def True)
  show ?thesis unfolding tasks_status_guard_def f using ne by (simp only: simp_thms if_False)
next
  case False
  then show ?thesis using assms by (intro tasks_status_guard_free) (simp add: close_task_def)
qed

lemma status_event_ok:
  "get_task db k \<noteq> None \<Longrightarrow> \<exists>db'. insert_status_event k st src now br db = Inr db'"
  unfolding insert_status_event_def by (rule insert_event_ok) (simp_all add: executor_start_ok_def)

lemma close_writes_ok:
  assumes inv: "runtime_inv db" and row: "row \<in> set (db_leases db)" "l_is_active row"
    and t: "owned_by db row t"
    and texts: "require_non_empty ast \<noteq> Inl ValueError" "require_non_empty reason \<noteq> Inl ValueError"
      "require_non_empty actor \<noteq> Inl ValueError"
    and tr: "\<And>a. \<lbrakk>a \<in> set (db_attempts db); a_is_active a\<rbrakk> \<Longrightarrow> attempt_transition_ok (a_status a) (a_status (g a))"
    and tst: "tst \<notin> set GUARDED_STATUSES \<or> tst = ''blocked''"
  shows "\<exists>db'. close_writes now row (t_key t) actor ast tst br g reason md db = Inr db'"
proof -
  have own: "ownership (map task_ids (db_tasks db)) (map attempt_ids (db_attempts db)) (map lease_ids (db_leases db))"
    and sup: "db_suppressions db = []"
    using inv by (simp_all add: runtime_inv_def)
  have tm: "t \<in> set (db_tasks db)" "t_task_id t = Some (l_task_id row)"
    using t get_task_Some by (auto simp: owned_by_def)
  have mem: "(l_id row, l_task_id row, l_attempt_id row, True) \<in> set (map lease_ids (db_leases db))"
    using row by (force simp: lease_ids_def)
  have ex: "task_id_exists db (l_task_id row)"
    using tm by (auto simp: task_id_exists_def list_ex_iff)
  have att: "list_ex (\<lambda>r. a_id r = l_attempt_id row \<and> a_task_id r = l_task_id row) (db_attempts db)"
    using ownershipD(7) [OF own mem] by (auto simp: attempt_ids_def list_ex_iff)
  define d1 where "d1 = db\<lparr>db_suppressions := db_suppressions db @ [l_task_id row]\<rparr>"
  have s: "insert_suppression (l_task_id row) db = Inr d1"
    using ex sup by (simp add: insert_suppression_Inr d1_def)
  obtain a' r' c' where n: "require_non_empty ast = Inr a'" "require_non_empty reason = Inr r'" "require_non_empty actor = Inr c'"
    using texts unfolding require_non_empty_def Let_def by (auto split: if_splits)
  obtain e where lc: "insert_lifecycle_event (l_task_id row) (l_attempt_id row)
         (Some (attempt_status_of db (l_attempt_id row))) ast reason actor now md d1 =
         Inr (d1\<lparr>db_lifecycle := db_lifecycle d1 @ [e]\<rparr>)"
    using att ex by (simp add: insert_lifecycle_event_def n insert_lifecycle_def d1_def task_id_exists_def)
  define d2 where "d2 = d1\<lparr>db_lifecycle := db_lifecycle d1 @ [e]\<rparr>"
  define d3 where "d3 = update_leases (\<lambda>l. l_id l = l_id row \<and> l_is_active l) (close_lease now reason) d2"
  define d4 where "d4 = d3\<lparr>db_attempts := map_where (\<lambda>a. a_id a = l_attempt_id row \<and> a_is_active a) g (db_attempts d3)\<rparr>"
  have at: "update_attempts (\<lambda>a. a_id a = l_attempt_id row \<and> a_is_active a) g d3 = Inr d4"
    using tr by (simp add: update_attempts_Inr d4_def d3_def d2_def d1_def update_leases_def)
  let ?p = "\<lambda>u. t_task_id u = Some (l_task_id row) \<and> t_active_attempt_id u = Some (l_attempt_id row)"
  have tk: "update_tasks_attempt now ?p (close_task now tst br) d4 = Inr (update_tasks ?p (close_task now tst br) d4)"
    by (simp add: update_tasks_attempt_Inr closed_status_guard [OF tst] tasks_active_attempt_guard_def)
       (simp add: close_task_def)
  let ?d5 = "update_tasks ?p (close_task now tst br) d4"
  have "map t_key (db_tasks ?d5) = map t_key (db_tasks db)"
    by (simp add: map_map_where close_task_def d4_def d3_def d2_def d1_def update_leases_def)
  then have "get_task ?d5 (t_key t) \<noteq> None" using tm(1) unfolding get_task_keys by simp
  then obtain d6 where ev: "insert_status_event (t_key t) tst actor now br ?d5 = Inr d6"
    using status_event_ok by blast
  show ?thesis
    unfolding close_writes_def Let_def s rbind_simps lc d2_def [symmetric] d3_def [symmetric] at tk ev by blast
qed

section \<open>The reaper completes\<close>

text \<open>Active Attempts are in active statuses, and task keys are in normal form.\<close>

definition attempts_live :: "db \<Rightarrow> bool" where
  "attempts_live db \<longleftrightarrow> (\<forall>a \<in> set (db_attempts db). a_is_active a \<longrightarrow> a_status a \<in> set ACTIVE_ATTEMPT_STATUSES)"

definition keys_normal :: "db \<Rightarrow> bool" where
  "keys_normal db \<longleftrightarrow> (\<forall>k \<in> set (map t_key (db_tasks db)). normalize_task_key k = Inr k)"

lemma active_can_abort:
  assumes "s \<in> set ACTIVE_ATTEMPT_STATUSES"
  shows "attempt_transition_ok s ''execution_aborted''"
proof -
  have "list_all (\<lambda>s. attempt_transition_ok s ''execution_aborted'') ACTIVE_ATTEMPT_STATUSES" by code_simp
  then show ?thesis using assms unfolding list_all_iff by blast
qed

lemma reaper_texts:
  "require_non_empty ''execution_aborted'' \<noteq> Inl ValueError"
  "require_non_empty ''runtime_lease_expired'' \<noteq> Inl ValueError"
  "require_non_empty ''runtime_lease_reaper'' \<noteq> Inl ValueError"
  by code_simp+

definition is_ticket_row :: "db \<Rightarrow> task_row \<Rightarrow> bool" where
  "is_ticket_row db t \<longleftrightarrow> tasks_has_ticket_columns db \<and> t_prompt t \<noteq> None"

text \<open>The task row after its expired lease was reaped.\<close>

definition reaped_task :: "timestamp \<Rightarrow> db \<Rightarrow> task_row \<Rightarrow> task_row" where
  "reaped_task now db t =
     (if is_ticket_row db t then close_task now ''failed'' None t
      else close_task now ''blocked'' (Some ''runtime_lease_expired'') t)"

text \<open>The Attempt row after its expired lease was reaped.\<close>

definition reaped_attempt :: "timestamp \<Rightarrow> attempt_row \<Rightarrow> attempt_row" where
  "reaped_attempt now a =
     a\<lparr>a_status := ''execution_aborted'', a_is_active := False, a_ended_at := Some now,
        a_execution_result := Some ''lease_expired'', a_updated_at := now\<rparr>"

lemma reap_lease_ok:
  assumes inv: "runtime_inv db" and live: "attempts_live db" and keys: "keys_normal db"
    and row: "row \<in> set (db_leases db)" "l_is_active row" and t: "owned_by db row t"
  shows "\<exists>db'. reap_lease now (row, t_key t) (db, acc) = Inr (db', acc @ [l_attempt_id row]) \<and>
     runtime_inv db' \<and> attempts_live db' \<and> keys_normal db' \<and>
     db_task_columns db' = db_task_columns db \<and>
     db_leases db' = map_where (\<lambda>l. l_id l = l_id row \<and> l_is_active l)
       (close_lease now ''runtime_lease_expired'') (db_leases db) \<and>
     db_attempts db' = map_where (\<lambda>a. a_id a = l_attempt_id row \<and> a_is_active a) (reaped_attempt now) (db_attempts db) \<and>
     get_task db' (t_key t) = Some (reaped_task now db t) \<and>
     (\<forall>k. k \<noteq> t_key t \<longrightarrow> get_task db' k = get_task db k)"
proof -
  let ?g = "\<lambda>a. a\<lparr>a_status := ''execution_aborted'', a_is_active := False, a_ended_at := Some now,
                     a_execution_result := Some ''lease_expired'', a_updated_at := now\<rparr>"
  have gt: "get_task db (t_key t) = Some t" using t by (simp add: owned_by_def)
  then have nk: "normalize_task_key (t_key t) = Inr (t_key t)"
    using keys get_task_keys unfolding keys_normal_def by blast
  have tick: "is_ticket_in_connection db (t_key t) = Inr (is_ticket_row db t)"
    by (simp add: is_ticket_in_connection_def is_ticket_row_def nk gt)
  define st where "st = (if is_ticket_row db t then ''failed'' else ''blocked'')"
  define br where "br = (if is_ticket_row db t then None else Some ''runtime_lease_expired'')"
  have g: "st \<notin> set GUARDED_STATUSES \<or> st = ''blocked''" unfolding st_def using unguarded_statuses(3) by auto
  have tr: "\<lbrakk>a \<in> set (db_attempts db); a_is_active a\<rbrakk> \<Longrightarrow> attempt_transition_ok (a_status a) (a_status (?g a))" for a
    using live active_can_abort unfolding attempts_live_def by simp
  obtain db' where c: "close_writes now row (t_key t) ''runtime_lease_reaper'' ''execution_aborted'' st br ?g
      ''runtime_lease_expired'' [(''lease_id'', JStr (l_id row)), (''owner_id'', JStr (l_owner_id row)),
       (''expired_at'', JInt (l_expires_at row))] db = Inr db'"
    using close_writes_ok [OF inv row t reaper_texts(1,2,3) tr g] by blast
  have step: "reap_lease now (row, t_key t) (db, acc) = Inr (db', acc @ [l_attempt_id row])"
    unfolding reap_lease_def prod.case tick rbind_simps st_def [symmetric] br_def [symmetric] c by simp
  note ex = close_writes_exact [OF inv t c]
  have "attempts_live db'"
    using live unfolding attempts_live_def ex(2) by (auto simp: set_map_where)
  moreover have "keys_normal db'" using keys unfolding keys_normal_def ex(5) .
  moreover have "runtime_inv db'"
    using reap_lease_Inr(1) [OF inv row(2) _ step] row(1) by simp
  moreover have "close_task now st br t = reaped_task now db t"
    by (simp add: reaped_task_def st_def br_def)
  moreover have "?g = reaped_attempt now" by (simp add: fun_eq_iff reaped_attempt_def)
  ultimately show ?thesis using step ex by (intro exI [of _ db']) simp
qed

text \<open>The state after the leases \<open>rs\<close>, with their tasks, have been reaped.\<close>

definition reaped ::
  "timestamp \<Rightarrow> db \<Rightarrow> (lease_row \<times> task_row) list \<Rightarrow> db \<Rightarrow> bool" where
  "reaped now db rs db' \<longleftrightarrow>
     db_leases db' = map_where (\<lambda>l. l_is_active l \<and> l_id l \<in> l_id ` fst ` set rs)
       (close_lease now ''runtime_lease_expired'') (db_leases db) \<and>
     db_attempts db' = map_where (\<lambda>a. a_is_active a \<and> a_id a \<in> l_attempt_id ` fst ` set rs) (reaped_attempt now) (db_attempts db) \<and>
     (\<forall>(l, t) \<in> set rs. get_task db' (t_key t) = Some (reaped_task now db t)) \<and>
     (\<forall>k. k \<notin> t_key ` snd ` set rs \<longrightarrow> get_task db' k = get_task db k) \<and>
     db_task_columns db' = db_task_columns db"

lemma close_lease_ids [simp]:
  "l_id (close_lease now r l) = l_id l" "\<not> l_is_active (close_lease now r l)"
  by (simp_all add: close_lease_def)

lemma reap_fold_ok:
  assumes "runtime_inv db" "attempts_live db" "keys_normal db"
    and "\<forall>(l, t) \<in> set rs. l \<in> set (db_leases db) \<and> l_is_active l \<and> owned_by db l t"
    and "distinct (map (l_id \<circ> fst) rs)" "distinct (map (t_key \<circ> snd) rs)"
  shows "\<exists>db'. fold_result (reap_lease now) (map (\<lambda>(l, t). (l, t_key t)) rs) (db, acc) =
       Inr (db', acc @ map (l_attempt_id \<circ> fst) rs) \<and> runtime_inv db' \<and> reaped now db rs db'"
  using assms
proof (induction rs arbitrary: db acc)
  case Nil
  then show ?case by (simp add: reaped_def map_where_def)
next
  case (Cons r rs)
  obtain row t where r: "r = (row, t)" by force
  have rt: "row \<in> set (db_leases db)" "l_is_active row" "owned_by db row t"
    using Cons.prems(4) by (auto simp: r)
  obtain db1 where d1: "reap_lease now (row, t_key t) (db, acc) = Inr (db1, acc @ [l_attempt_id row])"
    "runtime_inv db1" "attempts_live db1" "keys_normal db1" "db_task_columns db1 = db_task_columns db"
    and lv: "db_leases db1 = map_where (\<lambda>l. l_id l = l_id row \<and> l_is_active l)
       (close_lease now ''runtime_lease_expired'') (db_leases db)"
    and av: "db_attempts db1 = map_where (\<lambda>a. a_id a = l_attempt_id row \<and> a_is_active a) (reaped_attempt now) (db_attempts db)"
    and gt: "get_task db1 (t_key t) = Some (reaped_task now db t)"
      "\<forall>k. k \<noteq> t_key t \<longrightarrow> get_task db1 k = get_task db k"
    using reap_lease_ok [OF Cons.prems(1-3) rt] by blast
  have other: "l \<in> set (db_leases db1) \<and> l_is_active l \<and> owned_by db1 l u" "t_key u \<noteq> t_key t"
    if "(l, u) \<in> set rs" for l u
  proof -
    have "l_id l \<noteq> l_id row" "t_key u \<noteq> t_key t" using that Cons.prems(5,6) by (force simp: r)+
    moreover have "l \<in> set (db_leases db)" "l_is_active l" "owned_by db l u" using that Cons.prems(4) by auto
    ultimately show "l \<in> set (db_leases db1) \<and> l_is_active l \<and> owned_by db1 l u" "t_key u \<noteq> t_key t"
      using gt(2) by (auto simp: lv set_map_where image_iff owned_by_def)
  qed
  have same: "reaped_task now db1 u = reaped_task now db u" for u
    by (simp add: reaped_task_def is_ticket_row_def tasks_has_ticket_columns_def d1(5))
  obtain db2 where d2: "fold_result (reap_lease now) (map (\<lambda>(l, t). (l, t_key t)) rs) (db1, acc @ [l_attempt_id row]) =
       Inr (db2, (acc @ [l_attempt_id row]) @ map (l_attempt_id \<circ> fst) rs)" "runtime_inv db2" "reaped now db1 rs db2"
  proof -
    have "\<forall>(l, u) \<in> set rs. l \<in> set (db_leases db1) \<and> l_is_active l \<and> owned_by db1 l u"
      using other(1) by blast
    then show ?thesis using that Cons.IH [OF d1(2-4), of "acc @ [l_attempt_id row]"] Cons.prems(5,6) by auto
  qed
  have "db_leases db2 = map_where (\<lambda>l. l_is_active l \<and> l_id l \<in> l_id ` fst ` set (r # rs))
       (close_lease now ''runtime_lease_expired'') (db_leases db)"
    using d2(3) by (auto simp: reaped_def lv map_where_def r)
  moreover have "db_attempts db2 = map_where (\<lambda>a. a_is_active a \<and> a_id a \<in> l_attempt_id ` fst ` set (r # rs)) (reaped_attempt now) (db_attempts db)"
    using d2(3) by (auto simp: reaped_def av map_where_def r reaped_attempt_def)
  moreover have "\<forall>(l, u) \<in> set (r # rs). get_task db2 (t_key u) = Some (reaped_task now db u)"
  proof -
    have "t_key t \<notin> t_key ` snd ` set rs" using other(2) by force
    then have "get_task db2 (t_key t) = Some (reaped_task now db t)" using d2(3) gt(1) by (simp add: reaped_def)
    then show ?thesis using d2(3) same by (auto simp: reaped_def r)
  qed
  moreover have "\<forall>k. k \<notin> t_key ` snd ` set (r # rs) \<longrightarrow> get_task db2 k = get_task db k"
    using d2(3) gt(2) by (simp add: reaped_def r)
  ultimately have "reaped now db (r # rs) db2" using d2(3) d1(5) by (simp add: reaped_def)
  then show ?case using d1(1) d2(1,2) by (intro exI [of _ db2]) (simp add: r)
qed

definition stale_pairs :: "timestamp \<Rightarrow> db \<Rightarrow> (lease_row \<times> task_row) list" where
  "stale_pairs now db = map (\<lambda>l. (l, the (task_of_id db (l_task_id l)))) (stale_leases now db)"

lemma stale_pairs_ok:
  assumes inv: "runtime_inv db"
  shows "\<forall>(l, t) \<in> set (stale_pairs now db). l \<in> set (db_leases db) \<and> l_is_active l \<and> owned_by db l t"
    "distinct (map (l_id \<circ> fst) (stale_pairs now db))" "distinct (map (t_key \<circ> snd) (stale_pairs now db))"
    "map (\<lambda>(l, t). (l, t_key t)) (stale_pairs now db) =
       map (\<lambda>l. (l, case task_of_id db (l_task_id l) of None \<Rightarrow> [] | Some t \<Rightarrow> t_key t)) (stale_leases now db)"
proof -
  have own: "\<exists>t. task_of_id db (l_task_id l) = Some t \<and> owned_by db l t" if "l \<in> set (stale_leases now db)" for l
    using that stale_leases_set [OF inv] lease_owner_task [OF inv] by blast
  show all: "\<forall>(l, t) \<in> set (stale_pairs now db). l \<in> set (db_leases db) \<and> l_is_active l \<and> owned_by db l t"
    using own stale_leases_set [OF inv] by (fastforce simp: stale_pairs_def)
  show "distinct (map (l_id \<circ> fst) (stale_pairs now db))"
    using stale_leases_distinct [OF inv] by (simp add: stale_pairs_def comp_def)
  show "map (\<lambda>(l, t). (l, t_key t)) (stale_pairs now db) =
       map (\<lambda>l. (l, case task_of_id db (l_task_id l) of None \<Rightarrow> [] | Some t \<Rightarrow> t_key t)) (stale_leases now db)"
    unfolding stale_pairs_def using own by (force simp: comp_def split: option.split)
  have "l = l'" if l: "l \<in> set (stale_leases now db)" "l' \<in> set (stale_leases now db)"
    and eq: "t_key (the (task_of_id db (l_task_id l))) = t_key (the (task_of_id db (l_task_id l')))" for l l'
  proof -
    obtain t t' where t: "task_of_id db (l_task_id l) = Some t" "owned_by db l t"
      "task_of_id db (l_task_id l') = Some t'" "owned_by db l' t'" using own l by blast
    have "t_key t = t_key t'" using eq t(1,3) by simp
    then have "Some t = Some t'" using t(2,4) unfolding owned_by_def by metis
    then have "l_task_id l = l_task_id l'" using t(2,4) by (simp add: owned_by_def)
    moreover have "holds db (l_task_id l) (l_id l)" "holds db (l_task_id l') (l_id l')"
      "l \<in> set (db_leases db)" "l' \<in> set (db_leases db)"
      using l stale_leases_set [OF inv] by (auto simp: holds_lease)
    ultimately show "l = l'" using holds_unique [OF inv] lease_task_unique [OF inv] by metis
  qed
  moreover have "distinct (stale_leases now db)"
    using stale_leases_distinct [OF inv] distinct_map by blast
  ultimately show "distinct (map (t_key \<circ> snd) (stale_pairs now db))"
    by (simp add: stale_pairs_def comp_def distinct_map inj_on_def)
qed

lemma expire_total:
  assumes inv: "runtime_inv db" and live: "attempts_live db" and keys: "keys_normal db"
  shows "\<exists>db'. expire_stale_leases now db = Inr (db', map l_attempt_id (stale_leases now db)) \<and>
     runtime_inv db' \<and> reaped now db (stale_pairs now db) db'"
proof -
  note p = stale_pairs_ok [OF inv]
  obtain db' where f: "fold_result (reap_lease now) (map (\<lambda>(l, t). (l, t_key t)) (stale_pairs now db)) (db, []) =
       Inr (db', [] @ map (l_attempt_id \<circ> fst) (stale_pairs now db))" "runtime_inv db'"
      "reaped now db (stale_pairs now db) db'"
    using reap_fold_ok [OF inv live keys p(1,2,3)] by blast
  moreover have "map (l_attempt_id \<circ> fst) (stale_pairs now db) = map l_attempt_id (stale_leases now db)"
    by (simp add: stale_pairs_def comp_def)
  ultimately show ?thesis by (simp add: expire_stale_leases_def p(4))
qed

lemma stale_pairs_leases: "fst ` set (stale_pairs now db) = set (stale_leases now db)"
  by (force simp: stale_pairs_def)

text \<open>Every expired active lease is paired with the task it owns.\<close>

lemma stale_pair_mem:
  assumes inv: "runtime_inv db" and l: "l \<in> set (db_leases db)" "l_is_active l" "l_expires_at l \<le> now" "owned_by db l t"
  shows "(l, t) \<in> set (stale_pairs now db)"
proof -
  obtain u where u: "task_of_id db (l_task_id l) = Some u" "owned_by db l u"
    using lease_owner_task [OF inv l(1,2)] by blast
  have "u = t"
    using runtime_inv_tasks(2) [OF inv, of u t "l_task_id l"] u(2) l(4) get_task_Some
    by (auto simp: owned_by_def)
  then show ?thesis using l stale_leases_set [OF inv] u(1) by (force simp: stale_pairs_def)
qed

text \<open>Closing by identifier and closing by expiry agree.\<close>

lemma stale_pairs_closed:
  assumes inv: "runtime_inv db"
  shows "map_where (\<lambda>l. l_is_active l \<and> l_id l \<in> l_id ` fst ` set (stale_pairs now db)) f (db_leases db) =
     map_where (\<lambda>l. l_is_active l \<and> l_expires_at l \<le> now) f (db_leases db)"
  unfolding map_where_def
proof (intro map_cong refl)
  note st = stale_leases_set [OF inv]
  fix l assume l: "l \<in> set (db_leases db)"
  have "l_id l \<in> l_id ` set (stale_leases now db) \<longleftrightarrow> l \<in> set (stale_leases now db)"
    using lease_task_unique [OF inv l] st by blast
  then show "(if l_is_active l \<and> l_id l \<in> l_id ` fst ` set (stale_pairs now db) then f l else l) =
      (if l_is_active l \<and> l_expires_at l \<le> now then f l else l)"
    using l by (simp add: stale_pairs_leases st)
qed

section \<open>Properties\<close>

text \<open>
  C18. The reaper always completes and is exact: on a consistent database whose active Attempts are in
  active statuses, \<open>expire_stale_leases\<close> commits; it reports the Attempts of exactly the active
  leases whose expiry has passed; exactly these leases are closed and every other lease row is
  unchanged, so afterwards no expired lease is active; exactly the Attempts of these leases end,
  \<open>execution_aborted\<close> and inactive, and every other Attempt row is unchanged; the task of such a lease ends \<open>failed\<close> if
  it is a Ticket and \<open>blocked\<close> otherwise, without an active Attempt; every other task row is
  unchanged.
\<close>

theorem reaper_complete:
  assumes "runtime_inv db" and "attempts_live db" and "keys_normal db"
  shows "\<exists>db' out. expire_stale_leases now db = Inr (db', out) \<and>
     set out = {l_attempt_id l | l. l \<in> set (db_leases db) \<and> l_is_active l \<and> l_expires_at l \<le> now} \<and>
     db_leases db' = map_where (\<lambda>l. l_is_active l \<and> l_expires_at l \<le> now)
       (close_lease now ''runtime_lease_expired'') (db_leases db) \<and>
     db_attempts db' = map_where (\<lambda>a. a_is_active a \<and>
         (\<exists>l \<in> set (db_leases db). l_is_active l \<and> l_expires_at l \<le> now \<and> l_attempt_id l = a_id a))
       (\<lambda>a. a\<lparr>a_status := ''execution_aborted'', a_is_active := False, a_ended_at := Some now,
          a_execution_result := Some ''lease_expired'', a_updated_at := now\<rparr>) (db_attempts db) \<and>
     (\<forall>l t. l \<in> set (db_leases db) \<and> l_is_active l \<and> l_expires_at l \<le> now \<and> owned_by db l t \<longrightarrow>
        get_task db' (t_key t) = Some (reaped_task now db t)) \<and>
     (\<forall>k. (\<forall>l t. l \<in> set (db_leases db) \<and> l_is_active l \<and> l_expires_at l \<le> now \<and> owned_by db l t \<longrightarrow> t_key t \<noteq> k) \<longrightarrow>
        get_task db' k = get_task db k)"
proof -
  obtain db' where e: "expire_stale_leases now db = Inr (db', map l_attempt_id (stale_leases now db))"
    and r: "reaped now db (stale_pairs now db) db'" using expire_total [OF assms] by blast
  note st = stale_leases_set [OF assms(1)]
  note ids = stale_pairs_leases [of now db]
  have leases: "db_leases db' = map_where (\<lambda>l. l_is_active l \<and> l_expires_at l \<le> now)
       (close_lease now ''runtime_lease_expired'') (db_leases db)"
    using r stale_pairs_closed [OF assms(1)] by (simp add: reaped_def)
  have "a \<in> l_attempt_id ` fst ` set (stale_pairs now db) \<longleftrightarrow>
      (\<exists>l \<in> set (db_leases db). l_is_active l \<and> l_expires_at l \<le> now \<and> l_attempt_id l = a)" for a
    unfolding ids st by auto
  then have attempts: "db_attempts db' = map_where (\<lambda>a. a_is_active a \<and>
         (\<exists>l \<in> set (db_leases db). l_is_active l \<and> l_expires_at l \<le> now \<and> l_attempt_id l = a_id a))
       (\<lambda>a. a\<lparr>a_status := ''execution_aborted'', a_is_active := False, a_ended_at := Some now,
          a_execution_result := Some ''lease_expired'', a_updated_at := now\<rparr>) (db_attempts db)"
    using r by (simp add: reaped_def reaped_attempt_def [abs_def])
  have "get_task db' k = get_task db k"
    if none: "\<forall>l t. l \<in> set (db_leases db) \<and> l_is_active l \<and> l_expires_at l \<le> now \<and> owned_by db l t \<longrightarrow> t_key t \<noteq> k" for k
  proof -
    have "t_key t \<noteq> k" if p: "(l, t) \<in> set (stale_pairs now db)" for l t
    proof -
      have "l \<in> set (stale_leases now db)" using p unfolding ids [symmetric] by force
      moreover have "owned_by db l t" using p stale_pairs_ok(1) [OF assms(1), of now] by blast
      ultimately show ?thesis using none st by blast
    qed
    then have "k \<notin> (\<lambda>p. t_key (snd p)) ` set (stale_pairs now db)" by force
    then have "k \<notin> t_key ` snd ` set (stale_pairs now db)" by (simp only: image_image not_False_eq_True)
    then show ?thesis using r by (simp add: reaped_def)
  qed
  moreover have "get_task db' (t_key t) = Some (reaped_task now db t)"
    if "l \<in> set (db_leases db) \<and> l_is_active l \<and> l_expires_at l \<le> now \<and> owned_by db l t" for l t
  proof -
    have "(l, t) \<in> set (stale_pairs now db)" using stale_pair_mem [OF assms(1)] that by blast
    then show ?thesis using r unfolding reaped_def by blast
  qed
  ultimately show ?thesis using e leases attempts st
    by (intro exI [of _ db'] exI [of _ "map l_attempt_id (stale_leases now db)"]) auto
qed

lemma claimed_db_live: "attempts_live claimed_db" "keys_normal claimed_db"
proof -
  show "attempts_live claimed_db"
    by (simp add: attempts_live_def claimed_db_def claim_attempt_def ACTIVE_ATTEMPT_STATUSES_def)
  have "normalize_task_key ''AT-0001'' = Inr ''AT-0001''" by code_simp
  then show "keys_normal claimed_db"
    by (simp add: keys_normal_def claimed_db_def claim_task_def example_ticket_def)
qed

theorem reaper_complete_witness:
  "runtime_inv claimed_db \<and> attempts_live claimed_db \<and> keys_normal claimed_db \<and>
   (\<exists>db' out. expire_stale_leases 160 claimed_db = Inr (db', out) \<and> set out = {''attempt-1''})"
proof -
  have "{l_attempt_id l | l. l \<in> set (db_leases claimed_db) \<and> l_is_active l \<and> l_expires_at l \<le> 160} = {''attempt-1''}"
    by (simp add: claimed_db_def claim_lease_def example_ids_def)
  then show ?thesis
    using reaper_complete [OF claimed_db_inv claimed_db_live, of 160] claimed_db_inv claimed_db_live by auto
qed

end
