(* ===== verification/Runtime_Claim.thy ===== *)
theory Runtime_Claim
  imports Runtime_Reaper
begin

text \<open>
  What a claim records, and that it is not refused without cause: a startable Ticket with a valid
  policy, a free slot, no control in force and fresh identifiers is always claimed.
\<close>

section \<open>What a claim records\<close>

lemma check_overrides_Inr:
  "\<lbrakk>check_overrides key cs es = Inr u; length cs = length es\<rbrakk> \<Longrightarrow>
     list_all2 (\<lambda>c e. snd c = None \<or> snd c = snd e) cs es"
  by (induction key cs es rule: check_overrides.induct) (auto split: if_splits)

lemma attempt_policy_fields_ticket:
  assumes "attempt_policy_fields env db key caller = Inr pf" and "is_ticket_in_connection db (py_strip key) = Inr True"
    and "get_task db (py_strip key) = Some row"
  obtains policy where "resolve_execution_policy env (t_project row) None = Inr policy"
    "ticket_repo_path_refusal env policy (Some (t_repo_path row)) = None"
    "pf = \<lparr>ap_executor = Some (ep_executor policy), ap_model = Some (ep_model policy),
       ap_policy_version = Some (ep_policy_version policy), ap_config_snapshot_hash = Some (ep_sha256 policy),
       ap_permission_profile = Some (ep_permission_profile policy)\<rparr>"
    "list_all2 (\<lambda>c e. snd c = None \<or> snd c = snd e) (policy_fields_list caller) (policy_fields_list pf)"
proof -
  obtain k where k: "normalize_task_key key = Inr k"
    using assms(1) by (auto simp: attempt_policy_fields_def rbind_Inr_iff)
  then have kk: "k = py_strip key" by (simp add: normalize_task_key_Inr)
  note u = assms(1) [unfolded attempt_policy_fields_def k rbind_simps kk assms(2,3) option.case option.map]
  obtain policy where p: "resolve_execution_policy env (t_project row) None = Inr policy"
    using u by (auto split: sum.splits)
  have r: "ticket_repo_path_refusal env policy (Some (t_repo_path row)) = None"
    using u by (auto simp: p split: option.splits)
  define eff where "eff = \<lparr>ap_executor = Some (ep_executor policy), ap_model = Some (ep_model policy),
       ap_policy_version = Some (ep_policy_version policy), ap_config_snapshot_hash = Some (ep_sha256 policy),
       ap_permission_profile = Some (ep_permission_profile policy)\<rparr>"
  have o: "check_overrides (py_strip key) (policy_fields_list caller) (policy_fields_list eff) = Inr ()" "pf = eff"
    using u by (auto simp: p r Let_def rbind_Inr_iff eff_def)
  have "length (policy_fields_list caller) = length (policy_fields_list eff)" by (simp add: policy_fields_list_def)
  from check_overrides_Inr [OF o(1) this] show ?thesis using that [OF p r] o(2) eff_def by blast
qed

lemma claim_recorded:
  assumes inv: "runtime_inv db" and c: "claim env ids now task_key owner ttl req db = Inr (db', c)"
    and row: "get_task db (py_strip task_key) = Some row" "truthy (t_task_id row)"
  shows "\<exists>pf i wt art. t_task_id row = Some i \<and>
     attempt_policy_fields (ae_policy env) db (py_strip task_key)
              \<lparr>ap_executor = or_else (cr_executor req) (t_executor row),
               ap_model = or_else (cr_model req) (t_model row),
               ap_policy_version = cr_policy_version req,
               ap_config_snapshot_hash = cr_config_snapshot_hash req,
               ap_permission_profile = cr_permission_profile req\<rparr> = Inr pf \<and>
     db_attempts db' = db_attempts db @ [claim_attempt ids now req pf i (next_attempt_number db i) wt art] \<and>
     get_task db' (py_strip task_key) = Some (claim_task ids now row) \<and>
     (\<forall>k. k \<noteq> py_strip task_key \<longrightarrow> get_task db' k = get_task db k)"
proof -
  obtain key db1 task pf wt art where k: "normalize_task_key task_key = Inr key"
    and ch: "claim_checks env key req db = Inr (db1, task, pf)"
    and w: "claim_writes env ids now key (py_strip owner) ttl req wt art task pf db1 = Inr db'"
    by (rule claim_Inr [OF c])
  have key: "key = py_strip task_key" "py_strip key = key" using k by (auto simp: normalize_task_key_Inr)
  note cc = claim_checks_Inr [OF ch] and e = ensure_task_identity_Inr [OF claim_checks_Inr(2) [OF ch] inv]
  have same: "db1 = db" "task = row" using e(10) row key by auto
  obtain i where i: "t_task_id row = Some i" using row(2) by (cases "t_task_id row") auto
  let ?f = "claim_task ids now"
  have rm: "row \<in> set (db_tasks db)" "t_key row = py_strip task_key" using get_task_Some [OF row(1)] by auto
  have f: "t_key (?f u) = t_key u" for u by (simp add: claim_task_def)
  have pk: "u \<in> set (db_tasks db) \<Longrightarrow> t_task_id u = Some i \<longleftrightarrow> t_key u = py_strip task_key" for u
    using runtime_inv_tasks(2) [OF inv, of u row i] distinct_key_eq [OF runtime_inv_tasks(1) [OF inv], of u row]
      rm i by metis
  have "map_where (\<lambda>u. t_task_id u = Some i) ?f (db_tasks db) =
      map_where (\<lambda>u. t_key u = py_strip task_key) ?f (db_tasks db)"
    unfolding map_where_def by (intro map_cong refl) (simp only: pk)
  moreover have "db_tasks db' = map_where (\<lambda>u. t_task_id u = Some i) ?f (db_tasks db1)"
    by (rule claim_writes_shape [OF w]) (use i same in simp_all)
  ultimately have tasks: "db_tasks db' = map_where (\<lambda>u. t_key u = py_strip task_key) ?f (db_tasks db)"
    using same by simp
  have "db_attempts db' = db_attempts db1 @ [claim_attempt ids now req pf i (next_attempt_number db1 i) wt
        (if art \<noteq> None then art else t_artifact_dir task)]"
    by (rule claim_writes_shape [OF w]) (use i same in simp_all)
  moreover have "get_task db' (py_strip task_key) = Some (?f row)"
    unfolding get_task_def tasks using row(1) by (simp add: find_map_where_same f get_task_def)
  moreover have "k' \<noteq> py_strip task_key \<Longrightarrow> get_task db' k' = get_task db k'" for k'
    unfolding get_task_def tasks by (simp add: find_map_where_other f)
  ultimately show ?thesis using i cc(6) key same by blast
qed

section \<open>A claim that meets its conditions succeeds\<close>

lemma next_attempt_number_fresh:
  "\<lbrakk>a \<in> set (db_attempts db); a_task_id a = i\<rbrakk> \<Longrightarrow> a_number a < next_attempt_number db i"
proof -
  have "x \<in> set xs \<Longrightarrow> (x::nat) \<le> foldr max xs 0" for x xs by (induction xs) auto
  then show "\<lbrakk>a \<in> set (db_attempts db); a_task_id a = i\<rbrakk> \<Longrightarrow> a_number a < next_attempt_number db i"
    by (force simp: next_attempt_number_def less_Suc_eq_le)
qed

lemma claim_status_guard:
  assumes "t_task_id t = Some i" "i \<in> set (db_suppressions db)" "\<not> control_halts db t"
    "t_status t \<in> {''created'', ''queued''}"
  shows "tasks_status_guard now db t (claim_task ids now t) = Inr ()"
proof -
  let ?n = "claim_task ids now t"
  have f: "t_status ?n = ''preparing''" by (simp add: claim_task_def)
  have s: "suppressed db ?n" using assms(1,2) by (simp add: suppressed_def claim_task_def)
  have h: "\<not> control_halts db ?n" using assms(3) by (simp add: control_halts_def claim_task_def)
  have ne: "''preparing'' \<notin> {''implementing'', ''validating''}" "''preparing'' \<notin> set RUNTIME_TERMINAL_STATUSES"
    "''preparing'' \<noteq> ''queued''"
    by (simp_all add: RUNTIME_TERMINAL_STATUSES_def)
  show ?thesis unfolding tasks_status_guard_def f using s h ne by (simp only: simp_thms if_False)
qed

lemma claim_writes_ok:
  assumes inv: "runtime_inv db" and i: "t_task_id task = Some i" and task: "task \<in> set (db_tasks db)"
    and own: "\<not> runtime_owned db task" and st: "t_status task \<in> {''created'', ''queued''}"
    and halt: "\<not> control_halts db task"
    and fresh: "fi_attempt_id ids \<notin> a_id ` set (db_attempts db)" "fi_lease_id ids \<notin> l_id ` set (db_leases db)"
      "ae_token_hash env (fi_token ids) \<notin> l_token_hash ` set (db_leases db)"
    and ttl: "1 \<le> ttl" and owner: "require_non_empty owner = Inr ow" and reason: "require_non_empty (cr_reason_code req) = Inr rc"
    and new: "fi_attempt_id ids \<notin> l_attempt_id ` set (db_leases db)"
  shows "\<exists>db'. claim_writes env ids now (t_key task) owner ttl req wt art task pf db = Inr db'"
proof -
  have sup: "db_suppressions db = []" using inv by (simp add: runtime_inv_def)
  have ex: "task_id_exists db i" using task i by (auto simp: task_id_exists_def list_ex_iff)
  define d1 where "d1 = db\<lparr>db_suppressions := db_suppressions db @ [i]\<rparr>"
  have s1: "insert_suppression i db = Inr d1" using ex sup by (simp add: insert_suppression_Inr d1_def)
  let ?a = "claim_attempt ids now req pf i (next_attempt_number db i) wt (if art \<noteq> None then art else t_artifact_dir task)"
  define d2 where "d2 = d1\<lparr>db_attempts := db_attempts db @ [?a]\<rparr>"
  have "\<not> list_ex (\<lambda>r. a_id r = a_id ?a) (db_attempts db)" using fresh(1) by (force simp: claim_attempt_def list_ex_iff)
  moreover have "\<not> list_ex (\<lambda>r. a_task_id r = a_task_id ?a \<and> a_number r = a_number ?a) (db_attempts db)"
    using next_attempt_number_fresh by (fastforce simp: claim_attempt_def list_ex_iff)
  moreover have "\<not> list_ex (\<lambda>r. a_task_id r = a_task_id ?a \<and> a_is_active r) (db_attempts db)"
    using own i by (auto simp: claim_attempt_def runtime_owned_def list_ex_iff)
  ultimately have s2: "insert_attempt ?a d1 = Inr d2"
    using ex by (simp add: insert_attempt_def d1_def d2_def task_id_exists_def)
       (simp add: claim_attempt_def next_attempt_number_def)
  let ?l = "claim_lease env ids now i owner ttl"
  define d3 where "d3 = d2\<lparr>db_leases := db_leases db @ [?l]\<rparr>"
  have s3: "insert_lease ?l d2 = Inr d3"
  proof -
    have "\<not> list_ex (\<lambda>r. l_id r = l_id ?l) (db_leases db)" "\<not> list_ex (\<lambda>r. l_token_hash r = l_token_hash ?l) (db_leases db)"
      "\<not> list_ex (\<lambda>r. l_task_id r = l_task_id ?l \<and> l_is_active r) (db_leases db)"
      "\<not> list_ex (\<lambda>r. l_attempt_id r = l_attempt_id ?l \<and> l_is_active r) (db_leases db)"
      using fresh(2,3) new own i
      by (force simp: claim_lease_def runtime_owned_def list_ex_iff)+
    moreover have "list_ex (\<lambda>a. a_id a = l_attempt_id ?l) (db_attempts d2)"
      by (simp add: d2_def claim_lease_def claim_attempt_def)
    moreover have "task_id_exists d2 (l_task_id ?l)" "db_leases d2 = db_leases db"
      using ex by (simp_all add: d2_def d1_def task_id_exists_def claim_lease_def)
    ultimately show ?thesis using ttl by (simp add: insert_lease_def d3_def) (simp add: claim_lease_def)
  qed
  define d4 where "d4 = update_tasks (\<lambda>t. t_task_id t = Some i) (claim_task ids now) d3"
  have s4: "update_tasks_attempt now (\<lambda>t. t_task_id t = Some i) (claim_task ids now) d3 = Inr d4"
  proof -
    have "tasks_active_attempt_guard d3 (claim_task ids now u) = Inr () \<and>
        tasks_status_guard now d3 u (claim_task ids now u) = Inr ()"
      if "u \<in> set (db_tasks d3)" "t_task_id u = Some i" for u
    proof -
      have "u = task" using runtime_inv_tasks(2) [OF inv _ task that(2) i] that(1)
        by (simp add: d3_def d2_def d1_def)
      moreover have "\<not> control_halts d3 task" using halt by (simp add: control_halts_def d3_def d2_def d1_def)
      moreover have "i \<in> set (db_suppressions d3)" by (simp add: d3_def d2_def d1_def)
      moreover have "tasks_active_attempt_guard d3 (claim_task ids now task) = Inr ()"
        using i by (simp add: tasks_active_attempt_guard_def claim_task_def d3_def d2_def claim_attempt_def)
      ultimately show ?thesis using claim_status_guard [OF i _ _ st] by blast
    qed
    then show ?thesis unfolding update_tasks_attempt_Inr d4_def by blast
  qed
  have "require_non_empty ''preparing'' = Inr ''preparing''" by code_simp
  moreover have "list_ex (\<lambda>r. a_id r = fi_attempt_id ids \<and> a_task_id r = i) (db_attempts d4)"
    by (simp add: d4_def d3_def d2_def claim_attempt_def)
  moreover have "task_id_exists d4 i"
  proof -
    have "claim_task ids now task \<in> set (db_tasks d4)"
      using task i by (auto simp: d4_def d3_def d2_def d1_def set_map_where)
    moreover have "t_task_id (claim_task ids now task) = Some i" using i by (simp add: claim_task_def)
    ultimately show ?thesis unfolding task_id_exists_def list_ex_iff by blast
  qed
  ultimately obtain d5 where s5: "insert_lifecycle_event i (fi_attempt_id ids) (Some (t_status task)) ''preparing''
      (cr_reason_code req) owner now
      (dict_merge [(''lease_id'', JStr (fi_lease_id ids)), (''auth_mode'', JStr ''token'')] (cr_metadata req)) d4 = Inr d5"
    by (simp add: insert_lifecycle_event_def owner reason insert_lifecycle_def)
  have "map t_key (db_tasks d5) = map t_key (db_tasks db)"
    using insert_lifecycle_event_Inr [OF s5]
    by (auto simp: d4_def d3_def d2_def d1_def map_map_where claim_task_def)
  then have "get_task d5 (t_key task) \<noteq> None" using task unfolding get_task_keys by simp
  then obtain d6 where s6: "insert_status_event (t_key task) ''preparing'' owner now None d5 = Inr d6"
    using status_event_ok by blast
  show ?thesis
    unfolding claim_writes_def Let_def i option.case s1 rbind_simps s2 s3 s4 s5 s6 by blast
qed

lemma claim_succeeds_lemma:
  assumes inv: "runtime_inv db" and wf: "controls_wf db" and t: "controllable db t"
    and st: "t_status t \<in> {''created'', ''queued''}" and id: "truthy (t_task_id t)"
    and cap: "count_active_executor_leases_in_connection db < cs_max_concurrent_tasks (runtime_capacity_in_connection db)"
    and adm: "assert_admission_allowed db (t_key t) = Inr ()"
    and dep: "unreleased_dependency_in_connection db (t_key t) = Inr None"
    and pol: "is_ok (attempt_policy_fields (ae_policy env) db (t_key t)
              \<lparr>ap_executor = or_else (cr_executor req) (t_executor t),
               ap_model = or_else (cr_model req) (t_model t),
               ap_policy_version = cr_policy_version req,
               ap_config_snapshot_hash = cr_config_snapshot_hash req,
               ap_permission_profile = cr_permission_profile req\<rparr>)"
    and own: "\<not> runtime_owned db t"
    and fresh: "fi_attempt_id ids \<notin> a_id ` set (db_attempts db)" "fi_lease_id ids \<notin> l_id ` set (db_leases db)"
      "ae_token_hash env (fi_token ids) \<notin> l_token_hash ` set (db_leases db)"
      "fi_attempt_id ids \<notin> l_attempt_id ` set (db_leases db)"
    and args: "1 \<le> ttl" "py_strip owner \<noteq> []" "py_strip (cr_reason_code req) \<noteq> []"
      "is_ok (absolute_or_none (ae_home env) (cr_worktree_path req))"
      "is_ok (absolute_or_none (ae_home env) (cr_artifact_root req))"
  shows "is_ok (claim env ids now (t_key t) owner ttl req db)"
proof -
  obtain i where i: "t_task_id t = Some i" "i \<noteq> []" using id by (cases "t_task_id t") auto
  have key: "normalize_task_key (t_key t) = Inr (t_key t)" "get_task db (t_key t) = Some t"
    using t by (simp_all add: controllable_def)
  have tm: "t \<in> set (db_tasks db)" using get_task_Some [OF key(2)] by blast
  obtain pf where pf: "attempt_policy_fields (ae_policy env) db (t_key t)
              \<lparr>ap_executor = or_else (cr_executor req) (t_executor t),
               ap_model = or_else (cr_model req) (t_model t),
               ap_policy_version = cr_policy_version req,
               ap_config_snapshot_hash = cr_config_snapshot_hash req,
               ap_permission_profile = cr_permission_profile req\<rparr> = Inr pf"
    using pol unfolding is_ok_iff by blast
  have e: "ensure_task_identity db (t_key t) = Inr (db, t)"
    using i by (simp add: ensure_task_identity_def key)
  have c: "assert_runtime_capacity_available db = Inr ()"
    using cap by (simp add: assert_runtime_capacity_available_def)
  have d: "assert_dependency_released db (t_key t) = Inr ()" using dep by (simp add: assert_dependency_released_Inr)
  have ch: "claim_checks env (t_key t) req db = Inr (db, t, pf)"
    unfolding claim_checks_def c e adm d pf rbind_simps prod.case using st own by simp
  have halt: "\<not> control_halts db t" using admission_agrees_with_trigger [OF wf t] adm by blast
  obtain wt art where p: "absolute_or_none (ae_home env) (cr_worktree_path req) = Inr wt"
    "absolute_or_none (ae_home env) (cr_artifact_root req) = Inr art"
    using args(4,5) unfolding is_ok_iff by blast
  have ow: "require_non_empty owner = Inr (py_strip owner)" "require_non_empty (py_strip owner) = Inr (py_strip owner)"
    "require_non_empty (cr_reason_code req) = Inr (py_strip (cr_reason_code req))"
    using args(2,3) by (simp_all add: require_non_empty_Inr)
  obtain db' where w: "claim_writes env ids now (t_key t) (py_strip owner) ttl req wt art t pf db = Inr db'"
    using claim_writes_ok [OF inv i(1) tm own st halt fresh(1,2,3) args(1) ow(2,3) fresh(4)] by blast
  have "\<not> ttl < 1" using args(1) by simp
  then show ?thesis
    unfolding claim_def key(1) ow(1) p ch w rbind_simps prod.case by simp
qed

lemma claim_task_id:
  assumes inv: "runtime_inv db" and c: "claim env ids now (t_key t) owner ttl req db = Inr (db', c)"
    and key: "py_strip (t_key t) = t_key t" "get_task db (t_key t) = Some t" and i: "t_task_id t = Some i"
    and ne: "truthy (t_task_id t)"
  shows "cl_task_id c = i"
proof -
  obtain k db1 task pf where k: "normalize_task_key (t_key t) = Inr k" and ch: "claim_checks env k req db = Inr (db1, task, pf)"
    and id: "cl_task_id c = (case t_task_id task of None \<Rightarrow> [] | Some i \<Rightarrow> i)"
    by (rule claim_Inr [OF c])
  have "k = t_key t" using k key(1) by (auto simp: normalize_task_key_Inr)
  moreover have "ensure_task_identity db k = Inr (db1, task)" by (rule claim_checks_Inr(2) [OF ch])
  ultimately show ?thesis using ensure_task_identity_Inr(10) [OF claim_checks_Inr(2) [OF ch] inv] key i ne id by auto
qed

section \<open>Properties\<close>

text \<open>
  C21. A started Ticket runs under its project's policy and nothing else: the Attempt that a successful
  claim records carries exactly the executor, model, version, permission profile and hash of the
  policy resolved for the Ticket's project, which is complete and belongs to the repository the
  Ticket was made for; a caller's value that disagrees was not accepted. The Attempt has the next
  number of its task, the Ticket is in status \<open>preparing\<close> and points to it, and no other task
  changed.
\<close>

theorem claim_runs_under_policy:
  assumes "runtime_inv db" and "claim env ids now task_key owner ttl req db = Inr (db', c)"
    and "get_task db (py_strip task_key) = Some row" and "truthy (t_task_id row)"
    and "t_prompt row \<noteq> None" and "tasks_has_ticket_columns db"
  shows "\<exists>policy a. resolve_execution_policy (ae_policy env) (t_project row) None = Inr policy \<and>
     policy_wf policy \<and> ticket_repo_path_refusal (ae_policy env) policy (Some (t_repo_path row)) = None \<and>
     db_attempts db' = db_attempts db @ [a] \<and> a_id a = cl_attempt_id c \<and> a_is_active a \<and>
     Some (a_task_id a) = t_task_id row \<and> a_number a = next_attempt_number db (a_task_id a) \<and>
     a_executor a = Some (ep_executor policy) \<and> a_model a = Some (ep_model policy) \<and>
     a_policy_version a = Some (ep_policy_version policy) \<and>
     a_config_snapshot_hash a = Some (ep_sha256 policy) \<and>
     a_permission_profile a = Some (ep_permission_profile policy) \<and>
     (\<forall>v. cr_config_snapshot_hash req = Some v \<longrightarrow> v = ep_sha256 policy) \<and>
     get_task db' (py_strip task_key) = Some (claim_task ids now row) \<and>
     (\<forall>k. k \<noteq> py_strip task_key \<longrightarrow> get_task db' k = get_task db k)"
proof -
  let ?caller = "\<lparr>ap_executor = or_else (cr_executor req) (t_executor row),
               ap_model = or_else (cr_model req) (t_model row),
               ap_policy_version = cr_policy_version req,
               ap_config_snapshot_hash = cr_config_snapshot_hash req,
               ap_permission_profile = cr_permission_profile req\<rparr>"
  obtain pf i wt art where r: "t_task_id row = Some i"
    "attempt_policy_fields (ae_policy env) db (py_strip task_key) ?caller = Inr pf"
    "db_attempts db' = db_attempts db @ [claim_attempt ids now req pf i (next_attempt_number db i) wt art]"
    "get_task db' (py_strip task_key) = Some (claim_task ids now row)"
    "\<forall>k. k \<noteq> py_strip task_key \<longrightarrow> get_task db' k = get_task db k"
    using claim_recorded [OF assms(1-4)] by blast
  obtain key where k: "normalize_task_key task_key = Inr key" and cid: "cl_attempt_id c = fi_attempt_id ids"
    by (rule claim_Inr [OF assms(2)])
  have nk: "normalize_task_key (py_strip task_key) = Inr (py_strip task_key)"
    using k normalize_task_key_idem by (auto simp: normalize_task_key_Inr)
  have tick: "is_ticket_in_connection db (py_strip (py_strip task_key)) = Inr True"
    using assms(3,5,6) by (simp add: is_ticket_in_connection_def nk)
  have row': "get_task db (py_strip (py_strip task_key)) = Some row" using assms(3) by simp
  obtain policy where p: "resolve_execution_policy (ae_policy env) (t_project row) None = Inr policy"
    "ticket_repo_path_refusal (ae_policy env) policy (Some (t_repo_path row)) = None"
    "pf = \<lparr>ap_executor = Some (ep_executor policy), ap_model = Some (ep_model policy),
       ap_policy_version = Some (ep_policy_version policy), ap_config_snapshot_hash = Some (ep_sha256 policy),
       ap_permission_profile = Some (ep_permission_profile policy)\<rparr>"
    and o: "list_all2 (\<lambda>c e. snd c = None \<or> snd c = snd e) (policy_fields_list ?caller) (policy_fields_list pf)"
    by (rule attempt_policy_fields_ticket [OF r(2) tick row'])
  have "policy_wf policy"
    using p(1)
  proof (rule resolve_execution_policy_Inr)
    fix q path entry
    assume q: "parse_execution_policy (ae_policy env) (py_strip (t_project row)) (map_of entry ''execution'') path = Inr q"
      and eq: "policy = q\<lparr>ep_repo_path := ep_repo_path policy\<rparr>"
    obtain rp where "policy = q\<lparr>ep_repo_path := rp\<rparr>" using eq by blast
    then show ?thesis using parse_execution_policy_wf(1) [OF q] by (simp add: policy_wf_def)
  qed
  moreover have "\<forall>v. cr_config_snapshot_hash req = Some v \<longrightarrow> v = ep_sha256 policy"
    using o by (auto simp: policy_fields_list_def p(3))
  ultimately show ?thesis
    using p(1,2) r cid
    by (intro exI [of _ policy] exI [of _ "claim_attempt ids now req pf i (next_attempt_number db i) wt art"])
       (simp add: claim_attempt_def p(3))
qed

theorem claim_runs_under_policy_witness:
  "\<exists>policy. resolve_execution_policy (ae_policy example_env) ''proj'' None = Inr policy \<and> policy_wf policy"
proof -
  have row: "get_task ready_db (py_strip ''AT-0001'') = Some (example_ticket ''AT-0001'' ''created'')" by code_simp
  have "truthy (t_task_id (example_ticket ''AT-0001'' ''created''))"
    "t_prompt (example_ticket ''AT-0001'' ''created'') \<noteq> None" "tasks_has_ticket_columns ready_db"
    "t_project (example_ticket ''AT-0001'' ''created'') = ''proj''"
    by (simp_all add: example_ticket_def tasks_has_ticket_columns_def ready_db_def example_db_def)
  then show ?thesis using claim_runs_under_policy [OF ready_db_inv claim_example row] by auto
qed

text \<open>
  C19. A claim is not refused without cause: a task in status \<open>created\<close> or \<open>queued\<close> that no
  control halts, whose blocker is completed, whose policy resolves without an override, that nobody
  owns, is claimed whenever a slot is free, the generated identifiers are fresh and the paths of the
  request (if any) are absolute; no trigger and no constraint of the database gets in the way. The
  claim is recorded: one new Attempt of the task, active and \<open>preparing\<close>, one new active lease on it,
  the task \<open>preparing\<close> with this Attempt, and no other task changed.
\<close>

theorem claim_succeeds:
  assumes "runtime_inv db" and "controls_wf db" and "controllable db t"
    and "t_status t \<in> {''created'', ''queued''}" and "truthy (t_task_id t)"
    and "count_active_executor_leases_in_connection db < cs_max_concurrent_tasks (runtime_capacity_in_connection db)"
    and "assert_admission_allowed db (t_key t) = Inr ()"
    and "unreleased_dependency_in_connection db (t_key t) = Inr None"
    and "is_ok (attempt_policy_fields (ae_policy env) db (t_key t)
              \<lparr>ap_executor = or_else (cr_executor req) (t_executor t),
               ap_model = or_else (cr_model req) (t_model t),
               ap_policy_version = cr_policy_version req,
               ap_config_snapshot_hash = cr_config_snapshot_hash req,
               ap_permission_profile = cr_permission_profile req\<rparr>)"
    and "\<not> runtime_owned db t"
    and "fi_attempt_id ids \<notin> a_id ` set (db_attempts db)" and "fi_lease_id ids \<notin> l_id ` set (db_leases db)"
    and "ae_token_hash env (fi_token ids) \<notin> l_token_hash ` set (db_leases db)"
    and "fi_attempt_id ids \<notin> l_attempt_id ` set (db_leases db)"
    and "1 \<le> ttl" and "py_strip owner \<noteq> []" and "py_strip (cr_reason_code req) \<noteq> []"
    and "is_ok (absolute_or_none (ae_home env) (cr_worktree_path req))" and "is_ok (absolute_or_none (ae_home env) (cr_artifact_root req))"
  shows "\<exists>db' c a. claim env ids now (t_key t) owner ttl req db = Inr (db', c) \<and>
     cl_attempt_id c = fi_attempt_id ids \<and> cl_expires_at c = now + ttl \<and>
     db_attempts db' = db_attempts db @ [a] \<and> a_id a = fi_attempt_id ids \<and> Some (a_task_id a) = t_task_id t \<and>
     a_is_active a \<and> a_status a = ''preparing'' \<and>
     map lease_ids (db_leases db') = map lease_ids (db_leases db) @ [(fi_lease_id ids, a_task_id a, fi_attempt_id ids, True)] \<and>
     get_task db' (t_key t) = Some (t\<lparr>t_active_attempt_id := Some (fi_attempt_id ids), t_status := ''preparing'',
       t_blocked_reason := None, t_updated_at := now, t_last_synced_at := Some now\<rparr>) \<and>
     (\<forall>k. k \<noteq> t_key t \<longrightarrow> get_task db' k = get_task db k)"
proof -
  have "is_ok (claim env ids now (t_key t) owner ttl req db)"
    by (rule claim_succeeds_lemma [OF assms(1-19)])
  then obtain db' c where c: "claim env ids now (t_key t) owner ttl req db = Inr (db', c)"
    unfolding is_ok_iff by (metis surj_pair)
  have key: "py_strip (t_key t) = t_key t" "get_task db (t_key t) = Some t"
    using assms(3) by (auto simp: controllable_def normalize_task_key_Inr)
  obtain pf i wt art where r: "t_task_id t = Some i"
    "db_attempts db' = db_attempts db @ [claim_attempt ids now req pf i (next_attempt_number db i) wt art]"
    "get_task db' (t_key t) = Some (claim_task ids now t)" "\<forall>k. k \<noteq> t_key t \<longrightarrow> get_task db' k = get_task db k"
    using claim_recorded [OF assms(1) c, unfolded key(1), OF key(2) assms(5)] by blast
  have "cl_attempt_id c = fi_attempt_id ids \<and> cl_expires_at c = now + ttl \<and> cl_lease_id c = fi_lease_id ids"
    by (rule claim_Inr [OF c]) simp
  moreover have "cl_task_id c = i" by (rule claim_task_id [OF assms(1) c key r(1) assms(5)])
  ultimately show ?thesis
    using c r claim_effect(2) [OF assms(1) c]
    by (intro exI [of _ db'] exI [of _ c] exI [of _ "claim_attempt ids now req pf i (next_attempt_number db i) wt art"])
       (simp add: claim_attempt_def claim_task_def)
qed

lemma ready_policy_ok:
  "is_ok (attempt_policy_fields (ae_policy example_env) ready_db ''AT-0001''
     \<lparr>ap_executor = None, ap_model = None, ap_policy_version = None, ap_config_snapshot_hash = None,
      ap_permission_profile = None\<rparr>)"
  by code_simp

theorem claim_succeeds_witness:
  "\<exists>db' c. claim example_env example_ids 7 ''AT-0001'' ''worker'' 60 example_request ready_db = Inr (db', c) \<and>
     cl_attempt_id c = ''attempt-1'' \<and> cl_expires_at c = 67"
proof -
  let ?t = "example_ticket ''AT-0001'' ''created''"
  have k: "t_key ?t = ''AT-0001''" by (simp add: example_ticket_def)
  have wf: "controls_wf ready_db" "controllable ready_db ?t"
    using control_example_ok by (simp_all add: ready_db_def control_example_def)
  have c: "count_active_executor_leases_in_connection ready_db <
      cs_max_concurrent_tasks (runtime_capacity_in_connection ready_db)"
    "assert_admission_allowed ready_db (t_key ?t) = Inr ()"
    "unreleased_dependency_in_connection ready_db (t_key ?t) = Inr None"
    "py_strip ''worker'' \<noteq> []" "py_strip (cr_reason_code example_request) \<noteq> []"
    by code_simp+
  have p: "is_ok (attempt_policy_fields (ae_policy example_env) ready_db (t_key ?t)
              \<lparr>ap_executor = or_else (cr_executor example_request) (t_executor ?t),
               ap_model = or_else (cr_model example_request) (t_model ?t),
               ap_policy_version = cr_policy_version example_request,
               ap_config_snapshot_hash = cr_config_snapshot_hash example_request,
               ap_permission_profile = cr_permission_profile example_request\<rparr>)"
    using ready_policy_ok by (simp add: k) (simp add: or_else_def example_request_def example_ticket_def)
  have s: "t_status ?t \<in> {''created'', ''queued''}" "truthy (t_task_id ?t)" "\<not> runtime_owned ready_db ?t"
    by (simp_all add: example_ticket_def runtime_owned_def ready_db_def example_db_def)
  have e: "db_attempts ready_db = []" "db_leases ready_db = []" by (simp_all add: ready_db_def example_db_def)
  have a: "is_ok (absolute_or_none (ae_home example_env) (cr_worktree_path example_request))"
    "is_ok (absolute_or_none (ae_home example_env) (cr_artifact_root example_request))" by code_simp+
  have f: "fi_attempt_id example_ids \<notin> a_id ` set (db_attempts ready_db)" "fi_lease_id example_ids \<notin> l_id ` set (db_leases ready_db)"
    "ae_token_hash example_env (fi_token example_ids) \<notin> l_token_hash ` set (db_leases ready_db)"
    "fi_attempt_id example_ids \<notin> l_attempt_id ` set (db_leases ready_db)" "(1::int) \<le> 60"
    by (simp_all add: e)
  have i: "fi_attempt_id example_ids = ''attempt-1''" by (simp add: example_ids_def)
  show ?thesis
    using claim_succeeds [OF ready_db_inv wf s(1,2) c(1-3) p s(3) f c(4,5) a, of 7] unfolding k i by auto
qed

end
