(* ===== verification/Ticket_Store.thy ===== *)
theory Ticket_Store
  imports Dependencies "HOL-Library.Product_Lexorder"
begin

text \<open>
  Tickets as rows of \<open>tasks\<close> (\<open>ticket_store.py\<close>, the record of
  \<open>ticket_models.py\<close>) and the creation service (\<open>ticket_creation.py\<close>). A Ticket
  record is validated by its constructor; the store allocates the next key of the global
  counter, refuses a branch it already knows, and writes the row and its audit event in one
  transaction.

  The builder, the branch guard and the two insert hooks are callbacks of the caller, so they
  are arguments; an absent hook is \<open>no_hook\<close>. The lookup of existing refs reads the
  repository's ref storage, which is outside the program: it is an argument of the service.
\<close>

section \<open>The Ticket record (ticket\_models.py)\<close>

record ticket_record =
  tk_task_key :: string
  tk_repository :: string
  tk_prompt :: string
  tk_title :: string
  tk_priority :: string
  tk_status :: string
  tk_repo_path :: path
  tk_base_branch :: string
  tk_branch :: string
  tk_worktree_path :: path
  tk_artifact_dir :: path
  tk_ai_title_status :: string
  tk_branch_slug_source :: string
  tk_github_repo :: "string option"
  tk_blocked_by :: "string option"
  tk_commit_message_suggestion :: "string option"
  tk_created_at :: "timestamp option"
  tk_updated_at :: "timestamp option"

text \<open>\<open>require_absolute_path\<close> on a \<open>Path\<close> object.\<close>

definition require_absolute :: "(string \<Rightarrow> string option) \<Rightarrow> path \<Rightarrow> path result" where
  "require_absolute home p =
     rbind (expanduser home p) (\<lambda>resolved. if is_absolute resolved then Inr resolved else Inl ValueError)"

definition init_blocked_by :: "string \<Rightarrow> string option \<Rightarrow> string option result" where
  "init_blocked_by key blocked_by =
     (case blocked_by of
        None \<Rightarrow> Inr None
      | Some b \<Rightarrow> rbind (normalize_task_key b) (\<lambda>b'.
          if b' = key then Inl ValueError else Inr (Some b')))"

text \<open>\<open>TicketRecord.__post_init__\<close>: the record of the validated fields, or the first refusal.\<close>

definition init_ticket_record ::
  "(string \<Rightarrow> string option) \<Rightarrow> ticket_record \<Rightarrow> ticket_record result" where
  "init_ticket_record home r =
     rbind (normalize_task_key (tk_task_key r)) (\<lambda>key.
     rbind (require_non_empty (tk_repository r)) (\<lambda>repo.
     rbind (require_non_empty (tk_prompt r)) (\<lambda>prompt.
     rbind (require_non_empty (tk_title r)) (\<lambda>title.
     rbind (validate_ticket_priority (tk_priority r)) (\<lambda>priority.
     rbind (validate_task_status (tk_status r)) (\<lambda>status.
     rbind (require_absolute home (tk_repo_path r)) (\<lambda>repo_path.
     rbind (require_non_empty (tk_base_branch r)) (\<lambda>base.
     rbind (require_non_empty (tk_branch r)) (\<lambda>branch.
     rbind (require_absolute home (tk_worktree_path r)) (\<lambda>worktree.
     rbind (require_absolute home (tk_artifact_dir r)) (\<lambda>artifacts.
     rbind (validate_ai_title_status (tk_ai_title_status r)) (\<lambda>ai.
     rbind (validate_metadata_source (tk_branch_slug_source r)) (\<lambda>src.
     rbind (init_blocked_by key (tk_blocked_by r)) (\<lambda>blocker.
     Inr (r\<lparr>tk_task_key := key, tk_repository := repo, tk_prompt := prompt, tk_title := title,
            tk_priority := priority, tk_status := status, tk_repo_path := repo_path,
            tk_base_branch := base, tk_branch := branch, tk_worktree_path := worktree,
            tk_artifact_dir := artifacts, tk_ai_title_status := ai, tk_branch_slug_source := src,
            tk_blocked_by := blocker\<rparr>)))))))))))))))"

section \<open>The store (ticket\_store.py)\<close>

text \<open>A column value handed to a constructor that calls a method of it.\<close>

definition column :: "string option \<Rightarrow> string result" where
  "column v = (case v of None \<Rightarrow> Inl TypeError | Some s \<Rightarrow> Inr s)"

definition row_to_ticket :: "(string \<Rightarrow> string option) \<Rightarrow> task_row \<Rightarrow> ticket_record result" where
  "row_to_ticket home row =
     rbind (column (t_prompt row)) (\<lambda>prompt.
     rbind (column (t_title row)) (\<lambda>title.
     rbind (column (t_priority row)) (\<lambda>priority.
     rbind (column (t_base_branch row)) (\<lambda>base.
     rbind (column (t_branch row)) (\<lambda>branch.
     rbind (column (t_worktree_path row)) (\<lambda>worktree.
     rbind (column (t_artifact_dir row)) (\<lambda>artifacts.
     rbind (column (t_ai_title_status row)) (\<lambda>ai.
     rbind (column (t_branch_slug_source row)) (\<lambda>src.
     init_ticket_record home
       \<lparr>tk_task_key = t_key row, tk_repository = t_project row, tk_prompt = prompt, tk_title = title,
        tk_priority = priority, tk_status = t_status row, tk_repo_path = parse_path (t_repo_path row),
        tk_base_branch = base, tk_branch = branch, tk_worktree_path = parse_path worktree,
        tk_artifact_dir = parse_path artifacts, tk_ai_title_status = ai, tk_branch_slug_source = src,
        tk_github_repo = t_github_repo row, tk_blocked_by = t_blocked_by row,
        tk_commit_message_suggestion = t_commit_message_suggestion row,
        tk_created_at = Some (t_created_at row), tk_updated_at = Some (t_updated_at row)\<rparr>)))))))))"

text \<open>The \<open>highest\<close> loop over the keys that match \<open>AT-*\<close>.\<close>

fun highest_sequence :: "int \<Rightarrow> string list \<Rightarrow> int" where
  "highest_sequence highest [] = highest"
| "highest_sequence highest (k # ks) =
     highest_sequence
       (case parse_task_key_sequence k of
          None \<Rightarrow> highest
        | Some sequence \<Rightarrow> if sequence > highest then sequence else highest) ks"

definition next_task_key_sequence :: "db \<Rightarrow> int" where
  "next_task_key_sequence db =
     max (highest_sequence 0 (filter (starts_with ''AT-'') (map t_key (db_tasks db))) + 1) 1"

definition reject_recorded_branch :: "ticket_record \<Rightarrow> db \<Rightarrow> unit result" where
  "reject_recorded_branch r db =
     (case find (\<lambda>t. t_repo_path t = path_str (tk_repo_path r) \<and> t_branch t = Some (tk_branch r)) (db_tasks db) of
        Some t \<Rightarrow> Inl (TicketBranchExistsError (tk_branch r) ''tasks'' (t_key t))
      | None \<Rightarrow>
          (case find (\<lambda>w. w_repo_path w = path_str (tk_repo_path r) \<and> w_branch w = tk_branch r) (db_worktrees db) of
             Some w \<Rightarrow> Inl (TicketBranchExistsError (tk_branch r) ''task_worktrees'' (w_task_key w))
           | None \<Rightarrow> Inr ()))"

text \<open>
  \<open>INSERT INTO tasks\<close>: primary key, the two partial unique indexes of
  \<open>ticket_fields_schema.py\<close> and the unique index on \<open>task_id\<close>.
\<close>

definition insert_task :: "task_row \<Rightarrow> db \<Rightarrow> db result" where
  "insert_task r db =
     (if list_ex (\<lambda>t. t_key t = t_key r \<or>
            t_worktree_path r \<noteq> None \<and> t_worktree_path t = t_worktree_path r \<or>
            t_branch r \<noteq> None \<and> t_repo_path t = t_repo_path r \<and> t_branch t = t_branch r \<or>
            t_task_id r \<noteq> None \<and> t_task_id t = t_task_id r) (db_tasks db)
      then Inl (SqlAbort ''UNIQUE constraint failed'')
      else Inr (db\<lparr>db_tasks := db_tasks db @ [r]\<rparr>))"

definition ticket_row_of :: "timestamp \<Rightarrow> ticket_record \<Rightarrow> task_row" where
  "ticket_row_of now r =
     (let created = (case tk_created_at r of None \<Rightarrow> now | Some c \<Rightarrow> c);
          updated = (case tk_updated_at r of None \<Rightarrow> now | Some u \<Rightarrow> u)
      in \<lparr>t_key = tk_task_key r, t_project = tk_repository r, t_title = Some (tk_title r),
          t_status = tk_status r, t_repo_path = path_str (tk_repo_path r),
          t_artifact_dir = Some (path_str (tk_artifact_dir r)), t_blocked_reason = None,
          t_created_at = created, t_updated_at = updated, t_last_synced_at = Some created,
          t_executor = None, t_model = None, t_prompt = Some (tk_prompt r),
          t_priority = Some (tk_priority r), t_ai_title_status = Some (tk_ai_title_status r),
          t_branch_slug_source = Some (tk_branch_slug_source r), t_blocked_by = tk_blocked_by r,
          t_github_repo = tk_github_repo r, t_base_branch = Some (tk_base_branch r),
          t_branch = Some (tk_branch r), t_worktree_path = Some (path_str (tk_worktree_path r)),
          t_commit_message_suggestion = tk_commit_message_suggestion r, t_task_id = None,
          t_task_class = ''legacy'', t_active_attempt_id = None, t_is_legacy = True,
          t_board = Some (tk_repository r), t_hermes_task_id = None, t_provider = None, t_tools = None,
          t_pi_bin = None, t_reset_generation = 0\<rparr>)"

text \<open>\<open>except sqlite3.IntegrityError\<close>.\<close>

definition integrity_error :: "exn \<Rightarrow> 'a result \<Rightarrow> 'a result" where
  "integrity_error e m = (case m of Inl (SqlAbort _) \<Rightarrow> Inl e | _ \<Rightarrow> m)"

definition no_hook :: "ticket_record \<Rightarrow> db \<Rightarrow> db result" where
  "no_hook r db = Inr db"

definition create_ticket ::
  "(string \<Rightarrow> string option) \<Rightarrow> timestamp \<Rightarrow> (string \<Rightarrow> ticket_record result) \<Rightarrow> string \<Rightarrow> json
     \<Rightarrow> string option \<Rightarrow> (ticket_record \<Rightarrow> unit result) \<Rightarrow> (ticket_record \<Rightarrow> db \<Rightarrow> db result)
     \<Rightarrow> (ticket_record \<Rightarrow> db \<Rightarrow> db result) \<Rightarrow> db \<Rightarrow> (db \<times> ticket_record) result" where
  "create_ticket home now build actor payload blocked_by branch_guard before_insert after_insert db =
     rbind (validate_task_event_type ''created'') (\<lambda>event_type.
     rbind (require_non_empty actor) (\<lambda>normalized_actor.
     rbind (case blocked_by of None \<Rightarrow> Inr None
            | Some b \<Rightarrow> rbind (normalize_task_key b) (\<lambda>b'. Inr (Some b'))) (\<lambda>blocker.
       if (case blocker of None \<Rightarrow> False | Some b \<Rightarrow> get_task db b = None) then Inl TicketStoreError
       else
     rbind (format_task_key (next_task_key_sequence db)) (\<lambda>task_key.
     rbind (build task_key) (\<lambda>ticket.
       if tk_task_key ticket \<noteq> task_key then Inl TicketStoreError
       else
     rbind (init_ticket_record home
              (ticket\<lparr>tk_created_at := Some (case tk_created_at ticket of None \<Rightarrow> now | Some c \<Rightarrow> c),
                      tk_updated_at := Some (case tk_updated_at ticket of None \<Rightarrow> now | Some u \<Rightarrow> u)\<rparr>)) (\<lambda>record.
     rbind (reject_recorded_branch record db) (\<lambda>_.
     rbind (branch_guard record) (\<lambda>_.
     rbind (before_insert record db) (\<lambda>db.
     rbind (integrity_error TicketStoreError
              (rbind (insert_task (ticket_row_of now record) db)
                 (insert_event (tk_task_key record) event_type normalized_actor payload
                    (case tk_created_at record of None \<Rightarrow> now | Some c \<Rightarrow> c)))) (\<lambda>db.
     rbind (after_insert record db) (\<lambda>db.
     Inr (db, record))))))))))))"

definition get_ticket :: "(string \<Rightarrow> string option) \<Rightarrow> db \<Rightarrow> string \<Rightarrow> ticket_record option result" where
  "get_ticket home db task_key =
     rbind (normalize_task_key task_key) (\<lambda>normalized.
       case find (\<lambda>t. t_key t = normalized \<and> t_prompt t \<noteq> None) (db_tasks db) of
         None \<Rightarrow> Inr None
       | Some row \<Rightarrow> rbind (row_to_ticket home row) (\<lambda>t. Inr (Some t)))"

fun map_ok :: "('a \<Rightarrow> 'b result) \<Rightarrow> 'a list \<Rightarrow> 'b list result" where
  "map_ok f [] = Inr []"
| "map_ok f (x # xs) = rbind (f x) (\<lambda>y. rbind (map_ok f xs) (\<lambda>ys. Inr (y # ys)))"

text \<open>
  \<open>ORDER BY created_at DESC, task_key DESC\<close>: the reverse of the ascending order, which has
  no ties, since \<open>task_key\<close> is the primary key.
\<close>

definition list_tickets ::
  "(string \<Rightarrow> string option) \<Rightarrow> db \<Rightarrow> string option \<Rightarrow> string list option \<Rightarrow> string option
     \<Rightarrow> ticket_record list result" where
  "list_tickets home db repo statuses priority =
     rbind (case statuses of None \<Rightarrow> Inr None
            | Some ss \<Rightarrow> rbind (map_ok validate_task_status ss) (\<lambda>ss'. Inr (Some ss'))) (\<lambda>wanted.
       if wanted = Some [] then Inr []
       else
     rbind (if truthy priority then rbind (validate_ticket_priority (the priority)) (\<lambda>p. Inr (Some p))
            else Inr None) (\<lambda>wanted_priority.
       map_ok (row_to_ticket home)
         (rev (sort_key (\<lambda>t. (t_created_at t, t_key t))
           (filter (\<lambda>t. t_prompt t \<noteq> None \<and>
              (truthy repo \<longrightarrow> Some (t_project t) = repo) \<and>
              (case wanted of None \<Rightarrow> True | Some ss \<Rightarrow> t_status t \<in> set ss) \<and>
              (case wanted_priority of None \<Rightarrow> True | Some p \<Rightarrow> t_priority t = Some p))
            (db_tasks db))))))"

section \<open>The creation service (ticket\_creation.py)\<close>

record creation_request =
  cq_repository :: string
  cq_prompt :: string
  cq_priority :: string
  cq_blocked_by :: "string option"

record resolved_metadata =
  md_title :: string
  md_ai_title_status :: string
  md_branch_slug :: string
  md_branch_slug_source :: string
  md_commit_message_suggestion :: "string option"
  md_ai_attempted :: bool
  md_ai_error :: "string option"

definition to_audit_payload :: "resolved_metadata \<Rightarrow> (string \<times> json) list" where
  "to_audit_payload md =
     [(''ai_title_status'', JStr (md_ai_title_status md)),
      (''branch_slug_source'', JStr (md_branch_slug_source md)),
      (''ai_attempted'', JBool (md_ai_attempted md)), (''ai_error'', jopt (md_ai_error md)),
      (''commit_message_suggested'', JBool (md_commit_message_suggestion md \<noteq> None))]"

definition CREATION_SAFETY_FLAGS :: "(string \<times> json) list" where
  "CREATION_SAFETY_FLAGS =
     [(''git_mutation'', JBool False), (''worktree_created'', JBool False),
      (''branch_created'', JBool False), (''directory_created'', JBool False),
      (''executor_started'', JBool False)]"

definition creation_payload ::
  "creation_request \<Rightarrow> ticket_repository \<Rightarrow> resolved_metadata \<Rightarrow> string \<Rightarrow> string \<Rightarrow> json" where
  "creation_payload req repo md persisted display =
     JObj (foldl (\<lambda>acc (k, v). dict_set k v acc)
       [(''kind'', JStr ''ticket_created''), (''repository'', JStr (repository repo)),
        (''priority'', JStr (cq_priority req)), (''initial_status'', JStr persisted),
        (''initial_display_status'', JStr display), (''blocked_by'', jopt (cq_blocked_by req)),
        (''prompt_chars'', JInt (int (length (cq_prompt req)))),
        (''safety_flags'', JObj CREATION_SAFETY_FLAGS)]
       (to_audit_payload md))"

text \<open>The closure \<open>build\<close> of the service.\<close>

definition build_ticket ::
  "(string \<Rightarrow> string option) \<Rightarrow> creation_request \<Rightarrow> ticket_repository \<Rightarrow> resolved_metadata \<Rightarrow> string
     \<Rightarrow> string \<Rightarrow> ticket_record result" where
  "build_ticket home req repo md persisted task_key =
     rbind (derive_ticket_metadata home repo task_key (md_branch_slug md)) (\<lambda>d.
       init_ticket_record home
         \<lparr>tk_task_key = task_key, tk_repository = repository repo, tk_prompt = cq_prompt req,
          tk_title = md_title md, tk_priority = cq_priority req, tk_status = persisted,
          tk_repo_path = parse_path (tdm_repo_path d), tk_base_branch = tdm_base_branch d,
          tk_branch = tdm_branch d, tk_worktree_path = tdm_worktree_path d,
          tk_artifact_dir = tdm_artifact_dir d, tk_ai_title_status = md_ai_title_status md,
          tk_branch_slug_source = md_branch_slug_source md, tk_github_repo = tdm_github_repo d,
          tk_blocked_by = cq_blocked_by req,
          tk_commit_message_suggestion = md_commit_message_suggestion md,
          tk_created_at = None, tk_updated_at = None\<rparr>)"

definition reject_repository_branch ::
  "(path \<Rightarrow> string \<Rightarrow> string list result) \<Rightarrow> ticket_record \<Rightarrow> unit result" where
  "reject_repository_branch branch_lookup r =
     rbind (branch_lookup (tk_repo_path r) (tk_branch r)) (\<lambda>existing.
       if existing \<noteq> [] then Inl (TicketBranchExistsError (tk_branch r) ''repository'' (py_join '', '' existing))
       else Inr ())"

definition creation_error :: "exn \<Rightarrow> exn" where
  "creation_error e =
     (case e of
        TicketBranchExistsError b s x \<Rightarrow> TicketBranchCollisionError b s x
      | GitRefStorageError \<Rightarrow> TicketBranchCheckUnavailableError
      | TicketStoreError \<Rightarrow> TicketCreationError
      | ValueError \<Rightarrow> TicketCreationError
      | _ \<Rightarrow> e)"

definition create_ticket_from_request ::
  "(string \<Rightarrow> string option) \<Rightarrow> timestamp \<Rightarrow> (path \<Rightarrow> string \<Rightarrow> string list result) \<Rightarrow> creation_request
     \<Rightarrow> ticket_repository \<Rightarrow> resolved_metadata \<Rightarrow> string \<Rightarrow> db \<Rightarrow> (db \<times> ticket_record) result" where
  "create_ticket_from_request home now branch_lookup req repo md actor db =
     (let display_status = initial_ticket_status (cq_blocked_by req) in
     rbind (to_persisted_status display_status) (\<lambda>persisted_status.
       case create_ticket home now (build_ticket home req repo md persisted_status) actor
              (creation_payload req repo md persisted_status display_status)
              (cq_blocked_by req) (reject_repository_branch branch_lookup) no_hook no_hook db of
         Inl e \<Rightarrow> Inl (creation_error e)
       | Inr r \<Rightarrow> Inr r))"

section \<open>Paths survive storage\<close>

definition path_normal :: "path \<Rightarrow> bool" where
  "path_normal p \<longleftrightarrow> path_root p \<in> {[], ''/'', ''//''} \<and>
     list_all (\<lambda>w. w \<noteq> [] \<and> w \<noteq> ''.'' \<and> CHR ''/'' \<notin> set w) (path_parts p)"

lemma split_on_sep_free: "c \<notin> set w \<Longrightarrow> split_on c w = [w]"
  by (induction w) auto

lemma split_on_nonempty [simp]: "split_on c s \<noteq> []"
  by (induction s) (auto split: list.split)

lemma split_on_word: "c \<notin> set w \<Longrightarrow> split_on c (w @ c # s) = w # split_on c s"
  by (induction w) auto

lemma split_on_join:
  "ws \<noteq> [] \<Longrightarrow> \<forall>w \<in> set ws. c \<notin> set w \<Longrightarrow> split_on c (py_join [c] ws) = ws"
  by (induction "[c]" ws rule: py_join.induct) (simp_all add: split_on_sep_free split_on_word)

lemma split_on_parts: "w \<in> set (split_on c s) \<Longrightarrow> c \<notin> set w"
  by (induction s arbitrary: w) (auto split: list.splits if_splits)

lemma parse_path_normal: "path_normal (parse_path s)"
  by (auto simp: path_normal_def parse_path_def list_all_iff split_on_parts)

lemma path_join_normal: "path_normal p \<Longrightarrow> path_normal q \<Longrightarrow> path_normal (path_join p q)"
  by (simp add: path_normal_def path_join_def)

lemma expanduser_normal:
  assumes "path_normal p" and "expanduser home p = Inr q"
  shows "path_normal q"
proof -
  have "path_normal (Path [] rest)" if "path_parts p = w # rest" for w rest
    using assms(1) that by (simp add: path_normal_def)
  then show ?thesis
    using assms parse_path_normal path_join_normal
    by (auto simp: expanduser_def split: list.splits if_splits option.splits)
qed

lemma require_absolute_Inr:
  assumes "require_absolute home p = Inr q"
  shows "is_absolute q" "require_absolute home q = Inr q" "path_normal p \<Longrightarrow> path_normal q"
proof -
  show a: "is_absolute q" using assms by (auto simp: require_absolute_def rbind_Inr_iff split: if_splits)
  have "expanduser home q = Inr q"
    using a by (auto simp: expanduser_def is_absolute_def split: list.split)
  then show "require_absolute home q = Inr q" using a by (simp add: require_absolute_def)
  show "path_normal p \<Longrightarrow> path_normal q"
    using assms by (auto simp: require_absolute_def rbind_Inr_iff intro: expanduser_normal split: if_splits)
qed

lemma parse_path_str:
  assumes "path_normal p" and "is_absolute p"
  shows "parse_path (path_str p) = p"
proof -
  obtain r ws where p: "p = Path r ws" by (cases p)
  have r: "r = ''/'' \<or> r = ''//''" using assms by (auto simp: p path_normal_def is_absolute_def)
  have ws: "\<forall>w \<in> set ws. w \<noteq> [] \<and> w \<noteq> ''.'' \<and> CHR ''/'' \<notin> set w"
    using assms(1) by (simp add: p path_normal_def list_all_iff)
  have hd: "\<not> starts_with ''/'' (py_join ''/'' ws)"
    using ws by (cases ws rule: list.exhaust; cases "tl ws"; cases "hd ws")
      (auto simp: starts_with_iff)
  have sp: "filter (\<lambda>w. w \<noteq> [] \<and> w \<noteq> ''.'') (split_on (CHR ''/'') (py_join ''/'' ws)) = ws"
    using ws by (cases "ws = []") (simp_all add: split_on_join filter_id_conv)
  show ?thesis
    using r hd sp unfolding p parse_path_def path_str_def
    by (auto simp: starts_with_iff)
qed

section \<open>Validation is idempotent\<close>

lemma validate_in_idem: "validate_in vs x = Inr y \<Longrightarrow> validate_in vs y = Inr y"
  by (auto simp: validate_in_def rbind_Inr_iff require_non_empty_Inr split: if_splits)

lemma priority_idem:
  assumes "validate_ticket_priority x = Inr y"
  shows "validate_ticket_priority y = Inr y"
proof -
  have "y \<in> set TICKET_PRIORITY_SEQUENCE"
    using assms by (auto simp: validate_ticket_priority_def rbind_Inr_iff Let_def split: if_splits)
  moreover have "list_all (\<lambda>p. validate_ticket_priority p = Inr p) TICKET_PRIORITY_SEQUENCE" by code_simp
  ultimately show ?thesis by (auto simp: list_all_iff)
qed

lemma init_blocked_by_idem:
  assumes "init_blocked_by key b = Inr c"
  shows "init_blocked_by key c = Inr c"
proof (cases b)
  case (Some x)
  then obtain y where y: "normalize_task_key x = Inr y" "y \<noteq> key" "c = Some y"
    using assms by (auto simp: init_blocked_by_def rbind_Inr_iff split: if_splits)
  then show ?thesis using normalize_task_key_idem [OF y(1)] by (simp add: init_blocked_by_def)
qed (use assms in \<open>simp add: init_blocked_by_def\<close>)

lemma init_ticket_record_idem:
  assumes "init_ticket_record home r = Inr r'"
  shows "init_ticket_record home r' = Inr r'"
    and "tk_created_at r' = tk_created_at r" and "tk_updated_at r' = tk_updated_at r"
    and "path_normal (tk_repo_path r) \<Longrightarrow> path_normal (tk_repo_path r')"
    and "path_normal (tk_worktree_path r) \<Longrightarrow> path_normal (tk_worktree_path r')"
    and "path_normal (tk_artifact_dir r) \<Longrightarrow> path_normal (tk_artifact_dir r')"
proof -
  obtain key repo prompt title priority status repo_path base branch worktree artifacts ai src blocker
    where k: "normalize_task_key (tk_task_key r) = Inr key" "require_non_empty (tk_repository r) = Inr repo"
      "require_non_empty (tk_prompt r) = Inr prompt" "require_non_empty (tk_title r) = Inr title"
      "validate_ticket_priority (tk_priority r) = Inr priority" "validate_task_status (tk_status r) = Inr status"
      "require_absolute home (tk_repo_path r) = Inr repo_path" "require_non_empty (tk_base_branch r) = Inr base"
      "require_non_empty (tk_branch r) = Inr branch" "require_absolute home (tk_worktree_path r) = Inr worktree"
      "require_absolute home (tk_artifact_dir r) = Inr artifacts"
      "validate_ai_title_status (tk_ai_title_status r) = Inr ai"
      "validate_metadata_source (tk_branch_slug_source r) = Inr src"
      "init_blocked_by key (tk_blocked_by r) = Inr blocker"
      "r\<lparr>tk_task_key := key, tk_repository := repo, tk_prompt := prompt, tk_title := title,
            tk_priority := priority, tk_status := status, tk_repo_path := repo_path,
            tk_base_branch := base, tk_branch := branch, tk_worktree_path := worktree,
            tk_artifact_dir := artifacts, tk_ai_title_status := ai, tk_branch_slug_source := src,
            tk_blocked_by := blocker\<rparr> = r'"
    using assms unfolding init_ticket_record_def rbind_Inr_iff sum.inject
    by (elim exE conjE) (rule that, assumption+)
  note b = init_blocked_by_idem [OF k(14)]
  note v = k(5,6,12,13) [unfolded validate_task_status_def validate_ai_title_status_def validate_metadata_source_def]
  have idem: "normalize_task_key key = Inr key" "require_non_empty repo = Inr repo"
    "require_non_empty prompt = Inr prompt" "require_non_empty title = Inr title"
    "require_non_empty base = Inr base" "require_non_empty branch = Inr branch"
    using k(1-4,8,9) normalize_task_key_idem require_non_empty_idem by blast+
  show "init_ticket_record home r' = Inr r'"
    unfolding init_ticket_record_def k(15) [symmetric]
    by (simp add: idem b priority_idem [OF k(5)] validate_task_status_def validate_ai_title_status_def
        validate_metadata_source_def validate_in_idem [OF v(2)] validate_in_idem [OF v(3)]
        validate_in_idem [OF v(4)] require_absolute_Inr(2) [OF k(7)] require_absolute_Inr(2) [OF k(10)]
        require_absolute_Inr(2) [OF k(11)])
  show "tk_created_at r' = tk_created_at r" "tk_updated_at r' = tk_updated_at r" by (simp_all add: k(15) [symmetric])
  show "path_normal (tk_repo_path r) \<Longrightarrow> path_normal (tk_repo_path r')"
    "path_normal (tk_worktree_path r) \<Longrightarrow> path_normal (tk_worktree_path r')"
    "path_normal (tk_artifact_dir r) \<Longrightarrow> path_normal (tk_artifact_dir r')"
    using k(7,10,11) require_absolute_Inr(3) by (auto simp: k(15) [symmetric])
qed

section \<open>What a creation writes\<close>

lemma map_filter_append: "List.map_filter f (xs @ ys) = List.map_filter f xs @ List.map_filter f ys"
  by (induction xs) (auto simp: map_filter_simps split: option.split)

lemma highest_sequence_ge: "h \<le> highest_sequence h ks"
proof (induction ks arbitrary: h)
  case (Cons k ks)
  let ?h = "case parse_task_key_sequence k of None \<Rightarrow> h | Some s \<Rightarrow> if s > h then s else h"
  have "h \<le> ?h" by (auto split: option.split)
  also have "?h \<le> highest_sequence ?h ks" by (rule Cons.IH)
  finally show ?case by simp
qed simp

lemma highest_sequence_bound:
  "k \<in> set ks \<Longrightarrow> parse_task_key_sequence k = Some s \<Longrightarrow> s \<le> highest_sequence h ks"
proof (induction ks arbitrary: h)
  case (Cons k' ks)
  show ?case
  proof (cases "k = k'")
    case True
    let ?h = "if s > h then s else h"
    have "s \<le> ?h" by simp
    also have "?h \<le> highest_sequence ?h ks" by (rule highest_sequence_ge)
    finally show ?thesis using Cons.prems(2) True by simp
  next
    case False
    then show ?thesis using Cons.prems Cons.IH by simp
  qed
qed simp

lemma next_key_fresh:
  assumes "format_task_key (next_task_key_sequence db) = Inr k"
  shows "get_task db k = None"
proof (rule ccontr)
  let ?n = "next_task_key_sequence db"
  assume "get_task db k \<noteq> None"
  then have mem: "k \<in> set (map t_key (db_tasks db))" by (simp only: get_task_keys)
  have k: "1 \<le> ?n" "k = ''AT-'' @ zero_padded (nat ?n)" using assms by (simp_all add: format_task_key_Inr)
  then have "parse_task_key_sequence k = Some ?n" using parse_formatted [of "nat ?n"] by simp
  moreover have "k \<in> set (filter (starts_with ''AT-'') (map t_key (db_tasks db)))"
    using mem unfolding k(2) by (simp only: set_filter mem_Collect_eq starts_with_append simp_thms)
  ultimately have "?n \<le> highest_sequence 0 (filter (starts_with ''AT-'') (map t_key (db_tasks db)))"
    by (rule highest_sequence_bound [rotated])
  then show False by (simp add: next_task_key_sequence_def)
qed

lemma next_key_ok: "\<exists>k. format_task_key (next_task_key_sequence db) = Inr k"
  by (simp add: format_task_key_Inr next_task_key_sequence_def)

lemma integrity_error_Inr: "integrity_error e m = Inr x \<longleftrightarrow> m = Inr x"
  by (auto simp: integrity_error_def split: sum.split exn.split)

lemma init_ticket_record_key:
  "init_ticket_record home r = Inr r' \<Longrightarrow> normalize_task_key (tk_task_key r) = Inr (tk_task_key r')"
  unfolding init_ticket_record_def rbind_Inr_iff sum.inject by (elim exE conjE) auto

lemma created_event_type: "validate_task_event_type ''created'' = Inr ''created''" by code_simp

lemma create_ticket_Inr:
  assumes "create_ticket home now build actor payload blocked_by guard no_hook no_hook db = Inr (db', r)"
  obtains act ticket d1 where
    "require_non_empty actor = Inr act" "format_task_key (next_task_key_sequence db) = Inr (tk_task_key r)"
    "build (tk_task_key r) = Inr ticket" "tk_task_key ticket = tk_task_key r"
    "init_ticket_record home
       (ticket\<lparr>tk_created_at := Some (case tk_created_at ticket of None \<Rightarrow> now | Some c \<Rightarrow> c),
               tk_updated_at := Some (case tk_updated_at ticket of None \<Rightarrow> now | Some u \<Rightarrow> u)\<rparr>) = Inr r"
    "reject_recorded_branch r db = Inr ()" "guard r = Inr ()"
    "insert_task (ticket_row_of now r) db = Inr d1"
    "insert_event (tk_task_key r) ''created'' act payload
       (case tk_created_at r of None \<Rightarrow> now | Some c \<Rightarrow> c) d1 = Inr db'"
    "\<forall>b. blocked_by = Some b \<longrightarrow> (\<exists>b'. normalize_task_key b = Inr b' \<and> get_task db b' \<noteq> None)"
proof -
  obtain act blocker key ticket u v d1 where k: "require_non_empty actor = Inr act"
    "(case blocked_by of None \<Rightarrow> Inr None
      | Some b \<Rightarrow> rbind (normalize_task_key b) (\<lambda>b'. Inr (Some b'))) = Inr blocker"
    "\<not> (case blocker of None \<Rightarrow> False | Some b \<Rightarrow> get_task db b = None)"
    "format_task_key (next_task_key_sequence db) = Inr key" "build key = Inr ticket"
    "tk_task_key ticket = key"
    "init_ticket_record home
       (ticket\<lparr>tk_created_at := Some (case tk_created_at ticket of None \<Rightarrow> now | Some c \<Rightarrow> c),
               tk_updated_at := Some (case tk_updated_at ticket of None \<Rightarrow> now | Some u \<Rightarrow> u)\<rparr>) = Inr r"
    "reject_recorded_branch r db = Inr v" "guard r = Inr u"
    "insert_task (ticket_row_of now r) db = Inr d1"
    "insert_event (tk_task_key r) ''created'' act payload
       (case tk_created_at r of None \<Rightarrow> now | Some c \<Rightarrow> c) d1 = Inr db'"
    using assms
    unfolding create_ticket_def no_hook_def created_event_type rbind_simps
    unfolding rbind_Inr_iff if_raise_Inr integrity_error_Inr sum.inject prod.inject not_not
    by (elim exE conjE, hypsubst) (rule that, (assumption | rule refl)+)
  have "normalize_task_key key = Inr key"
    using k(4) formatted_key_chars by (auto simp: format_task_key_Inr intro!: normalize_task_key_fixed)
  then have key: "tk_task_key r = key" using init_ticket_record_key [OF k(7)] k(6) by simp
  have "\<forall>b. blocked_by = Some b \<longrightarrow> (\<exists>b'. normalize_task_key b = Inr b' \<and> get_task db b' \<noteq> None)"
    using k(2,3) by (auto simp: rbind_Inr_iff split: option.splits)
  then show ?thesis using that [of act ticket d1] k key by simp
qed

lemma insert_task_Inr:
  "insert_task r db = Inr db' \<longleftrightarrow> db' = db\<lparr>db_tasks := db_tasks db @ [r]\<rparr> \<and>
     (\<forall>t \<in> set (db_tasks db). t_key t \<noteq> t_key r \<and>
        (t_worktree_path r \<noteq> None \<longrightarrow> t_worktree_path t \<noteq> t_worktree_path r) \<and>
        (t_branch r \<noteq> None \<longrightarrow> \<not> (t_repo_path t = t_repo_path r \<and> t_branch t = t_branch r)) \<and>
        (t_task_id r \<noteq> None \<longrightarrow> t_task_id t \<noteq> t_task_id r))"
  unfolding insert_task_def list_ex_iff if_raise_Inr sum.inject by blast

lemma ticket_row_of_sel [simp]:
  "t_key (ticket_row_of now r) = tk_task_key r" "t_blocked_by (ticket_row_of now r) = tk_blocked_by r"
  "t_prompt (ticket_row_of now r) = Some (tk_prompt r)" "t_status (ticket_row_of now r) = tk_status r"
  "t_task_id (ticket_row_of now r) = None" "t_active_attempt_id (ticket_row_of now r) = None"
  "t_branch (ticket_row_of now r) = Some (tk_branch r)"
  "t_worktree_path (ticket_row_of now r) = Some (path_str (tk_worktree_path r))"
  "t_repo_path (ticket_row_of now r) = path_str (tk_repo_path r)"
  by (simp_all add: ticket_row_of_def Let_def)

lemma row_to_ticket_round_trip:
  assumes "init_ticket_record home r = Inr r" and "tk_created_at r = Some c" and "tk_updated_at r = Some u"
    and "parse_path (path_str (tk_repo_path r)) = tk_repo_path r"
    and "parse_path (path_str (tk_worktree_path r)) = tk_worktree_path r"
    and "parse_path (path_str (tk_artifact_dir r)) = tk_artifact_dir r"
  shows "row_to_ticket home (ticket_row_of now r) = Inr r"
  using assms by (cases r) (simp add: row_to_ticket_def ticket_row_of_def column_def Let_def)

lemma init_ticket_record_absolute:
  assumes "init_ticket_record home r = Inr r'"
  shows "is_absolute (tk_repo_path r') \<and> is_absolute (tk_worktree_path r') \<and> is_absolute (tk_artifact_dir r')"
  using assms unfolding init_ticket_record_def rbind_Inr_iff sum.inject
  by (elim exE conjE) (auto dest: require_absolute_Inr(1))

lemma derived_paths_normal:
  assumes "derive_ticket_metadata home repo key slug = Inr d"
  shows "path_normal (tdm_worktree_path d)" "path_normal (tdm_artifact_dir d)"
proof -
  have abs: "path_normal q" if "ensure_absolute_path home s = Inr q" for s q
    using that by (auto simp: ensure_absolute_path_def rbind_Inr_iff split: if_splits
        intro: expanduser_normal [OF parse_path_normal])
  show "path_normal (tdm_worktree_path d)" "path_normal (tdm_artifact_dir d)"
    using assms by (auto simp: derive_ticket_metadata_def worktree_path_from_base_def artifact_dir_for_def
        rbind_Inr_iff intro!: path_join_normal parse_path_normal dest: abs)
qed

lemma build_ticket_paths:
  assumes "build_ticket home req repo md persisted key = Inr r"
  shows "path_normal (tk_repo_path r) \<and> path_normal (tk_worktree_path r) \<and> path_normal (tk_artifact_dir r)"
proof -
  obtain d r0 where d: "derive_ticket_metadata home repo key (md_branch_slug md) = Inr d"
    "init_ticket_record home r0 = Inr r" "tk_repo_path r0 = parse_path (tdm_repo_path d)"
    "tk_worktree_path r0 = tdm_worktree_path d" "tk_artifact_dir r0 = tdm_artifact_dir d"
    using assms by (force simp: build_ticket_def rbind_Inr_iff)
  then show ?thesis
    using init_ticket_record_idem(4-6) [OF d(2)] derived_paths_normal [OF d(1)] parse_path_normal by simp
qed

lemma map_sum_rbind: "map_sum id g (rbind m f) = rbind m (\<lambda>x. map_sum id g (f x))"
  by (cases m) simp_all

lemma init_ticket_record_times:
  "init_ticket_record home (r\<lparr>tk_created_at := a, tk_updated_at := b\<rparr>) =
     map_sum id (\<lambda>x. x\<lparr>tk_created_at := a, tk_updated_at := b\<rparr>) (init_ticket_record home r)"
  unfolding init_ticket_record_def map_sum_rbind by (cases r) simp

lemma created_rows:
  assumes "create_ticket home now build actor payload blocked_by guard no_hook no_hook db = Inr (db', r)"
  shows "events_only (db\<lparr>db_tasks := db_tasks db @ [ticket_row_of now r]\<rparr>) db'"
    and "db_tasks db' = db_tasks db @ [ticket_row_of now r]"
    and "\<forall>t \<in> set (db_tasks db). t_key t \<noteq> tk_task_key r \<and>
       t_worktree_path t \<noteq> Some (path_str (tk_worktree_path r)) \<and>
       \<not> (t_repo_path t = path_str (tk_repo_path r) \<and> t_branch t = Some (tk_branch r))"
    and "guard r = Inr () \<and> reject_recorded_branch r db = Inr ()"
proof -
  obtain act d1 where k: "guard r = Inr ()" "reject_recorded_branch r db = Inr ()"
    "insert_task (ticket_row_of now r) db = Inr d1"
    "insert_event (tk_task_key r) ''created'' act payload
       (case tk_created_at r of None \<Rightarrow> now | Some c \<Rightarrow> c) d1 = Inr db'"
    using assms by (rule create_ticket_Inr)
  have d1: "d1 = db\<lparr>db_tasks := db_tasks db @ [ticket_row_of now r]\<rparr>"
    using k(3) unfolding insert_task_Inr by blast
  show e: "events_only (db\<lparr>db_tasks := db_tasks db @ [ticket_row_of now r]\<rparr>) db'"
    using insert_event_events_only [OF k(4)] by (simp only: d1)
  show "db_tasks db' = db_tasks db @ [ticket_row_of now r]" using events_onlyD(1) [OF e] by simp
  show "\<forall>t \<in> set (db_tasks db). t_key t \<noteq> tk_task_key r \<and>
       t_worktree_path t \<noteq> Some (path_str (tk_worktree_path r)) \<and>
       \<not> (t_repo_path t = path_str (tk_repo_path r) \<and> t_branch t = Some (tk_branch r))"
    using k(3) unfolding insert_task_Inr by simp
  show "guard r = Inr () \<and> reject_recorded_branch r db = Inr ()"
    using k(1,2) by blast
qed

definition initial_persisted_status :: "creation_request \<Rightarrow> string" where
  "initial_persisted_status req =
     (case cq_blocked_by req of
        None \<Rightarrow> ''created''
      | Some b \<Rightarrow> if py_strip b \<noteq> [] then ''blocked'' else ''created'')"

lemma initial_persisted:
  "to_persisted_status (initial_ticket_status (cq_blocked_by req)) = Inr (initial_persisted_status req)"
proof -
  have "to_persisted_status ''ready'' = Inr ''created''" "to_persisted_status ''blocked'' = Inr ''blocked''"
    by code_simp+
  then show ?thesis
    by (simp add: initial_ticket_status_def initial_persisted_status_def split: option.split)
qed

lemma create_from_request_Inr:
  "create_ticket_from_request home now branch_lookup req repo md actor db = Inr x \<longleftrightarrow>
     create_ticket home now (build_ticket home req repo md (initial_persisted_status req)) actor
       (creation_payload req repo md (initial_persisted_status req) (initial_ticket_status (cq_blocked_by req)))
       (cq_blocked_by req) (reject_repository_branch branch_lookup) no_hook no_hook db = Inr x"
  unfolding create_ticket_from_request_def Let_def initial_persisted rbind_simps
  by (auto split: sum.splits)

lemma get_ticket_eq:
  "get_ticket home db k = rbind (normalize_task_key k) (\<lambda>n.
     case find (\<lambda>t. t_key t = n \<and> t_prompt t \<noteq> None) (db_tasks db) of
       None \<Rightarrow> Inr None | Some row \<Rightarrow> rbind (row_to_ticket home row) (\<lambda>t. Inr (Some t)))"
  by (simp add: get_ticket_def)

lemma build_ticket_times:
  assumes "build_ticket home req repo md persisted key = Inr t"
  shows "tk_created_at t = None" "tk_updated_at t = None" "init_ticket_record home t = Inr t"
proof -
  obtain r0 where "init_ticket_record home r0 = Inr t" "tk_created_at r0 = None" "tk_updated_at r0 = None"
    using assms by (force simp: build_ticket_def rbind_Inr_iff)
  then show "tk_created_at t = None" "tk_updated_at t = None" "init_ticket_record home t = Inr t"
    using init_ticket_record_idem by metis+
qed

lemma reject_recorded_branch_times [simp]:
  "reject_recorded_branch (t\<lparr>tk_created_at := a, tk_updated_at := b\<rparr>) db = reject_recorded_branch t db"
  by (simp add: reject_recorded_branch_def cong: option.case_cong)

lemma build_ticket_key:
  "build_ticket home req repo md persisted key = Inr t \<Longrightarrow> normalize_task_key key = Inr (tk_task_key t)"
  by (auto simp: build_ticket_def rbind_Inr_iff dest!: init_ticket_record_key)

text \<open>Every check of a creation passes, so the creation does.\<close>

lemma create_ticket_ok:
  assumes actor: "py_strip actor \<noteq> []"
    and blocker: "\<forall>b. blocked_by = Some b \<longrightarrow> (\<exists>b'. normalize_task_key b = Inr b' \<and> get_task db b' \<noteq> None)"
    and key: "format_task_key (next_task_key_sequence db) = Inr key" "get_task db key = None"
    and t: "build_ticket home req repo md persisted key = Inr t"
    and free: "reject_recorded_branch t db = Inr ()" "branch_lookup (tk_repo_path t) (tk_branch t) = Inr []"
      "\<forall>x \<in> set (db_tasks db). t_worktree_path x \<noteq> Some (path_str (tk_worktree_path t))"
  shows "is_ok (create_ticket home now (build_ticket home req repo md persisted) actor payload blocked_by
     (reject_repository_branch branch_lookup) no_hook no_hook db)"
proof -
  let ?r = "t\<lparr>tk_created_at := Some now, tk_updated_at := Some now\<rparr>"
  have nk: "normalize_task_key key = Inr key"
    using key(1) formatted_key_chars by (auto simp: format_task_key_Inr intro!: normalize_task_key_fixed)
  then have tk: "tk_task_key t = key" using build_ticket_key [OF t] by simp
  have i: "init_ticket_record home ?r = Inr ?r"
    by (simp add: init_ticket_record_times build_ticket_times [OF t])
  obtain blocker where b: "(case blocked_by of None \<Rightarrow> Inr None
      | Some b \<Rightarrow> rbind (normalize_task_key b) (\<lambda>b'. Inr (Some b'))) = Inr blocker"
    "\<not> (case blocker of None \<Rightarrow> False | Some b \<Rightarrow> get_task db b = None)"
    using blocker by (cases blocked_by) auto
  have rej: "reject_recorded_branch ?r db = Inr ()" "reject_repository_branch branch_lookup ?r = Inr ()"
    using free(1,2) by (simp_all add: reject_repository_branch_def)
  have "t_key x \<noteq> key" if "x \<in> set (db_tasks db)" for x
    using key(2) that get_task_keys [of db key] by auto
  moreover have "\<not> (t_repo_path x = path_str (tk_repo_path t) \<and> t_branch x = Some (tk_branch t))"
    if "x \<in> set (db_tasks db)" for x
    using free(1) that by (auto simp: reject_recorded_branch_def find_None_iff split: option.splits)
  ultimately have ins: "insert_task (ticket_row_of now ?r) db = Inr (db\<lparr>db_tasks := db_tasks db @ [ticket_row_of now ?r]\<rparr>)"
    using free(3) unfolding insert_task_Inr by (simp add: tk)
  let ?d = "db\<lparr>db_tasks := db_tasks db @ [ticket_row_of now ?r]\<rparr>"
  have "get_task ?d key \<noteq> None" using get_task_keys [of ?d key] by (simp add: tk)
  then obtain d2 where d2: "insert_event key ''created'' (py_strip actor) payload now ?d = Inr d2"
    using insert_event_ok [of ?d key "''created''"] by (force simp: executor_start_ok_def)
  have "require_non_empty actor = Inr (py_strip actor)" using actor by (simp add: require_non_empty_Inr)
  then show ?thesis
    unfolding create_ticket_def created_event_type rbind_simps b key(1) t no_hook_def
    using b(2) by (simp add: tk build_ticket_times [OF t] i rej free(1) ins d2 integrity_error_def)
qed

section \<open>Properties\<close>

text \<open>
  C30. A created Ticket can be read back: after a successful creation \<open>get_ticket\<close> returns exactly
  the record the creation returned, paths and time stamps included, and every other key reads as before.
\<close>

theorem create_ticket_round_trip:
  assumes "create_ticket_from_request home now branch_lookup req repo md actor db = Inr (db', r)"
  shows "get_ticket home db' (tk_task_key r) = Inr (Some r) \<and>
     (\<forall>k. py_strip k \<noteq> tk_task_key r \<longrightarrow> get_ticket home db' k = get_ticket home db k)"
proof -
  note c = assms [unfolded create_from_request_Inr]
  obtain t where k: "format_task_key (next_task_key_sequence db) = Inr (tk_task_key r)"
    "build_ticket home req repo md (initial_persisted_status req) (tk_task_key r) = Inr t"
    "init_ticket_record home (t\<lparr>tk_created_at := Some (case tk_created_at t of None \<Rightarrow> now | Some c \<Rightarrow> c),
       tk_updated_at := Some (case tk_updated_at t of None \<Rightarrow> now | Some u \<Rightarrow> u)\<rparr>) = Inr r"
    using c by (rule create_ticket_Inr)
  note rows = created_rows [OF c]
  note i = init_ticket_record_idem [OF k(3)] and a = init_ticket_record_absolute [OF k(3)]
  have "row_to_ticket home (ticket_row_of now r) = Inr r"
    using i a build_ticket_paths [OF k(2)] by (intro row_to_ticket_round_trip) (auto intro: parse_path_str)
  moreover have "normalize_task_key (tk_task_key r) = Inr (tk_task_key r)"
    using k(1) formatted_key_chars by (auto simp: format_task_key_Inr intro!: normalize_task_key_fixed)
  moreover have "find (\<lambda>t. t_key t = tk_task_key r \<and> t_prompt t \<noteq> None) (db_tasks db) = None"
    using rows(3) by (auto simp: find_None_iff_ball)
  ultimately have "get_ticket home db' (tk_task_key r) = Inr (Some r)"
    by (simp add: get_ticket_eq rows(2) find_append)
  moreover have "get_ticket home db' k = get_ticket home db k" if "py_strip k \<noteq> tk_task_key r" for k
  proof (cases "normalize_task_key k")
    case (Inr n)
    then have "tk_task_key r \<noteq> n" using that by (auto simp: normalize_task_key_Inr)
    then show ?thesis by (simp add: get_ticket_eq rows(2) find_append Inr split: option.split)
  qed (simp add: get_ticket_eq)
  ultimately show ?thesis by blast
qed

definition example_repository :: ticket_repository where
  "example_repository = \<lparr>repository = ''proj'', tr_repo_path = ''/repo'', worktrees_dir = ''/repo/.worktrees'',
     artifacts_root = ''/repo/a'', tr_base_branch = ''main'', branch_prefix = ''task/'', tr_github_repo = None\<rparr>"

definition example_creation :: creation_request where
  "example_creation = \<lparr>cq_repository = ''proj'', cq_prompt = ''Do it'', cq_priority = ''high'', cq_blocked_by = None\<rparr>"

definition example_metadata :: resolved_metadata where
  "example_metadata = \<lparr>md_title = ''Do it'', md_ai_title_status = ''not_attempted'', md_branch_slug = ''do-it'',
     md_branch_slug_source = ''fallback'', md_commit_message_suggestion = None, md_ai_attempted = False,
     md_ai_error = None\<rparr>"

definition create_example :: "db \<Rightarrow> (db \<times> ticket_record) result" where
  "create_example = create_ticket_from_request (\<lambda>_. None) 100 (\<lambda>_ _. Inr []) example_creation
     example_repository example_metadata ''api''"

lemma create_example_ok:
  "map_sum id (\<lambda>(d, r). (map t_key (db_tasks d), tk_task_key r, tk_status r)) (create_example (example_db [])) =
     Inr ([''AT-0001''], ''AT-0001'', ''created'')"
  by code_simp

theorem create_ticket_round_trip_witness:
  "\<exists>db' r. create_example (example_db []) = Inr (db', r) \<and> tk_task_key r = ''AT-0001'' \<and>
     get_ticket (\<lambda>_. None) db' ''AT-0001'' = Inr (Some r)"
proof -
  obtain db' r where c: "create_example (example_db []) = Inr (db', r)" "tk_task_key r = ''AT-0001''"
    using create_example_ok by (cases "create_example (example_db [])") auto
  then show ?thesis using create_ticket_round_trip [OF c(1) [unfolded create_example_def]] by auto
qed

text \<open>One Ticket, one key, one worktree path, one branch of its repository.\<close>

definition ticket_table_wf :: "db \<Rightarrow> bool" where
  "ticket_table_wf db \<longleftrightarrow>
     distinct (map t_key (db_tasks db)) \<and> distinct (List.map_filter t_worktree_path (db_tasks db)) \<and>
     distinct (List.map_filter (\<lambda>t. map_option (Pair (t_repo_path t)) (t_branch t)) (db_tasks db))"

text \<open>
  One Ticket, one worktree, one branch: a creation adds exactly one row, whose key, worktree path and
  branch no stored row, no recorded worktree and no ref of the repository has; so keys, worktree paths
  and branches stay pairwise distinct whatever is created after whatever.
\<close>

lemma created_ticket_isolated:
  assumes "ticket_table_wf db"
    and "create_ticket_from_request home now branch_lookup req repo md actor db = Inr (db', r)"
  shows "ticket_table_wf db' \<and> db_tasks db' = db_tasks db @ [ticket_row_of now r] \<and>
     branch_lookup (tk_repo_path r) (tk_branch r) = Inr [] \<and>
     (\<forall>w \<in> set (db_worktrees db). \<not> (w_repo_path w = path_str (tk_repo_path r) \<and> w_branch w = tk_branch r)) \<and>
     (\<forall>t \<in> set (db_tasks db). t_key t \<noteq> tk_task_key r \<and>
        t_worktree_path t \<noteq> Some (path_str (tk_worktree_path r)) \<and>
        (t_repo_path t, t_branch t) \<noteq> (path_str (tk_repo_path r), Some (tk_branch r)))"
proof -
  note rows = created_rows [OF assms(2) [unfolded create_from_request_Inr]]
  have "branch_lookup (tk_repo_path r) (tk_branch r) = Inr []"
    using rows(4) by (auto simp: reject_repository_branch_def rbind_Inr_iff split: if_splits)
  moreover have "\<forall>w \<in> set (db_worktrees db). \<not> (w_repo_path w = path_str (tk_repo_path r) \<and> w_branch w = tk_branch r)"
    using rows(4) by (auto simp: reject_recorded_branch_def find_None_iff split: option.splits)
  moreover have "ticket_table_wf db'"
    using assms(1) rows(3) unfolding ticket_table_wf_def rows(2)
    by (auto simp: map_filter_append map_filter_simps set_map_filter)
  ultimately show ?thesis using rows(2,3) by simp
qed

lemma creation_errors:
  assumes "create_ticket_from_request home now branch_lookup req repo md actor db = Inl e"
  shows "e \<noteq> ValueError \<and> e \<noteq> TicketStoreError \<and> e \<noteq> GitRefStorageError \<and> (\<forall>b x y. e \<noteq> TicketBranchExistsError b x y)"
proof -
  obtain e' where "e = creation_error e'"
    using assms by (auto simp: create_ticket_from_request_def Let_def initial_persisted split: sum.splits)
  then show ?thesis by (cases e') (simp_all add: creation_error_def)
qed

text \<open>
  C31. When a creation is refused: it succeeds exactly when the actor is not
  blank, the blocker (if any) is a stored task, the derived Ticket passes its validation, its branch is
  neither recorded nor a ref of the repository, and its worktree path is free. The key is never the cause
  of a refusal: the counter always yields an unused one. The errors of the store, of the validation and of the ref
  lookup do not escape as such: a taken branch is a \<open>TicketBranchCollisionError\<close>, an unreadable ref storage a
  \<open>TicketBranchCheckUnavailableError\<close>, a refused value a \<open>TicketCreationError\<close>.
\<close>

theorem ticket_creation_exact:
  "(is_ok (create_ticket_from_request home now branch_lookup req repo md actor db) \<longleftrightarrow>
     py_strip actor \<noteq> [] \<and>
     (\<forall>b. cq_blocked_by req = Some b \<longrightarrow> (\<exists>b'. normalize_task_key b = Inr b' \<and> get_task db b' \<noteq> None)) \<and>
     (\<exists>key r. format_task_key (next_task_key_sequence db) = Inr key \<and> get_task db key = None \<and>
        build_ticket home req repo md (initial_persisted_status req) key = Inr r \<and>
        reject_recorded_branch r db = Inr () \<and> branch_lookup (tk_repo_path r) (tk_branch r) = Inr [] \<and>
        (\<forall>t \<in> set (db_tasks db). t_worktree_path t \<noteq> Some (path_str (tk_worktree_path r))))) \<and>
   (\<forall>e. create_ticket_from_request home now branch_lookup req repo md actor db = Inl e \<longrightarrow>
      e \<noteq> ValueError \<and> e \<noteq> TicketStoreError \<and> e \<noteq> GitRefStorageError \<and> (\<forall>b x y. e \<noteq> TicketBranchExistsError b x y))"
  (is "(_ \<longleftrightarrow> ?rhs) \<and> _")
proof (rule conjI, rule iffI)
  assume "is_ok (create_ticket_from_request home now branch_lookup req repo md actor db)"
  then obtain db' r where c: "create_ticket_from_request home now branch_lookup req repo md actor db = Inr (db', r)"
    unfolding is_ok_iff by (metis surj_pair)
  note c' = c [unfolded create_from_request_Inr] and rows = created_rows [OF c [unfolded create_from_request_Inr]]
  obtain act t where k: "require_non_empty actor = Inr act"
    "format_task_key (next_task_key_sequence db) = Inr (tk_task_key r)"
    "build_ticket home req repo md (initial_persisted_status req) (tk_task_key r) = Inr t"
    "init_ticket_record home (t\<lparr>tk_created_at := Some (case tk_created_at t of None \<Rightarrow> now | Some c \<Rightarrow> c),
       tk_updated_at := Some (case tk_updated_at t of None \<Rightarrow> now | Some u \<Rightarrow> u)\<rparr>) = Inr r"
    "\<forall>b. cq_blocked_by req = Some b \<longrightarrow> (\<exists>b'. normalize_task_key b = Inr b' \<and> get_task db b' \<noteq> None)"
    using c' by (rule create_ticket_Inr)
  have r: "r = t\<lparr>tk_created_at := Some now, tk_updated_at := Some now\<rparr>"
    using k(4) build_ticket_times [OF k(3)] by (simp add: init_ticket_record_times)
  have "reject_recorded_branch t db = Inr ()" "branch_lookup (tk_repo_path t) (tk_branch t) = Inr []"
    using rows(4) by (auto simp: r reject_repository_branch_def rbind_Inr_iff split: if_splits)
  then show ?rhs using k(1-3,5) rows(3) next_key_fresh [OF k(2)] by (auto simp: r require_non_empty_Inr)
next
  assume ?rhs
  then obtain key t where k: "py_strip actor \<noteq> []"
    "\<forall>b. cq_blocked_by req = Some b \<longrightarrow> (\<exists>b'. normalize_task_key b = Inr b' \<and> get_task db b' \<noteq> None)"
    "format_task_key (next_task_key_sequence db) = Inr key" "get_task db key = None"
    "build_ticket home req repo md (initial_persisted_status req) key = Inr t"
    "reject_recorded_branch t db = Inr ()" "branch_lookup (tk_repo_path t) (tk_branch t) = Inr []"
    "\<forall>x \<in> set (db_tasks db). t_worktree_path x \<noteq> Some (path_str (tk_worktree_path t))"
    by blast
  have "is_ok (create_ticket home now (build_ticket home req repo md (initial_persisted_status req)) actor
     payload (cq_blocked_by req) (reject_repository_branch branch_lookup) no_hook no_hook db)" for payload
    by (rule create_ticket_ok [where branch_lookup = branch_lookup, OF k])
  then show "is_ok (create_ticket_from_request home now branch_lookup req repo md actor db)"
    unfolding is_ok_iff create_from_request_Inr by blast
qed (use creation_errors in blast)

theorem ticket_creation_exact_witness:
  "(\<exists>key r. format_task_key (next_task_key_sequence (example_db [])) = Inr key \<and>
     build_ticket (\<lambda>_. None) example_creation example_repository example_metadata
       (initial_persisted_status example_creation) key = Inr r) \<and>
   \<not> is_ok (create_ticket_from_request (\<lambda>_. None) 100 (\<lambda>_ _. Inr []) (example_creation\<lparr>cq_blocked_by := Some ''AT-9''\<rparr>)
       example_repository example_metadata ''api'' (example_db []))"
proof
  have "is_ok (create_example (example_db []))"
    using create_example_ok by (cases "create_example (example_db [])") auto
  then show "\<exists>key r. format_task_key (next_task_key_sequence (example_db [])) = Inr key \<and>
     build_ticket (\<lambda>_. None) example_creation example_repository example_metadata
       (initial_persisted_status example_creation) key = Inr r"
    unfolding create_example_def ticket_creation_exact [THEN conjunct1] by blast
  show "\<not> is_ok (create_ticket_from_request (\<lambda>_. None) 100 (\<lambda>_ _. Inr []) (example_creation\<lparr>cq_blocked_by := Some ''AT-9''\<rparr>)
       example_repository example_metadata ''api'' (example_db []))"
    unfolding ticket_creation_exact [THEN conjunct1] by (simp add: example_db_def get_task_def)
qed

end
