(* ===== verification/Ready_Queue.thy ===== *)
theory Ready_Queue
  imports Runtime_Claim Ticket_Store "HOL-Library.Multiset"
begin

text \<open>
  The ready queue (\<open>ready_queue.py\<close>): which Tickets may start and in which order. It is a
  read-only view; the claim transaction repeats every check. The theorems relate the two: the queue
  names exactly the Tickets whose claim succeeds.
\<close>

section \<open>Definitions\<close>

definition PRIORITY_RANK :: "(string \<times> nat) list" where
  "PRIORITY_RANK = [(''critical'', 0), (''high'', 1), (''normal'', 2), (''low'', 3)]"

definition CLAIMABLE_STATUSES :: "string list" where
  "CLAIMABLE_STATUSES = [''created'', ''queued'']"

record ready_ticket =
  rq_task_key :: string
  rq_priority :: string
  rq_created_at :: timestamp
  rq_status :: string
  rq_project :: string
  rq_repo_path :: string

record policy_refused_ticket =
  pr_task_key :: string
  pr_project :: string
  pr_reason_code :: string

definition priority_rank :: "string \<Rightarrow> nat" where
  "priority_rank p = (case map_of PRIORITY_RANK p of Some r \<Rightarrow> r | None \<Rightarrow> the (map_of PRIORITY_RANK ''normal''))"

definition ready_sort_key :: "ready_ticket \<Rightarrow> nat \<times> timestamp \<times> string" where
  "ready_sort_key t = (priority_rank (rq_priority t), rq_created_at t, rq_task_key t)"

definition halted_scopes :: "db \<Rightarrow> (string \<times> string) list" where
  "halted_scopes db =
     map (\<lambda>c. (rc_scope_kind c, rc_scope_id c)) (filter (\<lambda>c. rc_mode c \<noteq> ''running'') (db_controls db))"

text \<open>The \<open>WHERE\<close> clause of the candidate query.\<close>

definition candidate_row :: "db \<Rightarrow> task_row \<Rightarrow> bool" where
  "candidate_row db t \<longleftrightarrow>
     t_prompt t \<noteq> None \<and> t_worktree_path t \<noteq> None \<and> t_branch t \<noteq> None \<and>
     t_status t \<in> set CLAIMABLE_STATUSES \<and>
     (t_blocked_by t = None \<or>
      list_ex (\<lambda>b. Some (t_key b) = t_blocked_by t \<and> t_status b \<in> set COMPLETED_BLOCKER_STATUSES) (db_tasks db)) \<and>
     (''runtime_leases'' \<in> set (db_tables db) \<and> ''task_id'' \<in> set (db_task_columns db) \<longrightarrow>
      \<not> list_ex (\<lambda>l. Some (l_task_id l) = t_task_id t \<and> l_is_active l) (db_leases db))"

definition ready_ticket_of :: "task_row \<Rightarrow> ready_ticket" where
  "ready_ticket_of t =
     \<lparr>rq_task_key = t_key t, rq_priority = (if truthy (t_priority t) then the (t_priority t) else ''normal''),
      rq_created_at = t_created_at t, rq_status = t_status t, rq_project = t_project t,
      rq_repo_path = t_repo_path t\<rparr>"

definition candidate_tickets :: "db \<Rightarrow> ready_ticket list" where
  "candidate_tickets db =
     (if ''tasks'' \<notin> set (db_tables db) \<or> \<not> tasks_has_ticket_columns db then []
      else
        let candidates = map ready_ticket_of (filter (candidate_row db) (db_tasks db));
            halted = (if ''runtime_controls'' \<in> set (db_tables db) then halted_scopes db else []);
            eligible = filter (\<lambda>t. (''global'', ''*'') \<notin> set halted \<and>
              (''project'', rq_project t) \<notin> set halted \<and> (''task'', rq_task_key t) \<notin> set halted) candidates
        in sort_key ready_sort_key eligible)"

text \<open>The loop of \<open>ready_queue_selection\<close>, with its cache of policies per project.\<close>

type_synonym policy_cache = "(string \<times> execution_policy result) list"

definition cached_policy ::
  "policy_env \<Rightarrow> policy_cache \<Rightarrow> string \<Rightarrow> (policy_cache \<times> execution_policy result) result" where
  "cached_policy env policies project =
     (case map_of policies project of
        Some policy \<Rightarrow> Inr (policies, policy)
      | None \<Rightarrow>
          (case resolve_execution_policy env project None of
             Inr policy \<Rightarrow> Inr ((project, Inr policy) # policies, Inr policy)
           | Inl (ExecutionPolicyError code) \<Rightarrow>
               Inr ((project, Inl (ExecutionPolicyError code)) # policies, Inl (ExecutionPolicyError code))
           | Inl e \<Rightarrow> Inl e))"

definition policy_outcome :: "policy_env \<Rightarrow> execution_policy result \<Rightarrow> ready_ticket \<Rightarrow> exn option" where
  "policy_outcome env policy t =
     (case policy of Inl e \<Rightarrow> Some e | Inr p \<Rightarrow> ticket_repo_path_refusal env p (Some (rq_repo_path t)))"

definition exn_reason_code :: "exn \<Rightarrow> string" where
  "exn_reason_code e = (case e of ExecutionPolicyError code \<Rightarrow> code | _ \<Rightarrow> [])"

definition refused_ticket :: "ready_ticket \<Rightarrow> exn \<Rightarrow> policy_refused_ticket" where
  "refused_ticket t e =
     \<lparr>pr_task_key = rq_task_key t, pr_project = rq_project t, pr_reason_code = exn_reason_code e\<rparr>"

fun selection_loop ::
  "policy_env \<Rightarrow> policy_cache \<Rightarrow> ready_ticket list \<Rightarrow> policy_refused_ticket list \<Rightarrow> ready_ticket list
     \<Rightarrow> (ready_ticket list \<times> policy_refused_ticket list) result" where
  "selection_loop env policies eligible refused [] = Inr (eligible, refused)"
| "selection_loop env policies eligible refused (t # ts) =
     rbind (cached_policy env policies (rq_project t)) (\<lambda>(policies, policy).
       case policy_outcome env policy t of
         None \<Rightarrow> selection_loop env policies (eligible @ [t]) refused ts
       | Some e \<Rightarrow> selection_loop env policies eligible (refused @ [refused_ticket t e]) ts)"

definition ready_queue_selection ::
  "policy_env \<Rightarrow> db \<Rightarrow> (ready_ticket list \<times> policy_refused_ticket list) result" where
  "ready_queue_selection env db = selection_loop env [] [] [] (candidate_tickets db)"

definition eligible_tickets :: "policy_env \<Rightarrow> db \<Rightarrow> ready_ticket list result" where
  "eligible_tickets env db = rbind (ready_queue_selection env db) (\<lambda>(eligible, refused). Inr eligible)"

definition policy_refused_tickets :: "policy_env \<Rightarrow> db \<Rightarrow> policy_refused_ticket list result" where
  "policy_refused_tickets env db = rbind (ready_queue_selection env db) (\<lambda>(eligible, refused). Inr refused)"

section \<open>The cache is transparent\<close>

text \<open>The policy decision without the cache.\<close>

definition policy_verdict :: "policy_env \<Rightarrow> ready_ticket \<Rightarrow> exn option" where
  "policy_verdict env t = policy_outcome env (resolve_execution_policy env (rq_project t) None) t"

definition cache_ok :: "policy_env \<Rightarrow> policy_cache \<Rightarrow> bool" where
  "cache_ok env policies \<longleftrightarrow> (\<forall>p r. map_of policies p = Some r \<longrightarrow> r = resolve_execution_policy env p None)"

lemma cached_policy_ok:
  assumes "cache_ok env policies"
  shows "\<exists>policies'. cached_policy env policies project =
     Inr (policies', resolve_execution_policy env project None) \<and> cache_ok env policies'"
proof (cases "map_of policies project")
  case None
  show ?thesis
  proof (cases "resolve_execution_policy env project None")
    case (Inl e)
    then obtain code where "e = ExecutionPolicyError code"
      using resolve_execution_policy_Inl [OF Inl] by (auto simp: policy_refusal_def)
    then show ?thesis using None Inl assms by (auto simp: cached_policy_def cache_ok_def)
  qed (use None assms in \<open>auto simp: cached_policy_def cache_ok_def\<close>)
qed (use assms in \<open>auto simp: cached_policy_def cache_ok_def\<close>)

lemma selection_loop_eq:
  assumes "cache_ok env policies"
  shows "selection_loop env policies eligible refused ts =
     Inr (eligible @ filter (\<lambda>t. policy_verdict env t = None) ts,
          refused @ [refused_ticket t (the (policy_verdict env t)). t \<leftarrow> ts, policy_verdict env t \<noteq> None])"
  using assms
proof (induction ts arbitrary: policies eligible refused)
  case (Cons t ts)
  obtain ps where "cached_policy env policies (rq_project t) =
      Inr (ps, resolve_execution_policy env (rq_project t) None)" "cache_ok env ps"
    using cached_policy_ok [OF Cons.prems] by blast
  then show ?case
    using Cons.IH [of ps] by (cases "policy_verdict env t") (simp_all add: policy_verdict_def)
qed simp

lemma selection_eq:
  "ready_queue_selection env db =
     Inr (filter (\<lambda>t. policy_verdict env t = None) (candidate_tickets db),
          [refused_ticket t (the (policy_verdict env t)). t \<leftarrow> candidate_tickets db, policy_verdict env t \<noteq> None])"
  using selection_loop_eq [of env "[]"] by (simp add: ready_queue_selection_def cache_ok_def)

section \<open>Order\<close>

definition unhalted :: "db \<Rightarrow> ready_ticket \<Rightarrow> bool" where
  "unhalted db t \<longleftrightarrow>
     (let halted = (if ''runtime_controls'' \<in> set (db_tables db) then halted_scopes db else [])
      in (''global'', ''*'') \<notin> set halted \<and> (''project'', rq_project t) \<notin> set halted \<and>
         (''task'', rq_task_key t) \<notin> set halted)"

definition unsorted_candidates :: "db \<Rightarrow> ready_ticket list" where
  "unsorted_candidates db =
     (if ''tasks'' \<notin> set (db_tables db) \<or> \<not> tasks_has_ticket_columns db then []
      else filter (unhalted db) (map ready_ticket_of (filter (candidate_row db) (db_tasks db))))"

lemma candidate_tickets_eq: "candidate_tickets db = sort_key ready_sort_key (unsorted_candidates db)"
  by (simp add: candidate_tickets_def unsorted_candidates_def unhalted_def [abs_def] Let_def)

lemma unsorted_keys_distinct:
  assumes "distinct (map t_key (db_tasks db))"
  shows "distinct (map rq_task_key (unsorted_candidates db))"
proof -
  have "map rq_task_key (map ready_ticket_of ts) = map t_key ts" for ts
    by (simp add: ready_ticket_of_def)
  moreover have "distinct (map t_key (filter (candidate_row db) (db_tasks db)))"
    using assms by (simp add: distinct_map_filter)
  ultimately have "distinct (map rq_task_key (map ready_ticket_of (filter (candidate_row db) (db_tasks db))))"
    by metis
  then show ?thesis by (simp add: unsorted_candidates_def distinct_map_filter del: map_map)
qed

lemma sort_key_inj:
  assumes "distinct (map rq_task_key ts)"
  shows "inj_on ready_sort_key (set ts)"
  using assms by (auto simp: inj_on_def ready_sort_key_def distinct_map)

lemma candidates_strict:
  assumes "distinct (map t_key (db_tasks db))"
  shows "sorted_wrt (\<lambda>a b. ready_sort_key a < ready_sort_key b) (candidate_tickets db)"
proof -
  note d = unsorted_keys_distinct [OF assms]
  have "sorted (map ready_sort_key (candidate_tickets db))" by (simp add: candidate_tickets_eq)
  moreover have "distinct (map ready_sort_key (candidate_tickets db))"
    using sort_key_inj [OF d] d by (simp add: candidate_tickets_eq distinct_map)
  ultimately have "sorted_wrt (<) (map ready_sort_key (candidate_tickets db))"
    by (simp add: strict_sorted_iff)
  then show ?thesis by (simp add: sorted_wrt_map)
qed

lemma candidate_row_cong:
  assumes "set (db_tasks db2) = set (db_tasks db)" and "db2 = db\<lparr>db_tasks := db_tasks db2\<rparr>"
  shows "candidate_row db2 t = candidate_row db t" "unhalted db2 = unhalted db"
proof -
  have e: "db_leases db2 = db_leases db" "db_tables db2 = db_tables db"
    "db_task_columns db2 = db_task_columns db" "db_controls db2 = db_controls db"
    by (subst assms(2), simp)+
  show "candidate_row db2 t = candidate_row db t"
    by (simp add: candidate_row_def list_ex_iff assms(1) e)
  show "unhalted db2 = unhalted db" by (simp add: unhalted_def halted_scopes_def fun_eq_iff e)
qed

lemma candidates_permute:
  assumes d: "distinct (map t_key (db_tasks db))" and m: "mset (db_tasks db2) = mset (db_tasks db)"
    and f: "db2 = db\<lparr>db_tasks := db_tasks db2\<rparr>"
  shows "candidate_tickets db2 = candidate_tickets db"
proof -
  have set_eq: "set (db_tasks db2) = set (db_tasks db)" using m by (rule mset_eq_setD)
  note c = candidate_row_cong [OF set_eq f]
  have e: "db_tables db2 = db_tables db" "tasks_has_ticket_columns db2 = tasks_has_ticket_columns db"
    by (subst f, simp add: tasks_has_ticket_columns_def)+
  have cr: "candidate_row db2 = candidate_row db" using c(1) by (rule ext)
  have "mset (unsorted_candidates db2) = mset (unsorted_candidates db)"
    by (simp add: unsorted_candidates_def e cr c(2) m)
  moreover have "inj_on ready_sort_key (set (unsorted_candidates db2))"
    using mset_eq_setD [OF \<open>mset (unsorted_candidates db2) = mset (unsorted_candidates db)\<close>]
      sort_key_inj [OF unsorted_keys_distinct [OF d]] by simp
  ultimately show ?thesis
    unfolding candidate_tickets_eq by (intro sort_key_inj_key_eq) simp_all
qed

section \<open>The queue and the claim\<close>

text \<open>
  The rows as the program writes them: keys and projects normalised, no blank blocker, no executor or
  model chosen on a Ticket, default identities only for their own key; and every active Attempt backed
  by an active lease, as the claim and the release leave it.
\<close>

definition ready_rows_ok :: "db \<Rightarrow> bool" where
  "ready_rows_ok db \<longleftrightarrow>
     (\<forall>t \<in> set (db_tasks db).
        normalize_task_key (t_key t) = Inr (t_key t) \<and> py_strip (t_project t) = t_project t \<and>
        t_blocked_by t \<noteq> Some [] \<and> (t_prompt t \<noteq> None \<longrightarrow> t_executor t = None \<and> t_model t = None) \<and>
        (\<forall>u \<in> set (db_tasks db). t_task_id u = Some (''task:'' @ t_key t) \<longrightarrow> t_key u = t_key t)) \<and>
     (\<forall>a \<in> set (db_attempts db). a_is_active a \<longrightarrow>
        (\<exists>l \<in> set (db_leases db). l_is_active l \<and> l_task_id l = a_task_id a)) \<and>
     tasks_has_ticket_columns db \<and> {''task_id'', ''blocked_by''} \<subseteq> set (db_task_columns db) \<and>
     {''tasks'', ''runtime_leases'', ''runtime_controls''} \<subseteq> set (db_tables db)"

lemma ready_rowsD:
  assumes "ready_rows_ok db" and "t \<in> set (db_tasks db)"
  shows "normalize_task_key (t_key t) = Inr (t_key t)" "py_strip (t_project t) = t_project t"
    "t_blocked_by t \<noteq> Some []" "t_prompt t \<noteq> None \<Longrightarrow> t_executor t = None \<and> t_model t = None"
    "\<lbrakk>u \<in> set (db_tasks db); t_task_id u = Some (''task:'' @ t_key t)\<rbrakk> \<Longrightarrow> t_key u = t_key t"
    "py_strip (t_key t) = t_key t"
proof -
  note r = conjunct1 [OF assms(1) [unfolded ready_rows_ok_def], rule_format, OF assms(2)]
  show n: "normalize_task_key (t_key t) = Inr (t_key t)" using r by (rule conjunct1)
  note r = conjunct2 [OF r]
  show "py_strip (t_project t) = t_project t" using r by (rule conjunct1)
  note r = conjunct2 [OF r]
  show "t_blocked_by t \<noteq> Some []" using r by (rule conjunct1)
  note r = conjunct2 [OF r]
  show "t_prompt t \<noteq> None \<Longrightarrow> t_executor t = None \<and> t_model t = None" by (rule mp [OF conjunct1 [OF r]])
  show "\<lbrakk>u \<in> set (db_tasks db); t_task_id u = Some (''task:'' @ t_key t)\<rbrakk> \<Longrightarrow> t_key u = t_key t"
    by (rule mp [OF bspec [OF conjunct2 [OF r]]])
  show "py_strip (t_key t) = t_key t" using n by (simp add: normalize_task_key_Inr)
qed

text \<open>The claim's first step gives the task its identity; claiming after it is the same claim.\<close>

lemma ensure_task_identity_again:
  assumes "ensure_task_identity db key = Inr (db1, row)" and inv: "runtime_inv db"
  shows "ensure_task_identity db1 key = Inr (db1, row)"
proof -
  have n: "normalize_task_key key = Inr (py_strip key)"
    using assms(1) by (auto simp: ensure_task_identity_def rbind_Inr_iff normalize_task_key_Inr)
  obtain i where "t_task_id row = Some i" "i \<noteq> []" using ensure_task_identity_Inr(4) [OF assms] by blast
  then show ?thesis using ensure_task_identity_frame(3) [OF assms(1)] by (simp add: ensure_task_identity_def n)
qed

lemma capacity_view:
  assumes "ensure_task_identity db key = Inr (db1, row)" and "runtime_inv db"
  shows "runtime_capacity_in_connection db1 = runtime_capacity_in_connection db"
    "count_active_executor_leases_in_connection db1 = count_active_executor_leases_in_connection db"
  by (simp_all add: runtime_capacity_in_connection_def count_active_executor_leases_in_connection_def
      ensure_task_identity_Inr(5,7,8) [OF assms])

lemma claim_after_identity:
  assumes "ensure_task_identity db key = Inr (db1, row)" and "runtime_inv db"
    and "normalize_task_key key = Inr key"
  shows "claim env ids now key owner ttl req db = claim env ids now key owner ttl req db1"
proof -
  have "assert_runtime_capacity_available db1 = assert_runtime_capacity_available db"
    by (simp add: assert_runtime_capacity_available_def capacity_view [OF assms(1,2)])
  then have c: "claim_checks env key req db = claim_checks env key req db1"
    by (simp add: claim_checks_def assms(1) ensure_task_identity_again [OF assms(1,2)])
  show ?thesis unfolding claim_def assms(3) rbind_simps c by (rule refl)
qed

lemma identity_row:
  assumes "ensure_task_identity db key = Inr (db1, row)" and "get_task db (py_strip key) = Some t"
  shows "t_status row = t_status t \<and> t_key row = t_key t \<and> t_project row = t_project t \<and>
     t_repo_path row = t_repo_path t \<and> t_prompt row = t_prompt t \<and> t_executor row = t_executor t \<and>
     t_model row = t_model t \<and> t_active_attempt_id row = t_active_attempt_id t \<and>
     (truthy (t_task_id t) \<longrightarrow> t_task_id row = t_task_id t) \<and>
     (\<not> truthy (t_task_id t) \<longrightarrow> t_task_id row = Some (''task:'' @ py_strip key))"
proof -
  have n: "normalize_task_key key = Inr (py_strip key)"
    using assms(1) by (auto simp: ensure_task_identity_def rbind_Inr_iff normalize_task_key_Inr)
  show ?thesis using assms normalize_task_key_idem [OF n]
    by (cases "truthy (t_task_id t)")
      (auto simp: ensure_task_identity_def n default_task_id_def Let_def split: if_splits)
qed

lemma ready_identity:
  assumes "ready_rows_ok db" and inv: "runtime_inv db" and t: "get_task db (t_key t) = Some t"
  shows "\<exists>db1 row. ensure_task_identity db (t_key t) = Inr (db1, row)"
proof -
  have tm: "t \<in> set (db_tasks db)" using get_task_Some [OF t] by blast
  note n = ready_rowsD(1) [OF assms(1) tm]
  have "\<not> list_ex (\<lambda>u. t_key u \<noteq> t_key t \<and> t_task_id u = Some (''task:'' @ t_key t)) (db_tasks db)"
    using ready_rowsD(5) [OF assms(1) tm] by (auto simp only: list_ex_iff)
  then show ?thesis by (simp add: ensure_task_identity_def n t default_task_id_def Let_def)
qed

lemma runtime_keys_inj:
  assumes "runtime_inv db" and "t_key u = t_key t" and "u \<in> set (db_tasks db)" and "t \<in> set (db_tasks db)"
  shows "u = t"
  using distinct_key_eq [OF runtime_inv_tasks(1) [OF assms(1)] assms(3,4,2)] .

text \<open>Ownership as the claim sees it is the lease the queue looks for.\<close>

lemma owned_iff_leased:
  assumes ok: "ready_rows_ok db" and inv: "runtime_inv db" and t: "get_task db (t_key t) = Some t"
    and e: "ensure_task_identity db (t_key t) = Inr (db1, row)"
  shows "runtime_owned db1 row \<longleftrightarrow> list_ex (\<lambda>l. Some (l_task_id l) = t_task_id t \<and> l_is_active l) (db_leases db)"
proof -
  note d = ensure_task_identity_Inr [OF e inv]
  have tm: "t \<in> set (db_tasks db)" using get_task_Some [OF t] by blast
  note key = ready_rowsD(6) [OF ok tm]
  note row = identity_row [OF e, unfolded key, OF t]
  obtain i where i: "t_task_id row = Some i" "i \<noteq> []" using d(4) by blast
  have own1: "ownership (map task_ids (db_tasks db1)) (map attempt_ids (db_attempts db1)) (map lease_ids (db_leases db1))"
    using d(1) by (simp add: runtime_inv_def)
  have leased: "\<exists>l \<in> set (db_leases db). l_is_active l \<and> l_task_id l = a_task_id a"
    if "a \<in> set (db_attempts db)" "a_is_active a" for a
    using ok that by (auto simp: ready_rows_ok_def)
  have "list_ex (\<lambda>l. l_task_id l = i \<and> l_is_active l) (db_leases db)" if o: "runtime_owned db1 row"
  proof -
    have "\<exists>a \<in> set (db_attempts db). a_is_active a \<and> a_task_id a = i" if x: "t_active_attempt_id row = Some x" for x
    proof -
      have "(t_key row, Some i, Some x) \<in> set (map task_ids (db_tasks db1))"
        using d(2) i(1) x by (force simp: task_ids_def)
      then have "(x, i, True) \<in> set (map attempt_ids (db_attempts db1))"
        using ownershipD(9) [OF own1] by blast
      then show ?thesis by (auto simp: attempt_ids_def d(6))
    qed
    then have "(\<exists>a \<in> set (db_attempts db). a_is_active a \<and> a_task_id a = i) \<or>
        list_ex (\<lambda>l. l_task_id l = i \<and> l_is_active l) (db_leases db)"
      using o by (auto simp: runtime_owned_def i(1) d(5,6) list_ex_iff truthy_def split: option.splits)
    then show ?thesis using leased by (auto simp: list_ex_iff)
  qed
  moreover have "runtime_owned db1 row" if "list_ex (\<lambda>l. l_task_id l = i \<and> l_is_active l) (db_leases db)"
    using that by (auto simp: runtime_owned_def i(1) d(5) list_ex_iff)
  moreover have "list_ex (\<lambda>l. l_task_id l = i \<and> l_is_active l) (db_leases db) \<longleftrightarrow>
      list_ex (\<lambda>l. Some (l_task_id l) = t_task_id t \<and> l_is_active l) (db_leases db)"
  proof (cases "truthy (t_task_id t)")
    case True
    then have "t_task_id t = Some i" using row i(1) by simp
    then show ?thesis by simp
  next
    case False
    have "no_blank_ids (map task_ids (db_tasks db))"
      using inv ownershipD(10) unfolding runtime_inv_def by blast
    then have "t_task_id t \<noteq> Some []" using tm by (auto simp: no_blank_ids_def list_all_iff task_ids_def)
    then have none: "t_task_id t = None" using False by (cases "t_task_id t") auto
    have "\<not> l_is_active l" if l: "l \<in> set (db_leases db)" "l_task_id l = i" for l
    proof
      assume "l_is_active l"
      then have "(l_id l, i, l_attempt_id l, True) \<in> set (map lease_ids (db_leases db))"
        using l by (force simp: lease_ids_def)
      then obtain k where "(k, Some i, Some (l_attempt_id l)) \<in> set (map task_ids (db_tasks db))"
        using inv ownershipD(8) unfolding runtime_inv_def by blast
      then obtain u where u: "u \<in> set (db_tasks db)" "t_task_id u = Some i" by (auto simp: task_ids_def)
      moreover have "i = ''task:'' @ t_key t" using row False i(1) by simp
      ultimately have "t_key u = t_key t" using ready_rowsD(5) [OF ok tm] by simp
      then have "u = t" using u(1) tm by (rule runtime_keys_inj [OF inv])
      then show False using u(2) none by simp
    qed
    then show ?thesis by (auto simp: list_ex_iff none)
  qed
  ultimately show ?thesis by blast
qed

text \<open>A request that leaves every policy field to the registry.\<close>

definition plain_request :: "claim_request \<Rightarrow> bool" where
  "plain_request req \<longleftrightarrow> cr_executor req = None \<and> cr_model req = None \<and> cr_policy_version req = None \<and>
     cr_config_snapshot_hash req = None \<and> cr_permission_profile req = None \<and>
     cr_worktree_path req = None \<and> cr_artifact_root req = None \<and> py_strip (cr_reason_code req) \<noteq> []"

definition fresh_for :: "admission_env \<Rightarrow> fresh_ids \<Rightarrow> db \<Rightarrow> bool" where
  "fresh_for env ids db \<longleftrightarrow>
     fi_attempt_id ids \<notin> a_id ` set (db_attempts db) \<and> fi_lease_id ids \<notin> l_id ` set (db_leases db) \<and>
     ae_token_hash env (fi_token ids) \<notin> l_token_hash ` set (db_leases db) \<and>
     fi_attempt_id ids \<notin> l_attempt_id ` set (db_leases db)"

lemma check_overrides_none: "list_all (\<lambda>c. snd c = None) cs \<Longrightarrow> check_overrides key cs es = Inr ()"
  by (induction key cs es rule: check_overrides.induct) auto

lemma policy_fields_iff:
  assumes "is_ticket_in_connection db key = Inr True" and "get_task db key = Some row"
    and "normalize_task_key key = Inr key"
  shows "is_ok (attempt_policy_fields env db key \<lparr>ap_executor = None, ap_model = None, ap_policy_version = None,
      ap_config_snapshot_hash = None, ap_permission_profile = None\<rparr>) \<longleftrightarrow>
    (\<exists>policy. resolve_execution_policy env (t_project row) None = Inr policy \<and>
       ticket_repo_path_refusal env policy (Some (t_repo_path row)) = None)"
proof -
  have none: "check_overrides k (policy_fields_list \<lparr>ap_executor = None, ap_model = None, ap_policy_version = None,
      ap_config_snapshot_hash = None, ap_permission_profile = None\<rparr>) es = Inr ()" for k es
    by (rule check_overrides_none) (simp add: policy_fields_list_def)
  show ?thesis
    unfolding attempt_policy_fields_def assms rbind_simps option.case option.map Let_def none
    by (auto split: sum.split option.split)
qed

lemma policy_project_nonblank:
  "resolve_execution_policy env project None = Inr policy \<Longrightarrow> py_strip project \<noteq> []"
  by (erule resolve_execution_policy_Inr) blast

lemma claim_iff:
  assumes inv: "runtime_inv db" and wf: "controls_wf db" and tab: "''runtime_controls'' \<in> set (db_tables db)"
    and t: "get_task db (t_key t) = Some t" "truthy (t_task_id t)" and key: "normalize_task_key (t_key t) = Inr (t_key t)"
    and proj: "py_strip (t_project t) = t_project t"
    and plain: "t_executor t = None" "t_model t = None" "plain_request req"
    and tick: "is_ticket_in_connection db (t_key t) = Inr True"
    and cap: "count_active_executor_leases_in_connection db < cs_max_concurrent_tasks (runtime_capacity_in_connection db)"
    and fresh: "fresh_for env ids db" and args: "1 \<le> ttl" "py_strip owner \<noteq> []"
  shows "is_ok (claim env ids now (t_key t) owner ttl req db) \<longleftrightarrow>
     t_status t \<in> {''created'', ''queued''} \<and> \<not> control_halts db t \<and>
     unreleased_dependency_in_connection db (t_key t) = Inr None \<and> \<not> runtime_owned db t \<and>
     (\<exists>policy. resolve_execution_policy (ae_policy env) (t_project t) None = Inr policy \<and>
        ticket_repo_path_refusal (ae_policy env) policy (Some (t_repo_path t)) = None)"
    (is "_ \<longleftrightarrow> ?conds")
proof -
  let ?none = "\<lparr>ap_executor = None, ap_model = None, ap_policy_version = None,
      ap_config_snapshot_hash = None, ap_permission_profile = None\<rparr>"
  have caller: "\<lparr>ap_executor = or_else (cr_executor req) (t_executor t), ap_model = or_else (cr_model req) (t_model t),
      ap_policy_version = cr_policy_version req, ap_config_snapshot_hash = cr_config_snapshot_hash req,
      ap_permission_profile = cr_permission_profile req\<rparr> = ?none"
    using plain by (simp add: plain_request_def or_else_def)
  note pol = policy_fields_iff [OF tick t(1) key, of "ae_policy env"]
  have ctl: "controllable db t" if "resolve_execution_policy (ae_policy env) (t_project t) None = Inr policy" for policy
    using policy_project_nonblank [OF that] t key tab proj
    by (auto simp: controllable_def require_non_empty_Inr truthy_def split: option.splits)
  have st: "py_strip (t_key t) = t_key t" using key by (simp add: normalize_task_key_Inr)
  show ?thesis
  proof
    assume "is_ok (claim env ids now (t_key t) owner ttl req db)"
    then obtain db' c where c: "claim env ids now (t_key t) owner ttl req db = Inr (db', c)"
      unfolding is_ok_iff by (metis surj_pair)
    note cond = claim_conditions [OF inv c]
    have ck: "cl_task_key c = t_key t" using cond(5) st by simp
    obtain pf where "attempt_policy_fields (ae_policy env) db (t_key t) ?none = Inr pf"
      using claim_recorded [OF inv c, unfolded st, OF t] caller by auto
    then have p: "\<exists>policy. resolve_execution_policy (ae_policy env) (t_project t) None = Inr policy \<and>
        ticket_repo_path_refusal (ae_policy env) policy (Some (t_repo_path t)) = None"
      using pol unfolding is_ok_iff by blast
    have "assert_admission_allowed db (t_key t) = Inr () \<and> \<not> runtime_owned db t"
      using cond(4) [unfolded ck, OF t] .
    then have "\<not> control_halts db t \<and> \<not> runtime_owned db t"
      using p ctl admission_agrees_with_trigger [OF wf] by blast
    moreover have "t_status t \<in> {''created'', ''queued''}" using cond(1) t(1) unfolding ck by simp
    ultimately show ?conds using cond(3) p unfolding ck by blast
  next
    assume c: ?conds
    then have ct: "controllable db t" using ctl by blast
    have "assert_admission_allowed db (t_key t) = Inr ()"
      using admission_agrees_with_trigger [OF wf ct] c by blast
    moreover have "is_ok (attempt_policy_fields (ae_policy env) db (t_key t) ?none)" using pol c by blast
    ultimately show "is_ok (claim env ids now (t_key t) owner ttl req db)"
      using c plain(3) fresh
      by (intro claim_succeeds_lemma [OF inv wf ct _ t(2) cap _ _ _ _ _ _ _ _ args])
        (simp_all add: caller, simp_all add: plain_request_def fresh_for_def absolute_or_none_def)
  qed
qed

lemma scope_disjunction:
  "((\<nexists>c. (a = f c \<and> x = g c) \<and> c \<in> S \<and> M c) \<and> (\<nexists>c. (b = f c \<and> y = g c) \<and> c \<in> S \<and> M c) \<and>
    (\<nexists>c. (d = f c \<and> z = g c) \<and> c \<in> S \<and> M c)) =
   (\<not> (\<exists>c \<in> S. M c \<and> (f c = a \<and> g c = x \<or> f c = b \<and> g c = y \<or> f c = d \<and> g c = z)))"
  by blast

lemma unhalted_iff:
  assumes "controls_wf db" and "''runtime_controls'' \<in> set (db_tables db)"
  shows "unhalted db (ready_ticket_of t) \<longleftrightarrow> \<not> control_halts db t"
proof -
  have modes: "rc_mode c \<noteq> ''running'' \<longleftrightarrow> rc_mode c \<in> {''paused'', ''kill_requested''}"
    if "c \<in> set (db_controls db)" for c
    using assms(1) that by (auto simp: controls_wf_def list_all_iff CONTROL_MODES_def)
  have halted: "set (halted_scopes db) =
      {(rc_scope_kind c, rc_scope_id c) | c. c \<in> set (db_controls db) \<and> rc_mode c \<in> {''paused'', ''kill_requested''}}"
    using modes by (auto simp: halted_scopes_def)
  have "unhalted db (ready_ticket_of t) \<longleftrightarrow> (''global'', ''*'') \<notin> set (halted_scopes db) \<and>
      (''project'', t_project t) \<notin> set (halted_scopes db) \<and> (''task'', t_key t) \<notin> set (halted_scopes db)"
    using assms(2) by (simp add: unhalted_def ready_ticket_of_def Let_def)
  also have "\<dots> \<longleftrightarrow> \<not> control_halts db t"
    unfolding halted control_halts_def list_ex_iff mem_Collect_eq prod.inject by (rule scope_disjunction)
  finally show ?thesis .
qed

lemma candidate_row_iff:
  assumes ok: "ready_rows_ok db" and inv: "runtime_inv db" and tm: "t \<in> set (db_tasks db)"
    and cols: "t_prompt t \<noteq> None" "t_worktree_path t \<noteq> None" "t_branch t \<noteq> None"
  shows "candidate_row db t \<longleftrightarrow> t_status t \<in> {''created'', ''queued''} \<and>
     unreleased_dependency_in_connection db (t_key t) = Inr None \<and>
     \<not> list_ex (\<lambda>l. Some (l_task_id l) = t_task_id t \<and> l_is_active l) (db_leases db)"
proof -
  have tabs: "''runtime_leases'' \<in> set (db_tables db)" "''task_id'' \<in> set (db_task_columns db)"
    "''blocked_by'' \<in> set (db_task_columns db)"
    using ok unfolding ready_rows_ok_def by simp_all
  have get: "get_task db (t_key u) = Some u" if "u \<in> set (db_tasks db)" for u
    unfolding get_task_def by (rule find_distinct_key [OF runtime_inv_tasks(1) [OF inv] that])
  note n = ready_rowsD(1,3) [OF ok tm]
  have ex: "list_ex (\<lambda>u. Some (t_key u) = Some b \<and> t_status u \<in> set COMPLETED_BLOCKER_STATUSES) (db_tasks db) \<longleftrightarrow>
      (\<exists>u. get_task db b = Some u \<and> t_status u \<in> set COMPLETED_BLOCKER_STATUSES)" for b
    using get get_task_Some unfolding list_ex_iff option.inject by metis
  have "(t_blocked_by t = None \<or>
      list_ex (\<lambda>u. Some (t_key u) = t_blocked_by t \<and> t_status u \<in> set COMPLETED_BLOCKER_STATUSES) (db_tasks db)) \<longleftrightarrow>
      unreleased_dependency_in_connection db (t_key t) = Inr None"
  proof (cases "t_blocked_by t")
    case (Some b)
    then have "b \<noteq> []" using n(2) by auto
    then show ?thesis using Some ex [of b] get [OF tm]
      by (simp add: unreleased_dependency_in_connection_def tabs n(1) split: option.split)
  qed (simp add: unreleased_dependency_in_connection_def tabs n(1) get [OF tm])
  then show ?thesis
    unfolding candidate_row_def using cols tabs by (simp add: CLAIMABLE_STATUSES_def)
qed

section \<open>Properties\<close>

lemma ready_iff_claimable_free:
  assumes ok: "ready_rows_ok db" and inv: "runtime_inv db" and wf: "controls_wf db"
    and tm: "t \<in> set (db_tasks db)" and cols: "t_prompt t \<noteq> None" "t_worktree_path t \<noteq> None" "t_branch t \<noteq> None"
    and cap: "count_active_executor_leases_in_connection db < cs_max_concurrent_tasks (runtime_capacity_in_connection db)"
    and req: "plain_request req" and fresh: "fresh_for env ids db" and args: "1 \<le> ttl" "py_strip owner \<noteq> []"
    and es: "eligible_tickets (ae_policy env) db = Inr es"
  shows "t_key t \<in> rq_task_key ` set es \<longleftrightarrow> is_ok (claim env ids now (t_key t) owner ttl req db)"
proof -
  let ?policy_ok = "\<exists>policy. resolve_execution_policy (ae_policy env) (t_project t) None = Inr policy \<and>
        ticket_repo_path_refusal (ae_policy env) policy (Some (t_repo_path t)) = None"
  have tabs: "''tasks'' \<in> set (db_tables db)" "''runtime_controls'' \<in> set (db_tables db)" "tasks_has_ticket_columns db"
    using ok unfolding ready_rows_ok_def by simp_all
  have get: "get_task db (t_key t) = Some t"
    unfolding get_task_def by (rule find_distinct_key [OF runtime_inv_tasks(1) [OF inv] tm])
  note n = ready_rowsD [OF ok tm]
  have verdict: "policy_verdict (ae_policy env) (ready_ticket_of t) = None \<longleftrightarrow> ?policy_ok"
    by (auto simp: policy_verdict_def policy_outcome_def ready_ticket_of_def split: sum.split)
  have "t_key t \<in> rq_task_key ` set es \<longleftrightarrow>
      candidate_row db t \<and> unhalted db (ready_ticket_of t) \<and> policy_verdict (ae_policy env) (ready_ticket_of t) = None"
  proof -
    have "set es = ready_ticket_of ` {u \<in> set (db_tasks db). candidate_row db u \<and> unhalted db (ready_ticket_of u) \<and>
        policy_verdict (ae_policy env) (ready_ticket_of u) = None}"
      using es tabs by (auto simp: eligible_tickets_def selection_eq candidate_tickets_eq unsorted_candidates_def)
    moreover have "rq_task_key (ready_ticket_of u) = t_key u" for u by (simp add: ready_ticket_of_def)
    ultimately show ?thesis using tm runtime_keys_inj [OF inv _ _ tm] by (force simp: image_iff)
  qed
  also have "\<dots> \<longleftrightarrow> t_status t \<in> {''created'', ''queued''} \<and> \<not> control_halts db t \<and>
      unreleased_dependency_in_connection db (t_key t) = Inr None \<and>
      \<not> list_ex (\<lambda>l. Some (l_task_id l) = t_task_id t \<and> l_is_active l) (db_leases db) \<and> ?policy_ok"
    unfolding verdict unhalted_iff [OF wf tabs(2)] candidate_row_iff [OF ok inv tm cols] by blast
  also have "\<dots> \<longleftrightarrow> is_ok (claim env ids now (t_key t) owner ttl req db)"
  proof -
    obtain db1 row where e: "ensure_task_identity db (t_key t) = Inr (db1, row)"
      using ready_identity [OF ok inv get] by blast
    note d = ensure_task_identity_Inr [OF e inv] and fr = ensure_task_identity_frame [OF e]
    note row = identity_row [OF e, unfolded n(6), OF get]
    have tick: "is_ticket_in_connection db1 (t_key row) = Inr True"
      using fr(2,3) tabs(3) n(1,6) row cols(1) by (simp add: is_ticket_in_connection_def tasks_has_ticket_columns_def)
    have "controls_wf db1" "control_halts db1 row = control_halts db t"
      using wf row by (simp_all add: controls_wf_def control_halts_def d(9))
    moreover have "fresh_for env ids db1" using fresh by (simp add: fresh_for_def d(5,6))
    moreover have "count_active_executor_leases_in_connection db1 < cs_max_concurrent_tasks (runtime_capacity_in_connection db1)"
      using cap by (simp add: capacity_view [OF e inv])
    moreover have "truthy (t_task_id row)" using d(4) by auto
    ultimately have "is_ok (claim env ids now (t_key row) owner ttl req db1) \<longleftrightarrow>
        t_status row \<in> {''created'', ''queued''} \<and> \<not> control_halts db t \<and>
        unreleased_dependency_in_connection db1 (t_key row) = Inr None \<and> \<not> runtime_owned db1 row \<and> ?policy_ok"
      using claim_iff [OF d(1), of row req env ids ttl owner now] tick req args row n cols(1) tabs(2) fr(3) d(8)
      by simp
    then show ?thesis
      using claim_after_identity [OF e inv n(1)] owned_iff_leased [OF ok inv get e] row
        unreleased_dependency_cong [OF fr(1,2)] by simp
  qed
  finally show ?thesis .
qed

text \<open>
  C29. The scheduler's view and the claim agree. On a database whose rows are as the program leaves them
  (normalised keys, the ownership invariant, well-formed controls, every active Attempt backed by an active
  lease, so none reserved by a reset) and for a Ticket with its derived worktree path and branch: claiming it,
  with fresh identifiers and no override, succeeds if and only if the ready queue lists it and a slot is free.
\<close>

theorem ready_iff_claimable:
  assumes ok: "ready_rows_ok db" and inv: "runtime_inv db" and wf: "controls_wf db"
    and tm: "t \<in> set (db_tasks db)" and cols: "t_prompt t \<noteq> None" "t_worktree_path t \<noteq> None" "t_branch t \<noteq> None"
    and req: "plain_request req" and fresh: "fresh_for env ids db" and args: "1 \<le> ttl" "py_strip owner \<noteq> []"
    and es: "eligible_tickets (ae_policy env) db = Inr es"
  shows "is_ok (claim env ids now (t_key t) owner ttl req db) \<longleftrightarrow>
     t_key t \<in> rq_task_key ` set es \<and>
     count_active_executor_leases_in_connection db < cs_max_concurrent_tasks (runtime_capacity_in_connection db)"
proof (cases "count_active_executor_leases_in_connection db < cs_max_concurrent_tasks (runtime_capacity_in_connection db)")
  case True
  then show ?thesis using ready_iff_claimable_free [OF ok inv wf tm cols True req fresh args es] by blast
next
  case False
  have "\<not> is_ok (claim env ids now (t_key t) owner ttl req db)"
  proof
    assume "is_ok (claim env ids now (t_key t) owner ttl req db)"
    then obtain db' c where c: "claim env ids now (t_key t) owner ttl req db = Inr (db', c)" unfolding is_ok_iff by (metis surj_pair)
    obtain key db1 task pf where "claim_checks env key req db = Inr (db1, task, pf)" by (rule claim_Inr [OF c])
    then have "assert_runtime_capacity_available db = Inr ()" by (rule claim_checks_Inr(1))
    then show False using False by (auto simp: assert_runtime_capacity_available_def Let_def split: if_splits)
  qed
  then show ?thesis using False by blast
qed

definition queue_ticket :: task_row where
  "queue_ticket = (example_ticket ''AT-0001'' ''created'')\<lparr>t_worktree_path := Some ''/repo/.worktrees/AT-0001''\<rparr>"

definition queue_db :: db where
  "queue_db = example_db [queue_ticket]"

lemma queue_db_ok: "ready_rows_ok queue_db" "runtime_inv queue_db" "controls_wf queue_db"
proof -
  have "normalize_task_key ''AT-0001'' = Inr ''AT-0001''" "py_strip ''proj'' = ''proj''" by code_simp+
  then show "ready_rows_ok queue_db"
    by (simp add: ready_rows_ok_def queue_db_def example_db_def queue_ticket_def example_ticket_def
        tasks_has_ticket_columns_def)
  show "runtime_inv queue_db"
    by (simp add: runtime_inv_def ownership_def no_blank_ids_def task_ids_def queue_db_def example_db_def
        queue_ticket_def example_ticket_def)
  show "controls_wf queue_db" by (simp add: controls_wf_def queue_db_def example_db_def)
qed

lemma queue_db_listed:
  "map_sum id (map rq_task_key) (eligible_tickets (ae_policy example_env) queue_db) = Inr [''AT-0001'']"
  by code_simp

theorem ready_iff_claimable_witness:
  "\<exists>es. eligible_tickets (ae_policy example_env) queue_db = Inr es \<and> ''AT-0001'' \<in> rq_task_key ` set es \<and>
     is_ok (claim example_env example_ids 100 ''AT-0001'' ''worker'' 60 example_request queue_db)"
proof -
  obtain es where es: "eligible_tickets (ae_policy example_env) queue_db = Inr es" "map rq_task_key es = [''AT-0001'']"
    using queue_db_listed by (cases "eligible_tickets (ae_policy example_env) queue_db") auto
  have t: "queue_ticket \<in> set (db_tasks queue_db)" "t_prompt queue_ticket \<noteq> None"
    "t_worktree_path queue_ticket \<noteq> None" "t_branch queue_ticket \<noteq> None" "t_key queue_ticket = ''AT-0001''"
    by (simp_all add: queue_db_def example_db_def queue_ticket_def example_ticket_def)
  have c: "count_active_executor_leases_in_connection queue_db <
      cs_max_concurrent_tasks (runtime_capacity_in_connection queue_db)" by code_simp
  have r: "plain_request example_request" by code_simp
  have f: "fresh_for example_env example_ids queue_db" by (simp add: fresh_for_def queue_db_def example_db_def)
  have o: "(1::int) \<le> 60" "py_strip ''worker'' \<noteq> []" by code_simp+
  have "''AT-0001'' \<in> rq_task_key ` set es" using es(2) by (metis list.set_intros(1) set_map)
  then show ?thesis
    using ready_iff_claimable [OF queue_db_ok t(1-4) r f o es(1), of 100] c es(1) t(5) by auto
qed

text \<open>
  The order of the queue is a function of the stored rows: on distinct keys the selection always
  returns, it keeps the candidates whose policy is runnable (the cache of policies per project changes
  nothing), the eligible Tickets are strictly increasing in (priority rank, creation time, key), and any
  other storage order of the same rows yields the same two lists.
\<close>

lemma ready_queue_order:
  assumes "distinct (map t_key (db_tasks db))"
  shows "\<exists>es rs. ready_queue_selection env db = Inr (es, rs) \<and>
     es = filter (\<lambda>t. policy_verdict env t = None) (candidate_tickets db) \<and>
     map pr_task_key rs = map rq_task_key (filter (\<lambda>t. policy_verdict env t \<noteq> None) (candidate_tickets db)) \<and>
     sorted_wrt (\<lambda>a b. ready_sort_key a < ready_sort_key b) es \<and>
     (\<forall>rows. mset rows = mset (db_tasks db) \<longrightarrow> ready_queue_selection env (db\<lparr>db_tasks := rows\<rparr>) = Inr (es, rs))"
proof -
  let ?es = "filter (\<lambda>t. policy_verdict env t = None) (candidate_tickets db)"
  have "sorted_wrt (\<lambda>a b. ready_sort_key a < ready_sort_key b) ?es"
    by (rule sorted_wrt_filter [OF candidates_strict [OF assms]])
  moreover have "candidate_tickets (db\<lparr>db_tasks := rows\<rparr>) = candidate_tickets db"
    if "mset rows = mset (db_tasks db)" for rows
    by (rule candidates_permute [OF assms]) (simp_all add: that)
  moreover have "map pr_task_key [refused_ticket t (the (policy_verdict env t)). t \<leftarrow> ts, policy_verdict env t \<noteq> None] =
      map rq_task_key (filter (\<lambda>t. policy_verdict env t \<noteq> None) ts)" for ts
    by (induction ts) (simp_all add: refused_ticket_def)
  ultimately show ?thesis by (simp add: selection_eq)
qed

end
