(* ===== verification/Task_Mirror.thy ===== *)
theory Task_Mirror
  imports Ticket_Store
begin

text \<open>
  The task mirror (\<open>store.py\<close>, class \<open>TaskMirrorStore\<close>, with the record classes of
  \<open>models.py\<close>): tasks, the append-only event log, artifacts and worktrees. Executor runs,
  validation results, approvals and lineage consumption have no tables; they are events of the log,
  and the readers rebuild them from it.

  An event without payload (\<open>NULL\<close>) and one with the empty object read the same, so both are
  \<open>JObj []\<close>. The outcome ledger that \<open>update_task_status\<close> publishes after its commit is a
  file outside the database; the model returns the Attempt it is published for.
\<close>

section \<open>Records\<close>

definition TASK_ARTIFACT_TYPES :: "string list" where
  "TASK_ARTIFACT_TYPES =
     [''spec'', ''issue_spec'', ''decision'', ''worker_log'', ''review_log'', ''manifest'',
      ''implementation_prompt'', ''task_execution_package'', ''pr_handoff'', ''pr_handoff_package'',
      ''draft_pr'', ''branch_push'', ''local_cleanup'', ''remote_branch_cleanup'', ''task_closeout'',
      ''task_evidence_archive'', ''scheduler_proposal'', ''scheduler_confirmation'',
      ''scheduler_confirmation_verifier_report'', ''intake_runner_handoff'',
      ''runtime_handoff_execution'', ''workflow_policy_summary'', ''artifact_index'',
      ''integration_result'', ''integration_validator_evidence'', ''integration_cleanup'',
      ''integration_crash_reconciliation'', ''other'']"

definition validate_task_artifact_type :: "string \<Rightarrow> string result" where
  "validate_task_artifact_type artifact_type = validate_in TASK_ARTIFACT_TYPES artifact_type"

record task_record =
  mt_task_key :: string
  mt_project :: string
  mt_status :: string
  mt_repo_path :: path
  mt_board :: "string option"
  mt_hermes_task_id :: "string option"
  mt_title :: "string option"
  mt_artifact_dir :: "path option"
  mt_blocked_reason :: "string option"
  mt_created_at :: "timestamp option"
  mt_updated_at :: "timestamp option"
  mt_last_synced_at :: "timestamp option"
  mt_executor :: "string option"
  mt_model :: "string option"
  mt_provider :: "string option"
  mt_tools :: "string list option"
  mt_pi_bin :: "string option"

definition init_task_record :: "(string \<Rightarrow> string option) \<Rightarrow> task_record \<Rightarrow> task_record result" where
  "init_task_record home r =
     rbind (normalize_task_key (mt_task_key r)) (\<lambda>key.
     rbind (require_non_empty (mt_project r)) (\<lambda>project.
     rbind (validate_task_status (mt_status r)) (\<lambda>status.
     rbind (require_absolute home (mt_repo_path r)) (\<lambda>repo.
     rbind (case mt_artifact_dir r of None \<Rightarrow> Inr None
            | Some p \<Rightarrow> rbind (require_absolute home p) (\<lambda>q. Inr (Some q))) (\<lambda>artifacts.
     Inr (r\<lparr>mt_task_key := key, mt_project := project, mt_status := status, mt_repo_path := repo,
            mt_artifact_dir := artifacts\<rparr>))))))"

section \<open>Tasks\<close>

text \<open>\<open>INSERT ... ON CONFLICT(task_key) DO UPDATE\<close>: the row inserted for a new key.\<close>

definition mirror_row :: "timestamp \<Rightarrow> task_record \<Rightarrow> task_row" where
  "mirror_row now r =
     \<lparr>t_key = mt_task_key r, t_project = mt_project r, t_title = mt_title r, t_status = mt_status r,
      t_repo_path = path_str (mt_repo_path r), t_artifact_dir = map_option path_str (mt_artifact_dir r),
      t_blocked_reason = mt_blocked_reason r,
      t_created_at = (case mt_created_at r of None \<Rightarrow> now | Some c \<Rightarrow> c),
      t_updated_at = (case mt_updated_at r of None \<Rightarrow> now | Some u \<Rightarrow> u),
      t_last_synced_at = Some (case mt_last_synced_at r of None \<Rightarrow> now | Some s \<Rightarrow> s),
      t_executor = mt_executor r, t_model = mt_model r, t_prompt = None, t_priority = None,
      t_ai_title_status = None, t_branch_slug_source = None, t_blocked_by = None, t_github_repo = None,
      t_base_branch = None, t_branch = None, t_worktree_path = None, t_commit_message_suggestion = None,
      t_task_id = None, t_task_class = ''legacy'', t_active_attempt_id = None, t_is_legacy = True,
      t_board = mt_board r, t_hermes_task_id = mt_hermes_task_id r, t_provider = mt_provider r,
      t_tools = mt_tools r, t_pi_bin = mt_pi_bin r, t_reset_generation = 0\<rparr>"

text \<open>
  The conflict branch: it assigns \<open>status\<close> even when it keeps the stored one, so the
  \<open>UPDATE OF status\<close> triggers see it; the partial unique index on \<open>(repo_path, branch)\<close>
  sees the new \<open>repo_path\<close>.
\<close>

definition mirror_update :: "timestamp \<Rightarrow> task_record \<Rightarrow> bool \<Rightarrow> task_row \<Rightarrow> task_row" where
  "mirror_update now r preserve t =
     t\<lparr>t_project := mt_project r, t_board := mt_board r, t_hermes_task_id := mt_hermes_task_id r,
       t_title := mt_title r, t_status := (if preserve then t_status t else mt_status r),
       t_repo_path := path_str (mt_repo_path r), t_artifact_dir := map_option path_str (mt_artifact_dir r),
       t_blocked_reason := (if preserve then t_blocked_reason t else mt_blocked_reason r),
       t_updated_at := (case mt_updated_at r of None \<Rightarrow> now | Some u \<Rightarrow> u),
       t_last_synced_at := Some (case mt_last_synced_at r of None \<Rightarrow> now | Some s \<Rightarrow> s),
       t_executor := mt_executor r, t_model := mt_model r, t_provider := mt_provider r,
       t_tools := mt_tools r, t_pi_bin := mt_pi_bin r\<rparr>"

definition upsert_task :: "timestamp \<Rightarrow> task_record \<Rightarrow> bool \<Rightarrow> db \<Rightarrow> db result" where
  "upsert_task now r preserve_existing_status db =
     (case get_task db (mt_task_key r) of
        None \<Rightarrow> insert_task (mirror_row now r) db
      | Some t \<Rightarrow>
          if t_branch t \<noteq> None \<and> list_ex (\<lambda>u. t_key u \<noteq> t_key t \<and> t_branch u = t_branch t \<and>
               t_repo_path u = path_str (mt_repo_path r)) (db_tasks db)
          then Inl (SqlAbort ''UNIQUE constraint failed'')
          else update_tasks_status now (\<lambda>u. t_key u = mt_task_key r)
                 (mirror_update now r preserve_existing_status) db)"

definition list_tasks :: "db \<Rightarrow> string option \<Rightarrow> string option \<Rightarrow> task_row list result" where
  "list_tasks db project status =
     rbind (case status of None \<Rightarrow> Inr None
            | Some s \<Rightarrow> rbind (validate_task_status s) (\<lambda>v. Inr (Some v))) (\<lambda>wanted.
     Inr (sort_key (\<lambda>t. (- t_updated_at t, t_key t))
       (filter (\<lambda>t. (project = None \<or> Some (t_project t) = project) \<and>
          (wanted = None \<or> Some (t_status t) = wanted)) (db_tasks db))))"

text \<open>\<open>GROUP BY project ORDER BY project\<close>.\<close>

definition list_projects :: "db \<Rightarrow> (string \<times> nat \<times> timestamp) list" where
  "list_projects db =
     map (\<lambda>p. let rows = filter (\<lambda>t. t_project t = p) (db_tasks db)
              in (p, length rows, Max (set (map t_updated_at rows))))
       (sort (remdups (map t_project (db_tasks db))))"

text \<open>\<open>_attempt_exposed_to_status_trigger\<close>.\<close>

definition attempt_exposed_to_status_trigger :: "db \<Rightarrow> string \<Rightarrow> string \<Rightarrow> string option" where
  "attempt_exposed_to_status_trigger db task_key target =
     (if target \<notin> set RUNTIME_TERMINAL_STATUSES then None
      else case get_task db task_key of
             None \<Rightarrow> None
           | Some t \<Rightarrow>
               if \<not> truthy (t_active_attempt_id t) \<or> t_status t = target \<or>
                  (case t_task_id t of None \<Rightarrow> False | Some i \<Rightarrow> i \<in> set (db_suppressions db))
               then None else t_active_attempt_id t)"

definition update_task_status ::
  "timestamp \<Rightarrow> string \<Rightarrow> string \<Rightarrow> string option \<Rightarrow> string \<Rightarrow> string option \<Rightarrow> string option \<Rightarrow> db
     \<Rightarrow> (db \<times> string option) result" where
  "update_task_status now task_key status msg source blocked_reason expected db =
     rbind (validate_task_status status) (\<lambda>validated.
     rbind (case expected of None \<Rightarrow> Inr None
            | Some e \<Rightarrow> rbind (validate_task_status e) (\<lambda>v. Inr (Some v))) (\<lambda>wanted.
       let stored_reason = (if validated = ''blocked''
             then (if truthy blocked_reason then blocked_reason else msg) else None);
           p = (\<lambda>t. t_key t = task_key \<and> (wanted = None \<or> wanted = Some (t_status t)));
           terminal = attempt_exposed_to_status_trigger db task_key validated
       in
     rbind (update_tasks_status now p
              (\<lambda>t. t\<lparr>t_status := validated, t_blocked_reason := stored_reason, t_updated_at := now,
                     t_last_synced_at := Some now\<rparr>) db) (\<lambda>db'.
       if \<not> list_ex p (db_tasks db)
       then Inl (if get_task db task_key = None then KeyError else ValueError)
       else
     rbind (insert_event task_key ''status_changed'' source
              (JObj [(''status'', JStr validated), (''blocked_reason'', jopt stored_reason)]) now db') (\<lambda>db''.
     Inr (db'', terminal)))))"

section \<open>Events\<close>

definition record_task_event ::
  "timestamp \<Rightarrow> string \<Rightarrow> string \<Rightarrow> string \<Rightarrow> (string \<times> json) list \<Rightarrow> db \<Rightarrow> db result" where
  "record_task_event now task_key event_type source payload db =
     rbind (normalize_task_key task_key) (\<lambda>key.
     rbind (validate_task_event_type event_type) (\<lambda>ty.
     rbind (require_non_empty source) (\<lambda>src.
     insert_event key ty src (JObj payload) now db)))"

definition list_task_events :: "db \<Rightarrow> string \<Rightarrow> event_row list" where
  "list_task_events db task_key = filter (\<lambda>e. ev_task_key e = task_key) (db_events db)"

text \<open>\<open>payload.get(key)\<close>: JSON \<open>null\<close> and a missing key are both \<open>None\<close>.\<close>

definition pget :: "json \<Rightarrow> string \<Rightarrow> json option" where
  "pget payload k = (case json_get payload k of Some JNull \<Rightarrow> None | v \<Rightarrow> v)"

definition por :: "json option \<Rightarrow> json option \<Rightarrow> json option" where
  "por a b = (if json_truthy a then a else b)"

text \<open>\<open>json.dumps(payload, sort_keys=True)\<close> and the \<open>LIKE\<close> filter on its text.\<close>

definition hex_digit :: "nat \<Rightarrow> char" where
  "hex_digit n = (if n < 10 then char_of (48 + n) else char_of (87 + n))"

definition json_escape :: "char \<Rightarrow> string" where
  "json_escape c =
     (let n = (of_char c :: nat) in
      if n = 34 then [char_of (92::nat), c]
      else if n = 92 then [c, c]
      else if n = 10 then [char_of (92::nat), CHR ''n'']
      else if n = 13 then [char_of (92::nat), CHR ''r'']
      else if n = 9 then [char_of (92::nat), CHR ''t'']
      else if n = 8 then [char_of (92::nat), CHR ''b'']
      else if n = 12 then [char_of (92::nat), CHR ''f'']
      else if 32 \<le> n \<and> n \<le> 126 then [c]
      else [char_of (92::nat), CHR ''u'', CHR ''0'', CHR ''0'', hex_digit (n div 16), hex_digit (n mod 16)])"

definition json_string :: "string \<Rightarrow> string" where
  "json_string s = [char_of (34::nat)] @ concat (map json_escape s) @ [char_of (34::nat)]"

fun json_dumps :: "json \<Rightarrow> string" where
  "json_dumps JNull = ''null''"
| "json_dumps (JBool b) = (if b then ''true'' else ''false'')"
| "json_dumps (JInt n) = (if n < 0 then CHR ''-'' # decimal (nat (- n)) else decimal (nat n))"
| "json_dumps (JStr s) = json_string s"
| "json_dumps (JList xs) = CHR ''['' # py_join '', '' (map json_dumps xs) @ '']''"
| "json_dumps (JObj kvs) =
     CHR ''{'' # py_join '', '' (map (\<lambda>(k, t). json_string k @ '': '' @ t)
        (sort_key fst (map (\<lambda>(k, v). (k, json_dumps v)) kvs))) @ ''}''"

text \<open>\<open>LIKE '%marker%'\<close> with every wildcard of the marker escaped; ASCII letters match in both cases.\<close>

definition like_contains :: "string \<Rightarrow> string \<Rightarrow> bool" where
  "like_contains marker s = contains_sub (py_lower marker) (py_lower s)"

definition list_task_events_filtered :: "db \<Rightarrow> string \<Rightarrow> string list \<Rightarrow> string list \<Rightarrow> event_row list" where
  "list_task_events_filtered db task_key event_types payload_markers =
     (if event_types = [] then []
      else filter (\<lambda>e. ev_task_key e = task_key \<and> ev_type e \<in> set event_types \<and>
        (payload_markers = [] \<or> list_ex (\<lambda>m. like_contains m (json_dumps (ev_payload e))) payload_markers))
        (db_events db))"

section \<open>Executor runs, validation results, approvals\<close>

definition path_text :: "string option \<Rightarrow> json" where
  "path_text p = (if truthy p then jopt p else JNull)"

definition create_executor_run ::
  "timestamp \<Rightarrow> string \<Rightarrow> string \<Rightarrow> string \<Rightarrow> string option \<Rightarrow> string option \<Rightarrow> db \<Rightarrow> db result" where
  "create_executor_run now run_id task_key executor model prompt_path db =
     record_task_event now task_key ''note'' ''dispatcher''
       [(''kind'', JStr ''executor_run_started''), (''run_id'', JStr run_id), (''executor'', JStr executor),
        (''model'', jopt model), (''prompt_path'', path_text prompt_path)] db"

definition json_int_opt :: "int option \<Rightarrow> json" where
  "json_int_opt v = (case v of None \<Rightarrow> JNull | Some n \<Rightarrow> JInt n)"

definition text_dict :: "(string \<times> string) list \<Rightarrow> json" where
  "text_dict kvs = JObj (map (\<lambda>(k, v). (k, JStr v)) kvs)"

definition finish_executor_run ::
  "timestamp \<Rightarrow> string \<Rightarrow> string \<Rightarrow> string \<Rightarrow> string \<Rightarrow> int option \<Rightarrow> string option \<Rightarrow> string option
     \<Rightarrow> (string \<times> string) list \<Rightarrow> db \<Rightarrow> db result" where
  "finish_executor_run now task_key run_id executor status exit_code summary log_path artifacts db =
     record_task_event now task_key ''note'' ''dispatcher''
       [(''kind'', JStr ''executor_run_finished''), (''run_id'', JStr run_id), (''executor'', JStr executor),
        (''status'', JStr status), (''exit_code'', json_int_opt exit_code), (''summary'', jopt summary),
        (''log_path'', path_text log_path), (''artifacts'', text_dict artifacts)] db"

definition record_validation_result ::
  "timestamp \<Rightarrow> string \<Rightarrow> string \<Rightarrow> string \<Rightarrow> int option \<Rightarrow> string option \<Rightarrow> string option
     \<Rightarrow> (string \<times> string) list \<Rightarrow> db \<Rightarrow> db result" where
  "record_validation_result now task_key validator status exit_code summary log_path artifacts db =
     record_task_event now task_key ''note'' ''dispatcher''
       [(''kind'', JStr ''validation_result''), (''validator'', JStr validator), (''status'', JStr status),
        (''exit_code'', json_int_opt exit_code), (''summary'', jopt summary),
        (''log_path'', path_text log_path), (''artifacts'', text_dict artifacts)] db"

record executor_run =
  er_run_id :: string
  er_task_key :: string
  er_executor :: "json option"
  er_model :: "json option"
  er_prompt_path :: "json option"
  er_status :: "json option"
  er_exit_code :: "json option"
  er_summary :: "json option"
  er_log_path :: "json option"
  er_artifacts :: "(string \<times> json) list"
  er_started_at :: "timestamp option"
  er_finished_at :: "timestamp option"

fun dict_of :: "json option \<Rightarrow> (string \<times> json) list" where
  "dict_of (Some (JObj kvs)) = kvs"
| "dict_of _ = []"

definition new_run :: "string \<Rightarrow> event_row \<Rightarrow> executor_run" where
  "new_run run_id e =
     \<lparr>er_run_id = run_id, er_task_key = ev_task_key e, er_executor = pget (ev_payload e) ''executor'',
      er_model = None, er_prompt_path = None, er_status = None, er_exit_code = None, er_summary = None,
      er_log_path = None, er_artifacts = [], er_started_at = None, er_finished_at = None\<rparr>"

definition apply_run_event :: "string \<Rightarrow> event_row \<Rightarrow> executor_run \<Rightarrow> executor_run" where
  "apply_run_event kind e r =
     (let p = ev_payload e in
      if kind = ''executor_run_started''
      then r\<lparr>er_executor := pget p ''executor'', er_model := pget p ''model'',
             er_prompt_path := pget p ''prompt_path'', er_started_at := Some (ev_created_at e)\<rparr>
      else r\<lparr>er_executor := pget p ''executor'', er_status := pget p ''status'',
             er_exit_code := pget p ''exit_code'', er_summary := pget p ''summary'',
             er_log_path := pget p ''log_path'', er_artifacts := dict_of (json_get p ''artifacts''),
             er_finished_at := Some (ev_created_at e)\<rparr>)"

text \<open>One round of the loop: the dict of runs, in insertion order.\<close>

definition run_event :: "(string \<times> executor_run) list \<Rightarrow> event_row \<Rightarrow> (string \<times> executor_run) list" where
  "run_event runs e =
     (case (json_get (ev_payload e) ''kind'', json_get (ev_payload e) ''run_id'') of
        (Some (JStr kind), Some (JStr run_id)) \<Rightarrow>
          if kind \<notin> {''executor_run_started'', ''executor_run_finished''} \<or> run_id = [] then runs
          else dict_set run_id
                 (apply_run_event kind e
                    (case map_of runs run_id of None \<Rightarrow> new_run run_id e | Some r \<Rightarrow> r)) runs
      | _ \<Rightarrow> runs)"

definition executor_runs :: "db \<Rightarrow> string \<Rightarrow> (string \<times> executor_run) list" where
  "executor_runs db task_key =
     foldl run_event []
       (list_task_events_filtered db task_key [''note''] [''executor_run_started'', ''executor_run_finished''])"

definition list_executor_runs :: "db \<Rightarrow> string \<Rightarrow> executor_run list" where
  "list_executor_runs db task_key = map snd (executor_runs db task_key)"

record validation_result =
  vr_task_key :: string
  vr_validator :: "json option"
  vr_status :: "json option"
  vr_exit_code :: "json option"
  vr_summary :: "json option"
  vr_log_path :: "json option"
  vr_artifacts :: "(string \<times> json) list"
  vr_created_at :: timestamp

definition list_validation_results :: "db \<Rightarrow> string \<Rightarrow> validation_result list" where
  "list_validation_results db task_key =
     map (\<lambda>e. let p = ev_payload e in
        \<lparr>vr_task_key = ev_task_key e, vr_validator = pget p ''validator'', vr_status = pget p ''status'',
         vr_exit_code = pget p ''exit_code'', vr_summary = pget p ''summary'', vr_log_path = pget p ''log_path'',
         vr_artifacts = dict_of (json_get p ''artifacts''), vr_created_at = ev_created_at e\<rparr>)
       (filter (\<lambda>e. json_get (ev_payload e) ''kind'' = Some (JStr ''validation_result''))
          (list_task_events_filtered db task_key [''note''] [''validation_result'']))"

definition record_approval_decision ::
  "timestamp \<Rightarrow> string \<Rightarrow> string \<Rightarrow> string \<Rightarrow> string option \<Rightarrow> string \<Rightarrow> db \<Rightarrow> db result" where
  "record_approval_decision now task_key decision decided_by notes source db =
     (let normalized = py_lower (py_strip decision); reviewer = py_strip decided_by in
      if normalized \<notin> {''accepted'', ''rejected''} then Inl ValueError
      else if reviewer = [] then Inl ValueError
      else record_task_event now task_key ''note'' source
        [(''kind'', JStr ''approval_decision''), (''decision'', JStr normalized),
         (''decided_by'', JStr reviewer), (''notes'', jopt notes), (''reviewer'', JStr reviewer),
         (''summary'', jopt notes)] db)"

record approval_decision =
  ad_task_key :: string
  ad_decision :: "json option"
  ad_decided_by :: "json option"
  ad_notes :: "json option"
  ad_reviewer :: "json option"
  ad_summary :: "json option"
  ad_created_at :: timestamp

definition list_approval_decisions :: "db \<Rightarrow> string \<Rightarrow> approval_decision list" where
  "list_approval_decisions db task_key =
     map (\<lambda>e. let p = ev_payload e;
            reviewer = por (pget p ''reviewer'') (pget p ''decided_by'');
            summary = por (pget p ''summary'') (pget p ''notes'')
          in \<lparr>ad_task_key = ev_task_key e, ad_decision = pget p ''decision'',
              ad_decided_by = por (pget p ''decided_by'') reviewer, ad_notes = por (pget p ''notes'') summary,
              ad_reviewer = reviewer, ad_summary = summary, ad_created_at = ev_created_at e\<rparr>)
       (filter (\<lambda>e. json_get (ev_payload e) ''kind'' \<in>
            {Some (JStr ''approval_decision''), Some (JStr ''approval_recorded'')})
          (list_task_events_filtered db task_key [''note''] [''approval_decision'', ''approval_recorded'']))"

section \<open>Single-use lineage\<close>

record lineage_ids =
  li_confirmation_id :: "string option"
  li_verifier_report_id :: "string option"
  li_handoff_id :: "string option"
  li_proposal_hash :: "string option"
  li_proposal_item_id :: "string option"
  li_item_hash :: "string option"

definition lineage_fields :: "lineage_ids \<Rightarrow> (string \<times> string option) list" where
  "lineage_fields ids =
     [(''confirmation_id'', li_confirmation_id ids), (''verifier_report_id'', li_verifier_report_id ids),
      (''handoff_id'', li_handoff_id ids), (''proposal_hash'', li_proposal_hash ids),
      (''proposal_item_id'', li_proposal_item_id ids), (''item_hash'', li_item_hash ids)]"

definition LINEAGE_CONSUMPTION_SAFETY_FLAGS :: "(string \<times> json) list" where
  "LINEAGE_CONSUMPTION_SAFETY_FLAGS =
     [(''single_use_enforced'', JBool True), (''not_approval'', JBool True), (''not_merge'', JBool True),
      (''not_cleanup'', JBool True)]"

definition record_lineage_consumed ::
  "timestamp \<Rightarrow> string \<Rightarrow> string \<Rightarrow> string \<Rightarrow> string \<Rightarrow> string \<Rightarrow> string \<Rightarrow> string \<Rightarrow> lineage_ids \<Rightarrow> db
     \<Rightarrow> db result" where
  "record_lineage_consumed now task_key event_type source consumed_type consumed_path consumer_type
     consumer_path ids db =
     rbind (normalize_task_key task_key) (\<lambda>key.
     record_task_event now task_key event_type source
       ([(''kind'', JStr event_type), (''task_key'', JStr key), (''consumed_artifact_type'', JStr consumed_type),
         (''consumed_artifact_path'', JStr consumed_path), (''consumer_artifact_type'', JStr consumer_type),
         (''consumer_artifact_path'', JStr consumer_path)] @
        map (\<lambda>(k, v). (k, jopt v)) (lineage_fields ids) @
        [(''consumed_at'', JInt now), (''source'', JStr source)] @ LINEAGE_CONSUMPTION_SAFETY_FLAGS) db)"

definition lineage_match :: "string \<Rightarrow> string \<Rightarrow> string option \<Rightarrow> lineage_ids \<Rightarrow> event_row \<Rightarrow> bool" where
  "lineage_match event_type consumed_type consumed_path ids e \<longleftrightarrow>
     ev_type e = event_type \<and> json_get (ev_payload e) ''single_use_enforced'' = Some (JBool True) \<and>
     json_get (ev_payload e) ''consumed_artifact_type'' = Some (JStr consumed_type) \<and>
     list_all (\<lambda>(k, v). v = None \<or> json_get (ev_payload e) k = map_option JStr v)
       ((''consumed_artifact_path'', consumed_path) # lineage_fields ids)"

definition list_lineage_consumption_events ::
  "db \<Rightarrow> string \<Rightarrow> string \<Rightarrow> string \<Rightarrow> string option \<Rightarrow> lineage_ids \<Rightarrow> event_row list" where
  "list_lineage_consumption_events db task_key event_type consumed_type consumed_path ids =
     filter (lineage_match event_type consumed_type consumed_path ids) (list_task_events db task_key)"

definition lineage_consumed ::
  "db \<Rightarrow> string \<Rightarrow> string \<Rightarrow> string \<Rightarrow> string option \<Rightarrow> lineage_ids \<Rightarrow> bool" where
  "lineage_consumed db task_key event_type consumed_type consumed_path ids \<longleftrightarrow>
     list_lineage_consumption_events db task_key event_type consumed_type consumed_path ids \<noteq> []"

section \<open>Artifacts and worktrees\<close>

definition record_task_artifact ::
  "(string \<Rightarrow> string option) \<Rightarrow> timestamp \<Rightarrow> string \<Rightarrow> string \<Rightarrow> path \<Rightarrow> db \<Rightarrow> db result" where
  "record_task_artifact home now task_key artifact_type p db =
     rbind (normalize_task_key task_key) (\<lambda>key.
     rbind (validate_task_artifact_type artifact_type) (\<lambda>ty.
     rbind (require_absolute home p) (\<lambda>q.
       if get_task db key = None then Inl (SqlAbort ''FOREIGN KEY constraint failed'')
       else Inr (db\<lparr>db_artifacts := db_artifacts db @
         [\<lparr>ar_task_key = key, ar_type = ty, ar_path = path_str q, ar_created_at = now\<rparr>]\<rparr>))))"

definition list_task_artifacts :: "db \<Rightarrow> string \<Rightarrow> artifact_row list" where
  "list_task_artifacts db task_key = filter (\<lambda>a. ar_task_key a = task_key) (db_artifacts db)"

record worktree_record =
  wr_task_key :: string
  wr_repo_path :: path
  wr_worktree_path :: path
  wr_branch :: string
  wr_status :: string
  wr_base_branch :: "string option"
  wr_base_sha :: "string option"
  wr_created_at :: "timestamp option"
  wr_cleaned_at :: "timestamp option"

definition init_worktree_record :: "(string \<Rightarrow> string option) \<Rightarrow> worktree_record \<Rightarrow> worktree_record result" where
  "init_worktree_record home r =
     rbind (normalize_task_key (wr_task_key r)) (\<lambda>key.
     rbind (require_absolute home (wr_repo_path r)) (\<lambda>repo.
     rbind (require_absolute home (wr_worktree_path r)) (\<lambda>wt.
     rbind (require_non_empty (wr_branch r)) (\<lambda>branch.
     rbind (validate_task_worktree_status (wr_status r)) (\<lambda>status.
     Inr (r\<lparr>wr_task_key := key, wr_repo_path := repo, wr_worktree_path := wt, wr_branch := branch,
            wr_status := status\<rparr>))))))"

definition upsert_task_worktree :: "timestamp \<Rightarrow> worktree_record \<Rightarrow> db \<Rightarrow> db result" where
  "upsert_task_worktree now r db =
     (if get_task db (wr_task_key r) = None then Inl (SqlAbort ''FOREIGN KEY constraint failed'')
      else if list_ex (\<lambda>w. w_task_key w = wr_task_key r) (db_worktrees db)
      then Inr (db\<lparr>db_worktrees := map_where (\<lambda>w. w_task_key w = wr_task_key r)
        (\<lambda>w. w\<lparr>w_repo_path := path_str (wr_repo_path r), w_worktree_path := path_str (wr_worktree_path r),
               w_branch := wr_branch r, w_base_branch := wr_base_branch r, w_base_sha := wr_base_sha r,
               w_status := wr_status r, w_cleaned_at := wr_cleaned_at r\<rparr>) (db_worktrees db)\<rparr>)
      else Inr (db\<lparr>db_worktrees := db_worktrees db @
        [\<lparr>w_task_key = wr_task_key r, w_repo_path = path_str (wr_repo_path r),
          w_worktree_path = path_str (wr_worktree_path r), w_branch = wr_branch r,
          w_base_branch = wr_base_branch r, w_base_sha = wr_base_sha r, w_status = wr_status r,
          w_created_at = (case wr_created_at r of None \<Rightarrow> now | Some c \<Rightarrow> c),
          w_cleaned_at = wr_cleaned_at r\<rparr>]\<rparr>))"

definition row_to_worktree :: "(string \<Rightarrow> string option) \<Rightarrow> worktree_row \<Rightarrow> worktree_record result" where
  "row_to_worktree home w =
     init_worktree_record home
       \<lparr>wr_task_key = w_task_key w, wr_repo_path = parse_path (w_repo_path w),
        wr_worktree_path = parse_path (w_worktree_path w), wr_branch = w_branch w, wr_status = w_status w,
        wr_base_branch = w_base_branch w, wr_base_sha = w_base_sha w, wr_created_at = Some (w_created_at w),
        wr_cleaned_at = w_cleaned_at w\<rparr>"

definition get_task_worktree ::
  "(string \<Rightarrow> string option) \<Rightarrow> db \<Rightarrow> string \<Rightarrow> worktree_record option result" where
  "get_task_worktree home db task_key =
     (case find (\<lambda>w. w_task_key w = task_key) (db_worktrees db) of
        None \<Rightarrow> Inr None
      | Some w \<Rightarrow> rbind (row_to_worktree home w) (\<lambda>r. Inr (Some r)))"

definition list_task_worktrees ::
  "(string \<Rightarrow> string option) \<Rightarrow> db \<Rightarrow> string option \<Rightarrow> string option \<Rightarrow> worktree_record list result" where
  "list_task_worktrees home db project status =
     rbind (case status of None \<Rightarrow> Inr None
            | Some s \<Rightarrow> rbind (validate_task_worktree_status s) (\<lambda>v. Inr (Some v))) (\<lambda>wanted.
     map_ok (row_to_worktree home)
       (sort_key (\<lambda>w. (- w_created_at w, w_task_key w))
         (filter (\<lambda>w. (case get_task db (w_task_key w) of
              None \<Rightarrow> False
            | Some t \<Rightarrow> project = None \<or> Some (t_project t) = project) \<and>
            (wanted = None \<or> Some (w_status w) = wanted)) (db_worktrees db))))"

section \<open>The text filter loses nothing\<close>

lemma map_of_dict_set: "map_of (dict_set k v d) = (map_of d)(k \<mapsto> v)"
  by (induction k v d rule: dict_set.induct) (auto simp: fun_eq_iff)

lemma contains_sub_join: "w \<in> set ws \<Longrightarrow> contains_sub m w \<Longrightarrow> contains_sub m (py_join sep ws)"
proof (induction sep ws rule: py_join.induct)
  case (3 sep v w ws)
  then show ?case
  proof (cases "contains_sub m v")
    case True
    then obtain a b where "v = a @ m @ b" unfolding contains_sub_iff by blast
    then have "py_join sep (v # w # ws) = a @ m @ (b @ sep @ py_join sep (w # ws))" by simp
    then show ?thesis unfolding contains_sub_iff by blast
  next
    case False
    then have "contains_sub m (py_join sep (w # ws))" using 3 by auto
    then obtain a b where "py_join sep (w # ws) = a @ m @ b" unfolding contains_sub_iff by blast
    then have "py_join sep (v # w # ws) = (v @ sep @ a) @ m @ b" by simp
    then show ?thesis unfolding contains_sub_iff by blast
  qed
qed auto

lemma json_string_plain:
  "list_all (\<lambda>c. json_escape c = [c]) m \<Longrightarrow> json_string m = char_of (34::nat) # m @ [char_of (34::nat)]"
  by (induction m) (simp_all add: json_string_def)

lemma json_dumps_mentions:
  assumes "(k, JStr m) \<in> set kvs" and "list_all (\<lambda>c. json_escape c = [c]) m"
  shows "contains_sub m (json_dumps (JObj kvs))"
proof -
  let ?part = "\<lambda>(k, t). json_string k @ '': '' @ t" and ?ts = "sort_key fst (map (\<lambda>(k, v). (k, json_dumps v)) kvs)"
  have "(k, json_string m) \<in> set ?ts" using assms(1) by force
  then have "?part (k, json_string m) \<in> set (map ?part ?ts)" unfolding set_map by (rule imageI)
  moreover have "contains_sub m (?part (k, json_string m))"
    unfolding contains_sub_iff json_string_plain [OF assms(2)]
    by (intro exI [of _ "json_string k @ '': '' @ [char_of (34::nat)]"] exI [of _ "[char_of (34::nat)]"]) simp
  ultimately have "contains_sub m (py_join '', '' (map ?part ?ts))" by (rule contains_sub_join)
  then obtain a b where "py_join '', '' (map ?part ?ts) = a @ m @ b" unfolding contains_sub_iff by blast
  then have "json_dumps (JObj kvs) = (CHR ''{'' # a) @ m @ (b @ ''}'')" by simp
  then show ?thesis unfolding contains_sub_iff by blast
qed

lemma like_contains_of_sub: "contains_sub m s \<Longrightarrow> like_contains m s"
  unfolding like_contains_def contains_sub_iff py_lower_def by (metis map_append)

lemma json_get_mem: "json_get p k = Some v \<Longrightarrow> \<exists>kvs. p = JObj kvs \<and> (k, v) \<in> set kvs"
  by (cases p) (auto dest: map_of_SomeD)

lemma kind_passes_filter:
  assumes "json_get p ''kind'' = Some (JStr m)" and "list_all (\<lambda>c. json_escape c = [c]) m"
  shows "like_contains m (json_dumps p)"
  using json_get_mem [OF assms(1)] json_dumps_mentions [OF _ assms(2)] like_contains_of_sub by blast

lemma foldl_filter_ignore:
  "(\<And>e s. e \<in> set xs \<Longrightarrow> \<not> P e \<Longrightarrow> f s e = s) \<Longrightarrow> foldl f s (filter P xs) = foldl f s xs"
  by (induction xs arbitrary: s) auto

lemma run_markers_plain:
  "list_all (\<lambda>c. json_escape c = [c]) ''executor_run_started''"
  "list_all (\<lambda>c. json_escape c = [c]) ''executor_run_finished''"
  by code_simp+

definition note_events :: "db \<Rightarrow> string \<Rightarrow> event_row list" where
  "note_events db key = filter (\<lambda>e. ev_task_key e = key \<and> ev_type e = ''note'') (db_events db)"

lemma executor_runs_eq: "executor_runs db key = foldl run_event [] (note_events db key)"
proof -
  let ?P = "\<lambda>e. list_ex (\<lambda>m. like_contains m (json_dumps (ev_payload e)))
      [''executor_run_started'', ''executor_run_finished'']"
  have ignore: "run_event s e = s" if "\<not> ?P e" for s e
  proof -
    have "json_get (ev_payload e) ''kind'' \<noteq> Some (JStr m)"
      if "m \<in> {''executor_run_started'', ''executor_run_finished''}" for m
      using \<open>\<not> ?P e\<close> that kind_passes_filter run_markers_plain by auto
    then show ?thesis by (auto simp: run_event_def split: option.split json.split)
  qed
  have "list_task_events_filtered db key [''note''] [''executor_run_started'', ''executor_run_finished''] =
      filter ?P (note_events db key)"
    by (auto simp: list_task_events_filtered_def note_events_def intro: filter_cong)
  then show ?thesis unfolding executor_runs_def using foldl_filter_ignore [of _ ?P run_event] ignore by simp
qed

lemma record_task_event_Inr:
  assumes "record_task_event now task_key ty source payload db = Inr db'"
  shows "db_events db' = db_events db @ [\<lparr>ev_id = next_event_id db, ev_task_key = py_strip task_key,
     ev_type = py_strip ty, ev_source = py_strip source, ev_payload = JObj payload, ev_created_at = now\<rparr>]"
proof -
  obtain k t src where "normalize_task_key task_key = Inr k" "validate_task_event_type ty = Inr t"
    "require_non_empty source = Inr src" "insert_event k t src (JObj payload) now db = Inr db'"
    using assms unfolding record_task_event_def rbind_Inr_iff by blast
  then show ?thesis using insert_event_log [of k t src "JObj payload" now db db']
    by (auto simp: normalize_task_key_Inr validate_task_event_type_def validate_in_def rbind_Inr_iff
        require_non_empty_Inr split: if_splits)
qed

lemma jopt_Some: "v = None \<or> Some (jopt v) = map_option JStr v"
  by (cases v) (simp_all add: jopt_def)

lemma find_Some_filter: "find P xs = Some x \<Longrightarrow> \<exists>ys. filter P xs = x # ys"
  by (induction xs) (auto split: if_splits)

lemma record_task_event_log:
  assumes "record_task_event now task_key ty source payload db = Inr db'"
  obtains e where "db_events db' = db_events db @ [e]" "ev_task_key e = py_strip task_key"
    "ev_type e = py_strip ty" "ev_payload e = JObj payload" "ev_created_at e = now"
  by (rule that [OF record_task_event_Inr [OF assms]]) simp_all

section \<open>Properties\<close>

text \<open>
  The run history rebuilt from the event log is exact: after \<open>finish_executor_run\<close> the run shows
  the reported status, exit code and finish time, keeps its recorded start, model and prompt, no other
  run of the task and no other task's history changes. The \<open>LIKE\<close> filter on the payload text that
  precedes the reconstruction drops no event that counts.
\<close>

lemma executor_run_readback:
  assumes "finish_executor_run now task_key run_id executor status exit_code summary log_path artifacts db = Inr db'"
    and "run_id \<noteq> []"
  shows "(\<exists>r. map_of (executor_runs db' (py_strip task_key)) run_id = Some r \<and>
       er_executor r = Some (JStr executor) \<and> er_status r = Some (JStr status) \<and>
       er_exit_code r = map_option JInt exit_code \<and> er_finished_at r = Some now \<and>
       (er_started_at r, er_model r, er_prompt_path r) =
         (case map_of (executor_runs db (py_strip task_key)) run_id of
            None \<Rightarrow> (None, None, None) | Some r0 \<Rightarrow> (er_started_at r0, er_model r0, er_prompt_path r0))) \<and>
     (\<forall>i. i \<noteq> run_id \<longrightarrow>
        map_of (executor_runs db' (py_strip task_key)) i = map_of (executor_runs db (py_strip task_key)) i) \<and>
     (\<forall>k. k \<noteq> py_strip task_key \<longrightarrow> executor_runs db' k = executor_runs db k)"
proof -
  let ?k = "py_strip task_key"
  let ?p = "[(''kind'', JStr ''executor_run_finished''), (''run_id'', JStr run_id), (''executor'', JStr executor),
        (''status'', JStr status), (''exit_code'', json_int_opt exit_code), (''summary'', jopt summary),
        (''log_path'', path_text log_path), (''artifacts'', text_dict artifacts)]"
  have strip: "py_strip ''note'' = ''note''" by code_simp
  obtain e where e: "db_events db' = db_events db @ [e]" "ev_task_key e = ?k" "ev_type e = ''note''"
    "ev_payload e = JObj ?p" "ev_created_at e = now"
    using assms(1) [unfolded finish_executor_run_def] by (rule record_task_event_log) (use strip in simp)
  have other: "executor_runs db' k = executor_runs db k" if "k \<noteq> ?k" for k
    using that by (simp add: executor_runs_eq note_events_def e(1,2))
  define r where "r = apply_run_event ''executor_run_finished'' e
      (case map_of (executor_runs db ?k) run_id of None \<Rightarrow> new_run run_id e | Some r \<Rightarrow> r)"
  have "executor_runs db' ?k = run_event (executor_runs db ?k) e"
    by (simp add: executor_runs_eq note_events_def e(1,2,3))
  also have "\<dots> = dict_set run_id r (executor_runs db ?k)"
    by (simp add: run_event_def e(4) assms(2) r_def)
  finally have runs: "map_of (executor_runs db' ?k) = (map_of (executor_runs db ?k))(run_id \<mapsto> r)"
    by (simp add: map_of_dict_set)
  have "er_executor r = Some (JStr executor) \<and> er_status r = Some (JStr status) \<and>
       er_exit_code r = map_option JInt exit_code \<and> er_finished_at r = Some now \<and>
       (er_started_at r, er_model r, er_prompt_path r) =
         (case map_of (executor_runs db ?k) run_id of
            None \<Rightarrow> (None, None, None) | Some r0 \<Rightarrow> (er_started_at r0, er_model r0, er_prompt_path r0))"
    by (simp add: r_def apply_run_event_def Let_def e(4,5) pget_def json_int_opt_def new_run_def split: option.split)
  then show ?thesis using other by (auto simp: runs)
qed

text \<open>
  A consumed lineage stays consumed: once \<open>record_lineage_consumed\<close> has committed, the check
  answers yes for the same artifact under every selection of its identifiers, and keeps doing so
  whatever the log receives later; and it does not answer yes for another path because of it.
\<close>

lemma lineage_single_use:
  assumes "record_lineage_consumed now task_key event_type source ct cp ct' cp' ids db = Inr db'"
    and "py_strip event_type = event_type"
    and "\<forall>x \<in> set (zip (lineage_fields q) (lineage_fields ids)). snd (fst x) = None \<or> snd (fst x) = snd (snd x)"
    and "path \<in> {None, Some cp}" and "\<exists>es. db_events later = db_events db' @ es"
  shows "lineage_consumed later (py_strip task_key) event_type ct path q \<and>
     (\<forall>p. p \<noteq> cp \<longrightarrow> lineage_consumed db' (py_strip task_key) event_type ct (Some p) q =
        lineage_consumed db (py_strip task_key) event_type ct (Some p) q)"
proof -
  obtain key where r: "record_task_event now task_key event_type source
       ([(''kind'', JStr event_type), (''task_key'', JStr key), (''consumed_artifact_type'', JStr ct),
         (''consumed_artifact_path'', JStr cp), (''consumer_artifact_type'', JStr ct'),
         (''consumer_artifact_path'', JStr cp')] @
        map (\<lambda>(k, v). (k, jopt v)) (lineage_fields ids) @
        [(''consumed_at'', JInt now), (''source'', JStr source)] @ LINEAGE_CONSUMPTION_SAFETY_FLAGS) db = Inr db'"
    using assms(1) unfolding record_lineage_consumed_def rbind_Inr_iff by blast
  obtain e where e: "db_events db' = db_events db @ [e]" "ev_task_key e = py_strip task_key" "ev_type e = event_type"
    "ev_payload e = JObj ([(''kind'', JStr event_type), (''task_key'', JStr key), (''consumed_artifact_type'', JStr ct),
         (''consumed_artifact_path'', JStr cp), (''consumer_artifact_type'', JStr ct'),
         (''consumer_artifact_path'', JStr cp')] @
        map (\<lambda>(k, v). (k, jopt v)) (lineage_fields ids) @
        [(''consumed_at'', JInt now), (''source'', JStr source)] @ LINEAGE_CONSUMPTION_SAFETY_FLAGS)"
    using r by (rule record_task_event_log) (use assms(2) in simp)
  have get: "json_get (ev_payload e) ''single_use_enforced'' = Some (JBool True)"
    "json_get (ev_payload e) ''consumed_artifact_type'' = Some (JStr ct)"
    "json_get (ev_payload e) ''consumed_artifact_path'' = Some (JStr cp)"
    by (simp_all add: e(4) lineage_fields_def LINEAGE_CONSUMPTION_SAFETY_FLAGS_def)
  have flds: "list_all (\<lambda>(k, v). v = None \<or> json_get (ev_payload e) k = map_option JStr v) (lineage_fields q)"
    using assms(3) by (simp add: e(4) lineage_fields_def) (elim conjE, intro conjI; metis jopt_Some)
  have "lineage_match event_type ct path q e"
    using assms(4) flds by (auto simp: lineage_match_def e(3) get)
  then have "lineage_consumed later (py_strip task_key) event_type ct path q"
    using assms(5) e(1,2)
    by (auto simp: lineage_consumed_def list_lineage_consumption_events_def list_task_events_def filter_empty_conv)
  moreover have "\<not> lineage_match event_type ct (Some p) q e" if "p \<noteq> cp" for p
    using that by (simp add: lineage_match_def get)
  ultimately show ?thesis
    using e(1) by (auto simp: lineage_consumed_def list_lineage_consumption_events_def list_task_events_def)
qed

definition example_lineage :: lineage_ids where
  "example_lineage = \<lparr>li_confirmation_id = Some ''c1'', li_verifier_report_id = None, li_handoff_id = None,
     li_proposal_hash = None, li_proposal_item_id = None, li_item_hash = None\<rparr>"


definition example_task_record :: task_record where
  "example_task_record = \<lparr>mt_task_key = ''AT-0001'', mt_project = ''proj'', mt_status = ''queued'',
     mt_repo_path = Path ''/'' [''repo''], mt_board = None, mt_hermes_task_id = None, mt_title = None,
     mt_artifact_dir = None, mt_blocked_reason = None, mt_created_at = None, mt_updated_at = None,
     mt_last_synced_at = None, mt_executor = None, mt_model = None, mt_provider = None, mt_tools = None,
     mt_pi_bin = None\<rparr>"


end
