(* ===== verification/Ticket_Retry.thy ===== *)
theory Ticket_Retry
  imports Ready_Queue Task_Mirror
begin

text \<open>
  Retrying a stopped Ticket: the request of \<open>task_status_reset.py\<close>, the retry transaction of
  \<open>ticket_retry.py\<close>, owner feedback (\<open>ticket_feedback.py\<close>) and the bounded automatic
  retries of \<open>ticket_auto_retry.py\<close>.

  The retry commits its transaction and then writes an audit file beside the Ticket's artifacts.
  Whether that write succeeds is an argument; the operation returns the database it leaves behind
  together with its result or exception. Generated identifiers are arguments.
\<close>

section \<open>The request (task\_status\_reset.py)\<close>

definition TICKET_RETRY_FROM_STATUSES :: "string list" where
  "TICKET_RETRY_FROM_STATUSES = [''failed'', ''needs_decision'']"

definition RESET_FROM_STATUSES :: "string list" where
  "RESET_FROM_STATUSES = ''blocked'' # TICKET_RETRY_FROM_STATUSES"

record reset_request =
  rt_task_key :: string
  rt_from_status :: string
  rt_reason :: string
  rt_to_status :: "string option"
  rt_confirm_reset :: bool
  rt_dry_run :: bool
  rt_actor :: string
  rt_request_id :: "string option"
  rt_expected_reset_generation :: "int option"
  rt_expected_old_attempt_id :: "string option"

definition opt_non_empty :: "string option \<Rightarrow> string option result" where
  "opt_non_empty v = (case v of None \<Rightarrow> Inr None | Some s \<Rightarrow> rbind (require_non_empty s) (\<lambda>t. Inr (Some t)))"

definition init_reset_request :: "reset_request \<Rightarrow> reset_request result" where
  "init_reset_request r =
     rbind (normalize_task_key (rt_task_key r)) (\<lambda>key.
       let from_status = py_lower (py_strip (rt_from_status r)) in
       if from_status \<notin> set RESET_FROM_STATUSES then Inl ValueError
       else
         let expected_to = (if from_status \<in> set TICKET_RETRY_FROM_STATUSES then ''created'' else ''queued'') in
         if (case rt_to_status r of None \<Rightarrow> False | Some t \<Rightarrow> py_lower (py_strip t) \<noteq> expected_to)
         then Inl ValueError
         else
     rbind (require_non_empty (rt_reason r)) (\<lambda>reason.
     rbind (require_non_empty (rt_actor r)) (\<lambda>actor.
     rbind (opt_non_empty (rt_request_id r)) (\<lambda>request_id.
       if (case rt_expected_reset_generation r of None \<Rightarrow> False | Some g \<Rightarrow> g < 0) then Inl ValueError
       else
     rbind (opt_non_empty (rt_expected_old_attempt_id r)) (\<lambda>old.
     Inr (r\<lparr>rt_task_key := key, rt_from_status := from_status, rt_to_status := Some expected_to,
            rt_reason := reason, rt_actor := actor, rt_request_id := request_id,
            rt_expected_old_attempt_id := old\<rparr>))))))"

section \<open>Owner feedback (ticket\_feedback.py)\<close>

definition validate_note :: "string \<Rightarrow> string result" where
  "validate_note note =
     (if py_strip note = [] then Inl ValueError else if length note > 4000 then Inl ValueError else Inr note)"

definition feedback_source_ok :: "string \<Rightarrow> bool" where
  "feedback_source_ok s \<longleftrightarrow> s \<noteq> [] \<and> length s \<le> 40 \<and> list_all (\<lambda>c. slug_char c \<or> c = CHR ''_'') s"

text \<open>\<open>add_ticket_feedback\<close> inside a transaction of the caller.\<close>

definition add_ticket_feedback ::
  "timestamp \<Rightarrow> string \<Rightarrow> string \<Rightarrow> string \<Rightarrow> string \<Rightarrow> (string \<times> json) list \<Rightarrow> db \<Rightarrow> db result" where
  "add_ticket_feedback now task_key note source actor extra db =
     rbind (if source \<in> {''pr_comment'', ''ci_failure''}
            then (if py_strip note = [] then Inl ValueError else Inr note)
            else validate_note note) (\<lambda>_.
       if \<not> feedback_source_ok source then Inl ValueError
       else insert_event task_key ''owner_feedback'' actor
              (JObj (dict_set ''source'' (JStr source) (dict_set ''note'' (JStr note) extra))) now db)"

section \<open>The retry (ticket\_retry.py)\<close>

definition TICKET_RETRY_KIND :: string where
  "TICKET_RETRY_KIND = ''ticket_retry_reset''"

definition ACTIVE_EXECUTOR_PROCESS_STATES :: "string list" where
  "ACTIVE_EXECUTOR_PROCESS_STATES = [''allocated'', ''running'', ''term_sent'', ''kill_sent'']"

definition LIVE_RESOURCE_STATES :: "string list" where
  "LIVE_RESOURCE_STATES = [''allocated'', ''active'', ''reap_blocked_live_pid'']"

definition dependency_blocked_ticket_reason :: "db \<Rightarrow> string \<Rightarrow> bool" where
  "dependency_blocked_ticket_reason db task_key \<longleftrightarrow>
     ''blocked_by'' \<in> set (db_task_columns db) \<and>
     (case get_task db task_key of
        None \<Rightarrow> False
      | Some t \<Rightarrow> t_status t = ''blocked'' \<and> truthy (t_blocked_by t) \<and>
          is_dependency_blocked_reason (t_blocked_reason t))"

record retry_outcome =
  ro_mutated :: bool
  ro_dry_run :: bool
  ro_reset_id :: "json option"
  ro_request_id :: "string option"
  ro_old_attempt_id :: "json option"
  ro_expected_generation :: int
  ro_committed_generation :: "json option"
  ro_next_attempt_number :: int
  ro_idempotent_replay :: bool
  ro_audit_artifact_path :: "json option"
  ro_artifact_error :: bool

definition int_or :: "int \<Rightarrow> json option \<Rightarrow> int" where
  "int_or d v = (case v of Some (JInt n) \<Rightarrow> if n = 0 then d else n | _ \<Rightarrow> d)"

fun replay_loop :: "reset_request \<Rightarrow> event_row list \<Rightarrow> retry_outcome option result" where
  "replay_loop req [] = Inr None"
| "replay_loop req (e # es) =
     (let p = ev_payload e in
      if json_get p ''kind'' \<noteq> Some (JStr TICKET_RETRY_KIND) then replay_loop req es
      else if pget p ''request_id'' \<noteq> map_option JStr (rt_request_id req) then replay_loop req es
      else if json_get p ''reason'' \<noteq> Some (JStr (rt_reason req)) \<or>
              json_get p ''actor'' \<noteq> Some (JStr (rt_actor req)) \<or>
              json_get p ''from_status'' \<noteq> Some (JStr (rt_from_status req))
      then Inl TicketRetryError
      else Inr (Some \<lparr>ro_mutated = False, ro_dry_run = False, ro_reset_id = pget p ''reset_id'',
             ro_request_id = rt_request_id req, ro_old_attempt_id = pget p ''old_attempt_id'',
             ro_expected_generation = int_or 0 (pget p ''expected_reset_generation''),
             ro_committed_generation = pget p ''committed_reset_generation'',
             ro_next_attempt_number = int_or 1 (pget p ''next_attempt_number''),
             ro_idempotent_replay = True,
             ro_audit_artifact_path = (if json_truthy (pget p ''audit_artifact_path'')
                then pget p ''audit_artifact_path'' else None),
             ro_artifact_error = False\<rparr>))"

definition latest_attempt :: "db \<Rightarrow> string \<Rightarrow> attempt_row option" where
  "latest_attempt db task_id =
     (case rev (sort_key a_number (filter (\<lambda>a. a_task_id a = task_id) (db_attempts db))) of
        [] \<Rightarrow> None | a # _ \<Rightarrow> Some a)"

definition latest_resource :: "db \<Rightarrow> string \<Rightarrow> resource_row option" where
  "latest_resource db task_key =
     (case rev (sort_key rs_attempt_number (filter (\<lambda>r. rs_task_key r = task_key) (db_resources db))) of
        [] \<Rightarrow> None | r # _ \<Rightarrow> Some r)"

text \<open>The checks of the transaction: the row, its latest Attempt, its reset generation.\<close>

definition retry_checks ::
  "reset_request \<Rightarrow> db \<Rightarrow> (task_row \<times> attempt_row option \<times> int) result" where
  "retry_checks req db =
     (case get_task db (rt_task_key req) of
        None \<Rightarrow> Inl TicketRetryError
      | Some row \<Rightarrow>
          let id = t_task_id row;
              latest = (if ''attempts'' \<in> set (db_tables db) \<and> truthy id then latest_attempt db (the id) else None);
              generation = (if ''reset_generation'' \<in> set (db_task_columns db)
                            then int (t_reset_generation row) else 0)
          in
          if t_status row \<noteq> rt_from_status req then Inl TicketRetryError
          else if truthy (t_active_attempt_id row) then Inl TicketRetryError
          else if ''runtime_leases'' \<in> set (db_tables db) \<and> truthy id \<and>
                  list_ex (\<lambda>l. l_task_id l = the id \<and> l_is_active l) (db_leases db)
          then Inl TicketRetryError
          else if ''executor_processes'' \<in> set (db_tables db) \<and> truthy id \<and>
                  list_ex (\<lambda>x. xp_task_id x = the id \<and> xp_state x \<in> set ACTIVE_EXECUTOR_PROCESS_STATES) (db_processes db)
          then Inl TicketRetryError
          else if ''attempt_resources'' \<in> set (db_tables db) \<and>
                  list_ex (\<lambda>r. rs_task_key r = rt_task_key req \<and> rs_status r \<in> set LIVE_RESOURCE_STATES) (db_resources db)
          then Inl TicketRetryError
          else if (case latest of None \<Rightarrow> False | Some a \<Rightarrow> a_is_active a) then Inl TicketRetryError
          else if rt_expected_old_attempt_id req \<noteq> None \<and>
                  map_option a_id latest \<noteq> rt_expected_old_attempt_id req
          then Inl TicketRetryError
          else if rt_expected_reset_generation req \<noteq> None \<and> Some generation \<noteq> rt_expected_reset_generation req
          then Inl TicketRetryError
          else if (case t_blocked_by row of None \<Rightarrow> False
                   | Some b \<Rightarrow> b \<noteq> [] \<and>
                       (case get_task db b of None \<Rightarrow> True
                        | Some br \<Rightarrow> t_status br \<notin> set COMPLETED_BLOCKER_STATUSES))
          then Inl TicketRetryError
          else Inr (row, latest, generation))"

definition retry_audit ::
  "reset_request \<Rightarrow> string \<Rightarrow> string \<Rightarrow> string option \<Rightarrow> nat \<Rightarrow> int \<Rightarrow> string option \<Rightarrow> (string \<times> json) list" where
  "retry_audit req retry_id request_id old_attempt_id next_number generation artifact_path =
     [(''kind'', JStr TICKET_RETRY_KIND), (''task_key'', JStr (rt_task_key req)),
      (''from_status'', JStr (rt_from_status req)), (''to_status'', JStr ''created''),
      (''reason'', JStr (rt_reason req)), (''actor'', JStr (rt_actor req)), (''reset_id'', JStr retry_id),
      (''request_id'', JStr request_id), (''old_attempt_id'', jopt old_attempt_id),
      (''next_attempt_number'', JInt (int next_number)), (''expected_reset_generation'', JInt generation),
      (''committed_reset_generation'', JInt (generation + 1)), (''same_worktree'', JBool True),
      (''worktree_cleaned'', JBool False), (''dry_run'', JBool False), (''operator_confirmed'', JBool True),
      (''not_approval'', JBool True), (''not_merge'', JBool True), (''not_cleanup'', JBool True),
      (''not_validation_authority'', JBool True), (''audit_artifact_path'', jopt artifact_path)]"

definition retry_artifact_path :: "db \<Rightarrow> task_row \<Rightarrow> string \<Rightarrow> path option" where
  "retry_artifact_path db row retry_id =
     (let base = (if ''attempt_resources'' \<in> set (db_tables db)
            then Option.bind (latest_resource db (t_key row)) rs_artifact_base_root else None);
          dir = (if truthy base then base else if truthy (t_artifact_dir row) then t_artifact_dir row else None)
      in map_option (\<lambda>d. path_join (path_join (parse_path d) (parse_path ''reset-audit''))
           (parse_path (retry_id @ ''.json''))) dir)"

definition retry_row :: "timestamp \<Rightarrow> bool \<Rightarrow> task_row \<Rightarrow> task_row" where
  "retry_row now has_generation t =
     t\<lparr>t_status := ''created'', t_blocked_reason := None, t_updated_at := now, t_last_synced_at := Some now,
       t_reset_generation := (if has_generation then Suc (t_reset_generation t) else t_reset_generation t)\<rparr>"

text \<open>The transaction after the checks, up to its commit.\<close>

definition retry_writes ::
  "timestamp \<Rightarrow> string \<Rightarrow> string \<Rightarrow> reset_request \<Rightarrow> string option \<Rightarrow> (db \<Rightarrow> db result) \<Rightarrow> task_row
     \<Rightarrow> attempt_row option \<Rightarrow> int \<Rightarrow> db \<Rightarrow> (db \<times> path option) result" where
  "retry_writes now retry_id request_id req note in_transaction row latest generation db =
     rbind (case note of None \<Rightarrow> Inr db
            | Some n \<Rightarrow> add_ticket_feedback now (rt_task_key req) n ''retry'' (rt_actor req) [] db) (\<lambda>db.
     rbind (in_transaction db) (\<lambda>db.
       let p = (\<lambda>t. t_key t = rt_task_key req \<and> t_status t = rt_from_status req \<and> t_active_attempt_id t = None) in
     rbind (update_tasks_status now p
              (retry_row now (''reset_generation'' \<in> set (db_task_columns db))) db) (\<lambda>db'.
       if length (filter p (db_tasks db)) \<noteq> 1 then Inl TicketRetryError
       else
         let artifact = retry_artifact_path db' row retry_id;
             audit = retry_audit req retry_id request_id (map_option a_id latest)
               ((case latest of None \<Rightarrow> 0 | Some a \<Rightarrow> a_number a) + 1) generation (map_option path_str artifact)
         in
     rbind (insert_event (rt_task_key req) ''status_changed'' (rt_actor req)
              (JObj [(''status'', JStr ''created''), (''blocked_reason'', JNull)]) now db') (\<lambda>db''.
     rbind (insert_event (rt_task_key req) ''note'' (rt_actor req) (JObj audit) now db'') (\<lambda>db'''.
     Inr (db''', artifact))))))"

definition retry_result ::
  "bool \<Rightarrow> bool \<Rightarrow> string option \<Rightarrow> string option \<Rightarrow> attempt_row option \<Rightarrow> int \<Rightarrow> path option \<Rightarrow> bool \<Rightarrow> retry_outcome" where
  "retry_result mutated dry_run retry_id request_id latest generation artifact artifact_error =
     \<lparr>ro_mutated = mutated, ro_dry_run = dry_run, ro_reset_id = map_option JStr retry_id,
      ro_request_id = request_id, ro_old_attempt_id = map_option (\<lambda>a. JStr (a_id a)) latest,
      ro_expected_generation = generation,
      ro_committed_generation = (if mutated then Some (JInt (generation + 1)) else None),
      ro_next_attempt_number = int (case latest of None \<Rightarrow> 0 | Some a \<Rightarrow> a_number a) + 1,
      ro_idempotent_replay = False, ro_audit_artifact_path = map_option (\<lambda>p. JStr (path_str p)) artifact,
      ro_artifact_error = artifact_error\<rparr>"

text \<open>After the commit: the audit file and its artifact row. A failed write is only reported.\<close>

definition retry_after_commit ::
  "(string \<Rightarrow> string option) \<Rightarrow> timestamp \<Rightarrow> string \<Rightarrow> string \<Rightarrow> bool \<Rightarrow> reset_request \<Rightarrow> attempt_row option \<Rightarrow> int
     \<Rightarrow> path option \<Rightarrow> db \<Rightarrow> db \<times> retry_outcome result" where
  "retry_after_commit home now retry_id request_id write_ok req latest generation artifact db =
     (let done = retry_result True False (Some retry_id) (Some request_id) latest generation in
      case artifact of
        None \<Rightarrow> (db, Inr (done None False))
      | Some p \<Rightarrow>
          if \<not> write_ok then (db, Inr (done None True))
          else (case record_task_artifact home now (rt_task_key req) ''other'' p db of
                  Inl e \<Rightarrow> (db, Inl e)
                | Inr db' \<Rightarrow> (db', Inr (done (Some p) False))))"

definition retry_transaction ::
  "(string \<Rightarrow> string option) \<Rightarrow> timestamp \<Rightarrow> string \<Rightarrow> string \<Rightarrow> bool \<Rightarrow> reset_request \<Rightarrow> string option
     \<Rightarrow> (db \<Rightarrow> db result) \<Rightarrow> db \<Rightarrow> db \<times> retry_outcome result" where
  "retry_transaction home now retry_id request_id write_ok req note in_transaction db =
     (case retry_checks req db of
        Inl e \<Rightarrow> (db, Inl e)
      | Inr (row, latest, generation) \<Rightarrow>
          if rt_dry_run req
          then (db, Inr (retry_result False True None (rt_request_id req) latest generation None False))
          else if \<not> rt_confirm_reset req then (db, Inl TicketRetryError)
          else
            (case retry_writes now retry_id request_id req note in_transaction row latest generation db of
               Inl e \<Rightarrow> (db, Inl e)
             | Inr (db', artifact) \<Rightarrow>
                 retry_after_commit home now retry_id request_id write_ok req latest generation artifact db'))"

definition retry_ticket ::
  "(string \<Rightarrow> string option) \<Rightarrow> timestamp \<Rightarrow> string \<Rightarrow> string \<Rightarrow> bool \<Rightarrow> reset_request \<Rightarrow> string option
     \<Rightarrow> (db \<Rightarrow> db result) \<Rightarrow> bool \<Rightarrow> db \<Rightarrow> db \<times> retry_outcome result" where
  "retry_ticket home now retry_id fresh_request_id write_ok req note in_transaction pr_feedback db =
     (case rbind (case note of None \<Rightarrow> Inr [] | Some n \<Rightarrow> validate_note n) (\<lambda>_.
             if rt_from_status req \<notin> set TICKET_RETRY_FROM_STATUSES \<and>
                \<not> (pr_feedback \<and> rt_from_status req = ''waiting_for_review'') then Inl TicketRetryError
             else if rt_request_id req \<noteq> None then replay_loop req (list_task_events db (rt_task_key req))
             else Inr None) of
        Inl e \<Rightarrow> (db, Inl e)
      | Inr (Some replay) \<Rightarrow> (db, Inr replay)
      | Inr None \<Rightarrow>
          retry_transaction home now retry_id
            (case rt_request_id req of None \<Rightarrow> fresh_request_id
             | Some i \<Rightarrow> if i = [] then fresh_request_id else i)
            write_ok req note in_transaction db)"

section \<open>What a retry writes\<close>

lemma add_ticket_feedback_Inr:
  assumes "add_ticket_feedback now key note src actor [] db = Inr db'"
  shows "events_only db db' \<and> (\<exists>e. db_events db' = db_events db @ [e] \<and> json_get (ev_payload e) ''kind'' = None \<and>
     ev_type e = ''owner_feedback'')"
proof -
  have ins: "insert_event key ''owner_feedback'' actor
      (JObj (dict_set ''source'' (JStr src) (dict_set ''note'' (JStr note) []))) now db = Inr db'"
    using assms by (auto simp: add_ticket_feedback_def rbind_Inr_iff split: if_splits)
  show ?thesis
    using insert_event_events_only [OF ins] insert_event_log [OF ins] by simp
qed

lemma retry_writes_Inr:
  assumes "retry_writes now rid qid req note hook row latest g db = Inr (db', art)"
  obtains d1 d2 d3 d4 where
    "case note of None \<Rightarrow> d1 = db
       | Some n \<Rightarrow> add_ticket_feedback now (rt_task_key req) n ''retry'' (rt_actor req) [] db = Inr d1"
    "hook d1 = Inr d2"
    "d3 = update_tasks (\<lambda>t. t_key t = rt_task_key req \<and> t_status t = rt_from_status req \<and> t_active_attempt_id t = None)
       (retry_row now (''reset_generation'' \<in> set (db_task_columns d2))) d2"
    "\<exists>t \<in> set (db_tasks d2). t_key t = rt_task_key req \<and> t_status t = rt_from_status req \<and> t_active_attempt_id t = None"
    "insert_event (rt_task_key req) ''status_changed'' (rt_actor req)
       (JObj [(''status'', JStr ''created''), (''blocked_reason'', JNull)]) now d3 = Inr d4"
    "insert_event (rt_task_key req) ''note'' (rt_actor req)
       (JObj (retry_audit req rid qid (map_option a_id latest)
          ((case latest of None \<Rightarrow> 0 | Some a \<Rightarrow> a_number a) + 1) g
          (map_option path_str (retry_artifact_path d3 row rid)))) now d4 = Inr db'"
proof -
  let ?p = "\<lambda>t. t_key t = rt_task_key req \<and> t_status t = rt_from_status req \<and> t_active_attempt_id t = None"
  obtain d1 d2 d3 d4 where steps:
    "(case note of None \<Rightarrow> Inr db
       | Some n \<Rightarrow> add_ticket_feedback now (rt_task_key req) n ''retry'' (rt_actor req) [] db) = Inr d1"
    "hook d1 = Inr d2"
    "update_tasks_status now ?p (retry_row now (''reset_generation'' \<in> set (db_task_columns d2))) d2 = Inr d3"
    "\<not> length (filter ?p (db_tasks d2)) \<noteq> 1"
    "insert_event (rt_task_key req) ''status_changed'' (rt_actor req)
       (JObj [(''status'', JStr ''created''), (''blocked_reason'', JNull)]) now d3 = Inr d4"
    "insert_event (rt_task_key req) ''note'' (rt_actor req)
       (JObj (retry_audit req rid qid (map_option a_id latest)
          ((case latest of None \<Rightarrow> 0 | Some a \<Rightarrow> a_number a) + 1) g
          (map_option path_str (retry_artifact_path d3 row rid)))) now d4 = Inr db'"
    using assms unfolding retry_writes_def Let_def rbind_Inr_iff if_raise_Inr sum.inject prod.inject
    by (elim exE conjE) (hypsubst, rule that, (assumption | rule refl)+)
  have "filter ?p (db_tasks d2) \<noteq> []" using steps(4) by auto
  then have "\<exists>t \<in> set (db_tasks d2). ?p t" unfolding filter_empty_conv by blast
  moreover have "d3 = update_tasks ?p (retry_row now (''reset_generation'' \<in> set (db_task_columns d2))) d2"
    using steps(3) by (simp add: update_tasks_status_Inr)
  moreover have "case note of None \<Rightarrow> d1 = db
       | Some n \<Rightarrow> add_ticket_feedback now (rt_task_key req) n ''retry'' (rt_actor req) [] db = Inr d1"
    using steps(1) by (cases "note") auto
  ultimately show thesis using steps(2,5,6) that by blast
qed

lemma replay_loop_not_mutated: "replay_loop req es = Inr (Some out) \<Longrightarrow> \<not> ro_mutated out \<and> ro_idempotent_replay out"
  by (induction req es rule: replay_loop.induct) (auto simp: Let_def split: if_splits)

lemma record_task_artifact_cases:
  assumes "record_task_artifact home now k ty p db = r"
  shows "(\<exists>e. r = Inl e \<and> e \<noteq> TicketRetryError) \<or> (\<exists>xs. r = Inr (db\<lparr>db_artifacts := xs\<rparr>))"
proof (cases r)
  case (Inl e)
  then show ?thesis using assms
    by (auto simp: record_task_artifact_def normalize_task_key_def validate_task_artifact_type_def validate_in_def
        require_non_empty_def require_absolute_def expanduser_def rbind_Inl_iff Let_def split: if_splits option.splits list.splits)
next
  case (Inr d)
  then show ?thesis using assms by (auto simp: record_task_artifact_def rbind_Inr_iff split: if_splits)
qed

text \<open>Either nothing was written, or the transaction committed and at most an artifact row followed.\<close>

definition retry_committed ::
  "timestamp \<Rightarrow> string \<Rightarrow> string \<Rightarrow> reset_request \<Rightarrow> string option \<Rightarrow> (db \<Rightarrow> db result) \<Rightarrow> bool \<Rightarrow> db \<Rightarrow> db \<Rightarrow> bool" where
  "retry_committed now rid qid req note hook pr_feedback db db' \<longleftrightarrow>
     (rt_from_status req \<in> set TICKET_RETRY_FROM_STATUSES \<or>
        pr_feedback \<and> rt_from_status req = ''waiting_for_review'') \<and>
     (rt_request_id req \<noteq> None \<longrightarrow> replay_loop req (list_task_events db (rt_task_key req)) = Inr None) \<and>
     rt_confirm_reset req \<and> \<not> rt_dry_run req \<and>
     (\<exists>row latest g d art xs. retry_checks req db = Inr (row, latest, g) \<and>
        retry_writes now rid qid req note hook row latest g db = Inr (d, art) \<and> db' = d\<lparr>db_artifacts := xs\<rparr>)"

lemma retry_after_commit_cases:
  assumes "retry_after_commit home now rid qid ok req latest g art d = (db', res)"
  shows "(\<exists>xs. db' = d\<lparr>db_artifacts := xs\<rparr>) \<and> res \<noteq> Inl TicketRetryError \<and>
     (\<forall>out. res = Inr out \<longrightarrow> (\<exists>p b. out = retry_result True False (Some rid) (Some qid) latest g p b))"
proof -
  have same: "\<exists>xs. d = d\<lparr>db_artifacts := xs\<rparr>" by (rule exI [of _ "db_artifacts d"]) simp
  show ?thesis
  proof (cases "art = None \<or> \<not> ok")
    case True
    then have "db' = d" "\<exists>p b. res = Inr (retry_result True False (Some rid) (Some qid) latest g p b)"
      using assms by (auto simp: retry_after_commit_def Let_def split: option.splits)
    then show ?thesis using same by auto
  next
    case False
    then obtain p where p: "art = Some p" and ok by auto
    then have "(case record_task_artifact home now (rt_task_key req) ''other'' p d of
        Inl e \<Rightarrow> (d, Inl e)
      | Inr d' \<Rightarrow> (d', Inr (retry_result True False (Some rid) (Some qid) latest g (Some p) False))) = (db', res)"
      using assms by (simp add: retry_after_commit_def Let_def)
    then show ?thesis
      using record_task_artifact_cases [OF refl, of home now "rt_task_key req" "''other''" p d] same
      by (elim disjE exE conjE) auto
  qed
qed

lemma retry_transaction_cases:
  assumes "retry_transaction home now rid qid ok req note hook db = (db', res)"
    and "\<not> (db' = db \<and> (\<forall>out. res = Inr out \<longrightarrow> \<not> ro_mutated out))"
  obtains row latest g d art where "retry_checks req db = Inr (row, latest, g)" "\<not> rt_dry_run req"
    "rt_confirm_reset req" "retry_writes now rid qid req note hook row latest g db = Inr (d, art)"
    "retry_after_commit home now rid qid ok req latest g art d = (db', res)"
  using assms
  by (auto simp: retry_transaction_def retry_result_def split: sum.splits prod.splits if_splits)

lemma retry_ticket_started:
  assumes run: "retry_ticket home now rid fid ok req note hook pr db = (db', res)"
    and wrote: "\<not> (db' = db \<and> (\<forall>out. res = Inr out \<longrightarrow> \<not> ro_mutated out))"
  shows "rt_from_status req \<in> set TICKET_RETRY_FROM_STATUSES \<or> pr \<and> rt_from_status req = ''waiting_for_review''"
    "rt_request_id req \<noteq> None \<Longrightarrow> replay_loop req (list_task_events db (rt_task_key req)) = Inr None"
    "note = Some n \<Longrightarrow> \<exists>u. validate_note n = Inr u"
    "retry_transaction home now rid (case rt_request_id req of None \<Rightarrow> fid | Some i \<Rightarrow> if i = [] then fid else i)
       ok req note hook db = (db', res)"
proof -
  let ?entry = "rbind (case note of None \<Rightarrow> Inr [] | Some n \<Rightarrow> validate_note n) (\<lambda>_.
             if rt_from_status req \<notin> set TICKET_RETRY_FROM_STATUSES \<and>
                \<not> (pr \<and> rt_from_status req = ''waiting_for_review'') then Inl TicketRetryError
             else if rt_request_id req \<noteq> None then replay_loop req (list_task_events db (rt_task_key req))
             else Inr None)"
  have replayed: "?entry = Inr (Some out) \<Longrightarrow> \<not> ro_mutated out" for out
    using replay_loop_not_mutated by (auto simp: rbind_Inr_iff split: if_splits)
  have entry: "?entry = Inr None"
  proof (cases ?entry)
    case (Inl e)
    then show ?thesis using run wrote unfolding retry_ticket_def by auto
  next
    case (Inr r)
    then show ?thesis using run wrote replayed unfolding retry_ticket_def by (cases r) auto
  qed
  then show "rt_from_status req \<in> set TICKET_RETRY_FROM_STATUSES \<or> pr \<and> rt_from_status req = ''waiting_for_review''"
    "rt_request_id req \<noteq> None \<Longrightarrow> replay_loop req (list_task_events db (rt_task_key req)) = Inr None"
    "note = Some n \<Longrightarrow> \<exists>u. validate_note n = Inr u"
    by (auto simp: rbind_Inr_iff split: if_splits)
  show "retry_transaction home now rid (case rt_request_id req of None \<Rightarrow> fid | Some i \<Rightarrow> if i = [] then fid else i)
       ok req note hook db = (db', res)"
    using run unfolding retry_ticket_def entry by simp
qed

lemma retry_ticket_cases:
  assumes run: "retry_ticket home now rid fid ok req note hook pr db = (db', res)"
  shows "(db' = db \<and> (\<forall>out. res = Inr out \<longrightarrow> \<not> ro_mutated out)) \<or>
     (retry_committed now rid (case rt_request_id req of None \<Rightarrow> fid | Some i \<Rightarrow> if i = [] then fid else i)
        req note hook pr db db' \<and> res \<noteq> Inl TicketRetryError \<and> (\<forall>out. res = Inr out \<longrightarrow> ro_mutated out))"
proof (rule iffD2 [OF disj_imp], rule impI)
  assume wrote: "\<not> (db' = db \<and> (\<forall>out. res = Inr out \<longrightarrow> \<not> ro_mutated out))"
  let ?qid = "case rt_request_id req of None \<Rightarrow> fid | Some i \<Rightarrow> if i = [] then fid else i"
  note start = retry_ticket_started [OF run wrote]
  obtain row latest g d art where c: "retry_checks req db = Inr (row, latest, g)" "\<not> rt_dry_run req"
    "rt_confirm_reset req" "retry_writes now rid ?qid req note hook row latest g db = Inr (d, art)"
    "retry_after_commit home now rid ?qid ok req latest g art d = (db', res)"
    using retry_transaction_cases [OF start(4) wrote] .
  note a = retry_after_commit_cases [OF c(5)]
  have "ro_mutated out" if "res = Inr out" for out using a that by (auto simp: retry_result_def)
  moreover have "retry_committed now rid ?qid req note hook pr db db'"
    using a start(1,2) c(1-4) unfolding retry_committed_def by blast
  ultimately show "retry_committed now rid ?qid req note hook pr db db' \<and>
      res \<noteq> Inl TicketRetryError \<and> (\<forall>out. res = Inr out \<longrightarrow> ro_mutated out)"
    using a by blast
qed

lemma retry_checks_Inr:
  assumes "retry_checks req db = Inr (row, latest, g)"
  shows "get_task db (rt_task_key req) = Some row" "t_status row = rt_from_status req" "\<not> truthy (t_active_attempt_id row)"
    "\<lbrakk>''executor_processes'' \<in> set (db_tables db); t_task_id row = Some i; i \<noteq> []; x \<in> set (db_processes db); xp_task_id x = i\<rbrakk>
       \<Longrightarrow> xp_state x \<notin> set ACTIVE_EXECUTOR_PROCESS_STATES"
    "\<lbrakk>''attempt_resources'' \<in> set (db_tables db); r \<in> set (db_resources db); rs_task_key r = rt_task_key req\<rbrakk>
       \<Longrightarrow> rs_status r \<notin> set LIVE_RESOURCE_STATES"
    "\<lbrakk>t_blocked_by row = Some b; b \<noteq> []\<rbrakk> \<Longrightarrow> \<exists>u. get_task db b = Some u \<and> t_status u \<in> set COMPLETED_BLOCKER_STATUSES"
    "g = (if ''reset_generation'' \<in> set (db_task_columns db) then int (t_reset_generation row) else 0)"
proof -
  obtain row' where row': "get_task db (rt_task_key req) = Some row'"
    using assms unfolding retry_checks_def by (cases "get_task db (rt_task_key req)") auto
  note c = assms [unfolded retry_checks_def row' option.case Let_def if_raise_Inr sum.inject prod.inject]
  have r: "row' = row" using c by blast
  show "get_task db (rt_task_key req) = Some row" using row' r by simp
  show "t_status row = rt_from_status req" using c r by blast
  show "\<not> truthy (t_active_attempt_id row)" using c r by blast
  show "\<lbrakk>''executor_processes'' \<in> set (db_tables db); t_task_id row = Some i; i \<noteq> []; x \<in> set (db_processes db); xp_task_id x = i\<rbrakk>
       \<Longrightarrow> xp_state x \<notin> set ACTIVE_EXECUTOR_PROCESS_STATES"
    using c r by (auto simp: list_ex_iff)
  show "\<lbrakk>''attempt_resources'' \<in> set (db_tables db); r \<in> set (db_resources db); rs_task_key r = rt_task_key req\<rbrakk>
       \<Longrightarrow> rs_status r \<notin> set LIVE_RESOURCE_STATES"
    using c r by (auto simp: list_ex_iff)
  show "\<lbrakk>t_blocked_by row = Some b; b \<noteq> []\<rbrakk> \<Longrightarrow> \<exists>u. get_task db b = Some u \<and> t_status u \<in> set COMPLETED_BLOCKER_STATUSES"
    using c r by (auto split: option.splits)
  show "g = (if ''reset_generation'' \<in> set (db_task_columns db) then int (t_reset_generation row) else 0)"
    using c r by blast
qed

lemma retry_writes_frame:
  assumes w: "retry_writes now rid qid req note hook row latest g db = Inr (db', art)"
    and hook: "\<And>d d'. hook d = Inr d' \<Longrightarrow> events_only d d'"
    and dist: "distinct (map t_key (db_tasks db))" and row: "get_task db (rt_task_key req) = Some row"
  shows "t_active_attempt_id row = None"
    "events_only (update_tasks (\<lambda>t. t_key t = rt_task_key req)
       (retry_row now (''reset_generation'' \<in> set (db_task_columns db))) db) db'"
proof -
  let ?p = "\<lambda>t. t_key t = rt_task_key req \<and> t_status t = rt_from_status req \<and> t_active_attempt_id t = None"
  let ?f = "retry_row now (''reset_generation'' \<in> set (db_task_columns db))"
  obtain d1 d2 d3 d4 where s:
    "case note of None \<Rightarrow> d1 = db
       | Some n \<Rightarrow> add_ticket_feedback now (rt_task_key req) n ''retry'' (rt_actor req) [] db = Inr d1"
    "hook d1 = Inr d2"
    "d3 = update_tasks ?p (retry_row now (''reset_generation'' \<in> set (db_task_columns d2))) d2"
    "\<exists>t \<in> set (db_tasks d2). ?p t"
    "insert_event (rt_task_key req) ''status_changed'' (rt_actor req)
       (JObj [(''status'', JStr ''created''), (''blocked_reason'', JNull)]) now d3 = Inr d4"
    "insert_event (rt_task_key req) ''note'' (rt_actor req)
       (JObj (retry_audit req rid qid (map_option a_id latest)
          ((case latest of None \<Rightarrow> 0 | Some a \<Rightarrow> a_number a) + 1) g
          (map_option path_str (retry_artifact_path d3 row rid)))) now d4 = Inr db'"
    by (rule retry_writes_Inr [OF w])
  have "events_only db d1" using s(1) add_ticket_feedback_Inr by (cases "note") auto
  then have e2: "events_only db d2" using hook [OF s(2)] events_only_trans by blast
  obtain t where t: "t \<in> set (db_tasks db)" "?p t" using s(4) events_onlyD(1) [OF e2] by auto
  have all: "u = row" if "u \<in> set (db_tasks db)" "t_key u = rt_task_key req" for u
    using that get_task_Some [OF row] dist by (metis distinct_key_eq)
  show none: "t_active_attempt_id row = None" using all [of t] t by simp
  have only_row: "?p u \<longleftrightarrow> t_key u = rt_task_key req" if "u \<in> set (db_tasks db)" for u
    using all [of u] all [of t] t that by auto
  have "map_where ?p ?f (db_tasks db) = map_where (\<lambda>t. t_key t = rt_task_key req) ?f (db_tasks db)"
    unfolding map_where_def by (intro map_cong) (auto simp: only_row)
  then have "d3 = (update_tasks (\<lambda>t. t_key t = rt_task_key req) ?f db)\<lparr>db_events := db_events d2, db_leases := db_leases d2\<rparr>"
    using e2 unfolding s(3) by (auto simp: update_tasks_def events_only_def)
  then have "events_only (update_tasks (\<lambda>t. t_key t = rt_task_key req) ?f db) d3"
    using e2 unfolding events_only_def by (elim exE conjE) (intro exI conjI, simp, simp)
  then show "events_only (update_tasks (\<lambda>t. t_key t = rt_task_key req) ?f db) db'"
    using insert_event_events_only [OF s(5)] insert_event_events_only [OF s(6)] events_only_trans by blast
qed

lemma unowned_no_lease:
  assumes inv: "runtime_inv db" and t: "t \<in> set (db_tasks db)" "t_active_attempt_id t = None"
  shows "\<forall>l \<in> set (db_leases db). l_is_active l \<longrightarrow> t_task_id t \<noteq> Some (l_task_id l)"
proof (intro ballI impI notI)
  fix l assume l: "l \<in> set (db_leases db)" "l_is_active l" "t_task_id t = Some (l_task_id l)"
  obtain u where u: "task_of_id db (l_task_id l) = Some u" "t_active_attempt_id u = Some (l_attempt_id l)"
    using active_lease_backed(3) [OF inv l(1,2)] by blast
  then have "u \<in> set (db_tasks db)" "t_task_id u = Some (l_task_id l)"
    by (auto simp: task_of_id_def dest!: find_Some_set)
  then have "u = t" using runtime_inv_tasks(2) [OF inv _ t(1) _ l(3)] by blast
  then show False using u(2) t(2) by simp
qed

lemma task_id_not_blank: "\<lbrakk>runtime_inv db; t \<in> set (db_tasks db)\<rbrakk> \<Longrightarrow> t_task_id t \<noteq> Some []"
  using ownershipD(10) by (force simp: runtime_inv_def no_blank_ids_def list_all_iff task_ids_def)

lemma map_fixed: "map f xs = xs \<Longrightarrow> x \<in> set xs \<Longrightarrow> f x = x"
  by (induction xs) auto

lemma retry_keeps_inv:
  assumes "runtime_inv db" and "events_only (update_tasks p (retry_row now b) db) db'"
  shows "runtime_inv db'"
proof -
  have "same_ownership db (update_tasks p (retry_row now b) db)"
    by (auto simp: same_ownership_def update_tasks_def map_where_def retry_row_def task_ids_def)
  then show ?thesis
    using assms same_ownership_inv events_only_same_ownership by blast
qed

text \<open>
  C32. A retry is one guarded step: whenever it changes the database, the Ticket was in a status that may be
  retried, no lease, process or live resource could still work in its worktree and its blocker had
  completed; exactly its row returns to \<open>created\<close> with the next reset generation, no other task
  row, Attempt or lease changes and ownership stays consistent. A refusal (\<open>TicketRetryError\<close>)
  writes nothing, and a result says that it changed something exactly when it did.
\<close>

theorem retry_ticket_effect:
  assumes inv: "runtime_inv db" and tables: "{''runtime_leases'', ''executor_processes'', ''attempt_resources''} \<subseteq> set (db_tables db)"
    and cols: "''reset_generation'' \<in> set (db_task_columns db)"
    and run: "retry_ticket home now rid fid ok req note Inr pr db = (db', res)"
  shows "(res = Inl TicketRetryError \<longrightarrow> db' = db) \<and>
     (\<forall>out. res = Inr out \<longrightarrow> (ro_mutated out \<longleftrightarrow> db' \<noteq> db)) \<and>
     (db' \<noteq> db \<longrightarrow>
       (\<exists>t. get_task db (rt_task_key req) = Some t \<and> t_status t = rt_from_status req \<and>
          (t_status t \<in> {''failed'', ''needs_decision''} \<or> pr \<and> t_status t = ''waiting_for_review'') \<and>
          (\<forall>l \<in> set (db_leases db). l_is_active l \<longrightarrow> t_task_id t \<noteq> Some (l_task_id l)) \<and>
          (\<forall>x \<in> set (db_processes db). t_task_id t = Some (xp_task_id x) \<longrightarrow>
             xp_state x \<notin> {''allocated'', ''running'', ''term_sent'', ''kill_sent''}) \<and>
          (\<forall>r \<in> set (db_resources db). rs_task_key r = t_key t \<longrightarrow>
             rs_status r \<notin> {''allocated'', ''active'', ''reap_blocked_live_pid''}) \<and>
          (\<forall>b. t_blocked_by t = Some b \<and> b \<noteq> [] \<longrightarrow>
             (\<exists>u. get_task db b = Some u \<and> t_status u \<in> set COMPLETED_BLOCKER_STATUSES)) \<and>
          db_tasks db' = map (\<lambda>u. if t_key u = t_key t
            then u\<lparr>t_status := ''created'', t_blocked_reason := None, t_updated_at := now,
                   t_last_synced_at := Some now, t_reset_generation := Suc (t_reset_generation u)\<rparr>
            else u) (db_tasks db) \<and>
          db_attempts db' = db_attempts db \<and>
          map lease_core (db_leases db') = map lease_core (db_leases db) \<and> runtime_inv db'))"
proof -
  let ?qid = "case rt_request_id req of None \<Rightarrow> fid | Some i \<Rightarrow> if i = [] then fid else i"
  consider (nothing) "db' = db" "\<forall>out. res = Inr out \<longrightarrow> \<not> ro_mutated out"
    | (wrote) "retry_committed now rid ?qid req note Inr pr db db'" "res \<noteq> Inl TicketRetryError"
        "\<forall>out. res = Inr out \<longrightarrow> ro_mutated out"
    using retry_ticket_cases [OF run] by blast
  then show ?thesis
  proof cases
    case nothing
    then show ?thesis by blast
  next
    case wrote
    have dist: "distinct (map t_key (db_tasks db))" using inv by (rule runtime_inv_tasks)
    obtain row latest g d art xs where c: "retry_checks req db = Inr (row, latest, g)"
      "retry_writes now rid ?qid req note Inr row latest g db = Inr (d, art)" "db' = d\<lparr>db_artifacts := xs\<rparr>"
      and from_ok: "rt_from_status req \<in> set TICKET_RETRY_FROM_STATUSES \<or> pr \<and> rt_from_status req = ''waiting_for_review''"
      using wrote(1) unfolding retry_committed_def by blast
    note chk = retry_checks_Inr [OF c(1)]
    note frame = retry_writes_frame [OF c(2) _ dist chk(1)]
    have none: "t_active_attempt_id row = None" by (rule frame) auto
    have eo: "events_only (update_tasks (\<lambda>t. t_key t = rt_task_key req) (retry_row now True) db) d"
      using frame(2) cols by auto
    have key: "t_key row = rt_task_key req" and mem: "row \<in> set (db_tasks db)" using get_task_Some [OF chk(1)] by auto
    have tasks: "db_tasks db' = map (\<lambda>u. if t_key u = t_key row
            then u\<lparr>t_status := ''created'', t_blocked_reason := None, t_updated_at := now,
                   t_last_synced_at := Some now, t_reset_generation := Suc (t_reset_generation u)\<rparr>
            else u) (db_tasks db)"
      using events_onlyD(1) [OF eo] by (simp add: c(3) key map_where_def retry_row_def)
    have changed: "db' \<noteq> db"
    proof
      assume "db' = db"
      then have "row\<lparr>t_status := ''created'', t_blocked_reason := None, t_updated_at := now,
                   t_last_synced_at := Some now, t_reset_generation := Suc (t_reset_generation row)\<rparr> = row"
        using map_fixed [OF tasks [symmetric, unfolded \<open>db' = db\<close>] mem] by simp
      from arg_cong [OF this, of t_reset_generation] show False by simp
    qed
    have statuses: "t_status row \<in> {''failed'', ''needs_decision''} \<or> pr \<and> t_status row = ''waiting_for_review''"
      using from_ok chk(2) by (auto simp: TICKET_RETRY_FROM_STATUSES_def)
    have procs: "\<forall>x \<in> set (db_processes db). t_task_id row = Some (xp_task_id x) \<longrightarrow>
        xp_state x \<notin> {''allocated'', ''running'', ''term_sent'', ''kill_sent''}"
      using chk(4) tables task_id_not_blank [OF inv mem] by (auto simp: ACTIVE_EXECUTOR_PROCESS_STATES_def)
    have res: "\<forall>r \<in> set (db_resources db). rs_task_key r = t_key row \<longrightarrow>
        rs_status r \<notin> {''allocated'', ''active'', ''reap_blocked_live_pid''}"
      using chk(5) tables key by (auto simp: LIVE_RESOURCE_STATES_def)
    have rest: "db_attempts db' = db_attempts db" "map lease_core (db_leases db') = map lease_core (db_leases db)"
      using events_onlyD(2,12) [OF eo] by (simp_all add: c(3))
    have "runtime_inv d" by (rule retry_keeps_inv [OF inv eo])
    then have inv': "runtime_inv db'" by (simp add: c(3) runtime_inv_def)
    show ?thesis
      using wrote(2,3) changed chk(1,2) statuses unowned_no_lease [OF inv mem none] procs res chk(6) tasks rest inv'
      by blast
  qed
qed

section \<open>A request is served once\<close>

lemma replay_loop_append:
  "replay_loop req es = Inr None \<Longrightarrow> replay_loop req (es @ fs) = replay_loop req fs"
  by (induction req es rule: replay_loop.induct) (auto simp: Let_def split: if_splits)

lemma replay_loop_skip:
  "json_get (ev_payload e) ''kind'' \<noteq> Some (JStr TICKET_RETRY_KIND) \<Longrightarrow> replay_loop req (e # es) = replay_loop req es"
  by (simp add: Let_def)

lemma replay_loop_audit:
  assumes "rt_request_id req = Some qid"
    and "ev_payload e = JObj (retry_audit req rid qid (map_option a_id latest)
      ((case latest of None \<Rightarrow> 0 | Some a \<Rightarrow> a_number a) + 1) g path)"
  shows "\<exists>out. replay_loop req (e # es) = Inr (Some out) \<and> ro_reset_id out = Some (JStr rid) \<and>
     ro_old_attempt_id out = map_option (\<lambda>a. JStr (a_id a)) latest \<and> ro_expected_generation out = g \<and>
     ro_committed_generation out = Some (JInt (g + 1)) \<and>
     ro_next_attempt_number out = int (case latest of None \<Rightarrow> 0 | Some a \<Rightarrow> a_number a) + 1 \<and>
     ro_idempotent_replay out \<and> \<not> ro_mutated out"
  by (cases latest) (auto simp: assms retry_audit_def pget_def jopt_def int_or_def Let_def)

lemma retry_writes_log:
  assumes w: "retry_writes now rid qid req note Inr row latest g db = Inr (db', art)"
  shows "\<exists>es e. db_events db' = db_events db @ es @ [e] \<and> ev_task_key e = rt_task_key req \<and>
     (\<forall>x \<in> set es. json_get (ev_payload x) ''kind'' = None) \<and>
     (\<exists>path. ev_payload e = JObj (retry_audit req rid qid (map_option a_id latest)
        ((case latest of None \<Rightarrow> 0 | Some a \<Rightarrow> a_number a) + 1) g path))"
  using w
proof (rule retry_writes_Inr)
  fix d1 d2 d3 d4
  assume s: "case note of None \<Rightarrow> d1 = db
       | Some n \<Rightarrow> add_ticket_feedback now (rt_task_key req) n ''retry'' (rt_actor req) [] db = Inr d1"
    "Inr d1 = Inr d2"
    "d3 = update_tasks (\<lambda>t. t_key t = rt_task_key req \<and> t_status t = rt_from_status req \<and> t_active_attempt_id t = None)
       (retry_row now (''reset_generation'' \<in> set (db_task_columns d2))) d2"
    "insert_event (rt_task_key req) ''status_changed'' (rt_actor req)
       (JObj [(''status'', JStr ''created''), (''blocked_reason'', JNull)]) now d3 = Inr d4"
    "insert_event (rt_task_key req) ''note'' (rt_actor req)
       (JObj (retry_audit req rid qid (map_option a_id latest)
          ((case latest of None \<Rightarrow> 0 | Some a \<Rightarrow> a_number a) + 1) g
          (map_option path_str (retry_artifact_path d3 row rid)))) now d4 = Inr db'"
  have "\<exists>es. db_events d2 = db_events db @ es \<and> (\<forall>x \<in> set es. json_get (ev_payload x) ''kind'' = None)"
    using s(1,2) add_ticket_feedback_Inr by (cases "note") fastforce+
  then obtain es where es: "db_events d2 = db_events db @ es" "\<forall>x \<in> set es. json_get (ev_payload x) ''kind'' = None"
    by blast
  obtain e1 where e1: "db_events d4 = db_events d3 @ [e1]"
    "ev_payload e1 = JObj [(''status'', JStr ''created''), (''blocked_reason'', JNull)]"
    using insert_event_log [OF s(4)] by (rule that) simp
  obtain e2 where e2: "db_events db' = db_events d4 @ [e2]" "ev_task_key e2 = rt_task_key req"
    "ev_payload e2 = JObj (retry_audit req rid qid (map_option a_id latest)
          ((case latest of None \<Rightarrow> 0 | Some a \<Rightarrow> a_number a) + 1) g
          (map_option path_str (retry_artifact_path d3 row rid)))"
    using insert_event_log [OF s(5)] by (rule that) simp_all
  have "db_events db' = db_events db @ (es @ [e1]) @ [e2]" using e1(1) e2(1) es(1) s(3) by simp
  moreover have "\<forall>x \<in> set (es @ [e1]). json_get (ev_payload x) ''kind'' = None" using es(2) e1(2) by simp
  ultimately show ?thesis using e2(2,3) by blast
qed

lemma replay_finds_audit:
  assumes none: "replay_loop req (list_task_events db (rt_task_key req)) = Inr None"
    and w: "retry_writes now rid qid req note Inr row latest g db = Inr (d, art)" and q: "rt_request_id req = Some qid"
    and later: "db_events later = db_events d @ fs"
  shows "\<exists>out. replay_loop req (list_task_events later (rt_task_key req)) = Inr (Some out) \<and>
     ro_reset_id out = Some (JStr rid) \<and>
     ro_old_attempt_id out = map_option (\<lambda>a. JStr (a_id a)) latest \<and> ro_expected_generation out = g \<and>
     ro_committed_generation out = Some (JInt (g + 1)) \<and>
     ro_next_attempt_number out = int (case latest of None \<Rightarrow> 0 | Some a \<Rightarrow> a_number a) + 1 \<and>
     ro_idempotent_replay out \<and> \<not> ro_mutated out"
proof -
  let ?ev = "filter (\<lambda>e. ev_task_key e = rt_task_key req)"
  obtain es e path where e: "db_events d = db_events db @ es @ [e]" "ev_task_key e = rt_task_key req"
    "\<forall>x \<in> set es. json_get (ev_payload x) ''kind'' = None"
    "ev_payload e = JObj (retry_audit req rid qid (map_option a_id latest)
        ((case latest of None \<Rightarrow> 0 | Some a \<Rightarrow> a_number a) + 1) g path)"
    using retry_writes_log [OF w] by blast
  have skip: "replay_loop req (?ev es) = Inr None"
    using e(3) by (induction es) (auto simp: Let_def)
  have "list_task_events later (rt_task_key req) = (list_task_events db (rt_task_key req) @ ?ev es) @ e # ?ev fs"
    using e(1,2) by (simp add: list_task_events_def later)
  then have "replay_loop req (list_task_events later (rt_task_key req)) = replay_loop req (e # ?ev fs)"
    using replay_loop_append [OF none] skip by (simp only: replay_loop_append)
  then show ?thesis using replay_loop_audit [OF q e(4)] by simp
qed

text \<open>
  C28. A request identifier makes a retry idempotent: after a retry that committed under a request identifier,
  repeating the request, at any later time and whatever the log received since, changes nothing and
  reports the Attempt, the reset and the generation of the first run.
\<close>

theorem retry_idempotent:
  assumes run: "retry_ticket home now rid fid ok req note Inr pr db = (db', Inr out)" and mut: "ro_mutated out"
    and q: "rt_request_id req = Some qid" "qid \<noteq> []" and later: "db_events later = db_events db' @ es"
  shows "\<exists>out'. retry_ticket home now' rid' fid' ok' req note Inr pr later = (later, Inr out') \<and>
     ro_idempotent_replay out' \<and> \<not> ro_mutated out' \<and> ro_reset_id out' = ro_reset_id out \<and>
     ro_old_attempt_id out' = ro_old_attempt_id out \<and>
     ro_expected_generation out' = ro_expected_generation out \<and>
     ro_committed_generation out' = ro_committed_generation out \<and>
     ro_next_attempt_number out' = ro_next_attempt_number out"
proof -
  have wrote: "\<not> (db' = db \<and> (\<forall>x. (Inr out :: retry_outcome result) = Inr x \<longrightarrow> \<not> ro_mutated x))" using mut by blast
  note start = retry_ticket_started [OF run wrote]
  have trans: "retry_transaction home now rid qid ok req note Inr db = (db', Inr out)" using start(4) q by simp
  obtain row latest g d art where c: "retry_writes now rid qid req note Inr row latest g db = Inr (d, art)"
    "retry_after_commit home now rid qid ok req latest g art d = (db', Inr out)"
    using retry_transaction_cases [OF trans wrote] .
  obtain xs p b where after: "db' = d\<lparr>db_artifacts := xs\<rparr>" "out = retry_result True False (Some rid) (Some qid) latest g p b"
    using retry_after_commit_cases [OF c(2)] by blast
  have "db_events later = db_events d @ es" using later after(1) by simp
  from replay_finds_audit [OF start(2) c(1) q(1) this]
  obtain out' where r: "replay_loop req (list_task_events later (rt_task_key req)) = Inr (Some out')"
    "ro_reset_id out' = Some (JStr rid)" "ro_old_attempt_id out' = map_option (\<lambda>a. JStr (a_id a)) latest"
    "ro_expected_generation out' = g" "ro_committed_generation out' = Some (JInt (g + 1))"
    "ro_next_attempt_number out' = int (case latest of None \<Rightarrow> 0 | Some a \<Rightarrow> a_number a) + 1"
    "ro_idempotent_replay out'" "\<not> ro_mutated out'"
    using q by blast
  have "retry_ticket home now' rid' fid' ok' req note Inr pr later = (later, Inr out')"
    using start(1,3) q(1) r(1) unfolding retry_ticket_def by (cases "note") auto
  then show ?thesis using r(2-) by (auto simp: after(2) retry_result_def)
qed

section \<open>A retry that runs\<close>

definition retry_db :: db where
  "retry_db = example_db [example_ticket ''AT-1'' ''failed'']"

definition retry_example_request :: reset_request where
  "retry_example_request =
     \<lparr>rt_task_key = ''AT-1'', rt_from_status = ''failed'', rt_reason = ''again'', rt_to_status = Some ''created'',
      rt_confirm_reset = True, rt_dry_run = False, rt_actor = ''owner'', rt_request_id = Some ''r1'',
      rt_expected_reset_generation = Some 0, rt_expected_old_attempt_id = None\<rparr>"

definition retry_example :: "db \<times> retry_outcome result" where
  "retry_example = retry_ticket (\<lambda>_. None) 50 ''x1'' ''q1'' True retry_example_request (Some ''look at the log'') Inr False retry_db"

lemma retry_db_inv: "runtime_inv retry_db"
  by (simp add: retry_db_def example_db_def example_ticket_def runtime_inv_def ownership_def no_blank_ids_def task_ids_def)

lemma retry_example_runs:
  "map t_status (db_tasks (fst retry_example)) = [''created'']"
  "map t_status (db_tasks retry_db) = [''failed'']"
  "is_ok (snd retry_example)" "ro_mutated (projr (snd retry_example))"
  by code_simp+

lemma retry_example_result:
  "retry_ticket (\<lambda>_. None) 50 ''x1'' ''q1'' True retry_example_request (Some ''look at the log'') Inr False retry_db =
     (fst retry_example, Inr (projr (snd retry_example)))"
  using retry_example_runs(3) by (cases "snd retry_example") (auto simp: retry_example_def prod_eq_iff)

theorem retry_ticket_effect_witness:
  "fst retry_example \<noteq> retry_db \<and> runtime_inv (fst retry_example) \<and>
     map t_reset_generation (db_tasks (fst retry_example)) = [1]"
proof -
  have changed: "fst retry_example \<noteq> retry_db" using retry_example_runs(1,2) by auto
  have "{''runtime_leases'', ''executor_processes'', ''attempt_resources''} \<subseteq> set (db_tables retry_db)"
    "''reset_generation'' \<in> set (db_task_columns retry_db)"
    by (simp_all add: retry_db_def example_db_def)
  note * = retry_ticket_effect [OF retry_db_inv this retry_example_result]
  then obtain t where "get_task retry_db ''AT-1'' = Some t" and inv: "runtime_inv (fst retry_example)"
    and tasks: "db_tasks (fst retry_example) = map (\<lambda>u. if t_key u = t_key t
            then u\<lparr>t_status := ''created'', t_blocked_reason := None, t_updated_at := 50,
                   t_last_synced_at := Some 50, t_reset_generation := Suc (t_reset_generation u)\<rparr>
            else u) (db_tasks retry_db)"
    using changed by (auto simp: retry_example_request_def)
  then show ?thesis
    using changed by (auto simp: retry_db_def get_task_def example_db_def example_ticket_def)
qed

theorem retry_idempotent_witness:
  "\<exists>out'. retry_ticket (\<lambda>_. None) 99 ''x2'' ''q2'' True retry_example_request (Some ''look at the log'') Inr False
      (fst retry_example) = (fst retry_example, Inr out') \<and>
     ro_idempotent_replay out' \<and> ro_reset_id out' = ro_reset_id (projr (snd retry_example))"
  using retry_idempotent [OF retry_example_result retry_example_runs(4), of "''r1''" "fst retry_example" "[]" 99 "''x2''" "''q2''" True]
  by (auto simp: retry_example_request_def)

end
