(* ===== verification/Auto_Retry.thy ===== *)
theory Auto_Retry
  imports Ticket_Retry
begin

text \<open>
  Bounded automatic retries of failed Tickets (\<open>ticket_auto_retry.py\<close>).

  The pass reads each failed Ticket, releases its connection and only then calls the retry, which opens
  its own transaction: other processes may commit in between. What they commit is the field
  \<open>ri_between\<close> of the inputs of a Ticket, together with the generated identifiers, the clock
  readings of the retry and the outcome of its audit-file write.
\<close>

section \<open>The pass\<close>

definition MAX_AUTO_RETRIES :: nat where "MAX_AUTO_RETRIES = 2"
definition BASE_DELAY_SECONDS :: int where "BASE_DELAY_SECONDS = 300"
definition BACKOFF_FACTOR :: int where "BACKOFF_FACTOR = 4"

definition AUTO_RETRY_SOURCE :: string where
  "AUTO_RETRY_SOURCE = ''ticket_auto_retry''"

record retry_inputs =
  ri_between :: "db \<Rightarrow> db"
  ri_now :: timestamp
  ri_event_now :: timestamp
  ri_retry_id :: string
  ri_request_id :: string
  ri_write_ok :: bool

datatype auto_retry_step = AutoSkipped | AutoExhausted | AutoWaiting timestamp | AutoRetried

record auto_retry_result =
  au_retried :: "string list"
  au_waiting :: "(string \<times> timestamp) list"
  au_exhausted :: "string list"

definition latest_status_event :: "db \<Rightarrow> string \<Rightarrow> event_row option" where
  "latest_status_event db key =
     (case rev (filter (\<lambda>e. ev_type e = ''status_changed'') (list_task_events db key)) of
        [] \<Rightarrow> None | e # _ \<Rightarrow> Some e)"

definition auto_retry_count :: "db \<Rightarrow> string \<Rightarrow> nat" where
  "auto_retry_count db key = length (filter (\<lambda>e. ev_type e = ''auto_retry'') (list_task_events db key))"

definition auto_retry_delay :: "nat \<Rightarrow> int" where
  "auto_retry_delay retries = BASE_DELAY_SECONDS * BACKOFF_FACTOR ^ retries"

definition operator_killed :: "db \<Rightarrow> string option \<Rightarrow> bool" where
  "operator_killed db attempt_id \<longleftrightarrow> truthy attempt_id \<and>
     (''lifecycle_events'' \<in> set (db_tables db) \<and>
        list_ex (\<lambda>e. le_attempt_id e = attempt_id \<and> le_reason_code e = ''operator_kill_requested'') (db_lifecycle db) \<or>
      ''executor_processes'' \<in> set (db_tables db) \<and>
        list_ex (\<lambda>x. Some (xp_attempt_id x) = attempt_id \<and> xp_termination_reason x = Some ''operator_kill_requested'')
          (db_processes db))"

definition latest_attempt_id :: "db \<Rightarrow> task_row \<Rightarrow> string option" where
  "latest_attempt_id db task =
     (if ''attempts'' \<in> set (db_tables db)
      then map_option a_id (Option.bind (t_task_id task) (latest_attempt db)) else None)"

text \<open>Whether a control, a dependency or an operator's kill holds the Ticket back.\<close>

definition auto_retry_held :: "db \<Rightarrow> string \<Rightarrow> string option \<Rightarrow> bool result" where
  "auto_retry_held db key attempt_id =
     rbind (effective_runtime_control_in_connection db (Some key) attempt_id) (\<lambda>control.
       if ef_mode control \<noteq> ''running'' then Inr True
       else rbind (unreleased_dependency_in_connection db key) (\<lambda>dependency.
         Inr (dependency \<noteq> None \<or> operator_killed db attempt_id)))"

text \<open>The closure \<open>record_retry\<close>, run inside the retry transaction.\<close>

definition record_retry ::
  "retry_inputs \<Rightarrow> string \<Rightarrow> event_row \<Rightarrow> nat \<Rightarrow> db \<Rightarrow> db result" where
  "record_retry inp key failure retries db =
     (case latest_status_event db key of
        None \<Rightarrow> Inl TicketRetryError
      | Some e \<Rightarrow>
          if ev_id e \<noteq> ev_id failure \<or> auto_retry_count db key \<noteq> retries then Inl TicketRetryError
          else record_task_event (ri_event_now inp) key ''auto_retry'' AUTO_RETRY_SOURCE
                 [(''retry_number'', JInt (int retries + 1)), (''max'', JInt (int MAX_AUTO_RETRIES)),
                  (''delay_seconds'', JInt (auto_retry_delay retries)),
                  (''failed_at'', JInt (ev_created_at failure)), (''reason'', JStr ''infrastructure failure'')] db)"

definition auto_retry_request :: "string \<Rightarrow> string option \<Rightarrow> reset_request" where
  "auto_retry_request key attempt_id =
     \<lparr>rt_task_key = key, rt_from_status = ''failed'', rt_reason = ''automatic retry after infrastructure failure'',
      rt_to_status = None, rt_confirm_reset = True, rt_dry_run = False, rt_actor = AUTO_RETRY_SOURCE,
      rt_request_id = None, rt_expected_reset_generation = None, rt_expected_old_attempt_id = attempt_id\<rparr>"

fun integrity_violation :: "exn \<Rightarrow> bool" where
  "integrity_violation (SqlAbort _) = True"
| "integrity_violation _ = False"

definition perform_auto_retry ::
  "(string \<Rightarrow> string option) \<Rightarrow> retry_inputs \<Rightarrow> string \<Rightarrow> string option \<Rightarrow> event_row \<Rightarrow> nat \<Rightarrow> db
     \<Rightarrow> db \<times> auto_retry_step result" where
  "perform_auto_retry home inp key attempt_id failure retries db =
     (case init_reset_request (auto_retry_request key attempt_id) of
        Inl e \<Rightarrow> (db, Inl e)
      | Inr req \<Rightarrow>
          (case retry_ticket home (ri_now inp) (ri_retry_id inp) (ri_request_id inp) (ri_write_ok inp) req None
                  (record_retry inp key failure retries) False (ri_between inp db) of
             (db', Inl e) \<Rightarrow>
               (db', if e = TicketRetryError \<or> integrity_violation e then Inr AutoSkipped else Inl e)
           | (db', Inr out) \<Rightarrow> (db', Inr (if ro_mutated out then AutoRetried else AutoSkipped))))"

definition mark_exhausted :: "timestamp \<Rightarrow> string \<Rightarrow> db \<Rightarrow> db result" where
  "mark_exhausted now key db =
     (if task_status_of db key = Some ''failed'' \<and>
         \<not> list_ex (\<lambda>e. ev_type e = ''auto_retry_exhausted'') (list_task_events db key)
      then insert_event key ''auto_retry_exhausted'' AUTO_RETRY_SOURCE
             (JObj [(''max'', JInt (int MAX_AUTO_RETRIES))]) now db
      else Inr db)"

text \<open>The body of the loop for one Ticket.\<close>

definition auto_retry_ticket ::
  "(string \<Rightarrow> string option) \<Rightarrow> timestamp \<Rightarrow> retry_inputs \<Rightarrow> string \<Rightarrow> db \<Rightarrow> db \<times> auto_retry_step result" where
  "auto_retry_ticket home now inp key db =
     (case get_task db key of
        None \<Rightarrow> (db, Inr AutoSkipped)
      | Some task \<Rightarrow>
          if t_status task \<noteq> ''failed'' then (db, Inr AutoSkipped)
          else (case latest_status_event db key of
             None \<Rightarrow> (db, Inr AutoSkipped)
           | Some failure \<Rightarrow>
               if json_get (ev_payload failure) ''status'' \<noteq> Some (JStr ''failed'') then (db, Inr AutoSkipped)
               else
                 let attempt_id = latest_attempt_id db task;
                     retries = auto_retry_count db key;
                     retry_at = ev_created_at failure + auto_retry_delay retries
                 in
                 (case auto_retry_held db key attempt_id of
                    Inl e \<Rightarrow> (db, Inl e)
                  | Inr True \<Rightarrow> (db, Inr AutoSkipped)
                  | Inr False \<Rightarrow>
                      if retries \<ge> MAX_AUTO_RETRIES
                      then (case mark_exhausted now key db of
                              Inl e \<Rightarrow> (db, Inl e) | Inr db' \<Rightarrow> (db', Inr AutoExhausted))
                      else if now < retry_at then (db, Inr (AutoWaiting retry_at))
                      else perform_auto_retry home inp key attempt_id failure retries db)))"

definition note_step :: "string \<Rightarrow> auto_retry_step \<Rightarrow> auto_retry_result \<Rightarrow> auto_retry_result" where
  "note_step key s r =
     (case s of
        AutoSkipped \<Rightarrow> r
      | AutoExhausted \<Rightarrow> r\<lparr>au_exhausted := au_exhausted r @ [key]\<rparr>
      | AutoWaiting at \<Rightarrow> r\<lparr>au_waiting := au_waiting r @ [(key, at)]\<rparr>
      | AutoRetried \<Rightarrow> r\<lparr>au_retried := au_retried r @ [key]\<rparr>)"

fun auto_retry_loop ::
  "(string \<Rightarrow> string option) \<Rightarrow> timestamp \<Rightarrow> (string \<Rightarrow> retry_inputs) \<Rightarrow> string list \<Rightarrow> auto_retry_result \<Rightarrow> db
     \<Rightarrow> db \<times> auto_retry_result result" where
  "auto_retry_loop home now inputs [] r db = (db, Inr r)"
| "auto_retry_loop home now inputs (key # keys) r db =
     (case auto_retry_ticket home now (inputs key) key db of
        (db', Inl e) \<Rightarrow> (db', Inl e)
      | (db', Inr s) \<Rightarrow> auto_retry_loop home now inputs keys (note_step key s r) db')"

definition failed_tickets :: "db \<Rightarrow> string list" where
  "failed_tickets db =
     sort (map t_key (filter (\<lambda>t. t_prompt t \<noteq> None \<and> t_status t = ''failed'') (db_tasks db)))"

definition maintain_auto_retries ::
  "(string \<Rightarrow> string option) \<Rightarrow> timestamp \<Rightarrow> (string \<Rightarrow> retry_inputs) \<Rightarrow> db \<Rightarrow> db \<times> auto_retry_result result" where
  "maintain_auto_retries home now inputs db =
     (let r = \<lparr>au_retried = [], au_waiting = [], au_exhausted = []\<rparr> in
      if \<not> tasks_has_ticket_columns db then (db, Inr r)
      else auto_retry_loop home now inputs (failed_tickets db) r db)"

section \<open>Counting the automatic retries\<close>

lemma auto_retry_count_events:
  "auto_retry_count db k = length (filter (\<lambda>e. ev_task_key e = k \<and> ev_type e = ''auto_retry'') (db_events db))"
  by (simp add: auto_retry_count_def list_task_events_def conj_commute)

lemma insert_event_count:
  assumes "insert_event key ty src pl n db = Inr db'"
  shows "auto_retry_count db' k = auto_retry_count db k + (if k = key \<and> ty = ''auto_retry'' then 1 else 0)"
  by (simp add: auto_retry_count_events insert_event_log [OF assms])

lemma auto_retry_count_tasks [simp]: "auto_retry_count (update_tasks p f db) k = auto_retry_count db k"
  by (simp add: auto_retry_count_events)

lemma auto_retry_count_artifacts [simp]: "auto_retry_count (db\<lparr>db_artifacts := xs\<rparr>) k = auto_retry_count db k"
  by (simp add: auto_retry_count_events)

lemma record_retry_Inr:
  assumes "record_retry inp key failure n db = Inr db'" and "normalize_task_key key = Inr key"
  shows "\<exists>e. latest_status_event db key = Some e \<and> ev_id e = ev_id failure" "auto_retry_count db key = n"
    "events_only db db'" "auto_retry_count db' k = auto_retry_count db k + (if k = key then 1 else 0)"
proof -
  obtain e pl where e: "latest_status_event db key = Some e" "ev_id e = ev_id failure" "auto_retry_count db key = n"
    and rec: "record_task_event (ri_event_now inp) key ''auto_retry'' AUTO_RETRY_SOURCE pl db = Inr db'"
    using assms(1) by (auto simp: record_retry_def split: option.splits if_splits)
  obtain ty src where "validate_task_event_type ''auto_retry'' = Inr ty"
    and ins: "insert_event key ty src (JObj pl) (ri_event_now inp) db = Inr db'"
    using rec assms(2) unfolding record_task_event_def by (auto simp: rbind_Inr_iff)
  moreover have "validate_task_event_type ''auto_retry'' = Inr ''auto_retry''" by code_simp
  ultimately have "ty = ''auto_retry''" by simp
  then show "auto_retry_count db' k = auto_retry_count db k + (if k = key then 1 else 0)"
    using insert_event_count [OF ins] by simp
  show "events_only db db'" by (rule insert_event_events_only [OF ins])
  show "\<exists>e. latest_status_event db key = Some e \<and> ev_id e = ev_id failure" "auto_retry_count db key = n"
    using e by auto
qed

lemma retry_writes_auto:
  assumes w: "retry_writes now rid qid req None (record_retry inp key failure n) row latest g db = Inr (db', art)"
    and key: "normalize_task_key key = Inr key"
  shows "\<exists>e. latest_status_event db key = Some e \<and> ev_id e = ev_id failure" "auto_retry_count db key = n"
    "auto_retry_count db' k = auto_retry_count db k + (if k = key then 1 else 0)"
proof -
  obtain d1 d2 d3 d4 where s: "case None :: string option of None \<Rightarrow> d1 = db
       | Some n \<Rightarrow> add_ticket_feedback now (rt_task_key req) n ''retry'' (rt_actor req) [] db = Inr d1"
    "record_retry inp key failure n d1 = Inr d2"
    "d3 = update_tasks (\<lambda>t. t_key t = rt_task_key req \<and> t_status t = rt_from_status req \<and> t_active_attempt_id t = None)
       (retry_row now (''reset_generation'' \<in> set (db_task_columns d2))) d2"
    "insert_event (rt_task_key req) ''status_changed'' (rt_actor req)
       (JObj [(''status'', JStr ''created''), (''blocked_reason'', JNull)]) now d3 = Inr d4"
    "insert_event (rt_task_key req) ''note'' (rt_actor req)
       (JObj (retry_audit req rid qid (map_option a_id latest)
          ((case latest of None \<Rightarrow> 0 | Some a \<Rightarrow> a_number a) + 1) g
          (map_option path_str (retry_artifact_path d3 row rid)))) now d4 = Inr db'"
    by (rule retry_writes_Inr [OF w])
  have d1: "d1 = db" using s(1) by simp
  note r = record_retry_Inr [OF s(2) [unfolded d1] key]
  show "\<exists>e. latest_status_event db key = Some e \<and> ev_id e = ev_id failure" "auto_retry_count db key = n"
    using r(1,2) by auto
  show "auto_retry_count db' k = auto_retry_count db k + (if k = key then 1 else 0)"
    using insert_event_count [OF s(5), of k] insert_event_count [OF s(4), of k] r(4) [of k] s(3) by simp
qed

section \<open>One Ticket\<close>

lemma init_auto_retry_request:
  assumes "init_reset_request (auto_retry_request key a) = Inr req" and "normalize_task_key key = Inr key"
  shows "rt_task_key req = key" "rt_from_status req = ''failed''"
proof -
  have "py_lower (py_strip ''failed'') = ''failed''" by code_simp
  then have "rt_task_key req = key \<and> rt_from_status req = ''failed''"
    using assms unfolding init_reset_request_def auto_retry_request_def
    by (auto simp: rbind_Inr_iff Let_def split: if_splits)
  then show "rt_task_key req = key" "rt_from_status req = ''failed''" by auto
qed

lemma perform_auto_retry_cases:
  assumes run: "perform_auto_retry home inp key a failure n db = (db', r)" and key: "normalize_task_key key = Inr key"
  shows "(db' \<in> {db, ri_between inp db} \<and> r \<noteq> Inr AutoRetried) \<or>
     (\<exists>req qid. rt_task_key req = key \<and> rt_from_status req = ''failed'' \<and>
        retry_committed (ri_now inp) (ri_retry_id inp) qid req None (record_retry inp key failure n) False
          (ri_between inp db) db')"
proof (cases "init_reset_request (auto_retry_request key a)")
  case (Inl e)
  then show ?thesis using run by (auto simp: perform_auto_retry_def)
next
  case (Inr req)
  note req = init_auto_retry_request [OF Inr key]
  let ?run = "retry_ticket home (ri_now inp) (ri_retry_id inp) (ri_request_id inp) (ri_write_ok inp) req None
                  (record_retry inp key failure n) False (ri_between inp db)"
  obtain d res where rt: "?run = (d, res)" by (cases ?run)
  then have "d = db'" "r = Inr AutoRetried \<Longrightarrow> \<exists>out. res = Inr out \<and> ro_mutated out"
    using run Inr by (auto simp: perform_auto_retry_def split: sum.splits if_splits)
  then show ?thesis using retry_ticket_cases [OF rt] req by blast
qed

lemma auto_retry_ticket_cases:
  assumes run: "auto_retry_ticket home now inp key db = (db', r)"
  obtains (still) "db' = db" "r \<noteq> Inr AutoRetried"
    | (exhausted) "mark_exhausted now key db = Inr db'" "r = Inr AutoExhausted"
    | (due) task failure where "get_task db key = Some task" "t_status task = ''failed''"
        "latest_status_event db key = Some failure" "json_get (ev_payload failure) ''status'' = Some (JStr ''failed'')"
        "auto_retry_held db key (latest_attempt_id db task) = Inr False" "auto_retry_count db key < MAX_AUTO_RETRIES"
        "ev_created_at failure + auto_retry_delay (auto_retry_count db key) \<le> now"
        "perform_auto_retry home inp key (latest_attempt_id db task) failure (auto_retry_count db key) db = (db', r)"
  using run unfolding auto_retry_ticket_def Let_def
  by (auto split: option.splits if_splits sum.splits bool.splits)

lemma perform_auto_retry_count:
  assumes run: "perform_auto_retry home inp key a failure n db = (db', r)" and key: "normalize_task_key key = Inr key"
  shows "(db' \<in> {db, ri_between inp db} \<and> r \<noteq> Inr AutoRetried) \<or>
     (\<exists>e. latest_status_event (ri_between inp db) key = Some e \<and> ev_id e = ev_id failure) \<and>
     auto_retry_count (ri_between inp db) key = n \<and>
     (\<forall>k. auto_retry_count db' k = auto_retry_count (ri_between inp db) k + (if k = key then 1 else 0))"
  using perform_auto_retry_cases [OF run key]
proof (elim disjE exE conjE)
  fix req qid
  assume "retry_committed (ri_now inp) (ri_retry_id inp) qid req None (record_retry inp key failure n) False
          (ri_between inp db) db'"
  then obtain row latest g d art xs where
    w: "retry_writes (ri_now inp) (ri_retry_id inp) qid req None (record_retry inp key failure n) row latest g
          (ri_between inp db) = Inr (d, art)" and d: "db' = d\<lparr>db_artifacts := xs\<rparr>"
    unfolding retry_committed_def by blast
  note auto = retry_writes_auto [OF w key]
  show ?thesis using auto(1,2) auto(3) by (simp add: d)
qed blast

text \<open>
  C33. The number of automatic retries is bounded for ever: if no Ticket has more than two
  \<open>auto_retry\<close> events and the other processes keep it so, then no pass over the failed Tickets,
  also one that ends in an exception, brings any Ticket above two.
\<close>

theorem auto_retry_bounded:
  assumes keys: "\<forall>t \<in> set (db_tasks db). normalize_task_key (t_key t) = Inr (t_key t)"
    and others: "\<forall>key d. (\<forall>k. auto_retry_count d k \<le> 2) \<longrightarrow> (\<forall>k. auto_retry_count (ri_between (inputs key) d) k \<le> 2)"
    and before: "\<forall>k. auto_retry_count db k \<le> 2"
    and run: "maintain_auto_retries home now inputs db = (db', r)"
  shows "auto_retry_count db' k \<le> 2"
proof -
  have step: "\<forall>k. auto_retry_count d' k \<le> 2"
    if d: "\<forall>k. auto_retry_count d k \<le> 2" and key: "normalize_task_key key = Inr key"
      and run: "auto_retry_ticket home now (inputs key) key d = (d', s)" for key d d' s
    using run
  proof (cases rule: auto_retry_ticket_cases)
    case still
    then show ?thesis using d by simp
  next
    case exhausted
    then show ?thesis using d insert_event_count by (fastforce simp: mark_exhausted_def split: if_splits)
  next
    case (due task failure)
    have b: "\<forall>k. auto_retry_count (ri_between (inputs key) d) k \<le> 2" using others d by blast
    show ?thesis
      using perform_auto_retry_count [OF due(8) key] b d due(6)
      by (auto simp: MAX_AUTO_RETRIES_def)
  qed
  have loop: "\<forall>k. auto_retry_count (fst (auto_retry_loop home now inputs ks acc d)) k \<le> 2"
    if "\<forall>k. auto_retry_count d k \<le> 2" "\<forall>k \<in> set ks. normalize_task_key k = Inr k" for ks acc d
    using that
  proof (induction ks arbitrary: acc d)
    case (Cons key ks)
    obtain d' s where a: "auto_retry_ticket home now (inputs key) key d = (d', s)" by fastforce
    have "\<forall>k. auto_retry_count d' k \<le> 2" using step [OF Cons.prems(1) _ a] Cons.prems(2) by simp
    then show ?case using Cons.IH Cons.prems(2) by (auto simp: a split: sum.split)
  qed simp
  have ks: "\<forall>k \<in> set (failed_tickets db). normalize_task_key k = Inr k"
    using keys by (auto simp: failed_tickets_def)
  show ?thesis
    using run before loop [OF before ks, of "\<lparr>au_retried = [], au_waiting = [], au_exhausted = []\<rparr>"]
    by (auto simp: maintain_auto_retries_def Let_def split: if_splits)
qed

text \<open>What the check for holds leaves out: every control over the Ticket, its blocker and an operator's kill.\<close>

definition scopes_over :: "string \<Rightarrow> task_row \<Rightarrow> string option \<Rightarrow> (string \<times> string) set" where
  "scopes_over key task attempt_id =
     {(''global'', ''*''), (''task'', key)} \<union>
     {(''project'', p) |p. t_task_id task \<noteq> None \<and> normalize_project_control_id (t_project task) = Inr p} \<union>
     {(''attempt'', py_strip a) |a. attempt_id = Some a}"

lemma auto_retry_held_False:
  assumes "auto_retry_held db key attempt_id = Inr False"
  obtains e where "effective_runtime_control_in_connection db (Some key) attempt_id = Inr e" "ef_mode e = ''running''"
    "unreleased_dependency_in_connection db key = Inr None" "\<not> operator_killed db attempt_id"
  using assms
  by (cases "effective_runtime_control_in_connection db (Some key) attempt_id"; cases "unreleased_dependency_in_connection db key")
     (simp_all add: auto_retry_held_def del: not_None_eq split_paired_All split: if_splits)

lemma held_no_control:
  assumes "auto_retry_held db key attempt_id = Inr False" and key: "normalize_task_key key = Inr key"
    and task: "get_task db key = Some task" and table: "''runtime_controls'' \<in> set (db_tables db)"
    and scope: "scope \<in> scopes_over key task attempt_id" and c: "find_control db scope = Some c"
  shows "rc_mode c \<notin> {''paused'', ''kill_requested''}"
proof -
  obtain e where e: "effective_runtime_control_in_connection db (Some key) attempt_id = Inr e" "ef_mode e = ''running''"
    by (rule auto_retry_held_False [OF assms(1)])
  then obtain scopes where scopes: "control_scopes_for db (Some key) attempt_id = Inr scopes"
    unfolding effective_runtime_control_in_connection_def rbind_Inr_iff by blast
  have "scope \<in> set scopes"
    using scopes scope unfolding control_scopes_for_def scopes_over_def get_task_identity_in_connection_def
    by (auto simp: key task rbind_Inr_iff require_non_empty_Inr split: option.splits if_splits)
  then have "c \<in> set (List.map_filter (find_control db) scopes)" using c by (auto simp: set_map_filter)
  then show ?thesis
    using e scopes table
    by (auto simp: effective_runtime_control_in_connection_def Let_def list_ex_iff split: if_splits)
qed

lemma held_released:
  assumes "auto_retry_held db key attempt_id = Inr False" and "normalize_task_key key = Inr key"
    and "get_task db key = Some task" and "''blocked_by'' \<in> set (db_task_columns db)" and "t_blocked_by task = Some b" "b \<noteq> []"
  shows "\<exists>u. get_task db b = Some u \<and> t_status u \<in> set COMPLETED_BLOCKER_STATUSES"
proof -
  have "unreleased_dependency_in_connection db key = Inr None" by (rule auto_retry_held_False [OF assms(1)])
  then show ?thesis
    using assms(2-) by (auto simp: unreleased_dependency_in_connection_def rbind_Inr_iff split: option.splits if_splits)
qed

lemma held_not_killed:
  assumes "auto_retry_held db key attempt_id = Inr False" and "attempt_id = Some a" "a \<noteq> []"
  shows "\<lbrakk>''lifecycle_events'' \<in> set (db_tables db); e \<in> set (db_lifecycle db); le_attempt_id e = Some a\<rbrakk> \<Longrightarrow>
       le_reason_code e \<noteq> ''operator_kill_requested''"
    and "\<lbrakk>''executor_processes'' \<in> set (db_tables db); x \<in> set (db_processes db); xp_attempt_id x = a\<rbrakk> \<Longrightarrow>
       xp_termination_reason x \<noteq> Some ''operator_kill_requested''"
proof -
  have "\<not> operator_killed db attempt_id" by (rule auto_retry_held_False [OF assms(1)])
  then show "\<lbrakk>''lifecycle_events'' \<in> set (db_tables db); e \<in> set (db_lifecycle db); le_attempt_id e = Some a\<rbrakk> \<Longrightarrow>
       le_reason_code e \<noteq> ''operator_kill_requested''"
    and "\<lbrakk>''executor_processes'' \<in> set (db_tables db); x \<in> set (db_processes db); xp_attempt_id x = a\<rbrakk> \<Longrightarrow>
       xp_termination_reason x \<noteq> Some ''operator_kill_requested''"
    using assms(2,3) by (auto simp: operator_killed_def truthy_def list_ex_iff)
qed

lemma auto_retry_committed_status:
  assumes c: "retry_committed now rid qid req None (record_retry inp key failure n) False db db'"
    and req: "rt_task_key req = key" "rt_from_status req = ''failed''"
    and key: "normalize_task_key key = Inr key" and dist: "distinct (map t_key (db_tasks db))"
  shows "task_status_of db key = Some ''failed''" "task_status_of db' key = Some ''created''"
    "\<exists>row. get_task db key = Some row \<and> \<not> truthy (t_active_attempt_id row) \<and>
       (\<forall>b. t_blocked_by row = Some b \<and> b \<noteq> [] \<longrightarrow> (\<exists>u. get_task db b = Some u \<and> t_status u \<in> set COMPLETED_BLOCKER_STATUSES))"
proof -
  obtain row latest g d art xs where chk: "retry_checks req db = Inr (row, latest, g)"
    and w: "retry_writes now rid qid req None (record_retry inp key failure n) row latest g db = Inr (d, art)"
    and d: "db' = d\<lparr>db_artifacts := xs\<rparr>"
    using c unfolding retry_committed_def by blast
  note row = retry_checks_Inr(1,2) [OF chk]
  show "task_status_of db key = Some ''failed''" using row req by (simp add: task_status_of_def)
  show "\<exists>row. get_task db key = Some row \<and> \<not> truthy (t_active_attempt_id row) \<and>
       (\<forall>b. t_blocked_by row = Some b \<and> b \<noteq> [] \<longrightarrow> (\<exists>u. get_task db b = Some u \<and> t_status u \<in> set COMPLETED_BLOCKER_STATUSES))"
    using row req(1) retry_checks_Inr(3,6) [OF chk] by blast
  have "events_only (update_tasks (\<lambda>t. t_key t = key) (retry_row now (''reset_generation'' \<in> set (db_task_columns db))) db) d"
    using retry_writes_frame(2) [OF w _ dist row(1)] record_retry_Inr(3) [OF _ key] req(1) by blast
  note get = events_onlyD(11) [OF this]
  have "get_task d key = map_option (retry_row now (''reset_generation'' \<in> set (db_task_columns db))) (get_task db key)"
    unfolding get by (rule get_task_update_same) (simp add: retry_row_def)
  moreover have "get_task db' key = get_task d key" by (simp add: d get_task_def)
  ultimately show "task_status_of db' key = Some ''created''" using row(1) req(1) by (simp add: task_status_of_def retry_row_def)
qed

text \<open>
  C34. An automatic retry happens only when it is due. In the database as the pass read it, the Ticket's last
  status change is its failure, fewer than two automatic retries precede it and $300 \cdot 4^n$ seconds have passed
  since the failure after $n$ of them; no control over the Ticket (global, project, task or its latest Attempt) is
  \<open>paused\<close> or \<open>kill_requested\<close>, its blocker is completed, and its latest Attempt was not killed by an operator. In
  the database in which the retry is committed, whatever other processes committed since, the Ticket is still
  failed by the same status change, without active Attempt and with its blocker completed, and no other pass has
  retried it. (Controls and kills are not read again there.) The retry is recorded once and the Ticket is
  \<open>created\<close> again.
\<close>

theorem auto_retry_guarded:
  assumes key: "normalize_task_key key = Inr key" and dist: "distinct (map t_key (db_tasks (ri_between inp db)))"
    and run: "auto_retry_ticket home now inp key db = (db', Inr AutoRetried)"
  shows "\<exists>task failure. get_task db key = Some task \<and> t_status task = ''failed'' \<and>
     latest_status_event db key = Some failure \<and> json_get (ev_payload failure) ''status'' = Some (JStr ''failed'') \<and>
     (''runtime_controls'' \<in> set (db_tables db) \<longrightarrow> (\<forall>scope \<in> scopes_over key task (latest_attempt_id db task). \<forall>c.
        find_control db scope = Some c \<longrightarrow> rc_mode c \<notin> {''paused'', ''kill_requested''})) \<and>
     (''blocked_by'' \<in> set (db_task_columns db) \<longrightarrow> (\<forall>b. t_blocked_by task = Some b \<and> b \<noteq> [] \<longrightarrow>
        (\<exists>u. get_task db b = Some u \<and> t_status u \<in> set COMPLETED_BLOCKER_STATUSES))) \<and>
     (\<forall>a. latest_attempt_id db task = Some a \<and> a \<noteq> [] \<longrightarrow>
        (''lifecycle_events'' \<in> set (db_tables db) \<longrightarrow> (\<forall>e \<in> set (db_lifecycle db).
           le_attempt_id e = Some a \<longrightarrow> le_reason_code e \<noteq> ''operator_kill_requested'')) \<and>
        (''executor_processes'' \<in> set (db_tables db) \<longrightarrow> (\<forall>x \<in> set (db_processes db).
           xp_attempt_id x = a \<longrightarrow> xp_termination_reason x \<noteq> Some ''operator_kill_requested''))) \<and>
     auto_retry_count db key < 2 \<and> ev_created_at failure + 300 * 4 ^ auto_retry_count db key \<le> now \<and>
     (\<exists>e. latest_status_event (ri_between inp db) key = Some e \<and> ev_id e = ev_id failure) \<and>
     (\<exists>row. get_task (ri_between inp db) key = Some row \<and> t_status row = ''failed'' \<and> \<not> truthy (t_active_attempt_id row) \<and>
        (\<forall>b. t_blocked_by row = Some b \<and> b \<noteq> [] \<longrightarrow>
           (\<exists>u. get_task (ri_between inp db) b = Some u \<and> t_status u \<in> set COMPLETED_BLOCKER_STATUSES))) \<and>
     auto_retry_count (ri_between inp db) key = auto_retry_count db key \<and>
     task_status_of db' key = Some ''created'' \<and>
     (\<forall>k. auto_retry_count db' k = auto_retry_count (ri_between inp db) k + (if k = key then 1 else 0))"
  using run
proof (cases rule: auto_retry_ticket_cases)
  case (due task failure)
  obtain req qid where c: "rt_task_key req = key" "rt_from_status req = ''failed''"
    "retry_committed (ri_now inp) (ri_retry_id inp) qid req None
       (record_retry inp key failure (auto_retry_count db key)) False (ri_between inp db) db'"
    using perform_auto_retry_cases [OF due(8) key] by blast
  note commit = auto_retry_committed_status [OF c(3,1,2) key dist]
  have rows: "\<exists>row. get_task (ri_between inp db) key = Some row \<and> t_status row = ''failed'' \<and> \<not> truthy (t_active_attempt_id row) \<and>
        (\<forall>b. t_blocked_by row = Some b \<and> b \<noteq> [] \<longrightarrow>
           (\<exists>u. get_task (ri_between inp db) b = Some u \<and> t_status u \<in> set COMPLETED_BLOCKER_STATUSES))"
    using commit(1,3) by (auto simp: task_status_of_def)
  have late: "ev_created_at failure + 300 * 4 ^ auto_retry_count db key \<le> now" "auto_retry_count db key < 2"
    using due(6,7) by (simp_all add: MAX_AUTO_RETRIES_def auto_retry_delay_def BASE_DELAY_SECONDS_def BACKOFF_FACTOR_def)
  have counted: "(\<exists>e. latest_status_event (ri_between inp db) key = Some e \<and> ev_id e = ev_id failure) \<and>
     auto_retry_count (ri_between inp db) key = auto_retry_count db key \<and>
     (\<forall>k. auto_retry_count db' k = auto_retry_count (ri_between inp db) k + (if k = key then 1 else 0))"
    using perform_auto_retry_count [OF due(8) key] by blast
  have controls: "''runtime_controls'' \<in> set (db_tables db) \<longrightarrow> (\<forall>scope \<in> scopes_over key task (latest_attempt_id db task). \<forall>c.
      find_control db scope = Some c \<longrightarrow> rc_mode c \<notin> {''paused'', ''kill_requested''})"
    using held_no_control [OF due(5) key due(1)] by blast
  have released: "''blocked_by'' \<in> set (db_task_columns db) \<longrightarrow> (\<forall>b. t_blocked_by task = Some b \<and> b \<noteq> [] \<longrightarrow>
      (\<exists>u. get_task db b = Some u \<and> t_status u \<in> set COMPLETED_BLOCKER_STATUSES))"
    using held_released [OF due(5) key due(1)] by blast
  have killed: "\<forall>a. latest_attempt_id db task = Some a \<and> a \<noteq> [] \<longrightarrow>
        (''lifecycle_events'' \<in> set (db_tables db) \<longrightarrow> (\<forall>e \<in> set (db_lifecycle db).
           le_attempt_id e = Some a \<longrightarrow> le_reason_code e \<noteq> ''operator_kill_requested'')) \<and>
        (''executor_processes'' \<in> set (db_tables db) \<longrightarrow> (\<forall>x \<in> set (db_processes db).
           xp_attempt_id x = a \<longrightarrow> xp_termination_reason x \<noteq> Some ''operator_kill_requested''))"
    using held_not_killed [OF due(5)] by blast
  show ?thesis
    by (intro exI [of _ task] exI [of _ failure] conjI due(1-4) controls released killed late rows
        counted [THEN conjunct1] counted [THEN conjunct2, THEN conjunct1] counted [THEN conjunct2, THEN conjunct2] commit(2))
qed simp_all

section \<open>A pass that retries\<close>

definition failed_db :: db where
  "failed_db = retry_db\<lparr>db_events := [\<lparr>ev_id = 1, ev_task_key = ''AT-1'', ev_type = ''status_changed'', ev_source = ''runtime'',
      ev_payload = JObj [(''status'', JStr ''failed'')], ev_created_at = 1000\<rparr>]\<rparr>"

definition quiet_inputs :: retry_inputs where
  "quiet_inputs = \<lparr>ri_between = id, ri_now = 1400, ri_event_now = 1400, ri_retry_id = ''x1'', ri_request_id = ''q1'', ri_write_ok = True\<rparr>"

lemma failed_db_keys: "\<forall>t \<in> set (db_tasks failed_db). normalize_task_key (t_key t) = Inr (t_key t)"
  by code_simp

lemma auto_retry_runs:
  "snd (auto_retry_ticket (\<lambda>_. None) 1400 quiet_inputs ''AT-1'' failed_db) = Inr AutoRetried"
  by code_simp

theorem auto_retry_bounded_witness:
  "auto_retry_count (fst (maintain_auto_retries (\<lambda>_. None) 1400 (\<lambda>_. quiet_inputs) failed_db)) ''AT-1'' \<le> 2"
  by (rule auto_retry_bounded [OF failed_db_keys _ _ prod.collapse [symmetric]])
    (simp_all add: quiet_inputs_def auto_retry_count_events failed_db_def)

theorem auto_retry_guarded_witness:
  "task_status_of (fst (auto_retry_ticket (\<lambda>_. None) 1400 quiet_inputs ''AT-1'' failed_db)) ''AT-1'' = Some ''created''"
proof -
  have "normalize_task_key ''AT-1'' = Inr ''AT-1''" by code_simp
  moreover have "distinct (map t_key (db_tasks (ri_between quiet_inputs failed_db)))"
    by (simp add: quiet_inputs_def failed_db_def retry_db_def example_db_def)
  moreover have "auto_retry_ticket (\<lambda>_. None) 1400 quiet_inputs ''AT-1'' failed_db =
      (fst (auto_retry_ticket (\<lambda>_. None) 1400 quiet_inputs ''AT-1'' failed_db), Inr AutoRetried)"
    by (simp add: prod_eq_iff auto_retry_runs)
  ultimately show ?thesis by (blast dest: auto_retry_guarded)
qed

end
