(* ===== verification/Integration_Store.thy ===== *)
theory Integration_Store
  imports Task_Mirror
begin

text \<open>
  The integration tables and their store: \<open>integration_schema.py\<close> (status transitions, PR
  fields, repository identity), \<open>integration_store.py\<close> (PR state, private state, queue, lock
  journal, evidence) and \<open>integration_queue.py\<close>.

  A row of \<open>task_pr_state\<close> or \<open>task_integration_state\<close> is a dict from column names to
  values; a column that was never written is absent, which stands for \<open>NULL\<close>. SQLite has no
  Booleans: a Boolean is stored as the integer 0 or 1. Every operation is one transaction.
\<close>

section \<open>Statuses and transitions (integration\_schema.py)\<close>

definition READY :: string where "READY = ''created''"
definition READY_FOR_INTEGRATION :: string where "READY_FOR_INTEGRATION = ''ready_for_integration''"
definition INTEGRATING :: string where "INTEGRATING = ''integrating''"
definition NEEDS_REVIEW :: string where "NEEDS_REVIEW = ''waiting_for_review''"
definition NEEDS_DECISION :: string where "NEEDS_DECISION = ''needs_decision''"
definition CANCELLED :: string where "CANCELLED = ''canceled''"
definition COMPLETED :: string where "COMPLETED = ''cleaned''"
definition PAUSED :: string where "PAUSED = ''paused''"

lemmas integration_statuses = READY_def READY_FOR_INTEGRATION_def INTEGRATING_def NEEDS_REVIEW_def
  NEEDS_DECISION_def CANCELLED_def COMPLETED_def PAUSED_def

lemma integration_statuses_persisted:
  "to_persisted_status ''ready'' = Inr READY"
  "to_persisted_status ''ready_for_integration'' = Inr READY_FOR_INTEGRATION"
  "to_persisted_status ''integrating'' = Inr INTEGRATING"
  "to_persisted_status ''needs_review'' = Inr NEEDS_REVIEW"
  "to_persisted_status ''needs_decision'' = Inr NEEDS_DECISION"
  "to_persisted_status ''cancelled'' = Inr CANCELLED"
  "to_persisted_status ''completed'' = Inr COMPLETED"
  "to_persisted_status ''paused'' = Inr PAUSED"
  by code_simp+

definition INTEGRATION_OWNED_STATUSES :: "string list" where
  "INTEGRATION_OWNED_STATUSES =
     [READY_FOR_INTEGRATION, INTEGRATING, NEEDS_REVIEW, NEEDS_DECISION, CANCELLED, COMPLETED]"

definition INTEGRATION_TRANSITIONS :: "(string \<times> string list) list" where
  "INTEGRATION_TRANSITIONS =
     [(READY_FOR_INTEGRATION, [INTEGRATING, CANCELLED, COMPLETED]),
      (INTEGRATING, [READY_FOR_INTEGRATION, NEEDS_REVIEW, NEEDS_DECISION]),
      (NEEDS_REVIEW, [READY_FOR_INTEGRATION, NEEDS_DECISION, CANCELLED, COMPLETED, READY]),
      (NEEDS_DECISION, [CANCELLED, COMPLETED]),
      (PAUSED, [CANCELLED, COMPLETED]),
      (CANCELLED, []),
      (COMPLETED, [])]"

definition can_transition :: "string \<Rightarrow> string \<Rightarrow> bool" where
  "can_transition current target \<longleftrightarrow>
     target \<in> set (case map_of INTEGRATION_TRANSITIONS current of None \<Rightarrow> [] | Some ts \<Rightarrow> ts)"

definition validate_transition :: "string \<Rightarrow> string \<Rightarrow> unit result" where
  "validate_transition current target =
     (case map_of INTEGRATION_TRANSITIONS current of
        None \<Rightarrow> Inl ValueError
      | Some allowed \<Rightarrow> if target \<notin> set allowed then Inl ValueError else Inr ())"

section \<open>PR fields\<close>

definition PR_STATE_VALUES :: "string list" where "PR_STATE_VALUES = [''open'', ''closed'']"
definition REVIEW_DECISION_VALUES :: "string list" where
  "REVIEW_DECISION_VALUES = [''none'', ''approved'', ''changes_requested'']"
definition CI_STATUS_VALUES :: "string list" where
  "CI_STATUS_VALUES = [''none'', ''pending'', ''success'', ''failure'']"

record pr_field_spec =
  pf_name :: string
  pf_python_type :: string
  pf_nullable :: bool
  pf_default :: json
  pf_enum :: "string list option"

definition nullable_field :: "string \<Rightarrow> string \<Rightarrow> string list option \<Rightarrow> pr_field_spec" where
  "nullable_field name ty enum =
     \<lparr>pf_name = name, pf_python_type = ty, pf_nullable = True, pf_default = JNull, pf_enum = enum\<rparr>"

definition TICKET_PR_FIELDS :: "pr_field_spec list" where
  "TICKET_PR_FIELDS =
     [nullable_field ''pr_number'' ''int'' None, nullable_field ''pr_url'' ''str'' None,
      nullable_field ''pr_state'' ''str'' (Some PR_STATE_VALUES),
      \<lparr>pf_name = ''pr_merged'', pf_python_type = ''bool'', pf_nullable = False, pf_default = JBool False, pf_enum = None\<rparr>,
      nullable_field ''pr_head_sha'' ''str'' None, nullable_field ''merge_commit_sha'' ''str'' None,
      nullable_field ''review_decision'' ''str'' (Some REVIEW_DECISION_VALUES),
      nullable_field ''ci_status'' ''str'' (Some CI_STATUS_VALUES),
      nullable_field ''integrated_base_sha'' ''str'' None,
      \<lparr>pf_name = ''reintegration_count'', pf_python_type = ''int'', pf_nullable = False, pf_default = JInt 0, pf_enum = None\<rparr>,
      \<lparr>pf_name = ''reintegration_required'', pf_python_type = ''bool'', pf_nullable = False, pf_default = JBool False, pf_enum = None\<rparr>,
      nullable_field ''pr_last_polled_at'' ''datetime'' None]"

definition TICKET_PR_FIELD_NAMES :: "string list" where
  "TICKET_PR_FIELD_NAMES = map pf_name TICKET_PR_FIELDS"

type_synonym fields = "(string \<times> json) list"

definition default_pr_state :: fields where
  "default_pr_state = map (\<lambda>s. (pf_name s, pf_default s)) TICKET_PR_FIELDS"

definition coerce :: "pr_field_spec \<Rightarrow> json \<Rightarrow> json result" where
  "coerce spec v =
     (if v = JNull then (if \<not> pf_nullable spec then Inl ValueError else Inr JNull)
      else if pf_python_type spec = ''bool''
      then (case v of JBool b \<Rightarrow> Inr v | _ \<Rightarrow> Inl ValueError)
      else if pf_python_type spec = ''int''
      then (case v of JInt n \<Rightarrow> Inr v | _ \<Rightarrow> Inl ValueError)
      else (case v of
              JStr s \<Rightarrow>
                let normalized = py_strip s in
                if normalized = [] then Inl ValueError
                else if (case pf_enum spec of None \<Rightarrow> False | Some es \<Rightarrow> normalized \<notin> set es) then Inl ValueError
                else Inr (JStr normalized)
            | _ \<Rightarrow> Inl ValueError))"

definition field_spec :: "string \<Rightarrow> pr_field_spec option" where
  "field_spec name = find (\<lambda>s. pf_name s = name) TICKET_PR_FIELDS"

definition validate_pr_state :: "fields \<Rightarrow> fields result" where
  "validate_pr_state values =
     (if \<not> set (map fst values) \<subseteq> set TICKET_PR_FIELD_NAMES then Inl ValueError
      else map_ok (\<lambda>(name, v). case field_spec name of
              None \<Rightarrow> Inl KeyError
            | Some spec \<Rightarrow> rbind (coerce spec v) (\<lambda>c. Inr (name, c))) values)"

section \<open>Repository identity\<close>

definition repo_char :: "char \<Rightarrow> bool" where
  "repo_char c = (let n = (of_char c :: nat) in
     65 \<le> n \<and> n \<le> 90 \<or> 97 \<le> n \<and> n \<le> 122 \<or> 48 \<le> n \<and> n \<le> 57 \<or> c \<in> {CHR ''_'', CHR ''.'', CHR ''-''})"

definition repo_word :: "string \<Rightarrow> bool" where
  "repo_word w \<longleftrightarrow> w \<noteq> [] \<and> list_all repo_char w"

definition normalize_repo :: "string \<Rightarrow> string result" where
  "normalize_repo repo =
     (let v = py_strip repo in
      case split_on CHR ''/'' v of
        [owner, name] \<Rightarrow> if repo_word owner \<and> repo_word name then Inr (py_lower v) else Inl ValueError
      | _ \<Rightarrow> Inl ValueError)"

definition pr_url_repo_marker :: "string \<Rightarrow> string result" where
  "pr_url_repo_marker repo = rbind (normalize_repo repo) (\<lambda>r. Inr (''/'' @ r @ ''/pull/''))"

text \<open>\<open>_PR_URL_RE\<close>: the words of the URL between slashes, with an optional slash at the end.\<close>

definition repo_from_pr_url :: "string option \<Rightarrow> string option" where
  "repo_from_pr_url pr_url =
     (case pr_url of
        None \<Rightarrow> None
      | Some u \<Rightarrow>
          (case split_on CHR ''/'' (py_strip u) of
             scheme # blank # host # owner # name # pull # number # rest \<Rightarrow>
               if scheme \<in> {''http:'', ''https:''} \<and> blank = [] \<and> host \<noteq> [] \<and> repo_word owner \<and> repo_word name \<and>
                  pull = ''pull'' \<and> number \<noteq> [] \<and> list_all py_isdigit number \<and> rest \<in> {[], [[]]}
               then Some (py_lower (owner @ ''/'' @ name)) else None
           | _ \<Rightarrow> None))"

section \<open>Tables\<close>

record pr_row =
  prs_task_key :: string
  pr_fields :: fields

record integration_state_row =
  is_task_key :: string
  is_fields :: fields
  is_updated_at :: timestamp

record queue_row =
  q_id :: nat
  q_task_key :: string
  q_repo :: string
  q_enqueued_at :: timestamp
  q_source :: string
  q_priority :: "string option"

record lock_row =
  k_repo :: string
  k_owner :: string
  k_acquired_at :: timestamp

record validator_evidence_row =
  ve_task_key :: string
  ve_run_id :: string
  ve_validator :: string
  ve_command :: "string list"
  ve_status :: string
  ve_exit_code :: "int option"
  ve_output :: "string option"
  ve_branch_sha :: "string option"
  ve_target_sha :: "string option"
  ve_diff_context :: "string option"
  ve_created_at :: timestamp

record review_evidence_row =
  re_task_key :: string
  re_pr_number :: "int option"
  re_pr_url :: "string option"
  re_review_decision :: "string option"
  re_reviewer :: "string option"
  re_reviewed_at :: "string option"
  re_reviewed_head_sha :: "string option"
  re_comments :: "json list"
  re_created_at :: timestamp

record conflict_evidence_row =
  cf_task_key :: string
  cf_run_id :: string
  cf_resolver :: string
  cf_resolved :: bool
  cf_conflict_hunks :: "json list"
  cf_explanation :: "string option"
  cf_verification :: "json list option"
  cf_created_at :: timestamp

record integration_db =
  ig_db :: db
  ig_pr :: "pr_row list"
  ig_state :: "integration_state_row list"
  ig_queue :: "queue_row list"
  ig_queue_seq :: nat
  ig_locks :: "lock_row list"
  ig_validator_evidence :: "validator_evidence_row list"
  ig_review_evidence :: "review_evidence_row list"
  ig_conflict_evidence :: "conflict_evidence_row list"

definition require_task :: "string \<Rightarrow> integration_db \<Rightarrow> unit result" where
  "require_task key ig = (if get_task (ig_db ig) key = None then Inl IntegrationStoreError else Inr ())"

definition foreign_key_ok :: "string \<Rightarrow> integration_db \<Rightarrow> unit result" where
  "foreign_key_ok key ig =
     (if get_task (ig_db ig) key = None then Inl (SqlAbort ''FOREIGN KEY constraint failed'') else Inr ())"

section \<open>PR state (integration\_store.py)\<close>

definition BOOL_PR_FIELDS :: "string list" where
  "BOOL_PR_FIELDS = [''pr_merged'', ''reintegration_required'']"

definition PRIVATE_STATE_FIELDS :: "string list" where
  "PRIVATE_STATE_FIELDS =
     [''previous_integrated_base_sha'', ''new_target_sha'', ''behind_count'', ''last_integration_run_id'',
      ''last_integration_status'', ''trigger_task_key'', ''merge_verified_at'', ''closed_unmerged_at'',
      ''cleanup_confirmed_at'', ''pr_poll_consecutive_failures'', ''pr_poll_failure_fingerprint'']"

text \<open>The value of a column; \<open>NULL\<close> when it was never written.\<close>

definition col :: "fields \<Rightarrow> string \<Rightarrow> json" where
  "col fs name = (case map_of fs name of None \<Rightarrow> JNull | Some v \<Rightarrow> v)"

definition dict_update :: "fields \<Rightarrow> fields \<Rightarrow> fields" where
  "dict_update fs new = foldl (\<lambda>acc (k, v). dict_set k v acc) fs new"

definition sql_value :: "string \<Rightarrow> json \<Rightarrow> json" where
  "sql_value name v =
     (if name \<in> set BOOL_PR_FIELDS then (case v of JBool b \<Rightarrow> JInt (if b then 1 else 0) | _ \<Rightarrow> v) else v)"

text \<open>The loop that turns a row into the dict the callers read.\<close>

definition read_pr_row :: "fields \<Rightarrow> fields" where
  "read_pr_row fs =
     map (\<lambda>(name, d).
       (name, if name \<in> set BOOL_PR_FIELDS then JBool (json_truthy (Some (col fs name)))
              else if col fs name \<noteq> JNull then col fs name else d)) default_pr_state"

definition pr_row_of :: "integration_db \<Rightarrow> string \<Rightarrow> pr_row option" where
  "pr_row_of ig key = find (\<lambda>r. prs_task_key r = key) (ig_pr ig)"

definition pr_state_at :: "integration_db \<Rightarrow> string \<Rightarrow> fields" where
  "pr_state_at ig key =
     (case pr_row_of ig key of None \<Rightarrow> default_pr_state | Some r \<Rightarrow> read_pr_row (pr_fields r))"

definition get_pr_state :: "integration_db \<Rightarrow> string \<Rightarrow> fields result" where
  "get_pr_state ig task_key = rbind (normalize_task_key task_key) (\<lambda>key. Inr (pr_state_at ig key))"

definition ensure_pr_row :: "string \<Rightarrow> integration_db \<Rightarrow> integration_db" where
  "ensure_pr_row key ig =
     (if pr_row_of ig key = None then ig\<lparr>ig_pr := ig_pr ig @ [\<lparr>prs_task_key = key, pr_fields = []\<rparr>]\<rparr> else ig)"

definition update_pr_rows :: "string \<Rightarrow> (fields \<Rightarrow> fields) \<Rightarrow> integration_db \<Rightarrow> integration_db" where
  "update_pr_rows key f ig =
     ig\<lparr>ig_pr := map_where (\<lambda>r. prs_task_key r = key) (\<lambda>r. r\<lparr>pr_fields := f (pr_fields r)\<rparr>) (ig_pr ig)\<rparr>"

definition update_state_rows ::
  "timestamp \<Rightarrow> (integration_state_row \<Rightarrow> bool) \<Rightarrow> fields \<Rightarrow> integration_db \<Rightarrow> integration_db" where
  "update_state_rows now p new ig =
     ig\<lparr>ig_state := map_where p
          (\<lambda>r. r\<lparr>is_fields := dict_update (is_fields r) new, is_updated_at := now\<rparr>) (ig_state ig)\<rparr>"

definition POLL_RESET :: fields where
  "POLL_RESET = [(''pr_poll_consecutive_failures'', JNull), (''pr_poll_failure_fingerprint'', JNull)]"

definition reset_poll_failures_on_new_pr ::
  "timestamp \<Rightarrow> string \<Rightarrow> fields \<Rightarrow> integration_db \<Rightarrow> integration_db" where
  "reset_poll_failures_on_new_pr now key stored ig =
     (case map_of stored ''pr_number'' of
        None \<Rightarrow> ig
      | Some number \<Rightarrow>
          if (case pr_row_of ig key of None \<Rightarrow> JNull | Some r \<Rightarrow> col (pr_fields r) ''pr_number'') = number then ig
          else update_state_rows now
                 (\<lambda>r. is_task_key r = key \<and>
                    (col (is_fields r) ''pr_poll_consecutive_failures'' \<noteq> JNull \<or>
                     col (is_fields r) ''pr_poll_failure_fingerprint'' \<noteq> JNull)) POLL_RESET ig)"

definition stored_values :: "fields \<Rightarrow> fields" where
  "stored_values validated = map (\<lambda>(name, v). (name, sql_value name v)) validated"

definition update_pr_state ::
  "timestamp \<Rightarrow> string \<Rightarrow> fields \<Rightarrow> integration_db \<Rightarrow> (integration_db \<times> fields) result" where
  "update_pr_state now task_key values ig =
     rbind (normalize_task_key task_key) (\<lambda>key.
     rbind (validate_pr_state values) (\<lambda>validated.
       if validated = [] then Inr (ig, pr_state_at ig key)
       else
     rbind (require_task key ig) (\<lambda>_.
       let stored = stored_values validated;
           ig' = update_pr_rows key (\<lambda>fs. dict_update fs stored)
                   (reset_poll_failures_on_new_pr now key stored (ensure_pr_row key ig))
       in Inr (ig', pr_state_at ig' key))))"

section \<open>Private state\<close>

definition state_row_of :: "integration_db \<Rightarrow> string \<Rightarrow> integration_state_row option" where
  "state_row_of ig key = find (\<lambda>r. is_task_key r = key) (ig_state ig)"

definition state_at :: "integration_db \<Rightarrow> string \<Rightarrow> fields" where
  "state_at ig key =
     map (\<lambda>name. (name, case state_row_of ig key of None \<Rightarrow> JNull | Some r \<Rightarrow> col (is_fields r) name)) PRIVATE_STATE_FIELDS"

definition get_integration_state :: "integration_db \<Rightarrow> string \<Rightarrow> fields result" where
  "get_integration_state ig task_key = rbind (normalize_task_key task_key) (\<lambda>key. Inr (state_at ig key))"

definition ensure_state_row :: "timestamp \<Rightarrow> string \<Rightarrow> integration_db \<Rightarrow> integration_db" where
  "ensure_state_row now key ig =
     (if state_row_of ig key = None
      then ig\<lparr>ig_state := ig_state ig @ [\<lparr>is_task_key = key, is_fields = [], is_updated_at = now\<rparr>]\<rparr> else ig)"

definition update_integration_state ::
  "timestamp \<Rightarrow> string \<Rightarrow> fields \<Rightarrow> integration_db \<Rightarrow> (integration_db \<times> fields) result" where
  "update_integration_state now task_key values ig =
     rbind (normalize_task_key task_key) (\<lambda>key.
       if \<not> set (map fst values) \<subseteq> set PRIVATE_STATE_FIELDS then Inl ValueError
       else if values = [] then Inr (ig, state_at ig key)
       else
     rbind (require_task key ig) (\<lambda>_.
       let ig' = update_state_rows now (\<lambda>r. is_task_key r = key) values (ensure_state_row now key ig)
       in Inr (ig', state_at ig' key)))"

section \<open>Queue\<close>

definition queued :: "integration_db \<Rightarrow> string \<Rightarrow> bool" where
  "queued ig key \<longleftrightarrow> list_ex (\<lambda>q. q_task_key q = key) (ig_queue ig)"

definition enqueue ::
  "timestamp \<Rightarrow> string \<Rightarrow> string \<Rightarrow> timestamp option \<Rightarrow> string \<Rightarrow> string option \<Rightarrow> integration_db
     \<Rightarrow> integration_db result" where
  "enqueue now task_key repo enqueued_at source priority ig =
     rbind (normalize_task_key task_key) (\<lambda>key.
     rbind (require_task key ig) (\<lambda>_.
       if queued ig key then Inr ig
       else Inr (ig\<lparr>ig_queue := ig_queue ig @
              [\<lparr>q_id = Suc (ig_queue_seq ig), q_task_key = key, q_repo = repo,
                q_enqueued_at = (case enqueued_at of None \<Rightarrow> now | Some t \<Rightarrow> t), q_source = source,
                q_priority = priority\<rparr>],
            ig_queue_seq := Suc (ig_queue_seq ig)\<rparr>)))"

definition list_queue :: "integration_db \<Rightarrow> string \<Rightarrow> queue_row list" where
  "list_queue ig repo =
     sort_key (\<lambda>q. (q_enqueued_at q, q_id q)) (filter (\<lambda>q. q_repo q = repo) (ig_queue ig))"

definition list_queue_repos :: "integration_db \<Rightarrow> (string \<times> string) list" where
  "list_queue_repos ig = map (\<lambda>q. (q_task_key q, q_repo q)) (ig_queue ig)"

definition drop_queue_rows :: "string \<Rightarrow> integration_db \<Rightarrow> integration_db" where
  "drop_queue_rows key ig = ig\<lparr>ig_queue := filter (\<lambda>q. q_task_key q \<noteq> key) (ig_queue ig)\<rparr>"

definition dequeue :: "string \<Rightarrow> integration_db \<Rightarrow> integration_db result" where
  "dequeue task_key ig = rbind (normalize_task_key task_key) (\<lambda>key. Inr (drop_queue_rows key ig))"

definition is_queued :: "integration_db \<Rightarrow> string \<Rightarrow> bool result" where
  "is_queued ig task_key = rbind (normalize_task_key task_key) (\<lambda>key. Inr (queued ig key))"

text \<open>\<open>integration_queue.py\<close>.\<close>

definition queue_for_repo :: "integration_db \<Rightarrow> string \<Rightarrow> queue_row list" where
  "queue_for_repo ig repo = list_queue ig repo"

definition enqueue_for_integration ::
  "timestamp \<Rightarrow> string \<Rightarrow> string \<Rightarrow> timestamp option \<Rightarrow> string \<Rightarrow> string option \<Rightarrow> integration_db
     \<Rightarrow> (integration_db \<times> queue_row) result" where
  "enqueue_for_integration now task_key repo enqueued_at source priority ig =
     rbind (enqueue now task_key repo enqueued_at source priority ig) (\<lambda>ig'.
       case find (\<lambda>q. q_task_key q = task_key) (queue_for_repo ig' repo) of
         None \<Rightarrow> Inl RuntimeError
       | Some q \<Rightarrow> Inr (ig', q))"

definition next_for_repo :: "integration_db \<Rightarrow> string \<Rightarrow> queue_row option" where
  "next_for_repo ig repo = (case queue_for_repo ig repo of [] \<Rightarrow> None | q # _ \<Rightarrow> Some q)"

definition remove_from_queue :: "string \<Rightarrow> integration_db \<Rightarrow> integration_db result" where
  "remove_from_queue task_key ig = dequeue task_key ig"

section \<open>A finished integration\<close>

definition increment_count :: "fields \<Rightarrow> fields" where
  "increment_count fs =
     dict_set ''reintegration_count''
       (JInt ((case col fs ''reintegration_count'' of JInt n \<Rightarrow> n | _ \<Rightarrow> 0) + 1)) fs"

definition record_integration_completed ::
  "timestamp \<Rightarrow> string \<Rightarrow> fields \<Rightarrow> bool \<Rightarrow> fields \<Rightarrow> integration_db \<Rightarrow> (integration_db \<times> fields) result" where
  "record_integration_completed now task_key pr_new increment_reintegration state_fields ig =
     rbind (normalize_task_key task_key) (\<lambda>key.
     rbind (validate_pr_state pr_new) (\<lambda>validated.
       if \<not> set (map fst state_fields) \<subseteq> set PRIVATE_STATE_FIELDS then Inl ValueError
       else
     rbind (require_task key ig) (\<lambda>_.
       let stored = stored_values validated;
           ig = reset_poll_failures_on_new_pr now key stored (ensure_pr_row key ig);
           ig = (if stored \<noteq> [] then update_pr_rows key (\<lambda>fs. dict_update fs stored) ig else ig);
           ig = (if increment_reintegration then update_pr_rows key increment_count ig else ig);
           ig = ensure_state_row now key ig;
           ig = (if state_fields \<noteq> []
                 then update_state_rows now (\<lambda>r. is_task_key r = key) state_fields ig else ig);
           ig = drop_queue_rows key ig
       in Inr (ig, pr_state_at ig key))))"

definition increment_reintegration_count ::
  "string \<Rightarrow> integration_db \<Rightarrow> (integration_db \<times> json) result" where
  "increment_reintegration_count task_key ig =
     rbind (normalize_task_key task_key) (\<lambda>key.
     rbind (require_task key ig) (\<lambda>_.
       let ig' = update_pr_rows key increment_count (ensure_pr_row key ig)
       in Inr (ig', col (pr_state_at ig' key) ''reintegration_count'')))"

section \<open>Pick-up sets\<close>

definition list_pr_states :: "integration_db \<Rightarrow> (string \<times> fields) list result" where
  "list_pr_states ig =
     map_ok (\<lambda>r. rbind (get_pr_state ig (prs_task_key r)) (\<lambda>st. Inr (prs_task_key r, st))) (ig_pr ig)"

definition list_integration_task_keys :: "integration_db \<Rightarrow> string list" where
  "list_integration_task_keys ig =
     sort (remdups (map prs_task_key (ig_pr ig) @ map ve_task_key (ig_validator_evidence ig) @
       map cf_task_key (ig_conflict_evidence ig) @ map is_task_key (ig_state ig)))"

fun col_text :: "json \<Rightarrow> string option" where
  "col_text (JStr s) = Some s"
| "col_text _ = None"

definition url_of_repo :: "string \<Rightarrow> string \<Rightarrow> fields \<Rightarrow> bool" where
  "url_of_repo wanted marker fs \<longleftrightarrow>
     (case col_text (col fs ''pr_url'') of
        None \<Rightarrow> False
      | Some u \<Rightarrow> contains_sub marker (py_lower u) \<and> repo_from_pr_url (Some u) = Some wanted)"

definition rows_by_key :: "integration_db \<Rightarrow> (pr_row \<Rightarrow> bool) \<Rightarrow> (string \<times> fields) list" where
  "rows_by_key ig p =
     map (\<lambda>r. (prs_task_key r, read_pr_row (pr_fields r))) (sort_key prs_task_key (filter p (ig_pr ig)))"

definition list_open_pr_states :: "integration_db \<Rightarrow> string \<Rightarrow> (string \<times> fields) list result" where
  "list_open_pr_states ig repo =
     rbind (normalize_repo repo) (\<lambda>wanted.
     rbind (pr_url_repo_marker wanted) (\<lambda>marker.
       Inr (rows_by_key ig (\<lambda>r. col (pr_fields r) ''pr_number'' \<noteq> JNull \<and>
              col (pr_fields r) ''pr_state'' = JStr ''open'' \<and> url_of_repo wanted marker (pr_fields r)))))"

definition list_merged_unverified_pr_states :: "integration_db \<Rightarrow> string \<Rightarrow> (string \<times> fields) list result" where
  "list_merged_unverified_pr_states ig repo =
     rbind (normalize_repo repo) (\<lambda>wanted.
     rbind (pr_url_repo_marker wanted) (\<lambda>marker.
       Inr (rows_by_key ig (\<lambda>r. col (pr_fields r) ''pr_merged'' = JInt 1 \<and>
              (case state_row_of ig (prs_task_key r) of None \<Rightarrow> True
               | Some i \<Rightarrow> col (is_fields i) ''merge_verified_at'' = JNull) \<and>
              url_of_repo wanted marker (pr_fields r)))))"

section \<open>Lock journal\<close>

definition lock_keys :: "string \<Rightarrow> string list" where
  "lock_keys repo =
     (let raw = py_strip repo in
      case normalize_repo raw of
        Inl _ \<Rightarrow> [raw]
      | Inr normalized \<Rightarrow> if normalized = raw then [normalized] else [normalized, raw])"

definition acquire_integration_lock ::
  "timestamp \<Rightarrow> string \<Rightarrow> string \<Rightarrow> integration_db \<Rightarrow> integration_db \<times> bool" where
  "acquire_integration_lock now repo owner ig =
     (if list_ex (\<lambda>k. k_repo k \<in> set (lock_keys repo)) (ig_locks ig) then (ig, False)
      else (ig\<lparr>ig_locks := ig_locks ig @ [\<lparr>k_repo = hd (lock_keys repo), k_owner = owner, k_acquired_at = now\<rparr>]\<rparr>, True))"

definition release_integration_lock :: "string \<Rightarrow> string \<Rightarrow> integration_db \<Rightarrow> integration_db \<times> bool" where
  "release_integration_lock repo owner ig =
     (let mine = (\<lambda>k. k_repo k \<in> set (lock_keys repo) \<and> k_owner k = owner) in
      (ig\<lparr>ig_locks := filter (\<lambda>k. \<not> mine k) (ig_locks ig)\<rparr>, list_ex mine (ig_locks ig)))"

definition get_integration_lock :: "integration_db \<Rightarrow> string \<Rightarrow> lock_row option" where
  "get_integration_lock ig repo =
     (case sort_key k_repo (filter (\<lambda>k. k_repo k \<in> set (lock_keys repo)) (ig_locks ig)) of
        [] \<Rightarrow> None | k # _ \<Rightarrow> Some k)"

definition clear_integration_lock :: "string \<Rightarrow> integration_db \<Rightarrow> integration_db \<times> lock_row option" where
  "clear_integration_lock repo ig =
     (case get_integration_lock ig repo of
        None \<Rightarrow> (ig, None)
      | Some k \<Rightarrow>
          (ig\<lparr>ig_locks := filter (\<lambda>k. k_repo k \<notin> set (lock_keys repo)) (ig_locks ig)\<rparr>, Some k))"

text \<open>\<open>IntegrationLock\<close>: entering raises when a row is there; leaving clears the owner's row.\<close>

definition with_integration_lock ::
  "timestamp \<Rightarrow> string \<Rightarrow> string \<Rightarrow> (integration_db \<Rightarrow> integration_db \<times> 'a result) \<Rightarrow> integration_db
     \<Rightarrow> integration_db \<times> 'a result" where
  "with_integration_lock now repo owner body ig =
     (case acquire_integration_lock now repo owner ig of
        (ig', False) \<Rightarrow> (ig', Inl IntegrationLockUnavailable)
      | (ig', True) \<Rightarrow>
          (case body ig' of (ig'', r) \<Rightarrow> (fst (release_integration_lock repo owner ig''), r)))"

section \<open>Evidence\<close>

definition record_validator_evidence ::
  "string \<Rightarrow> validator_evidence_row \<Rightarrow> integration_db \<Rightarrow> integration_db result" where
  "record_validator_evidence task_key row ig =
     rbind (normalize_task_key task_key) (\<lambda>key.
     rbind (foreign_key_ok key ig) (\<lambda>_.
       Inr (ig\<lparr>ig_validator_evidence := ig_validator_evidence ig @ [row\<lparr>ve_task_key := key\<rparr>]\<rparr>)))"

definition list_validator_evidence :: "integration_db \<Rightarrow> string \<Rightarrow> validator_evidence_row list result" where
  "list_validator_evidence ig task_key =
     rbind (normalize_task_key task_key) (\<lambda>key.
       Inr (filter (\<lambda>r. ve_task_key r = key) (ig_validator_evidence ig)))"

definition record_review_evidence ::
  "string \<Rightarrow> review_evidence_row \<Rightarrow> integration_db \<Rightarrow> integration_db result" where
  "record_review_evidence task_key row ig =
     rbind (normalize_task_key task_key) (\<lambda>key.
     rbind (foreign_key_ok key ig) (\<lambda>_.
       Inr (ig\<lparr>ig_review_evidence := ig_review_evidence ig @ [row\<lparr>re_task_key := key\<rparr>]\<rparr>)))"

definition list_review_evidence :: "integration_db \<Rightarrow> string \<Rightarrow> review_evidence_row list result" where
  "list_review_evidence ig task_key =
     rbind (normalize_task_key task_key) (\<lambda>key.
       Inr (filter (\<lambda>r. re_task_key r = key) (ig_review_evidence ig)))"

definition record_conflict_evidence ::
  "string \<Rightarrow> conflict_evidence_row \<Rightarrow> integration_db \<Rightarrow> integration_db result" where
  "record_conflict_evidence task_key row ig =
     rbind (normalize_task_key task_key) (\<lambda>key.
     rbind (foreign_key_ok key ig) (\<lambda>_.
       Inr (ig\<lparr>ig_conflict_evidence := ig_conflict_evidence ig @
              [row\<lparr>cf_task_key := key, cf_verification := None\<rparr>]\<rparr>)))"

definition record_conflict_verification ::
  "string \<Rightarrow> string \<Rightarrow> json list \<Rightarrow> integration_db \<Rightarrow> integration_db result" where
  "record_conflict_verification task_key run_id checks ig =
     rbind (normalize_task_key task_key) (\<lambda>key.
       Inr (ig\<lparr>ig_conflict_evidence :=
              map_where (\<lambda>r. cf_task_key r = key \<and> cf_run_id r = run_id)
                (\<lambda>r. r\<lparr>cf_verification := Some checks\<rparr>) (ig_conflict_evidence ig)\<rparr>))"

definition list_conflict_evidence :: "integration_db \<Rightarrow> string \<Rightarrow> conflict_evidence_row list result" where
  "list_conflict_evidence ig task_key =
     rbind (normalize_task_key task_key) (\<lambda>key.
       Inr (filter (\<lambda>r. cf_task_key r = key) (ig_conflict_evidence ig)))"

end
