(* ===== verification/Integration_Queue.thy ===== *)
theory Integration_Queue
  imports Integration_Store
begin

text \<open>
  The order of the per-repository integration queue: an interface of queues in which entries are ranked
  by arrival, its fairness lemma, and the model of \<open>integration_store.py\<close> as an instance.
\<close>

section \<open>Queues ordered by arrival\<close>

locale arrival_queue =
  fixes inv :: "'s \<Rightarrow> bool" and entries :: "'s \<Rightarrow> 'e set" and rank :: "'e \<Rightarrow> 'r::linorder" and stamp :: "'e \<Rightarrow> 't::linorder"
    and who :: "'e \<Rightarrow> 'k" and brings :: "'o \<Rightarrow> 'e \<Rightarrow> bool" and removes :: "'o \<Rightarrow> 'k \<Rightarrow> bool" and step :: "'o \<Rightarrow> 's \<Rightarrow> 's option"
  assumes inv_step: "\<lbrakk>inv s; step x s = Some s'\<rbrakk> \<Longrightarrow> inv s'"
    and arrives: "\<lbrakk>inv s; step x s = Some s'; e \<in> entries s'\<rbrakk> \<Longrightarrow> e \<in> entries s \<or> brings x e"
    and by_stamp: "\<lbrakk>inv s; step x s = Some s'; e \<in> entries s'; e \<notin> entries s; e' \<in> entries s\<rbrakk> \<Longrightarrow> rank e < rank e' \<longleftrightarrow> stamp e < stamp e'"
    and stays: "\<lbrakk>inv s; step x s = Some s'; e \<in> entries s; \<not> removes x (who e)\<rbrakk> \<Longrightarrow> e \<in> entries s'"
begin

definition ahead :: "'s \<Rightarrow> 'e \<Rightarrow> 'e set" where
  "ahead s e = {x \<in> entries s. rank x < rank e}"

lemma ahead_step:
  assumes "inv s" "step x s = Some s'" "e \<in> entries s" "y \<in> ahead s' e"
  shows "y \<in> ahead s e \<or> brings x y \<and> stamp y < stamp e"
  using arrives [OF assms(1,2), of y] by_stamp [OF assms(1,2) _ _ assms(3), of y] assms(4) by (auto simp: ahead_def)

lemma overtaken_by_stamp:
  assumes "inv s" "e \<in> entries s" "\<forall>x \<in> set xs. \<not> removes x (who e)"
  shows "e \<in> entries (run_ops step xs s) \<and>
     (\<forall>y \<in> ahead (run_ops step xs s) e. y \<in> ahead s e \<or> (\<exists>x \<in> set xs. brings x y) \<and> stamp y < stamp e)"
  using assms
proof (induction xs arbitrary: s)
  case (Cons x xs)
  show ?case
  proof (cases "step x s")
    case None
    then show ?thesis using Cons.IH [OF Cons.prems(1,2)] Cons.prems(3) by auto
  next
    case (Some s')
    have "e \<in> entries s'" using stays [OF Cons.prems(1) Some Cons.prems(2)] Cons.prems(3) by simp
    from Cons.IH [OF inv_step [OF Cons.prems(1) Some] this] Cons.prems(3)
    show ?thesis using ahead_step [OF Cons.prems(1) Some Cons.prems(2)] Some by fastforce
  qed
qed simp

end

section \<open>Operations on the queue\<close>

datatype queue_op =
    QEnqueue timestamp string string "timestamp option" string "string option"
  | QDequeue string
  | QComplete timestamp string fields bool fields

fun queue_step :: "queue_op \<Rightarrow> integration_db \<Rightarrow> integration_db option" where
  "queue_step (QEnqueue now task_key repo stamp source priority) ig =
     committed (rbind (enqueue now task_key repo stamp source priority ig) (\<lambda>ig'. Inr (ig', ())))"
| "queue_step (QDequeue task_key) ig = committed (rbind (dequeue task_key ig) (\<lambda>ig'. Inr (ig', ())))"
| "queue_step (QComplete now task_key pr_new inc st) ig = committed (record_integration_completed now task_key pr_new inc st ig)"

text \<open>The entry an enqueue asks for: stamped with the given time, or with the clock.\<close>

fun brought :: "queue_op \<Rightarrow> queue_row \<Rightarrow> bool" where
  "brought (QEnqueue now task_key repo stamp source priority) q =
     (normalize_task_key task_key = Inr (q_task_key q) \<and> q_repo q = repo \<and> q_enqueued_at q = (case stamp of None \<Rightarrow> now | Some t \<Rightarrow> t))"
| "brought _ q = False"

fun takes_out :: "queue_op \<Rightarrow> string \<Rightarrow> bool" where
  "takes_out (QEnqueue _ _ _ _ _ _) k = False"
| "takes_out (QDequeue task_key) k = (normalize_task_key task_key = Inr k)"
| "takes_out (QComplete _ task_key _ _ _) k = (normalize_task_key task_key = Inr k)"

definition queue_wf :: "integration_db \<Rightarrow> bool" where
  "queue_wf ig \<longleftrightarrow> distinct (map q_task_key (ig_queue ig)) \<and> distinct (map q_id (ig_queue ig)) \<and>
     list_all (\<lambda>q. q_id q \<le> ig_queue_seq ig) (ig_queue ig)"

definition queue_rank :: "queue_row \<Rightarrow> timestamp \<times> nat" where
  "queue_rank q = (q_enqueued_at q, q_id q)"

lemma reset_poll_queue [simp]:
  "ig_queue (reset_poll_failures_on_new_pr n k st ig) = ig_queue ig"
  "ig_queue_seq (reset_poll_failures_on_new_pr n k st ig) = ig_queue_seq ig"
  by (simp_all add: reset_poll_failures_on_new_pr_def update_state_rows_def split: option.split)

lemma ensure_rows_queue [simp]:
  "ig_queue (ensure_pr_row k ig) = ig_queue ig" "ig_queue_seq (ensure_pr_row k ig) = ig_queue_seq ig"
  "ig_queue (ensure_state_row n k ig) = ig_queue ig" "ig_queue_seq (ensure_state_row n k ig) = ig_queue_seq ig"
  "ig_queue (update_pr_rows k f ig) = ig_queue ig" "ig_queue_seq (update_pr_rows k f ig) = ig_queue_seq ig"
  "ig_queue (update_state_rows n p new ig) = ig_queue ig" "ig_queue_seq (update_state_rows n p new ig) = ig_queue_seq ig"
  by (simp_all add: ensure_pr_row_def ensure_state_row_def update_pr_rows_def update_state_rows_def)

lemma drop_queue_rows_queue [simp]:
  "ig_queue (drop_queue_rows k ig) = filter (\<lambda>q. q_task_key q \<noteq> k) (ig_queue ig)"
  "ig_queue_seq (drop_queue_rows k ig) = ig_queue_seq ig"
  by (simp_all add: drop_queue_rows_def)

lemma completed_queue:
  assumes "record_integration_completed now task_key pr_new inc st ig = Inr (ig', r)"
  shows "\<exists>key. normalize_task_key task_key = Inr key \<and>
     ig_queue ig' = filter (\<lambda>q. q_task_key q \<noteq> key) (ig_queue ig) \<and> ig_queue_seq ig' = ig_queue_seq ig"
proof -
  obtain key validated where k: "normalize_task_key task_key = Inr key" "validate_pr_state pr_new = Inr validated"
    using assms unfolding record_integration_completed_def by (auto simp: rbind_Inr_iff)
  have "\<exists>d. ig' = drop_queue_rows key d \<and> ig_queue d = ig_queue ig \<and> ig_queue_seq d = ig_queue_seq ig"
    using assms unfolding record_integration_completed_def Let_def k rbind_simps rbind_Inr_iff if_raise_Inr sum.inject prod.inject
    by (elim exE conjE) (rule exI, rule conjI, erule sym, simp)
  then show ?thesis using k by auto
qed

text \<open>Every committed step either appends one new entry or drops the entries of one Ticket.\<close>

lemma queue_step_cases:
  assumes "queue_step x ig = Some ig'"
  obtains (append) now task_key key repo stamp source priority where "x = QEnqueue now task_key repo stamp source priority"
      "normalize_task_key task_key = Inr key"
      "ig_queue ig' = ig_queue ig @ [\<lparr>q_id = Suc (ig_queue_seq ig), q_task_key = key, q_repo = repo,
          q_enqueued_at = (case stamp of None \<Rightarrow> now | Some t \<Rightarrow> t), q_source = source, q_priority = priority\<rparr>]"
      "\<not> queued ig key" "ig_queue_seq ig' = Suc (ig_queue_seq ig)"
    | (drop) key where "\<And>k. k \<noteq> key \<or> takes_out x k" "ig_queue ig' = filter (\<lambda>q. q_task_key q \<noteq> key) (ig_queue ig)"
      "ig_queue_seq ig' = ig_queue_seq ig"
    | (same) "ig' = ig"
proof (cases x)
  case (QEnqueue now task_key repo stamp source priority)
  then show ?thesis
    using assms append same by (auto simp: committed_def enqueue_def rbind_Inr_iff split: sum.splits if_splits)
next
  case (QDequeue task_key)
  then obtain key where "normalize_task_key task_key = Inr key" "ig' = drop_queue_rows key ig"
    using assms by (auto simp: committed_def dequeue_def rbind_Inr_iff split: sum.splits)
  then show ?thesis using drop [of key] QDequeue by auto
next
  case (QComplete now task_key pr_new inc st)
  then obtain r where "record_integration_completed now task_key pr_new inc st ig = Inr (ig', r)"
    using assms by (auto simp: committed_Some)
  from completed_queue [OF this] show ?thesis using drop QComplete by auto
qed

lemma queue_step_wf:
  assumes "queue_wf ig" and "queue_step x ig = Some ig'"
  shows "queue_wf ig'"
  using assms(2)
proof (cases rule: queue_step_cases)
  case (append now task_key key repo stamp source priority)
  have "\<forall>q \<in> set (ig_queue ig). q_task_key q \<noteq> key" using append(4) by (auto simp: queued_def list_ex_iff)
  moreover have "\<forall>q \<in> set (ig_queue ig). q_id q \<le> ig_queue_seq ig" using assms(1) by (simp add: queue_wf_def list_all_iff)
  ultimately show ?thesis using assms(1) append(3,5) by (fastforce simp: queue_wf_def list_all_iff)
next
  case (drop key)
  then show ?thesis using assms(1) by (auto simp: queue_wf_def list_all_iff distinct_map_filter)
next
  case same
  then show ?thesis using assms(1) by simp
qed

interpretation iq: arrival_queue queue_wf "\<lambda>ig. set (ig_queue ig)" queue_rank q_enqueued_at q_task_key brought takes_out queue_step
proof unfold_locales
  fix s s' :: integration_db and x :: queue_op
  show "\<lbrakk>queue_wf s; queue_step x s = Some s'\<rbrakk> \<Longrightarrow> queue_wf s'" by (rule queue_step_wf)
next
  fix s s' :: integration_db and x :: queue_op and e :: queue_row
  assume "queue_step x s = Some s'" "e \<in> set (ig_queue s')"
  then show "e \<in> set (ig_queue s) \<or> brought x e" by (cases rule: queue_step_cases) auto
next
  fix s s' :: integration_db and x :: queue_op and e e' :: queue_row
  assume wf: "queue_wf s" and st: "queue_step x s = Some s'" and e: "e \<in> set (ig_queue s')" "e \<notin> set (ig_queue s)" "e' \<in> set (ig_queue s)"
  have "q_id e' \<le> ig_queue_seq s" using wf e(3) by (simp add: queue_wf_def list_all_iff)
  moreover have "q_id e = Suc (ig_queue_seq s)" using st by (cases rule: queue_step_cases) (use e in auto)
  ultimately show "queue_rank e < queue_rank e' \<longleftrightarrow> q_enqueued_at e < q_enqueued_at e'" by (auto simp: queue_rank_def less_prod_def')
next
  fix s s' :: integration_db and x :: queue_op and e :: queue_row
  assume st: "queue_step x s = Some s'" and e: "e \<in> set (ig_queue s)" "\<not> takes_out x (q_task_key e)"
  show "e \<in> set (ig_queue s')"
    using st by (cases rule: queue_step_cases) (use e in auto)
qed

section \<open>First come, first served\<close>

lemma set_takeWhile_sorted:
  assumes "sorted (map f xs)" and "inj_on f (set xs)" and "distinct xs" and "q \<in> set xs"
  shows "set (takeWhile (\<lambda>x. x \<noteq> q) xs) = {x \<in> set xs. f x < f q}"
proof -
  obtain ys zs where xs: "xs = ys @ q # zs" "q \<notin> set ys" using split_list_first [OF assms(4)] by blast
  have "takeWhile (\<lambda>x. x \<noteq> q) xs = ys" using xs by (auto simp: takeWhile_append2 takeWhile_tail)
  moreover have "\<forall>y \<in> set ys. f y < f q"
  proof
    fix y assume "y \<in> set ys"
    then have "f y \<le> f q" "y \<noteq> q" using assms(1,3) xs by (auto simp: sorted_append)
    moreover have "f y \<noteq> f q" using assms(2) xs \<open>y \<in> set ys\<close> \<open>y \<noteq> q\<close> by (auto simp: inj_on_def)
    ultimately show "f y < f q" by simp
  qed
  moreover have "\<forall>z \<in> set zs. f q \<le> f z" using assms(1) xs by (auto simp: sorted_append)
  ultimately show ?thesis using xs by (auto simp: not_less [symmetric])
qed

lemma waiting_before:
  assumes wf: "queue_wf ig" and q: "q \<in> set (ig_queue ig)"
  shows "set (takeWhile (\<lambda>x. x \<noteq> q) (list_queue ig (q_repo q))) = {x \<in> iq.ahead ig q. q_repo x = q_repo q}"
proof -
  let ?xs = "filter (\<lambda>x. q_repo x = q_repo q) (ig_queue ig)"
  have list: "list_queue ig (q_repo q) = sort_key queue_rank ?xs" by (simp add: list_queue_def queue_rank_def [abs_def])
  have "inj_on q_id (set (ig_queue ig))" "distinct (ig_queue ig)"
    using wf by (auto simp: queue_wf_def distinct_map)
  then have "inj_on queue_rank (set ?xs)" "distinct ?xs" by (auto simp: inj_on_def queue_rank_def)
  then have "set (takeWhile (\<lambda>x. x \<noteq> q) (sort_key queue_rank ?xs)) = {x \<in> set ?xs. queue_rank x < queue_rank q}"
    using set_takeWhile_sorted [of queue_rank "sort_key queue_rank ?xs" q] q by simp
  then show ?thesis by (auto simp: list iq.ahead_def)
qed


definition example_integration_db :: integration_db where
  "example_integration_db =
     \<lparr>ig_db = example_db [example_ticket ''AT-1'' ''ready_for_integration'', example_ticket ''AT-2'' ''ready_for_integration''],
      ig_pr = [], ig_state = [], ig_queue = [\<lparr>q_id = 1, q_task_key = ''AT-1'', q_repo = ''o/r'', q_enqueued_at = 5,
         q_source = ''x'', q_priority = None\<rparr>], ig_queue_seq = 1, ig_locks = [], ig_validator_evidence = [],
      ig_review_evidence = [], ig_conflict_evidence = []\<rparr>"


end
