(* ===== verification/PR_State.thy ===== *)
theory PR_State
  imports Integration_Queue
begin

text \<open>
  Reading back what was written to \<open>task_pr_state\<close> and \<open>task_integration_state\<close>: types,
  defaults, Booleans stored as integers, and the poll-failure counter that belongs to one PR.
\<close>

section \<open>Dicts and columns\<close>

lemma map_of_dict_update:
  "distinct (map fst new) \<Longrightarrow> map_of (dict_update fs new) = map_of fs ++ map_of new"
proof (induction new arbitrary: fs)
  case (Cons kv new)
  then obtain k v where kv: "kv = (k, v)" by (cases kv)
  have "map_of (dict_update fs (kv # new)) = map_of (dict_set k v fs) ++ map_of new"
    using Cons by (simp add: dict_update_def kv)
  moreover have "map_of new k = None" using Cons.prems by (simp add: kv map_of_eq_None_iff)
  ultimately show ?case by (auto simp: map_of_dict_set kv map_add_def fun_eq_iff split: option.split)
qed (simp add: dict_update_def)

lemma col_dict_update:
  "distinct (map fst new) \<Longrightarrow> col (dict_update fs new) name = (case map_of new name of None \<Rightarrow> col fs name | Some v \<Rightarrow> v)"
  by (simp add: col_def map_of_dict_update map_add_def split: option.split)

lemma map_of_map_values: "map_of (map (\<lambda>(k, v). (k, g k v)) xs) k = map_option (g k) (map_of xs k)"
  by (induction xs) auto

section \<open>Field specifications\<close>

lemma pr_specs:
  "list_all (\<lambda>s. (pf_name s \<in> set BOOL_PR_FIELDS \<longleftrightarrow> pf_python_type s = ''bool'') \<and>
     (pf_nullable s \<longrightarrow> pf_default s = JNull) \<and> (pf_python_type s = ''bool'' \<longrightarrow> \<not> pf_nullable s) \<and>
     map_of default_pr_state (pf_name s) = Some (pf_default s) \<and> field_spec (pf_name s) = Some s) TICKET_PR_FIELDS"
  by code_simp

lemma field_spec_facts:
  assumes "field_spec name = Some s"
  shows "pf_name s = name" "name \<in> set BOOL_PR_FIELDS \<longleftrightarrow> pf_python_type s = ''bool''"
    "pf_nullable s \<Longrightarrow> pf_default s = JNull" "pf_python_type s = ''bool'' \<Longrightarrow> \<not> pf_nullable s"
    "map_of default_pr_state name = Some (pf_default s)"
proof -
  have s: "s \<in> set TICKET_PR_FIELDS" "pf_name s = name"
    using assms unfolding field_spec_def by (auto dest: find_Some_set)
  show "pf_name s = name" by (rule s)
  show "name \<in> set BOOL_PR_FIELDS \<longleftrightarrow> pf_python_type s = ''bool''"
    "pf_nullable s \<Longrightarrow> pf_default s = JNull" "pf_python_type s = ''bool'' \<Longrightarrow> \<not> pf_nullable s"
    "map_of default_pr_state name = Some (pf_default s)"
    using pr_specs s unfolding list_all_iff by blast+
qed

lemma field_spec_name: "name \<in> set TICKET_PR_FIELD_NAMES \<longleftrightarrow> (\<exists>s. field_spec name = Some s)"
proof -
  have "field_spec name = None \<longleftrightarrow> name \<notin> set TICKET_PR_FIELD_NAMES"
    by (auto simp: field_spec_def find_None_iff TICKET_PR_FIELD_NAMES_def)
  then show ?thesis by (cases "field_spec name") auto
qed

lemma coerce_types:
  assumes "coerce s v = Inr w"
  shows "w = JNull \<Longrightarrow> pf_nullable s" "pf_python_type s = ''bool'' \<Longrightarrow> w \<noteq> JNull \<Longrightarrow> \<exists>b. w = JBool b"
    "pf_python_type s = ''int'' \<Longrightarrow> w \<noteq> JNull \<Longrightarrow> \<exists>n. w = JInt n"
  using assms by (auto simp: coerce_def Let_def split: json.splits if_splits)

lemma map_ok_list_all2: "map_ok f xs = Inr ys \<longleftrightarrow> list_all2 (\<lambda>x y. f x = Inr y) xs ys"
  by (induction xs arbitrary: ys) (auto simp: rbind_Inr_iff list_all2_Cons1)

lemma validate_pr_state_Inr:
  assumes "validate_pr_state values = Inr vs"
  shows "map fst vs = map fst values"
    "map_of vs name = Some w \<Longrightarrow> \<exists>s v. field_spec name = Some s \<and> coerce s v = Inr w"
proof -
  have all: "list_all2 (\<lambda>(n, v) (n', w). n' = n \<and> (\<exists>s. field_spec n = Some s \<and> coerce s v = Inr w)) values vs"
    using assms unfolding validate_pr_state_def if_raise_Inr map_ok_list_all2
    by (auto simp: rbind_Inr_iff elim!: list_all2_mono split: option.splits)
  show "map fst vs = map fst values" using all by (induction rule: list_all2_induct) auto
  show "map_of vs name = Some w \<Longrightarrow> \<exists>s v. field_spec name = Some s \<and> coerce s v = Inr w"
    using all by (induction rule: list_all2_induct) (auto split: if_splits)
qed

section \<open>Rows\<close>

lemma pr_row_of_update [simp]:
  "pr_row_of (update_pr_rows key f ig) k =
     (if k = key then map_option (\<lambda>r. r\<lparr>pr_fields := f (pr_fields r)\<rparr>) (pr_row_of ig k) else pr_row_of ig k)"
  by (simp add: pr_row_of_def update_pr_rows_def find_map_where_same find_map_where_other)

lemma pr_row_of_ensure [simp]:
  "pr_row_of (ensure_pr_row key ig) k =
     (if k = key then Some (case pr_row_of ig key of None \<Rightarrow> \<lparr>prs_task_key = key, pr_fields = []\<rparr> | Some r \<Rightarrow> r)
      else pr_row_of ig k)"
  by (auto simp: pr_row_of_def ensure_pr_row_def find_append split: option.split)

lemma pr_row_of_reset [simp]: "pr_row_of (reset_poll_failures_on_new_pr n k st ig) = pr_row_of ig"
  by (simp add: fun_eq_iff pr_row_of_def reset_poll_failures_on_new_pr_def update_state_rows_def split: option.split)

lemma read_pr_row_Nil: "read_pr_row [] = default_pr_state"
  by code_simp

lemma pr_state_at_fields:
  "pr_state_at ig k = read_pr_row (case pr_row_of ig k of None \<Rightarrow> [] | Some r \<Rightarrow> pr_fields r)"
  by (simp add: pr_state_at_def read_pr_row_Nil split: option.split)

lemma col_read_pr_row:
  assumes "field_spec name = Some s"
  shows "col (read_pr_row fs) name =
     (if pf_python_type s = ''bool'' then JBool (json_truthy (Some (col fs name)))
      else if col fs name \<noteq> JNull then col fs name else pf_default s)"
  using field_spec_facts [OF assms] unfolding read_pr_row_def
  by (simp add: col_def [of "map _ _"] map_of_map_values)

lemma find_map_where_cond:
  assumes "\<And>x. k (f x) = k x"
  shows "find (\<lambda>x. k x = b) (map_where (\<lambda>x. k x = a \<and> c x) f xs) =
     (if b = a then map_option (\<lambda>x. if c x then f x else x) (find (\<lambda>x. k x = b) xs) else find (\<lambda>x. k x = b) xs)"
  using assms by (induction xs) auto

lemma state_row_of_update:
  "state_row_of (update_state_rows now (\<lambda>r. is_task_key r = key \<and> c r) new ig) k =
     (if k = key
      then map_option (\<lambda>r. if c r then r\<lparr>is_fields := dict_update (is_fields r) new, is_updated_at := now\<rparr> else r)
             (state_row_of ig k)
      else state_row_of ig k)"
  by (simp add: state_row_of_def update_state_rows_def find_map_where_cond)

lemma state_row_of_frame [simp]:
  "state_row_of (update_pr_rows key f ig) = state_row_of ig" "state_row_of (ensure_pr_row key ig) = state_row_of ig"
  "state_row_of (drop_queue_rows key ig) = state_row_of ig"
  by (simp_all add: fun_eq_iff state_row_of_def update_pr_rows_def ensure_pr_row_def drop_queue_rows_def)

lemma col_state_at:
  "name \<in> set PRIVATE_STATE_FIELDS \<Longrightarrow>
     col (state_at ig k) name = (case state_row_of ig k of None \<Rightarrow> JNull | Some r \<Rightarrow> col (is_fields r) name)"
  by (simp add: state_at_def col_def map_of_map_restrict restrict_map_def)

text \<open>The poll counter after a write of \<open>stored\<close>.\<close>

lemma poll_counter_reset:
  assumes "name \<in> {''pr_poll_consecutive_failures'', ''pr_poll_failure_fingerprint''}"
  shows "col (state_at (reset_poll_failures_on_new_pr now key stored ig) key) name =
     (case map_of stored ''pr_number'' of
        None \<Rightarrow> col (state_at ig key) name
      | Some n \<Rightarrow>
          if n = (case pr_row_of ig key of None \<Rightarrow> JNull | Some r \<Rightarrow> col (pr_fields r) ''pr_number'')
          then col (state_at ig key) name else JNull)"
proof -
  have names: "name \<in> set PRIVATE_STATE_FIELDS" using assms by (auto simp: PRIVATE_STATE_FIELDS_def)
  have d: "distinct (map fst POLL_RESET)" by (simp add: POLL_RESET_def)
  have reset: "col (dict_update fs POLL_RESET) name = JNull" for fs
    unfolding col_dict_update [OF d] using assms by (auto simp: POLL_RESET_def)
  show ?thesis
    using assms
    by (auto simp: reset_poll_failures_on_new_pr_def col_state_at names state_row_of_update reset split: option.split)
qed

lemma col_absent: "name \<notin> set names \<Longrightarrow> col (map (\<lambda>n. (n, f n)) names) name = JNull"
  by (induction names) (auto simp: col_def)

lemma poll_reset_keeps:
  assumes "name \<notin> {''pr_poll_consecutive_failures'', ''pr_poll_failure_fingerprint''}"
  shows "col (state_at (reset_poll_failures_on_new_pr now key stored ig) key) name = col (state_at ig key) name"
proof -
  have d: "distinct (map fst POLL_RESET)" by (simp add: POLL_RESET_def)
  have keep: "col (dict_update fs POLL_RESET) name = col fs name" for fs
    unfolding col_dict_update [OF d] using assms by (auto simp: POLL_RESET_def)
  have same: "col (state_at (update_state_rows now (\<lambda>r. is_task_key r = key \<and> P r) POLL_RESET ig) key) name = col (state_at ig key) name" for P
  proof (cases "name \<in> set PRIVATE_STATE_FIELDS")
    case True
    then show ?thesis by (auto simp: col_state_at state_row_of_update keep split: option.split)
  next
    case False
    then have "col (state_at d key) name = JNull" for d
      unfolding state_at_def by (rule col_absent)
    then show ?thesis by simp
  qed
  show ?thesis unfolding reset_poll_failures_on_new_pr_def by (simp add: same split: option.split)
qed

lemma filter_map_where_other:
  "(\<And>x. P x \<Longrightarrow> \<not> Q x \<and> \<not> Q (f x)) \<Longrightarrow> filter Q (map_where P f xs) = filter Q xs"
  by (induction xs) (auto simp: map_where_def)

section \<open>Writing PR fields\<close>

lemma map_of_stored: "map_of (stored_values vs) name = map_option (sql_value name) (map_of vs name)"
  unfolding stored_values_def by (rule map_of_map_values)

lemma stored_read_back:
  assumes spec: "field_spec name = Some s" and c: "coerce s v = Inr w"
    and f: "col fs name = sql_value name w"
  shows "col (read_pr_row fs) name = w"
proof (cases "pf_python_type s = ''bool''")
  case True
  then obtain b where "w = JBool b" using coerce_types [OF c] field_spec_facts [OF spec] by blast
  then show ?thesis using True field_spec_facts(2) [OF spec] by (simp add: col_read_pr_row [OF spec] f sql_value_def)
next
  case False
  then show ?thesis
    using coerce_types(1) [OF c] field_spec_facts(2,3) [OF spec] by (auto simp: col_read_pr_row [OF spec] f sql_value_def)
qed

lemma pr_number_column: "col (read_pr_row fs) ''pr_number'' = col fs ''pr_number''"
proof -
  have spec: "field_spec ''pr_number'' = Some (nullable_field ''pr_number'' ''int'' None)" by code_simp
  show ?thesis by (simp add: col_read_pr_row [OF spec] nullable_field_def)
qed

text \<open>The statements of an update touch only the two tables, and there only rows of the key.\<close>

lemma pr_update_frame:
  fixes key now vs ig f
  defines "ig' \<equiv> update_pr_rows key f (reset_poll_failures_on_new_pr now key vs (ensure_pr_row key ig))"
  shows "ig' = ig\<lparr>ig_pr := ig_pr ig', ig_state := ig_state ig'\<rparr>"
    "filter (\<lambda>r. prs_task_key r \<noteq> key) (ig_pr ig') = filter (\<lambda>r. prs_task_key r \<noteq> key) (ig_pr ig)"
    "filter (\<lambda>r. is_task_key r \<noteq> key) (ig_state ig') = filter (\<lambda>r. is_task_key r \<noteq> key) (ig_state ig)"
proof -
  note defs = ig'_def update_pr_rows_def reset_poll_failures_on_new_pr_def update_state_rows_def ensure_pr_row_def
  show "ig' = ig\<lparr>ig_pr := ig_pr ig', ig_state := ig_state ig'\<rparr>" by (simp add: defs split: option.split)
  show "filter (\<lambda>r. prs_task_key r \<noteq> key) (ig_pr ig') = filter (\<lambda>r. prs_task_key r \<noteq> key) (ig_pr ig)"
    by (simp add: defs filter_map_where_other split: option.split)
  have "ig_state ig' = ig_state (reset_poll_failures_on_new_pr now key vs (ensure_pr_row key ig))"
    "ig_state (ensure_pr_row key ig) = ig_state ig" by (simp_all add: ig'_def update_pr_rows_def ensure_pr_row_def)
  then show "filter (\<lambda>r. is_task_key r \<noteq> key) (ig_state ig') = filter (\<lambda>r. is_task_key r \<noteq> key) (ig_state ig)"
    by (auto simp: reset_poll_failures_on_new_pr_def update_state_rows_def intro!: filter_map_where_other split: option.split)
qed



end
