(* ===== verification/Integration_Action.thy ===== *)
theory Integration_Action
  imports PR_State Ticket_Retry
begin

text \<open>
  Programs of several transactions. The integration side commits each store call on its own, so an
  exception leaves what was committed before it in place. An action maps a state to the state it leaves
  and its result or exception; a transaction that raises changes nothing.
\<close>

section \<open>Actions\<close>

type_synonym ('s, 'a) prog = "'s \<Rightarrow> 's \<times> 'a result"

type_synonym 'a act = "(integration_db, 'a) prog"

definition areturn :: "'a \<Rightarrow> ('s, 'a) prog" where
  "areturn x s = (s, Inr x)"

definition abind :: "('s, 'a) prog \<Rightarrow> ('a \<Rightarrow> ('s, 'b) prog) \<Rightarrow> ('s, 'b) prog" where
  "abind m f s = (case m s of (s', Inl e) \<Rightarrow> (s', Inl e) | (s', Inr x) \<Rightarrow> f x s')"

definition aget :: "('s \<Rightarrow> 'a result) \<Rightarrow> ('s, 'a) prog" where
  "aget f s = (s, f s)"

definition araise :: "exn \<Rightarrow> ('s, 'a) prog" where
  "araise e s = (s, Inl e)"

text \<open>\<open>try: m except ...: h\<close>; the handler decides which exceptions it takes.\<close>

definition acatch :: "('s, 'a) prog \<Rightarrow> (exn \<Rightarrow> ('s, 'a) prog) \<Rightarrow> ('s, 'a) prog" where
  "acatch m h s = (case m s of (s', Inl e) \<Rightarrow> h e s' | (s', Inr x) \<Rightarrow> (s', Inr x))"

text \<open>\<open>try: m finally: f\<close>; an exception of the final part replaces the outcome.\<close>

definition afinally :: "('s, 'a) prog \<Rightarrow> ('s, unit) prog \<Rightarrow> ('s, 'a) prog" where
  "afinally m f s = (case m s of (s', r) \<Rightarrow> case f s' of (s'', Inl e) \<Rightarrow> (s'', Inl e) | (s'', Inr _) \<Rightarrow> (s'', r))"

text \<open>One transaction on the integration tables, and one on the shared tables.\<close>

definition atx :: "(integration_db \<Rightarrow> (integration_db \<times> 'a) result) \<Rightarrow> 'a act" where
  "atx t s = (case t s of Inl e \<Rightarrow> (s, Inl e) | Inr (s', x) \<Rightarrow> (s', Inr x))"

definition atx_unit :: "(integration_db \<Rightarrow> integration_db result) \<Rightarrow> unit act" where
  "atx_unit t s = (case t s of Inl e \<Rightarrow> (s, Inl e) | Inr s' \<Rightarrow> (s', Inr ()))"

definition adb :: "(db \<Rightarrow> db result) \<Rightarrow> unit act" where
  "adb t s = (case t (ig_db s) of Inl e \<Rightarrow> (s, Inl e) | Inr d \<Rightarrow> (s\<lparr>ig_db := d\<rparr>, Inr ()))"

definition awhen :: "bool \<Rightarrow> ('s, unit) prog \<Rightarrow> ('s, unit) prog" where
  "awhen b m = (if b then m else areturn ())"

fun afor :: "('x \<Rightarrow> ('s, 'y) prog) \<Rightarrow> 'x list \<Rightarrow> ('s, 'y list) prog" where
  "afor f [] = areturn []"
| "afor f (x # xs) = abind (f x) (\<lambda>y. abind (afor f xs) (\<lambda>ys. areturn (y # ys)))"

section \<open>What an action leaves alone\<close>

locale frame_relation =
  fixes R :: "'s \<Rightarrow> 's \<Rightarrow> bool"
  assumes refl: "R s s" and trans: "\<lbrakk>R s t; R t u\<rbrakk> \<Longrightarrow> R s u"
begin

definition framed :: "('s, 'a) prog \<Rightarrow> bool" where
  "framed m \<longleftrightarrow> (\<forall>s. R s (fst (m s)))"

lemma framedD: "framed m \<Longrightarrow> m s = (s', r) \<Longrightarrow> R s s'"
  unfolding framed_def by (metis fst_conv)

lemma framed_return: "framed (areturn x)"
  by (simp add: framed_def areturn_def refl)

lemma framed_get: "framed (aget f)"
  by (simp add: framed_def aget_def refl)

lemma framed_bind:
  assumes "framed m" "\<And>x. framed (f x)"
  shows "framed (abind m f)"
  unfolding framed_def
proof
  fix s
  obtain s' r where m: "m s = (s', r)" by (cases "m s")
  have step: "R s s'" using framedD [OF assms(1) m] .
  show "R s (fst (abind m f s))"
  proof (cases r)
    case (Inl e)
    then show ?thesis using step by (simp add: abind_def m)
  next
    case (Inr x)
    have "R s' (fst (f x s'))" using assms(2) by (simp add: framed_def)
    then show ?thesis using step trans Inr by (auto simp: abind_def m)
  qed
qed

lemma framed_when: "(b \<Longrightarrow> framed m) \<Longrightarrow> framed (awhen b m)"
  by (simp add: awhen_def framed_return)

lemma framed_for: "(\<And>x. x \<in> set xs \<Longrightarrow> framed (f x)) \<Longrightarrow> framed (afor f xs)"
  by (induction xs) (auto intro!: framed_bind framed_return)

lemma framed_if: "\<lbrakk>b \<Longrightarrow> framed m; \<not> b \<Longrightarrow> framed n\<rbrakk> \<Longrightarrow> framed (if b then m else n)"
  by simp

lemma framed_raise: "framed (araise e)"
  by (simp add: framed_def araise_def refl)

lemma framed_catch:
  assumes "framed m" "\<And>e. framed (h e)"
  shows "framed (acatch m h)"
  unfolding framed_def
proof
  fix s
  obtain s' r where m: "m s = (s', r)" by (cases "m s")
  have step: "R s s'" using framedD [OF assms(1) m] .
  show "R s (fst (acatch m h s))"
    using step trans [OF step] assms(2) by (cases r) (auto simp: acatch_def m framed_def)
qed

lemma framed_finally:
  assumes "framed m" "framed f"
  shows "framed (afinally m f)"
  unfolding framed_def
proof
  fix s
  obtain s' r where m: "m s = (s', r)" by (cases "m s")
  obtain s'' q where f: "f s' = (s'', q)" by (cases "f s'")
  have "R s s''" using trans [OF framedD [OF assms(1) m] framedD [OF assms(2) f]] .
  then show "R s (fst (afinally m f s))" by (simp add: afinally_def m f split: sum.split)
qed

lemmas framed_rules = framed_return framed_get framed_bind framed_when framed_if framed_raise framed_catch framed_finally

end

text \<open>Frames on the integration tables alone.\<close>

locale table_frame = frame_relation R for R :: "integration_db \<Rightarrow> integration_db \<Rightarrow> bool"
begin

lemma framed_tx: "(\<And>s s' x. t s = Inr (s', x) \<Longrightarrow> R s s') \<Longrightarrow> framed (atx t)"
  by (auto simp: framed_def atx_def refl split: sum.split)

lemma framed_tx_unit: "(\<And>s s'. t s = Inr s' \<Longrightarrow> R s s') \<Longrightarrow> framed (atx_unit t)"
  by (auto simp: framed_def atx_unit_def refl split: sum.split)

lemma framed_db: "(\<And>s d. t (ig_db s) = Inr d \<Longrightarrow> R s (s\<lparr>ig_db := d\<rparr>)) \<Longrightarrow> framed (adb t)"
  by (auto simp: framed_def adb_def refl split: sum.split)

end

section \<open>Everything the integration side keeps about a Ticket\<close>

record ticket_view =
  tv_task :: "task_row option"
  tv_pr :: fields
  tv_state :: fields
  tv_queue :: "queue_row list"
  tv_worktree :: "worktree_row list"
  tv_review :: "review_evidence_row list"

definition view :: "integration_db \<Rightarrow> string \<Rightarrow> ticket_view" where
  "view ig k =
     \<lparr>tv_task = get_task (ig_db ig) k, tv_pr = pr_state_at ig k, tv_state = state_at ig k,
      tv_queue = filter (\<lambda>q. q_task_key q = k) (ig_queue ig),
      tv_worktree = filter (\<lambda>w. w_task_key w = k) (db_worktrees (ig_db ig)),
      tv_review = filter (\<lambda>r. re_task_key r = k) (ig_review_evidence ig)\<rparr>"

text \<open>Only the Ticket \<open>k\<close> is touched.\<close>

definition only_ticket :: "string \<Rightarrow> integration_db \<Rightarrow> integration_db \<Rightarrow> bool" where
  "only_ticket k ig ig' \<longleftrightarrow> (\<forall>k'. k' \<noteq> k \<longrightarrow> view ig' k' = view ig k')"

interpretation ot: table_frame "only_ticket k" for k
  by unfold_locales (simp_all add: only_ticket_def)

end
