(* ===== verification/GitHub_Adapter.thy ===== *)
theory GitHub_Adapter
  imports Integration_Action
begin

text \<open>
  \<open>github_pr_adapter.py\<close>: the guards every \<open>gh\<close> command passes before it runs, the
  commands the adapter builds, and the normalisation of what \<open>gh pr view\<close> prints.

  Running a command is an argument: its exit code and output, or the exception it raised. JSON text is
  parsed outside; a payload is a \<open>json\<close> object.
\<close>

section \<open>Text\<close>

text \<open>
  \<open>str.upper\<close>; the letters 181 and 255 have a capital outside these characters and are kept, which
  no comparison with an ASCII word notices.
\<close>

definition py_upper :: "string \<Rightarrow> string" where
  "py_upper s = concat (map (\<lambda>c. let n = (of_char c :: nat) in
     if n = 223 then ''SS''
     else if 97 \<le> n \<and> n \<le> 122 \<or> 224 \<le> n \<and> n \<le> 254 \<and> n \<noteq> 247 then [char_of (n - 32)] else [c]) s)"

text \<open>\<open>str(v)\<close> of a value GitHub sends (for lists and objects only the JSON text).\<close>

fun py_str :: "json \<Rightarrow> string" where
  "py_str (JStr s) = s"
| "py_str JNull = ''None''"
| "py_str (JBool b) = (if b then ''True'' else ''False'')"
| "py_str v = json_dumps v"

text \<open>\<open>entry.get(k1) or entry.get(k2) or ... or ""\<close> as text.\<close>

definition first_text :: "json \<Rightarrow> string list \<Rightarrow> string" where
  "first_text entry keys =
     (case find (\<lambda>k. json_truthy (json_get entry k)) keys of
        None \<Rightarrow> [] | Some k \<Rightarrow> py_str (the (json_get entry k)))"

definition newline :: string where "newline = [char_of (10 :: nat)]"

text \<open>\<open>s.partition(sep)\<close>: the text before the separator, whether it occurs, and the text after it.\<close>

definition partition_on :: "char \<Rightarrow> string \<Rightarrow> string \<times> bool \<times> string" where
  "partition_on c s = (let w = takeWhile (\<lambda>x. x \<noteq> c) s in (w, c \<in> set s, drop (Suc (length w)) s))"

text \<open>\<open>PurePosixPath(token).name\<close>.\<close>

definition path_name :: "string \<Rightarrow> string" where
  "path_name s = (case rev (path_parts (parse_path s)) of [] \<Rightarrow> [] | w # _ \<Rightarrow> w)"

definition int_str :: "int \<Rightarrow> string" where
  "int_str n = (if n < 0 then CHR ''-'' # decimal (nat (- n)) else decimal (nat n))"

definition ends_with :: "string \<Rightarrow> string \<Rightarrow> bool" where
  "ends_with p s \<longleftrightarrow> starts_with (rev p) (rev s)"

section \<open>Parsing a command line\<close>

definition GH_GLOBAL_VALUE_FLAGS :: "string list" where
  "GH_GLOBAL_VALUE_FLAGS = [''-R'', ''--repo'', ''--hostname'']"
definition GIT_GLOBAL_VALUE_FLAGS :: "string list" where
  "GIT_GLOBAL_VALUE_FLAGS = [''-C'', ''-c'', ''--git-dir'', ''--work-tree'', ''--namespace'', ''--config-env'',
     ''--exec-path'', ''--super-prefix'']"
definition GH_API_FIELD_FLAGS :: "string list" where
  "GH_API_FIELD_FLAGS = [''-f'', ''-F'', ''--field'', ''--raw-field'', ''--input'']"
definition GH_API_METHOD_FLAGS :: "string list" where
  "GH_API_METHOD_FLAGS = [''-X'', ''--method'']"
definition GH_API_UPDATE_FIELDS :: "string list" where
  "GH_API_UPDATE_FIELDS = [''title'', ''body'']"

fun executable_index :: "string list \<Rightarrow> string \<Rightarrow> nat option" where
  "executable_index [] name = None"
| "executable_index (t # ts) name = (if path_name t = name then Some 0 else map_option Suc (executable_index ts name))"

fun positionals_loop :: "string list \<Rightarrow> bool \<Rightarrow> string list \<Rightarrow> string list" where
  "positionals_loop flags skip_next [] = []"
| "positionals_loop flags skip_next (t # ts) =
     (if skip_next then positionals_loop flags False ts
      else if t \<in> set flags then positionals_loop flags True ts
      else if starts_with ''-'' t then positionals_loop flags False ts
      else t # positionals_loop flags False ts)"

definition positionals :: "string list \<Rightarrow> string list \<Rightarrow> string list" where
  "positionals tokens value_flags = positionals_loop value_flags False tokens"

text \<open>The scan of a \<open>gh api\<close> command for its method and endpoints; field values are skipped.\<close>

function api_scan :: "string option \<Rightarrow> string list \<Rightarrow> string list \<Rightarrow> string option \<times> string list" where
  "api_scan method endpoints [] = (method, endpoints)"
| "api_scan method endpoints (t # ts) =
     (case partition_on CHR ''='' t of (flag, separator, inline) \<Rightarrow>
        if flag \<in> set GH_API_METHOD_FLAGS
        then (if separator then api_scan (Some inline) endpoints ts
              else api_scan (case ts of [] \<Rightarrow> method | v # _ \<Rightarrow> Some v) endpoints (drop 1 ts))
        else if flag \<in> set GH_API_FIELD_FLAGS
        then api_scan method endpoints (if separator then ts else drop 1 ts)
        else if starts_with ''-'' t then api_scan method endpoints ts
        else api_scan method (endpoints @ [t]) ts)"
  by pat_completeness auto
termination api_scan
  by (relation "measure (\<lambda>(m, e, ts). length ts)") auto

declare api_scan.simps [simp del]

definition gh_api_method_and_endpoints :: "string list \<Rightarrow> string option \<times> string list" where
  "gh_api_method_and_endpoints tokens = api_scan None [] (if take 1 tokens = [''api''] then drop 1 tokens else tokens)"

section \<open>The merge guard\<close>

text \<open>
  The three endpoint patterns, matched at the end of the text: an optional slash, and a final newline
  that \<open>$\<close> ignores, are cut off first.
\<close>

definition end_variants :: "string \<Rightarrow> string list" where
  "end_variants s =
     (let cut = (\<lambda>c s. if s \<noteq> [] \<and> last s = c then [s, butlast s] else [s])
      in concat (map (cut CHR ''/'') (cut (char_of (10 :: nat)) s)))"

definition whole_segment :: "string \<Rightarrow> string \<Rightarrow> bool" where
  "whole_segment w s \<longleftrightarrow> s = w \<or> ends_with (CHR ''/'' # w) s"

definition API_PR_MERGE_RE :: "string \<Rightarrow> bool" where
  "API_PR_MERGE_RE s \<longleftrightarrow> list_ex (\<lambda>v.
     ends_with ''/merge'' v \<and>
     (let rest = rev (drop 6 (rev v)); digits = takeWhile py_isdigit (rev rest); before = rev (drop (length digits) (rev rest))
      in digits \<noteq> [] \<and> whole_segment ''pulls/'' before)) (end_variants s)"

definition API_BRANCH_MERGE_RE :: "string \<Rightarrow> bool" where
  "API_BRANCH_MERGE_RE s \<longleftrightarrow> list_ex (whole_segment ''merges'') (end_variants s)"

definition API_GRAPHQL_RE :: "string \<Rightarrow> bool" where
  "API_GRAPHQL_RE s \<longleftrightarrow> list_ex (whole_segment ''graphql'') (end_variants s)"

definition merge_vector :: "string \<Rightarrow> bool" where
  "merge_vector s \<longleftrightarrow> API_PR_MERGE_RE s \<or> API_BRANCH_MERGE_RE s \<or> API_GRAPHQL_RE s"

fun adjacent :: "'a \<Rightarrow> 'a \<Rightarrow> 'a list \<Rightarrow> bool" where
  "adjacent a b (x # y # xs) = (x = a \<and> y = b \<or> adjacent a b (y # xs))"
| "adjacent a b _ = False"

definition assert_not_a_merge_command :: "string list \<Rightarrow> unit result" where
  "assert_not_a_merge_command tokens =
     (if (case executable_index tokens ''gh'' of
            None \<Rightarrow> False
          | Some gh \<Rightarrow>
              let rest = drop (Suc gh) tokens; ps = positionals rest GH_GLOBAL_VALUE_FLAGS in
              adjacent ''pr'' ''merge'' ps \<or>
              take 1 ps = [''api''] \<and>
              (case gh_api_method_and_endpoints rest of (method, endpoints) \<Rightarrow>
                 list_ex merge_vector (endpoints @ (case method of None \<Rightarrow> [] | Some m \<Rightarrow> [m])))) \<or>
         (case executable_index tokens ''git'' of
            None \<Rightarrow> False
          | Some git \<Rightarrow>
              let ps = positionals (drop (Suc git) tokens) GIT_GLOBAL_VALUE_FLAGS in
              take 1 ps = [''merge''] \<or>
              take 1 ps = [''push''] \<and> list_ex (\<lambda>t. CHR '':'' \<in> set t) (drop 1 ps))
      then Inl GitHubPrError else Inr ())"

section \<open>The allowlist of gh api\<close>

text \<open>The loop over the arguments after \<open>api\<close>: method, endpoint and field names, or a refusal.\<close>

fun api_args ::
  "string option \<Rightarrow> string option \<Rightarrow> string list \<Rightarrow> string list
     \<Rightarrow> (string option \<times> string option \<times> string list) result" where
  "api_args method endpoint fs [] = Inr (method, endpoint, fs)"
| "api_args method endpoint fs [t] =
     (if t \<in> {''-X'', ''-f''} then Inl GitHubPrError
      else if starts_with ''-'' t then Inl GitHubPrError
      else if endpoint \<noteq> None then Inl GitHubPrError
      else Inr (method, Some t, fs))"
| "api_args method endpoint fs (t # v # ts) =
     (if t = ''-X'' then (if method \<noteq> None then Inl GitHubPrError else api_args (Some v) endpoint fs ts)
      else if t = ''-f''
      then (case partition_on CHR ''='' v of (key, separator, _) \<Rightarrow>
              if \<not> separator \<or> key \<notin> set GH_API_UPDATE_FIELDS then Inl GitHubPrError
              else if key \<in> set fs then Inl GitHubPrError
              else api_args method endpoint (fs @ [key]) ts)
      else if starts_with ''-'' t then Inl GitHubPrError
      else if endpoint \<noteq> None then Inl GitHubPrError
      else api_args method (Some t) fs (v # ts))"

definition own_pull :: "string \<Rightarrow> string \<Rightarrow> string \<Rightarrow> bool" where
  "own_pull owner name endpoint \<longleftrightarrow>
     (let prefix = ''repos/'' @ owner @ ''/'' @ name @ ''/pulls/''; number = drop (length prefix) endpoint in
      starts_with prefix endpoint \<and> number \<noteq> [] \<and> list_all py_isdigit number \<and> hd number \<noteq> CHR ''0'')"

definition is_gh_api :: "string list \<Rightarrow> nat \<Rightarrow> bool" where
  "is_gh_api tokens gh \<longleftrightarrow>
     executable_index tokens ''gh'' = Some gh \<and>
     take 1 (positionals (drop (Suc gh) tokens) GH_GLOBAL_VALUE_FLAGS) = [''api'']"

definition assert_gh_api_allowed :: "string list \<Rightarrow> string \<Rightarrow> unit result" where
  "assert_gh_api_allowed tokens repo =
     (case executable_index tokens ''gh'' of
        None \<Rightarrow> Inr ()
      | Some gh \<Rightarrow>
          if \<not> is_gh_api tokens gh then Inr ()
          else
            (case partition_on CHR ''/'' (py_strip repo) of (owner, _, name) \<Rightarrow>
               if owner = [] \<or> name = [] \<or> CHR ''/'' \<in> set name then Inl GitHubPrError
               else if tokens ! Suc gh \<noteq> ''api'' then Inl GitHubPrError
               else
             rbind (api_args None None [] (drop (Suc (Suc gh)) tokens)) (\<lambda>(method, endpoint, fs).
               if method \<noteq> Some ''PATCH'' then Inl GitHubPrError
               else if (case endpoint of None \<Rightarrow> True | Some e \<Rightarrow> \<not> own_pull owner name e) then Inl GitHubPrError
               else if fs = [] then Inl GitHubPrError
               else Inr ())))"

section \<open>The commands of the adapter\<close>

text \<open>A runner executes a command on some state: it gives the exit code and standard output, or raises.\<close>

type_synonym 's runner = "string list \<Rightarrow> ('s, int \<times> string) prog"

definition run_gh :: "'s runner \<Rightarrow> string \<Rightarrow> 's runner" where
  "run_gh runner repo argv =
     abind (aget (\<lambda>_. assert_not_a_merge_command argv)) (\<lambda>_.
     abind (aget (\<lambda>_. assert_gh_api_allowed argv repo)) (\<lambda>_. runner argv))"

definition run_checked :: "'s runner \<Rightarrow> string \<Rightarrow> string list \<Rightarrow> ('s, string) prog" where
  "run_checked runner repo argv =
     abind (run_gh runner repo argv) (\<lambda>(code, out). if code \<noteq> 0 then araise GitHubPrError else areturn out)"

definition PR_VIEW_FIELDS :: "string list" where
  "PR_VIEW_FIELDS = [''number'', ''url'', ''state'', ''isDraft'', ''mergedAt'', ''mergeCommit'', ''headRefName'',
     ''baseRefName'', ''headRefOid'', ''reviewDecision'', ''statusCheckRollup'', ''reviews'', ''comments'', ''title'', ''body'']"

definition create_pr_argv :: "string \<Rightarrow> string \<Rightarrow> bool \<Rightarrow> string \<Rightarrow> string \<Rightarrow> string \<Rightarrow> string \<Rightarrow> string list" where
  "create_pr_argv gh_bin repo draft base head title body =
     [gh_bin, ''pr'', ''create'', ''--repo'', repo] @ (if draft then [''--draft''] else []) @
     [''--base'', base, ''--head'', head, ''--title'', title, ''--body'', body]"

definition update_fields :: "string option \<Rightarrow> string option \<Rightarrow> string list" where
  "update_fields title body =
     (case title of None \<Rightarrow> [] | Some t \<Rightarrow> [''-f'', ''title='' @ t]) @
     (case body of None \<Rightarrow> [] | Some b \<Rightarrow> [''-f'', ''body='' @ b])"

definition update_pr_argv :: "string \<Rightarrow> string \<Rightarrow> int \<Rightarrow> string list \<Rightarrow> string list" where
  "update_pr_argv gh_bin repo number fs =
     [gh_bin, ''api'', ''-X'', ''PATCH'', ''repos/'' @ repo @ ''/pulls/'' @ int_str number] @ fs"

definition poll_pr_argv :: "string \<Rightarrow> string \<Rightarrow> int \<Rightarrow> string list" where
  "poll_pr_argv gh_bin repo number =
     [gh_bin, ''pr'', ''view'', int_str number, ''--repo'', repo, ''--json'', py_join '','' PR_VIEW_FIELDS]"

definition close_pr_argv :: "string \<Rightarrow> string \<Rightarrow> int \<Rightarrow> string \<Rightarrow> string list" where
  "close_pr_argv gh_bin repo number comment =
     [gh_bin, ''pr'', ''close'', int_str number, ''--repo'', repo, ''--comment'', comment]"

definition comment_pr_argv :: "string \<Rightarrow> string \<Rightarrow> int \<Rightarrow> string \<Rightarrow> string list" where
  "comment_pr_argv gh_bin repo number body =
     [gh_bin, ''pr'', ''comment'', int_str number, ''--repo'', repo, ''--body'', body]"

definition failed_logs_argv :: "string \<Rightarrow> string \<Rightarrow> int \<Rightarrow> string list" where
  "failed_logs_argv gh_bin repo run_id =
     [gh_bin, ''run'', ''view'', int_str run_id, ''--repo'', repo, ''--log-failed'']"

section \<open>Snapshots\<close>

record pr_snapshot =
  sn_number :: int
  sn_url :: "string option"
  sn_state :: "string option"
  sn_merged :: bool
  sn_merged_at :: "string option"
  sn_merge_commit_sha :: "string option"
  sn_head_sha :: "string option"
  sn_head_ref :: "string option"
  sn_base_ref :: "string option"
  sn_review_decision :: "string option"
  sn_ci_status :: "string option"
  sn_is_draft :: "bool option"
  sn_title :: "string option"
  sn_body :: "string option"
  sn_reviews :: "json list"
  sn_comments :: "json list"
  sn_checks :: "json list"

definition to_pr_state_fields :: "pr_snapshot \<Rightarrow> fields" where
  "to_pr_state_fields sn =
     [(''pr_number'', JInt (sn_number sn)), (''pr_url'', jopt (sn_url sn)), (''pr_state'', jopt (sn_state sn)),
      (''pr_merged'', JBool (sn_merged sn)), (''pr_head_sha'', jopt (sn_head_sha sn)),
      (''merge_commit_sha'', jopt (sn_merge_commit_sha sn)), (''review_decision'', jopt (sn_review_decision sn)),
      (''ci_status'', jopt (sn_ci_status sn))]"

definition latest_review :: "pr_snapshot \<Rightarrow> json option" where
  "latest_review sn = (if sn_reviews sn = [] then None else Some (last (sn_reviews sn)))"

text \<open>Text fields are text or \<open>null\<close> in what \<open>gh\<close> prints.\<close>

definition jtext :: "json option \<Rightarrow> string option" where
  "jtext v = Option.bind v col_text"

definition or_none :: "json option \<Rightarrow> json option" where
  "or_none v = (if json_truthy v then v else None)"

definition is_merged :: "json option \<Rightarrow> json option \<Rightarrow> json option \<Rightarrow> bool" where
  "is_merged state merged_at merge_commit_sha \<longleftrightarrow>
     (case state of Some (JStr s) \<Rightarrow> py_upper (py_strip s) = ''MERGED'' | _ \<Rightarrow> False) \<or>
     json_truthy merged_at \<or> json_truthy merge_commit_sha"

definition normalize_state :: "json option \<Rightarrow> bool \<Rightarrow> string option" where
  "normalize_state raw merged =
     (if merged then Some ''closed''
      else case raw of
             Some (JStr s) \<Rightarrow>
               let normalized = py_upper (py_strip s) in
               if py_strip s = [] then None
               else if normalized = ''OPEN'' then Some ''open''
               else if normalized \<in> {''CLOSED'', ''MERGED''} then Some ''closed'' else None
           | _ \<Rightarrow> None)"

definition normalize_review_decision :: "json option \<Rightarrow> string option" where
  "normalize_review_decision raw =
     (case raw of
        Some (JStr s) \<Rightarrow>
          let normalized = py_upper (py_strip s) in
          if normalized = ''APPROVED'' then Some ''approved''
          else if normalized = ''CHANGES_REQUESTED'' then Some ''changes_requested'' else Some ''none''
      | _ \<Rightarrow> None)"

definition CI_FAILURE_STATES :: "string list" where
  "CI_FAILURE_STATES = [''FAILURE'', ''ERROR'', ''TIMED_OUT'', ''CANCELLED'', ''ACTION_REQUIRED'']"
definition CI_PENDING_STATES :: "string list" where
  "CI_PENDING_STATES = [''PENDING'', ''QUEUED'', ''IN_PROGRESS'', ''WAITING'', ''EXPECTED'', []]"
definition CI_SUCCESS_STATES :: "string list" where
  "CI_SUCCESS_STATES = [''SUCCESS'', ''NEUTRAL'', ''SKIPPED'']"

fun is_dict :: "json \<Rightarrow> bool" where
  "is_dict (JObj _) = True"
| "is_dict _ = False"

fun json_items :: "json option \<Rightarrow> json list" where
  "json_items (Some (JList xs)) = xs"
| "json_items _ = []"

definition check_state :: "json \<Rightarrow> string" where
  "check_state check = py_upper (py_strip (first_text check [''conclusion'', ''state'', ''status'']))"

definition normalize_ci_status :: "json option \<Rightarrow> string option" where
  "normalize_ci_status rollup =
     (case rollup of
        None \<Rightarrow> None
      | Some JNull \<Rightarrow> None
      | Some (JList checks) \<Rightarrow>
          if checks = [] then Some ''none''
          else
            let states = map check_state (filter is_dict checks) in
            if list_ex (\<lambda>s. s \<in> set CI_FAILURE_STATES) states then Some ''failure''
            else if list_ex (\<lambda>s. s \<in> set CI_PENDING_STATES) states then Some ''pending''
            else if list_ex (\<lambda>s. s \<in> set CI_SUCCESS_STATES) states then Some ''success''
            else Some ''none''
      | Some _ \<Rightarrow> Some ''none'')"

definition jnull :: "json option \<Rightarrow> json" where
  "jnull v = (case v of None \<Rightarrow> JNull | Some x \<Rightarrow> x)"

definition normalize_review :: "json \<Rightarrow> json" where
  "normalize_review entry =
     JObj [(''id'', jnull (json_get entry ''id'')), (''url'', jnull (json_get entry ''url'')),
       (''author'', jnull (case json_get entry ''author'' of Some (JObj a) \<Rightarrow> map_of a ''login'' | v \<Rightarrow> v)),
       (''state'', jnull (json_get entry ''state'')), (''body'', jnull (json_get entry ''body'')),
       (''submitted_at'', jnull (json_get entry ''submittedAt''))]"

definition normalize_reviews :: "json option \<Rightarrow> json list" where
  "normalize_reviews raw = map normalize_review (filter is_dict (json_items raw))"

definition merge_commit_oid :: "json \<Rightarrow> json option" where
  "merge_commit_oid payload =
     (case json_get payload ''mergeCommit'' of Some (JObj c) \<Rightarrow> or_none (map_of c ''oid'') | _ \<Rightarrow> None)"

definition snapshot :: "json \<Rightarrow> int \<Rightarrow> pr_snapshot" where
  "snapshot payload fallback_number =
     (let get = json_get payload; sha = merge_commit_oid payload; merged_at = or_none (get ''mergedAt'');
          merged = is_merged (get ''state'') merged_at sha
      in
      \<lparr>sn_number = (case get ''number'' of Some (JInt n) \<Rightarrow> n | Some (JBool b) \<Rightarrow> (if b then 1 else 0) | _ \<Rightarrow> fallback_number),
       sn_url = jtext (get ''url''), sn_state = normalize_state (get ''state'') merged, sn_merged = merged,
       sn_merged_at = jtext merged_at, sn_merge_commit_sha = jtext sha, sn_head_sha = jtext (or_none (get ''headRefOid'')),
       sn_head_ref = jtext (or_none (get ''headRefName'')), sn_base_ref = jtext (or_none (get ''baseRefName'')),
       sn_review_decision = normalize_review_decision (get ''reviewDecision''),
       sn_ci_status = normalize_ci_status (get ''statusCheckRollup''),
       sn_is_draft = (case get ''isDraft'' of Some (JBool b) \<Rightarrow> Some b | _ \<Rightarrow> None),
       sn_title = jtext (get ''title''), sn_body = jtext (get ''body''), sn_reviews = normalize_reviews (get ''reviews''),
       sn_comments = filter is_dict (json_items (get ''comments'')),
       sn_checks = filter is_dict (json_items (get ''statusCheckRollup''))\<rparr>)"

text \<open>\<open>/pull/(\d+)\<close> and \<open>https?://\S+/pull/\d+\<close>, each at its first match.\<close>

fun extract_pr_number :: "string \<Rightarrow> nat option" where
  "extract_pr_number [] = None"
| "extract_pr_number (c # s) =
     (let digits = takeWhile py_isdigit (drop 6 (c # s)) in
      if starts_with ''/pull/'' (c # s) \<and> digits \<noteq> [] then Some (decimal_value digits) else extract_pr_number s)"

definition pull_prefix :: "string \<Rightarrow> string option" where
  "pull_prefix run =
     (let digits = (\<lambda>i. takeWhile py_isdigit (drop (i + 6) run)) in
      case filter (\<lambda>i. starts_with ''/pull/'' (drop i run) \<and> digits i \<noteq> []) (rev [1..<length run]) of
        [] \<Rightarrow> None
      | i # _ \<Rightarrow> Some (take (i + 6 + length (digits i)) run))"

fun extract_pr_url :: "string \<Rightarrow> string option" where
  "extract_pr_url [] = None"
| "extract_pr_url (c # s) =
     (case find (\<lambda>scheme. starts_with scheme (c # s) \<and>
              pull_prefix (takeWhile (\<lambda>x. \<not> py_isspace x) (drop (length scheme) (c # s))) \<noteq> None) [''https://'', ''http://''] of
        Some scheme \<Rightarrow>
          map_option (\<lambda>m. scheme @ m) (pull_prefix (takeWhile (\<lambda>x. \<not> py_isspace x) (drop (length scheme) (c # s))))
      | None \<Rightarrow> extract_pr_url s)"

section \<open>Operations\<close>

text \<open>\<open>loads\<close> is \<open>json.loads\<close>; \<open>None\<close> when the text is not JSON.\<close>

definition poll_pr :: "'s runner \<Rightarrow> (string \<Rightarrow> json option) \<Rightarrow> string \<Rightarrow> string \<Rightarrow> int \<Rightarrow> ('s, pr_snapshot) prog" where
  "poll_pr runner loads gh_bin repo number =
     abind (run_checked runner repo (poll_pr_argv gh_bin repo number)) (\<lambda>out.
       case loads out of Some (JObj kvs) \<Rightarrow> areturn (snapshot (JObj kvs) number) | _ \<Rightarrow> araise GitHubPrError)"

definition create_pr ::
  "'s runner \<Rightarrow> string \<Rightarrow> string \<Rightarrow> bool \<Rightarrow> string \<Rightarrow> string \<Rightarrow> string \<Rightarrow> string \<Rightarrow> ('s, pr_snapshot) prog" where
  "create_pr runner gh_bin repo draft base head title body =
     abind (run_checked runner repo (create_pr_argv gh_bin repo draft base head title body)) (\<lambda>out.
       case extract_pr_number out of
         None \<Rightarrow> araise GitHubPrError
       | Some n \<Rightarrow> areturn
           \<lparr>sn_number = int n, sn_url = extract_pr_url out, sn_state = Some ''open'', sn_merged = False, sn_merged_at = None,
            sn_merge_commit_sha = None, sn_head_sha = None, sn_head_ref = Some head, sn_base_ref = Some base,
            sn_review_decision = None, sn_ci_status = None, sn_is_draft = Some draft, sn_title = None, sn_body = None,
            sn_reviews = [], sn_comments = [], sn_checks = []\<rparr>)"

definition update_pr ::
  "'s runner \<Rightarrow> (string \<Rightarrow> json option) \<Rightarrow> string \<Rightarrow> string \<Rightarrow> int \<Rightarrow> string option \<Rightarrow> string option \<Rightarrow> ('s, pr_snapshot) prog" where
  "update_pr runner loads gh_bin repo number title body =
     (if update_fields title body = [] then poll_pr runner loads gh_bin repo number
      else
     abind (run_checked runner repo (update_pr_argv gh_bin repo number (update_fields title body))) (\<lambda>_.
     poll_pr runner loads gh_bin repo number))"

definition close_pr :: "'s runner \<Rightarrow> string \<Rightarrow> string \<Rightarrow> int \<Rightarrow> string \<Rightarrow> ('s, unit) prog" where
  "close_pr runner gh_bin repo number comment =
     abind (run_checked runner repo (close_pr_argv gh_bin repo number comment)) (\<lambda>_. areturn ())"

definition comment_pr :: "'s runner \<Rightarrow> string \<Rightarrow> string \<Rightarrow> int \<Rightarrow> string \<Rightarrow> ('s, unit) prog" where
  "comment_pr runner gh_bin repo number body =
     abind (run_checked runner repo (comment_pr_argv gh_bin repo number body)) (\<lambda>_. areturn ())"

definition failed_logs :: "'s runner \<Rightarrow> string \<Rightarrow> string \<Rightarrow> int \<Rightarrow> ('s, string) prog" where
  "failed_logs runner gh_bin repo run_id = run_checked runner repo (failed_logs_argv gh_bin repo run_id)"

end
