(* ===== verification/Integration_Watcher.thy ===== *)
theory Integration_Watcher
  imports Integration_Action GitHub_Adapter
begin

text \<open>
  The two ticks of \<open>integration_watcher.py\<close> with the feedback handling of \<open>pr_feedback.py\<close>.

  Git, GitHub and the file system are arguments, in the record \<open>watcher_env\<close>: what a poll of a PR
  returns or with which exception it fails, the target commit and the number of commits a worktree is
  behind, which directories exist, the hash, the generated identifiers and the text fetched for failed
  CI checks. A tick reads one clock value. The texts of events are dropped, their payloads are kept.
\<close>

section \<open>The outside world of a tick\<close>

record watcher_env =
  we_now :: timestamp
  we_home :: "string \<Rightarrow> string option"
  we_policy :: policy_env
  we_poll :: "int \<Rightarrow> (string \<times> string) + pr_snapshot"
  we_sha256 :: "string \<Rightarrow> string"
  we_git :: "path \<Rightarrow> (string \<times> int) result"
  we_is_dir :: "path \<Rightarrow> bool"
  we_ci_text :: "pr_snapshot \<Rightarrow> string"
  we_retry_id :: "string \<Rightarrow> string"
  we_request_id :: "string \<Rightarrow> string"
  we_write_ok :: "string \<Rightarrow> bool"

definition WATCHER_SOURCE :: string where "WATCHER_SOURCE = ''integration_watcher''"
definition POLL_FAILURE_ESCALATION_THRESHOLD :: int where "POLL_FAILURE_ESCALATION_THRESHOLD = 6"

section \<open>Feedback on a pull request (pr\_feedback.py)\<close>

definition ACK :: string where "ACK = ''<!-- taskflow:ack -->''"

definition CHECK_FAILURES :: "string list" where
  "CHECK_FAILURES = [''FAILURE'', ''ERROR'', ''TIMED_OUT'', ''CANCELLED'', ''ACTION_REQUIRED'']"

definition py_casefold :: "string \<Rightarrow> string" where
  "py_casefold s = concat (map (\<lambda>c. if (of_char c :: nat) = 223 then ''ss'' else [py_lower_char c]) s)"

text \<open>\<open>re.sub(re.escape(trigger), "", body, flags=re.I)\<close>.\<close>

function remove_ci :: "string \<Rightarrow> string \<Rightarrow> string" where
  "remove_ci t [] = []"
| "remove_ci t (c # s) =
     (if t \<noteq> [] \<and> starts_with (py_lower t) (py_lower (c # s)) then remove_ci t (drop (length t - 1) s)
      else c # remove_ci t s)"
  by pat_completeness auto
termination remove_ci
  by (relation "measure (\<lambda>(t, s). length s)") auto

text \<open>\<open>entry.get(key) or ""\<close> as text; \<open>None\<close> when the value is not text.\<close>

definition text_or_empty :: "json \<Rightarrow> string \<Rightarrow> string option" where
  "text_or_empty entry key =
     (if json_truthy (json_get entry key) then Option.bind (json_get entry key) col_text else Some [])"

definition entry_author :: "json \<Rightarrow> string option" where
  "entry_author entry =
     (case json_get entry ''author'' of
        Some (JObj a) \<Rightarrow> if a = [] then Some [] else text_or_empty (JObj a) ''login''
      | _ \<Rightarrow> text_or_empty entry ''author'')"

type_synonym pending_item = "string \<times> (string \<times> string) \<times> string"

definition comment_item ::
  "string \<Rightarrow> string list \<Rightarrow> (string \<times> string) list \<Rightarrow> string \<Rightarrow> json \<Rightarrow> pending_item option" where
  "comment_item trigger allowed handled kind entry =
     (case (json_get entry ''id'', entry_author entry, text_or_empty entry ''body'') of
        (ident, Some author, Some body) \<Rightarrow>
          if \<not> json_truthy ident then None
          else if py_casefold author \<notin> set allowed \<or> contains_sub ACK body \<or>
                  \<not> contains_sub (py_lower trigger) (py_lower body) then None
          else
            let ref = kind @ '':'' @ py_str (the ident);
                date = first_text entry [''createdAt'', ''submitted_at''];
                url = first_text entry [''url'']
            in
            if (''pr_comment'', ref) \<in> set handled then None
            else Some (date, (''pr_comment'', ref),
              ''GitHub feedback from '' @ author @ '' ('' @ url @ '', '' @ date @ ''):'' @ newline @
              py_strip (remove_ci trigger body))
      | _ \<Rightarrow> None)"

definition failed_check :: "json \<Rightarrow> bool" where
  "failed_check c \<longleftrightarrow> py_upper (first_text c [''conclusion'', ''state'']) \<in> set CHECK_FAILURES"

definition event_triggers :: "event_row \<Rightarrow> json list" where
  "event_triggers e = (case json_get (ev_payload e) ''triggers'' of Some (JList xs) \<Rightarrow> xs | _ \<Rightarrow> [])"

definition trigger_pair :: "json \<Rightarrow> string \<times> string" where
  "trigger_pair item = (first_text item [''kind''], first_text item [''ref''])"

definition feedback_attempts :: "db \<Rightarrow> string \<Rightarrow> event_row list" where
  "feedback_attempts db key = filter (\<lambda>e. ev_type e = ''pr_feedback_attempt'') (list_task_events db key)"

definition handled_triggers :: "db \<Rightarrow> string \<Rightarrow> (string \<times> string) list" where
  "handled_triggers db key = map trigger_pair (concat (map event_triggers (feedback_attempts db key)))"

definition ci_fix_count :: "db \<Rightarrow> string \<Rightarrow> nat" where
  "ci_fix_count db key =
     length (filter (\<lambda>e. list_ex (\<lambda>i. fst (trigger_pair i) = ''ci_failure'') (event_triggers e)) (feedback_attempts db key))"

definition allowed_authors :: "json \<Rightarrow> string \<Rightarrow> string list" where
  "allowed_authors policy repo =
     map py_casefold
       (case json_get policy ''allowed_authors'' of
          None \<Rightarrow> [takeWhile (\<lambda>c. c \<noteq> CHR ''/'') repo]
        | Some v \<Rightarrow> (case str_list (Some v) of None \<Rightarrow> [] | Some as \<Rightarrow> as))"

definition ci_item :: "watcher_env \<Rightarrow> json \<Rightarrow> db \<Rightarrow> string \<Rightarrow> pr_snapshot \<Rightarrow> pending_item list" where
  "ci_item env policy db key sn =
     (case sn_head_sha sn of
        None \<Rightarrow> []
      | Some sha \<Rightarrow>
          if list_ex failed_check (sn_checks sn) \<and> sha \<noteq> [] \<and>
             (''ci_failure'', sha) \<notin> set (handled_triggers db key) \<and>
             (case json_get policy ''max_ci_fix_attempts'' of Some (JInt m) \<Rightarrow> int (ci_fix_count db key) < m | _ \<Rightarrow> False)
          then [(''~'', (''ci_failure'', sha),
                 ''Failing checks for head '' @ sha @ '':'' @ newline @ we_ci_text env sn)]
          else [])"

definition pending_items :: "watcher_env \<Rightarrow> json \<Rightarrow> db \<Rightarrow> string \<Rightarrow> pr_snapshot \<Rightarrow> string \<Rightarrow> pending_item list" where
  "pending_items env policy db key sn repo =
     (let trigger = first_text policy [''trigger''];
          item = comment_item trigger (allowed_authors policy repo) (handled_triggers db key)
      in sort_key fst
        (List.map_filter (item ''comment'') (sn_comments sn) @ List.map_filter (item ''review'') (sn_reviews sn) @
         ci_item env policy db key sn))"

datatype feedback =
    FeedbackSkipped bool
  | FeedbackPending "(string \<times> string) list"
  | FeedbackStarted "(string \<times> string) list" nat

definition handled_review :: "db \<Rightarrow> string \<Rightarrow> pr_snapshot \<Rightarrow> bool" where
  "handled_review db key sn \<longleftrightarrow>
     (''pr_comment'', ''review:'' @ (case Option.bind (latest_review sn) (\<lambda>r. json_get r ''id'') of
        None \<Rightarrow> ''None'' | Some i \<Rightarrow> py_str i)) \<in> set (handled_triggers db key)"

definition feedback_request :: "string \<Rightarrow> reset_request" where
  "feedback_request key =
     \<lparr>rt_task_key = key, rt_from_status = ''waiting_for_review'', rt_reason = ''PR feedback'', rt_to_status = None,
      rt_confirm_reset = True, rt_dry_run = False, rt_actor = WATCHER_SOURCE, rt_request_id = None,
      rt_expected_reset_generation = None, rt_expected_old_attempt_id = None\<rparr>"

definition next_attempt_of :: "db \<Rightarrow> string \<Rightarrow> nat" where
  "next_attempt_of db key =
     Suc (case Option.bind (get_task db key) t_task_id of
            None \<Rightarrow> 0
          | Some i \<Rightarrow> foldr max (map a_number (filter (\<lambda>a. a_task_id a = i) (db_attempts db))) 0)"

text \<open>The closure \<open>record\<close>, run inside the retry transaction.\<close>

definition record_feedback ::
  "timestamp \<Rightarrow> string \<Rightarrow> string \<Rightarrow> (string \<times> string) list \<Rightarrow> db \<Rightarrow> db result" where
  "record_feedback now key note refs db =
     rbind (add_ticket_feedback now key note (fst (hd refs)) WATCHER_SOURCE [] db) (\<lambda>db.
       insert_event key ''pr_feedback_attempt'' WATCHER_SOURCE
         (JObj [(''task_key'', JStr key), (''trigger'', JStr (fst (hd refs))), (''ref'', JStr (snd (hd refs))),
           (''triggers'', JList (map (\<lambda>(k, r). JObj [(''kind'', JStr k), (''ref'', JStr r)]) refs)),
           (''attempt'', JInt (int (next_attempt_of db key))), (''attempt_count'', JInt (int (next_attempt_of db key)))])
         now db)"

definition aretry :: "watcher_env \<Rightarrow> string \<Rightarrow> string \<Rightarrow> (string \<times> string) list \<Rightarrow> retry_outcome act" where
  "aretry env key note refs s =
     (case retry_ticket (we_home env) (we_now env) (we_retry_id env key) (we_request_id env key) (we_write_ok env key)
             (feedback_request key) None (record_feedback (we_now env) key note refs) True (ig_db s) of
        (d, r) \<Rightarrow> (s\<lparr>ig_db := d\<rparr>, r))"

definition process_feedback :: "watcher_env \<Rightarrow> task_row \<Rightarrow> pr_snapshot \<Rightarrow> string \<Rightarrow> bool \<Rightarrow> feedback act" where
  "process_feedback env task sn repo confirm =
     (if t_status task \<noteq> ''waiting_for_review'' \<or> sn_state sn \<noteq> Some ''open'' \<or> sn_merged sn
      then areturn (FeedbackSkipped False)
      else
        (case resolve_execution_policy (we_policy env) (t_project task) None of
           Inl (ExecutionPolicyError _) \<Rightarrow> areturn (FeedbackSkipped False)
         | Inl e \<Rightarrow> aget (\<lambda>_. Inl e)
         | Inr p \<Rightarrow>
             (case ep_pr_feedback p of
                None \<Rightarrow> areturn (FeedbackSkipped False)
              | Some policy \<Rightarrow>
                  abind (aget (\<lambda>s. Inr (pending_items env policy (ig_db s) (t_key task) sn repo,
                    handled_review (ig_db s) (t_key task) sn, next_attempt_of (ig_db s) (t_key task))))
                  (\<lambda>(pending, handled, attempt).
                    let refs = map (fst \<circ> snd) pending in
                    if pending = [] then areturn (FeedbackSkipped handled)
                    else if \<not> confirm then areturn (FeedbackPending refs)
                    else abind (aretry env (t_key task) (py_join (newline @ newline) (map (snd \<circ> snd) pending)) refs)
                      (\<lambda>_. areturn (FeedbackStarted refs attempt))))))"

section \<open>Store calls of the ticks\<close>

text \<open>The ISO text of a time stamp, which is an \<open>int\<close> in this development; only its presence matters here.\<close>

definition iso_time :: "timestamp \<Rightarrow> string" where
  "iso_time t = json_dumps (JInt t)"

definition set_status :: "watcher_env \<Rightarrow> string \<Rightarrow> string \<Rightarrow> string \<Rightarrow> unit act" where
  "set_status env key target expected =
     adb (\<lambda>d. rbind (update_task_status (we_now env) key target None WATCHER_SOURCE None (Some expected) d) (\<lambda>(d', _). Inr d'))"

definition put_event :: "watcher_env \<Rightarrow> string \<Rightarrow> string \<Rightarrow> fields \<Rightarrow> unit act" where
  "put_event env key ty payload = adb (record_task_event (we_now env) key ty WATCHER_SOURCE payload)"

definition put_state :: "watcher_env \<Rightarrow> string \<Rightarrow> fields \<Rightarrow> fields act" where
  "put_state env key new = atx (update_integration_state (we_now env) key new)"

definition open_pr_candidates ::
  "string \<Rightarrow> string list option \<Rightarrow> integration_db \<Rightarrow> (task_row \<times> fields) list result" where
  "open_pr_candidates repo task_keys ig =
     rbind (list_open_pr_states ig repo) (\<lambda>states.
       Inr (List.map_filter (\<lambda>(k, st).
         if (case task_keys of None \<Rightarrow> False | Some ks \<Rightarrow> k \<notin> set ks) then None
         else map_option (\<lambda>t. (t, st)) (get_task (ig_db ig) k)) states))"

section \<open>Target freshness\<close>

record freshness_outcome =
  fo_task_key :: string
  fo_behind_count :: "int option"
  fo_stale :: bool
  fo_new_target_sha :: "string option"
  fo_requeued :: bool
  fo_deferred :: bool

definition freshness_ticket ::
  "watcher_env \<Rightarrow> string \<Rightarrow> bool \<Rightarrow> task_row \<times> fields \<Rightarrow> freshness_outcome option act" where
  "freshness_ticket env repo confirm c =
     (case c of (task, st) \<Rightarrow>
      let key = t_key task; base = col st ''integrated_base_sha'' in
      if t_status task = INTEGRATING
      then areturn (Some \<lparr>fo_task_key = key, fo_behind_count = None, fo_stale = False, fo_new_target_sha = None,
             fo_requeued = False, fo_deferred = True\<rparr>)
      else
        abind (aget (\<lambda>s. get_task_worktree (we_home env) (ig_db s) key)) (\<lambda>w.
        case w of
          None \<Rightarrow> areturn None
        | Some wr \<Rightarrow>
            if \<not> we_is_dir env (wr_worktree_path wr) then areturn None
            else
              (case we_git env (wr_worktree_path wr) of
                 Inl IntegrationGitError \<Rightarrow> areturn None
               | Inl e \<Rightarrow> araise e
               | Inr (sha, behind) \<Rightarrow>
                   let outcome = \<lparr>fo_task_key = key, fo_behind_count = Some behind, fo_stale = (behind > 0),
                         fo_new_target_sha = Some sha, fo_requeued = False, fo_deferred = False\<rparr>
                   in
                   if \<not> behind > 0 \<or> t_status task \<noteq> NEEDS_REVIEW \<or> \<not> confirm then areturn (Some outcome)
                   else
                     abind (atx (update_pr_state (we_now env) key [(''reintegration_required'', JBool True)])) (\<lambda>_.
                     abind (put_state env key [(''previous_integrated_base_sha'', base),
                        (''new_target_sha'', JStr sha), (''behind_count'', JInt behind)]) (\<lambda>_.
                     abind (set_status env key READY_FOR_INTEGRATION NEEDS_REVIEW) (\<lambda>_.
                     abind (put_event env key ''reintegration_required''
                        [(''behind_count'', JInt behind), (''previous_integrated_base_sha'', base),
                         (''new_target_sha'', JStr sha), (''repo'', JStr repo)]) (\<lambda>_.
                     abind (atx (enqueue_for_integration (we_now env) key repo None WATCHER_SOURCE None)) (\<lambda>_.
                     abind (put_event env key ''integration_queued'' [(''repo'', JStr repo)]) (\<lambda>_.
                     areturn (Some (outcome\<lparr>fo_requeued := True\<rparr>)))))))))))"

definition poll_target_freshness ::
  "watcher_env \<Rightarrow> string \<Rightarrow> string list option \<Rightarrow> bool \<Rightarrow> freshness_outcome list act" where
  "poll_target_freshness env repo task_keys confirm =
     abind (aget (open_pr_candidates repo task_keys)) (\<lambda>cs.
     abind (afor (freshness_ticket env repo confirm) cs) (\<lambda>os. areturn (List.map_filter id os)))"

section \<open>PR outcomes\<close>

record pr_outcome =
  po_task_key :: string
  po_proposed :: "string option"
  po_applied :: "string option"
  po_deferred :: bool
  po_poll_failures :: "int option"
  po_feedback :: "feedback option"

definition poll_failure_fingerprint :: "watcher_env \<Rightarrow> string \<times> string \<Rightarrow> string" where
  "poll_failure_fingerprint env exc = we_sha256 env (fst exc @ newline @ snd exc)"

definition poll_failed ::
  "watcher_env \<Rightarrow> bool \<Rightarrow> task_row \<Rightarrow> fields \<Rightarrow> string \<times> string \<Rightarrow> pr_outcome act" where
  "poll_failed env confirm task st exc =
     (let key = t_key task in
      abind (aget (\<lambda>s. get_integration_state s key)) (\<lambda>state.
      let previous = col state ''pr_poll_failure_fingerprint'';
          failures = (case col state ''pr_poll_consecutive_failures'' of JInt n \<Rightarrow> n | _ \<Rightarrow> 0) + 1;
          fingerprint = poll_failure_fingerprint env exc;
          target = (if failures \<ge> POLL_FAILURE_ESCALATION_THRESHOLD \<and> can_transition (t_status task) NEEDS_DECISION
                    then Some NEEDS_DECISION else None);
          escalate = (target \<noteq> None \<or> failures = POLL_FAILURE_ESCALATION_THRESHOLD);
          payload = [(''pr_number'', col st ''pr_number''), (''task_status'', JStr (t_status task)),
            (''exception_type'', JStr (fst exc)), (''exception_message'', JStr (snd exc)),
            (''fingerprint'', JStr fingerprint), (''consecutive_failures'', JInt failures),
            (''escalation_threshold'', JInt POLL_FAILURE_ESCALATION_THRESHOLD)];
          outcome = \<lparr>po_task_key = key, po_proposed = target, po_applied = None, po_deferred = False,
            po_poll_failures = Some failures, po_feedback = None\<rparr>
      in
      if \<not> confirm then areturn outcome
      else
        abind (awhen (JStr fingerprint \<noteq> previous)
          (put_event env key ''pr_poll_failed'' (payload @ [(''previous_fingerprint'', previous)]))) (\<lambda>_.
        abind (awhen escalate
          (put_event env key ''pr_poll_escalated''
            (payload @ [(''transition'', jopt target),
               (''reason'', JStr (if failures = POLL_FAILURE_ESCALATION_THRESHOLD then ''threshold_reached''
                  else ''escalatable_again_while_failing''))]))) (\<lambda>_.
        abind (awhen (target \<noteq> None) (set_status env key NEEDS_DECISION (t_status task))) (\<lambda>_.
        abind (put_state env key [(''pr_poll_consecutive_failures'', JInt failures),
          (''pr_poll_failure_fingerprint'', JStr fingerprint)]) (\<lambda>_.
        areturn (outcome\<lparr>po_applied := target\<rparr>)))))))"

definition record_poll_recovery :: "watcher_env \<Rightarrow> task_row \<Rightarrow> int \<Rightarrow> unit act" where
  "record_poll_recovery env task number =
     (let key = t_key task in
      abind (aget (\<lambda>s. get_integration_state s key)) (\<lambda>state.
      let failures = col state ''pr_poll_consecutive_failures'';
          n = (case failures of JInt n \<Rightarrow> n | _ \<Rightarrow> 0)
      in
      if \<not> json_truthy (Some failures) \<and> col state ''pr_poll_failure_fingerprint'' = JNull then areturn ()
      else
        abind (put_event env key ''pr_poll_recovered''
          [(''pr_number'', JInt number), (''task_status'', JStr (t_status task)), (''consecutive_failures'', JInt n),
           (''previous_fingerprint'', col state ''pr_poll_failure_fingerprint''),
           (''escalated'', JBool (n \<ge> POLL_FAILURE_ESCALATION_THRESHOLD))]) (\<lambda>_.
        abind (put_state env key POLL_RESET) (\<lambda>_. areturn ()))))"

definition proposed_transition :: "pr_snapshot \<Rightarrow> string \<Rightarrow> string option" where
  "proposed_transition sn task_status =
     (if sn_merged sn then None
      else
        (case (if sn_state sn = Some ''closed'' then Some CANCELLED
               else if sn_review_decision sn = Some ''changes_requested'' then Some NEEDS_DECISION
               else None) of
           None \<Rightarrow> None
         | Some target \<Rightarrow> if can_transition task_status target then Some target else None))"

definition polled_fields :: "pr_snapshot \<Rightarrow> fields" where
  "polled_fields sn = filter (\<lambda>(k, v). v \<noteq> JNull \<or> k = ''pr_merged'') (to_pr_state_fields sn)"

definition record_pr_state :: "watcher_env \<Rightarrow> string \<Rightarrow> pr_snapshot \<Rightarrow> fields \<Rightarrow> fields act" where
  "record_pr_state env key sn previous =
     abind (atx (update_pr_state (we_now env) key
       (dict_set ''pr_last_polled_at'' (JStr (iso_time (we_now env))) (polled_fields sn)))) (\<lambda>_.
     areturn (List.map_filter (\<lambda>(k, v). if col previous k \<noteq> v
       then Some (k, JObj [(''old'', col previous k), (''new'', v)]) else None) (polled_fields sn)))"

definition review_field :: "json option \<Rightarrow> string \<Rightarrow> string option" where
  "review_field review k = Option.bind review (\<lambda>r. Option.bind (json_get r k) col_text)"

definition apply_changes_requested ::
  "watcher_env \<Rightarrow> string \<Rightarrow> pr_snapshot \<Rightarrow> string option \<Rightarrow> string \<Rightarrow> string option \<Rightarrow> string option act" where
  "apply_changes_requested env key sn transition task_status head =
     (let review = latest_review sn in
      abind (aget (\<lambda>s. list_review_evidence s key)) (\<lambda>rows.
      if list_ex (\<lambda>r. re_reviewed_head_sha r = head \<and> re_review_decision r = Some ''changes_requested'') rows
      then areturn None
      else
        abind (atx_unit (record_review_evidence key
          \<lparr>re_task_key = key, re_pr_number = Some (sn_number sn), re_pr_url = sn_url sn,
           re_review_decision = sn_review_decision sn, re_reviewer = review_field review ''author'',
           re_reviewed_at = review_field review ''submitted_at'', re_reviewed_head_sha = head,
           re_comments = (case review of None \<Rightarrow> [] | Some r \<Rightarrow> [r]), re_created_at = we_now env\<rparr>)) (\<lambda>_.
        abind (awhen (transition = Some NEEDS_DECISION) (set_status env key NEEDS_DECISION task_status)) (\<lambda>_.
        abind (put_event env key ''pr_review_changes_requested''
          [(''pr_number'', JInt (sn_number sn)), (''pr_url'', jopt (sn_url sn)),
           (''reviewer'', jopt (review_field review ''author'')),
           (''reviewed_at'', jopt (review_field review ''submitted_at'')),
           (''reviewed_head_sha'', jopt head), (''task_status'', JStr task_status),
           (''status_changed'', JBool (transition = Some NEEDS_DECISION))]) (\<lambda>_.
        areturn (if transition = Some NEEDS_DECISION then transition else None))))))"

definition apply_cancelled :: "watcher_env \<Rightarrow> string \<Rightarrow> pr_snapshot \<Rightarrow> string \<Rightarrow> string option act" where
  "apply_cancelled env key sn task_status =
     abind (put_state env key [(''closed_unmerged_at'', JStr (iso_time (we_now env)))]) (\<lambda>_.
     abind (set_status env key CANCELLED task_status) (\<lambda>_.
     abind (atx_unit (remove_from_queue key)) (\<lambda>_.
     abind (put_event env key ''pr_closed_unmerged''
       [(''pr_number'', JInt (sn_number sn)), (''pr_url'', jopt (sn_url sn)),
        (''previous_task_status'', JStr task_status), (''worktree_retained'', JBool True),
        (''branch_retained'', JBool True), (''artifacts_retained'', JBool True),
        (''cleanup_requires_explicit_confirmation'', JBool True)]) (\<lambda>_.
     areturn (Some CANCELLED)))))"

definition apply_transition ::
  "watcher_env \<Rightarrow> string \<Rightarrow> pr_snapshot \<Rightarrow> string option \<Rightarrow> string \<Rightarrow> string option \<Rightarrow> string option act" where
  "apply_transition env key sn transition task_status head =
     (if sn_merged sn
      then abind (aget (\<lambda>s. get_integration_state s key)) (\<lambda>state.
        if col state ''merge_verified_at'' \<noteq> JNull then areturn None
        else
          abind (put_event env key ''merge_detected''
            [(''pr_number'', JInt (sn_number sn)), (''merged_at'', jopt (sn_merged_at sn)),
             (''merge_commit_sha'', jopt (sn_merge_commit_sha sn)), (''task_status'', JStr task_status),
             (''cleanup_performed'', JBool False), (''requires_merge_verification'', JBool True)]) (\<lambda>_.
          abind (put_state env key [(''last_integration_status'', JStr ''merge_detected'')]) (\<lambda>_. areturn None)))
      else if sn_state sn \<noteq> Some ''closed'' \<and> sn_review_decision sn = Some ''changes_requested''
      then apply_changes_requested env key sn transition task_status head
      else if transition = Some CANCELLED then apply_cancelled env key sn task_status
      else areturn None)"

fun feedback_defers :: "feedback \<Rightarrow> bool" where
  "feedback_defers (FeedbackSkipped handled) = handled"
| "feedback_defers _ = True"

definition outcome_ticket :: "watcher_env \<Rightarrow> string \<Rightarrow> bool \<Rightarrow> task_row \<times> fields \<Rightarrow> pr_outcome act" where
  "outcome_ticket env repo confirm c =
     (case c of (task, st) \<Rightarrow>
      let key = t_key task; status = t_status task;
          blank = \<lparr>po_task_key = key, po_proposed = None, po_applied = None, po_deferred = False,
            po_poll_failures = None, po_feedback = None\<rparr>
      in
      if status = INTEGRATING then areturn (blank\<lparr>po_deferred := True\<rparr>)
      else
        abind (aget (\<lambda>s. get_task_worktree (we_home env) (ig_db s) key)) (\<lambda>_.
        case we_poll env (case col st ''pr_number'' of JInt n \<Rightarrow> n | _ \<Rightarrow> 0) of
          Inl exc \<Rightarrow> poll_failed env confirm task st exc
        | Inr sn \<Rightarrow>
            abind (process_feedback env task sn repo confirm) (\<lambda>fb.
            let transition = (if feedback_defers fb then None else proposed_transition sn status);
                blank = blank\<lparr>po_proposed := transition, po_feedback := Some fb\<rparr>
            in
            if \<not> confirm then areturn blank
            else
              abind (record_pr_state env key sn st) (\<lambda>changed.
              abind (record_poll_recovery env task (sn_number sn)) (\<lambda>_.
              abind (awhen (changed \<noteq> [])
                (put_event env key ''pr_state_polled''
                  [(''pr_number'', JInt (sn_number sn)), (''pr_state'', jopt (sn_state sn)),
                   (''merged'', JBool (sn_merged sn)), (''review_decision'', jopt (sn_review_decision sn)),
                   (''task_status'', JStr status), (''ci_status'', jopt (sn_ci_status sn)),
                   (''ci_is_not_a_lifecycle_authority'', JBool True), (''changed_fields'', JObj changed)])) (\<lambda>_.
              abind (apply_transition env key sn transition status
                (if truthy (sn_head_sha sn) then sn_head_sha sn else col_text (col st ''pr_head_sha''))) (\<lambda>applied.
              areturn (blank\<lparr>po_applied := applied\<rparr>))))))))"

definition poll_pr_outcomes ::
  "watcher_env \<Rightarrow> string \<Rightarrow> string list option \<Rightarrow> bool \<Rightarrow> pr_outcome list act" where
  "poll_pr_outcomes env repo task_keys confirm =
     abind (aget (open_pr_candidates repo task_keys)) (\<lambda>cs. afor (outcome_ticket env repo confirm) cs)"

end
