(* ===== verification/Watcher_Safety.thy ===== *)
theory Watcher_Safety
  imports Integration_Watcher
begin

text \<open>
  What the watcher ticks may do: they touch only Tickets with an open pull request of the tick's
  repository that are not being integrated, move statuses only along the transition table, leave
  Attempts and runtime controls alone, and write nothing without confirmation.
\<close>

section \<open>Views after a store call\<close>

lemma view_cong:
  assumes "get_task (ig_db ig') k = get_task (ig_db ig) k" "pr_row_of ig' k = pr_row_of ig k"
    "state_row_of ig' k = state_row_of ig k"
    "filter (\<lambda>q. q_task_key q = k) (ig_queue ig') = filter (\<lambda>q. q_task_key q = k) (ig_queue ig)"
    "filter (\<lambda>w. w_task_key w = k) (db_worktrees (ig_db ig')) = filter (\<lambda>w. w_task_key w = k) (db_worktrees (ig_db ig))"
    "filter (\<lambda>r. re_task_key r = k) (ig_review_evidence ig') = filter (\<lambda>r. re_task_key r = k) (ig_review_evidence ig)"
  shows "view ig' k = view ig k"
  using assms by (simp add: view_def pr_state_at_fields state_at_def)

lemma view_db:
  assumes "get_task d k = get_task (ig_db ig) k" "db_worktrees d = db_worktrees (ig_db ig)"
  shows "view (ig\<lparr>ig_db := d\<rparr>) k = view ig k"
  by (rule view_cong) (simp_all add: assms pr_row_of_def state_row_of_def)

lemma view_update_pr_rows [simp]: "k \<noteq> key \<Longrightarrow> view (update_pr_rows key f ig) k = view ig k"
  by (rule view_cong) (simp_all, simp_all add: update_pr_rows_def)

lemma view_ensure_pr_row [simp]: "k \<noteq> key \<Longrightarrow> view (ensure_pr_row key ig) k = view ig k"
  by (rule view_cong) (simp_all, simp_all add: ensure_pr_row_def)

lemma view_update_state_rows [simp]:
  "k \<noteq> key \<Longrightarrow> view (update_state_rows now (\<lambda>r. is_task_key r = key \<and> c r) new ig) k = view ig k"
  by (rule view_cong) (simp_all add: state_row_of_update, simp_all add: update_state_rows_def pr_row_of_def)

lemmas view_update_all_state_rows [simp] = view_update_state_rows [where c = "\<lambda>_. True", simplified]

lemma view_ensure_state_row [simp]: "k \<noteq> key \<Longrightarrow> view (ensure_state_row now key ig) k = view ig k"
  by (rule view_cong) (auto simp: ensure_state_row_def state_row_of_def pr_row_of_def find_append split: option.split)

lemma view_reset [simp]: "k \<noteq> key \<Longrightarrow> view (reset_poll_failures_on_new_pr now key st ig) k = view ig k"
  by (simp add: reset_poll_failures_on_new_pr_def split: option.split)

lemma filter_other_key: "k \<noteq> key \<Longrightarrow> filter (\<lambda>x. f x \<noteq> key \<and> f x = k) xs = filter (\<lambda>x. f x = k) xs"
  by (induction xs) auto

lemma view_drop_queue [simp]: "k \<noteq> key \<Longrightarrow> view (drop_queue_rows key ig) k = view ig k"
  by (rule view_cong) (simp_all add: drop_queue_rows_def filter_other_key pr_row_of_def state_row_of_def)

lemma ig_db_frame [simp]:
  "ig_db (update_pr_rows key f ig) = ig_db ig" "ig_db (ensure_pr_row key ig) = ig_db ig"
  "ig_db (update_state_rows now p new ig) = ig_db ig" "ig_db (ensure_state_row now key ig) = ig_db ig"
  "ig_db (reset_poll_failures_on_new_pr now key st ig) = ig_db ig" "ig_db (drop_queue_rows key ig) = ig_db ig"
  by (simp_all add: update_pr_rows_def ensure_pr_row_def update_state_rows_def ensure_state_row_def
      reset_poll_failures_on_new_pr_def drop_queue_rows_def split: option.split)

section \<open>The effect a watcher may have\<close>

definition status_of :: "integration_db \<Rightarrow> string \<Rightarrow> string option" where
  "status_of ig k = map_option t_status (get_task (ig_db ig) k)"

text \<open>
  A watcher moves statuses along the transition table, and never to \<open>integrating\<close> or \<open>completed\<close>:
  these belong to the integration run and to the merge verification.
\<close>

definition watcher_move :: "string \<Rightarrow> string \<Rightarrow> bool" where
  "watcher_move s t \<longleftrightarrow> can_transition s t \<and> t \<in> {READY_FOR_INTEGRATION, NEEDS_DECISION, CANCELLED, READY}"

text \<open>Only Tickets of \<open>K\<close> are touched, statuses move as a watcher may, Attempts and runtime controls stay.\<close>

definition watched :: "string set \<Rightarrow> integration_db \<Rightarrow> integration_db \<Rightarrow> bool" where
  "watched K ig ig' \<longleftrightarrow>
     (\<forall>k. k \<notin> K \<longrightarrow> view ig' k = view ig k) \<and>
     (\<forall>k. rel_option watcher_move\<^sup>*\<^sup>* (status_of ig k) (status_of ig' k)) \<and>
     db_attempts (ig_db ig') = db_attempts (ig_db ig) \<and> db_controls (ig_db ig') = db_controls (ig_db ig)"

lemma rel_option_rtrancl_trans:
  "\<lbrakk>rel_option R\<^sup>*\<^sup>* a b; rel_option R\<^sup>*\<^sup>* b c\<rbrakk> \<Longrightarrow> rel_option R\<^sup>*\<^sup>* a c"
  by (cases a; cases b; cases c) auto

lemma rel_option_rtrancl_refl [simp]: "rel_option R\<^sup>*\<^sup>* a a"
  by (cases a) auto

interpretation w: table_frame "watched K" for K
proof
  show "watched K s s" for s by (simp add: watched_def)
  show "watched K s u" if "watched K s t" "watched K t u" for s t u
    using that unfolding watched_def by (metis rel_option_rtrancl_trans)
qed

lemma watched_tables:
  assumes "ig_db ig' = ig_db ig" and "\<And>k. k \<noteq> key \<Longrightarrow> view ig' k = view ig k" and "key \<in> K"
  shows "watched K ig ig'"
proof -
  have "view ig' k = view ig k" if "k \<notin> K" for k using assms(2) [of k] assms(3) that by blast
  then show ?thesis using assms(1) by (simp add: watched_def status_of_def)
qed

text \<open>A write to the shared tables that touches one task row, whose status stays or makes one allowed move.\<close>

definition task_write :: "string \<Rightarrow> db \<Rightarrow> db \<Rightarrow> bool" where
  "task_write key d d' \<longleftrightarrow>
     (\<forall>k. k \<noteq> key \<longrightarrow> get_task d' k = get_task d k) \<and> db_worktrees d' = db_worktrees d \<and>
     db_attempts d' = db_attempts d \<and> db_controls d' = db_controls d \<and>
     rel_option (\<lambda>t t'. t_status t' = t_status t \<or> watcher_move (t_status t) (t_status t')) (get_task d key) (get_task d' key)"

lemma watched_task_write:
  assumes "task_write key (ig_db ig) d" and "key \<in> K"
  shows "watched K ig (ig\<lparr>ig_db := d\<rparr>)"
proof -
  have "rel_option watcher_move\<^sup>*\<^sup>* (status_of ig k) (status_of (ig\<lparr>ig_db := d\<rparr>) k)" for k
  proof (cases "k = key")
    case True
    have "rel_option (\<lambda>t t'. t_status t' = t_status t \<or> watcher_move (t_status t) (t_status t')) (get_task (ig_db ig) key) (get_task d key)"
      using assms by (simp add: task_write_def)
    then show ?thesis
      unfolding status_of_def option.rel_map True by (simp add: option.rel_mono_strong) (erule option.rel_mono_strong, auto)
  next
    case False
    then show ?thesis using assms by (simp add: task_write_def status_of_def)
  qed
  moreover have "view (ig\<lparr>ig_db := d\<rparr>) k = view ig k" if "k \<notin> K" for k
    using that assms by (intro view_db) (auto simp: task_write_def)
  ultimately show ?thesis using assms by (simp add: watched_def task_write_def)
qed

lemma events_only_task_write: "events_only d d' \<Longrightarrow> task_write key d d'"
  by (simp add: task_write_def events_onlyD option.rel_refl)

lemma task_write_events: "\<lbrakk>task_write key d d'; events_only d' d''\<rbrakk> \<Longrightarrow> task_write key d d''"
  by (simp add: task_write_def events_onlyD)

lemma events_task_write: "\<lbrakk>events_only d d'; task_write key d' d''\<rbrakk> \<Longrightarrow> task_write key d d''"
  by (simp add: task_write_def events_onlyD)

lemma update_tasks_task_write:
  assumes "\<And>t. t_key (f t) = t_key t"
    and "\<And>t. t_key t = key \<Longrightarrow> p t \<Longrightarrow> t_status (f t) = t_status t \<or> watcher_move (t_status t) (t_status (f t))"
  shows "task_write key d (update_tasks (\<lambda>t. t_key t = key \<and> p t) f d)"
proof -
  have get: "get_task (update_tasks (\<lambda>t. t_key t = key \<and> p t) f d) k =
      (if k = key then map_option (\<lambda>t. if p t then f t else t) (get_task d k) else get_task d k)" for k
    unfolding get_task_def update_tasks_def by (simp add: find_map_where_cond assms(1))
  have "rel_option (\<lambda>t t'. t_status t' = t_status t \<or> watcher_move (t_status t) (t_status t'))
      (get_task d key) (map_option (\<lambda>t. if p t then f t else t) (get_task d key))"
    using assms(2) get_task_Some [of d key] by (cases "get_task d key") auto
  then show ?thesis unfolding task_write_def get by (simp add: update_tasks_def)
qed

section \<open>The store calls\<close>

lemma transition_table_valid:
  "list_all (\<lambda>(s, ts). validate_task_status s = Inr s \<and> list_all (\<lambda>t. validate_task_status t = Inr t) ts) INTEGRATION_TRANSITIONS"
  by code_simp

lemma can_transition_valid:
  assumes "can_transition s t"
  shows "validate_task_status s = Inr s" "validate_task_status t = Inr t"
proof -
  obtain ts where ts: "(s, ts) \<in> set INTEGRATION_TRANSITIONS" "t \<in> set ts"
    using assms unfolding can_transition_def
    by (cases "map_of INTEGRATION_TRANSITIONS s") (auto dest: map_of_SomeD)
  then show "validate_task_status s = Inr s" "validate_task_status t = Inr t"
    using transition_table_valid by (fastforce simp: list_all_iff)+
qed

lemma set_status_framed:
  assumes move: "watcher_move expected target" and "key \<in> K"
  shows "w.framed K (set_status env key target expected)"
proof -
  have legal: "can_transition expected target" using move by (simp add: watcher_move_def)
  have "task_write key d d'" if run: "update_task_status now key target None src None (Some expected) d = Inr (d', x)"
    for now src d d' x
  proof -
    obtain r d1 where d1: "update_tasks_status now (\<lambda>t. t_key t = key \<and> (Some expected = None \<or> Some expected = Some (t_status t)))
          (\<lambda>t. t\<lparr>t_status := target, t_blocked_reason := r, t_updated_at := now, t_last_synced_at := Some now\<rparr>) d = Inr d1"
      and ev: "\<exists>pl. insert_event key ''status_changed'' src pl now d1 = Inr d'"
      using run unfolding update_task_status_def Let_def can_transition_valid [OF legal] option.case rbind_Inr_iff
        if_raise_Inr sum.inject prod.inject
      by (elim exE conjE) (hypsubst, rule that, assumption, rule exI, assumption)
    have d1': "d1 = update_tasks (\<lambda>t. t_key t = key \<and> (Some expected = None \<or> Some expected = Some (t_status t)))
          (\<lambda>t. t\<lparr>t_status := target, t_blocked_reason := r, t_updated_at := now, t_last_synced_at := Some now\<rparr>) d"
      using d1 by (simp only: update_tasks_status_Inr)
    have "task_write key d d1" unfolding d1' by (rule update_tasks_task_write) (use assms in auto)
    then show ?thesis using ev insert_event_events_only task_write_events by blast
  qed
  then have "watched K s (s\<lparr>ig_db := d\<rparr>)"
    if "update_task_status now key target None src None (Some expected) (ig_db s) = Inr (d, x)" for now src s d x
    using that watched_task_write assms(2) by blast
  then show ?thesis unfolding set_status_def by (intro w.framed_db) (auto simp: rbind_Inr_iff)
qed

lemma put_event_framed: "key \<in> K \<Longrightarrow> w.framed K (put_event env key ty payload)"
  unfolding put_event_def record_task_event_def
  by (intro w.framed_db) (auto simp: rbind_Inr_iff dest!: insert_event_events_only intro!: watched_task_write events_only_task_write)

lemma put_state_framed:
  assumes "normalize_task_key key = Inr key" "key \<in> K"
  shows "w.framed K (put_state env key new)"
  unfolding put_state_def update_integration_state_def
  by (intro w.framed_tx) (auto simp: assms rbind_Inr_iff Let_def w.refl intro!: watched_tables [of _ _ key] split: if_splits)

lemma update_pr_framed:
  assumes "normalize_task_key key = Inr key" "key \<in> K"
  shows "w.framed K (atx (update_pr_state now key values))"
  unfolding update_pr_state_def
  by (intro w.framed_tx) (auto simp: assms rbind_Inr_iff Let_def w.refl intro!: watched_tables [of _ _ key] split: if_splits)

lemma enqueue_framed:
  assumes "normalize_task_key key = Inr key" "key \<in> K"
  shows "w.framed K (atx (enqueue_for_integration now key repo stamp src pri))"
proof -
  have "watched K ig ig'" if run: "enqueue now key repo stamp src pri ig = Inr ig'" for ig ig'
  proof (cases "queued ig key")
    case True
    then show ?thesis using run by (auto simp: enqueue_def assms rbind_Inr_iff w.refl)
  next
    case False
    then show ?thesis using run
      by (auto simp: enqueue_def assms rbind_Inr_iff pr_row_of_def state_row_of_def intro!: watched_tables [of _ _ key] view_cong)
  qed
  then show ?thesis
    unfolding enqueue_for_integration_def
    by (intro w.framed_tx) (auto simp: rbind_Inr_iff split: option.splits)
qed

lemma dequeue_framed:
  assumes "normalize_task_key key = Inr key" "key \<in> K"
  shows "w.framed K (atx_unit (remove_from_queue key))"
  unfolding remove_from_queue_def dequeue_def
  by (intro w.framed_tx_unit) (auto simp: assms rbind_Inr_iff intro!: watched_tables [of _ _ key])

lemma review_framed:
  assumes "normalize_task_key key = Inr key" "key \<in> K"
  shows "w.framed K (atx_unit (record_review_evidence key row))"
  unfolding record_review_evidence_def
  by (intro w.framed_tx_unit)
     (auto simp: assms rbind_Inr_iff pr_row_of_def state_row_of_def intro!: watched_tables [of _ _ key] view_cong)

lemma record_feedback_events: "record_feedback now key n refs d = Inr d' \<Longrightarrow> events_only d d'"
  unfolding record_feedback_def rbind_Inr_iff
  using add_ticket_feedback_Inr insert_event_events_only events_only_trans by blast

lemma artifacts_task_write: "task_write key d d' \<Longrightarrow> task_write key d (d'\<lparr>db_artifacts := xs\<rparr>)"
  by (simp add: task_write_def get_task_def)

lemma review_to_ready: "watcher_move ''waiting_for_review'' ''created''"
  by code_simp

lemma aretry_framed:
  assumes "key \<in> K"
  shows "w.framed K (aretry env key n refs)"
proof -
  let ?req = "feedback_request key" and ?hook = "record_feedback (we_now env) key n refs"
  have wr: "task_write key d d'"
    if w: "retry_writes (we_now env) rid qid ?req None ?hook row latest g d = Inr (d', art)" for rid qid row latest g d d' art
  proof -
    let ?p = "\<lambda>t. t_status t = rt_from_status ?req \<and> t_active_attempt_id t = None"
    have k: "rt_task_key ?req = key" by (simp add: feedback_request_def)
    obtain d1 d2 d3 d4 pl pl' where s: "case None of None \<Rightarrow> d1 = d
         | Some n \<Rightarrow> add_ticket_feedback (we_now env) key n ''retry'' (rt_actor ?req) [] d = Inr d1" "?hook d1 = Inr d2"
      "d3 = update_tasks (\<lambda>t. t_key t = key \<and> ?p t)
         (retry_row (we_now env) (''reset_generation'' \<in> set (db_task_columns d2))) d2"
      "insert_event key ''status_changed'' (rt_actor ?req) pl (we_now env) d3 = Inr d4"
      "insert_event key ''note'' (rt_actor ?req) pl' (we_now env) d4 = Inr d'"
      by (rule retry_writes_Inr [OF w, unfolded k])
    have w1: "task_write key d2 d3" unfolding s(3)
      by (rule update_tasks_task_write) (auto simp: retry_row_def feedback_request_def review_to_ready)
    have "events_only d d2" using s(1,2) record_feedback_events by simp
    note w2 = events_task_write [OF this w1]
    show ?thesis
      by (rule task_write_events [OF task_write_events [OF w2 insert_event_events_only [OF s(4)]]
          insert_event_events_only [OF s(5)]])
  qed
  have tw: "task_write key d d'"
    if run: "retry_ticket h (we_now env) rid fid ok ?req None ?hook pr d = (d', res)" for h rid fid ok pr d d' res
    using retry_ticket_cases [OF run] unfolding retry_committed_def
    by (auto intro: events_only_task_write artifacts_task_write wr)
  have "watched K s (fst (aretry env key n refs s))" for s
    by (cases "retry_ticket (we_home env) (we_now env) (we_retry_id env key) (we_request_id env key) (we_write_ok env key)
        ?req None ?hook True (ig_db s)") (simp add: aretry_def watched_task_write [OF tw assms])
  then show ?thesis by (simp add: w.framed_def)
qed

lemmas call_framed = set_status_framed put_event_framed put_state_framed update_pr_framed enqueue_framed dequeue_framed
  review_framed aretry_framed

section \<open>One Ticket\<close>

lemma framed_case_prod: "(\<And>a b. w.framed K (f a b)) \<Longrightarrow> w.framed K (case p of (a, b) \<Rightarrow> f a b)"
  by (cases p) simp

lemma proposed_legal: "proposed_transition sn st = Some t \<Longrightarrow> watcher_move st t"
  by (auto simp: proposed_transition_def watcher_move_def split: if_splits option.splits)

lemma process_feedback_framed: "t_key task \<in> K \<Longrightarrow> w.framed K (process_feedback env task sn repo confirm)"
  unfolding process_feedback_def Let_def
  by (auto intro!: w.framed_rules framed_case_prod aretry_framed split: sum.split exn.split option.split)

lemma poll_failed_framed:
  assumes "normalize_task_key (t_key task) = Inr (t_key task)" "t_key task \<in> K"
  shows "w.framed K (poll_failed env confirm task st exc)"
  unfolding poll_failed_def Let_def
  using assms by (intro w.framed_rules call_framed) (auto simp: watcher_move_def split: if_splits)

lemma poll_recovery_framed:
  assumes "normalize_task_key (t_key task) = Inr (t_key task)" "t_key task \<in> K"
  shows "w.framed K (record_poll_recovery env task n)"
  unfolding record_poll_recovery_def Let_def using assms by (intro w.framed_rules call_framed)

lemma apply_transition_framed:
  assumes "normalize_task_key key = Inr key" "key \<in> K" "\<And>t. transition = Some t \<Longrightarrow> watcher_move status t"
  shows "w.framed K (apply_transition env key sn transition status head)"
proof -
  have "w.framed K (apply_changes_requested env key sn transition status head)"
    unfolding apply_changes_requested_def Let_def
    using assms by (intro w.framed_rules call_framed) (auto split: if_splits)
  moreover have "w.framed K (apply_cancelled env key sn status)" if "transition = Some CANCELLED"
    unfolding apply_cancelled_def using assms that by (intro w.framed_rules call_framed)
  ultimately show ?thesis
    unfolding apply_transition_def using assms(1,2) by (auto intro!: w.framed_rules call_framed)
qed

lemma outcome_ticket_framed:
  assumes "normalize_task_key (t_key task) = Inr (t_key task)" "t_status task \<noteq> INTEGRATING \<Longrightarrow> t_key task \<in> K"
  shows "w.framed K (outcome_ticket env repo confirm (task, st))"
proof (cases "t_status task = INTEGRATING")
  case True
  then show ?thesis by (simp add: outcome_ticket_def Let_def w.framed_return)
next
  case False
  note k = assms(1) assms(2) [OF False]
  have legal: "watcher_move (t_status task) t" if "(if b then None else proposed_transition sn (t_status task)) = Some t" for b sn t
    using that proposed_legal by (auto split: if_splits)
  have polled: "w.framed K (record_pr_state env (t_key task) sn st)" for sn
    unfolding record_pr_state_def using k by (intro w.framed_rules call_framed)
  have move: "w.framed K (apply_transition env (t_key task) sn
      (if feedback_defers fb then None else proposed_transition sn (t_status task)) (t_status task) head)" for sn fb head
    using k legal by (intro apply_transition_framed) auto
  show ?thesis
    unfolding outcome_ticket_def Let_def prod.case using False k
    by (auto intro!: w.framed_rules call_framed poll_failed_framed process_feedback_framed polled poll_recovery_framed move
        split: sum.split)
qed

lemma requeue_legal: "watcher_move NEEDS_REVIEW READY_FOR_INTEGRATION"
  by code_simp

lemma freshness_ticket_framed:
  assumes "normalize_task_key (t_key task) = Inr (t_key task)" "t_status task \<noteq> INTEGRATING \<Longrightarrow> t_key task \<in> K"
  shows "w.framed K (freshness_ticket env repo confirm (task, st))"
proof (cases "t_status task = INTEGRATING")
  case True
  then show ?thesis by (simp add: freshness_ticket_def Let_def w.framed_return)
next
  case False
  note k = assms(1) assms(2) [OF False]
  show ?thesis
    unfolding freshness_ticket_def Let_def prod.case using False k requeue_legal
    by (auto intro!: w.framed_rules call_framed split: option.split sum.split exn.split)
qed

section \<open>Without confirmation\<close>

interpretation same: table_frame "(=)"
  by unfold_locales simp_all

lemma outcome_ticket_dry: "same.framed (outcome_ticket env repo False c)"
  unfolding outcome_ticket_def process_feedback_def poll_failed_def Let_def
  by (cases c) (auto intro!: same.framed_rules split: sum.split exn.split option.split)

lemma freshness_ticket_dry: "same.framed (freshness_ticket env repo False c)"
  unfolding freshness_ticket_def Let_def
  by (cases c) (auto intro!: same.framed_rules split: option.split sum.split exn.split)

section \<open>The ticks\<close>

text \<open>
  The Tickets a tick may touch: an open PR with a number and a URL of the repository, named by the
  caller if the caller named any, and not being integrated.
\<close>

definition watch_scope :: "string \<Rightarrow> string list option \<Rightarrow> integration_db \<Rightarrow> string set" where
  "watch_scope repo task_keys ig =
     {k. (\<exists>r \<in> set (ig_pr ig). prs_task_key r = k \<and> col (pr_fields r) ''pr_number'' \<noteq> JNull \<and>
            col (pr_fields r) ''pr_state'' = JStr ''open'' \<and>
            (\<exists>u w. col (pr_fields r) ''pr_url'' = JStr u \<and> normalize_repo repo = Inr w \<and> repo_from_pr_url (Some u) = Some w)) \<and>
         (case task_keys of None \<Rightarrow> True | Some ks \<Rightarrow> k \<in> set ks) \<and>
         status_of ig k \<noteq> None \<and> status_of ig k \<noteq> Some INTEGRATING}"

lemma col_text_Some: "col_text v = Some u \<longleftrightarrow> v = JStr u"
  by (cases v) auto

lemma candidate_facts:
  assumes "open_pr_candidates repo ks ig = Inr cs" and "(t, st) \<in> set cs"
  shows "t \<in> set (db_tasks (ig_db ig))" "t_status t \<noteq> INTEGRATING \<Longrightarrow> t_key t \<in> watch_scope repo ks ig"
proof -
  obtain wanted marker k where w: "normalize_repo repo = Inr wanted" "get_task (ig_db ig) k = Some t"
    "case ks of None \<Rightarrow> True | Some ks \<Rightarrow> k \<in> set ks"
    "(k, st) \<in> set (rows_by_key ig (\<lambda>r. col (pr_fields r) ''pr_number'' \<noteq> JNull \<and>
              col (pr_fields r) ''pr_state'' = JStr ''open'' \<and> url_of_repo wanted marker (pr_fields r)))"
    using assms unfolding open_pr_candidates_def list_open_pr_states_def rbind_Inr_iff
    by (auto simp: set_map_filter split: if_splits option.splits)
  have k: "t \<in> set (db_tasks (ig_db ig))" "t_key t = k" using get_task_Some [OF w(2)] by simp_all
  show "t \<in> set (db_tasks (ig_db ig))" by (rule k)
  show "t_key t \<in> watch_scope repo ks ig" if "t_status t \<noteq> INTEGRATING"
    using w that unfolding watch_scope_def k(2) rows_by_key_def
    by (auto simp: status_of_def url_of_repo_def col_text_Some split: option.splits)
qed

lemma tick_framed:
  assumes keys: "\<forall>t \<in> set (db_tasks (ig_db ig)). normalize_task_key (t_key t) = Inr (t_key t)"
    and ticket: "\<And>t st K. \<lbrakk>normalize_task_key (t_key t) = Inr (t_key t); t_status t \<noteq> INTEGRATING \<Longrightarrow> t_key t \<in> K\<rbrakk>
      \<Longrightarrow> w.framed K (f (t, st))"
  shows "watched (watch_scope repo ks ig) ig
    (fst (abind (aget (open_pr_candidates repo ks)) (\<lambda>cs. abind (afor f cs) (\<lambda>os. areturn (g os))) ig))"
proof (cases "open_pr_candidates repo ks ig")
  case (Inl e)
  then show ?thesis by (simp add: abind_def aget_def w.refl)
next
  case (Inr cs)
  have "w.framed (watch_scope repo ks ig) (f c)" if c: "c \<in> set cs" for c
  proof -
    obtain t st where ts: "c = (t, st)" by (cases c)
    show ?thesis
      using candidate_facts [OF Inr c [unfolded ts]] keys unfolding ts by (intro ticket) auto
  qed
  then have "w.framed (watch_scope repo ks ig) (abind (afor f cs) (\<lambda>os. areturn (g os)))"
    by (intro w.framed_bind w.framed_for w.framed_return)
  then show ?thesis by (simp add: abind_def aget_def Inr w.framed_def)
qed

lemma bind_return: "abind m (\<lambda>x. areturn x) = m"
  by (auto simp: fun_eq_iff abind_def areturn_def split: prod.split sum.split)

lemma ticks_watched:
  assumes keys: "\<forall>t \<in> set (db_tasks (ig_db ig)). normalize_task_key (t_key t) = Inr (t_key t)"
  shows "watched (watch_scope repo ks ig) ig (fst (poll_pr_outcomes env repo ks confirm ig))"
    "watched (watch_scope repo ks ig) ig (fst (poll_target_freshness env repo ks confirm ig))"
  using tick_framed [where f = "outcome_ticket env repo confirm" and g = "\<lambda>x. x" and repo = repo and ks = ks,
      OF keys outcome_ticket_framed]
    tick_framed [where f = "freshness_ticket env repo confirm" and g = "List.map_filter id" and repo = repo and ks = ks,
      OF keys freshness_ticket_framed]
  by (simp_all add: poll_pr_outcomes_def poll_target_freshness_def bind_return)

lemma ticks_dry:
  "fst (poll_pr_outcomes env repo ks False ig) = ig" "fst (poll_target_freshness env repo ks False ig) = ig"
proof -
  have "same.framed (poll_pr_outcomes env repo ks False)"
    unfolding poll_pr_outcomes_def by (intro same.framed_rules same.framed_for outcome_ticket_dry)
  then show "fst (poll_pr_outcomes env repo ks False ig) = ig" by (simp add: same.framed_def)
  have "same.framed (poll_target_freshness env repo ks False)"
    unfolding poll_target_freshness_def by (intro same.framed_rules same.framed_for freshness_ticket_dry)
  then show "fst (poll_target_freshness env repo ks False ig) = ig" by (simp add: same.framed_def)
qed

text \<open>
  C35. A watcher tick, whichever exceptions and poll results it meets, touches only Tickets of its scope and
  only when confirmed: an unconfirmed tick leaves the whole database as it is, and a Ticket without an
  open PR of the repository, or one that is being integrated, keeps its task row, PR fields, private
  state, queue entry, worktree and review evidence. Attempts and runtime controls never change.
\<close>

theorem watcher_scope:
  assumes keys: "\<forall>t \<in> set (db_tasks (ig_db ig)). normalize_task_key (t_key t) = Inr (t_key t)"
    and tick: "ig' = fst (poll_pr_outcomes env repo ks confirm ig) \<or> ig' = fst (poll_target_freshness env repo ks confirm ig)"
  shows "(ig' \<noteq> ig \<longrightarrow> confirm) \<and> (\<forall>k. view ig' k \<noteq> view ig k \<longrightarrow> k \<in> watch_scope repo ks ig) \<and>
    db_attempts (ig_db ig') = db_attempts (ig_db ig) \<and> db_controls (ig_db ig') = db_controls (ig_db ig)"
proof -
  have "watched (watch_scope repo ks ig) ig ig'" using tick ticks_watched [OF keys] by blast
  moreover have "ig' \<noteq> ig \<longrightarrow> confirm" using tick ticks_dry by (cases confirm) auto
  ultimately show ?thesis unfolding watched_def by blast
qed

text \<open>One tick makes at most one move of a Ticket that is not being integrated: moves do not chain to a new pair.\<close>

lemma statuses_distinct:
  "distinct [READY, READY_FOR_INTEGRATION, INTEGRATING, NEEDS_REVIEW, NEEDS_DECISION, CANCELLED, COMPLETED, PAUSED]"
  by code_simp

lemma watcher_move_pairs:
  "watcher_move s t \<longleftrightarrow> s = INTEGRATING \<and> t \<in> {READY_FOR_INTEGRATION, NEEDS_DECISION} \<or>
     s = NEEDS_REVIEW \<and> t \<in> {READY_FOR_INTEGRATION, NEEDS_DECISION, CANCELLED, READY} \<or>
     s \<in> {READY_FOR_INTEGRATION, NEEDS_DECISION, PAUSED} \<and> t = CANCELLED"
  using statuses_distinct
  by (auto simp: watcher_move_def can_transition_def INTEGRATION_TRANSITIONS_def split: if_splits)

lemma watcher_moves_single: "watcher_move\<^sup>*\<^sup>* s t \<Longrightarrow> s \<noteq> INTEGRATING \<Longrightarrow> t = s \<or> watcher_move s t"
proof (induction rule: rtranclp_induct)
  case (step u t)
  then show ?case using statuses_distinct by (auto simp: watcher_move_pairs)
qed simp

text \<open>
  C36. What a tick does to the statuses, whatever GitHub and git answer: a Ticket exists after either tick if it
  existed before, and its status is the same or was changed along one edge of the transition table, one of these:
  from review to \<open>ready_for_integration\<close>, \<open>needs_decision\<close>, \<open>canceled\<close> or \<open>created\<close>; from
  \<open>ready_for_integration\<close>, \<open>needs_decision\<close> or \<open>paused\<close> to \<open>canceled\<close>. So a finished Ticket stays
  finished, a Ticket that is being integrated stays so, and no Ticket becomes integrating or completed through a
  watcher, not even when GitHub reports its PR merged.
\<close>

theorem watcher_moves_legal:
  assumes keys: "\<forall>t \<in> set (db_tasks (ig_db ig)). normalize_task_key (t_key t) = Inr (t_key t)"
    and tick: "ig' = fst (poll_pr_outcomes env repo ks confirm ig) \<or> ig' = fst (poll_target_freshness env repo ks confirm ig)"
  shows "rel_option (\<lambda>s t. t = s \<or> can_transition s t \<and>
       (s = ''waiting_for_review'' \<and> t \<in> {''ready_for_integration'', ''needs_decision'', ''canceled'', ''created''} \<or>
        s \<in> {''ready_for_integration'', ''needs_decision'', ''paused''} \<and> t = ''canceled''))
     (status_of ig k) (status_of ig' k)"
proof -
  have w: "watched (watch_scope repo ks ig) ig ig'" using tick ticks_watched [OF keys] by blast
  have m: "rel_option watcher_move\<^sup>*\<^sup>* (status_of ig k) (status_of ig' k)" using w unfolding watched_def by blast
  show ?thesis
  proof (cases "status_of ig k = Some INTEGRATING")
    case True
    then have "k \<notin> watch_scope repo ks ig" by (simp add: watch_scope_def)
    then have "view ig' k = view ig k" using w unfolding watched_def by blast
    then show ?thesis by (simp add: True view_def status_of_def option.rel_refl)
  next
    case False
    show ?thesis
    proof (cases "status_of ig k")
      case None
      then show ?thesis using m by simp
    next
      case (Some s)
      then obtain t where t: "status_of ig' k = Some t" "watcher_move\<^sup>*\<^sup>* s t" using m by (auto simp: option_rel_Some1)
      then have "t = s \<or> can_transition s t \<and> watcher_move s t"
        using watcher_moves_single [OF t(2)] False Some by (auto simp: watcher_move_def)
      then have "t = s \<or> can_transition s t \<and>
         (s = NEEDS_REVIEW \<and> t \<in> {READY_FOR_INTEGRATION, NEEDS_DECISION, CANCELLED, READY} \<or>
          s \<in> {READY_FOR_INTEGRATION, NEEDS_DECISION, PAUSED} \<and> t = CANCELLED)"
        using False by (simp only: Some watcher_move_pairs option.inject) blast
      then show ?thesis unfolding Some t(1) option.rel_inject integration_statuses .
    qed
  qed
qed

section \<open>An example\<close>

text \<open>The PR of AT-1 was closed on GitHub; AT-2 has none.\<close>

definition example_snapshot :: pr_snapshot where
  "example_snapshot =
     \<lparr>sn_number = 7, sn_url = Some ''https://github.com/o/r/pull/7'', sn_state = Some ''closed'', sn_merged = False,
      sn_merged_at = None, sn_merge_commit_sha = None, sn_head_sha = Some ''abc'', sn_head_ref = None,
      sn_base_ref = None, sn_review_decision = Some ''none'',
      sn_ci_status = Some ''success'', sn_is_draft = None, sn_title = None, sn_body = None, sn_reviews = [], sn_comments = [], sn_checks = []\<rparr>"

definition example_watcher_env :: watcher_env where
  "example_watcher_env =
     \<lparr>we_now = 50, we_home = (\<lambda>_. None), we_policy = example_policy_env example_argv, we_poll = (\<lambda>_. Inr example_snapshot),
      we_sha256 = (\<lambda>s. s), we_git = (\<lambda>_. Inl IntegrationGitError), we_is_dir = (\<lambda>_. True), we_ci_text = (\<lambda>_. []),
      we_retry_id = (\<lambda>_. ''r''), we_request_id = (\<lambda>_. ''q''), we_write_ok = (\<lambda>_. True)\<rparr>"

definition watched_db :: integration_db where
  "watched_db =
     example_integration_db\<lparr>ig_pr := [\<lparr>prs_task_key = ''AT-1'', pr_fields = [(''pr_number'', JInt 7),
       (''pr_state'', JStr ''open''), (''pr_url'', JStr ''https://github.com/o/r/pull/7'')]\<rparr>]\<rparr>"

lemma watched_db_keys: "\<forall>t \<in> set (db_tasks (ig_db watched_db)). normalize_task_key (t_key t) = Inr (t_key t)"
proof -
  have "list_all (\<lambda>t. normalize_task_key (t_key t) = Inr (t_key t)) (db_tasks (ig_db watched_db))" by code_simp
  then show ?thesis by (simp add: list_all_iff)
qed

lemma watched_db_cancelled:
  "status_of (fst (poll_pr_outcomes example_watcher_env ''o/r'' None True watched_db)) ''AT-1'' = Some CANCELLED"
  by code_simp

theorem watcher_scope_witness:
  "let ig' = fst (poll_pr_outcomes example_watcher_env ''o/r'' None True watched_db) in
     status_of ig' ''AT-1'' = Some CANCELLED \<and> view ig' ''AT-2'' = view watched_db ''AT-2''"
proof -
  have out: "''AT-2'' \<notin> watch_scope ''o/r'' None watched_db"
    by (simp add: watch_scope_def watched_db_def)
  note t = watcher_scope [where env = example_watcher_env and repo = "''o/r''" and ks = None and confirm = True,
      OF watched_db_keys disjI1 [OF refl]]
  have "view (fst (poll_pr_outcomes example_watcher_env ''o/r'' None True watched_db)) ''AT-2'' = view watched_db ''AT-2''"
    by (rule ccontr) (rule notE [OF out], rule t [THEN conjunct2, THEN conjunct1, rule_format])
  then show ?thesis using watched_db_cancelled unfolding Let_def by (intro conjI)
qed

theorem watcher_moves_legal_witness:
  "let ig' = fst (poll_pr_outcomes example_watcher_env ''o/r'' None True watched_db) in
     can_transition ''ready_for_integration'' CANCELLED \<and> status_of ig' ''AT-1'' = Some CANCELLED"
proof -
  have before: "status_of watched_db ''AT-1'' = Some ''ready_for_integration''" by code_simp
  note t = watcher_moves_legal [where env = example_watcher_env and repo = "''o/r''" and ks = None and confirm = True
      and k = "''AT-1''", OF watched_db_keys disjI1 [OF refl]]
  have "CANCELLED = ''ready_for_integration'' \<or> can_transition ''ready_for_integration'' CANCELLED"
    using t unfolding watched_db_cancelled before option.rel_inject by blast
  then show ?thesis using watched_db_cancelled unfolding Let_def by (auto simp: integration_statuses)
qed

end
