(* ===== verification/GitHub_Safety.thy ===== *)
theory GitHub_Safety
  imports Integration_Watcher
begin

text \<open>
  What passes the guards of the GitHub adapter, and what its snapshots promise to the watcher and the
  store.
\<close>

section \<open>The shape of an admitted gh api call\<close>

datatype api_item = ApiMethod string | ApiField string string | ApiEndpoint string

fun render_item :: "api_item \<Rightarrow> string list" where
  "render_item (ApiMethod m) = [''-X'', m]"
| "render_item (ApiField k v) = [''-f'', k @ ''='' @ v]"
| "render_item (ApiEndpoint e) = [e]"

fun item_methods :: "api_item list \<Rightarrow> string list" where
  "item_methods [] = []"
| "item_methods (ApiMethod m # is) = m # item_methods is"
| "item_methods (_ # is) = item_methods is"

fun item_fields :: "api_item list \<Rightarrow> string list" where
  "item_fields [] = []"
| "item_fields (ApiField k v # is) = k # item_fields is"
| "item_fields (_ # is) = item_fields is"

fun item_endpoints :: "api_item list \<Rightarrow> string list" where
  "item_endpoints [] = []"
| "item_endpoints (ApiEndpoint e # is) = e # item_endpoints is"
| "item_endpoints (_ # is) = item_endpoints is"

definition render_items :: "api_item list \<Rightarrow> string list" where
  "render_items is = concat (map render_item is)"

lemma takeWhile_first: "c \<notin> set k \<Longrightarrow> takeWhile (\<lambda>x. x \<noteq> c) (k @ c # v) = k"
  by (induction k) auto

lemma partition_on_first: "c \<notin> set k \<Longrightarrow> partition_on c (k @ c # v) = (k, True, v)"
  by (simp add: partition_on_def takeWhile_first)

lemma partition_on_True:
  assumes "partition_on c s = (k, True, v)"
  shows "s = k @ c # v" "c \<notin> set k"
proof -
  have p: "k = takeWhile (\<lambda>x. x \<noteq> c) s" "c \<in> set s" "v = drop (Suc (length k)) s"
    using assms by (auto simp: partition_on_def Let_def)
  obtain ys zs where s: "s = ys @ c # zs" "c \<notin> set ys" using split_list_first [OF p(2)] by blast
  then have "k = ys" using p(1) by (simp add: takeWhile_first)
  then show "s = k @ c # v" using p(3) s by simp
  show "c \<notin> set k" unfolding p(1) by (auto dest: set_takeWhileD)
qed

lemma update_fields_no_sep: "k \<in> set GH_API_UPDATE_FIELDS \<Longrightarrow> CHR ''='' \<notin> set k"
  by (auto simp: GH_API_UPDATE_FIELDS_def)

definition opts :: "'a option \<Rightarrow> 'a list" where
  "opts x = (case x of None \<Rightarrow> [] | Some y \<Rightarrow> [y])"

lemma opts_simps [simp]: "opts None = []" "opts (Some y) = [y]" "opts x = [] \<longleftrightarrow> x = None" "opts x = [y] \<longleftrightarrow> x = Some y"
  by (auto simp: opts_def split: option.splits)

lemma opts_Cons: "opts x = y # ys \<longleftrightarrow> x = Some y \<and> ys = []"
  by (auto simp: opts_def split: option.splits)

definition items_ok :: "api_item list \<Rightarrow> bool" where
  "items_ok is \<longleftrightarrow> set (item_fields is) \<subseteq> set GH_API_UPDATE_FIELDS \<and>
     list_all (\<lambda>e. \<not> starts_with ''-'' e) (item_endpoints is)"

lemma items_ok_simps [simp]:
  "items_ok []" "items_ok (ApiMethod m # is) = items_ok is"
  "items_ok (ApiField k v # is) = (k \<in> set GH_API_UPDATE_FIELDS \<and> items_ok is)"
  "items_ok (ApiEndpoint e # is) = (\<not> starts_with ''-'' e \<and> items_ok is)"
  by (auto simp: items_ok_def)

lemma api_args_endpoint:
  "\<not> starts_with ''-'' t \<Longrightarrow>
     api_args m e fs (t # ts) = (if e \<noteq> None then Inl GitHubPrError else api_args m (Some t) fs ts)"
  by (cases ts) (auto simp: starts_with_def)

lemma api_args_complete:
  "\<lbrakk>items_ok is; opts m @ item_methods is = opts m'; opts e @ item_endpoints is = opts e';
    distinct (fs @ item_fields is)\<rbrakk> \<Longrightarrow> api_args m e fs (render_items is) = Inr (m', e', fs @ item_fields is)"
proof (induction "is" arbitrary: m e fs)
  case Nil
  then show ?case by (auto simp: render_items_def opts_def split: option.splits)
next
  case (Cons i "is")
  show ?case
  proof (cases i)
    case (ApiMethod x)
    then have "m = None" using Cons.prems(2) by (cases m) (auto simp: opts_def split: option.splits)
    then show ?thesis using Cons.IH [of "Some x" e fs] Cons.prems ApiMethod by (simp add: render_items_def)
  next
    case (ApiField k v)
    then have "partition_on CHR ''='' (k @ ''='' @ v) = (k, True, v)" "k \<notin> set fs"
      using Cons.prems(1,4) update_fields_no_sep by (auto intro: partition_on_first)
    then show ?thesis using Cons.IH [of m e "fs @ [k]"] Cons.prems ApiField by (simp add: render_items_def)
  next
    case (ApiEndpoint x)
    then have "e = None" using Cons.prems(3) by (cases e) (auto simp: opts_def split: option.splits)
    then show ?thesis using Cons.IH [of m "Some x" fs] Cons.prems ApiEndpoint
      by (simp add: render_items_def api_args_endpoint)
  qed
qed

lemma api_args_sound:
  "api_args m e fs ts = Inr (m', e', fs') \<Longrightarrow> distinct fs \<Longrightarrow>
     \<exists>is. ts = render_items is \<and> items_ok is \<and> opts m @ item_methods is = opts m' \<and> opts e @ item_endpoints is = opts e' \<and>
       fs' = fs @ item_fields is \<and> distinct fs'"
proof (induction m e fs ts rule: api_args.induct)
  case (1 m e fs)
  then show ?case by (intro exI [of _ "[]"]) (simp add: render_items_def)
next
  case (2 m e fs t)
  then show ?case
    by (intro exI [of _ "[ApiEndpoint t]"]) (auto simp: render_items_def split: if_splits)
next
  case (3 m e fs t v ts)
  consider (X) "t = ''-X''" | (f) "t = ''-f''" | (e) "t \<noteq> ''-X''" "t \<noteq> ''-f''" by blast
  then show ?case
  proof cases
    case X
    then obtain "is" where "ts = render_items is" "items_ok is" "opts (Some v) @ item_methods is = opts m'" "m = None"
      "opts e @ item_endpoints is = opts e'" "fs' = fs @ item_fields is" "distinct fs'"
      using 3 by (auto split: if_splits)
    then show ?thesis using X by (intro exI [of _ "ApiMethod v # is"]) (simp add: render_items_def)
  next
    case f
    obtain k sep w where p: "partition_on CHR ''='' v = (k, sep, w)" by (cases "partition_on CHR ''='' v") auto
    have c: "sep" "k \<in> set GH_API_UPDATE_FIELDS" "k \<notin> set fs" "api_args m e (fs @ [k]) ts = Inr (m', e', fs')"
      using "3.prems"(1) f p by (auto split: if_splits)
    obtain "is" where i: "ts = render_items is" "items_ok is" "opts m @ item_methods is = opts m'"
      "opts e @ item_endpoints is = opts e'" "fs' = fs @ [k] @ item_fields is" "distinct fs'"
      using "3.IH"(2) [OF _ _ p [symmetric] refl _ _ c(4)] f c "3.prems"(2) by auto
    have "v = k @ ''='' @ w" using partition_on_True(1) p c(1) by simp
    then show ?thesis using f i c(2) by (intro exI [of _ "ApiField k w # is"]) (simp add: render_items_def)
  next
    case e
    then have c: "\<not> starts_with ''-'' t" "e = None" "api_args m (Some t) fs (v # ts) = Inr (m', e', fs')"
      using "3.prems"(1) by (auto split: if_splits)
    then obtain "is" where i: "v # ts = render_items is" "items_ok is" "opts m @ item_methods is = opts m'"
      "opts (Some t) @ item_endpoints is = opts e'" "fs' = fs @ item_fields is" "distinct fs'"
      using 3 e by auto
    then show ?thesis using c by (intro exI [of _ "ApiEndpoint t # is"]) (simp add: render_items_def)
  qed
qed

section \<open>Pull request endpoints\<close>

lemma digit_round_trip: "py_isdigit c \<Longrightarrow> digit_char (digit_val c) = c"
proof -
  assume "py_isdigit c"
  then have "48 \<le> (of_char c :: nat)" by (simp add: py_isdigit_def Let_def)
  then show ?thesis by (simp add: digit_char_def digit_val_def)
qed

lemma zero_char: "digit_char 0 = CHR ''0''" "digit_val CHR ''0'' = 0"
  by code_simp+

lemma decimal_of_digits:
  "\<lbrakk>s \<noteq> []; list_all py_isdigit s; hd s \<noteq> CHR ''0''\<rbrakk> \<Longrightarrow> decimal (decimal_value s) = s \<and> decimal_value s > 0"
proof (induction s rule: rev_induct)
  case (snoc c s)
  have d: "py_isdigit c" "digit_char (digit_val c) = c" "digit_val c < 10"
    using snoc.prems(2) digit_round_trip by (auto simp: py_isdigit_def digit_val_def Let_def)
  show ?case
  proof (cases "s = []")
    case True
    have "digit_val c \<noteq> 0"
    proof
      assume "digit_val c = 0"
      then have "c = digit_char 0" using d(2) by simp
      then show False using snoc.prems(3) True zero_char by simp
    qed
    then show ?thesis using True d by (subst decimal.simps) (simp add: decimal_value_def)
  next
    case False
    then have IH: "decimal (decimal_value s) = s" "decimal_value s > 0" using snoc by auto
    then show ?thesis using d by (subst decimal.simps) (simp add: div_add1_eq mod_add_eq)
  qed
qed simp

lemma hd_decimal: "n > 0 \<Longrightarrow> hd (decimal n) \<noteq> CHR ''0''"
proof (induction n rule: decimal.induct)
  case (1 n)
  show ?case
  proof (cases "n < 10")
    case True
    then have "digit_val (digit_char n) \<noteq> 0" using 1(2) by simp
    then have "digit_char n \<noteq> CHR ''0''" using zero_char(2) by metis
    then show ?thesis using True by (subst decimal.simps) simp
  next
    case False
    then show ?thesis using 1 by (subst decimal.simps) simp
  qed
qed

definition pull_endpoint :: "string \<Rightarrow> string \<Rightarrow> nat \<Rightarrow> string" where
  "pull_endpoint owner name n = ''repos/'' @ owner @ ''/'' @ name @ ''/pulls/'' @ decimal n"

lemma own_pull_iff: "own_pull owner name e \<longleftrightarrow> (\<exists>n > 0. e = pull_endpoint owner name n)"
proof
  assume "own_pull owner name e"
  let ?p = "''repos/'' @ owner @ ''/'' @ name @ ''/pulls/''"
  let ?n = "drop (length ?p) e"
  have o: "starts_with ?p e" "?n \<noteq> []" "list_all py_isdigit ?n" "hd ?n \<noteq> CHR ''0''"
    using \<open>own_pull owner name e\<close> unfolding own_pull_def Let_def by blast+
  have "e = ?p @ ?n" using o(1) unfolding starts_with_def by (metis append_take_drop_id)
  then show "\<exists>n > 0. e = pull_endpoint owner name n"
    using decimal_of_digits [OF o(2-4)] unfolding pull_endpoint_def by (intro exI [of _ "decimal_value ?n"]) simp
next
  assume "\<exists>n > 0. e = pull_endpoint owner name n"
  then obtain n where n: "n > 0" "e = pull_endpoint owner name n" by blast
  have split: "take (length p) (p @ x) = p" "drop (length p) (p @ x) = x" for p x :: string by simp_all
  let ?p = "''repos/'' @ owner @ ''/'' @ name @ ''/pulls/''"
  have "e = ?p @ decimal n" by (simp add: n(2) pull_endpoint_def)
  then show "own_pull owner name e"
    unfolding own_pull_def Let_def starts_with_def
    using split [of ?p "decimal n"] decimal_digits hd_decimal [OF n(1)] decimal_nonempty by metis
qed

text \<open>No such endpoint is a merge: it ends in a digit.\<close>

lemma decimal_last: "py_isdigit (last (decimal n))"
  using decimal_digits [of n] by (simp add: list_all_iff)

lemma digit_chars: "\<not> py_isdigit CHR ''/''" "\<not> py_isdigit (char_of (10 :: nat))" "\<not> py_isdigit CHR ''e''" "\<not> py_isdigit CHR ''s''"
  "\<not> py_isdigit CHR ''l''"
  by (simp_all add: py_isdigit_def)

lemma ends_with_last: "ends_with p s \<Longrightarrow> p \<noteq> [] \<Longrightarrow> s \<noteq> [] \<and> last s = last p"
proof -
  assume e: "ends_with p s" and p: "p \<noteq> []"
  then have "s = rev (drop (length p) (rev s)) @ p"
    unfolding ends_with_def starts_with_def by (metis append_take_drop_id length_rev rev_append rev_rev_ident)
  then show "s \<noteq> [] \<and> last s = last p" using p by (metis append_is_Nil_conv last_appendR)
qed

lemma pull_endpoint_no_merge: "\<not> merge_vector (pull_endpoint owner name n)"
proof -
  have l: "pull_endpoint owner name n \<noteq> []" "py_isdigit (last (pull_endpoint owner name n))"
    using decimal_last by (simp_all add: pull_endpoint_def)
  have v: "end_variants (pull_endpoint owner name n) = [pull_endpoint owner name n]"
    using l digit_chars by (auto simp: end_variants_def Let_def)
  have "\<not> ends_with p (pull_endpoint owner name n)" if "p \<noteq> []" "\<not> py_isdigit (last p)" for p
    using ends_with_last [OF _ that(1)] l(2) that(2) by metis
  moreover have "pull_endpoint owner name n \<noteq> p" if "p \<noteq> []" "\<not> py_isdigit (last p)" for p
    using l(2) that by metis
  ultimately show ?thesis
    using digit_chars
    by (simp add: merge_vector_def API_PR_MERGE_RE_def API_BRANCH_MERGE_RE_def API_GRAPHQL_RE_def v whole_segment_def)
qed

section \<open>The allowlist is exact\<close>

lemma gh_api_allowed_iff:
  assumes api: "is_gh_api tokens gh" and repo: "py_strip repo = owner @ ''/'' @ name"
    and words: "owner \<noteq> []" "CHR ''/'' \<notin> set owner" "name \<noteq> []" "CHR ''/'' \<notin> set name"
  shows "assert_gh_api_allowed tokens repo = Inr () \<longleftrightarrow>
    tokens ! Suc gh = ''api'' \<and>
    (\<exists>is n. drop (Suc (Suc gh)) tokens = render_items is \<and> item_methods is = [''PATCH''] \<and>
       n > 0 \<and> item_endpoints is = [pull_endpoint owner name n] \<and>
       item_fields is \<noteq> [] \<and> distinct (item_fields is) \<and> set (item_fields is) \<subseteq> {''title'', ''body''})"
    (is "_ \<longleftrightarrow> ?rhs")
proof -
  have gh: "executable_index tokens ''gh'' = Some gh" using api by (simp add: is_gh_api_def)
  have part: "partition_on CHR ''/'' (py_strip repo) = (owner, True, name)"
    using partition_on_first words(2) by (simp add: repo)
  have fields: "set GH_API_UPDATE_FIELDS = {''title'', ''body''}" by (auto simp: GH_API_UPDATE_FIELDS_def)
  let ?rest = "drop (Suc (Suc gh)) tokens"
  have "assert_gh_api_allowed tokens repo = Inr () \<longleftrightarrow>
    tokens ! Suc gh = ''api'' \<and>
    (\<exists>e fs. api_args None None [] ?rest = Inr (Some ''PATCH'', Some e, fs) \<and> own_pull owner name e \<and> fs \<noteq> [])"
    unfolding assert_gh_api_allowed_def gh option.case part prod.case using words api
    by (auto simp: rbind_Inr_iff split: option.splits)
  also have "\<dots> \<longleftrightarrow> ?rhs"
  proof -
    have "(\<exists>e fs. api_args None None [] ?rest = Inr (Some ''PATCH'', Some e, fs) \<and> own_pull owner name e \<and> fs \<noteq> []) \<longleftrightarrow>
      (\<exists>is n. ?rest = render_items is \<and> item_methods is = [''PATCH''] \<and>
       n > 0 \<and> item_endpoints is = [pull_endpoint owner name n] \<and>
       item_fields is \<noteq> [] \<and> distinct (item_fields is) \<and> set (item_fields is) \<subseteq> {''title'', ''body''})" (is "?L \<longleftrightarrow> ?R")
    proof
      assume ?L
      then obtain e fs n where e: "api_args None None [] ?rest = Inr (Some ''PATCH'', Some e, fs)" "fs \<noteq> []"
        "n > 0" "e = pull_endpoint owner name n" unfolding own_pull_iff by blast
      then show ?R using api_args_sound [OF e(1)] by (auto simp: items_ok_def fields)
    next
      assume ?R
      then obtain "is" n where i: "?rest = render_items is" "item_methods is = [''PATCH'']" "n > 0"
        "item_endpoints is = [pull_endpoint owner name n]" "item_fields is \<noteq> []" "distinct (item_fields is)"
        "set (item_fields is) \<subseteq> {''title'', ''body''}" by blast
      have "items_ok is" using i by (simp add: items_ok_def fields pull_endpoint_def starts_with_def)
      then have "api_args None None [] ?rest = Inr (Some ''PATCH'', Some (pull_endpoint owner name n), item_fields is)"
        using api_args_complete [of "is" None "Some ''PATCH''" None "Some (pull_endpoint owner name n)" "[]"] i by simp
      then show ?L using i own_pull_iff by blast
    qed
    then show ?thesis by blast
  qed
  finally show ?thesis .
qed

text \<open>
  C39. The only \<open>gh api\<close> call that passes is the update of a pull request of the adapter's own repository:
  directly after \<open>api\<close>, in any order, one \<open>-X PATCH\<close>, one endpoint \<open>repos/<owner>/<name>/pulls/<n>\<close> with a
  positive number, and at least one \<open>-f title=...\<close> or \<open>-f body=...\<close>, each field at most once; everything
  else is refused, and every call of this form is admitted.
\<close>

theorem gh_api_allowlist_exact:
  assumes api: "is_gh_api tokens gh" and repo: "py_strip repo = owner @ ''/'' @ name"
    and words: "owner \<noteq> []" "CHR ''/'' \<notin> set owner" "name \<noteq> []" "CHR ''/'' \<notin> set name"
  shows "assert_gh_api_allowed tokens repo = Inr () \<longleftrightarrow>
    tokens ! Suc gh = ''api'' \<and>
    (\<exists>is n. drop (Suc (Suc gh)) tokens = render_items is \<and> item_methods is = [''PATCH''] \<and>
       n > 0 \<and> item_endpoints is = [pull_endpoint owner name n] \<and>
       item_fields is \<noteq> [] \<and> distinct (item_fields is) \<and> set (item_fields is) \<subseteq> {''title'', ''body''})"
  by (rule gh_api_allowed_iff [OF assms])

definition example_patch :: "string list" where
  "example_patch = [''/usr/bin/gh'', ''api'', ''-X'', ''PATCH'', ''repos/o/r/pulls/7'', ''-f'', ''body=see repos/o/r/merges'']"

theorem gh_api_allowlist_exact_witness:
  "is_gh_api example_patch 0 \<and> assert_gh_api_allowed example_patch ''o/r'' = Inr ()"
proof -
  have api: "is_gh_api example_patch 0" by code_simp
  let ?is = "[ApiMethod ''PATCH'', ApiEndpoint ''repos/o/r/pulls/7'', ApiField ''body'' ''see repos/o/r/merges'']"
  have parts: "example_patch ! 1 = ''api''" "drop 2 example_patch = render_items ?is"
    "pull_endpoint ''o'' ''r'' 7 = ''repos/o/r/pulls/7''" "py_strip ''o/r'' = ''o'' @ ''/'' @ ''r''"
    by code_simp+
  have "assert_gh_api_allowed example_patch ''o/r'' = Inr ()"
    unfolding gh_api_allowlist_exact [where owner = "''o''" and name = "''r''", OF api parts(4), simplified]
    using parts by (intro conjI exI [of _ ?is] exI [of _ "7 :: nat"]) (simp_all add: numeral_2_eq_2)
  then show ?thesis using api by blast
qed

section \<open>The adapter's own commands\<close>

lemma split_on_append: "split_on c (a @ c # w) = split_on c a @ split_on c w"
  by (induction a) (auto split: list.split)

lemma path_name_last: "\<lbrakk>CHR ''/'' \<notin> set w; w \<notin> {[], ''.''}\<rbrakk> \<Longrightarrow> path_name (a @ ''/'' @ w) = w"
  by (simp add: path_name_def parse_path_def split_on_append split_on_sep_free)

lemma path_name_word: "\<lbrakk>CHR ''/'' \<notin> set w; w \<notin> {[], ''.''}\<rbrakk> \<Longrightarrow> path_name w = w"
  by (simp add: path_name_def parse_path_def split_on_sep_free)

lemma decimal_word: "CHR ''/'' \<notin> set (decimal n)" "decimal n \<notin> {[], ''.''}" "hd (decimal n) \<noteq> CHR ''-''"
proof -
  have d: "c \<in> set (decimal n) \<Longrightarrow> py_isdigit c" for c using decimal_digits [of n] by (simp add: list_all_iff)
  have x: "\<not> py_isdigit CHR ''/''" "\<not> py_isdigit CHR ''.''" "\<not> py_isdigit CHR ''-''" by code_simp+
  show "CHR ''/'' \<notin> set (decimal n)" using d x by blast
  show "decimal n \<notin> {[], ''.''}" using d x by (metis decimal_nonempty empty_iff insert_iff list.set_intros(1))
  show "hd (decimal n) \<noteq> CHR ''-''" using d x decimal_nonempty by (metis hd_in_set)
qed

lemma int_str_pos: "n > 0 \<Longrightarrow> int_str n = decimal (nat n)"
  by (simp add: int_str_def)

lemma decimal_names: "path_name (decimal n) = decimal n" "decimal n \<noteq> ''git''" "decimal n \<noteq> ''gh''"
  "\<not> starts_with ''-'' (decimal n)" "decimal n \<noteq> ''merge''" "decimal n \<noteq> ''pr''"
proof -
  show "path_name (decimal n) = decimal n" using decimal_word by (intro path_name_word) auto
  have d: "py_isdigit (hd (decimal n))" using decimal_digits [of n] by (simp add: list_all_iff)
  have "\<not> py_isdigit CHR ''g''" "\<not> py_isdigit CHR ''m''" "\<not> py_isdigit CHR ''p''" by code_simp+
  then show "decimal n \<noteq> ''git''" "decimal n \<noteq> ''gh''" "decimal n \<noteq> ''merge''" "decimal n \<noteq> ''pr''"
    using d by (metis list.sel(1))+
  show "\<not> starts_with ''-'' (decimal n)"
    using decimal_word(3) [of n] by (cases "decimal n") (simp_all add: starts_with_def)
qed

lemma plain_names:
  "path_name ''api'' = ''api''" "path_name ''-X'' = ''-X''" "path_name ''PATCH'' = ''PATCH''" "path_name ''-f'' = ''-f''"
  "path_name ''pr'' = ''pr''" "path_name ''view'' = ''view''" "path_name ''--repo'' = ''--repo''"
  "path_name ''--json'' = ''--json''" "path_name (py_join '','' PR_VIEW_FIELDS) = py_join '','' PR_VIEW_FIELDS"
  "path_name ''run'' = ''run''" "path_name ''--log-failed'' = ''--log-failed''" "path_name ''comment'' = ''comment''"
  "path_name ''--body'' = ''--body''" "path_name ''close'' = ''close''" "path_name ''--comment'' = ''--comment''"
  by code_simp+

lemma view_fields_text: "py_join '','' PR_VIEW_FIELDS \<noteq> ''git''" "py_join '','' PR_VIEW_FIELDS \<noteq> ''merge''"
  "py_join '','' PR_VIEW_FIELDS \<noteq> ''push''" "\<not> starts_with ''-'' (py_join '','' PR_VIEW_FIELDS)"
  by code_simp+

lemma plain_not_flag:
  assumes "\<not> starts_with ''-'' t"
  shows "t \<notin> set GH_GLOBAL_VALUE_FLAGS" "t \<notin> set GIT_GLOBAL_VALUE_FLAGS"
proof -
  have "list_all (starts_with ''-'') (GH_GLOBAL_VALUE_FLAGS @ GIT_GLOBAL_VALUE_FLAGS)" by code_simp
  then show "t \<notin> set GH_GLOBAL_VALUE_FLAGS" "t \<notin> set GIT_GLOBAL_VALUE_FLAGS" using assms by (auto simp: list_all_iff)
qed

lemma flag_table:
  "''--repo'' \<in> set GH_GLOBAL_VALUE_FLAGS" "''--json'' \<notin> set GH_GLOBAL_VALUE_FLAGS" "''--log-failed'' \<notin> set GH_GLOBAL_VALUE_FLAGS"
  "''--body'' \<notin> set GH_GLOBAL_VALUE_FLAGS" "''--comment'' \<notin> set GH_GLOBAL_VALUE_FLAGS" "''-X'' \<notin> set GH_GLOBAL_VALUE_FLAGS"
  "''-f'' \<notin> set GH_GLOBAL_VALUE_FLAGS" "''--json'' \<notin> set GIT_GLOBAL_VALUE_FLAGS" "''--log-failed'' \<notin> set GIT_GLOBAL_VALUE_FLAGS"
  "''-f'' \<notin> set GIT_GLOBAL_VALUE_FLAGS"
  "starts_with ''-'' ''--json''" "starts_with ''-'' ''--log-failed''" "starts_with ''-'' ''--body''" "starts_with ''-'' ''--comment''"
  "starts_with ''-'' ''-X''" "starts_with ''-'' ''-f''" "\<not> starts_with ''-'' ''api''" "\<not> starts_with ''-'' ''pr''"
  "\<not> starts_with ''-'' ''run''" "\<not> starts_with ''-'' ''view''" "\<not> starts_with ''-'' ''comment''" "\<not> starts_with ''-'' ''close''"
  "\<not> starts_with ''-'' ''PATCH''"
  by code_simp+

lemmas guard_eval = positionals_def plain_not_flag flag_table plain_names decimal_names view_fields_text

lemma run_gh_clear:
  "\<lbrakk>assert_not_a_merge_command tokens = Inr (); assert_gh_api_allowed tokens repo = Inr ()\<rbrakk> \<Longrightarrow> run_gh runner repo tokens = runner tokens"
  by (simp add: fun_eq_iff run_gh_def abind_def aget_def)

lemma guards_pass:
  assumes "executable_index tokens ''gh'' = Some gh"
    and "take 1 (positionals (drop (Suc gh) tokens) GH_GLOBAL_VALUE_FLAGS) \<noteq> [''api'']"
    and "\<not> adjacent ''pr'' ''merge'' (positionals (drop (Suc gh) tokens) GH_GLOBAL_VALUE_FLAGS)"
    and "\<And>git. executable_index tokens ''git'' = Some git \<Longrightarrow>
      take 1 (positionals (drop (Suc git) tokens) GIT_GLOBAL_VALUE_FLAGS) \<notin> {[''merge''], [''push'']}"
  shows "run_gh runner repo tokens = runner tokens"
proof -
  have "assert_not_a_merge_command tokens = Inr ()"
    using assms by (cases "executable_index tokens ''git''") (auto simp: assert_not_a_merge_command_def Let_def)
  moreover have "assert_gh_api_allowed tokens repo = Inr ()"
    using assms(1,2) by (simp add: assert_gh_api_allowed_def is_gh_api_def)
  ultimately show ?thesis by (rule run_gh_clear)
qed

lemma poll_passes:
  assumes "path_name gh_bin = ''gh''" "n > 0"
  shows "run_gh runner r (poll_pr_argv gh_bin repo n) = runner (poll_pr_argv gh_bin repo n)"
  by (rule guards_pass [of _ 0]) (use assms in \<open>auto simp: poll_pr_argv_def guard_eval int_str_pos split: if_splits\<close>)

lemma failed_logs_passes:
  assumes "path_name gh_bin = ''gh''" "n > 0"
  shows "run_gh runner r (failed_logs_argv gh_bin repo n) = runner (failed_logs_argv gh_bin repo n)"
  by (rule guards_pass [of _ 0]) (use assms in \<open>auto simp: failed_logs_argv_def guard_eval int_str_pos split: if_splits\<close>)

lemma text_passes:
  assumes "path_name gh_bin = ''gh''" "n > 0" "path_name repo \<noteq> ''git''"
  shows "run_gh runner r (comment_pr_argv gh_bin repo n body) = runner (comment_pr_argv gh_bin repo n body)"
    "run_gh runner r (close_pr_argv gh_bin repo n body) = runner (close_pr_argv gh_bin repo n body)"
  by (rule guards_pass [of _ 0];
      use assms in \<open>auto simp: comment_pr_argv_def close_pr_argv_def guard_eval int_str_pos split: if_splits\<close>)+

lemma api_scan_flag:
  "api_scan m es (''-f'' # v # ts) = api_scan m es ts" "api_scan m es (''-X'' # v # ts) = api_scan (Some v) es ts"
  by (simp_all add: api_scan.simps(2) [of _ _ "''-f''"] api_scan.simps(2) [of _ _ "''-X''"] partition_on_def
      GH_API_METHOD_FLAGS_def GH_API_FIELD_FLAGS_def)

lemma api_scan_fields: "api_scan m es (update_fields title body) = (m, es)"
  by (auto simp: update_fields_def api_scan_flag api_scan.simps(1) split: option.split)

lemma api_scan_endpoint:
  assumes "e = ''repos/'' @ x"
  shows "api_scan m es (e # ts) = api_scan m (es @ [e]) ts"
proof -
  obtain f g h where p: "partition_on CHR ''='' e = (f, g, h)" by (cases "partition_on CHR ''='' e") auto
  then have f: "f = ''repos/'' @ takeWhile (\<lambda>c. c \<noteq> CHR ''='') x"
    by (auto simp: partition_on_def Let_def assms)
  have "f \<notin> set GH_API_METHOD_FLAGS" "f \<notin> set GH_API_FIELD_FLAGS" "\<not> starts_with ''-'' e"
    by (simp_all add: f assms GH_API_METHOD_FLAGS_def GH_API_FIELD_FLAGS_def starts_with_def)
  then show ?thesis using p by (simp add: api_scan.simps(2))
qed

lemma update_passes:
  assumes gh: "path_name gh_bin = ''gh''" and n: "n > 0" and repo: "repo = owner @ ''/'' @ name" "py_strip repo = repo"
    and words: "owner \<noteq> []" "CHR ''/'' \<notin> set owner" "name \<noteq> []" "CHR ''/'' \<notin> set name"
    and fields: "title \<noteq> None \<or> body \<noteq> None"
  shows "run_gh runner repo (update_pr_argv gh_bin repo n (update_fields title body)) =
    runner (update_pr_argv gh_bin repo n (update_fields title body))"
proof -
  let ?argv = "update_pr_argv gh_bin repo n (update_fields title body)"
  let ?e = "pull_endpoint owner name (nat n)"
  have e: "?argv = gh_bin # ''api'' # ''-X'' # ''PATCH'' # ?e # update_fields title body"
    by (simp add: update_pr_argv_def pull_endpoint_def repo int_str_pos [OF n])
  have name_e: "path_name ?e = decimal (nat n)"
    using path_name_last [OF decimal_word(1,2), of "''repos/'' @ owner @ ''/'' @ name @ ''/pulls''"] by (simp add: pull_endpoint_def)
  have strip: "py_strip repo = owner @ ''/'' @ name" using repo by simp
  have gh0: "executable_index ?argv ''gh'' = Some 0" using gh by (simp add: e)
  have api: "is_gh_api ?argv 0" unfolding is_gh_api_def using gh0 by (simp add: e guard_eval)
  let ?is = "[ApiMethod ''PATCH'', ApiEndpoint ?e] @
    (case title of None \<Rightarrow> [] | Some t \<Rightarrow> [ApiField ''title'' t]) @ (case body of None \<Rightarrow> [] | Some b \<Rightarrow> [ApiField ''body'' b])"
  have "drop 2 ?argv = render_items ?is" "item_methods ?is = [''PATCH'']" "item_endpoints ?is = [?e]"
    "item_fields ?is \<noteq> []" "distinct (item_fields ?is)" "set (item_fields ?is) \<subseteq> {''title'', ''body''}"
    unfolding e using fields by (auto simp: render_items_def update_fields_def split: option.split)
  then have allowed: "assert_gh_api_allowed ?argv repo = Inr ()"
    unfolding gh_api_allowed_iff [OF api strip words]
    using n by (intro conjI exI [of _ ?is] exI [of _ "nat n"]) (simp_all add: e numeral_2_eq_2)
  have scan: "gh_api_method_and_endpoints (drop (Suc 0) ?argv) = (Some ''PATCH'', [?e])"
    unfolding gh_api_method_and_endpoints_def
    using api_scan_endpoint [of ?e "owner @ ''/'' @ name @ ''/pulls/'' @ decimal (nat n)"]
    unfolding e by (simp add: api_scan_flag api_scan_fields pull_endpoint_def)
  have "\<not> merge_vector ''PATCH''" by code_simp
  moreover have "\<not> adjacent ''pr'' ''merge'' (positionals (drop (Suc 0) ?argv) GH_GLOBAL_VALUE_FLAGS)"
    unfolding e by (auto simp: guard_eval update_fields_def pull_endpoint_def starts_with_def split: option.split)
  moreover have "take 1 (positionals (drop (Suc git) ?argv) GIT_GLOBAL_VALUE_FLAGS) \<notin> {[''merge''], [''push'']}"
    if "executable_index ?argv ''git'' = Some git" for git
    using that gh unfolding e
    by (auto simp: name_e guard_eval update_fields_def starts_with_def split: option.splits if_splits)
  ultimately have "assert_not_a_merge_command ?argv = Inr ()"
    using pull_endpoint_no_merge
    by (cases "executable_index ?argv ''git''") (auto simp: assert_not_a_merge_command_def gh0 scan Let_def)
  then show ?thesis using allowed by (rule run_gh_clear)
qed

text \<open>
  The guards never stop the adapter's own work: for every text of a title, body or comment, the update of
  a PR, the poll and the log download pass both guards and reach the runner, and so do comments and
  closing unless the repository itself is named \<open>git\<close>. (Text that mentions merge endpoints is only
  text.)
\<close>

lemma adapter_commands_pass:
  assumes gh: "path_name gh_bin = ''gh''" and n: "n > 0" and repo: "repo = owner @ ''/'' @ name" "py_strip repo = repo"
    and words: "owner \<noteq> []" "CHR ''/'' \<notin> set owner" "name \<noteq> []" "CHR ''/'' \<notin> set name"
  shows "(title \<noteq> None \<or> body \<noteq> None \<longrightarrow>
      run_gh runner repo (update_pr_argv gh_bin repo n (update_fields title body)) =
        runner (update_pr_argv gh_bin repo n (update_fields title body))) \<and>
    run_gh runner repo (poll_pr_argv gh_bin repo n) = runner (poll_pr_argv gh_bin repo n) \<and>
    run_gh runner repo (failed_logs_argv gh_bin repo n) = runner (failed_logs_argv gh_bin repo n) \<and>
    (path_name repo \<noteq> ''git'' \<longrightarrow>
      run_gh runner repo (comment_pr_argv gh_bin repo n msg) = runner (comment_pr_argv gh_bin repo n msg) \<and>
      run_gh runner repo (close_pr_argv gh_bin repo n msg) = runner (close_pr_argv gh_bin repo n msg))"
  by (intro conjI impI update_passes [OF assms] poll_passes [OF gh n] failed_logs_passes [OF gh n] text_passes [OF gh n])

text \<open>
  Creating a PR is different: its title and body are matched as if they were words of the command, so a
  PR titled \<open>pr\<close> whose text is \<open>merge\<close> is refused as a merge.
\<close>

lemma create_pr_text_refused:
  "run_gh runner ''o/r'' (create_pr_argv ''gh'' ''o/r'' True ''main'' ''taskflow/AT-1'' ''pr'' ''merge'') s = (s, Inl GitHubPrError)"
proof -
  have "assert_not_a_merge_command (create_pr_argv ''gh'' ''o/r'' True ''main'' ''taskflow/AT-1'' ''pr'' ''merge'') = Inl GitHubPrError"
    by code_simp
  then show ?thesis by (simp add: run_gh_def abind_def aget_def)
qed

section \<open>Snapshots\<close>

lemma is_ok_map_ok: "(\<And>x. x \<in> set xs \<Longrightarrow> is_ok (f x)) \<Longrightarrow> is_ok (map_ok f xs)"
proof (induction xs)
  case (Cons a xs)
  obtain y ys where "f a = Inr y" "map_ok f xs = Inr ys" using Cons by (force simp: is_ok_iff)
  then show ?case by simp
qed simp

lemma normalized_values:
  "normalize_state raw m \<in> {None, Some ''open'', Some ''closed''}"
  "normalize_review_decision raw \<in> {None, Some ''none'', Some ''approved'', Some ''changes_requested''}"
  "normalize_ci_status raw \<in> {None, Some ''none'', Some ''pending'', Some ''success'', Some ''failure''}"
  by (auto simp: normalize_state_def normalize_review_decision_def normalize_ci_status_def Let_def
      split: option.split json.split)

lemma plain_text_fields: "field_spec k = Some (nullable_field k ''str'' None) \<Longrightarrow> py_strip t \<noteq> [] \<Longrightarrow>
    coerce (nullable_field k ''str'' None) (JStr t) = Inr (JStr (py_strip t))"
  by (simp add: coerce_def nullable_field_def)

lemma snapshot_fields_coerce:
  assumes texts: "\<And>t. Some t \<in> {sn_url sn, sn_head_sha sn, sn_merge_commit_sha sn} \<Longrightarrow> py_strip t \<noteq> []"
    and enums: "sn_state sn \<in> {None, Some ''open'', Some ''closed''}"
      "sn_review_decision sn \<in> {None, Some ''none'', Some ''approved'', Some ''changes_requested''}"
      "sn_ci_status sn \<in> {None, Some ''none'', Some ''pending'', Some ''success'', Some ''failure''}"
    and kv: "(k, v) \<in> set (polled_fields sn)"
  shows "\<exists>s. field_spec k = Some s \<and> is_ok (coerce s v)"
proof -
  have specs: "field_spec ''pr_number'' = Some (nullable_field ''pr_number'' ''int'' None)"
    "field_spec ''pr_url'' = Some (nullable_field ''pr_url'' ''str'' None)"
    "field_spec ''pr_head_sha'' = Some (nullable_field ''pr_head_sha'' ''str'' None)"
    "field_spec ''merge_commit_sha'' = Some (nullable_field ''merge_commit_sha'' ''str'' None)"
    "field_spec ''pr_state'' = Some (nullable_field ''pr_state'' ''str'' (Some PR_STATE_VALUES))"
    "field_spec ''review_decision'' = Some (nullable_field ''review_decision'' ''str'' (Some REVIEW_DECISION_VALUES))"
    "field_spec ''ci_status'' = Some (nullable_field ''ci_status'' ''str'' (Some CI_STATUS_VALUES))"
    "field_spec ''pr_merged'' = Some \<lparr>pf_name = ''pr_merged'', pf_python_type = ''bool'', pf_nullable = False,
       pf_default = JBool False, pf_enum = None\<rparr>"
    by code_simp+
  have words: "py_strip ''open'' = ''open''" "py_strip ''closed'' = ''closed''" "py_strip ''none'' = ''none''"
    "py_strip ''approved'' = ''approved''" "py_strip ''changes_requested'' = ''changes_requested''"
    "py_strip ''pending'' = ''pending''" "py_strip ''success'' = ''success''" "py_strip ''failure'' = ''failure''"
    by code_simp+
  have member: "is_ok (coerce (nullable_field k ''str'' (Some es)) (jopt x))"
    if "x \<in> Some ` set es \<or> x = None" "\<And>e. e \<in> set es \<Longrightarrow> py_strip e = e \<and> e \<noteq> []" for k x es
    using that by (auto simp: coerce_def nullable_field_def jopt_def Let_def)
  have free: "is_ok (coerce (nullable_field k ''str'' None) (jopt x))" if "\<And>t. x = Some t \<Longrightarrow> py_strip t \<noteq> []" for k x
    using that by (auto simp: coerce_def nullable_field_def jopt_def Let_def split: option.split)
  have ints: "is_ok (coerce (nullable_field k ''int'' None) (JInt i))" for k i
    by (simp add: coerce_def nullable_field_def)
  have "(k, v) \<in> set (to_pr_state_fields sn)" using kv by (simp add: polled_fields_def)
  then consider "k = ''pr_number'' \<and> v = JInt (sn_number sn)" | "k = ''pr_url'' \<and> v = jopt (sn_url sn)"
    | "k = ''pr_state'' \<and> v = jopt (sn_state sn)" | "k = ''pr_merged'' \<and> v = JBool (sn_merged sn)"
    | "k = ''pr_head_sha'' \<and> v = jopt (sn_head_sha sn)" | "k = ''merge_commit_sha'' \<and> v = jopt (sn_merge_commit_sha sn)"
    | "k = ''review_decision'' \<and> v = jopt (sn_review_decision sn)" | "k = ''ci_status'' \<and> v = jopt (sn_ci_status sn)"
    unfolding to_pr_state_fields_def list.set insert_iff prod.inject empty_iff by (elim disjE FalseE) assumption+
  then show ?thesis
  proof cases
    case 3
    then show ?thesis using enums(1) specs words by (auto simp: PR_STATE_VALUES_def intro!: member)
  next
    case 4
    then show ?thesis using specs by (simp add: coerce_def)
  next
    case 7
    then show ?thesis using enums(2) specs words by (auto simp: REVIEW_DECISION_VALUES_def intro!: member)
  next
    case 8
    then show ?thesis using enums(3) specs words by (auto simp: CI_STATUS_VALUES_def intro!: member)
  qed (use specs texts ints in \<open>auto intro!: free\<close>)
qed

lemma snapshot_enums:
  "sn_state (snapshot p n) \<in> {None, Some ''open'', Some ''closed''}"
  "sn_review_decision (snapshot p n) \<in> {None, Some ''none'', Some ''approved'', Some ''changes_requested''}"
  "sn_ci_status (snapshot p n) \<in> {None, Some ''none'', Some ''pending'', Some ''success'', Some ''failure''}"
  using normalized_values by (simp_all add: snapshot_def Let_def)

lemma polled_field_names: "set (map fst (polled_fields sn)) \<subseteq> set TICKET_PR_FIELD_NAMES"
proof -
  have names: "map fst (to_pr_state_fields sn) = [''pr_number'', ''pr_url'', ''pr_state'', ''pr_merged'', ''pr_head_sha'',
      ''merge_commit_sha'', ''review_decision'', ''ci_status'']"
    by (simp add: to_pr_state_fields_def)
  have "list_all (\<lambda>k. k \<in> set TICKET_PR_FIELD_NAMES) [''pr_number'', ''pr_url'', ''pr_state'', ''pr_merged'', ''pr_head_sha'',
      ''merge_commit_sha'', ''review_decision'', ''ci_status'']" by code_simp
  then have "set (map fst (to_pr_state_fields sn)) \<subseteq> set TICKET_PR_FIELD_NAMES"
    unfolding names list_all_iff by blast
  then show ?thesis unfolding polled_fields_def by (auto simp: image_subset_iff)
qed

lemma snapshot_merged:
  "sn_merged (snapshot p n) \<longleftrightarrow> is_merged (json_get p ''state'') (or_none (json_get p ''mergedAt'')) (merge_commit_oid p)"
  "sn_merged (snapshot p n) \<Longrightarrow> sn_state (snapshot p n) = Some ''closed''"
  by (simp_all add: snapshot_def Let_def normalize_state_def)

lemma snapshot_ci:
  "sn_ci_status (snapshot p n) = Some ''failure'' \<longleftrightarrow>
     (\<exists>c \<in> set (sn_checks (snapshot p n)). check_state c \<in> set CI_FAILURE_STATES)"
  "sn_ci_status (snapshot p n) = Some ''success'' \<Longrightarrow>
     \<forall>c \<in> set (sn_checks (snapshot p n)). check_state c \<notin> set CI_FAILURE_STATES \<union> set CI_PENDING_STATES"
  by (cases "json_get p ''statusCheckRollup''";
      auto simp: snapshot_def Let_def normalize_ci_status_def list_ex_iff split: json.splits if_splits)+

text \<open>
  A poll can be trusted by its readers: the fields of every snapshot that \<open>gh\<close> output is normalised to are
  accepted by the PR store (the texts not being blank); a PR with the state \<open>MERGED\<close>, a merge time or a
  merge commit is merged and closed, so that the watcher proposes nothing for it and in particular never
  cancels its Ticket; and CI reads as failed exactly when some check failed, as successful only when none
  failed or is pending.
\<close>

lemma snapshot_sound:
  assumes texts: "\<And>t. Some t \<in> {sn_url (snapshot p n), sn_head_sha (snapshot p n), sn_merge_commit_sha (snapshot p n)} \<Longrightarrow>
      py_strip t \<noteq> []"
  shows "is_ok (validate_pr_state (polled_fields (snapshot p n))) \<and>
    (json_get p ''state'' = Some (JStr ''MERGED'') \<or> json_truthy (json_get p ''mergedAt'') \<or> json_truthy (merge_commit_oid p) \<longrightarrow>
      sn_merged (snapshot p n) \<and> sn_state (snapshot p n) = Some ''closed'' \<and> proposed_transition (snapshot p n) status = None) \<and>
    (sn_ci_status (snapshot p n) = Some ''failure'' \<longleftrightarrow>
      (\<exists>c \<in> set (sn_checks (snapshot p n)). check_state c \<in> set CI_FAILURE_STATES)) \<and>
    (sn_ci_status (snapshot p n) = Some ''success'' \<longrightarrow>
      (\<forall>c \<in> set (sn_checks (snapshot p n)). check_state c \<notin> set CI_FAILURE_STATES \<union> set CI_PENDING_STATES))"
proof -
  have "is_ok (map_ok (\<lambda>(name, v). case field_spec name of None \<Rightarrow> Inl KeyError
            | Some spec \<Rightarrow> rbind (coerce spec v) (\<lambda>c. Inr (name, c))) (polled_fields (snapshot p n)))"
    using snapshot_fields_coerce [OF texts snapshot_enums]
    by (intro is_ok_map_ok) (force simp: is_ok_iff)
  then have "is_ok (validate_pr_state (polled_fields (snapshot p n)))"
    using polled_field_names by (simp add: validate_pr_state_def)
  moreover have merged: "py_upper (py_strip ''MERGED'') = ''MERGED''" by code_simp
  have "sn_merged (snapshot p n) \<and> sn_state (snapshot p n) = Some ''closed'' \<and> proposed_transition (snapshot p n) status = None"
    if "json_get p ''state'' = Some (JStr ''MERGED'') \<or> json_truthy (json_get p ''mergedAt'') \<or> json_truthy (merge_commit_oid p)"
  proof -
    have "sn_merged (snapshot p n)" unfolding snapshot_merged is_merged_def using that merged by (auto simp: or_none_def)
    then show ?thesis using snapshot_merged(2) by (simp add: proposed_transition_def)
  qed
  ultimately show ?thesis using snapshot_ci [of p n] by blast
qed

definition example_payload :: json where
  "example_payload = JObj [(''number'', JInt 7), (''url'', JStr ''https://github.com/o/r/pull/7''), (''state'', JStr ''CLOSED''),
     (''mergedAt'', JStr ''2026-01-01''), (''statusCheckRollup'', JList [JObj [(''conclusion'', JStr ''success'')],
       JObj [(''state'', JStr ''Error'')]])]"

end
