(* ===== verification/Git_Ops.thy ===== *)
theory Git_Ops
  imports Integration_Action GitHub_Adapter
begin

text \<open>
  \<open>integration_git.py\<close>: every git command of the integration goes through \<open>run_git\<close>, which checks it
  before it runs.

  Git itself is an argument: what a command prints and returns, given every command that ran before it.
  The state of a run is the database together with the trace of the commands that were executed, git and
  \<open>gh\<close> alike. Texts of exceptions are dropped.
\<close>

section \<open>The state of an integration run\<close>

text \<open>
  What a run does that outlives it: the commands it executes and the database after each of its
  transactions. A crash leaves a prefix of these steps behind.
\<close>

datatype step = Ran "string list" | Saved integration_db

record work_state =
  ws_db :: integration_db
  ws_steps :: "step list"

type_synonym 'a run = "(work_state, 'a) prog"

fun command_of :: "step \<Rightarrow> string list option" where
  "command_of (Ran argv) = Some argv"
| "command_of (Saved _) = None"

definition ws_trace :: "work_state \<Rightarrow> string list list" where
  "ws_trace s = List.map_filter command_of (ws_steps s)"

definition ran :: "string list \<Rightarrow> work_state \<Rightarrow> work_state" where
  "ran argv s = s\<lparr>ws_steps := ws_steps s @ [Ran argv]\<rparr>"

text \<open>One transaction.\<close>

definition on_db :: "'a act \<Rightarrow> 'a run" where
  "on_db m s = (case m (ws_db s) of (d, r) \<Rightarrow> (\<lparr>ws_db = d, ws_steps = ws_steps s @ [Saved d]\<rparr>, r))"

record git_result =
  gr_returncode :: int
  gr_stdout :: string
  gr_stderr :: string

definition gr_ok :: "git_result \<Rightarrow> bool" where
  "gr_ok r \<longleftrightarrow> gr_returncode r = 0"

definition gr_combined :: "git_result \<Rightarrow> string" where
  "gr_combined r = py_strip (gr_stdout r @ gr_stderr r)"

text \<open>
  The world: the outcome of a command, the markers in the git directory of a worktree, the text of a
  conflicted file (empty when it cannot be read), and whether this process holds the integration lock.
\<close>

record git_env =
  ge_git :: "string list list \<Rightarrow> path \<Rightarrow> string list \<Rightarrow> git_result result"
  ge_marker :: "string list list \<Rightarrow> path \<Rightarrow> string \<Rightarrow> bool result"
  ge_text :: "string list list \<Rightarrow> path \<Rightarrow> string \<Rightarrow> string"
  ge_resolve :: "path \<Rightarrow> path"
  ge_locked :: bool

section \<open>Branch names\<close>

definition PROTECTED_BRANCHES :: "string list" where
  "PROTECTED_BRANCHES = [''main'', ''master'', ''trunk'']"
definition ALLOWED_PUSH_REMOTE :: string where "ALLOWED_PUSH_REMOTE = ''origin''"
definition GIT_NO_BACKGROUND_WORK :: "string list" where
  "GIT_NO_BACKGROUND_WORK = [''-c'', ''gc.autoDetach=false'', ''-c'', ''gc.auto=0'', ''-c'', ''maintenance.auto=false'']"
definition FORCE_FLAGS :: "string list" where
  "FORCE_FLAGS = [''--force'', ''-f'', ''--force-with-lease'', ''--force-if-includes'']"
definition ALLOWED_SUBCOMMANDS :: "string list" where
  "ALLOWED_SUBCOMMANDS = [''fetch'', ''rev-parse'', ''rev-list'', ''merge-base'', ''merge'', ''rebase'', ''push'', ''status'',
     ''diff'', ''add'', ''commit'', ''ls-files'', ''show'', ''grep'', ''worktree'', ''branch'']"

definition normalize_branch_ref :: "string option \<Rightarrow> string" where
  "normalize_branch_ref name =
     (let v = py_strip (case name of None \<Rightarrow> [] | Some n \<Rightarrow> n) in
      if starts_with ''refs/heads/'' v then drop 11 v
      else if starts_with ''heads/'' v then drop 6 v
      else v)"

definition protected_names :: "string option \<Rightarrow> string list" where
  "protected_names base_branch =
     map (\<lambda>n. normalize_branch_ref (Some n)) PROTECTED_BRANCHES @
     (case base_branch of None \<Rightarrow> [] | Some b \<Rightarrow> if py_strip b = [] then [] else [normalize_branch_ref (Some b)]) @ [''HEAD'']"

definition git_branch_char :: "char \<Rightarrow> bool" where
  "git_branch_char c \<longleftrightarrow> ascii_alnum c \<or> c \<in> {CHR ''.'', CHR ''_''}"

definition TASK_BRANCH_RE :: "string \<Rightarrow> bool" where
  "TASK_BRANCH_RE s \<longleftrightarrow> s \<noteq> [] \<and> git_branch_char (hd s) \<and> list_all (\<lambda>c. git_branch_char c \<or> c \<in> {CHR ''/'', CHR ''-''}) (tl s)"

definition assert_task_branch_pushable :: "string option \<Rightarrow> string option \<Rightarrow> string result" where
  "assert_task_branch_pushable task_branch base_branch =
     (let raw = py_strip (case task_branch of None \<Rightarrow> [] | Some b \<Rightarrow> b); branch = normalize_branch_ref (Some raw) in
      if raw = [] then Inl IntegrationGitError
      else if branch = [] \<or> \<not> TASK_BRANCH_RE raw \<or> contains_sub ''..'' raw then Inl IntegrationGitError
      else if branch \<in> set (protected_names base_branch) then Inl IntegrationGitError
      else Inr branch)"

definition assert_push_allowed :: "string list \<Rightarrow> string option \<Rightarrow> string option \<Rightarrow> unit result" where
  "assert_push_allowed parts task_branch base_branch =
     (if take 2 parts \<noteq> [''git'', ''push''] then Inl IntegrationGitError
      else
     rbind (assert_task_branch_pushable task_branch base_branch) (\<lambda>branch.
       let rest = drop 2 parts; rest = (if take 1 rest = [''-u''] then drop 1 rest else rest) in
       if length rest \<noteq> 2 \<or> rest ! 0 \<noteq> ALLOWED_PUSH_REMOTE then Inl IntegrationGitError
       else
         let target = rest ! 1 in
         if target \<noteq> py_strip target \<or> starts_with ''-'' target \<or> starts_with ''+'' target \<or> CHR '':'' \<in> set target
         then Inl IntegrationGitError
         else if normalize_branch_ref (Some target) \<in> set (protected_names base_branch) then Inl IntegrationGitError
         else if normalize_branch_ref (Some target) \<noteq> branch then Inl IntegrationGitError
         else Inr ()))"

definition reject_force_flags :: "string list \<Rightarrow> unit result" where
  "reject_force_flags argv =
     (if list_ex (\<lambda>p. p \<in> set FORCE_FLAGS \<or> starts_with ''--force-with-lease='' p) argv
      then Inl IntegrationGitError else Inr ())"

section \<open>Running git\<close>

text \<open>\<open>_default_runner\<close>: under the integration lock git runs as a managed child.\<close>

definition managed_argv :: "bool \<Rightarrow> string list \<Rightarrow> string list" where
  "managed_argv locked argv = (if locked then take 1 argv @ GIT_NO_BACKGROUND_WORK @ drop 1 argv else argv)"

definition command_check :: "string list \<Rightarrow> string option \<Rightarrow> string option \<Rightarrow> unit result" where
  "command_check parts task_branch base_branch =
     (case parts of
        [] \<Rightarrow> Inl IntegrationGitError
      | subcommand # _ \<Rightarrow>
          if subcommand \<notin> set ALLOWED_SUBCOMMANDS then Inl IntegrationGitError
          else if subcommand = ''push'' then assert_push_allowed (''git'' # parts) task_branch base_branch
          else reject_force_flags (''git'' # parts))"

definition run_git ::
  "git_env \<Rightarrow> path \<Rightarrow> string list \<Rightarrow> bool \<Rightarrow> string option \<Rightarrow> string option \<Rightarrow> git_result run" where
  "run_git env cwd parts check task_branch base_branch s =
     (case command_check parts task_branch base_branch of
        Inl e \<Rightarrow> (s, Inl e)
      | Inr _ \<Rightarrow>
          let argv = ''git'' # parts; s' = ran argv s in
          (case ge_git env (ws_trace s) cwd (managed_argv (ge_locked env) argv) of
             Inl e \<Rightarrow> (s', Inl (if e = OSError then IntegrationGitError else e))
           | Inr r \<Rightarrow> if check \<and> \<not> gr_ok r then (s', Inl IntegrationGitError) else (s', Inr r)))"

definition git_plain :: "git_env \<Rightarrow> path \<Rightarrow> string list \<Rightarrow> git_result run" where
  "git_plain env cwd parts = run_git env cwd parts False None None"

definition git_checked :: "git_env \<Rightarrow> path \<Rightarrow> string list \<Rightarrow> git_result run" where
  "git_checked env cwd parts = run_git env cwd parts True None None"

definition stripped_out :: "git_result \<Rightarrow> string" where
  "stripped_out r = py_strip (gr_stdout r)"

text \<open>The nonblank lines of a text, stripped (\<open>str.splitlines\<close>).\<close>

definition line_break :: "char \<Rightarrow> bool" where
  "line_break c = (let n = (of_char c :: nat) in 10 \<le> n \<and> n \<le> 13 \<or> 28 \<le> n \<and> n \<le> 30 \<or> n = 133)"

fun split_lines :: "string \<Rightarrow> string list" where
  "split_lines [] = [[]]"
| "split_lines (c # s) =
     (if line_break c then [] # split_lines s
      else case split_lines s of [] \<Rightarrow> [[c]] | w # ws \<Rightarrow> (c # w) # ws)"

definition stripped_lines :: "string \<Rightarrow> string list" where
  "stripped_lines s = filter (\<lambda>l. l \<noteq> []) (map py_strip (split_lines s))"

text \<open>\<open>int(text)\<close> of a stripped text: an optional sign and digits, single underscores between digits.\<close>

fun int_digits :: "string \<Rightarrow> string option" where
  "int_digits [] = None"
| "int_digits [c] = (if py_isdigit c then Some [c] else None)"
| "int_digits (c # d # s) =
     (if \<not> py_isdigit c then None
      else map_option (\<lambda>ds. c # ds) (int_digits (if d = CHR ''_'' then s else d # s)))"

definition py_int :: "string \<Rightarrow> int option" where
  "py_int s =
     (case s of
        [] \<Rightarrow> None
      | c # cs \<Rightarrow>
          if c = CHR ''-'' then map_option (\<lambda>ds. - int (decimal_value ds)) (int_digits cs)
          else map_option (\<lambda>ds. int (decimal_value ds)) (int_digits (if c = CHR ''+'' then cs else s)))"

section \<open>Reading\<close>

definition fetch :: "git_env \<Rightarrow> path \<Rightarrow> string \<Rightarrow> git_result run" where
  "fetch env cwd remote = git_checked env cwd [''fetch'', remote, ''--prune'']"

definition resolve_target_sha :: "git_env \<Rightarrow> path \<Rightarrow> string \<Rightarrow> string \<Rightarrow> string run" where
  "resolve_target_sha env cwd remote target_branch =
     abind (git_checked env cwd [''rev-parse'', remote @ ''/'' @ target_branch]) (\<lambda>r. areturn (stripped_out r))"

definition head_sha :: "git_env \<Rightarrow> path \<Rightarrow> string run" where
  "head_sha env cwd = abind (git_checked env cwd [''rev-parse'', ''HEAD'']) (\<lambda>r. areturn (stripped_out r))"

definition behind_count :: "git_env \<Rightarrow> path \<Rightarrow> string \<Rightarrow> string \<Rightarrow> int run" where
  "behind_count env cwd branch_ref target_ref =
     abind (git_checked env cwd [''rev-list'', ''--count'', branch_ref @ ''..'' @ target_ref]) (\<lambda>r.
       case py_int (stripped_out r) of None \<Rightarrow> araise IntegrationGitError | Some n \<Rightarrow> areturn n)"

definition commit_in_history :: "git_env \<Rightarrow> path \<Rightarrow> string \<Rightarrow> string \<Rightarrow> bool run" where
  "commit_in_history env cwd commit_sha target_ref =
     (if py_strip commit_sha = [] then areturn False
      else abind (git_plain env cwd [''merge-base'', ''--is-ancestor'', py_strip commit_sha, target_ref]) (\<lambda>r.
        areturn (gr_returncode r = 0)))"

definition diff_context :: "git_env \<Rightarrow> path \<Rightarrow> string \<Rightarrow> string run" where
  "diff_context env cwd target_ref =
     abind (git_plain env cwd [''diff'', ''--stat'', target_ref @ ''...HEAD'']) (\<lambda>r. areturn (stripped_out r))"

definition changed_files :: "git_env \<Rightarrow> path \<Rightarrow> string \<Rightarrow> string list run" where
  "changed_files env cwd target_ref =
     abind (git_plain env cwd [''diff'', ''--name-only'', target_ref @ ''...HEAD'']) (\<lambda>r. areturn (stripped_lines (gr_stdout r)))"

definition conflicted_paths :: "git_env \<Rightarrow> path \<Rightarrow> string list run" where
  "conflicted_paths env cwd =
     abind (git_plain env cwd [''diff'', ''--name-only'', ''--diff-filter=U'']) (\<lambda>r. areturn (stripped_lines (gr_stdout r)))"

definition conflict_hunks :: "git_env \<Rightarrow> path \<Rightarrow> json list run" where
  "conflict_hunks env cwd =
     abind (conflicted_paths env cwd) (\<lambda>paths.
     aget (\<lambda>s. Inr (map (\<lambda>p. JObj [(''path'', JStr p), (''hunk'', JStr (ge_text env (ws_trace s) cwd p))]) paths)))"

definition remote_branch_sha :: "git_env \<Rightarrow> path \<Rightarrow> string \<Rightarrow> string \<Rightarrow> string option run" where
  "remote_branch_sha env cwd remote branch =
     abind (git_plain env cwd [''rev-parse'', ''--verify'', ''--quiet'', ''refs/remotes/'' @ remote @ ''/'' @ branch]) (\<lambda>r.
       areturn (if gr_ok r \<and> stripped_out r \<noteq> [] then Some (stripped_out r) else None))"

definition git_common_dir :: "git_env \<Rightarrow> path \<Rightarrow> path run" where
  "git_common_dir env cwd =
     abind (git_checked env cwd [''rev-parse'', ''--path-format=absolute'', ''--git-common-dir'']) (\<lambda>r.
       areturn (ge_resolve env (parse_path (stripped_out r))))"

definition in_progress_operation :: "git_env \<Rightarrow> path \<Rightarrow> string option run" where
  "in_progress_operation env cwd =
     abind (aget (\<lambda>s. ge_marker env (ws_trace s) cwd ''MERGE_HEAD'')) (\<lambda>m.
       if m then areturn (Some ''merge'')
       else
     abind (aget (\<lambda>s. ge_marker env (ws_trace s) cwd ''rebase-merge'')) (\<lambda>r.
       if r then areturn (Some ''rebase'')
       else
     abind (aget (\<lambda>s. ge_marker env (ws_trace s) cwd ''rebase-apply'')) (\<lambda>a.
       areturn (if a then Some ''rebase'' else None))))"

section \<open>Checks after a conflict resolution\<close>

definition RESOLUTION_CHECKS :: "string list" where
  "RESOLUTION_CHECKS = [''no_operation_in_progress'', ''worktree_clean'', ''no_conflict_markers'', ''head_is_new_commit'',
     ''target_is_ancestor_of_head'']"

definition marker_scan :: "git_env \<Rightarrow> path \<Rightarrow> string \<Rightarrow> string list \<Rightarrow> bool run" where
  "marker_scan env cwd pattern paths =
     abind (git_plain env cwd ([''grep'', ''-n'', ''-I'', ''-E'', ''-e'', pattern] @ (if paths = [] then [] else ''--'' # paths))) (\<lambda>r.
       areturn (gr_returncode r = 1))"

definition UNAMBIGUOUS_MARKER_RE :: string where
  "UNAMBIGUOUS_MARKER_RE = ''^(<{7}|>{7}|[|]{7})( |$)''"
definition SEPARATOR_MARKER_RE :: string where
  "SEPARATOR_MARKER_RE = ''^={7}$''"

text \<open>The checks by name, in order, each with whether it passed.\<close>

definition verify_conflict_resolution ::
  "git_env \<Rightarrow> path \<Rightarrow> string \<Rightarrow> string \<Rightarrow> string list \<Rightarrow> (string \<times> bool) list run" where
  "verify_conflict_resolution env cwd head_before target_sha conflicted_files =
     abind (in_progress_operation env cwd) (\<lambda>operation.
     abind (git_plain env cwd [''status'', ''--porcelain=v1'', ''--untracked-files=all'']) (\<lambda>status.
     abind (marker_scan env cwd UNAMBIGUOUS_MARKER_RE []) (\<lambda>clean1.
     abind (if clean1 \<and> conflicted_files \<noteq> [] then marker_scan env cwd SEPARATOR_MARKER_RE conflicted_files
            else areturn clean1) (\<lambda>markers_clean.
     abind (acatch (abind (head_sha env cwd) (\<lambda>h. areturn (Some h)))
              (\<lambda>e. if e = IntegrationGitError then areturn None else araise e)) (\<lambda>head_after.
     abind (commit_in_history env cwd target_sha ''HEAD'') (\<lambda>contained.
     areturn (zip RESOLUTION_CHECKS
       [operation = None, gr_ok status \<and> stripped_out status = [], markers_clean,
        (case head_after of None \<Rightarrow> False | Some h \<Rightarrow> h \<noteq> head_before), contained])))))))"

definition verification_passed :: "(string \<times> bool) list \<Rightarrow> bool" where
  "verification_passed checks \<longleftrightarrow> list_all snd checks"

definition assert_head_on_task_branch :: "git_env \<Rightarrow> path \<Rightarrow> string \<Rightarrow> string option \<Rightarrow> string run" where
  "assert_head_on_task_branch env cwd task_branch expected_sha =
     (let expected_ref = ''refs/heads/'' @ normalize_branch_ref (Some task_branch) in
     abind (git_plain env cwd [''rev-parse'', ''--symbolic-full-name'', ''HEAD'']) (\<lambda>symbolic.
       let current = stripped_out symbolic in
       if \<not> gr_ok symbolic \<or> current = [] then araise IntegrationGitError
       else if current = ''HEAD'' then araise IntegrationGitError
       else if current \<noteq> expected_ref then araise IntegrationGitError
       else
     abind (git_plain env cwd [''rev-parse'', ''--verify'', ''--quiet'', expected_ref]) (\<lambda>tip_result.
       let tip = stripped_out tip_result in
       if \<not> gr_ok tip_result \<or> tip = [] then araise IntegrationGitError
       else
     abind (head_sha env cwd) (\<lambda>head.
       if tip \<noteq> head then araise IntegrationGitError
       else if expected_sha \<noteq> None \<and> expected_sha \<noteq> Some tip then araise IntegrationGitError
       else areturn tip))))"

section \<open>Writing\<close>

record update_outcome =
  uo_ok :: bool
  uo_conflicted_paths :: "string list"
  uo_already_up_to_date :: bool

definition rebase_onto_target :: "git_env \<Rightarrow> path \<Rightarrow> string \<Rightarrow> update_outcome run" where
  "rebase_onto_target env cwd target_ref =
     abind (git_plain env cwd [''rebase'', target_ref]) (\<lambda>r.
       if gr_ok r then areturn \<lparr>uo_ok = True, uo_conflicted_paths = [], uo_already_up_to_date = False\<rparr>
       else abind (conflicted_paths env cwd) (\<lambda>paths.
         areturn \<lparr>uo_ok = False, uo_conflicted_paths = paths, uo_already_up_to_date = False\<rparr>))"

definition merge_target_into_branch :: "git_env \<Rightarrow> path \<Rightarrow> string \<Rightarrow> update_outcome run" where
  "merge_target_into_branch env cwd target_ref =
     abind (git_plain env cwd [''merge'', ''--no-edit'', target_ref]) (\<lambda>r.
       if gr_ok r
       then areturn \<lparr>uo_ok = True, uo_conflicted_paths = [],
              uo_already_up_to_date = contains_sub ''Already up to date'' (gr_combined r)\<rparr>
       else abind (conflicted_paths env cwd) (\<lambda>paths.
         areturn \<lparr>uo_ok = False, uo_conflicted_paths = paths, uo_already_up_to_date = False\<rparr>))"

definition abort_rebase :: "git_env \<Rightarrow> path \<Rightarrow> git_result run" where
  "abort_rebase env cwd = git_plain env cwd [''rebase'', ''--abort'']"

definition abort_merge :: "git_env \<Rightarrow> path \<Rightarrow> git_result run" where
  "abort_merge env cwd = git_plain env cwd [''merge'', ''--abort'']"

definition stage_all :: "git_env \<Rightarrow> path \<Rightarrow> git_result run" where
  "stage_all env cwd = git_checked env cwd [''add'', ''-A'']"

definition commit_conflict_resolution :: "git_env \<Rightarrow> path \<Rightarrow> string \<Rightarrow> git_result run" where
  "commit_conflict_resolution env cwd msg =
     abind (in_progress_operation env cwd) (\<lambda>operation.
       if operation = Some ''rebase'' then git_plain env cwd [''rebase'', ''--continue'']
       else git_plain env cwd [''commit'', ''--no-edit'', ''-m'', msg])"

definition build_push_command :: "string \<Rightarrow> string \<Rightarrow> string option \<Rightarrow> bool \<Rightarrow> string list result" where
  "build_push_command remote branch base_branch set_upstream =
     (let argv = [''git'', ''push''] @ (if set_upstream then [''-u''] else []) @ [py_strip remote, py_strip branch] in
      rbind (assert_push_allowed argv (Some branch) base_branch) (\<lambda>_. Inr argv))"

definition push_branch :: "git_env \<Rightarrow> path \<Rightarrow> string \<Rightarrow> string \<Rightarrow> string option \<Rightarrow> string list run" where
  "push_branch env cwd remote branch base_branch =
     abind (aget (\<lambda>_. build_push_command remote branch base_branch False)) (\<lambda>argv.
     abind (run_git env cwd (drop 1 argv) False (Some branch) base_branch) (\<lambda>r.
       if \<not> gr_ok r then araise IntegrationGitError else areturn argv))"

end
