(* ===== verification/Integration_Run.thy ===== *)
theory Integration_Run
  imports Git_Ops Ticket_Store
begin

text \<open>
  One integration attempt: \<open>integration_controller.py\<close> with \<open>reviewer_hints.py\<close>,
  \<open>integration_conflict_resolver.py\<close> and \<open>integration_validators.py\<close>.

  The world of a run is the record \<open>integration_env\<close>: git and \<open>gh\<close>, the conflict resolver, the
  validators, the file system, the outcome of taking the repository's flock, and the two lookups that only
  feed evidence (the producer Attempt and the evidence directory). Each may answer anything, also by
  raising. Exception texts are dropped from summaries.
\<close>

section \<open>Reviewer hints\<close>

definition REPEATED_REINTEGRATION_THRESHOLD :: int where "REPEATED_REINTEGRATION_THRESHOLD = 3"
definition SIGNIFICANT_BEHIND_COUNT :: int where "SIGNIFICANT_BEHIND_COUNT = 10"
definition LARGE_DIFF_FILE_COUNT :: int where "LARGE_DIFF_FILE_COUNT = 30"
definition MIGRATION_MARKERS :: "string list" where
  "MIGRATION_MARKERS = [''migration'', ''migrations/'', ''alembic'', ''schema.sql'']"

record reviewer_hint =
  rh_code :: string
  rh_message :: string

record hint_inputs =
  hi_ai_resolved_conflict :: bool
  hi_reintegration_count :: int
  hi_behind_count :: int
  hi_changed_files :: "string list"
  hi_changed_file_count :: "int option"
  hi_overlapping_files :: "string list"
  hi_migration_changed :: "bool option"
  hi_validator_result_changed :: bool

definition hint_if :: "bool \<Rightarrow> string \<Rightarrow> string \<Rightarrow> reviewer_hint list" where
  "hint_if b code msg = (if b then [\<lparr>rh_code = code, rh_message = msg\<rparr>] else [])"

definition build_reviewer_hints :: "hint_inputs \<Rightarrow> reviewer_hint list" where
  "build_reviewer_hints i =
     (let count = hi_reintegration_count i; behind = hi_behind_count i; changed = hi_changed_files i;
          file_count = (case hi_changed_file_count i of Some n \<Rightarrow> n | None \<Rightarrow> int (length changed));
          touches_migration = (case hi_migration_changed i of
              Some b \<Rightarrow> b
            | None \<Rightarrow> list_ex (\<lambda>p. list_ex (\<lambda>m. contains_sub m (py_lower p)) MIGRATION_MARKERS) changed)
      in
      hint_if (hi_ai_resolved_conflict i) ''ai_conflict_resolution'' ''AI-assisted conflict resolution occurred.'' @
      (if count \<ge> REPEATED_REINTEGRATION_THRESHOLD
       then hint_if True ''reintegrated_repeatedly'' (''Re-integrated '' @ int_str count @ '' times.'')
       else hint_if (count \<ge> 1) ''reintegrated'' ''Re-integrated after target branch advanced.'') @
      hint_if (hi_overlapping_files i \<noteq> []) ''overlapping_files''
        (''Files overlap with recently merged Ticket: '' @ py_join '', '' (sort (hi_overlapping_files i))) @
      hint_if (behind \<ge> SIGNIFICANT_BEHIND_COUNT) ''significant_behind_count''
        (''Branch had significant behind count ('' @ int_str behind @ '').'') @
      hint_if (file_count \<ge> LARGE_DIFF_FILE_COUNT) ''large_diff'' (''Large diff ('' @ int_str file_count @ '' files changed).'') @
      hint_if touches_migration ''migration_changed'' ''Migration changed.'' @
      hint_if (hi_validator_result_changed i) ''validator_result_changed''
        ''Integration validator result changed after target update.'')"

text \<open>The warning sign U+26A0, as its UTF-8 bytes.\<close>

definition warning_sign :: string where
  "warning_sign = [char_of (226 :: nat), char_of (154 :: nat), char_of (160 :: nat), CHR '' '']"

definition render_hints_markdown :: "reviewer_hint list \<Rightarrow> string" where
  "render_hints_markdown hints = py_join newline (map (\<lambda>h. warning_sign @ rh_message h) hints)"

definition text_or :: "string option \<Rightarrow> string \<Rightarrow> string" where
  "text_or v d = (case v of None \<Rightarrow> d | Some t \<Rightarrow> if t = [] then d else t)"

definition render_reintegration_hint_block :: "string option \<Rightarrow> string \<Rightarrow> string option \<Rightarrow> string" where
  "render_reintegration_hint_block previous_base current_base trigger =
     py_join newline
       ([warning_sign @ ''Re-integrated after target branch advanced.'', [], ''Previous base:'', text_or previous_base ''unknown'',
         [], ''Current base:'', text_or (Some current_base) ''unknown''] @
        (if truthy trigger then [[], ''Trigger:'', the trigger] else []))"

section \<open>Requests, results and the world\<close>

record validator_spec =
  vs_name :: string
  vs_command :: "string list"
  vs_timeout_seconds :: "int option"

definition init_validator_spec :: "validator_spec \<Rightarrow> validator_spec result" where
  "init_validator_spec v =
     (if py_strip (vs_name v) = [] \<or> vs_command v = [] then Inl ValueError
      else Inr (v\<lparr>vs_name := py_strip (vs_name v)\<rparr>))"

record integration_request =
  ir_task_key :: string
  ir_repo :: string
  ir_target_branch :: string
  ir_remote :: string
  ir_validators :: "validator_spec list"
  ir_owner :: string
  ir_dry_run :: bool
  ir_confirm_integration :: bool
  ir_draft :: bool
  ir_title :: "string option"
  ir_body :: "string option"
  ir_trigger :: "string option"
  ir_push_no_op :: bool

definition init_integration_request :: "integration_request \<Rightarrow> integration_request result" where
  "init_integration_request r =
     rbind (normalize_task_key (ir_task_key r)) (\<lambda>key.
       if py_strip (ir_repo r) = [] then Inl ValueError
       else Inr (r\<lparr>ir_task_key := key, ir_repo := py_strip (ir_repo r)\<rparr>))"

record integration_result =
  in_ok :: bool
  in_status :: string
  in_mode :: string
  in_final_task_status :: string
  in_dry_run :: bool
  in_confirmation_required :: bool
  in_pr_number :: json
  in_pr_url :: json
  in_integrated_base_sha :: json
  in_previous_base :: json
  in_reintegration_count :: json
  in_behind_count :: int
  in_already_up_to_date :: bool
  in_validators_passed :: bool
  in_conflict_detected :: bool
  in_conflict_resolved :: bool
  in_checks_failed :: "string list"
  in_run_id :: "string option"
  in_json_path :: "path option"

datatype validator_run =
    Completed int string
  | FileNotFound
  | TimedOut string
  | NotStarted
  | ValidatorRaised exn

record integration_env =
  ie_git :: git_env
  ie_now :: timestamp
  ie_home :: "string \<Rightarrow> string option"
  ie_is_dir :: "path \<Rightarrow> bool"
  ie_run_id :: string
  ie_lock :: "bool result"
  ie_lock_evidence :: json
  ie_gh_bin :: string
  ie_gh :: "string list list \<Rightarrow> string list \<Rightarrow> (int \<times> string) result"
  ie_loads :: "string \<Rightarrow> json option"
  ie_binding :: "integration_db \<Rightarrow> json result"
  ie_evidence_root :: "integration_db \<Rightarrow> json \<Rightarrow> (path option \<times> json) result"
  ie_resolver :: "(string \<times> (string list list \<Rightarrow> json list \<Rightarrow> (string \<times> bool \<times> string) result)) option"
  ie_validator :: "string list list \<Rightarrow> path \<Rightarrow> validator_spec \<Rightarrow> validator_run"
  ie_write :: "path \<Rightarrow> unit result"

definition CONTROLLER_SOURCE :: string where "CONTROLLER_SOURCE = ''integration_controller''"

definition gh_runner :: "integration_env \<Rightarrow> work_state runner" where
  "gh_runner env argv s = (ran argv s, ie_gh env (ws_trace s) argv)"

section \<open>Store calls\<close>

definition run_status :: "integration_env \<Rightarrow> string \<Rightarrow> string \<Rightarrow> string \<Rightarrow> string \<Rightarrow> unit run" where
  "run_status env source key target expected =
     on_db (adb (\<lambda>d. rbind (update_task_status (ie_now env) key target None source None (Some expected) d) (\<lambda>(d', _). Inr d')))"

definition run_emit :: "integration_env \<Rightarrow> string \<Rightarrow> string \<Rightarrow> string \<Rightarrow> fields \<Rightarrow> unit run" where
  "run_emit env source key ty payload = on_db (adb (record_task_event (ie_now env) key ty source payload))"

definition run_state :: "integration_env \<Rightarrow> string \<Rightarrow> fields \<Rightarrow> unit run" where
  "run_state env key new = abind (on_db (atx (update_integration_state (ie_now env) key new))) (\<lambda>_. areturn ())"

definition run_artifact :: "integration_env \<Rightarrow> string \<Rightarrow> string \<Rightarrow> path \<Rightarrow> unit run" where
  "run_artifact env key ty p =
     abind (aget (\<lambda>_. ie_write env p)) (\<lambda>_.
     on_db (adb (record_task_artifact (ie_home env) (ie_now env) key ty p)))"

definition evidence_file :: "path \<Rightarrow> string \<Rightarrow> path" where
  "evidence_file dir name = path_join (path_join dir (parse_path ''integration'')) (parse_path name)"

text \<open>\<open>try: ... except E\<close>: \<open>None\<close> when exactly this exception was raised.\<close>

definition attempt :: "exn \<Rightarrow> 'a run \<Rightarrow> 'a option run" where
  "attempt exc m =
     acatch (abind m (\<lambda>x. areturn (Some x))) (\<lambda>e. if e = exc then areturn None else araise e)"

section \<open>Conflicts\<close>

definition resolve_conflicts :: "integration_env \<Rightarrow> string \<Rightarrow> json list \<Rightarrow> (bool \<times> string) run" where
  "resolve_conflicts env key hunks =
     abind (aget (\<lambda>s. Inr (case ie_resolver env of
         None \<Rightarrow> (''null'', False, ''No bounded AI conflict resolver is configured; the integration conflict was left for human decision.'')
       | Some (name, f) \<Rightarrow>
           (case f (ws_trace s) hunks of
              Inl e \<Rightarrow> (name, False, ''Conflict resolver raised an exception'')
            | Inr outcome \<Rightarrow> outcome)))) (\<lambda>(resolver, resolved, explanation).
     abind (on_db (atx_unit (record_conflict_evidence key
       \<lparr>cf_task_key = key, cf_run_id = ie_run_id env, cf_resolver = resolver, cf_resolved = resolved,
        cf_conflict_hunks = hunks, cf_explanation = Some explanation, cf_verification = None, cf_created_at = ie_now env\<rparr>))) (\<lambda>_.
     areturn (resolved, explanation)))"

section \<open>Validators\<close>

definition MAX_CAPTURED_OUTPUT_CHARS :: nat where "MAX_CAPTURED_OUTPUT_CHARS = 20000"

definition truncate_output :: "string \<Rightarrow> string" where
  "truncate_output t =
     (if length t \<le> MAX_CAPTURED_OUTPUT_CHARS then t
      else let kept = MAX_CAPTURED_OUTPUT_CHARS div 2
           in take kept t @ newline @ ''...[truncated]...'' @ newline @ drop (length t - kept) t)"

text \<open>The exit code and the output of one validator; codes 127, 124 and 126 stand for tool errors.\<close>

definition run_one :: "integration_env \<Rightarrow> path \<Rightarrow> validator_spec \<Rightarrow> (validator_spec \<times> int \<times> string) run" where
  "run_one env cwd spec =
     abind (aget (\<lambda>s. Inr (ie_validator env (ws_trace s) cwd spec))) (\<lambda>r.
       case r of
         Completed code output \<Rightarrow> areturn (spec, code, truncate_output output)
       | FileNotFound \<Rightarrow> areturn (spec, 127, ''validator command could not be executed'')
       | TimedOut output \<Rightarrow> areturn (spec, 124, truncate_output (output @ newline @ ''validator timed out''))
       | NotStarted \<Rightarrow> areturn (spec, 126, ''validator command failed to start'')
       | ValidatorRaised e \<Rightarrow> araise e)"

definition validator_status :: "int \<Rightarrow> string" where
  "validator_status code = (if code = 0 then ''passed'' else ''failed'')"

definition run_integration_validators ::
  "integration_env \<Rightarrow> string \<Rightarrow> path \<Rightarrow> path option \<Rightarrow> validator_spec list \<Rightarrow> string \<Rightarrow> string \<Rightarrow> string \<Rightarrow> bool run" where
  "run_integration_validators env key cwd artifact_dir specs branch_sha target_sha diff =
     abind (afor (run_one env cwd) specs) (\<lambda>outcomes.
     abind (afor (\<lambda>(spec, code, output).
         on_db (atx_unit (record_validator_evidence key
           \<lparr>ve_task_key = key, ve_run_id = ie_run_id env, ve_validator = vs_name spec, ve_command = vs_command spec,
            ve_status = validator_status code, ve_exit_code = Some code, ve_output = Some output,
            ve_branch_sha = Some branch_sha, ve_target_sha = Some target_sha, ve_diff_context = Some diff,
            ve_created_at = ie_now env\<rparr>))) outcomes) (\<lambda>_.
       let passed = (specs \<noteq> [] \<and> list_all (\<lambda>(_, code, _). validator_status code = ''passed'') outcomes) in
     abind (case artifact_dir of
              None \<Rightarrow> areturn ()
            | Some dir \<Rightarrow> run_artifact env key ''integration_validator_evidence''
                (evidence_file dir (''validators-'' @ ie_run_id env @ ''.json''))) (\<lambda>_.
     areturn passed)))"

section \<open>Stopping and finishing\<close>

definition RUN_STARTED :: string where "RUN_STARTED = ''running''"
definition RUN_PUBLISHING :: string where "RUN_PUBLISHING = ''publishing''"
definition RUN_CREATING_PR :: string where "RUN_CREATING_PR = ''creating_pr''"
definition RUN_INTEGRATED :: string where "RUN_INTEGRATED = ''integrated''"

record run_context =
  rx_request :: integration_request
  rx_task :: task_row
  rx_worktree :: worktree_record
  rx_mode :: string
  rx_pr_state :: fields
  rx_binding :: json
  rx_evidence_dir :: "path option"

definition rx_key :: "run_context \<Rightarrow> string" where "rx_key cx = ir_task_key (rx_request cx)"
definition rx_cwd :: "run_context \<Rightarrow> path" where "rx_cwd cx = wr_worktree_path (rx_worktree cx)"
definition rx_target_ref :: "run_context \<Rightarrow> string" where
  "rx_target_ref cx = ir_remote (rx_request cx) @ ''/'' @ ir_target_branch (rx_request cx)"

text \<open>The keyword arguments that only some results carry.\<close>

record run_extra =
  ex_behind :: int
  ex_up_to_date :: bool
  ex_validated :: bool
  ex_detected :: bool
  ex_resolved :: bool
  ex_failed :: "string list"

definition no_extra :: run_extra where
  "no_extra = \<lparr>ex_behind = 0, ex_up_to_date = False, ex_validated = False, ex_detected = False, ex_resolved = False, ex_failed = []\<rparr>"

definition count_or_zero :: "fields \<Rightarrow> json" where
  "count_or_zero st = (if json_truthy (Some (col st ''reintegration_count'')) then col st ''reintegration_count'' else JInt 0)"

definition finish ::
  "integration_env \<Rightarrow> run_context \<Rightarrow> bool \<Rightarrow> string \<Rightarrow> string \<Rightarrow> run_extra \<Rightarrow> integration_result run" where
  "finish env cx ok status final ex =
     abind (aget (\<lambda>s. get_pr_state (ws_db s) (rx_key cx))) (\<lambda>pr.
       let result = \<lparr>in_ok = ok, in_status = status, in_mode = rx_mode cx, in_final_task_status = final, in_dry_run = False,
             in_confirmation_required = False, in_pr_number = col pr ''pr_number'', in_pr_url = col pr ''pr_url'',
             in_integrated_base_sha = col pr ''integrated_base_sha'',
             in_previous_base = col (rx_pr_state cx) ''integrated_base_sha'', in_reintegration_count = count_or_zero pr,
             in_behind_count = ex_behind ex, in_already_up_to_date = ex_up_to_date ex, in_validators_passed = ex_validated ex,
             in_conflict_detected = ex_detected ex, in_conflict_resolved = ex_resolved ex, in_checks_failed = ex_failed ex,
             in_run_id = Some (ie_run_id env), in_json_path = None\<rparr>
       in
       case rx_evidence_dir cx of
         None \<Rightarrow> areturn result
       | Some dir \<Rightarrow>
           let p = evidence_file dir (''integration-'' @ ie_run_id env @ ''.json'') in
           abind (run_artifact env (rx_key cx) ''integration_result'' p) (\<lambda>_.
           areturn (result\<lparr>in_json_path := Some p\<rparr>)))"

definition stop_for_decision ::
  "integration_env \<Rightarrow> run_context \<Rightarrow> string \<Rightarrow> fields \<Rightarrow> run_extra \<Rightarrow> integration_result run" where
  "stop_for_decision env cx summary audit ex =
     abind (run_status env CONTROLLER_SOURCE (rx_key cx) NEEDS_DECISION INTEGRATING) (\<lambda>_.
     abind (run_emit env CONTROLLER_SOURCE (rx_key cx) ''integration_blocked''
       (dict_update [(''integration_run_id'', JStr (ie_run_id env)), (''mode'', JStr (rx_mode cx)), (''reason'', JStr summary),
         (''failed_checks'', JList (map JStr (ex_failed ex)))] audit)) (\<lambda>_.
     abind (run_state env (rx_key cx) [(''last_integration_status'', JStr ''needs_decision'')]) (\<lambda>_.
     finish env cx False ''needs_decision'' NEEDS_DECISION ex)))"

section \<open>Publishing\<close>

definition pr_body :: "run_context \<Rightarrow> reviewer_hint list \<Rightarrow> string \<Rightarrow> string" where
  "pr_body cx hints current_base =
     (let req = rx_request cx; task = rx_task cx;
          base_body = (case ir_body req of
              Some b \<Rightarrow> b
            | None \<Rightarrow> ''Ticket: '' @ t_key task @ newline @ text_or (t_title task) [] @ newline @ newline @
                ''Integrated against `'' @ rx_target_ref cx @ ''` @ `'' @ current_base @ ''`.'');
          rendered = render_hints_markdown hints;
          sections = [base_body] @
            (if rx_mode cx = ''reintegration''
             then [render_reintegration_hint_block (col_text (col (rx_pr_state cx) ''integrated_base_sha'')) current_base (ir_trigger req)]
             else []) @
            (if rendered \<noteq> [] then [''Reviewer hints:'' @ newline @ rendered] else [])
      in py_join (newline @ newline) (filter (\<lambda>t. t \<noteq> []) sections))"

definition increments_count :: "run_context \<Rightarrow> bool" where
  "increments_count cx \<longleftrightarrow> rx_mode cx = ''reintegration'' \<and> col (rx_pr_state cx) ''integrated_base_sha'' \<noteq> JNull"

definition as_int :: "json \<Rightarrow> int" where
  "as_int v = (case v of JInt n \<Rightarrow> n | _ \<Rightarrow> 0)"

definition publish_pr :: "integration_env \<Rightarrow> run_context \<Rightarrow> string \<Rightarrow> string \<Rightarrow> string \<Rightarrow> pr_snapshot run" where
  "publish_pr env cx title body branch_sha =
     (let req = rx_request cx; key = rx_key cx in
      if rx_mode cx = ''initial''
      then
        abind (run_state env key [(''last_integration_status'', JStr RUN_CREATING_PR)]) (\<lambda>_.
        abind (create_pr (gh_runner env) (ie_gh_bin env) (ir_repo req) (ir_draft req) (ir_target_branch req)
           (wr_branch (rx_worktree cx)) title body) (\<lambda>snapshot.
        abind (on_db (atx (update_pr_state (ie_now env) key [(''pr_number'', JInt (sn_number snapshot)),
           (''pr_url'', jopt (sn_url snapshot)), (''pr_state'', JStr ''open''), (''pr_head_sha'', JStr branch_sha)]))) (\<lambda>_.
        areturn snapshot)))
      else update_pr (gh_runner env) (ie_loads env) (ie_gh_bin env) (ir_repo req)
             (as_int (col (rx_pr_state cx) ''pr_number'')) None (Some body))"

definition complete :: "integration_env \<Rightarrow> run_context \<Rightarrow> string \<Rightarrow> string \<Rightarrow> run_extra \<Rightarrow> pr_snapshot \<Rightarrow> integration_result run" where
  "complete env cx target_sha branch_sha ex sn =
     abind (on_db (atx (record_integration_completed (ie_now env) (rx_key cx)
       [(''pr_number'', JInt (sn_number sn)), (''pr_url'', jopt (sn_url sn)),
        (''pr_state'', JStr (text_or (sn_state sn) ''open'')), (''pr_head_sha'', JStr branch_sha),
        (''integrated_base_sha'', JStr target_sha), (''reintegration_required'', JBool False)]
       (increments_count cx)
       [(''previous_integrated_base_sha'', col (rx_pr_state cx) ''integrated_base_sha''), (''new_target_sha'', JStr target_sha),
        (''behind_count'', JInt (ex_behind ex)), (''last_integration_status'', JStr RUN_INTEGRATED)]))) (\<lambda>recorded.
     abind (run_status env CONTROLLER_SOURCE (rx_key cx) NEEDS_REVIEW INTEGRATING) (\<lambda>_.
     abind (run_emit env CONTROLLER_SOURCE (rx_key cx) ''integration_completed''
       [(''integration_run_id'', JStr (ie_run_id env)), (''mode'', JStr (rx_mode cx)), (''pr_number'', JInt (sn_number sn)),
        (''integrated_base_sha'', JStr target_sha), (''reintegration_count'', count_or_zero recorded),
        (''producer_attempt_binding'', rx_binding cx)]) (\<lambda>_.
     finish env cx True ''integrated'' NEEDS_REVIEW ex)))"

definition publish ::
  "integration_env \<Rightarrow> run_context \<Rightarrow> string \<Rightarrow> string \<Rightarrow> string list \<Rightarrow> run_extra \<Rightarrow> integration_result run" where
  "publish env cx target_sha branch_sha changed ex =
     (let req = rx_request cx; key = rx_key cx; branch = wr_branch (rx_worktree cx); genv = ie_git env;
          projected = as_int (count_or_zero (rx_pr_state cx)) + (if increments_count cx then 1 else 0);
          hints = build_reviewer_hints \<lparr>hi_ai_resolved_conflict = ex_resolved ex, hi_reintegration_count = projected,
            hi_behind_count = ex_behind ex, hi_changed_files = changed, hi_changed_file_count = None, hi_overlapping_files = [],
            hi_migration_changed = None, hi_validator_result_changed = False\<rparr>;
          body = pr_body cx hints target_sha;
          title = text_or (ir_title req) (text_or (t_title (rx_task cx)) key)
      in
      abind (attempt IntegrationGitError (assert_head_on_task_branch genv (rx_cwd cx) branch (Some branch_sha))) (\<lambda>head.
        if head = None
        then stop_for_decision env cx ''Refusing to publish the branch: it is not the tree integration validated''
               [(''check'', JStr ''head_on_task_branch''), (''stage'', JStr ''before_push''), (''task_branch'', JStr branch)] (ex\<lparr>ex_up_to_date := False\<rparr>)
        else
      abind (if \<not> (rx_mode cx = ''reintegration'' \<and> ex_up_to_date ex) \<or> ir_push_no_op req then areturn True
             else abind (remote_branch_sha genv (rx_cwd cx) (ir_remote req) branch) (\<lambda>r. areturn (r \<noteq> Some branch_sha))) (\<lambda>should_push.
      abind (run_state env key [(''last_integration_status'', JStr RUN_PUBLISHING)]) (\<lambda>_.
      abind (if should_push
             then abind (attempt IntegrationGitError (push_branch genv (rx_cwd cx) (ir_remote req) branch (Some (ir_target_branch req))))
                    (\<lambda>r. areturn (r \<noteq> None))
             else areturn True) (\<lambda>pushed.
        if \<not> pushed then stop_for_decision env cx ''Could not publish the task branch'' [] no_extra
        else
      abind (attempt GitHubPrError (publish_pr env cx title body branch_sha)) (\<lambda>snapshot.
        case snapshot of
          None \<Rightarrow> stop_for_decision env cx ''GitHub PR operation failed'' [] no_extra
        | Some sn \<Rightarrow> complete env cx target_sha branch_sha ex sn))))))"

section \<open>Validating\<close>

definition validate_tree ::
  "integration_env \<Rightarrow> run_context \<Rightarrow> string \<Rightarrow> run_extra \<Rightarrow> integration_result run" where
  "validate_tree env cx target_sha ex =
     (let genv = ie_git env; branch = wr_branch (rx_worktree cx) in
      abind (attempt IntegrationGitError (assert_head_on_task_branch genv (rx_cwd cx) branch None)) (\<lambda>head.
        case head of
          None \<Rightarrow> stop_for_decision env cx ''Refusing to publish the branch: it is not the tree integration validated''
               [(''check'', JStr ''head_on_task_branch''), (''stage'', JStr ''before_validators''), (''task_branch'', JStr branch)] no_extra
        | Some branch_sha \<Rightarrow>
      abind (diff_context genv (rx_cwd cx) (rx_target_ref cx)) (\<lambda>diff.
      abind (changed_files genv (rx_cwd cx) (rx_target_ref cx)) (\<lambda>changed.
      abind (run_integration_validators env (rx_key cx) (rx_cwd cx) (rx_evidence_dir cx) (ir_validators (rx_request cx))
               branch_sha target_sha diff) (\<lambda>passed.
        if \<not> passed then stop_for_decision env cx ''Validators failed'' [] (ex\<lparr>ex_up_to_date := False\<rparr>)
        else publish env cx target_sha branch_sha changed (ex\<lparr>ex_validated := True\<rparr>))))))"

section \<open>Updating against the target\<close>

definition abort_update :: "integration_env \<Rightarrow> run_context \<Rightarrow> unit run" where
  "abort_update env cx =
     abind (if rx_mode cx = ''initial'' then abort_rebase (ie_git env) (rx_cwd cx) else abort_merge (ie_git env) (rx_cwd cx))
       (\<lambda>_. areturn ())"

definition abort_if_in_progress :: "integration_env \<Rightarrow> run_context \<Rightarrow> unit run" where
  "abort_if_in_progress env cx =
     abind (in_progress_operation (ie_git env) (rx_cwd cx)) (\<lambda>op. awhen (op \<noteq> None) (abort_update env cx))"

definition handle_conflict ::
  "integration_env \<Rightarrow> run_context \<Rightarrow> string \<Rightarrow> int \<Rightarrow> string list \<Rightarrow> integration_result run" where
  "handle_conflict env cx target_sha behind paths =
     (let genv = ie_git env; cwd = rx_cwd cx; ex = no_extra\<lparr>ex_behind := behind, ex_detected := True\<rparr> in
      abind (conflict_hunks genv cwd) (\<lambda>hunks.
      abind (head_sha genv cwd) (\<lambda>head_before.
      abind (diff_context genv cwd (rx_target_ref cx)) (\<lambda>_.
      abind (resolve_conflicts env (rx_key cx) hunks) (\<lambda>(resolved, explanation).
        if \<not> resolved
        then abind (abort_if_in_progress env cx) (\<lambda>_.
             stop_for_decision env cx ''Integration conflict could not be resolved into a conflict-free tree'' [] ex)
        else
      abind (verify_conflict_resolution genv cwd head_before target_sha paths) (\<lambda>checks.
      abind (on_db (atx_unit (record_conflict_verification (rx_key cx) (ie_run_id env)
               (map (\<lambda>(name, ok). JObj [(''name'', JStr name), (''passed'', JBool ok)]) checks)))) (\<lambda>_.
        if \<not> verification_passed checks
        then abind (abort_if_in_progress env cx) (\<lambda>_.
             stop_for_decision env cx ''AI conflict resolution failed deterministic verification'' []
               (ex\<lparr>ex_failed := map fst (filter (\<lambda>c. \<not> snd c) checks)\<rparr>))
        else validate_tree env cx target_sha (ex\<lparr>ex_resolved := True\<rparr>))))))))"

definition git_phase :: "integration_env \<Rightarrow> run_context \<Rightarrow> integration_result run" where
  "git_phase env cx =
     (let req = rx_request cx; genv = ie_git env; cwd = rx_cwd cx in
      abind (attempt IntegrationGitError
               (abind (fetch genv cwd (ir_remote req)) (\<lambda>_. resolve_target_sha genv cwd (ir_remote req) (ir_target_branch req)))) (\<lambda>target.
        case target of
          None \<Rightarrow> stop_for_decision env cx ''Could not resolve the latest target'' [] no_extra
        | Some target_sha \<Rightarrow>
      abind (behind_count genv cwd ''HEAD'' (rx_target_ref cx)) (\<lambda>behind.
      abind (if rx_mode cx = ''initial'' then rebase_onto_target genv cwd (rx_target_ref cx)
             else merge_target_into_branch genv cwd (rx_target_ref cx)) (\<lambda>outcome.
        if uo_ok outcome
        then validate_tree env cx target_sha (no_extra\<lparr>ex_behind := behind, ex_up_to_date := uo_already_up_to_date outcome\<rparr>)
        else if uo_conflicted_paths outcome = []
        then abind (abort_update env cx) (\<lambda>_.
             stop_for_decision env cx ''Integration update failed'' [] no_extra)
        else handle_conflict env cx target_sha behind (uo_conflicted_paths outcome)))))"

text \<open>The boundary: no exception of the phase leaves the Ticket in \<open>integrating\<close>.\<close>

definition guarded_git_phase :: "integration_env \<Rightarrow> run_context \<Rightarrow> integration_result run" where
  "guarded_git_phase env cx =
     acatch (git_phase env cx) (\<lambda>exc.
       abind (aget (\<lambda>s. Inr (get_task (ig_db (ws_db s)) (rx_key cx)))) (\<lambda>current.
         if map_option t_status current \<noteq> Some INTEGRATING then araise exc
         else
       abind (acatch
         (abind (in_progress_operation (ie_git env) (rx_cwd cx)) (\<lambda>operation.
            case operation of
              None \<Rightarrow> areturn ()
            | Some op \<Rightarrow> abind (if op = ''merge'' then abort_merge (ie_git env) (rx_cwd cx) else abort_rebase (ie_git env) (rx_cwd cx))
                (\<lambda>_. areturn ())))
         (\<lambda>_. areturn ())) (\<lambda>_.
       stop_for_decision env cx ''Integration failed'' [] no_extra)))"

end
