(* ===== verification/Crash_Reconciliation.thy ===== *)
theory Crash_Reconciliation
  imports Integration_Run
begin

text \<open>
  \<open>integration_crash_reconciliation.py\<close>: what the holder of a repository's lock does with Tickets that a
  dead run left in \<open>integrating\<close>.
\<close>

section \<open>Classification\<close>

definition CRASH_SOURCE :: string where "CRASH_SOURCE = ''integration_crash_reconciliation''"
definition RECONCILED :: string where "RECONCILED = ''crash_reconciled''"
definition REASON_PUSHED_WITHOUT_PR :: string where "REASON_PUSHED_WITHOUT_PR = ''integration_crash_pushed_without_pr_record''"
definition REASON_PR_WITHOUT_RECORD :: string where "REASON_PR_WITHOUT_RECORD = ''integration_crash_pr_without_db_record''"
definition REASON_AMBIGUOUS :: string where "REASON_AMBIGUOUS = ''integration_crash_ambiguous_state''"

datatype crash_case = CaseA | CaseB | CaseC | CaseD | CaseE | CaseF

fun CASE_ACTIONS :: "crash_case \<Rightarrow> string" where
  "CASE_ACTIONS CaseA = READY_FOR_INTEGRATION"
| "CASE_ACTIONS CaseB = NEEDS_DECISION"
| "CASE_ACTIONS CaseC = NEEDS_DECISION"
| "CASE_ACTIONS CaseD = READY_FOR_INTEGRATION"
| "CASE_ACTIONS CaseE = NEEDS_REVIEW"
| "CASE_ACTIONS CaseF = NEEDS_DECISION"

fun case_letter :: "crash_case \<Rightarrow> string" where
  "case_letter CaseA = ''A''" | "case_letter CaseB = ''B''" | "case_letter CaseC = ''C''"
| "case_letter CaseD = ''D''" | "case_letter CaseE = ''E''" | "case_letter CaseF = ''F''"

definition classify_crash :: "json \<Rightarrow> json \<Rightarrow> json \<Rightarrow> bool \<Rightarrow> bool \<Rightarrow> crash_case \<times> string" where
  "classify_crash marker pr_number integrated_base_sha in_queue attribution_conflict =
     (let has_pr = pr_number \<noteq> JNull in
      if attribution_conflict then (CaseF, REASON_AMBIGUOUS)
      else if marker = JStr RUN_STARTED
      then (if in_queue then (CaseA, ''integration_crash_before_publish'') else (CaseF, REASON_AMBIGUOUS))
      else if marker = JStr RUN_PUBLISHING \<or> marker = JStr RUN_CREATING_PR
      then (if \<not> has_pr
            then (if marker = JStr RUN_PUBLISHING then (CaseB, REASON_PUSHED_WITHOUT_PR) else (CaseC, REASON_PR_WITHOUT_RECORD))
            else if in_queue then (CaseD, ''integration_crash_pr_recorded_base_not'') else (CaseF, REASON_AMBIGUOUS))
      else if marker = JStr RUN_INTEGRATED
      then (if \<not> in_queue \<and> has_pr \<and> json_truthy (Some integrated_base_sha)
            then (CaseE, ''integration_crash_integrated_before_review'') else (CaseF, REASON_AMBIGUOUS))
      else (CaseF, REASON_AMBIGUOUS))"

section \<open>Which repository a Ticket belongs to\<close>

text \<open>An event without payload and one with an empty payload are the same here; neither names a repository.\<close>

definition latest_started_repo :: "db \<Rightarrow> string \<Rightarrow> string option" where
  "latest_started_repo db key =
     (case find (\<lambda>e. ev_type e = ''integration_started'' \<and> ev_payload e \<noteq> JObj []) (rev (list_task_events db key)) of
        None \<Rightarrow> None
      | Some e \<Rightarrow> Option.bind (json_get (ev_payload e) ''repo'') col_text)"

definition normalized :: "string option \<Rightarrow> string option" where
  "normalized repo =
     (case repo of
        None \<Rightarrow> None
      | Some r \<Rightarrow> if r = [] then None else (case normalize_repo r of Inl _ \<Rightarrow> Some (py_strip r) | Inr n \<Rightarrow> Some n))"

definition attribution_names ::
  "integration_env \<Rightarrow> string option \<Rightarrow> task_row \<Rightarrow> integration_db \<Rightarrow> string list result" where
  "attribution_names env queue_repo task ig =
     rbind (get_ticket (ie_home env) (ig_db ig) (t_key task)) (\<lambda>ticket.
     rbind (get_pr_state ig (t_key task)) (\<lambda>pr.
       Inr (filter (\<lambda>n. n \<noteq> []) (List.map_filter id
         [normalized (Option.bind ticket tk_github_repo), normalized queue_repo,
          repo_from_pr_url (col_text (col pr ''pr_url'')), normalized (latest_started_repo (ig_db ig) (t_key task))]))))"

text \<open>\<open>except (IntegrationGitError, OSError)\<close>.\<close>

definition git_or_os :: "'a \<Rightarrow> exn \<Rightarrow> 'a run" where
  "git_or_os x e = (if e \<in> {IntegrationGitError, OSError} then areturn x else araise e)"

definition attribution_clone :: "integration_env \<Rightarrow> task_row \<Rightarrow> path option run" where
  "attribution_clone env task =
     abind (aget (\<lambda>s. get_task_worktree (ie_home env) (ig_db (ws_db s)) (t_key task))) (\<lambda>w.
       let repo_path = (case w of None \<Rightarrow> parse_path (t_repo_path task) | Some wr \<Rightarrow> wr_repo_path wr) in
       acatch (if ie_is_dir env repo_path then abind (git_common_dir (ie_git env) repo_path) (\<lambda>p. areturn (Some p)) else areturn None)
         (git_or_os None))"

section \<open>One Ticket\<close>

record crash_report =
  cr_task_key :: string
  cr_case :: crash_case
  cr_reason_code :: string
  cr_aborted :: "string option"

text \<open>Case A undoes an unfinished rebase or merge; \<open>True\<close> when none is left.\<close>

definition abort_unfinished :: "integration_env \<Rightarrow> string \<Rightarrow> (string option \<times> bool) run" where
  "abort_unfinished env key =
     abind (aget (\<lambda>s. get_task_worktree (ie_home env) (ig_db (ws_db s)) key)) (\<lambda>w.
       case w of
         None \<Rightarrow> areturn (None, True)
       | Some wr \<Rightarrow>
           if \<not> ie_is_dir env (wr_worktree_path wr) then areturn (None, True)
           else
             let cwd = wr_worktree_path wr in
             abind (acatch (abind (in_progress_operation (ie_git env) cwd) (\<lambda>op. areturn (Some op))) (git_or_os None)) (\<lambda>found.
               case found of
                 None \<Rightarrow> areturn (None, False)
               | Some aborted \<Rightarrow>
                   acatch
                     (abind (if aborted = Some ''merge'' then abind (abort_merge (ie_git env) cwd) (\<lambda>_. areturn ())
                             else if aborted = Some ''rebase'' then abind (abort_rebase (ie_git env) cwd) (\<lambda>_. areturn ())
                             else areturn ()) (\<lambda>_.
                      abind (in_progress_operation (ie_git env) cwd) (\<lambda>still.
                      areturn (aborted, still = None))))
                     (git_or_os (aborted, False))))"

definition reconcile_one ::
  "integration_env \<Rightarrow> string \<Rightarrow> (string \<Rightarrow> string) \<Rightarrow> task_row \<Rightarrow> bool \<Rightarrow> bool \<Rightarrow> crash_report run" where
  "reconcile_one env repo_key suffix task in_queue conflict =
     (let key = t_key task in
      abind (aget (\<lambda>s. get_integration_state (ws_db s) key)) (\<lambda>state.
      abind (aget (\<lambda>s. get_pr_state (ws_db s) key)) (\<lambda>pr.
        let marker = col state ''last_integration_status'';
            (c0, r0) = classify_crash marker (col pr ''pr_number'') (col pr ''integrated_base_sha'') in_queue conflict
        in
      abind (if c0 = CaseA then abort_unfinished env key else areturn (None, True)) (\<lambda>(aborted, clean).
        let (c, reason) = (if clean then (c0, r0) else (CaseF, REASON_AMBIGUOUS)); target = CASE_ACTIONS c in
      abind (aget (\<lambda>_. validate_transition INTEGRATING target)) (\<lambda>_.
      abind (run_status env CRASH_SOURCE key target INTEGRATING) (\<lambda>_.
      abind (run_emit env CRASH_SOURCE key ''integration_crash_reconciled''
        [(''kind'', JStr CRASH_SOURCE), (''task_key'', JStr key), (''repo'', JStr repo_key), (''case'', JStr (case_letter c)),
         (''reason_code'', JStr reason), (''action'', JStr (INTEGRATING @ '' -> '' @ target)),
         (''dead_run_id'', col state ''last_integration_run_id''), (''checkpoint'', marker), (''pr_number'', col pr ''pr_number''),
         (''pr_url'', col pr ''pr_url''), (''integrated_base_sha'', col pr ''integrated_base_sha''),
         (''reintegration_count'', count_or_zero pr), (''queued'', JBool in_queue), (''aborted_operation'', jopt aborted),
         (''reconciler_run_id'', JStr (ie_run_id env)), (''lock'', ie_lock_evidence env),
         (''automated_pr_discovery'', JBool False)]) (\<lambda>_.
      abind (if target = NEEDS_DECISION
             then abind (run_emit env CRASH_SOURCE key ''integration_blocked''
                    [(''integration_run_id'', col state ''last_integration_run_id''), (''reason_code'', JStr reason),
                     (''crash_case'', JStr (case_letter c))]) (\<lambda>_.
                  run_state env key [(''last_integration_status'', JStr ''needs_decision'')])
             else if target = READY_FOR_INTEGRATION
             then run_state env key [(''last_integration_status'', JStr RECONCILED)]
             else areturn ()) (\<lambda>_.
      abind (case t_artifact_dir task of
               None \<Rightarrow> areturn ()
             | Some dir \<Rightarrow> run_artifact env key CRASH_SOURCE (evidence_file (parse_path dir)
                 (''crash-reconciliation-'' @ ie_run_id env @ ''-'' @ suffix key @ ''.json''))) (\<lambda>_.
      areturn \<lparr>cr_task_key = key, cr_case = c, cr_reason_code = reason, cr_aborted = aborted\<rparr>)))))))))"

section \<open>One repository\<close>

definition reconcile_ticket ::
  "integration_env \<Rightarrow> string \<Rightarrow> path \<Rightarrow> (string \<Rightarrow> string) \<Rightarrow> (string \<times> string) list \<Rightarrow> task_row \<Rightarrow> crash_report option run" where
  "reconcile_ticket env repo_key clone suffix queue_repos task =
     abind (aget (\<lambda>s. attribution_names env (map_of queue_repos (t_key task)) task (ws_db s))) (\<lambda>names.
     abind (attribution_clone env task) (\<lambda>found.
       if found \<noteq> Some clone \<and> repo_key \<notin> set names then areturn None
       else
         let conflict = (list_ex (\<lambda>n. n \<noteq> repo_key) names \<or> found \<noteq> None \<and> found \<noteq> Some clone) in
         abind (reconcile_one env repo_key suffix task (map_of queue_repos (t_key task) \<noteq> None) conflict) (\<lambda>r.
         areturn (Some r))))"

definition reconcile_integrating_tickets ::
  "integration_env \<Rightarrow> string \<Rightarrow> path \<Rightarrow> (string \<Rightarrow> string) \<Rightarrow> crash_report list run" where
  "reconcile_integrating_tickets env repo_key clone suffix =
     abind (aget (\<lambda>s. list_tasks (ig_db (ws_db s)) None (Some INTEGRATING))) (\<lambda>found.
       let candidates = sort_key t_key found in
       if candidates = [] then areturn []
       else
     abind (aget (\<lambda>s. Inr (list_queue_repos (ws_db s)))) (\<lambda>queue_repos.
     abind (afor (reconcile_ticket env repo_key clone suffix queue_repos) candidates) (\<lambda>rs.
     areturn (List.map_filter id rs))))"

end
