(* ===== verification/Integration_Controller.thy ===== *)
theory Integration_Controller
  imports Crash_Reconciliation
begin

text \<open>
  The entry points of \<open>integration_controller.py\<close>: \<open>integrate_task\<close> and \<open>reconcile_repository\<close>, around
  the git phase of the theory \<open>Integration_Run\<close> and the crash reconciliation.
\<close>

section \<open>Under the lock\<close>

definition integrate_under_lock ::
  "integration_env \<Rightarrow> integration_request \<Rightarrow> task_row \<Rightarrow> worktree_record \<Rightarrow> string \<Rightarrow> fields \<Rightarrow> integration_result run" where
  "integrate_under_lock env req task worktree mode pr_state =
     abind (aget (\<lambda>s. ie_binding env (ws_db s))) (\<lambda>binding.
     abind (aget (\<lambda>s. ie_evidence_root env (ws_db s) binding)) (\<lambda>(dir, evidence).
       let key = ir_task_key req;
           cx = \<lparr>rx_request = req, rx_task = task, rx_worktree = worktree, rx_mode = mode, rx_pr_state = pr_state,
                 rx_binding = binding, rx_evidence_dir = dir\<rparr>
       in
     abind (run_state env key [(''last_integration_run_id'', JStr (ie_run_id env)),
       (''last_integration_status'', JStr RUN_STARTED), (''trigger_task_key'', jopt (ir_trigger req))]) (\<lambda>_.
     abind (run_status env CONTROLLER_SOURCE key INTEGRATING READY_FOR_INTEGRATION) (\<lambda>_.
     abind (run_emit env CONTROLLER_SOURCE key ''integration_started''
       [(''integration_run_id'', JStr (ie_run_id env)), (''mode'', JStr mode), (''repo'', JStr (ir_repo req)),
        (''producer_attempt_binding'', binding), (''evidence_root'', evidence), (''integration_lock'', ie_lock_evidence env)]) (\<lambda>_.
       case assert_task_branch_pushable (Some (wr_branch worktree)) (Some (ir_target_branch req)) of
         Inl e \<Rightarrow> stop_for_decision env cx ''Refusing to integrate before running any git command'' [] no_extra
       | Inr _ \<Rightarrow> guarded_git_phase env cx)))))"

section \<open>Entry\<close>

definition simple_result ::
  "integration_request \<Rightarrow> bool \<Rightarrow> string \<Rightarrow> string \<Rightarrow> string \<Rightarrow> fields \<Rightarrow> bool \<Rightarrow> integration_result" where
  "simple_result req ok status mode final pr confirmation_required =
     \<lparr>in_ok = ok, in_status = status, in_mode = mode, in_final_task_status = final,
      in_dry_run = (ir_dry_run req \<or> \<not> ir_confirm_integration req), in_confirmation_required = confirmation_required,
      in_pr_number = col pr ''pr_number'', in_pr_url = col pr ''pr_url'', in_integrated_base_sha = col pr ''integrated_base_sha'',
      in_previous_base = JNull, in_reintegration_count = count_or_zero pr, in_behind_count = 0, in_already_up_to_date = False,
      in_validators_passed = False, in_conflict_detected = False, in_conflict_resolved = False, in_checks_failed = [],
      in_run_id = None, in_json_path = None\<rparr>"

definition entry_guard :: "integration_request \<Rightarrow> task_row \<Rightarrow> string \<Rightarrow> fields \<Rightarrow> integration_result option" where
  "entry_guard req task mode pr =
     (if t_status task \<noteq> READY_FOR_INTEGRATION \<or> json_truthy (Some (col pr ''pr_merged''))
      then Some (simple_result req False ''blocked'' mode (t_status task) pr False) else None)"

definition mode_of :: "fields \<Rightarrow> string" where
  "mode_of pr = (if col pr ''pr_number'' = JNull then ''initial'' else ''reintegration'')"

definition reconcile_on_acquire ::
  "integration_env \<Rightarrow> string \<Rightarrow> string \<Rightarrow> path \<Rightarrow> (string \<Rightarrow> string) \<Rightarrow> crash_report list run" where
  "reconcile_on_acquire env repo key clone suffix =
     abind (aget (\<lambda>s. Inr (get_integration_lock (ws_db s) repo))) (\<lambda>leftover.
     abind (reconcile_integrating_tickets env key clone suffix) (\<lambda>reports.
     abind (awhen (leftover \<noteq> None) (on_db (\<lambda>d. (fst (clear_integration_lock repo d), Inr ())))) (\<lambda>_.
     areturn reports)))"

text \<open>Git before the lock is held, and the world of a process that holds it.\<close>

definition unlocked_git :: "integration_env \<Rightarrow> git_env" where
  "unlocked_git env = (ie_git env)\<lparr>ge_locked := False\<rparr>"

definition holding_lock :: "integration_env \<Rightarrow> integration_env" where
  "holding_lock env = env\<lparr>ie_git := (ie_git env)\<lparr>ge_locked := True\<rparr>\<rparr>"

definition release_row :: "string \<Rightarrow> string \<Rightarrow> unit run" where
  "release_row key owner = on_db (\<lambda>d. (fst (release_integration_lock key owner d), Inr ()))"

definition locked_integration ::
  "integration_env \<Rightarrow> (string \<Rightarrow> string) \<Rightarrow> integration_request \<Rightarrow> string \<Rightarrow> path \<Rightarrow> task_row \<Rightarrow> worktree_record \<Rightarrow> integration_result run" where
  "locked_integration env suffix req key clone task worktree =
     afinally
       (abind (reconcile_on_acquire env (ir_repo req) key clone suffix) (\<lambda>_.
        abind (on_db (\<lambda>d. (fst (acquire_integration_lock (ie_now env) key (ir_owner req) d), Inr ()))) (\<lambda>_.
        abind (aget (\<lambda>s. Inr (case get_task (ig_db (ws_db s)) (ir_task_key req) of None \<Rightarrow> task | Some t \<Rightarrow> t))) (\<lambda>task'.
        abind (aget (\<lambda>s. get_pr_state (ws_db s) (ir_task_key req))) (\<lambda>pr.
          case entry_guard req task' (mode_of pr) pr of
            Some r \<Rightarrow> areturn r
          | None \<Rightarrow> integrate_under_lock env req task' worktree (mode_of pr) pr)))))
       (release_row key (ir_owner req))"

definition integrate_task ::
  "integration_env \<Rightarrow> (string \<Rightarrow> string) \<Rightarrow> integration_request \<Rightarrow> integration_result run" where
  "integrate_task env suffix req =
     abind (aget (\<lambda>s. case get_task (ig_db (ws_db s)) (ir_task_key req) of
         None \<Rightarrow> Inl IntegrationControllerError | Some t \<Rightarrow> Inr t)) (\<lambda>task.
     abind (aget (\<lambda>s. rbind (get_task_worktree (ie_home env) (ig_db (ws_db s)) (ir_task_key req)) (\<lambda>w.
         case w of None \<Rightarrow> Inl IntegrationControllerError | Some wr \<Rightarrow> Inr wr))) (\<lambda>worktree.
       if \<not> ie_is_dir env (wr_worktree_path worktree) then araise IntegrationControllerError
       else
     abind (aget (\<lambda>s. get_pr_state (ws_db s) (ir_task_key req))) (\<lambda>pr.
     abind (aget (\<lambda>_. case repo_from_pr_url (col_text (col pr ''pr_url'')) of
         None \<Rightarrow> Inr False | Some r \<Rightarrow> rbind (normalize_repo (ir_repo req)) (\<lambda>n. Inr (r \<noteq> n)))) (\<lambda>foreign.
       let mode = mode_of pr; confirmed = (\<not> ir_dry_run req \<and> ir_confirm_integration req) in
       if foreign then areturn (simple_result req False ''blocked'' mode (t_status task) pr False)
       else
         case (entry_guard req task mode pr, confirmed \<and> t_status task = INTEGRATING) of
           (Some r, False) \<Rightarrow> areturn r
         | _ \<Rightarrow>
             if \<not> confirmed
             then areturn (simple_result req True ''dry_run'' mode (t_status task) pr (\<not> ir_confirm_integration req))
             else
     abind (git_common_dir (unlocked_git env) (wr_worktree_path worktree)) (\<lambda>clone.
     abind (aget (\<lambda>_. normalize_repo (ir_repo req))) (\<lambda>key.
     abind (aget (\<lambda>_. ie_lock env)) (\<lambda>acquired.
       if \<not> acquired then areturn (simple_result req False ''lock_unavailable'' mode (t_status task) pr False)
       else locked_integration (holding_lock env) suffix req key clone task worktree)))))))"

definition reconcile_repository ::
  "integration_env \<Rightarrow> (string \<Rightarrow> string) \<Rightarrow> string \<Rightarrow> path \<Rightarrow> string \<Rightarrow> crash_report list option run" where
  "reconcile_repository env suffix repo repo_path task_key =
     abind (git_common_dir (unlocked_git env) repo_path) (\<lambda>clone.
     abind (aget (\<lambda>_. normalize_task_key task_key)) (\<lambda>_.
     abind (aget (\<lambda>_. normalize_repo repo)) (\<lambda>key.
     abind (aget (\<lambda>_. ie_lock env)) (\<lambda>acquired.
       if \<not> acquired then areturn None
       else abind (reconcile_on_acquire (holding_lock env) repo key clone suffix) (\<lambda>reports. areturn (Some reports))))))"

end
