(* ===== verification/Run_Facts.thy ===== *)
theory Run_Facts
  imports Integration_Controller Watcher_Safety
begin

text \<open>
  Tools for the correctness of an integration run: triples for actions that may raise, and what each store
  call of a run does to the few columns that decide about a Ticket (its status, the checkpoint of the run,
  its PR fields and its validator evidence).
\<close>

section \<open>Triples\<close>

text \<open>From a state with \<open>P\<close> the action returns in \<open>Q\<close> or raises in \<open>E\<close>.\<close>

definition triple :: "('s \<Rightarrow> bool) \<Rightarrow> ('s, 'a) prog \<Rightarrow> ('a \<Rightarrow> 's \<Rightarrow> bool) \<Rightarrow> ('s \<Rightarrow> bool) \<Rightarrow> bool" where
  "triple P m Q E \<longleftrightarrow> (\<forall>s. P s \<longrightarrow> (case m s of (s', Inl _) \<Rightarrow> E s' | (s', Inr x) \<Rightarrow> Q x s'))"

lemma tripleI: "(\<And>s s' r. \<lbrakk>P s; m s = (s', r)\<rbrakk> \<Longrightarrow> (case r of Inl _ \<Rightarrow> E s' | Inr x \<Rightarrow> Q x s')) \<Longrightarrow> triple P m Q E"
  unfolding triple_def by (metis (mono_tags, lifting) case_prod_conv surj_pair sum.case_eq_if)

lemma tripleD: "\<lbrakk>triple P m Q E; P s; m s = (s', r)\<rbrakk> \<Longrightarrow> (case r of Inl _ \<Rightarrow> E s' | Inr x \<Rightarrow> Q x s')"
  unfolding triple_def by fastforce

lemma triple_return: "(\<And>s. P s \<Longrightarrow> Q x s) \<Longrightarrow> triple P (areturn x) Q E"
  by (simp add: triple_def areturn_def)

lemma triple_raise: "(\<And>s. P s \<Longrightarrow> E s) \<Longrightarrow> triple P (araise e) Q E"
  by (simp add: triple_def araise_def)

lemma triple_get: "\<lbrakk>\<And>s x. \<lbrakk>P s; f s = Inr x\<rbrakk> \<Longrightarrow> Q x s; \<And>s. P s \<Longrightarrow> E s\<rbrakk> \<Longrightarrow> triple P (aget f) Q E"
  by (auto simp: triple_def aget_def split: sum.split)

lemma triple_bind:
  assumes "triple P m R E" "\<And>x. triple (R x) (f x) Q E"
  shows "triple P (abind m f) Q E"
proof (rule tripleI)
  fix s s' r
  assume P: "P s" and run: "abind m f s = (s', r)"
  obtain s1 r1 where m: "m s = (s1, r1)" by (cases "m s")
  note first = tripleD [OF assms(1) P m]
  show "case r of Inl _ \<Rightarrow> E s' | Inr x \<Rightarrow> Q x s'"
  proof (cases r1)
    case (Inl e)
    then show ?thesis using run first by (auto simp: abind_def m)
  next
    case (Inr x)
    then have "f x s1 = (s', r)" "R x s1" using run first by (auto simp: abind_def m)
    then show ?thesis using tripleD [OF assms(2)] by blast
  qed
qed

lemma triple_catch:
  assumes "triple P m Q D" "\<And>e. triple D (h e) Q E"
  shows "triple P (acatch m h) Q E"
proof (rule tripleI)
  fix s s' r
  assume P: "P s" and run: "acatch m h s = (s', r)"
  obtain s1 r1 where m: "m s = (s1, r1)" by (cases "m s")
  note first = tripleD [OF assms(1) P m]
  show "case r of Inl _ \<Rightarrow> E s' | Inr x \<Rightarrow> Q x s'"
  proof (cases r1)
    case (Inl e)
    then have "h e s1 = (s', r)" "D s1" using run first by (auto simp: acatch_def m)
    then show ?thesis using tripleD [OF assms(2)] by blast
  next
    case (Inr x)
    then show ?thesis using run first by (auto simp: acatch_def m)
  qed
qed

lemma triple_weaken:
  "\<lbrakk>triple P' m Q' E'; \<And>s. P s \<Longrightarrow> P' s; \<And>x s. Q' x s \<Longrightarrow> Q x s; \<And>s. E' s \<Longrightarrow> E s\<rbrakk> \<Longrightarrow> triple P m Q E"
  unfolding triple_def by (fastforce split: sum.splits)

lemma triple_if: "\<lbrakk>b \<Longrightarrow> triple P m Q E; \<not> b \<Longrightarrow> triple P n Q E\<rbrakk> \<Longrightarrow> triple P (if b then m else n) Q E"
  by simp

lemma triple_option:
  "\<lbrakk>v = None \<Longrightarrow> triple P m Q E; \<And>x. v = Some x \<Longrightarrow> triple P (f x) Q E\<rbrakk> \<Longrightarrow>
     triple P (case v of None \<Rightarrow> m | Some x \<Rightarrow> f x) Q E"
  by (cases v) simp_all

lemma triple_prod: "(\<And>a b. p = (a, b) \<Longrightarrow> triple P (f a b) Q E) \<Longrightarrow> triple P (case p of (a, b) \<Rightarrow> f a b) Q E"
  by (cases p) simp

lemma triple_attempt:
  assumes "triple P m (\<lambda>x. Q (Some x)) E" "\<And>s. E s \<Longrightarrow> Q None s"
  shows "triple P (attempt exc m) Q E"
  unfolding attempt_def
  using assms(2)
  by (intro triple_catch [where D = E] triple_bind [OF assms(1)] triple_return triple_if triple_raise)

lemma triple_result:
  assumes "triple P m Q E" "\<And>s s' x. m s = (s', Inr x) \<Longrightarrow> F x"
  shows "triple P m (\<lambda>x s. Q x s \<and> F x) E"
proof (rule tripleI)
  fix s s' r
  assume "P s" "m s = (s', r)"
  then show "case r of Inl _ \<Rightarrow> E s' | Inr x \<Rightarrow> Q x s' \<and> F x"
    using tripleD [OF assms(1)] assms(2) by (cases r) fastforce+
qed

lemma triple_total:
  assumes "triple P m Q E'" "\<And>s. P s \<Longrightarrow> \<exists>x. snd (m s) = Inr x"
  shows "triple P m Q E"
proof (rule tripleI)
  fix s s' r
  assume P: "P s" and run: "m s = (s', r)"
  obtain x where "r = Inr x" using assms(2) [OF P] by (auto simp: run)
  then show "case r of Inl _ \<Rightarrow> E s' | Inr x \<Rightarrow> Q x s'" using tripleD [OF assms(1) P run] by simp
qed

lemma triple_for:
  assumes "\<And>x acc. triple (I acc) (f x) (\<lambda>y. I (acc @ [(x, y)])) E"
  shows "triple (I acc) (afor f xs) (\<lambda>ys s. length ys = length xs \<and> I (acc @ zip xs ys) s) E"
proof (induction xs arbitrary: acc)
  case Nil
  then show ?case by (simp add: triple_return)
next
  case (Cons x xs)
  show ?case
    unfolding afor.simps
  proof (rule triple_bind [OF assms])
    fix y
    show "triple (I (acc @ [(x, y)])) (abind (afor f xs) (\<lambda>ys. areturn (y # ys)))
        (\<lambda>ys s. length ys = length (x # xs) \<and> I (acc @ zip (x # xs) ys) s) E"
      by (rule triple_bind [OF Cons.IH]) (rule triple_return, simp)
  qed
qed

lemma zip_firsts:
  assumes "length ys = length xs"
  shows "\<forall>(x, y) \<in> set (zip xs ys). f y = x \<Longrightarrow> map f ys = xs" "\<forall>(x, y) \<in> set (zip xs ys). A x \<Longrightarrow> \<forall>x \<in> set xs. A x"
  using assms by (induction ys xs rule: list_induct2) auto

text \<open>A condition that does not depend on the state.\<close>

lemma triple_pure: "(b \<Longrightarrow> triple P m Q E) \<Longrightarrow> triple (\<lambda>s. b \<and> P s) m (\<lambda>x s. b \<and> Q x s) E"
  by (cases b) (simp_all add: triple_def)

lemma triple_given: "(b \<Longrightarrow> triple P m Q E) \<Longrightarrow> triple (\<lambda>s. b \<and> P s) m Q E"
  by (cases b) (simp_all add: triple_def)

context frame_relation
begin

lemma framed_triple:
  assumes "framed m" "\<And>s s'. \<lbrakk>P s; R s s'\<rbrakk> \<Longrightarrow> P s'"
  shows "triple P m (\<lambda>_. P) P"
proof (rule tripleI)
  fix s s' r
  assume "P s" "m s = (s', r)"
  then have "P s'" using assms framedD by blast
  then show "case r of Inl _ \<Rightarrow> P s' | Inr _ \<Rightarrow> P s'" by (cases r) auto
qed

end

section \<open>Steps\<close>

definition save :: "integration_db \<Rightarrow> work_state \<Rightarrow> work_state" where
  "save d s = \<lparr>ws_db = d, ws_steps = ws_steps s @ [Saved d]\<rparr>"

lemma on_db_save: "on_db m s = (save (fst (m (ws_db s))) s, snd (m (ws_db s)))"
  by (simp add: on_db_def save_def split: prod.split)

lemma step_simps [simp]:
  "ws_db (save d s) = d" "ws_steps (save d s) = ws_steps s @ [Saved d]"
  "ws_db (ran argv s) = ws_db s" "ws_steps (ran argv s) = ws_steps s @ [Ran argv]"
  by (simp_all add: save_def ran_def)

lemma triple_on_db:
  "(\<And>s d r. \<lbrakk>P s; m (ws_db s) = (d, r)\<rbrakk> \<Longrightarrow> (case r of Inl _ \<Rightarrow> E (save d s) | Inr x \<Rightarrow> Q x (save d s))) \<Longrightarrow>
     triple P (on_db m) Q E"
  by (rule tripleI) (auto simp: on_db_save)

section \<open>What decides about a Ticket\<close>

definition marker_of :: "integration_db \<Rightarrow> string \<Rightarrow> json" where
  "marker_of ig k = col (state_at ig k) ''last_integration_status''"

definition pr_number_of :: "integration_db \<Rightarrow> string \<Rightarrow> json" where
  "pr_number_of ig k = col (pr_state_at ig k) ''pr_number''"

definition base_of :: "integration_db \<Rightarrow> string \<Rightarrow> json" where
  "base_of ig k = col (pr_state_at ig k) ''integrated_base_sha''"

definition head_of :: "integration_db \<Rightarrow> string \<Rightarrow> json" where
  "head_of ig k = col (pr_state_at ig k) ''pr_head_sha''"

text \<open>\<open>task_key\<close> is the primary key of \<open>tasks\<close>.\<close>

definition task_keys_distinct :: "integration_db \<Rightarrow> bool" where
  "task_keys_distinct ig \<longleftrightarrow> distinct (map t_key (db_tasks (ig_db ig)))"

text \<open>Everything but the checkpoint stays; evidence may be added.\<close>

definition near :: "string \<Rightarrow> integration_db \<Rightarrow> integration_db \<Rightarrow> bool" where
  "near k d d' \<longleftrightarrow>
     status_of d' k = status_of d k \<and> pr_state_at d' k = pr_state_at d k \<and>
     map t_key (db_tasks (ig_db d')) = map t_key (db_tasks (ig_db d)) \<and>
     set (ig_validator_evidence d) \<subseteq> set (ig_validator_evidence d')"

definition calm :: "string \<Rightarrow> integration_db \<Rightarrow> integration_db \<Rightarrow> bool" where
  "calm k d d' \<longleftrightarrow> near k d d' \<and> marker_of d' k = marker_of d k"

lemma near_refl [simp]: "near k d d" and calm_refl [simp]: "calm k d d"
  by (simp_all add: near_def calm_def)

lemma nearD:
  assumes "near k d d'"
  shows "status_of d' k = status_of d k" "pr_number_of d' k = pr_number_of d k" "base_of d' k = base_of d k"
    "head_of d' k = head_of d k" "task_keys_distinct d' = task_keys_distinct d"
    "set (ig_validator_evidence d) \<subseteq> set (ig_validator_evidence d')"
  using assms by (simp_all add: near_def pr_number_of_def base_of_def head_of_def task_keys_distinct_def)

lemmas calmD = calm_def [THEN iffD1, THEN conjunct1, THEN nearD(1)]
  calm_def [THEN iffD1, THEN conjunct1, THEN nearD(2)] calm_def [THEN iffD1, THEN conjunct1, THEN nearD(3)]
  calm_def [THEN iffD1, THEN conjunct1, THEN nearD(4)] calm_def [THEN iffD1, THEN conjunct1, THEN nearD(5)]
  calm_def [THEN iffD1, THEN conjunct1, THEN nearD(6)] calm_def [THEN iffD1, THEN conjunct2]

section \<open>The shared tables\<close>

lemma calm_db: "\<lbrakk>db_tasks d = db_tasks (ig_db ig)\<rbrakk> \<Longrightarrow> calm k ig (ig\<lparr>ig_db := d\<rparr>)"
  by (simp add: calm_def near_def status_of_def get_task_def pr_state_at_def pr_row_of_def marker_of_def state_at_def state_row_of_def)

lemma event_calm:
  assumes "record_task_event now key ty src payload (ig_db ig) = Inr d"
  shows "calm k ig (ig\<lparr>ig_db := d\<rparr>)"
proof -
  have "events_only (ig_db ig) d"
    using assms unfolding record_task_event_def rbind_Inr_iff using insert_event_events_only by blast
  then show ?thesis by (intro calm_db) (rule events_onlyD)
qed

lemma artifact_calm:
  assumes "record_task_artifact home now key ty p (ig_db ig) = Inr d"
  shows "calm k ig (ig\<lparr>ig_db := d\<rparr>)"
  using assms unfolding record_task_artifact_def by (intro calm_db) (auto simp: rbind_Inr_iff split: if_splits)

section \<open>The status\<close>

text \<open>The statuses a run writes: no trigger guards them, and they are valid.\<close>

definition run_target :: "string \<Rightarrow> bool" where
  "run_target t \<longleftrightarrow> t \<in> {READY_FOR_INTEGRATION, INTEGRATING, NEEDS_REVIEW, NEEDS_DECISION}"

lemma run_target_facts:
  assumes "run_target t"
  shows "validate_task_status t = Inr t" "t \<notin> set GUARDED_STATUSES" "t \<noteq> ''blocked''"
proof -
  have "list_all (\<lambda>t. validate_task_status t = Inr t \<and> t \<notin> set GUARDED_STATUSES \<and> t \<noteq> ''blocked'')
      [READY_FOR_INTEGRATION, INTEGRATING, NEEDS_REVIEW, NEEDS_DECISION]" by code_simp
  then show "validate_task_status t = Inr t" "t \<notin> set GUARDED_STATUSES" "t \<noteq> ''blocked''"
    using assms by (auto simp: run_target_def)
qed

lemma status_update:
  assumes target: "run_target target" and expected: "run_target expected"
    and run: "update_task_status now key target None src None (Some expected) (ig_db ig) = Inr (d, x)"
    and keys: "task_keys_distinct ig"
  shows "status_of ig key = Some expected" "status_of (ig\<lparr>ig_db := d\<rparr>) key = Some target"
    "map t_key (db_tasks d) = map t_key (db_tasks (ig_db ig))"
proof -
  let ?p = "\<lambda>t. t_key t = key \<and> (Some expected = None \<or> Some expected = Some (t_status t))"
  obtain r d1 where d1: "update_tasks_status now ?p
        (\<lambda>t. t\<lparr>t_status := target, t_blocked_reason := r, t_updated_at := now, t_last_synced_at := Some now\<rparr>) (ig_db ig) = Inr d1"
    and ex: "list_ex ?p (db_tasks (ig_db ig))" and ev: "\<exists>pl. insert_event key ''status_changed'' src pl now d1 = Inr d"
    using run unfolding update_task_status_def Let_def run_target_facts(1) [OF target] run_target_facts(1) [OF expected]
      option.case rbind_Inr_iff if_raise_Inr sum.inject prod.inject not_not
    by (elim exE conjE) (hypsubst, rule that, assumption, assumption, rule exI, assumption)
  let ?f = "\<lambda>t. t\<lparr>t_status := target, t_blocked_reason := r, t_updated_at := now, t_last_synced_at := Some now\<rparr>"
  have d1': "d1 = update_tasks ?p ?f (ig_db ig)" using d1 by (simp only: update_tasks_status_Inr)
  have evt: "db_tasks d = db_tasks d1" using ev insert_event_events_only events_onlyD(1) by blast
  obtain t where t: "t \<in> set (db_tasks (ig_db ig))" "t_key t = key" "t_status t = expected"
    using ex by (auto simp: list_ex_iff)
  have get: "get_task (ig_db ig) key = Some t"
    using t keys unfolding get_task_def task_keys_distinct_def by (metis find_distinct_key)
  show "status_of ig key = Some expected" using t get by (simp add: status_of_def)
  have "get_task d key = Some (?f t)"
    unfolding get_task_def evt d1' update_tasks_frame find_map_where_cond [where k = t_key, simplified]
    using get t by (simp add: find_map_where_cond get_task_def)
  then show "status_of (ig\<lparr>ig_db := d\<rparr>) key = Some target" by (simp add: status_of_def)
  show "map t_key (db_tasks d) = map t_key (db_tasks (ig_db ig))"
    unfolding evt d1' update_tasks_frame by (rule map_map_where) simp
qed

lemma status_update_ok:
  assumes target: "run_target target" and expected: "run_target expected" and cur: "status_of ig key = Some expected"
  shows "\<exists>d. update_task_status now key target None src None (Some expected) (ig_db ig) = Inr d"
proof -
  let ?p = "\<lambda>t. t_key t = key \<and> (Some expected = None \<or> Some expected = Some (t_status t))"
  let ?f = "\<lambda>t. t\<lparr>t_status := target, t_blocked_reason := None, t_updated_at := now, t_last_synced_at := Some now\<rparr>"
  let ?d = "update_tasks ?p ?f (ig_db ig)"
  obtain t where t: "get_task (ig_db ig) key = Some t" "t_status t = expected" using cur by (auto simp: status_of_def)
  have ex: "list_ex ?p (db_tasks (ig_db ig))" using t get_task_Some [OF t(1)] by (auto simp: list_ex_iff)
  have upd: "update_tasks_status now ?p ?f (ig_db ig) = Inr ?d"
    using run_target_facts(2) [OF target] by (simp add: update_tasks_status_Inr tasks_status_guard_free)
  have "get_task ?d key \<noteq> None"
    using t by (simp add: get_task_def find_map_where_cond)
  moreover have "executor_start_ok ?d key ''status_changed'' pl now" for pl by (simp add: executor_start_ok_def)
  ultimately obtain d where "insert_event key ''status_changed'' src
      (JObj [(''status'', JStr target), (''blocked_reason'', jopt None)]) now ?d = Inr d"
    using insert_event_ok by blast
  then have "update_task_status now key target None src None (Some expected) (ig_db ig) =
      Inr (d, attempt_exposed_to_status_trigger (ig_db ig) key target)"
    unfolding update_task_status_def Let_def run_target_facts(1) [OF target] run_target_facts(1) [OF expected]
      option.case rbind_simps if_not_P [OF run_target_facts(3) [OF target]] upd if_not_P [OF not_not [THEN iffD2, OF ex]]
    by simp
  then show ?thesis by blast
qed

section \<open>The integration tables\<close>

lemma col_marker: "marker_of ig k = (case state_row_of ig k of None \<Rightarrow> JNull | Some r \<Rightarrow> col (is_fields r) ''last_integration_status'')"
  unfolding marker_of_def by (rule col_state_at) (simp add: PRIVATE_STATE_FIELDS_def)

lemma state_row_ensure:
  "state_row_of (ensure_state_row now key ig) key =
     Some (case state_row_of ig key of None \<Rightarrow> \<lparr>is_task_key = key, is_fields = [], is_updated_at = now\<rparr> | Some r \<Rightarrow> r)"
  by (auto simp: state_row_of_def ensure_state_row_def find_append split: option.split)

lemma pr_state_frame [simp]:
  "pr_state_at (update_state_rows now p new ig) = pr_state_at ig" "pr_state_at (ensure_state_row now key ig) = pr_state_at ig"
  "pr_state_at (drop_queue_rows key ig) = pr_state_at ig"
  by (simp_all add: fun_eq_iff pr_state_at_def pr_row_of_def update_state_rows_def ensure_state_row_def drop_queue_rows_def)

lemma evidence_frame [simp]:
  "ig_validator_evidence (update_pr_rows key f ig) = ig_validator_evidence ig"
  "ig_validator_evidence (ensure_pr_row key ig) = ig_validator_evidence ig"
  "ig_validator_evidence (update_state_rows now p new ig) = ig_validator_evidence ig"
  "ig_validator_evidence (ensure_state_row now key ig) = ig_validator_evidence ig"
  "ig_validator_evidence (reset_poll_failures_on_new_pr now key st ig) = ig_validator_evidence ig"
  "ig_validator_evidence (drop_queue_rows key ig) = ig_validator_evidence ig"
  by (simp_all add: update_pr_rows_def ensure_pr_row_def update_state_rows_def ensure_state_row_def
      reset_poll_failures_on_new_pr_def drop_queue_rows_def split: option.split)

lemma marker_written:
  assumes "distinct (map fst new)" "map_of new ''last_integration_status'' = Some v"
  shows "marker_of (update_state_rows now (\<lambda>r. is_task_key r = key) new (ensure_state_row now key ig)) key = v"
  unfolding col_marker
  using state_row_of_update [where c = "\<lambda>_. True", simplified, of now key new "ensure_state_row now key ig" key] assms
  by (simp add: state_row_ensure col_dict_update)

lemma state_update:
  assumes run: "update_integration_state now key new ig = Inr (ig', x)"
    and key: "normalize_task_key key = Inr key" and d: "distinct (map fst new)"
  shows "near key ig ig'" "map_of new ''last_integration_status'' = Some v \<Longrightarrow> marker_of ig' key = v"
proof -
  have ig': "new = [] \<and> ig' = ig \<or> ig' = update_state_rows now (\<lambda>r. is_task_key r = key) new (ensure_state_row now key ig)"
    using run unfolding update_integration_state_def by (auto simp: key rbind_Inr_iff Let_def split: if_splits)
  then show "near key ig ig'" by (auto simp: near_def status_of_def)
  show "map_of new ''last_integration_status'' = Some v \<Longrightarrow> marker_of ig' key = v"
    using ig' marker_written [OF d] by auto
qed

lemma marker_poll_reset: "marker_of (reset_poll_failures_on_new_pr now key st ig) k = marker_of ig k"
proof -
  have d: "distinct (map fst POLL_RESET)" by (simp add: POLL_RESET_def)
  have keep: "col (dict_update fs POLL_RESET) ''last_integration_status'' = col fs ''last_integration_status''" for fs
    unfolding col_dict_update [OF d] by (simp add: POLL_RESET_def)
  show ?thesis
    by (auto simp: reset_poll_failures_on_new_pr_def col_marker state_row_of_update keep split: option.split)
qed

text \<open>A column after a write of validated values.\<close>

lemma pr_col_written:
  assumes vs: "validate_pr_state new = Inr vs" and dist: "distinct (map fst new)" and s: "field_spec name = Some s"
  shows "col (read_pr_row (dict_update fs (stored_values vs))) name =
     (case map_of vs name of None \<Rightarrow> col (read_pr_row fs) name | Some v \<Rightarrow> v)"
proof -
  note v = validate_pr_state_Inr [OF vs]
  have d: "distinct (map fst (stored_values vs))" using dist v(1) by (auto simp: stored_values_def comp_def case_prod_beta)
  show ?thesis
  proof (cases "map_of vs name")
    case None
    then show ?thesis using d by (simp add: col_read_pr_row [OF s] col_dict_update map_of_stored)
  next
    case (Some w)
    then obtain v where c: "coerce s v = Inr w" using v(2) s by fastforce
    show ?thesis using Some stored_read_back [OF s c, of "dict_update fs (stored_values vs)"] d
      by (simp add: col_dict_update map_of_stored)
  qed
qed

lemma run_specs:
  "field_spec ''pr_number'' = Some (nullable_field ''pr_number'' ''int'' None)"
  "field_spec ''pr_head_sha'' = Some (nullable_field ''pr_head_sha'' ''str'' None)"
  "field_spec ''integrated_base_sha'' = Some (nullable_field ''integrated_base_sha'' ''str'' None)"
  by code_simp+

lemma validated_at:
  assumes "validate_pr_state new = Inr vs"
  shows "map_of new name = None \<Longrightarrow> map_of vs name = None"
    "\<lbrakk>map_of new name = Some v; field_spec name = Some s\<rbrakk> \<Longrightarrow> \<exists>w. map_of vs name = Some w \<and> coerce s v = Inr w"
proof -
  have all: "list_all2 (\<lambda>(n, v) (n', w). n' = n \<and> (\<exists>s. field_spec n = Some s \<and> coerce s v = Inr w)) new vs"
    using assms unfolding validate_pr_state_def if_raise_Inr map_ok_list_all2
    by (auto simp: rbind_Inr_iff elim!: list_all2_mono split: option.splits)
  show "map_of new name = None \<Longrightarrow> map_of vs name = None"
    using all by (induction rule: list_all2_induct) (auto split: if_splits)
  show "\<lbrakk>map_of new name = Some v; field_spec name = Some s\<rbrakk> \<Longrightarrow> \<exists>w. map_of vs name = Some w \<and> coerce s v = Inr w"
    using all by (induction rule: list_all2_induct) (auto split: if_splits)
qed

lemma coerce_run:
  "coerce (nullable_field f ''int'' None) (JInt n) = Inr (JInt n)"
  "coerce (nullable_field f ''str'' None) (JStr t) = Inr w \<Longrightarrow> w = JStr (py_strip t)"
  by (auto simp: coerce_def nullable_field_def Let_def split: if_splits)

text \<open>A write to the PR fields: the columns it names, and what it leaves alone.\<close>

definition pr_written :: "string \<Rightarrow> fields \<Rightarrow> integration_db \<Rightarrow> integration_db \<Rightarrow> bool" where
  "pr_written key new ig ig' \<longleftrightarrow>
     status_of ig' key = status_of ig key \<and> map t_key (db_tasks (ig_db ig')) = map t_key (db_tasks (ig_db ig)) \<and>
     ig_validator_evidence ig' = ig_validator_evidence ig \<and>
     (\<forall>n. map_of new ''pr_number'' = Some (JInt n) \<longrightarrow> pr_number_of ig' key = JInt n) \<and>
     (\<forall>t. map_of new ''pr_head_sha'' = Some (JStr t) \<longrightarrow> head_of ig' key = JStr (py_strip t)) \<and>
     (\<forall>t. map_of new ''integrated_base_sha'' = Some (JStr t) \<longrightarrow> base_of ig' key = JStr (py_strip t)) \<and>
     (map_of new ''integrated_base_sha'' = None \<longrightarrow> base_of ig' key = base_of ig key)"

lemma pr_writtenI:
  assumes vs: "validate_pr_state new = Inr vs" and dist: "distinct (map fst new)"
    and pr: "\<And>name s. \<lbrakk>field_spec name = Some s; name \<in> {''pr_number'', ''pr_head_sha'', ''integrated_base_sha''}\<rbrakk> \<Longrightarrow>
       col (pr_state_at ig' key) name = (case map_of vs name of None \<Rightarrow> col (pr_state_at ig key) name | Some v \<Rightarrow> v)"
    and rest: "ig_db ig' = ig_db ig" "ig_validator_evidence ig' = ig_validator_evidence ig"
  shows "pr_written key new ig ig'"
proof -
  note sp = run_specs and va = validated_at [OF vs]
  have "pr_number_of ig' key = JInt n" if n: "map_of new ''pr_number'' = Some (JInt n)" for n
    using va(2) [OF n sp(1)] pr [OF sp(1)] by (auto simp: pr_number_of_def coerce_run)
  moreover have "head_of ig' key = JStr (py_strip t)" if t: "map_of new ''pr_head_sha'' = Some (JStr t)" for t
    using va(2) [OF t sp(2)] pr [OF sp(2)] by (auto simp: head_of_def dest: coerce_run(2))
  moreover have "base_of ig' key = JStr (py_strip t)" if t: "map_of new ''integrated_base_sha'' = Some (JStr t)" for t
    using va(2) [OF t sp(3)] pr [OF sp(3)] by (auto simp: base_of_def dest: coerce_run(2))
  moreover have "base_of ig' key = base_of ig key" if t: "map_of new ''integrated_base_sha'' = None"
    using va(1) [OF t] pr [OF sp(3)] by (simp add: base_of_def)
  ultimately show ?thesis using rest by (simp add: pr_written_def status_of_def)
qed

lemma pr_update:
  assumes run: "update_pr_state now key new ig = Inr (ig', x)"
    and key: "normalize_task_key key = Inr key" and dist: "distinct (map fst new)"
  shows "pr_written key new ig ig'" "marker_of ig' key = marker_of ig key"
proof -
  obtain vs where vs: "validate_pr_state new = Inr vs"
    and ig': "vs = [] \<and> ig' = ig \<or> ig' = update_pr_rows key (\<lambda>fs. dict_update fs (stored_values vs))
           (reset_poll_failures_on_new_pr now key (stored_values vs) (ensure_pr_row key ig))"
    using run unfolding update_pr_state_def by (auto simp: key rbind_Inr_iff Let_def split: if_splits)
  have "col (pr_state_at ig' key) name = (case map_of vs name of None \<Rightarrow> col (pr_state_at ig key) name | Some v \<Rightarrow> v)"
    if "field_spec name = Some s" for name s
    using ig' by (auto simp: pr_state_at_fields pr_col_written [OF vs dist that] split: option.split)
  then show "pr_written key new ig ig'" using ig' by (intro pr_writtenI [OF vs dist]) auto
  show "marker_of ig' key = marker_of ig key"
    using ig' marker_poll_reset [of now key "stored_values vs" "ensure_pr_row key ig" key] by (auto simp: col_marker)
qed

lemma read_increment:
  assumes "field_spec name = Some s" "name \<noteq> ''reintegration_count''"
  shows "col (read_pr_row (increment_count fs)) name = col (read_pr_row fs) name"
proof -
  have "col (increment_count fs) name = col fs name"
    using assms(2) by (simp add: increment_count_def col_def map_of_dict_set)
  then show ?thesis by (simp add: col_read_pr_row [OF assms(1)])
qed

lemma completed_update:
  assumes run: "record_integration_completed now key new inc states ig = Inr (ig', x)"
    and key: "normalize_task_key key = Inr key" and dist: "distinct (map fst new)" "distinct (map fst states)"
  shows "pr_written key new ig ig'" "map_of states ''last_integration_status'' = Some v \<Longrightarrow> marker_of ig' key = v"
    "\<not> queued ig' key"
proof -
  obtain vs where vs: "validate_pr_state new = Inr vs"
    and run': "(let stored = stored_values vs;
           ig = reset_poll_failures_on_new_pr now key stored (ensure_pr_row key ig);
           ig = (if stored \<noteq> [] then update_pr_rows key (\<lambda>fs. dict_update fs stored) ig else ig);
           ig = (if inc then update_pr_rows key increment_count ig else ig);
           ig = ensure_state_row now key ig;
           ig = (if states \<noteq> [] then update_state_rows now (\<lambda>r. is_task_key r = key) states ig else ig);
           ig = drop_queue_rows key ig
       in Inr (ig, pr_state_at ig key)) = (Inr (ig', x) :: (integration_db \<times> fields) result)"
    using run unfolding record_integration_completed_def key rbind_simps rbind_Inr_iff if_raise_Inr
    by (elim exE conjE) (rule that)
  let ?st = "stored_values vs"
  let ?a = "reset_poll_failures_on_new_pr now key ?st (ensure_pr_row key ig)"
  let ?b = "if ?st \<noteq> [] then update_pr_rows key (\<lambda>fs. dict_update fs ?st) ?a else ?a"
  let ?c = "if inc then update_pr_rows key increment_count ?b else ?b"
  let ?d = "ensure_state_row now key ?c"
  let ?e = "if states \<noteq> [] then update_state_rows now (\<lambda>r. is_task_key r = key) states ?d else ?d"
  have ig': "ig' = drop_queue_rows key ?e" using run' unfolding Let_def by simp
  let ?old = "case pr_row_of ig key of None \<Rightarrow> [] | Some r \<Rightarrow> pr_fields r"
  have b: "pr_state_at ?b key = read_pr_row (dict_update ?old ?st)"
    by (simp add: pr_state_at_fields dict_update_def split: option.split)
  have frame: "pr_state_at ig' key = pr_state_at ?c key" unfolding ig' by simp
  have inc: "col (pr_state_at ?c key) name = col (pr_state_at ?b key) name"
    if "field_spec name = Some s" "name \<noteq> ''reintegration_count''" for name s
    using read_increment [OF that] by (simp add: pr_state_at_fields split: option.split)
  have "col (pr_state_at ig' key) name = (case map_of vs name of None \<Rightarrow> col (pr_state_at ig key) name | Some v \<Rightarrow> v)"
    if s: "field_spec name = Some s" and "name \<in> {''pr_number'', ''pr_head_sha'', ''integrated_base_sha''}" for name s
  proof -
    have "name \<noteq> ''reintegration_count''" using that(2) by auto
    then have "col (pr_state_at ig' key) name = col (read_pr_row (dict_update ?old ?st)) name"
      unfolding frame b [symmetric] using inc [OF s] by blast
    then show ?thesis unfolding pr_col_written [OF vs dist(1) s] pr_state_at_fields [of ig] .
  qed
  then show "pr_written key new ig ig'" by (intro pr_writtenI [OF vs dist(1)]) (simp_all add: ig')
  show "marker_of ig' key = v" if "map_of states ''last_integration_status'' = Some v"
  proof -
    have "states \<noteq> []" using that by auto
    then show ?thesis
      using marker_written [OF dist(2) that, of now key ?c] unfolding ig' by (simp add: col_marker)
  qed
  show "\<not> queued ig' key" by (simp add: ig' queued_def drop_queue_rows_def list_ex_iff)
qed

lemma evidence_calm: "record_validator_evidence key row ig = Inr ig' \<Longrightarrow> calm k ig ig'"
  unfolding record_validator_evidence_def
  by (auto simp: rbind_Inr_iff calm_def near_def status_of_def pr_state_at_def pr_row_of_def marker_of_def state_at_def state_row_of_def)

lemma evidence_added:
  assumes "record_validator_evidence key row ig = Inr ig'" "normalize_task_key key = Inr key"
  shows "row\<lparr>ve_task_key := key\<rparr> \<in> set (ig_validator_evidence ig')"
  using assms unfolding record_validator_evidence_def by (auto simp: rbind_Inr_iff)

lemma conflict_calm:
  "record_conflict_evidence key row ig = Inr ig' \<Longrightarrow> calm k ig ig'"
  "record_conflict_verification key run_id checks ig = Inr ig' \<Longrightarrow> calm k ig ig'"
  unfolding record_conflict_evidence_def record_conflict_verification_def
  by (auto simp: rbind_Inr_iff calm_def near_def status_of_def pr_state_at_def pr_row_of_def marker_of_def state_at_def state_row_of_def)

end
