(* ===== verification/Run_Frame.thy ===== *)
theory Run_Frame
  imports Run_Facts
begin

text \<open>
  The parts of an integration run that decide nothing: reading git, updating the worktree, validators,
  conflict resolution, evidence and events. They are framed once, for every relation that allows a checked
  git command other than a push, a guarded \<open>gh\<close> command that creates no PR, and a transaction that leaves
  the deciding columns of the Ticket alone.
\<close>

section \<open>Git\<close>

locale git_frame = frame_relation R for R :: "work_state \<Rightarrow> work_state \<Rightarrow> bool" +
  assumes git_ran: "\<lbrakk>command_check parts None None = Inr (); take 1 parts \<noteq> [''push'']\<rbrakk> \<Longrightarrow> R s (ran (''git'' # parts) s)"
begin

lemma framed_git: "take 1 parts \<noteq> [''push''] \<Longrightarrow> framed (run_git env cwd parts check None None)"
  unfolding framed_def run_git_def
  by (auto simp: Let_def refl git_ran split: sum.split)

lemma framed_plain: "take 1 parts \<noteq> [''push''] \<Longrightarrow> framed (git_plain env cwd parts)"
  "take 1 parts \<noteq> [''push''] \<Longrightarrow> framed (git_checked env cwd parts)"
  unfolding git_plain_def git_checked_def by (rule framed_git, assumption)+

lemma framed_option: "\<lbrakk>framed m; \<And>x. framed (f x)\<rbrakk> \<Longrightarrow> framed (case v of None \<Rightarrow> m | Some x \<Rightarrow> f x)"
  by (cases v) simp_all

lemma framed_prod: "(\<And>a b. framed (f a b)) \<Longrightarrow> framed (case p of (a, b) \<Rightarrow> f a b)"
  by (cases p) simp

lemmas git_rules = framed_rules framed_plain framed_option framed_prod

lemma framed_reading:
  "framed (fetch env cwd remote)" "framed (resolve_target_sha env cwd remote target)" "framed (head_sha env cwd)"
  "framed (behind_count env cwd b t)" "framed (commit_in_history env cwd c t)" "framed (diff_context env cwd t)"
  "framed (changed_files env cwd t)" "framed (conflicted_paths env cwd)" "framed (remote_branch_sha env cwd remote b)"
  "framed (git_common_dir env cwd)" "framed (in_progress_operation env cwd)" "framed (marker_scan env cwd pat ps)"
  "framed (abort_rebase env cwd)" "framed (abort_merge env cwd)"
  unfolding fetch_def resolve_target_sha_def head_sha_def behind_count_def commit_in_history_def diff_context_def changed_files_def
    conflicted_paths_def remote_branch_sha_def git_common_dir_def in_progress_operation_def marker_scan_def abort_rebase_def abort_merge_def
  by (intro git_rules; simp)+

lemma framed_hunks: "framed (conflict_hunks env cwd)"
  unfolding conflict_hunks_def by (intro git_rules framed_reading)

lemma framed_updating: "framed (rebase_onto_target env cwd t)" "framed (merge_target_into_branch env cwd t)"
  unfolding rebase_onto_target_def merge_target_into_branch_def
  by ((intro git_rules framed_reading; simp)+)

lemma framed_verify: "framed (verify_conflict_resolution env cwd h t fs)"
  unfolding verify_conflict_resolution_def by (intro git_rules framed_reading) simp

lemma framed_head: "framed (assert_head_on_task_branch env cwd b e)"
  unfolding assert_head_on_task_branch_def Let_def by (intro git_rules framed_reading; simp)

lemma framed_attempt: "framed m \<Longrightarrow> framed (attempt exc m)"
  unfolding attempt_def by (intro framed_catch framed_bind framed_if framed_return framed_raise)

lemma framed_abort: "framed (abort_update env cx)" "framed (abort_if_in_progress env cx)"
  unfolding abort_if_in_progress_def abort_update_def by (intro git_rules framed_reading)+

lemmas framed_git_calls = framed_reading framed_hunks framed_updating framed_verify framed_head framed_attempt framed_abort

end

section \<open>Store calls that decide nothing\<close>

text \<open>Neither a push nor the creation of a PR.\<close>

definition is_push :: "string list \<Rightarrow> bool" where
  "is_push argv \<longleftrightarrow> take 2 argv = [''git'', ''push'']"

definition is_create :: "string list \<Rightarrow> bool" where
  "is_create argv \<longleftrightarrow> take 2 (drop 1 argv) = [''pr'', ''create'']"

locale run_frame = git_frame R for R :: "work_state \<Rightarrow> work_state \<Rightarrow> bool" +
  fixes key repo gh_bin :: string and known :: "int \<Rightarrow> bool"
  assumes saved: "calm key (ws_db s) d \<Longrightarrow> R s (save d s)"
    and gh_ran: "\<lbrakk>assert_not_a_merge_command argv = Inr (); assert_gh_api_allowed argv repo = Inr (); known n;
        argv = poll_pr_argv gh_bin repo n \<or> argv = update_pr_argv gh_bin repo n fs\<rbrakk> \<Longrightarrow> R s (ran argv s)"
begin

lemma framed_on_db: "(\<And>d d' r. m d = (d', r) \<Longrightarrow> calm key d d') \<Longrightarrow> framed (on_db m)"
  unfolding framed_def on_db_save by (metis fst_conv prod.collapse saved)

lemma framed_tables:
  "(\<And>ig d. t (ig_db ig) = Inr d \<Longrightarrow> calm key ig (ig\<lparr>ig_db := d\<rparr>)) \<Longrightarrow> framed (on_db (adb t))"
  "(\<And>ig ig'. u ig = Inr ig' \<Longrightarrow> calm key ig ig') \<Longrightarrow> framed (on_db (atx_unit u))"
  by (rule framed_on_db, auto simp: adb_def atx_unit_def split: sum.splits)+

lemma framed_emit: "framed (run_emit env source k ty payload)"
  unfolding run_emit_def by (intro framed_tables event_calm)

lemma framed_artifact: "framed (run_artifact env k ty p)"
  unfolding run_artifact_def by (intro framed_rules framed_tables artifact_calm)

lemma framed_resolve: "framed (resolve_conflicts env key hunks)"
  unfolding resolve_conflicts_def by (intro git_rules framed_tables conflict_calm)

lemma framed_verification: "framed (on_db (atx_unit (record_conflict_verification k run_id checks)))"
  by (intro framed_tables conflict_calm)

lemma framed_evidence: "framed (on_db (atx_unit (record_validator_evidence k row)))"
  by (intro framed_tables evidence_calm)

lemma framed_run_one: "framed (run_one env cwd spec)"
  unfolding run_one_def by (intro framed_rules) (simp add: framed_rules split: validator_run.split)

lemma framed_finish: "rx_key cx = key \<Longrightarrow> framed (finish env cx ok status final ex)"
  unfolding finish_def Let_def by (intro git_rules framed_artifact)

lemma framed_gh:
  assumes "known n" "argv = poll_pr_argv gh_bin repo n \<or> argv = update_pr_argv gh_bin repo n fs"
  shows "framed (run_checked (gh_runner env) repo argv)"
proof -
  have "framed (run_gh (gh_runner env) repo argv)"
    unfolding framed_def run_gh_def abind_def aget_def gh_runner_def
    using assms by (auto simp: refl gh_ran split: sum.split)
  then show ?thesis unfolding run_checked_def by (intro git_rules)
qed

lemma framed_update_pr: "known number \<Longrightarrow> framed (update_pr (gh_runner env) loads gh_bin repo number title body)"
proof -
  assume known: "known number"
  have poll: "framed (poll_pr (gh_runner env) loads gh_bin repo number)"
    unfolding poll_pr_def
    by (intro framed_bind framed_gh [OF known disjI1 [OF HOL.refl]]) (auto simp: framed_rules split: option.split json.split)
  show ?thesis
    unfolding update_pr_def by (intro framed_if poll framed_bind framed_gh [OF known disjI2 [OF HOL.refl]])
qed

lemmas framed_run_calls = framed_emit framed_artifact framed_resolve framed_verification framed_run_one framed_finish

end

end
