(* ===== verification/Run_History.thy ===== *)
theory Run_History
  imports Run_Frame
begin

text \<open>
  Histories of an integration run: what holds at every point where a run may be cut off, and which steps
  keep it whatever git, GitHub, the validators and the conflict resolver do.
\<close>

section \<open>Histories of a run\<close>

text \<open>The database after some steps, the last one that was committed.\<close>

fun last_db :: "integration_db \<Rightarrow> step list \<Rightarrow> integration_db" where
  "last_db d [] = d"
| "last_db d (Ran _ # xs) = last_db d xs"
| "last_db d (Saved d' # xs) = last_db d' xs"

fun step_is :: "(string list \<Rightarrow> bool) \<Rightarrow> step \<Rightarrow> bool" where
  "step_is p (Ran argv) = p argv"
| "step_is p (Saved _) = False"

definition pushed :: "step list \<Rightarrow> bool" where "pushed xs = list_ex (step_is is_push) xs"
definition created :: "step list \<Rightarrow> bool" where "created xs = list_ex (step_is is_create) xs"

lemma last_db_append: "last_db d (xs @ ys) = last_db (last_db d xs) ys"
  by (induction d xs rule: last_db.induct) simp_all

lemma history_simps [simp]:
  "\<not> pushed []" "\<not> created []"
  "pushed (xs @ [Ran argv]) \<longleftrightarrow> pushed xs \<or> is_push argv" "created (xs @ [Ran argv]) \<longleftrightarrow> created xs \<or> is_create argv"
  "pushed (xs @ [Saved d]) \<longleftrightarrow> pushed xs" "created (xs @ [Saved d]) \<longleftrightarrow> created xs"
  by (simp_all add: pushed_def created_def)

text \<open>Every validator of the request left a passing row of this run for the two commits.\<close>

definition validated ::
  "string \<Rightarrow> string \<Rightarrow> validator_spec list \<Rightarrow> string \<Rightarrow> string \<Rightarrow> integration_db \<Rightarrow> bool" where
  "validated key run_id specs head target d \<longleftrightarrow>
     specs \<noteq> [] \<and>
     (\<forall>spec \<in> set specs. \<exists>row \<in> set (ig_validator_evidence d).
        ve_task_key row = key \<and> ve_run_id row = run_id \<and> ve_validator row = vs_name spec \<and> ve_command row = vs_command spec \<and>
        ve_status row = ''passed'' \<and> ve_exit_code row = Some 0 \<and> ve_branch_sha row = Some head \<and> ve_target_sha row = Some target)"

text \<open>The recorded base and head are commits that were validated.\<close>

definition gated :: "string \<Rightarrow> string \<Rightarrow> validator_spec list \<Rightarrow> integration_db \<Rightarrow> bool" where
  "gated key run_id specs d \<longleftrightarrow>
     (\<exists>head target. base_of d key = JStr (py_strip target) \<and> head_of d key = JStr (py_strip head) \<and>
        validated key run_id specs head target d)"

text \<open>
  A point at which a run may die: while the Ticket is in \<open>integrating\<close> and has no PR on record, the
  checkpoint tells whether the branch may have been pushed and whether a PR may have been created.
\<close>

definition crash_point :: "string \<Rightarrow> integration_db \<Rightarrow> step list \<Rightarrow> bool" where
  "crash_point key d xs \<longleftrightarrow>
     (status_of d key = Some INTEGRATING \<longrightarrow> pr_number_of d key = JNull \<longrightarrow>
        (created xs \<longrightarrow> marker_of d key = JStr RUN_CREATING_PR) \<and>
        (pushed xs \<longrightarrow> marker_of d key \<in> {JStr RUN_PUBLISHING, JStr RUN_CREATING_PR}))"

definition good_point ::
  "string \<Rightarrow> string \<Rightarrow> validator_spec list \<Rightarrow> integration_db \<Rightarrow> integration_db \<Rightarrow> step list \<Rightarrow> bool" where
  "good_point key run_id specs d0 d xs \<longleftrightarrow>
     task_keys_distinct d \<and> crash_point key d xs \<and> (base_of d key = base_of d0 key \<or> gated key run_id specs d)"

definition since :: "work_state \<Rightarrow> work_state \<Rightarrow> step list" where
  "since s0 s = drop (length (ws_steps s0)) (ws_steps s)"

definition sound :: "string \<Rightarrow> string \<Rightarrow> validator_spec list \<Rightarrow> work_state \<Rightarrow> work_state \<Rightarrow> bool" where
  "sound key run_id specs s0 s \<longleftrightarrow>
     ws_steps s = ws_steps s0 @ since s0 s \<and> last_db (ws_db s0) (since s0 s) = ws_db s \<and>
     (\<forall>n. good_point key run_id specs (ws_db s0) (last_db (ws_db s0) (take n (since s0 s))) (take n (since s0 s)))"

lemma sound_start:
  assumes "task_keys_distinct (ws_db s0)"
  shows "sound key run_id specs s0 s0"
  using assms by (simp add: sound_def since_def good_point_def crash_point_def)

lemma sound_point:
  assumes "sound key run_id specs s0 s"
  shows "good_point key run_id specs (ws_db s0) (ws_db s) (since s0 s)"
proof -
  have "good_point key run_id specs (ws_db s0) (last_db (ws_db s0) (take (length (since s0 s)) (since s0 s)))
      (take (length (since s0 s)) (since s0 s))" using assms unfolding sound_def by blast
  then show ?thesis using assms by (simp add: sound_def)
qed

text \<open>Adding one step.\<close>

lemma sound_step:
  assumes s: "sound key run_id specs s0 s" and steps: "ws_steps s' = ws_steps s @ [x]"
    and db: "last_db (ws_db s) [x] = ws_db s'"
    and good: "good_point key run_id specs (ws_db s0) (ws_db s') (since s0 s @ [x])"
  shows "sound key run_id specs s0 s'" "since s0 s' = since s0 s @ [x]"
proof -
  obtain new where new: "since s0 s = new" "ws_steps s = ws_steps s0 @ new" using s by (auto simp: sound_def)
  show since: "since s0 s' = since s0 s @ [x]"
    unfolding new(1) by (simp add: since_def steps new(2))
  have last: "last_db (ws_db s0) (since s0 s @ [x]) = ws_db s'" using s db by (simp add: last_db_append sound_def)
  have "good_point key run_id specs (ws_db s0) (last_db (ws_db s0) (take n (since s0 s @ [x]))) (take n (since s0 s @ [x]))" for n
  proof (cases "n \<le> length (since s0 s)")
    case True
    then show ?thesis using s by (simp add: sound_def)
  next
    case False
    then show ?thesis using good last by simp
  qed
  then show "sound key run_id specs s0 s'"
    unfolding sound_def since using last by (simp add: steps new)
qed

lemma since_save: "sound key run_id specs s0 s \<Longrightarrow> since s0 (save d s) = since s0 s @ [Saved d]"
proof -
  assume "sound key run_id specs s0 s"
  then obtain new where "ws_steps s = ws_steps s0 @ new" by (auto simp: sound_def)
  then show ?thesis by (simp add: since_def)
qed

lemma sound_ran:
  assumes "sound key run_id specs s0 s" "good_point key run_id specs (ws_db s0) (ws_db s) (since s0 s @ [Ran argv])"
  shows "sound key run_id specs s0 (ran argv s)" "since s0 (ran argv s) = since s0 s @ [Ran argv]"
  by (rule sound_step [OF assms(1), of _ "Ran argv"]; use assms(2) in simp)+

lemma sound_save:
  assumes "sound key run_id specs s0 s" "good_point key run_id specs (ws_db s0) d (since s0 s)"
  shows "sound key run_id specs s0 (save d s)" "since s0 (save d s) = since s0 s @ [Saved d]"
  by (rule sound_step [OF assms(1), of _ "Saved d"]; use assms(2) in \<open>simp add: good_point_def crash_point_def\<close>)+

section \<open>Steps that decide nothing\<close>

inductive quiet_step :: "string \<Rightarrow> work_state \<Rightarrow> work_state \<Rightarrow> bool" for key where
  quiet_ran: "\<lbrakk>\<not> is_push argv; \<not> is_create argv\<rbrakk> \<Longrightarrow> quiet_step key s (ran argv s)"
| quiet_saved: "calm key (ws_db s) d \<Longrightarrow> quiet_step key s (save d s)"

definition quiet :: "string \<Rightarrow> work_state \<Rightarrow> work_state \<Rightarrow> bool" where
  "quiet key = (quiet_step key)\<^sup>*\<^sup>*"

lemma allowed_not_create: "''pr'' \<notin> set ALLOWED_SUBCOMMANDS"
  by code_simp

interpretation q: run_frame "quiet key" key repo gh_bin "\<lambda>_. True" for key repo gh_bin
proof unfold_locales
  show "quiet key s s" for s by (simp add: quiet_def)
  show "\<lbrakk>quiet key s t; quiet key t u\<rbrakk> \<Longrightarrow> quiet key s u" for s t u by (simp add: quiet_def)
  show "quiet key s (ran (''git'' # parts) s)" if "command_check parts None None = Inr ()" "take 1 parts \<noteq> [''push'']" for parts s
  proof -
    have "\<not> is_push (''git'' # parts)" "\<not> is_create (''git'' # parts)"
      using that allowed_not_create by (auto simp: is_push_def is_create_def command_check_def split: list.splits if_splits)
    then show ?thesis unfolding quiet_def by (blast intro: quiet_step.intros)
  qed
  show "calm key (ws_db s) d \<Longrightarrow> quiet key s (save d s)" for s d
    unfolding quiet_def by (blast intro: quiet_step.intros)
  show "quiet key s (ran argv s)" if "argv = poll_pr_argv gh_bin repo n \<or> argv = update_pr_argv gh_bin repo n fs" for argv s n fs
  proof -
    have "\<not> is_push argv" "\<not> is_create argv"
      using that by (auto simp: is_push_def is_create_def poll_pr_argv_def update_pr_argv_def)
    then show ?thesis unfolding quiet_def by (blast intro: quiet_step.intros)
  qed
qed

text \<open>A condition that such steps keep, in a sound run.\<close>

definition stable :: "string \<Rightarrow> string \<Rightarrow> validator_spec list \<Rightarrow> work_state \<Rightarrow> (work_state \<Rightarrow> bool) \<Rightarrow> bool" where
  "stable key run_id specs s0 P \<longleftrightarrow>
     (\<forall>s s'. sound key run_id specs s0 s \<longrightarrow> P s \<longrightarrow> quiet_step key s s' \<longrightarrow> P s')"

lemma stableD: "\<lbrakk>stable key run_id specs s0 P; sound key run_id specs s0 s; P s; quiet_step key s s'\<rbrakk> \<Longrightarrow> P s'"
  unfolding stable_def by blast

lemma validated_mono:
  "\<lbrakk>validated key run_id specs h t d; set (ig_validator_evidence d) \<subseteq> set (ig_validator_evidence d')\<rbrakk> \<Longrightarrow> validated key run_id specs h t d'"
  unfolding validated_def by blast

lemma gated_near: "\<lbrakk>gated key run_id specs d; near key d d'\<rbrakk> \<Longrightarrow> gated key run_id specs d'"
  unfolding gated_def using nearD validated_mono by metis

lemma good_point_calm:
  assumes "good_point key run_id specs d0 d xs" "calm key d d'"
  shows "good_point key run_id specs d0 d' xs"
  using assms(1) calmD [OF assms(2)] gated_near [OF _ assms(2) [unfolded calm_def, THEN conjunct1]]
  unfolding good_point_def crash_point_def by metis

lemma good_point_harmless:
  "\<lbrakk>good_point key run_id specs d0 d xs; \<not> is_push argv; \<not> is_create argv\<rbrakk> \<Longrightarrow> good_point key run_id specs d0 d (xs @ [Ran argv])"
  by (simp add: good_point_def crash_point_def)

lemma quiet_sound:
  assumes "sound key run_id specs s0 s" "quiet_step key s s'"
  shows "sound key run_id specs s0 s'"
    "pushed (since s0 s') = pushed (since s0 s)" "created (since s0 s') = created (since s0 s)"
    "calm key (ws_db s) (ws_db s')"
proof -
  have "sound key run_id specs s0 s' \<and> pushed (since s0 s') = pushed (since s0 s) \<and>
      created (since s0 s') = created (since s0 s) \<and> calm key (ws_db s) (ws_db s')"
    using assms(2)
  proof cases
    case (quiet_ran argv)
    note step = sound_ran [OF assms(1) good_point_harmless [OF sound_point [OF assms(1)] quiet_ran(2,3)]]
    then show ?thesis using quiet_ran by simp
  next
    case (quiet_saved d)
    note step = sound_save [OF assms(1) good_point_calm [OF sound_point [OF assms(1)] quiet_saved(2)]]
    then show ?thesis using quiet_saved by simp
  qed
  then show "sound key run_id specs s0 s'" "pushed (since s0 s') = pushed (since s0 s)"
    "created (since s0 s') = created (since s0 s)" "calm key (ws_db s) (ws_db s')" by blast+
qed

lemma quiet_triple:
  assumes m: "q.framed key m" and P: "stable key run_id specs s0 P"
    and E: "\<And>s. \<lbrakk>sound key run_id specs s0 s; P s\<rbrakk> \<Longrightarrow> E s"
  shows "triple (\<lambda>s. sound key run_id specs s0 s \<and> P s) m (\<lambda>_ s. sound key run_id specs s0 s \<and> P s) E"
proof (rule triple_weaken [OF q.framed_triple [OF m, of "\<lambda>s. sound key run_id specs s0 s \<and> P s"]])
  fix s s'
  assume start: "sound key run_id specs s0 s \<and> P s" and "quiet key s s'"
  then have "(quiet_step key)\<^sup>*\<^sup>* s s'" by (simp add: quiet_def)
  then show "sound key run_id specs s0 s' \<and> P s'"
    using start by (induction rule: rtranclp_induct) (use quiet_sound(1) stableD [OF P] in blast)+
qed (use E in auto)

text \<open>The conditions used below.\<close>

definition fresh :: "string \<Rightarrow> work_state \<Rightarrow> work_state \<Rightarrow> bool" where
  "fresh key s0 s \<longleftrightarrow> \<not> pushed (since s0 s) \<and> \<not> created (since s0 s) \<and> base_of (ws_db s) key = base_of (ws_db s0) key"

definition checked :: "string \<Rightarrow> string \<Rightarrow> validator_spec list \<Rightarrow> string \<Rightarrow> string \<Rightarrow> work_state \<Rightarrow> work_state \<Rightarrow> bool" where
  "checked key run_id specs h t s0 s \<longleftrightarrow>
     validated key run_id specs h t (ws_db s) \<and> base_of (ws_db s) key = base_of (ws_db s0) key"

lemma stable_true: "stable key run_id specs s0 (\<lambda>_. True)"
  by (simp add: stable_def)

lemma stable_conj: "\<lbrakk>stable key run_id specs s0 P; stable key run_id specs s0 Q\<rbrakk> \<Longrightarrow> stable key run_id specs s0 (\<lambda>s. P s \<and> Q s)"
  by (auto simp: stable_def)

lemma stable_fresh: "stable key run_id specs s0 (fresh key s0)"
  unfolding stable_def fresh_def using quiet_sound(2,3) calmD(3) [OF quiet_sound(4)] by metis

lemma stable_status: "stable key run_id specs s0 (\<lambda>s. F (status_of (ws_db s) key))"
  unfolding stable_def using calmD(1) [OF quiet_sound(4)] by metis

lemma stable_checked: "stable key run_id specs s0 (checked key run_id specs h t s0)"
  unfolding stable_def checked_def using calmD(3,6) [OF quiet_sound(4)] validated_mono by metis

lemma stable_gated: "stable key run_id specs s0 (\<lambda>s. gated key run_id specs (ws_db s))"
  unfolding stable_def using quiet_sound(4) gated_near calm_def by metis

lemmas stable_rules = stable_true stable_conj stable_fresh stable_status stable_checked stable_gated

end
