(* ===== verification/Run_Safety.thy ===== *)
theory Run_Safety
  imports Run_History
begin

text \<open>
  What one integration run guarantees, for every behaviour of git, GitHub, the validators, the conflict
  resolver and the file system.
\<close>

section \<open>The deciding store calls\<close>

abbreviation snd_run :: "integration_env \<Rightarrow> run_context \<Rightarrow> work_state \<Rightarrow> work_state \<Rightarrow> bool" where
  "snd_run env cx s0 \<equiv> sound (rx_key cx) (ie_run_id env) (ir_validators (rx_request cx)) s0"

text \<open>A change of the status alone.\<close>

definition restatus :: "string \<Rightarrow> integration_db \<Rightarrow> integration_db \<Rightarrow> bool" where
  "restatus key d d' \<longleftrightarrow>
     pr_state_at d' key = pr_state_at d key \<and> marker_of d' key = marker_of d key \<and> task_keys_distinct d' = task_keys_distinct d \<and>
     ig_validator_evidence d' = ig_validator_evidence d"

lemma gated_restatus: "\<lbrakk>gated key run_id specs d; restatus key d d'\<rbrakk> \<Longrightarrow> gated key run_id specs d'"
  by (simp add: gated_def restatus_def base_of_def head_of_def validated_def)

lemma good_point_restatus:
  assumes "good_point key run_id specs d0 d xs" "restatus key d d'"
    "status_of d' key \<noteq> Some INTEGRATING \<or> \<not> pushed xs \<and> \<not> created xs"
  shows "good_point key run_id specs d0 d' xs"
  using assms gated_restatus [OF _ assms(2)]
  by (auto simp: good_point_def crash_point_def restatus_def base_of_def)

lemma status_triple:
  assumes target: "run_target target" and expected: "run_target expected"
    and P: "\<And>s. P s \<Longrightarrow> target = INTEGRATING \<Longrightarrow> fresh key s0 s"
    and Q: "\<And>s d. \<lbrakk>sound key run_id specs s0 s; P s; restatus key (ws_db s) d; sound key run_id specs s0 (save d s); status_of d key = Some target\<rbrakk> \<Longrightarrow> Q (save d s)"
    and E: "\<And>s. \<lbrakk>sound key run_id specs s0 s; P s; status_of (ws_db s) key \<noteq> Some expected\<rbrakk> \<Longrightarrow> E (save (ws_db s) s)"
  shows "triple (\<lambda>s. sound key run_id specs s0 s \<and> P s) (run_status env source key target expected)
      (\<lambda>_ s. sound key run_id specs s0 s \<and> status_of (ws_db s) key = Some target \<and> Q s)
      (\<lambda>s. sound key run_id specs s0 s \<and> E s)"
  unfolding run_status_def
proof (rule triple_on_db)
  fix s d r
  assume s: "sound key run_id specs s0 s \<and> P s"
    and run: "adb (\<lambda>d. rbind (update_task_status (ie_now env) key target None source None (Some expected) d) (\<lambda>(d', _). Inr d')) (ws_db s) = (d, r)"
  note point = sound_point [OF conjunct1 [OF s]]
  have keys: "task_keys_distinct (ws_db s)" using point by (simp add: good_point_def)
  show "case r of Inl _ \<Rightarrow> sound key run_id specs s0 (save d s) \<and> E (save d s)
    | Inr x \<Rightarrow> sound key run_id specs s0 (save d s) \<and> status_of (ws_db (save d s)) key = Some target \<and> Q (save d s)"
  proof (cases "update_task_status (ie_now env) key target None source None (Some expected) (ig_db (ws_db s))")
    case (Inl e)
    then have d: "d = ws_db s" "r = Inl e" using run by (auto simp: adb_def)
    have "status_of (ws_db s) key \<noteq> Some expected" using Inl status_update_ok [OF target expected, of "ws_db s" key "ie_now env" source] by auto
    then show ?thesis using sound_save(1) [OF conjunct1 [OF s] point] E s d by simp
  next
    case (Inr p)
    obtain d1 x where p: "p = (d1, x)" by (cases p)
    note up = status_update [OF target expected Inr [unfolded p] keys]
    have d: "d = (ws_db s)\<lparr>ig_db := d1\<rparr>" "r = Inr ()" using run Inr p by (auto simp: adb_def)
    have re: "restatus key (ws_db s) d"
      using up(3) by (simp add: restatus_def d task_keys_distinct_def pr_state_at_def pr_row_of_def marker_of_def state_at_def state_row_of_def)
    have st: "status_of d key = Some target" using up(2) by (simp add: d)
    have "good_point key run_id specs (ws_db s0) d (since s0 s)"
      by (rule good_point_restatus [OF point re]) (use st P s in \<open>auto simp: fresh_def\<close>)
    then show ?thesis using sound_save(1) [OF conjunct1 [OF s]] Q s re st d(2) by simp
  qed
qed

text \<open>Leaving \<open>integrating\<close> cannot fail while the Ticket is there.\<close>

lemma leave_triple:
  assumes "target \<in> {NEEDS_REVIEW, NEEDS_DECISION, READY_FOR_INTEGRATION}"
    and P: "\<And>s d. \<lbrakk>P s; restatus key (ws_db s) d\<rbrakk> \<Longrightarrow> P (save d s)"
  shows "triple (\<lambda>s. sound key run_id specs s0 s \<and> P s) (run_status env source key target INTEGRATING)
      (\<lambda>_ s. sound key run_id specs s0 s \<and> status_of (ws_db s) key = Some target \<and> P s)
      (\<lambda>s. sound key run_id specs s0 s \<and> status_of (ws_db s) key \<noteq> Some INTEGRATING)"
proof -
  have t: "run_target target" "run_target INTEGRATING" "target \<noteq> INTEGRATING"
    using assms(1) by (auto simp: run_target_def integration_statuses)
  show ?thesis by (rule status_triple [OF t(1,2)]) (use t P in auto)
qed

lemma state_triple:
  assumes key: "normalize_task_key key = Inr key" and d: "distinct (map fst new)" and v: "map_of new ''last_integration_status'' = Some v"
    and step: "\<And>s d. \<lbrakk>sound key run_id specs s0 s; P s; near key (ws_db s) d; marker_of d key = v\<rbrakk> \<Longrightarrow>
       crash_point key d (since s0 s) \<and> (sound key run_id specs s0 (save d s) \<longrightarrow> Q (save d s))"
    and E: "\<And>s. \<lbrakk>sound key run_id specs s0 s; P s; sound key run_id specs s0 (save (ws_db s) s)\<rbrakk> \<Longrightarrow> E (save (ws_db s) s)"
  shows "triple (\<lambda>s. sound key run_id specs s0 s \<and> P s) (run_state env key new) (\<lambda>_ s. sound key run_id specs s0 s \<and> Q s) E"
  unfolding run_state_def
proof (intro triple_bind triple_on_db)
  fix s d' r
  assume s: "sound key run_id specs s0 s \<and> P s" and run: "atx (update_integration_state (ie_now env) key new) (ws_db s) = (d', r)"
  note point = sound_point [OF conjunct1 [OF s]]
  show "case r of Inl _ \<Rightarrow> E (save d' s) | Inr x \<Rightarrow> sound key run_id specs s0 (save d' s) \<and> Q (save d' s)"
  proof (cases "update_integration_state (ie_now env) key new (ws_db s)")
    case (Inl e)
    then have "d' = ws_db s" "r = Inl e" using run by (auto simp: atx_def)
    then show ?thesis using sound_save(1) [OF conjunct1 [OF s] point] E s by simp
  next
    case (Inr p)
    then have up: "update_integration_state (ie_now env) key new (ws_db s) = Inr (d', snd p)" and r: "r = Inr (snd p)"
      using run by (auto simp: atx_def split: prod.splits)
    note f = state_update [OF up key d]
    have "good_point key run_id specs (ws_db s0) d' (since s0 s)"
      using point step [of s d'] s f(1) f(2) [OF v] nearD [OF f(1)] gated_near [OF _ f(1)] by (auto simp: good_point_def)
    then show ?thesis using sound_save(1) [OF conjunct1 [OF s]] step [of s d'] s f(1) f(2) [OF v] r by simp
  qed
qed (simp add: triple_return)

section \<open>Stopping\<close>

text \<open>What a result promises: the status the Ticket has, and with success the gate.\<close>

definition concluded :: "integration_env \<Rightarrow> run_context \<Rightarrow> integration_result \<Rightarrow> work_state \<Rightarrow> bool" where
  "concluded env cx r s \<longleftrightarrow>
     status_of (ws_db s) (rx_key cx) = Some (in_final_task_status r) \<and>
     (if in_ok r
      then in_final_task_status r = NEEDS_REVIEW \<and> in_validators_passed r \<and>
           gated (rx_key cx) (ie_run_id env) (ir_validators (rx_request cx)) (ws_db s)
      else in_final_task_status r = NEEDS_DECISION)"

definition left :: "run_context \<Rightarrow> work_state \<Rightarrow> bool" where
  "left cx s \<longleftrightarrow> status_of (ws_db s) (rx_key cx) \<noteq> Some INTEGRATING"

lemma finish_result:
  "finish env cx ok status final ex s = (s', Inr r) \<Longrightarrow>
     in_ok r = ok \<and> in_final_task_status r = final \<and> in_validators_passed r = ex_validated ex"
  by (auto simp: finish_def abind_def aget_def areturn_def Let_def split: sum.splits prod.splits option.splits)

lemma finish_triple:
  assumes P: "stable (rx_key cx) (ie_run_id env) (ir_validators (rx_request cx)) s0 P"
    and Q: "\<And>s r. \<lbrakk>P s; in_ok r = ok; in_final_task_status r = final; in_validators_passed r = ex_validated ex\<rbrakk> \<Longrightarrow> concluded env cx r s"
    and E: "\<And>s. P s \<Longrightarrow> left cx s"
  shows "triple (\<lambda>s. snd_run env cx s0 s \<and> P s) (finish env cx ok status final ex)
      (\<lambda>r s. snd_run env cx s0 s \<and> concluded env cx r s) (\<lambda>s. snd_run env cx s0 s \<and> left cx s)"
  by (rule triple_weaken [OF triple_result [OF quiet_triple [OF q.framed_finish [OF refl] P,
        of "\<lambda>s. snd_run env cx s0 s \<and> left cx s"] finish_result]])
     (use E Q in auto)

lemma not_integrating: "NEEDS_REVIEW \<noteq> INTEGRATING" "NEEDS_DECISION \<noteq> INTEGRATING" "READY_FOR_INTEGRATION \<noteq> INTEGRATING"
  by (simp_all add: integration_statuses)

lemma crash_point_left: "status_of d key \<noteq> Some INTEGRATING \<Longrightarrow> crash_point key d xs"
  by (simp add: crash_point_def)

lemma stop_triple:
  assumes key: "normalize_task_key (rx_key cx) = Inr (rx_key cx)"
  shows "triple (snd_run env cx s0) (stop_for_decision env cx summary audit ex)
      (\<lambda>r s. snd_run env cx s0 s \<and> concluded env cx r s) (\<lambda>s. snd_run env cx s0 s \<and> left cx s)"
proof -
  let ?D = "\<lambda>s. status_of (ws_db s) (rx_key cx) = Some NEEDS_DECISION"
  let ?E = "\<lambda>s. snd_run env cx s0 s \<and> left cx s"
  let ?S = "snd_run env cx s0"
  have leave: "triple ?S (run_status env CONTROLLER_SOURCE (rx_key cx) NEEDS_DECISION INTEGRATING) (\<lambda>_ s. ?S s \<and> ?D s) ?E"
    by (rule triple_weaken [OF leave_triple [where P = "\<lambda>_. True"]]) (auto simp: left_def)
  have stable: "stable (rx_key cx) (ie_run_id env) (ir_validators (rx_request cx)) s0 ?D" by (rule stable_status)
  have emit: "triple (\<lambda>s. ?S s \<and> ?D s) (run_emit env CONTROLLER_SOURCE (rx_key cx) ty payload) (\<lambda>_ s. ?S s \<and> ?D s) ?E" for ty payload
    by (rule quiet_triple [OF q.framed_emit stable]) (simp add: left_def not_integrating)
  have mark: "triple (\<lambda>s. ?S s \<and> ?D s) (run_state env (rx_key cx) [(''last_integration_status'', JStr ''needs_decision'')])
      (\<lambda>_ s. ?S s \<and> ?D s) ?E"
    by (rule state_triple [OF key, where v = "JStr ''needs_decision''"])
       (auto simp: nearD(1) not_integrating left_def intro!: crash_point_left)
  have fin: "triple (\<lambda>s. ?S s \<and> ?D s) (finish env cx False ''needs_decision'' NEEDS_DECISION ex)
      (\<lambda>r s. ?S s \<and> concluded env cx r s) ?E"
    by (rule finish_triple [OF stable]) (simp_all add: concluded_def left_def not_integrating)
  show ?thesis
    unfolding stop_for_decision_def by (rule triple_bind [OF leave triple_bind [OF emit triple_bind [OF mark fin]]])
qed

lemma stop_triple':
  assumes key: "normalize_task_key (rx_key cx) = Inr (rx_key cx)"
  shows "triple (\<lambda>s. snd_run env cx s0 s \<and> P s) (stop_for_decision env cx summary audit ex)
      (\<lambda>r s. snd_run env cx s0 s \<and> concluded env cx r s) (snd_run env cx s0)"
  by (rule triple_weaken [OF stop_triple [OF key]]) auto

section \<open>Validators\<close>

definition evidence_row ::
  "integration_env \<Rightarrow> string \<Rightarrow> string \<Rightarrow> string \<Rightarrow> string \<Rightarrow> validator_spec \<times> int \<times> string \<Rightarrow> validator_evidence_row" where
  "evidence_row env key head target diff = (\<lambda>(spec, code, output).
     \<lparr>ve_task_key = key, ve_run_id = ie_run_id env, ve_validator = vs_name spec, ve_command = vs_command spec,
      ve_status = validator_status code, ve_exit_code = Some code, ve_output = Some output,
      ve_branch_sha = Some head, ve_target_sha = Some target, ve_diff_context = Some diff, ve_created_at = ie_now env\<rparr>)"

lemma run_one_spec: "run_one env cwd spec s = (s', Inr x) \<Longrightarrow> fst x = spec"
  by (auto simp: run_one_def abind_def aget_def areturn_def araise_def split: validator_run.splits)

lemma outcomes_triple:
  assumes P: "stable key run_id specs0 s0 P"
  shows "triple (\<lambda>s. sound key run_id specs0 s0 s \<and> P s) (afor (run_one env cwd) specs)
      (\<lambda>outcomes s. map fst outcomes = specs \<and> sound key run_id specs0 s0 s \<and> P s) (sound key run_id specs0 s0)"
proof -
  let ?I = "\<lambda>acc s. (\<forall>(x, y) \<in> set acc. fst y = x) \<and> sound key run_id specs0 s0 s \<and> P s"
  have "triple (?I acc) (run_one env cwd x) (\<lambda>y. ?I (acc @ [(x, y)])) (sound key run_id specs0 s0)" for x acc
    by (rule triple_weaken [OF triple_pure [where b = "\<forall>(x, y) \<in> set acc. fst y = x",
          OF triple_result [OF quiet_triple [OF q.framed_run_one P] run_one_spec]]]) auto
  from triple_for [of ?I, OF this, of "[]"]
  show ?thesis
  proof (rule triple_weaken)
    fix ys s
    assume "length ys = length specs \<and> ?I ([] @ zip specs ys) s"
    then show "map fst ys = specs \<and> sound key run_id specs0 s0 s \<and> P s"
      using zip_firsts(1) [of ys specs fst] by simp
  qed simp_all
qed

lemma evidence_triple:
  assumes key: "normalize_task_key key = Inr key" and P: "stable key run_id specs s0 P"
  shows "triple (\<lambda>s. sound key run_id specs s0 s \<and> P s)
      (afor (\<lambda>v. on_db (atx_unit (record_validator_evidence key (evidence_row env key head target diff v)))) outcomes)
      (\<lambda>_ s. (\<forall>v \<in> set outcomes. evidence_row env key head target diff v \<in> set (ig_validator_evidence (ws_db s))) \<and>
         sound key run_id specs s0 s \<and> P s) (sound key run_id specs s0)"
proof -
  let ?row = "evidence_row env key head target diff"
  let ?R = "\<lambda>acc s. \<forall>(v, y) \<in> set acc. ?row v \<in> set (ig_validator_evidence (ws_db s))"
  let ?I = "\<lambda>(acc :: ((validator_spec \<times> int \<times> string) \<times> unit) list) s. ?R acc s \<and> sound key run_id specs s0 s \<and> P s"
  have stable: "stable key run_id specs s0 (\<lambda>s. ?R acc s \<and> P s)" for acc
    unfolding stable_def using calmD(6) [OF quiet_sound(4)] stableD [OF P] by blast
  have "triple (?I acc) (on_db (atx_unit (record_validator_evidence key (?row x)))) (\<lambda>y. ?I (acc @ [(x, y)])) (sound key run_id specs s0)" for x acc
  proof (rule triple_on_db)
    fix s d r
    assume s: "?I acc s" and run: "atx_unit (record_validator_evidence key (?row x)) (ws_db s) = (d, r)"
    have "calm key (ws_db s) d" using run by (auto simp: atx_unit_def split: sum.splits dest: evidence_calm)
    then have step: "quiet_step key s (save d s)" by (rule quiet_saved)
    have kept: "sound key run_id specs s0 (save d s)" "?R acc (save d s) \<and> P (save d s)"
      using s quiet_sound(1) [OF _ step] stableD [OF stable [of acc] _ _ step] by blast+
    show "case r of Inl _ \<Rightarrow> sound key run_id specs s0 (save d s) | Inr y \<Rightarrow> ?I (acc @ [(x, y)]) (save d s)"
    proof (cases r)
      case (Inr y)
      then have "record_validator_evidence key (?row x) (ws_db s) = Inr d"
        using run by (auto simp: atx_unit_def split: sum.splits)
      then have "?row x \<in> set (ig_validator_evidence d)"
        using evidence_added [OF _ key, of "?row x"] by (simp add: evidence_row_def case_prod_beta)
      then show ?thesis using kept Inr by auto
    qed (use kept in simp)
  qed
  from triple_for [of ?I, OF this, of "[]" outcomes]
  show ?thesis
  proof (rule triple_weaken)
    fix ys s
    assume "length ys = length outcomes \<and> ?I ([] @ zip outcomes ys) s"
    then show "(\<forall>v \<in> set outcomes. ?row v \<in> set (ig_validator_evidence (ws_db s))) \<and> sound key run_id specs s0 s \<and> P s"
      using zip_firsts(2) [of ys outcomes "\<lambda>v. ?row v \<in> set (ig_validator_evidence (ws_db s))"] by simp
  qed simp_all
qed

lemma validators_triple:
  assumes key: "normalize_task_key key = Inr key" and P: "stable key (ie_run_id env) specs s0 P"
  shows "triple (\<lambda>s. sound key (ie_run_id env) specs s0 s \<and> P s)
      (run_integration_validators env key cwd dir specs head target diff)
      (\<lambda>passed s. sound key (ie_run_id env) specs s0 s \<and> P s \<and> (passed \<longrightarrow> validated key (ie_run_id env) specs head target (ws_db s)))
      (sound key (ie_run_id env) specs s0)"
proof -
  let ?S = "sound key (ie_run_id env) specs s0"
  let ?row = "evidence_row env key head target diff"
  have rows: "(\<lambda>(spec, code, output). on_db (atx_unit (record_validator_evidence key
           \<lparr>ve_task_key = key, ve_run_id = ie_run_id env, ve_validator = vs_name spec, ve_command = vs_command spec,
            ve_status = validator_status code, ve_exit_code = Some code, ve_output = Some output,
            ve_branch_sha = Some head, ve_target_sha = Some target, ve_diff_context = Some diff,
            ve_created_at = ie_now env\<rparr>))) = (\<lambda>v. on_db (atx_unit (record_validator_evidence key (?row v))))"
    by (auto simp: fun_eq_iff evidence_row_def)
  show ?thesis
    unfolding run_integration_validators_def rows Let_def
  proof (rule triple_bind [OF outcomes_triple [OF P]])
    fix outcomes :: "(validator_spec \<times> int \<times> string) list"
    let ?A = "\<lambda>s. \<forall>v \<in> set outcomes. ?row v \<in> set (ig_validator_evidence (ws_db s))"
    let ?passed = "specs \<noteq> [] \<and> list_all (\<lambda>(_, code, _). validator_status code = ''passed'') outcomes"
    have stable: "stable key (ie_run_id env) specs s0 (\<lambda>s. ?A s \<and> P s)"
      unfolding stable_def using calmD(6) [OF quiet_sound(4)] stableD [OF P] by blast
    have files: "triple (\<lambda>s. ?S s \<and> ?A s \<and> P s)
        (case dir of None \<Rightarrow> areturn () | Some d \<Rightarrow> run_artifact env key ''integration_validator_evidence''
            (evidence_file d (''validators-'' @ ie_run_id env @ ''.json''))) (\<lambda>_ s. ?S s \<and> ?A s \<and> P s) ?S"
      by (rule quiet_triple [OF _ stable]) (intro q.git_rules q.framed_artifact)
    have result: "validated key (ie_run_id env) specs head target (ws_db s)"
      if "map fst outcomes = specs" "?A s" "?passed" for s
      unfolding validated_def
    proof (intro conjI ballI)
      fix spec
      assume "spec \<in> set specs"
      then have "spec \<in> fst ` set outcomes" using that(1) by (metis set_map)
      then obtain v where v: "v \<in> set outcomes" "fst v = spec" by blast
      obtain code out where c: "v = (spec, code, out)" using v(2) by (cases v) auto
      have "code = 0" using that(3) v(1) unfolding c by (auto simp: list_all_iff validator_status_def split: if_splits)
      then show "\<exists>row \<in> set (ig_validator_evidence (ws_db s)). ve_task_key row = key \<and> ve_run_id row = ie_run_id env \<and>
          ve_validator row = vs_name spec \<and> ve_command row = vs_command spec \<and> ve_status row = ''passed'' \<and>
          ve_exit_code row = Some 0 \<and> ve_branch_sha row = Some head \<and> ve_target_sha row = Some target"
        using that(2) v(1) unfolding c by (intro bexI [of _ "?row (spec, code, out)"]) (auto simp: evidence_row_def validator_status_def)
    qed (use that in simp)
    have rec: "triple (\<lambda>s. ?S s \<and> P s) (afor (\<lambda>v. on_db (atx_unit (record_validator_evidence key (?row v)))) outcomes)
        (\<lambda>_ s. ?S s \<and> ?A s \<and> P s) ?S"
      by (rule triple_weaken [OF evidence_triple [OF key P]]) auto
    have ret: "map fst outcomes = specs \<Longrightarrow> triple (\<lambda>s. ?S s \<and> ?A s \<and> P s) (areturn ?passed)
        (\<lambda>passed s. ?S s \<and> P s \<and> (passed \<longrightarrow> validated key (ie_run_id env) specs head target (ws_db s))) ?S"
      by (rule triple_return) (use result in blast)
    show "triple (\<lambda>s. map fst outcomes = specs \<and> ?S s \<and> P s)
        (abind (afor (\<lambda>v. on_db (atx_unit (record_validator_evidence key (?row v)))) outcomes)
          (\<lambda>_. abind (case dir of None \<Rightarrow> areturn () | Some d \<Rightarrow> run_artifact env key ''integration_validator_evidence''
              (evidence_file d (''validators-'' @ ie_run_id env @ ''.json'')))
            (\<lambda>_. areturn ?passed)))
        (\<lambda>passed s. ?S s \<and> P s \<and> (passed \<longrightarrow> validated key (ie_run_id env) specs head target (ws_db s))) ?S"
      by (rule triple_given) (rule triple_bind [OF rec triple_bind [OF files ret]])
  qed
qed

section \<open>Publishing\<close>

definition announced :: "string \<Rightarrow> work_state \<Rightarrow> work_state \<Rightarrow> bool" where
  "announced key s0 s \<longleftrightarrow> marker_of (ws_db s) key = JStr RUN_PUBLISHING \<and> \<not> created (since s0 s)"

lemma stable_announced: "stable key run_id specs s0 (announced key s0)"
  unfolding stable_def announced_def using calmD(7) [OF quiet_sound(4)] quiet_sound(3) by metis

lemma build_push_shape:
  assumes "build_push_command remote branch base up = Inr argv"
  shows "\<exists>rest. argv = ''git'' # ''push'' # rest"
  using assms by (auto simp: build_push_command_def Let_def rbind_Inr_iff)

lemma ran_point:
  assumes "good_point key run_id specs d0 d xs"
    and "is_push argv \<Longrightarrow> marker_of d key \<in> {JStr RUN_PUBLISHING, JStr RUN_CREATING_PR}"
    and "is_create argv \<Longrightarrow> marker_of d key = JStr RUN_CREATING_PR"
  shows "good_point key run_id specs d0 d (xs @ [Ran argv])"
  using assms by (auto simp: good_point_def crash_point_def)

lemma push_triple:
  "triple (\<lambda>s. sound key run_id specs s0 s \<and> announced key s0 s \<and> checked key run_id specs h t s0 s)
     (push_branch genv cwd remote branch base)
     (\<lambda>_ s. sound key run_id specs s0 s \<and> announced key s0 s \<and> checked key run_id specs h t s0 s) (sound key run_id specs s0)"
  (is "triple ?P _ (\<lambda>_. ?P) ?S")
proof -
  have step: "?P (ran (''git'' # ''push'' # rest) s)" if "?P s" for s rest
  proof -
    have c: "\<not> is_create (''git'' # ''push'' # rest)" by (simp add: is_create_def)
    have "good_point key run_id specs (ws_db s0) (ws_db s) (since s0 s @ [Ran (''git'' # ''push'' # rest)])"
      by (rule ran_point [OF sound_point]) (use that c in \<open>auto simp: announced_def\<close>)
    note sound_ran [OF conjunct1 [OF that] this]
    then show ?thesis using that c by (simp add: announced_def checked_def)
  qed
  have git: "triple ?P (run_git genv cwd (''push'' # rest) check tb bb) (\<lambda>_. ?P) ?S" for rest check tb bb
  proof (rule tripleI)
    fix s s' r
    assume P: "?P s" and run: "run_git genv cwd (''push'' # rest) check tb bb s = (s', r)"
    have "s' = s \<or> s' = ran (''git'' # ''push'' # rest) s"
      using run by (auto simp: run_git_def Let_def split: sum.splits if_splits)
    then have "?P s'" using P step [OF P] by auto
    then show "case r of Inl _ \<Rightarrow> ?S s' | Inr x \<Rightarrow> ?P s'" by (cases r) auto
  qed
  have push: "triple ?P (run_git genv cwd (drop 1 argv) check tb bb) (\<lambda>_. ?P) ?S" if "\<exists>rest. argv = ''git'' # ''push'' # rest" for argv check tb bb
    using that git by auto
  show ?thesis
    unfolding push_branch_def
  proof (rule triple_bind)
    show "triple ?P (aget (\<lambda>_. build_push_command remote branch base False)) (\<lambda>argv s. (\<exists>rest. argv = ''git'' # ''push'' # rest) \<and> ?P s) ?S"
      by (rule triple_get) (use build_push_shape in blast)+
    show "triple (\<lambda>s. (\<exists>rest. argv = ''git'' # ''push'' # rest) \<and> ?P s)
        (abind (run_git genv cwd (drop 1 argv) False (Some branch) base) (\<lambda>r. if \<not> gr_ok r then araise IntegrationGitError else areturn argv)) (\<lambda>_. ?P) ?S" for argv
    proof -
      have "triple ?P (abind (run_git genv cwd (drop 1 argv) False (Some branch) base)
          (\<lambda>r. if \<not> gr_ok r then araise IntegrationGitError else areturn argv)) (\<lambda>_. ?P) ?S" if "\<exists>rest. argv = ''git'' # ''push'' # rest"
        by (rule triple_bind [OF push [OF that] triple_if [OF triple_raise triple_return]]) auto
      then show ?thesis by (rule triple_given)
    qed
  qed
qed

text \<open>Writing PR fields: with a PR number on record every later crash is told apart by it.\<close>

lemma pr_write_point:
  assumes "good_point key run_id specs d0 d xs" "pr_written key new d d'" "map_of new ''pr_number'' = Some (JInt n)"
    and base: "base_of d' key = base_of d0 key \<or> gated key run_id specs d'"
  shows "good_point key run_id specs d0 d' xs"
proof -
  have "pr_number_of d' key \<noteq> JNull" using assms(2,3) by (auto simp: pr_written_def)
  then show ?thesis
    using assms(1,2) base by (auto simp: good_point_def crash_point_def pr_written_def task_keys_distinct_def)
qed

lemma create_triple:
  "triple (\<lambda>s. sound key run_id specs s0 s \<and> marker_of (ws_db s) key = JStr RUN_CREATING_PR \<and> checked key run_id specs h t s0 s)
     (create_pr (gh_runner env) gh_bin repo draft base head title body)
     (\<lambda>_ s. sound key run_id specs s0 s \<and> checked key run_id specs h t s0 s) (sound key run_id specs s0)"
  (is "triple ?P _ (\<lambda>_. ?Q) ?S")
proof -
  have gh: "triple ?P (run_gh (gh_runner env) repo argv) (\<lambda>_. ?Q) ?S" for argv
  proof (rule tripleI)
    fix s s' r
    assume P: "?P s" and run: "run_gh (gh_runner env) repo argv s = (s', r)"
    have "good_point key run_id specs (ws_db s0) (ws_db s) (since s0 s @ [Ran argv])"
      by (rule ran_point [OF sound_point]) (use P in auto)
    then have "?S (ran argv s)" using sound_ran(1) P by blast
    moreover have "s' = s \<or> s' = ran argv s"
      using run by (auto simp: run_gh_def abind_def aget_def gh_runner_def split: sum.splits)
    ultimately have "?Q s'" using P by (auto simp: checked_def)
    then show "case r of Inl _ \<Rightarrow> ?S s' | Inr x \<Rightarrow> ?Q s'" by (cases r) auto
  qed
  show ?thesis
    unfolding create_pr_def run_checked_def
    by (rule triple_bind [OF triple_bind [OF gh, where Q = "\<lambda>_. ?Q"]])
       (auto intro!: triple_if triple_raise triple_return triple_option split: prod.split)
qed

text \<open>A transaction that writes PR fields with a PR number.\<close>

lemma pr_tx_triple:
  assumes run: "\<And>d d' x. tx d = Inr (d', x) \<Longrightarrow> pr_written key new d d'" and n: "map_of new ''pr_number'' = Some (JInt n)"
    and base: "\<And>s d'. \<lbrakk>P s; pr_written key new (ws_db s) d'\<rbrakk> \<Longrightarrow>
       (base_of d' key = base_of (ws_db s0) key \<or> gated key run_id specs d') \<and> Q (save d' s)"
  shows "triple (\<lambda>s. sound key run_id specs s0 s \<and> P s) (on_db (atx tx)) (\<lambda>_ s. sound key run_id specs s0 s \<and> Q s) (sound key run_id specs s0)"
proof (rule triple_on_db)
  fix s d r
  assume s: "sound key run_id specs s0 s \<and> P s" and tx: "atx tx (ws_db s) = (d, r)"
  note point = sound_point [OF conjunct1 [OF s]]
  show "case r of Inl _ \<Rightarrow> sound key run_id specs s0 (save d s) | Inr x \<Rightarrow> sound key run_id specs s0 (save d s) \<and> Q (save d s)"
  proof (cases "tx (ws_db s)")
    case (Inl e)
    then have "d = ws_db s" "r = Inl e" using tx by (auto simp: atx_def)
    then show ?thesis using sound_save(1) [OF conjunct1 [OF s] point] by simp
  next
    case (Inr p)
    then have up: "tx (ws_db s) = Inr (d, snd p)" and r: "r = Inr (snd p)" using tx by (auto simp: atx_def split: prod.splits)
    note w = run [OF up]
    show ?thesis
      using sound_save(1) [OF conjunct1 [OF s] pr_write_point [OF point w n conjunct1 [OF base [OF conjunct2 [OF s] w]]]]
        conjunct2 [OF base [OF conjunct2 [OF s] w]] r by simp
  qed
qed

lemma record_pr_triple:
  assumes key: "normalize_task_key key = Inr key"
  shows "triple (\<lambda>s. sound key run_id specs s0 s \<and> checked key run_id specs h t s0 s)
     (on_db (atx (update_pr_state now key [(''pr_number'', JInt n), (''pr_url'', u), (''pr_state'', v), (''pr_head_sha'', w)])))
     (\<lambda>_ s. sound key run_id specs s0 s \<and> checked key run_id specs h t s0 s) (sound key run_id specs s0)"
  by (rule pr_tx_triple [OF pr_update(1) [OF _ key], where n = n]) (auto simp: pr_written_def checked_def validated_def)

section \<open>The phases\<close>

abbreviation chk_run :: "integration_env \<Rightarrow> run_context \<Rightarrow> string \<Rightarrow> string \<Rightarrow> work_state \<Rightarrow> work_state \<Rightarrow> bool" where
  "chk_run env cx h t s0 \<equiv> checked (rx_key cx) (ie_run_id env) (ir_validators (rx_request cx)) h t s0"

abbreviation done_run :: "integration_env \<Rightarrow> run_context \<Rightarrow> work_state \<Rightarrow> integration_result \<Rightarrow> work_state \<Rightarrow> bool" where
  "done_run env cx s0 \<equiv> \<lambda>r s. snd_run env cx s0 s \<and> concluded env cx r s"

lemma publish_pr_triple:
  assumes key: "normalize_task_key (rx_key cx) = Inr (rx_key cx)"
  shows "triple (\<lambda>s. snd_run env cx s0 s \<and> announced (rx_key cx) s0 s \<and> chk_run env cx h t s0 s) (publish_pr env cx title body sha)
     (\<lambda>_ s. snd_run env cx s0 s \<and> chk_run env cx h t s0 s) (snd_run env cx s0)"
proof -
  let ?S = "snd_run env cx s0" and ?C = "chk_run env cx h t s0"
  have mark: "triple (\<lambda>s. ?S s \<and> announced (rx_key cx) s0 s \<and> ?C s)
      (run_state env (rx_key cx) [(''last_integration_status'', JStr RUN_CREATING_PR)])
      (\<lambda>_ s. ?S s \<and> marker_of (ws_db s) (rx_key cx) = JStr RUN_CREATING_PR \<and> ?C s) ?S"
    by (rule state_triple [OF key, where v = "JStr RUN_CREATING_PR"])
       (auto simp: crash_point_def checked_def nearD(3) dest: nearD(6) intro: validated_mono)
  have upd: "triple (\<lambda>s. ?S s \<and> ?C s) (update_pr (gh_runner env) loads gh_bin repo number ti bo) (\<lambda>_ s. ?S s \<and> ?C s) ?S"
    for loads gh_bin repo number ti bo
    by (rule quiet_triple [OF q.framed_update_pr [OF TrueI] stable_checked])
  show ?thesis
    unfolding publish_pr_def Let_def
    by (intro triple_if triple_bind [OF mark triple_bind [OF create_triple triple_bind [OF record_pr_triple [OF key] triple_return]]]
          triple_weaken [OF upd]) auto
qed

lemma gated_written:
  assumes "pr_written key new d d'" "map_of new ''pr_head_sha'' = Some (JStr h)" "map_of new ''integrated_base_sha'' = Some (JStr t)"
    "validated key run_id specs h t d"
  shows "gated key run_id specs d'"
  unfolding gated_def
  by (intro exI [of _ h] exI [of _ t]) (use assms in \<open>auto simp: pr_written_def validated_def\<close>)

lemma complete_triple:
  assumes key: "normalize_task_key (rx_key cx) = Inr (rx_key cx)" and v: "ex_validated ex"
  shows "triple (\<lambda>s. snd_run env cx s0 s \<and> chk_run env cx sha target s0 s) (complete env cx target sha ex sn)
     (done_run env cx s0) (snd_run env cx s0)"
proof -
  let ?S = "snd_run env cx s0" and ?G = "\<lambda>s. gated (rx_key cx) (ie_run_id env) (ir_validators (rx_request cx)) (ws_db s)"
  let ?R = "\<lambda>s. status_of (ws_db s) (rx_key cx) = Some NEEDS_REVIEW \<and> ?G s"
  have rec: "triple (\<lambda>s. ?S s \<and> chk_run env cx sha target s0 s)
      (on_db (atx (record_integration_completed (ie_now env) (rx_key cx)
       [(''pr_number'', JInt (sn_number sn)), (''pr_url'', jopt (sn_url sn)),
        (''pr_state'', JStr (text_or (sn_state sn) ''open'')), (''pr_head_sha'', JStr sha),
        (''integrated_base_sha'', JStr target), (''reintegration_required'', JBool False)]
       (increments_count cx)
       [(''previous_integrated_base_sha'', col (rx_pr_state cx) ''integrated_base_sha''), (''new_target_sha'', JStr target),
        (''behind_count'', JInt (ex_behind ex)), (''last_integration_status'', JStr RUN_INTEGRATED)]))) (\<lambda>_ s. ?S s \<and> ?G s) ?S"
    by (rule pr_tx_triple [OF completed_update(1) [OF _ key], where n = "sn_number sn"])
       (auto simp: checked_def intro: gated_written [where h = sha and t = target])
  have leave: "triple (\<lambda>s. ?S s \<and> ?G s) (run_status env CONTROLLER_SOURCE (rx_key cx) NEEDS_REVIEW INTEGRATING) (\<lambda>_ s. ?S s \<and> ?R s) ?S"
    by (rule triple_weaken [OF leave_triple [where P = ?G]]) (auto intro: gated_restatus)
  have stable: "stable (rx_key cx) (ie_run_id env) (ir_validators (rx_request cx)) s0 ?R"
    by (intro stable_conj stable_gated stable_status)
  have emit: "triple (\<lambda>s. ?S s \<and> ?R s) (run_emit env CONTROLLER_SOURCE (rx_key cx) ty payload) (\<lambda>_ s. ?S s \<and> ?R s) ?S" for ty payload
    by (rule quiet_triple [OF q.framed_emit stable])
  have fin: "triple (\<lambda>s. ?S s \<and> ?R s) (finish env cx True ''integrated'' NEEDS_REVIEW ex) (done_run env cx s0) ?S"
    by (rule triple_weaken [OF finish_triple [OF stable]]) (use v in \<open>auto simp: concluded_def left_def not_integrating\<close>)
  show ?thesis
    unfolding complete_def by (rule triple_bind [OF rec triple_bind [OF leave triple_bind [OF emit fin]]])
qed

lemma publish_triple:
  assumes key: "normalize_task_key (rx_key cx) = Inr (rx_key cx)" and v: "ex_validated ex"
  shows "triple (\<lambda>s. snd_run env cx s0 s \<and> fresh (rx_key cx) s0 s \<and> chk_run env cx sha target s0 s)
     (publish env cx target sha changed ex) (done_run env cx s0) (snd_run env cx s0)"
proof -
  let ?S = "snd_run env cx s0" and ?C = "chk_run env cx sha target s0"
  let ?F = "\<lambda>s. fresh (rx_key cx) s0 s \<and> ?C s" and ?A = "\<lambda>s. announced (rx_key cx) s0 s \<and> ?C s"
  have stable: "stable (rx_key cx) (ie_run_id env) (ir_validators (rx_request cx)) s0 ?F"
    by (intro stable_conj stable_fresh stable_checked)
  have quiet: "triple (\<lambda>s. ?S s \<and> ?F s) m (\<lambda>_ s. ?S s \<and> ?F s) ?S" if "q.framed (rx_key cx) m" for m :: "'b run"
    by (rule quiet_triple [OF that stable])
  have mark: "triple (\<lambda>s. ?S s \<and> ?F s) (run_state env (rx_key cx) [(''last_integration_status'', JStr RUN_PUBLISHING)]) (\<lambda>_ s. ?S s \<and> ?A s) ?S"
  proof (rule state_triple [OF key, where v = "JStr RUN_PUBLISHING"])
    fix s d
    assume a: "?S s" "?F s" "near (rx_key cx) (ws_db s) d" "marker_of d (rx_key cx) = JStr RUN_PUBLISHING"
    have p: "crash_point (rx_key cx) d (since s0 s)" using a by (simp add: crash_point_def fresh_def)
    then show "crash_point (rx_key cx) d (since s0 s) \<and> (?S (save d s) \<longrightarrow> ?A (save d s))"
      using a p nearD [OF a(3)] by (auto simp: announced_def checked_def fresh_def since_save [OF a(1)] intro: validated_mono)
  qed simp_all
  have push: "triple (\<lambda>s. ?S s \<and> ?A s)
      (if should_push then abind (attempt IntegrationGitError (push_branch g c r b ba)) (\<lambda>r. areturn (r \<noteq> None)) else areturn True)
      (\<lambda>pushed s. ?S s \<and> (pushed \<longrightarrow> ?A s)) ?S" for should_push g c r b ba
  proof -
    have "triple (\<lambda>s. ?S s \<and> ?A s) (attempt IntegrationGitError (push_branch g c r b ba)) (\<lambda>r s. ?S s \<and> (r \<noteq> None \<longrightarrow> ?A s)) ?S"
      by (rule triple_attempt, rule triple_weaken [OF push_triple]) auto
    then show ?thesis by (intro triple_if triple_return triple_bind) auto
  qed
  have pr: "triple (\<lambda>s. ?S s \<and> ?A s) (attempt GitHubPrError (publish_pr env cx ti bo sha)) (\<lambda>sn s. ?S s \<and> (sn \<noteq> None \<longrightarrow> ?C s)) ?S"
    for ti bo by (rule triple_attempt, rule triple_weaken [OF publish_pr_triple [OF key]]) auto
  have last: "triple (\<lambda>s. ?S s \<and> (sn \<noteq> None \<longrightarrow> ?C s))
      (case sn of None \<Rightarrow> stop_for_decision env cx su au ne | Some x \<Rightarrow> complete env cx target sha ex x) (done_run env cx s0) ?S" for sn su au ne
    using stop_triple' [OF key, where P = "\<lambda>_. True"] complete_triple [OF key v] by (cases sn) simp_all
  have tail: "triple (\<lambda>s. ?S s \<and> (pushed \<longrightarrow> ?A s))
      (if \<not> pushed then stop_for_decision env cx su au ne
       else abind (attempt GitHubPrError (publish_pr env cx ti bo sha)) (\<lambda>sn.
         case sn of None \<Rightarrow> stop_for_decision env cx su' au ne | Some x \<Rightarrow> complete env cx target sha ex x)) (done_run env cx s0) ?S"
    for pushed su su' au ne ti bo
    using stop_triple' [OF key, where P = "\<lambda>_. True"] triple_bind [OF pr last] by (cases pushed) simp_all
  have head: "triple (\<lambda>s. ?S s \<and> ?F s) (attempt IntegrationGitError (assert_head_on_task_branch g c b e)) (\<lambda>_ s. ?S s \<and> ?F s) ?S" for g c b e
    by (rule quiet) (intro q.framed_git_calls)
  have should: "triple (\<lambda>s. ?S s \<and> ?F s) (if b then areturn True else abind (remote_branch_sha g c r br) (\<lambda>r. areturn (r \<noteq> Some sha))) (\<lambda>_ s. ?S s \<and> ?F s) ?S"
    for b g c r br by (rule quiet) (intro q.git_rules q.framed_git_calls)
  show ?thesis
    unfolding publish_def Let_def
    by (intro triple_bind [OF head] triple_if stop_triple' [OF key] triple_bind [OF should] triple_bind [OF mark] triple_bind [OF push] tail)
qed

text \<open>Before anything is published: the calls that decide nothing keep this.\<close>

abbreviation new_run :: "integration_env \<Rightarrow> run_context \<Rightarrow> work_state \<Rightarrow> work_state \<Rightarrow> bool" where
  "new_run env cx s0 \<equiv> \<lambda>s. snd_run env cx s0 s \<and> fresh (rx_key cx) s0 s"

lemma fresh_triple:
  "q.framed (rx_key cx) m \<Longrightarrow> triple (new_run env cx s0) m (\<lambda>_. new_run env cx s0) (snd_run env cx s0)"
  by (rule quiet_triple [OF _ stable_fresh])

lemma validate_tree_triple:
  assumes key: "normalize_task_key (rx_key cx) = Inr (rx_key cx)"
  shows "triple (new_run env cx s0) (validate_tree env cx target ex) (done_run env cx s0) (snd_run env cx s0)"
proof -
  let ?S = "snd_run env cx s0" and ?N = "new_run env cx s0"
  let ?V = "\<lambda>passed sha s. ?S s \<and> fresh (rx_key cx) s0 s \<and>
      (passed \<longrightarrow> validated (rx_key cx) (ie_run_id env) (ir_validators (rx_request cx)) sha target (ws_db s))"
  have vals: "triple ?N (run_integration_validators env (rx_key cx) cwd dir (ir_validators (rx_request cx)) sha target diff)
      (\<lambda>passed. ?V passed sha) ?S" for cwd dir sha diff
    by (rule triple_weaken [OF validators_triple [OF key stable_fresh]]) auto
  have last: "triple (?V passed sha) (if \<not> passed then stop_for_decision env cx su au ex'
        else publish env cx target sha changed (ex\<lparr>ex_validated := True\<rparr>)) (done_run env cx s0) ?S" for passed sha su au ex' changed
    by (rule triple_if, rule stop_triple' [OF key], rule triple_weaken [OF publish_triple [OF key]])
       (auto simp: checked_def fresh_def)
  show ?thesis
    unfolding validate_tree_def Let_def
    by (intro triple_bind [OF fresh_triple] triple_option stop_triple' [OF key] triple_bind [OF vals last] q.framed_git_calls)
qed

lemma handle_conflict_triple:
  assumes key: "normalize_task_key (rx_key cx) = Inr (rx_key cx)"
  shows "triple (new_run env cx s0) (handle_conflict env cx target behind paths) (done_run env cx s0) (snd_run env cx s0)"
  unfolding handle_conflict_def Let_def
  by (intro triple_bind [OF fresh_triple] triple_if stop_triple' [OF key] validate_tree_triple [OF key] q.framed_git_calls
      q.framed_run_calls) (auto split: prod.split intro!: triple_bind [OF fresh_triple] triple_if stop_triple' [OF key] validate_tree_triple [OF key] q.framed_git_calls
      q.framed_run_calls)

lemma git_phase_triple:
  assumes key: "normalize_task_key (rx_key cx) = Inr (rx_key cx)"
  shows "triple (new_run env cx s0) (git_phase env cx) (done_run env cx s0) (snd_run env cx s0)"
  unfolding git_phase_def Let_def
  by (intro triple_bind [OF fresh_triple] triple_option triple_if stop_triple' [OF key] validate_tree_triple [OF key]
      handle_conflict_triple [OF key] q.framed_git_calls q.framed_bind q.framed_if)

text \<open>The boundary takes every exception of the phase.\<close>

lemma guarded_triple:
  assumes key: "normalize_task_key (rx_key cx) = Inr (rx_key cx)"
  shows "triple (new_run env cx s0) (guarded_git_phase env cx) (done_run env cx s0) (\<lambda>s. snd_run env cx s0 s \<and> left cx s)"
proof -
  let ?S = "snd_run env cx s0" and ?E = "\<lambda>s. snd_run env cx s0 s \<and> left cx s"
  have look: "triple ?S (aget (\<lambda>s. Inr (get_task (ig_db (ws_db s)) (rx_key cx))))
      (\<lambda>c s. ?S s \<and> map_option t_status c = status_of (ws_db s) (rx_key cx)) ?E"
    by (auto simp: triple_def aget_def status_of_def)
  have abort: "triple ?S (acatch
         (abind (in_progress_operation (ie_git env) (rx_cwd cx)) (\<lambda>operation.
            case operation of
              None \<Rightarrow> areturn ()
            | Some op \<Rightarrow> abind (if op = ''merge'' then abort_merge (ie_git env) (rx_cwd cx) else abort_rebase (ie_git env) (rx_cwd cx))
                (\<lambda>_. areturn ())))
         (\<lambda>_. areturn ())) (\<lambda>_. ?S) ?E"
    by (rule triple_catch [where D = ?S], rule triple_weaken [OF quiet_triple [OF _ stable_true, where E = ?S]])
       (intro q.git_rules q.framed_git_calls | auto intro!: triple_return)+
  have handler: "triple (\<lambda>s. ?S s \<and> map_option t_status c = status_of (ws_db s) (rx_key cx))
      (if map_option t_status c \<noteq> Some INTEGRATING then araise e else abind m (\<lambda>_. stop_for_decision env cx su au ex)) (done_run env cx s0) ?E"
    if m: "triple ?S m (\<lambda>_. ?S) ?E" for c e m su au ex
    by (rule triple_if, rule triple_raise, simp add: left_def, rule triple_weaken [OF triple_bind [OF m stop_triple [OF key]]]) auto
  show ?thesis
    unfolding guarded_git_phase_def
    by (rule triple_catch [OF git_phase_triple [OF key]], rule triple_bind [OF look], rule handler [OF abort])
qed

section \<open>The run under the lock\<close>

lemma started_event:
  assumes key: "normalize_task_key key = Inr key" and st: "status_of ig key = Some x"
  shows "\<exists>d. record_task_event now key ''integration_started'' CONTROLLER_SOURCE payload (ig_db ig) = Inr d"
proof -
  have v: "validate_task_event_type ''integration_started'' = Inr ''integration_started''"
    "require_non_empty CONTROLLER_SOURCE = Inr CONTROLLER_SOURCE" by code_simp+
  have "get_task (ig_db ig) key \<noteq> None" using st by (auto simp: status_of_def)
  moreover have "executor_start_ok (ig_db ig) key ''integration_started'' pl now" for pl by (simp add: executor_start_ok_def)
  ultimately show ?thesis
    unfolding record_task_event_def by (simp add: key v insert_event_ok)
qed

text \<open>
  From a Ticket that is not in \<open>integrating\<close> and whose key is normalised: the whole run, in terms of the
  state \<open>s0\<close> it starts in.
\<close>

lemma integrate_triple:
  assumes key: "normalize_task_key (ir_task_key req) = Inr (ir_task_key req)" and keys: "task_keys_distinct (ws_db s0)"
    and idle: "status_of (ws_db s0) (ir_task_key req) \<noteq> Some INTEGRATING"
  shows "triple (\<lambda>s. s = s0) (integrate_under_lock env req task wt mode pr)
     (\<lambda>r s. sound (ir_task_key req) (ie_run_id env) (ir_validators req) s0 s \<and>
        status_of (ws_db s) (ir_task_key req) = Some (in_final_task_status r) \<and>
        (if in_ok r
         then in_final_task_status r = NEEDS_REVIEW \<and> in_validators_passed r \<and>
              gated (ir_task_key req) (ie_run_id env) (ir_validators req) (ws_db s)
         else in_final_task_status r = NEEDS_DECISION))
     (\<lambda>s. sound (ir_task_key req) (ie_run_id env) (ir_validators req) s0 s \<and> status_of (ws_db s) (ir_task_key req) \<noteq> Some INTEGRATING)"
  (is "triple _ _ ?Q ?E")
proof -
  let ?k = "ir_task_key req"
  let ?S = "sound ?k (ie_run_id env) (ir_validators req) s0"
  let ?N = "\<lambda>s. fresh ?k s0 s \<and> status_of (ws_db s) ?k \<noteq> Some INTEGRATING"
  let ?I = "\<lambda>s. fresh ?k s0 s \<and> status_of (ws_db s) ?k = Some INTEGRATING"
  have start: "?S s0 \<and> ?N s0" using idle by (simp add: sound_start [OF keys] fresh_def since_def)
  have mark: "triple (\<lambda>s. ?S s \<and> ?N s) (run_state env ?k [(''last_integration_run_id'', a), (''last_integration_status'', JStr b), (''trigger_task_key'', c)])
      (\<lambda>_ s. ?S s \<and> ?N s) ?E" for a b c
  proof (rule state_triple [OF key, where v = "JStr b"])
    fix s d
    assume a: "?S s" "?N s" "near ?k (ws_db s) d"
    then have p: "crash_point ?k d (since s0 s)" by (simp add: crash_point_def fresh_def)
    then show "crash_point ?k d (since s0 s) \<and> (?S (save d s) \<longrightarrow> ?N (save d s))"
      using a(2) p nearD [OF a(3)] by (simp add: fresh_def since_save [OF a(1)])
  qed simp_all
  have enter: "triple (\<lambda>s. ?S s \<and> ?N s) (run_status env CONTROLLER_SOURCE ?k INTEGRATING READY_FOR_INTEGRATION) (\<lambda>_ s. ?S s \<and> ?I s) ?E"
  proof -
    have t: "run_target INTEGRATING" "run_target READY_FOR_INTEGRATION" by (simp_all add: run_target_def)
    have "fresh ?k s0 (save d s)" if "?S s" "?N s" "restatus ?k (ws_db s) d" for s d
      using that since_save [OF that(1)] by (simp add: fresh_def restatus_def base_of_def)
    then show ?thesis
      by (intro triple_weaken [OF status_triple [OF t, where P = ?N and Q = "fresh ?k s0"
            and E = "\<lambda>s. status_of (ws_db s) ?k \<noteq> Some INTEGRATING"]]) auto
  qed
  have emit: "triple (\<lambda>s. ?S s \<and> ?I s) (run_emit env CONTROLLER_SOURCE ?k ''integration_started'' payload) (\<lambda>_ s. ?S s \<and> ?I s) ?E" for payload
  proof (rule triple_total)
    show "triple (\<lambda>s. ?S s \<and> ?I s) (run_emit env CONTROLLER_SOURCE ?k ''integration_started'' payload) (\<lambda>_ s. ?S s \<and> ?I s) ?S"
      by (rule quiet_triple [OF q.framed_emit]) (intro stable_conj stable_fresh stable_status)
    show "\<exists>x. snd (run_emit env CONTROLLER_SOURCE ?k ''integration_started'' payload s) = Inr x" if "?S s \<and> ?I s" for s
      using started_event [OF key, of "ws_db s" INTEGRATING "ie_now env" payload] that
      by (auto simp: run_emit_def on_db_save adb_def)
  qed
  have binding: "triple (\<lambda>s. s = s0) (aget f) (\<lambda>_ s. ?S s \<and> ?N s) ?E" for f :: "work_state \<Rightarrow> json result"
    by (rule triple_get) (use start in auto)
  have root: "triple (\<lambda>s. ?S s \<and> ?N s) (aget f) (\<lambda>_ s. ?S s \<and> ?N s) ?E" for f :: "work_state \<Rightarrow> (path option \<times> json) result"
    by (rule triple_get) auto
  have run: "triple (\<lambda>s. ?S s \<and> ?I s) (case v of Inl e \<Rightarrow> stop_for_decision env cx su au ex | Inr _ \<Rightarrow> guarded_git_phase env cx) ?Q ?E"
    if cx: "rx_request cx = req" for v :: "string result" and cx su au ex
  proof -
    have k: "rx_key cx = ?k" using cx by (simp add: rx_key_def)
    note k' = key [folded k]
    show ?thesis
    proof (cases v)
      case (Inl e)
      then show ?thesis
        by (simp, intro triple_weaken [OF stop_triple [OF k']]) (auto simp: concluded_def left_def cx k)
    next
      case (Inr x)
      then show ?thesis
        by (simp, intro triple_weaken [OF guarded_triple [OF k']]) (auto simp: concluded_def left_def cx k)
    qed
  qed
  show ?thesis
    unfolding integrate_under_lock_def Let_def
    by (intro triple_bind [OF binding] triple_bind [OF root] triple_prod triple_bind [OF mark] triple_bind [OF enter]
        triple_bind [OF emit] run) simp
qed

end
