(* ===== verification/Run_Example.thy ===== *)
theory Run_Example
  imports Integration_Controller Integration_Queue
begin

text \<open>A concrete integration: git, GitHub and the validator answer favourably.\<close>

section \<open>A concrete run\<close>

definition example_git_env :: git_env where
  "example_git_env =
     \<lparr>ge_git = (\<lambda>_ _ argv. let parts = drop 7 argv in
        Inr \<lparr>gr_returncode = 0, gr_stdout =
          (if parts = [''rev-parse'', ''--symbolic-full-name'', ''HEAD''] then ''refs/heads/taskflow/AT-1''
           else if take 1 parts = [''rev-list''] then ''0'' else ''abc123''), gr_stderr = []\<rparr>),
      ge_marker = (\<lambda>_ _ _. Inr False), ge_text = (\<lambda>_ _ _. []), ge_resolve = (\<lambda>p. p), ge_locked = True\<rparr>"

definition example_run_env :: integration_env where
  "example_run_env =
     \<lparr>ie_git = example_git_env, ie_now = 9, ie_home = (\<lambda>_. None), ie_is_dir = (\<lambda>_. True), ie_run_id = ''r1'', ie_lock = Inr True,
      ie_lock_evidence = JNull, ie_gh_bin = ''gh'', ie_gh = (\<lambda>_ _. Inr (0, ''https://github.com/o/r/pull/7'')),
      ie_loads = (\<lambda>_. None), ie_binding = (\<lambda>_. Inr JNull), ie_evidence_root = (\<lambda>_ _. Inr (None, JNull)), ie_resolver = None,
      ie_validator = (\<lambda>_ _ _. Completed 0 ''ok''), ie_write = (\<lambda>_. Inr ())\<rparr>"

definition example_request :: integration_request where
  "example_request =
     \<lparr>ir_task_key = ''AT-1'', ir_repo = ''o/r'', ir_target_branch = ''main'', ir_remote = ''origin'',
      ir_validators = [\<lparr>vs_name = ''unit'', vs_command = [''pytest''], vs_timeout_seconds = None\<rparr>], ir_owner = ''x'',
      ir_dry_run = False, ir_confirm_integration = True, ir_draft = True, ir_title = Some ''T'', ir_body = Some ''B'',
      ir_trigger = None, ir_push_no_op = False\<rparr>"

definition example_worktree :: worktree_record where
  "example_worktree =
     \<lparr>wr_task_key = ''AT-1'', wr_repo_path = parse_path ''/r'', wr_worktree_path = parse_path ''/w'', wr_branch = ''taskflow/AT-1'',
      wr_status = ''active'', wr_base_branch = Some ''main'', wr_base_sha = None, wr_created_at = Some 1, wr_cleaned_at = None\<rparr>"

definition example_start :: work_state where
  "example_start = \<lparr>ws_db = example_integration_db, ws_steps = []\<rparr>"

definition example_run :: "work_state \<times> integration_result result" where
  "example_run = integrate_under_lock example_run_env example_request (example_ticket ''AT-1'' ''ready_for_integration'')
     example_worktree ''initial'' default_pr_state example_start"

end
