(* ===== verification/Crash_Safety.thy ===== *)
theory Crash_Safety
  imports Run_Safety Run_Example
begin

text \<open>
  The guarantees of an integration run and of the crash reconciliation together.
\<close>

section \<open>Reconciling one Ticket\<close>

lemma case_targets:
  "CASE_ACTIONS c \<in> {NEEDS_REVIEW, NEEDS_DECISION, READY_FOR_INTEGRATION}" "validate_transition INTEGRATING (CASE_ACTIONS c) = Inr ()"
  by (cases c; simp; code_simp)+

lemma abort_unfinished_framed: "q.framed key (abort_unfinished env k)"
  unfolding abort_unfinished_def Let_def git_or_os_def by (intro q.git_rules q.framed_git_calls)

text \<open>
  What the reconciliation does to the status of a Ticket found in \<open>integrating\<close>: the action of the case it
  reports. Only case A can fail before the status is written, while it undoes the unfinished operation.
\<close>

lemma reconcile_one_triple:
  assumes key: "normalize_task_key (t_key task) = Inr (t_key task)" and keys: "task_keys_distinct (ws_db s1)"
    and st: "status_of (ws_db s1) (t_key task) = Some INTEGRATING"
    and c0: "c0 = fst (classify_crash (marker_of (ws_db s1) (t_key task)) (pr_number_of (ws_db s1) (t_key task))
       (base_of (ws_db s1) (t_key task)) in_queue conflict)"
  shows "triple (\<lambda>s. s = s1) (reconcile_one env repo suffix task in_queue conflict)
     (\<lambda>r s. status_of (ws_db s) (t_key task) = Some (CASE_ACTIONS (cr_case r)) \<and> (c0 \<noteq> CaseA \<longrightarrow> cr_case r = c0))
     (\<lambda>s. c0 \<noteq> CaseA \<longrightarrow> status_of (ws_db s) (t_key task) = Some (CASE_ACTIONS c0))"
proof -
  let ?k = "t_key task"
  let ?S = "sound ?k [] [] s1"
  let ?at = "\<lambda>t s. ?S s \<and> status_of (ws_db s) ?k = Some t"
  let ?Q = "\<lambda>r s. status_of (ws_db s) ?k = Some (CASE_ACTIONS (cr_case r)) \<and> (c0 \<noteq> CaseA \<longrightarrow> cr_case r = c0)"
  let ?E = "\<lambda>s. c0 \<noteq> CaseA \<longrightarrow> status_of (ws_db s) ?k = Some (CASE_ACTIONS c0)"
  have start: "?at INTEGRATING s1" using sound_start [OF keys] st by simp
  have emit: "triple (?at (CASE_ACTIONS c)) (run_emit env CRASH_SOURCE ?k ty payload) (\<lambda>_. ?at (CASE_ACTIONS c)) ?E" if "c0 \<noteq> CaseA \<longrightarrow> c = c0" for c ty payload
    by (rule quiet_triple [OF q.framed_emit stable_status]) (use that in auto)
  have art: "triple (?at (CASE_ACTIONS c)) (run_artifact env ?k ty p) (\<lambda>_. ?at (CASE_ACTIONS c)) ?E" if "c0 \<noteq> CaseA \<longrightarrow> c = c0" for c ty p
    by (rule quiet_triple [OF q.framed_artifact stable_status]) (use that in auto)
  have mark: "triple (?at (CASE_ACTIONS c)) (run_state env ?k [(''last_integration_status'', v)]) (\<lambda>_. ?at (CASE_ACTIONS c)) ?E"
    if "c0 \<noteq> CaseA \<longrightarrow> c = c0" for c v
    by (rule state_triple [OF key, where v = v])
       (use that case_targets(1) [of c] not_integrating in \<open>auto simp: nearD(1) intro!: crash_point_left\<close>)
  have leave: "triple (?at INTEGRATING) (run_status env CRASH_SOURCE ?k (CASE_ACTIONS c) INTEGRATING) (\<lambda>_. ?at (CASE_ACTIONS c)) ?E" for c
  proof (rule triple_total)
    show "triple (?at INTEGRATING) (run_status env CRASH_SOURCE ?k (CASE_ACTIONS c) INTEGRATING) (\<lambda>_. ?at (CASE_ACTIONS c)) (\<lambda>_. True)"
      by (rule triple_weaken [OF leave_triple [OF case_targets(1), where P = "\<lambda>_. True"]]) auto
    have t: "run_target (CASE_ACTIONS c)" "run_target INTEGRATING" using case_targets(1) [of c] by (auto simp: run_target_def)
    show "\<exists>x. snd (run_status env CRASH_SOURCE ?k (CASE_ACTIONS c) INTEGRATING s) = Inr x" if "?at INTEGRATING s" for s
      using status_update_ok [OF t, of "ws_db s" ?k "ie_now env" CRASH_SOURCE] that
      by (auto simp: run_status_def on_db_save adb_def)
  qed
  have abort: "triple (?at INTEGRATING) (if c0 = CaseA then abort_unfinished env ?k else areturn (None, True))
      (\<lambda>x s. (c0 \<noteq> CaseA \<longrightarrow> snd x) \<and> ?at INTEGRATING s) ?E"
  proof (cases "c0 = CaseA")
    case True
    have "triple (?at INTEGRATING) (abort_unfinished env ?k) (\<lambda>_. ?at INTEGRATING) (\<lambda>_. True)"
      by (rule quiet_triple [OF abort_unfinished_framed stable_status]) simp
    then show ?thesis using True by simp
  qed (simp add: triple_return)
  have state: "triple (\<lambda>s. s = s1) (aget (\<lambda>s. get_integration_state (ws_db s) ?k)) (\<lambda>x s. x = state_at (ws_db s1) ?k \<and> s = s1) ?E"
    by (simp add: triple_def aget_def get_integration_state_def key)
  have pr: "triple (\<lambda>s. s = s1) (aget (\<lambda>s. get_pr_state (ws_db s) ?k)) (\<lambda>x s. x = pr_state_at (ws_db s1) ?k \<and> s = s1) ?E"
    by (simp add: triple_def aget_def get_pr_state_def key)
  obtain r0 where cl: "classify_crash (col (state_at (ws_db s1) ?k) ''last_integration_status'') (col (pr_state_at (ws_db s1) ?k) ''pr_number'')
      (col (pr_state_at (ws_db s1) ?k) ''integrated_base_sha'') in_queue conflict = (c0, r0)"
    unfolding c0 marker_of_def pr_number_of_def base_of_def by (metis prod.collapse)
  have legal: "triple P (aget (\<lambda>_. validate_transition INTEGRATING (CASE_ACTIONS c))) (\<lambda>_. P) ?E" for P c
    by (simp add: triple_def aget_def case_targets(2))
  have last: "triple (?at (CASE_ACTIONS c)) (areturn \<lparr>cr_task_key = k, cr_case = c, cr_reason_code = reason, cr_aborted = ab\<rparr>) ?Q ?E"
    if "c0 \<noteq> CaseA \<longrightarrow> c = c0" for c k reason ab
    by (rule triple_return) (use that in auto)
  have mid: "triple (?at (CASE_ACTIONS c))
      (if CASE_ACTIONS c = NEEDS_DECISION
       then abind (run_emit env CRASH_SOURCE ?k ty payload) (\<lambda>_. run_state env ?k [(''last_integration_status'', v)])
       else if CASE_ACTIONS c = READY_FOR_INTEGRATION then run_state env ?k [(''last_integration_status'', w)] else areturn ())
      (\<lambda>_. ?at (CASE_ACTIONS c)) ?E" if "c0 \<noteq> CaseA \<longrightarrow> c = c0" for c ty payload v w
    by (rule triple_if, rule triple_bind [OF emit [OF that] mark [OF that]], rule triple_if, rule mark [OF that], rule triple_return, assumption)
  have arts: "triple (?at (CASE_ACTIONS c)) (case dir of None \<Rightarrow> areturn () | Some d \<Rightarrow> run_artifact env ?k ty (g d)) (\<lambda>_. ?at (CASE_ACTIONS c)) ?E"
    if "c0 \<noteq> CaseA \<longrightarrow> c = c0" for c dir ty and g :: "string \<Rightarrow> path"
    by (rule triple_option, rule triple_return, assumption, rule art [OF that])
  note tail = triple_bind [OF legal triple_bind [OF leave triple_bind [OF emit triple_bind [OF mid triple_bind [OF arts last]]]]]
  have begin_at: "triple (\<lambda>s. s = s1) m Q ?E" if "triple (?at INTEGRATING) m Q ?E" for m :: "crash_report run" and Q
    by (rule triple_weaken [OF that]) (use start in auto)
  have c: "c0 \<noteq> CaseA \<longrightarrow> c = c0"
    if "c0 \<noteq> CaseA \<longrightarrow> snd x" "x = (ab, clean)" "(if clean then (c0, r0) else (CaseF, REASON_AMBIGUOUS)) = (c, r)"
    for x :: "string option \<times> bool" and ab clean c r
    using that by auto
  show ?thesis
    unfolding reconcile_one_def Let_def
    apply (rule triple_bind [OF state], rule triple_given, hypsubst)
    apply (rule triple_bind [OF pr], rule triple_given, hypsubst)
    apply (simp only: cl prod.case)
    apply (rule begin_at, rule triple_bind [OF abort], rule triple_given, rule triple_prod, rule triple_prod)
    by (rule tail; rule c; assumption)
qed

lemma classify_published:
  assumes "marker \<in> {JStr RUN_PUBLISHING, JStr RUN_CREATING_PR}"
  shows "fst (classify_crash marker JNull b in_queue conflict) \<in> {CaseB, CaseC, CaseF}"
    "\<lbrakk>marker = JStr RUN_CREATING_PR; \<not> conflict\<rbrakk> \<Longrightarrow> fst (classify_crash marker JNull b in_queue conflict) = CaseC"
proof -
  have "RUN_PUBLISHING \<noteq> RUN_STARTED" "RUN_CREATING_PR \<noteq> RUN_STARTED" "RUN_CREATING_PR \<noteq> RUN_PUBLISHING" by code_simp+
  then show "fst (classify_crash marker JNull b in_queue conflict) \<in> {CaseB, CaseC, CaseF}"
    "\<lbrakk>marker = JStr RUN_CREATING_PR; \<not> conflict\<rbrakk> \<Longrightarrow> fst (classify_crash marker JNull b in_queue conflict) = CaseC"
    using assms by (auto simp: classify_crash_def Let_def)
qed

section \<open>Claims\<close>

text \<open>
  C3. No integration run leaves its Ticket in \<open>integrating\<close>: whatever git, GitHub, the validators, the
  conflict resolver and the file system do, also by raising, the run ends with the Ticket elsewhere. When it
  returns a result, the Ticket has exactly the status the result reports: \<open>waiting_for_review\<close> on success and
  \<open>needs_decision\<close> otherwise.
\<close>

theorem integration_never_stuck:
  assumes key: "normalize_task_key (ir_task_key req) = Inr (ir_task_key req)" and keys: "task_keys_distinct (ws_db s)"
    and idle: "status_of (ws_db s) (ir_task_key req) \<noteq> Some INTEGRATING"
    and run: "integrate_under_lock env req task worktree mode pr s = (s', r)"
  shows "status_of (ws_db s') (ir_task_key req) \<noteq> Some INTEGRATING \<and>
     (\<forall>result. r = Inr result \<longrightarrow> status_of (ws_db s') (ir_task_key req) = Some (in_final_task_status result) \<and>
        in_final_task_status result = (if in_ok result then NEEDS_REVIEW else NEEDS_DECISION))"
  using tripleD [OF integrate_triple [OF key keys idle] refl run] not_integrating
  by (cases r) (auto split: if_splits)

text \<open>
  C5. The gate: at every point of a run the recorded target commit is the one from before the run, or every
  configured validator (and there is at least one) passed in this very run on the recorded pair of branch
  and target commits. A run that reports success has passed the gate.
\<close>

theorem integration_gate:
  assumes key: "normalize_task_key (ir_task_key req) = Inr (ir_task_key req)" and keys: "task_keys_distinct (ws_db s)"
    and idle: "status_of (ws_db s) (ir_task_key req) \<noteq> Some INTEGRATING"
    and run: "integrate_under_lock env req task worktree mode pr s = (s', r)"
  shows "(\<forall>n. base_of (last_db (ws_db s) (take n (since s s'))) (ir_task_key req) = base_of (ws_db s) (ir_task_key req) \<or>
       gated (ir_task_key req) (ie_run_id env) (ir_validators req) (last_db (ws_db s) (take n (since s s')))) \<and>
     (\<forall>result. r = Inr result \<longrightarrow> in_ok result \<longrightarrow>
       in_validators_passed result \<and> gated (ir_task_key req) (ie_run_id env) (ir_validators req) (ws_db s'))"
proof -
  note post = tripleD [OF integrate_triple [OF key keys idle] refl run]
  have "sound (ir_task_key req) (ie_run_id env) (ir_validators req) s s'" using post by (cases r) auto
  then show ?thesis using post by (simp add: sound_def good_point_def split: sum.splits)
qed

text \<open>
  C4. A crash never leads to a second pull request. Let a run die after any number of its steps, with the
  branch pushed or \<open>gh pr create\<close> executed and no PR on record. Then the reconciliation that finds the Ticket
  in \<open>integrating\<close> hands it to a human (\<open>needs_decision\<close>) and does not queue it again, whatever else it
  meets; and when \<open>gh pr create\<close> was executed and the records agree on the repository, it reports case C.
\<close>

theorem crash_never_publishes_twice:
  assumes key: "normalize_task_key (ir_task_key req) = Inr (ir_task_key req)" and keys: "task_keys_distinct (ws_db s)"
    and idle: "status_of (ws_db s) (ir_task_key req) \<noteq> Some INTEGRATING"
    and run: "integrate_under_lock env req task worktree mode pr s = (s', r)"
    and cut: "xs = take n (since s s')" "d = last_db (ws_db s) xs"
    and crashed: "status_of d (ir_task_key req) = Some INTEGRATING" "pr_number_of d (ir_task_key req) = JNull"
    and published: "pushed xs \<or> created xs"
    and rec: "reconcile_one env' repo suffix t in_queue conflict \<lparr>ws_db = d, ws_steps = ys\<rparr> = (s2, outcome)"
      "t_key t = ir_task_key req"
  shows "status_of (ws_db s2) (ir_task_key req) = Some NEEDS_DECISION \<and>
     (\<forall>report. outcome = Inr report \<longrightarrow> created xs \<longrightarrow> \<not> conflict \<longrightarrow> cr_case report = CaseC)"
proof -
  let ?k = "ir_task_key req" and ?s1 = "\<lparr>ws_db = d, ws_steps = ys\<rparr>"
  have "sound ?k (ie_run_id env) (ir_validators req) s s'"
    using tripleD [OF integrate_triple [OF key keys idle] refl run] by (cases r) auto
  then have point: "good_point ?k (ie_run_id env) (ir_validators req) (ws_db s) d xs"
    using cut by (simp add: sound_def)
  have marker: "marker_of d ?k \<in> {JStr RUN_PUBLISHING, JStr RUN_CREATING_PR}"
    and creating: "created xs \<Longrightarrow> marker_of d ?k = JStr RUN_CREATING_PR"
    using point crashed published by (auto simp: good_point_def crash_point_def)
  define c0 where "c0 = fst (classify_crash (marker_of d ?k) (pr_number_of d ?k) (base_of d ?k) in_queue conflict)"
  have c0: "c0 \<in> {CaseB, CaseC, CaseF}" unfolding c0_def crashed(2) by (rule classify_published(1) [OF marker])
  have d: "task_keys_distinct d" using point by (simp add: good_point_def)
  have "triple (\<lambda>s. s = ?s1) (reconcile_one env' repo suffix t in_queue conflict)
     (\<lambda>r s. status_of (ws_db s) ?k = Some (CASE_ACTIONS (cr_case r)) \<and> (c0 \<noteq> CaseA \<longrightarrow> cr_case r = c0))
     (\<lambda>s. c0 \<noteq> CaseA \<longrightarrow> status_of (ws_db s) ?k = Some (CASE_ACTIONS c0))"
    using reconcile_one_triple [of t ?s1 c0 in_queue conflict env' repo suffix] key d crashed(1) by (simp add: rec(2) c0_def)
  note post = tripleD [OF this refl rec(1)]
  have "status_of (ws_db s2) ?k = Some NEEDS_DECISION" using post c0 by (cases outcome) auto
  moreover have "cr_case report = CaseC" if "outcome = Inr report" "created xs" "\<not> conflict" for report
  proof -
    have "c0 = CaseC" unfolding c0_def crashed(2) by (rule classify_published(2) [OF marker creating [OF that(2)] that(3)])
    then show ?thesis using post that(1) by simp
  qed
  ultimately show ?thesis by blast
qed

section \<open>Witnesses\<close>

lemma example_hyps:
  "normalize_task_key (ir_task_key example_request) = Inr (ir_task_key example_request)"
  "task_keys_distinct (ws_db example_start)" "status_of (ws_db example_start) (ir_task_key example_request) \<noteq> Some INTEGRATING"
  by code_simp+

lemma example_request_key: "ir_task_key example_request = ''AT-1''"
  by (simp add: example_request_def)

text \<open>The run is cut off right after \<open>gh pr create\<close>.\<close>

definition example_cut :: "step list" where
  "example_cut = take 20 (since example_start (fst example_run))"

definition example_crashed :: integration_db where
  "example_crashed = last_db (ws_db example_start) example_cut"

lemma example_crash:
  "(let xs = example_cut; d = last_db (ws_db example_start) xs in
    status_of d ''AT-1'' = Some INTEGRATING \<and> pr_number_of d ''AT-1'' = JNull \<and> created xs)"
  by code_simp

theorem integration_never_stuck_witness: "status_of (ws_db (fst example_run)) ''AT-1'' \<noteq> Some INTEGRATING"
  using integration_never_stuck [OF example_hyps, of _ _ _ _ _ "fst example_run" "snd example_run"]
  by (simp add: example_run_def example_request_key)

theorem integration_gate_witness:
  "\<forall>n. base_of (last_db (ws_db example_start) (take n (since example_start (fst example_run)))) ''AT-1'' =
       base_of (ws_db example_start) ''AT-1'' \<or>
     gated ''AT-1'' ''r1'' (ir_validators example_request) (last_db (ws_db example_start) (take n (since example_start (fst example_run))))"
  using integration_gate [OF example_hyps, of example_run_env _ _ _ _ "fst example_run" "snd example_run"]
  by (simp add: example_run_def example_request_key example_run_env_def)

theorem crash_never_publishes_twice_witness:
  "status_of (ws_db (fst (reconcile_one example_run_env ''o/r'' (\<lambda>k. k) (example_ticket ''AT-1'' ''integrating'') True False
     \<lparr>ws_db = example_crashed, ws_steps = []\<rparr>))) ''AT-1'' = Some NEEDS_DECISION"
proof -
  have f: "status_of example_crashed ''AT-1'' = Some INTEGRATING" "pr_number_of example_crashed ''AT-1'' = JNull" "created example_cut"
    using example_crash by (simp_all add: Let_def example_crashed_def)
  have t: "t_key (example_ticket ''AT-1'' ''integrating'') = ir_task_key example_request"
    by (simp add: example_ticket_def example_request_key)
  have run: "integrate_under_lock example_run_env example_request (example_ticket ''AT-1'' ''ready_for_integration'')
     example_worktree ''initial'' default_pr_state example_start = (fst example_run, snd example_run)" by (simp add: example_run_def)
  show ?thesis
    using crash_never_publishes_twice [OF example_hyps run example_cut_def example_crashed_def f(1,2) [folded example_request_key]
        disjI2 [OF f(3)] prod.collapse [symmetric] t, of example_run_env "''o/r''" "\<lambda>k. k" True False "[]"]
    by (simp only: example_request_key)
qed

end
