(* ===== verification/Ticket_Worktree.thy ===== *)
theory Ticket_Worktree
  imports Git_Ops
begin

text \<open>
  \<open>ticket_worktree.py\<close> with the path checks of \<open>governance.py\<close>: the one git worktree of a Ticket, its
  inspection, its creation before a claim and its row in \<open>task_worktrees\<close>.

  Git is run directly here, not through the integration's checked runner. What git answers, whether a path
  exists and whether a directory can be made are arguments that see the commands executed so far, so that
  another process may act between any two of them. The texts of refusals are dropped.
\<close>

section \<open>Constants and records\<close>

definition TICKET_WORKTREE_SOURCE :: string where "TICKET_WORKTREE_SOURCE = ''ticket_worktree''"

definition TICKET_WORKTREE_CREATED :: string where "TICKET_WORKTREE_CREATED = ''ticket_worktree_created''"
definition TICKET_WORKTREE_RECORDED :: string where "TICKET_WORKTREE_RECORDED = ''ticket_worktree_recorded''"
definition TICKET_WORKTREE_REUSED :: string where "TICKET_WORKTREE_REUSED = ''ticket_worktree_reused''"
definition TICKET_WORKTREE_REFUSED :: string where "TICKET_WORKTREE_REFUSED = ''ticket_worktree_refused''"

datatype worktree_state = WORKTREE_ABSENT | WORKTREE_READY | WORKTREE_MISMATCH

datatype worktree_action = ACTION_CREATED | ACTION_EXISTING | ACTION_REFUSED

record ticket_worktree =
  tw_task_key :: string
  tw_repo_path :: path
  tw_worktree_path :: path
  tw_branch :: string
  tw_base_branch :: string

record worktree_inspection =
  wi_state :: worktree_state
  wi_dirty :: bool
  wi_head_sha :: "string option"

record worktree_result =
  wt_task_key :: string
  wt_worktree_path :: path
  wt_branch :: string
  wt_base_branch :: string
  wt_action :: worktree_action
  wt_dirty :: bool
  wt_base_sha :: "string option"
  wt_head_sha :: "string option"

definition wt_ok :: "worktree_result \<Rightarrow> bool" where
  "wt_ok r \<longleftrightarrow> wt_action r \<noteq> ACTION_REFUSED"

record worktree_env =
  wv_git :: git_env
  wv_now :: timestamp
  wv_home :: "string \<Rightarrow> string option"
  wv_exists :: "string list list \<Rightarrow> path \<Rightarrow> bool result"
  wv_mkdir :: "string list list \<Rightarrow> path \<Rightarrow> unit result"

section \<open>Path checks\<close>

text \<open>\<open>PurePath.relative_to\<close> succeeds.\<close>

definition path_inside :: "path \<Rightarrow> path \<Rightarrow> bool" where
  "path_inside p base \<longleftrightarrow> path_root p = path_root base \<and> take (length (path_parts base)) (path_parts p) = path_parts base"

definition gov_resolve :: "worktree_env \<Rightarrow> path \<Rightarrow> path result" where
  "gov_resolve env p = rbind (expanduser (wv_home env) p) (\<lambda>q. Inr (ge_resolve (wv_git env) q))"

definition assert_not_main_repo_write :: "worktree_env \<Rightarrow> path \<Rightarrow> path \<Rightarrow> unit result" where
  "assert_not_main_repo_write env worktree_path repo_path =
     rbind (gov_resolve env worktree_path) (\<lambda>wt.
     rbind (gov_resolve env repo_path) (\<lambda>repo.
       if wt = repo then Inl ValueError else Inr ()))"

definition assert_worktree_inside_repo_worktrees :: "worktree_env \<Rightarrow> path \<Rightarrow> path \<Rightarrow> unit result" where
  "assert_worktree_inside_repo_worktrees env worktree_path repo_path =
     rbind (gov_resolve env worktree_path) (\<lambda>wt.
     rbind (gov_resolve env repo_path) (\<lambda>repo.
       if path_inside wt (path_join repo (parse_path ''.worktrees'')) then Inr () else Inl ValueError))"

section \<open>Reading git\<close>

definition tw_git :: "worktree_env \<Rightarrow> string list \<Rightarrow> path \<Rightarrow> git_result run" where
  "tw_git env args cwd s =
     (ran (''git'' # args) s, ge_git (wv_git env) (ws_trace s) cwd (''git'' # args))"

text \<open>\<open>str.splitlines\<close>: a carriage return takes a line feed with it, and a final break ends no line.\<close>

definition after_cr :: "string \<Rightarrow> string" where
  "after_cr s = (case s of [] \<Rightarrow> [] | c # t \<Rightarrow> if (of_char c :: nat) = 10 then t else s)"

lemma length_after_cr [termination_simp]: "length (after_cr s) < Suc (length s)"
  by (simp add: after_cr_def split: list.split)

fun py_splitlines :: "string \<Rightarrow> string list" where
  "py_splitlines [] = []"
| "py_splitlines (c # s) =
     (if (of_char c :: nat) = 13 then [] # py_splitlines (after_cr s)
      else if line_break c then [] # py_splitlines s
      else case py_splitlines s of [] \<Rightarrow> [[c]] | w # ws \<Rightarrow> (c # w) # ws)"

text \<open>\<open>line.partition(" ")\<close> without the separator.\<close>

definition partition_space :: "string \<Rightarrow> string \<times> string" where
  "partition_space l = (takeWhile (\<lambda>c. c \<noteq> CHR '' '') l, drop 1 (dropWhile (\<lambda>c. c \<noteq> CHR '' '') l))"

type_synonym worktree_entry = "(string \<times> string) list"

fun worktree_entries :: "worktree_entry \<Rightarrow> string list \<Rightarrow> worktree_entry list" where
  "worktree_entries current [] = (if current = [] then [] else [current])"
| "worktree_entries current (line # ls) =
     (if line = [] then (if current = [] then worktree_entries [] ls else current # worktree_entries [] ls)
      else (case partition_space line of (key, v) \<Rightarrow> worktree_entries (dict_set key v current) ls))"

definition registered_worktrees :: "worktree_env \<Rightarrow> path \<Rightarrow> worktree_entry list option run" where
  "registered_worktrees env repo_path =
     abind (tw_git env [''worktree'', ''list'', ''--porcelain''] repo_path) (\<lambda>r.
       areturn (if gr_returncode r \<noteq> 0 then None else Some (worktree_entries [] (py_splitlines (gr_stdout r)))))"

definition mismatch :: worktree_inspection where
  "mismatch = \<lparr>wi_state = WORKTREE_MISMATCH, wi_dirty = False, wi_head_sha = None\<rparr>"

definition entry_at :: "worktree_env \<Rightarrow> path \<Rightarrow> worktree_entry \<Rightarrow> bool" where
  "entry_at env target entry =
     (case map_of entry ''worktree'' of
        None \<Rightarrow> False
      | Some w \<Rightarrow> w \<noteq> [] \<and> ge_resolve (wv_git env) (parse_path w) = target)"

definition inspect_ticket_worktree :: "worktree_env \<Rightarrow> ticket_worktree \<Rightarrow> worktree_inspection run" where
  "inspect_ticket_worktree env ticket =
     abind (tw_git env [''rev-parse'', ''--show-toplevel''] (tw_repo_path ticket)) (\<lambda>repo_check.
     if gr_returncode repo_check \<noteq> 0 then areturn mismatch
     else if ge_resolve (wv_git env) (parse_path (stripped_out repo_check)) \<noteq> ge_resolve (wv_git env) (tw_repo_path ticket)
     then areturn mismatch
     else
     abind (registered_worktrees env (tw_repo_path ticket)) (\<lambda>listing.
     case listing of
       None \<Rightarrow> areturn mismatch
     | Some entries \<Rightarrow>
         let registered = find (entry_at env (ge_resolve (wv_git env) (tw_worktree_path ticket))) entries in
         abind (aget (\<lambda>s. wv_exists env (ws_trace s) (tw_worktree_path ticket))) (\<lambda>present.
         if \<not> present then
           areturn (if registered = None then \<lparr>wi_state = WORKTREE_ABSENT, wi_dirty = False, wi_head_sha = None\<rparr> else mismatch)
         else case registered of
           None \<Rightarrow> areturn mismatch
         | Some entry \<Rightarrow>
             if map_of entry ''branch'' \<noteq> Some (''refs/heads/'' @ tw_branch ticket) then areturn mismatch
             else
             abind (tw_git env [''status'', ''--porcelain=v1'', ''-z''] (tw_worktree_path ticket)) (\<lambda>status.
             if gr_returncode status \<noteq> 0 then areturn mismatch
             else
             abind (tw_git env [''rev-parse'', ''HEAD''] (tw_worktree_path ticket)) (\<lambda>head.
               areturn \<lparr>wi_state = WORKTREE_READY, wi_dirty = gr_stdout status \<noteq> [],
                 wi_head_sha = (if gr_returncode head = 0 then Some (stripped_out head) else None)\<rparr>)))))"

definition tw_branch_exists :: "worktree_env \<Rightarrow> ticket_worktree \<Rightarrow> bool run" where
  "tw_branch_exists env ticket =
     abind (tw_git env [''show-ref'', ''--verify'', ''--quiet'', ''refs/heads/'' @ tw_branch ticket] (tw_repo_path ticket)) (\<lambda>r.
       areturn (gr_returncode r = 0))"

section \<open>The Ticket\<close>

definition ticket_worktree_in_connection :: "(string \<Rightarrow> string option) \<Rightarrow> db \<Rightarrow> string \<Rightarrow> ticket_worktree option result" where
  "ticket_worktree_in_connection home db task_key =
     rbind (normalize_task_key task_key) (\<lambda>key.
     case get_task db key of
       None \<Rightarrow> Inr None
     | Some t \<Rightarrow>
        (case (t_prompt t, t_worktree_path t, t_branch t) of
           (Some _, Some wp, Some branch) \<Rightarrow>
             rbind (require_absolute_path home (t_repo_path t)) (\<lambda>repo.
             rbind (require_absolute_path home wp) (\<lambda>wt.
             Inr (Some \<lparr>tw_task_key = t_key t, tw_repo_path = repo, tw_worktree_path = wt, tw_branch = branch,
               tw_base_branch = (case t_base_branch t of None \<Rightarrow> ''main'' | Some b \<Rightarrow> if b = [] then ''main'' else b)\<rparr>)))
         | _ \<Rightarrow> Inr None))"

section \<open>Recording\<close>

definition tw_payload :: "ticket_worktree \<Rightarrow> string \<Rightarrow> fields \<Rightarrow> fields" where
  "tw_payload ticket kind extra =
     [(''kind'', JStr kind), (''worktree_path'', JStr (path_str (tw_worktree_path ticket))), (''branch'', JStr (tw_branch ticket)),
      (''base_branch'', JStr (tw_base_branch ticket)), (''repo_path'', JStr (path_str (tw_repo_path ticket)))] @ extra"

definition tw_record_event ::
  "worktree_env \<Rightarrow> ticket_worktree \<Rightarrow> string \<Rightarrow> string \<Rightarrow> string \<Rightarrow> fields \<Rightarrow> unit run" where
  "tw_record_event env ticket event_type kind source extra =
     on_db (adb (record_task_event (wv_now env) (tw_task_key ticket) event_type source (tw_payload ticket kind extra)))"

definition tw_result :: "ticket_worktree \<Rightarrow> worktree_action \<Rightarrow> bool \<Rightarrow> string option \<Rightarrow> string option \<Rightarrow> worktree_result" where
  "tw_result ticket action dirty base_sha head_commit =
     \<lparr>wt_task_key = tw_task_key ticket, wt_worktree_path = tw_worktree_path ticket, wt_branch = tw_branch ticket,
      wt_base_branch = tw_base_branch ticket, wt_action = action, wt_dirty = dirty, wt_base_sha = base_sha,
      wt_head_sha = head_commit\<rparr>"

definition tw_refuse :: "worktree_env \<Rightarrow> ticket_worktree \<Rightarrow> string \<Rightarrow> worktree_result run" where
  "tw_refuse env ticket source =
     abind (tw_record_event env ticket ''note'' TICKET_WORKTREE_REFUSED source [(''deleted'', JBool False), (''recreated'', JBool False)]) (\<lambda>_.
       areturn (tw_result ticket ACTION_REFUSED False None None))"

definition tw_upsert :: "worktree_env \<Rightarrow> ticket_worktree \<Rightarrow> string option \<Rightarrow> unit run" where
  "tw_upsert env ticket base_sha =
     abind (aget (\<lambda>_. init_worktree_record (wv_home env)
         \<lparr>wr_task_key = tw_task_key ticket, wr_repo_path = tw_repo_path ticket, wr_worktree_path = tw_worktree_path ticket,
          wr_branch = tw_branch ticket, wr_status = ''active'', wr_base_branch = Some (tw_base_branch ticket),
          wr_base_sha = base_sha, wr_created_at = None, wr_cleaned_at = None\<rparr>)) (\<lambda>r.
     on_db (adb (upsert_task_worktree (wv_now env) r)))"

definition row_matches :: "ticket_worktree \<Rightarrow> worktree_record option \<Rightarrow> bool" where
  "row_matches ticket existing =
     (case existing of
        None \<Rightarrow> False
      | Some w \<Rightarrow> wr_worktree_path w = tw_worktree_path ticket \<and> wr_branch w = tw_branch ticket \<and>
          wr_repo_path w = tw_repo_path ticket)"

definition read_worktree_row :: "worktree_env \<Rightarrow> ticket_worktree \<Rightarrow> worktree_record option run" where
  "read_worktree_row env ticket =
     aget (\<lambda>s. rbind (normalize_task_key (tw_task_key ticket)) (\<lambda>key.
       get_task_worktree (wv_home env) (ig_db (ws_db s)) key))"

definition record_row_if_needed :: "worktree_env \<Rightarrow> ticket_worktree \<Rightarrow> string option \<Rightarrow> string \<Rightarrow> unit run" where
  "record_row_if_needed env ticket base_sha source =
     abind (read_worktree_row env ticket) (\<lambda>existing.
     if row_matches ticket existing then areturn ()
     else
     abind (tw_upsert env ticket base_sha) (\<lambda>_.
     tw_record_event env ticket ''worktree_recorded'' TICKET_WORKTREE_RECORDED source [(''base_sha'', jopt base_sha)]))"

definition tw_existing ::
  "worktree_env \<Rightarrow> ticket_worktree \<Rightarrow> string \<Rightarrow> worktree_inspection option \<Rightarrow> worktree_result run" where
  "tw_existing env ticket source given =
     abind (case given of None \<Rightarrow> inspect_ticket_worktree env ticket | Some i \<Rightarrow> areturn i) (\<lambda>inspection.
     abind (read_worktree_row env ticket) (\<lambda>existing.
     abind (record_row_if_needed env ticket
         (case existing of None \<Rightarrow> wi_head_sha inspection | Some w \<Rightarrow> wr_base_sha w) source) (\<lambda>_.
       areturn (tw_result ticket ACTION_EXISTING (wi_dirty inspection)
         (case existing of None \<Rightarrow> None | Some w \<Rightarrow> wr_base_sha w) (wi_head_sha inspection)))))"

section \<open>Ensuring the worktree\<close>

definition parent_path :: "path \<Rightarrow> path" where
  "parent_path p = Path (path_root p) (butlast (path_parts p))"

definition worktree_add_args :: "ticket_worktree \<Rightarrow> string \<Rightarrow> string list" where
  "worktree_add_args ticket start_point =
     [''worktree'', ''add'', path_str (tw_worktree_path ticket), ''--no-track'', ''-b'', tw_branch ticket, start_point]"

definition ready_or :: "worktree_env \<Rightarrow> ticket_worktree \<Rightarrow> string \<Rightarrow> worktree_result run" where
  "ready_or env ticket source =
     abind (inspect_ticket_worktree env ticket) (\<lambda>again.
       if wi_state again = WORKTREE_READY then tw_existing env ticket source None
       else tw_refuse env ticket source)"

definition create_ticket_worktree :: "worktree_env \<Rightarrow> ticket_worktree \<Rightarrow> string \<Rightarrow> worktree_result run" where
  "create_ticket_worktree env ticket source =
     (let remote_ref = ''refs/remotes/origin/'' @ tw_base_branch ticket in
     abind (tw_git env [''rev-parse'', ''--verify'', ''--quiet'', remote_ref @ ''^{commit}''] (tw_repo_path ticket)) (\<lambda>remote.
     let start_point = (if gr_returncode remote = 0 then remote_ref else tw_base_branch ticket) in
     abind (tw_git env [''rev-parse'', ''--verify'', start_point] (tw_repo_path ticket)) (\<lambda>base.
     if gr_returncode base \<noteq> 0 then tw_refuse env ticket source
     else
     let base_sha = stripped_out base in
     abind (aget (\<lambda>s. wv_mkdir env (ws_trace s) (parent_path (tw_worktree_path ticket)))) (\<lambda>_.
     abind (tw_git env (worktree_add_args ticket start_point) (tw_repo_path ticket)) (\<lambda>created.
     if gr_returncode created \<noteq> 0 then ready_or env ticket source
     else
     abind (tw_upsert env ticket (Some base_sha)) (\<lambda>_.
     abind (tw_record_event env ticket ''worktree_recorded'' TICKET_WORKTREE_CREATED source [(''base_sha'', JStr base_sha)]) (\<lambda>_.
       areturn (tw_result ticket ACTION_CREATED False (Some base_sha) (Some base_sha)))))))))"

definition ensure_for :: "worktree_env \<Rightarrow> ticket_worktree \<Rightarrow> string \<Rightarrow> worktree_result run" where
  "ensure_for env ticket source =
     (case rbind (assert_not_main_repo_write env (tw_worktree_path ticket) (tw_repo_path ticket))
         (\<lambda>_. assert_worktree_inside_repo_worktrees env (tw_worktree_path ticket) (tw_repo_path ticket)) of
        Inl e \<Rightarrow> if e = OSError \<or> e = ValueError then tw_refuse env ticket source else araise e
      | Inr _ \<Rightarrow>
          abind (inspect_ticket_worktree env ticket) (\<lambda>inspection.
          case wi_state inspection of
            WORKTREE_MISMATCH \<Rightarrow> tw_refuse env ticket source
          | WORKTREE_READY \<Rightarrow> tw_existing env ticket source (Some inspection)
          | WORKTREE_ABSENT \<Rightarrow>
              abind (tw_branch_exists env ticket) (\<lambda>taken.
                if taken then ready_or env ticket source else create_ticket_worktree env ticket source)))"

definition ensure_ticket_worktree :: "worktree_env \<Rightarrow> string \<Rightarrow> string \<Rightarrow> worktree_result run" where
  "ensure_ticket_worktree env task_key source =
     abind (aget (\<lambda>s. ticket_worktree_in_connection (wv_home env) (ig_db (ws_db s)) task_key)) (\<lambda>found.
     case found of
       None \<Rightarrow> araise ValueError
     | Some ticket \<Rightarrow> ensure_for env ticket source)"

definition record_ticket_worktree_reuse ::
  "worktree_env \<Rightarrow> ticket_worktree \<Rightarrow> string \<Rightarrow> int \<Rightarrow> bool \<Rightarrow> string option \<Rightarrow> string \<Rightarrow> unit run" where
  "record_ticket_worktree_reuse env ticket attempt_id attempt_number dirty head_commit source =
     tw_record_event env ticket ''note'' TICKET_WORKTREE_REUSED source
       [(''attempt_id'', JStr attempt_id), (''attempt_number'', JInt attempt_number), (''dirty'', JBool dirty),
        (''head_sha'', jopt head_commit), (''cleaned'', JBool False)]"

end
