(* ===== verification/Integration_Cleanup.thy ===== *)
theory Integration_Cleanup
  imports Ticket_Worktree Integration_Run Integration_Watcher
begin

text \<open>
  \<open>merge_verification.py\<close> and \<open>integration_cleanup.py\<close>: the only code that removes a worktree or a branch.

  A cleanup does not hold the integration lock. Git, the file system and the evidence file are arguments as
  in the theory \<open>Ticket_Worktree\<close>; summaries, reasons and the command log of a result are dropped (the
  commands are in the trace).
\<close>

section \<open>Verifying a merge\<close>

record merge_request =
  mv_task_key :: string
  mv_worktree_path :: path
  mv_remote :: string
  mv_target_branch :: string
  mv_pr_merged :: bool
  mv_merge_commit_sha :: "string option"

record merge_verification =
  mr_verified :: bool
  mr_pr_merged :: bool
  mr_merge_commit_sha :: "string option"
  mr_target_sha :: "string option"
  mr_contained :: bool
  mr_verified_at :: "timestamp option"

definition merge_sha_of :: "merge_request \<Rightarrow> string" where
  "merge_sha_of rq = py_strip (case mv_merge_commit_sha rq of None \<Rightarrow> [] | Some m \<Rightarrow> m)"

definition verify_merge :: "git_env \<Rightarrow> timestamp \<Rightarrow> merge_request \<Rightarrow> merge_verification run" where
  "verify_merge env now rq =
     (let merge_sha = merge_sha_of rq in
      if \<not> mv_pr_merged rq \<or> merge_sha = [] then
        areturn \<lparr>mr_verified = False, mr_pr_merged = mv_pr_merged rq,
          mr_merge_commit_sha = (if merge_sha = [] then None else Some merge_sha), mr_target_sha = None, mr_contained = False,
          mr_verified_at = None\<rparr>
      else
     abind (attempt IntegrationGitError
       (abind (fetch env (mv_worktree_path rq) (mv_remote rq)) (\<lambda>_.
        resolve_target_sha env (mv_worktree_path rq) (mv_remote rq) (mv_target_branch rq)))) (\<lambda>target.
     case target of
       None \<Rightarrow> areturn \<lparr>mr_verified = False, mr_pr_merged = mv_pr_merged rq, mr_merge_commit_sha = Some merge_sha,
          mr_target_sha = None, mr_contained = False, mr_verified_at = None\<rparr>
     | Some target_sha \<Rightarrow>
     abind (commit_in_history env (mv_worktree_path rq) merge_sha (mv_remote rq @ ''/'' @ mv_target_branch rq)) (\<lambda>contained.
       areturn \<lparr>mr_verified = contained, mr_pr_merged = mv_pr_merged rq, mr_merge_commit_sha = Some merge_sha,
          mr_target_sha = Some target_sha, mr_contained = contained, mr_verified_at = (if contained then Some now else None)\<rparr>)))"

section \<open>Requests and results\<close>

definition CLEANUP_ARTIFACT_TYPE :: string where "CLEANUP_ARTIFACT_TYPE = ''integration_cleanup''"
definition CLEANUP_SOURCE :: string where "CLEANUP_SOURCE = ''integration_cleanup''"

record cleanup_request =
  cq_task_key :: string
  cq_repo :: string
  cq_repo_path :: path
  cq_target_branch :: string
  cq_remote :: string
  cq_confirm_cleanup :: bool
  cq_confirm_cancelled_cleanup :: bool
  cq_delete_remote_branch :: bool
  cq_archive_evidence :: bool

definition init_cleanup_request :: "(string \<Rightarrow> string option) \<Rightarrow> cleanup_request \<Rightarrow> cleanup_request result" where
  "init_cleanup_request home rq =
     rbind (normalize_task_key (cq_task_key rq)) (\<lambda>key.
       if py_strip (cq_repo rq) = [] then Inl ValueError
       else
     rbind (require_absolute home (cq_repo_path rq)) (\<lambda>repo_path.
       Inr (rq\<lparr>cq_task_key := key, cq_repo := py_strip (cq_repo rq), cq_repo_path := repo_path\<rparr>)))"

record cleanup_result =
  cu_ok :: bool
  cu_status :: string
  cu_route :: string
  cu_final_task_status :: string
  cu_merge_verified :: bool
  cu_merge_commit_sha :: "string option"
  cu_target_sha :: "string option"
  cu_worktree_removed :: bool
  cu_local_branch_deleted :: bool
  cu_remote_branch_deleted :: bool
  cu_evidence_archived :: bool
  cu_confirmation_required :: bool
  cu_cleanup_json_path :: "path option"

record cleanup_env =
  ce_world :: worktree_env
  ce_is_dir :: "string list list \<Rightarrow> path \<Rightarrow> bool result"
  ce_write :: "path \<Rightarrow> unit result"
  ce_suffix :: string

definition ce_git :: "cleanup_env \<Rightarrow> git_env" where
  "ce_git env = wv_git (ce_world env)"

definition ce_now :: "cleanup_env \<Rightarrow> timestamp" where
  "ce_now env = wv_now (ce_world env)"

text \<open>What was removed, for the result.\<close>

record removal =
  rm_worktree :: bool
  rm_branch :: bool
  rm_evidence :: bool

definition nothing_removed :: removal where
  "nothing_removed = \<lparr>rm_worktree = False, rm_branch = False, rm_evidence = False\<rparr>"

definition cleanup_finish ::
  "cleanup_env \<Rightarrow> cleanup_request \<Rightarrow> task_row \<Rightarrow> string \<Rightarrow> bool \<Rightarrow> string \<Rightarrow> merge_verification option \<Rightarrow> bool \<Rightarrow> removal \<Rightarrow> cleanup_result run" where
  "cleanup_finish env rq task route ok status verification confirmation_required removed =
     abind (aget (\<lambda>s. case get_task (ig_db (ws_db s)) (cq_task_key rq) of
         None \<Rightarrow> Inl (ExternalError ''AttributeError'') | Some t \<Rightarrow> Inr (t_status t))) (\<lambda>final.
     let res = \<lparr>cu_ok = ok, cu_status = status, cu_route = route, cu_final_task_status = final,
       cu_merge_verified = (case verification of None \<Rightarrow> False | Some v \<Rightarrow> mr_verified v),
       cu_merge_commit_sha = Option.bind verification mr_merge_commit_sha, cu_target_sha = Option.bind verification mr_target_sha,
       cu_worktree_removed = rm_worktree removed, cu_local_branch_deleted = rm_branch removed, cu_remote_branch_deleted = False,
       cu_evidence_archived = rm_evidence removed, cu_confirmation_required = confirmation_required, cu_cleanup_json_path = None\<rparr> in
     case t_artifact_dir task of
       None \<Rightarrow> areturn res
     | Some dir \<Rightarrow>
         if status = ''dry_run'' \<or> \<not> cq_confirm_cleanup rq then areturn res
         else
           let p = evidence_file (parse_path dir) (''cleanup-'' @ ce_suffix env @ ''.json'') in
           abind (aget (\<lambda>_. ce_write env p)) (\<lambda>_.
           abind (on_db (adb (record_task_artifact (wv_home (ce_world env)) (ce_now env) (cq_task_key rq) CLEANUP_ARTIFACT_TYPE p))) (\<lambda>_.
           areturn (res\<lparr>cu_cleanup_json_path := Some p\<rparr>))))"

section \<open>The target\<close>

definition published_refs :: "cleanup_request \<Rightarrow> worktree_record \<Rightarrow> fields \<Rightarrow> string list" where
  "published_refs rq worktree pr =
     (case col_text (col pr ''pr_head_sha'') of None \<Rightarrow> [] | Some h \<Rightarrow> if h = [] then [] else [h]) @
     [''refs/remotes/'' @ cq_remote rq @ ''/'' @ wr_branch worktree]"

text \<open>\<open>any(...)\<close> over the published refs.\<close>

fun in_any_history :: "git_env \<Rightarrow> path \<Rightarrow> string \<Rightarrow> string list \<Rightarrow> bool run" where
  "in_any_history env cwd tip [] = areturn False"
| "in_any_history env cwd tip (ref # refs) =
     abind (commit_in_history env cwd tip ref) (\<lambda>found. if found then areturn True else in_any_history env cwd tip refs)"

text \<open>A refusal is \<open>None\<close>; otherwise the tip that was proved published, if there is a branch.\<close>

definition cleanup_target ::
  "cleanup_env \<Rightarrow> cleanup_request \<Rightarrow> worktree_record \<Rightarrow> fields \<Rightarrow> string option option run" where
  "cleanup_target env rq worktree pr =
     (let branch = wr_branch worktree; normalized = normalize_branch_ref (Some branch) in
      if ge_resolve (ce_git env) (wr_repo_path worktree) \<noteq> ge_resolve (ce_git env) (cq_repo_path rq) then areturn None
      else if normalized \<in> set PROTECTED_BRANCHES \<or> normalized = normalize_branch_ref (Some (cq_target_branch rq)) then areturn None
      else case assert_worktree_inside_repo_worktrees (ce_world env) (wr_worktree_path worktree) (cq_repo_path rq) of
        Inl e \<Rightarrow> if e = ValueError then areturn None else araise e
      | Inr _ \<Rightarrow>
     abind (inspect_ticket_worktree (ce_world env)
       \<lparr>tw_task_key = cq_task_key rq, tw_repo_path = cq_repo_path rq, tw_worktree_path = wr_worktree_path worktree, tw_branch = branch,
        tw_base_branch = (case wr_base_branch worktree of None \<Rightarrow> cq_target_branch rq | Some b \<Rightarrow> if b = [] then cq_target_branch rq else b)\<rparr>) (\<lambda>inspection.
     if wi_state inspection = WORKTREE_MISMATCH then areturn None
     else if wi_dirty inspection then areturn None
     else
     abind (git_plain (ce_git env) (cq_repo_path rq) [''rev-parse'', ''--verify'', ''--quiet'', ''refs/heads/'' @ branch]) (\<lambda>resolved.
     if \<not> gr_ok resolved then areturn (if wi_state inspection = WORKTREE_READY then None else Some None)
     else
       let tip = stripped_out resolved in
       abind (in_any_history (ce_git env) (cq_repo_path rq) tip (published_refs rq worktree pr)) (\<lambda>published.
       areturn (if published then Some (Some tip) else None)))))"

section \<open>Removing\<close>

definition remove_worktree :: "cleanup_env \<Rightarrow> cleanup_request \<Rightarrow> worktree_record \<Rightarrow> bool run" where
  "remove_worktree env rq worktree =
     (let p = wr_worktree_path worktree in
     abind (aget (\<lambda>s. wv_exists (ce_world env) (ws_trace s) p)) (\<lambda>present.
     if \<not> present then areturn True
     else case assert_worktree_inside_repo_worktrees (ce_world env) p (cq_repo_path rq) of
       Inl e \<Rightarrow> if e = ValueError then areturn False else araise e
     | Inr _ \<Rightarrow>
     abind (git_plain (ce_git env) (cq_repo_path rq) [''worktree'', ''remove'', path_str p]) (\<lambda>_.
     abind (aget (\<lambda>s. wv_exists (ce_world env) (ws_trace s) p)) (\<lambda>still.
     areturn (\<not> still)))))"

text \<open>Whether the branch is gone.\<close>

definition delete_local_branch ::
  "cleanup_env \<Rightarrow> cleanup_request \<Rightarrow> worktree_record \<Rightarrow> string option \<Rightarrow> bool run" where
  "delete_local_branch env rq worktree verified_tip =
     (let branch = wr_branch worktree in
      if branch \<in> set PROTECTED_BRANCHES \<or> branch = cq_target_branch rq then areturn False
      else
     abind (git_plain (ce_git env) (cq_repo_path rq) [''rev-parse'', ''--verify'', ''--quiet'', ''refs/heads/'' @ branch]) (\<lambda>current.
     if \<not> gr_ok current then areturn True
     else if Some (stripped_out current) \<noteq> verified_tip then areturn False
     else
     abind (git_plain (ce_git env) (cq_repo_path rq) [''branch'', ''-D'', branch]) (\<lambda>deleted.
     areturn (gr_ok deleted))))"

definition mark_cleaned :: "cleanup_env \<Rightarrow> cleanup_request \<Rightarrow> worktree_record \<Rightarrow> unit run" where
  "mark_cleaned env rq worktree =
     abind (aget (\<lambda>_. init_worktree_record (wv_home (ce_world env))
         (worktree\<lparr>wr_task_key := cq_task_key rq, wr_status := ''cleaned'', wr_cleaned_at := Some (ce_now env)\<rparr>))) (\<lambda>r.
     on_db (adb (upsert_task_worktree (ce_now env) r)))"

definition cleanup_state :: "cleanup_env \<Rightarrow> cleanup_request \<Rightarrow> fields \<Rightarrow> unit run" where
  "cleanup_state env rq new =
     abind (on_db (atx (update_integration_state (ce_now env) (cq_task_key rq) new))) (\<lambda>_. areturn ())"

definition cleanup_event :: "cleanup_env \<Rightarrow> cleanup_request \<Rightarrow> string \<Rightarrow> fields \<Rightarrow> unit run" where
  "cleanup_event env rq ty payload =
     on_db (adb (record_task_event (ce_now env) (cq_task_key rq) ty CLEANUP_SOURCE payload))"

definition complete_ticket :: "cleanup_env \<Rightarrow> cleanup_request \<Rightarrow> task_row \<Rightarrow> unit run" where
  "complete_ticket env rq task =
     abind (on_db (adb (\<lambda>d. rbind (update_task_status (ce_now env) (cq_task_key rq) COMPLETED None CLEANUP_SOURCE None
         (Some (t_status task)) d) (\<lambda>(d', _). Inr d')))) (\<lambda>_.
     on_db (atx_unit (remove_from_queue (cq_task_key rq))))"

definition perform_cleanup ::
  "cleanup_env \<Rightarrow> cleanup_request \<Rightarrow> task_row \<Rightarrow> worktree_record \<Rightarrow> string \<Rightarrow> merge_verification option \<Rightarrow> string option \<Rightarrow> bool \<Rightarrow> cleanup_result run" where
  "perform_cleanup env rq task worktree route verification verified_tip complete_task =
     abind (remove_worktree env rq worktree) (\<lambda>removed.
     abind (if removed then delete_local_branch env rq worktree verified_tip else areturn False) (\<lambda>deleted.
     let archived = (cq_archive_evidence rq \<and> t_artifact_dir task \<noteq> None);
         done_so_far = \<lparr>rm_worktree = removed, rm_branch = deleted, rm_evidence = archived\<rparr> in
     abind (awhen (removed \<and> wr_status worktree \<noteq> ''cleaned'') (mark_cleaned env rq worktree)) (\<lambda>_.
     if \<not> (removed \<and> deleted) then cleanup_finish env rq task route False ''cleanup_incomplete'' verification False done_so_far
     else
     abind (cleanup_state env rq [(''cleanup_confirmed_at'', JStr (iso_time (ce_now env)))]) (\<lambda>_.
     abind (awhen complete_task (complete_ticket env rq task)) (\<lambda>_.
     abind (cleanup_event env rq ''integration_cleanup_completed''
       [(''route'', JStr route), (''worktree_removed'', JBool removed), (''local_branch_deleted'', JBool deleted),
        (''remote_branch_deleted'', JBool False), (''evidence_archived'', JBool archived),
        (''merge_verified'', JBool (case verification of None \<Rightarrow> False | Some v \<Rightarrow> mr_verified v))]) (\<lambda>_.
     cleanup_finish env rq task route True ''cleaned'' verification False done_so_far))))))"

section \<open>The two routes\<close>

definition cleanup_cancelled ::
  "cleanup_env \<Rightarrow> cleanup_request \<Rightarrow> task_row \<Rightarrow> worktree_record \<Rightarrow> fields \<Rightarrow> cleanup_result run" where
  "cleanup_cancelled env rq task worktree pr =
     (let route = ''cancelled_unmerged''; stop = (\<lambda>status confirm. cleanup_finish env rq task route False status None confirm nothing_removed) in
      if \<not> cq_confirm_cancelled_cleanup rq then stop ''confirmation_required'' True
      else
     abind (cleanup_target env rq worktree pr) (\<lambda>target.
     case target of
       None \<Rightarrow> stop ''cleanup_refused'' False
     | Some verified_tip \<Rightarrow>
         if \<not> cq_confirm_cleanup rq then stop ''dry_run'' True
         else perform_cleanup env rq task worktree route None verified_tip False))"

definition cleanup_merged ::
  "cleanup_env \<Rightarrow> cleanup_request \<Rightarrow> task_row \<Rightarrow> worktree_record \<Rightarrow> fields \<Rightarrow> cleanup_result run" where
  "cleanup_merged env rq task worktree pr =
     (let route = ''verified_merge'' in
     abind (aget (\<lambda>s. ce_is_dir env (ws_trace s) (wr_worktree_path worktree))) (\<lambda>there.
     abind (verify_merge (ce_git env) (ce_now env)
       \<lparr>mv_task_key = cq_task_key rq, mv_worktree_path = (if there then wr_worktree_path worktree else cq_repo_path rq),
        mv_remote = cq_remote rq, mv_target_branch = cq_target_branch rq, mv_pr_merged = json_truthy (Some (col pr ''pr_merged'')),
        mv_merge_commit_sha = col_text (col pr ''merge_commit_sha'')\<rparr>) (\<lambda>verification.
     if \<not> mr_verified verification
     then cleanup_finish env rq task route False ''merge_not_verified'' (Some verification) False nothing_removed
     else
     abind (cleanup_target env rq worktree pr) (\<lambda>target.
     case target of
       None \<Rightarrow> cleanup_finish env rq task route False ''cleanup_refused'' (Some verification) False nothing_removed
     | Some verified_tip \<Rightarrow>
         if \<not> cq_confirm_cleanup rq
         then cleanup_finish env rq task route True ''dry_run'' (Some verification) True nothing_removed
         else
     abind (cleanup_state env rq [(''merge_verified_at'', jopt (map_option iso_time (mr_verified_at verification)))]) (\<lambda>_.
     abind (cleanup_event env rq ''merge_verified''
       [(''kind'', JStr ''merge_verification''), (''task_key'', JStr (cq_task_key rq)), (''verified'', JBool (mr_verified verification)),
        (''pr_merged'', JBool (mr_pr_merged verification)), (''merge_commit_sha'', jopt (mr_merge_commit_sha verification)),
        (''target_sha'', jopt (mr_target_sha verification)), (''contained_in_target'', JBool (mr_contained verification)),
        (''original_task_sha_used'', JBool False), (''reasons'', JList []),
        (''verified_at'', jopt (map_option iso_time (mr_verified_at verification)))]) (\<lambda>_.
     perform_cleanup env rq task worktree route (Some verification) verified_tip True))))))"

definition cancelled_route :: "task_row \<Rightarrow> fields \<Rightarrow> bool" where
  "cancelled_route task pr \<longleftrightarrow> t_status task = CANCELLED \<and> \<not> json_truthy (Some (col pr ''pr_merged''))"

definition run_integration_cleanup :: "cleanup_env \<Rightarrow> cleanup_request \<Rightarrow> cleanup_result run" where
  "run_integration_cleanup env rq =
     abind (aget (\<lambda>s. case get_task (ig_db (ws_db s)) (cq_task_key rq) of
         None \<Rightarrow> Inl IntegrationCleanupError | Some t \<Rightarrow> Inr t)) (\<lambda>task.
     abind (aget (\<lambda>s. rbind (get_task_worktree (wv_home (ce_world env)) (ig_db (ws_db s)) (cq_task_key rq)) (\<lambda>w.
         case w of None \<Rightarrow> Inl IntegrationCleanupError | Some wr \<Rightarrow> Inr wr))) (\<lambda>worktree.
     abind (aget (\<lambda>s. get_pr_state (ws_db s) (cq_task_key rq))) (\<lambda>pr.
     let cancelled = cancelled_route task pr; route = (if cancelled then ''cancelled_unmerged'' else ''verified_merge'') in
     if cq_delete_remote_branch rq \<or> \<not> cancelled \<and> \<not> can_transition (t_status task) COMPLETED
     then cleanup_finish env rq task route False ''blocked'' None False nothing_removed
     else if cancelled then cleanup_cancelled env rq task worktree pr
     else cleanup_merged env rq task worktree pr)))"

end
