(* ===== verification/Integration_Tick.thy ===== *)
theory Integration_Tick
  imports Integration_Controller Integration_Cleanup
begin

text \<open>
  \<open>integration_tick.py\<close>: one pass over a repository. It has the controller reconcile what a dead run left,
  polls the pull requests, cleans up verified merges, polls the freshness of the targets, and drains the
  queue in order, each entry once.

  The worlds of the controller, of the watcher and of a cleanup may be different at every call, so they
  depend on the state. The commands of the watcher are part of its world; its transactions are one step
  here. Reasons and texts of the report are dropped where they are only printed.
\<close>

section \<open>Requests\<close>

definition PHASE_PR_OUTCOMES :: string where "PHASE_PR_OUTCOMES = ''pr_outcomes''"
definition PHASE_CLEANUP :: string where "PHASE_CLEANUP = ''verified_merge_cleanup''"
definition PHASE_FRESHNESS :: string where "PHASE_FRESHNESS = ''target_freshness''"
definition PHASE_DRAIN :: string where "PHASE_DRAIN = ''queue_drain''"
definition PHASE_ORDER :: "string list" where
  "PHASE_ORDER = [PHASE_PR_OUTCOMES, PHASE_CLEANUP, PHASE_FRESHNESS, PHASE_DRAIN]"
definition POLICY_INTEGRATION_VALIDATORS_MISMATCH :: string where
  "POLICY_INTEGRATION_VALIDATORS_MISMATCH = ''execution_policy_integration_validators_mismatch''"

record tick_request =
  tq_repo :: string
  tq_repo_path :: path
  tq_validator_specs :: "validator_spec list"
  tq_target_branch :: string
  tq_remote :: string
  tq_dry_run :: bool
  tq_confirm_integration :: bool
  tq_owner :: string
  tq_consumer_phases :: bool
  tq_confirm_pr_poll :: bool
  tq_confirm_cleanup :: bool
  tq_confirm_freshness :: bool

definition tick_name :: "string \<Rightarrow> string result" where
  "tick_name v = (let w = py_strip v in if w = [] \<or> starts_with ''-'' w then Inl ValueError else Inr w)"

definition init_tick_request :: "(string \<Rightarrow> string option) \<Rightarrow> tick_request \<Rightarrow> tick_request result" where
  "init_tick_request home rq =
     rbind (normalize_repo (tq_repo rq)) (\<lambda>_.
     rbind (require_absolute home (tq_repo_path rq)) (\<lambda>repo_path.
     rbind (tick_name (tq_target_branch rq)) (\<lambda>target_branch.
     rbind (tick_name (tq_remote rq)) (\<lambda>remote.
     rbind (tick_name (tq_owner rq)) (\<lambda>owner.
       if \<not> tq_consumer_phases rq \<and> (tq_confirm_pr_poll rq \<or> tq_confirm_cleanup rq \<or> tq_confirm_freshness rq) then Inl ValueError
       else if tq_validator_specs rq = [] then Inl ValueError
       else if \<not> distinct (map vs_name (tq_validator_specs rq)) then Inl ValueError
       else Inr (rq\<lparr>tq_repo := py_strip (tq_repo rq), tq_repo_path := repo_path, tq_target_branch := target_branch,
              tq_remote := remote, tq_owner := owner\<rparr>))))))"

record tick_env =
  ti_world :: worktree_env
  ti_policy :: policy_env
  ti_run :: "work_state \<Rightarrow> integration_env"
  ti_watch :: "work_state \<Rightarrow> watcher_env"
  ti_clean :: "work_state \<Rightarrow> cleanup_env"
  ti_suffix :: "string \<Rightarrow> string"
  ti_db_is_file :: bool
  ti_repo_is_dir :: bool

definition ti_home :: "tick_env \<Rightarrow> string \<Rightarrow> string option" where
  "ti_home env = wv_home (ti_world env)"

text \<open>An action in the world of the moment.\<close>

definition at_world :: "(work_state \<Rightarrow> 'e) \<Rightarrow> ('e \<Rightarrow> 'a run) \<Rightarrow> 'a run" where
  "at_world w f s = f (w s) s"

section \<open>The binding of an entry\<close>

definition policy_validator_specs :: "execution_policy \<Rightarrow> validator_spec list result" where
  "policy_validator_specs policy =
     map_ok (\<lambda>v. init_validator_spec \<lparr>vs_name = gv_name v, vs_command = gv_command v, vs_timeout_seconds = Some (gv_timeout_seconds v)\<rparr>)
       (ep_integration_validators policy)"

definition worktree_bound :: "tick_env \<Rightarrow> ticket_record \<Rightarrow> worktree_record \<Rightarrow> bool" where
  "worktree_bound env ticket w \<longleftrightarrow>
     (let res = ge_resolve (wv_git (ti_world env)) in
      res (wr_repo_path w) = res (tk_repo_path ticket) \<and> res (wr_worktree_path w) = res (tk_worktree_path ticket) \<and>
      wr_branch w = tk_branch ticket \<and> wr_base_branch w = Some (tk_base_branch ticket) \<and> wr_status w = ''active'')"

definition bound_worktree :: "tick_env \<Rightarrow> string \<Rightarrow> ticket_record \<Rightarrow> string option run" where
  "bound_worktree env task_key ticket =
     abind (aget (\<lambda>s. get_task_worktree (ti_home env) (ig_db (ws_db s)) task_key)) (\<lambda>w.
     case w of
       None \<Rightarrow> areturn (Some ''task_worktree_missing'')
     | Some worktree \<Rightarrow>
         if \<not> worktree_bound env ticket worktree then areturn (Some ''ticket_worktree_binding_mismatch'')
         else
     abind (aget (\<lambda>_. assert_not_main_repo_write (ti_world env) (tk_worktree_path ticket) (tk_repo_path ticket))) (\<lambda>_.
     abind (aget (\<lambda>_. assert_worktree_inside_repo_worktrees (ti_world env) (tk_worktree_path ticket) (tk_repo_path ticket))) (\<lambda>_.
     abind (inspect_ticket_worktree (ti_world env)
       \<lparr>tw_task_key = task_key, tw_repo_path = tk_repo_path ticket, tw_worktree_path = tk_worktree_path ticket,
        tw_branch = tk_branch ticket, tw_base_branch = tk_base_branch ticket\<rparr>) (\<lambda>inspection.
     areturn (if wi_state inspection \<noteq> WORKTREE_READY then Some ''ticket_worktree_invalid'' else None)))))"

definition same_repo :: "string option \<Rightarrow> string \<Rightarrow> bool result" where
  "same_repo name repo =
     (case name of
        None \<Rightarrow> Inr False
      | Some n \<Rightarrow> if n = [] then Inr False
          else rbind (normalize_repo n) (\<lambda>a. rbind (normalize_repo repo) (\<lambda>b. Inr (a = b))))"

definition policy_or_code :: "tick_env \<Rightarrow> string \<Rightarrow> (string + execution_policy) result" where
  "policy_or_code env project =
     (case resolve_execution_policy (ti_policy env) project None of
        Inr policy \<Rightarrow> Inr (Inr policy)
      | Inl (ExecutionPolicyError code) \<Rightarrow> Inr (Inl code)
      | Inl e \<Rightarrow> Inl e)"

definition binding_error :: "tick_env \<Rightarrow> tick_request \<Rightarrow> string \<Rightarrow> string option run" where
  "binding_error env rq task_key =
     abind (aget (\<lambda>s. get_ticket (ti_home env) (ig_db (ws_db s)) task_key)) (\<lambda>found.
     case found of
       None \<Rightarrow> areturn (Some ''ticket_missing'')
     | Some ticket \<Rightarrow>
     abind (aget (\<lambda>_. same_repo (tk_github_repo ticket) (tq_repo rq))) (\<lambda>same.
     if \<not> same then areturn (Some ''ticket_repository_mismatch'')
     else
     abind (aget (\<lambda>_. policy_or_code env (tk_repository ticket))) (\<lambda>resolved.
     case resolved of
       Inl code \<Rightarrow> areturn (Some code)
     | Inr policy \<Rightarrow>
     abind (aget (\<lambda>_. policy_validator_specs policy)) (\<lambda>specs.
     if specs \<noteq> tq_validator_specs rq then areturn (Some POLICY_INTEGRATION_VALIDATORS_MISMATCH)
     else if ge_resolve (wv_git (ti_world env)) (tk_repo_path ticket) \<noteq> ge_resolve (wv_git (ti_world env)) (tq_repo_path rq)
     then areturn (Some ''ticket_repo_path_mismatch'')
     else if tk_base_branch ticket \<noteq> tq_target_branch rq then areturn (Some ''ticket_target_branch_mismatch'')
     else bound_worktree env task_key ticket))))"

section \<open>The drain\<close>

record tick_outcome =
  to_task_key :: string
  to_sequence :: nat
  to_controller_called :: bool
  to_ok :: bool
  to_status :: string
  to_reason :: string
  to_integration :: "integration_result option"

definition entry_outcome :: "queue_row \<Rightarrow> bool \<Rightarrow> bool \<Rightarrow> string \<Rightarrow> string \<Rightarrow> integration_result option \<Rightarrow> tick_outcome" where
  "entry_outcome entry called ok status reason res =
     \<lparr>to_task_key = q_task_key entry, to_sequence = q_id entry, to_controller_called = called, to_ok = ok, to_status = status,
      to_reason = reason, to_integration = res\<rparr>"

definition tick_integration :: "tick_request \<Rightarrow> string \<Rightarrow> integration_request" where
  "tick_integration rq task_key =
     \<lparr>ir_task_key = task_key, ir_repo = tq_repo rq, ir_target_branch = tq_target_branch rq, ir_remote = tq_remote rq,
      ir_validators = tq_validator_specs rq, ir_owner = tq_owner rq, ir_dry_run = tq_dry_run rq,
      ir_confirm_integration = tq_confirm_integration rq, ir_draft = True, ir_title = None, ir_body = None, ir_trigger = None,
      ir_push_no_op = False\<rparr>"

definition entry_failed :: "queue_row \<Rightarrow> bool \<Rightarrow> exn \<Rightarrow> (tick_outcome \<times> string option) run" where
  "entry_failed entry called _ = areturn (entry_outcome entry called False ''error'' [] None, Some ''integration_error'')"

definition integrate_entry :: "tick_env \<Rightarrow> tick_request \<Rightarrow> queue_row \<Rightarrow> (tick_outcome \<times> string option) run" where
  "integrate_entry env rq entry =
     abind (aget (\<lambda>_. init_integration_request (tick_integration rq (q_task_key entry)))) (\<lambda>irq.
     abind (at_world (ti_run env) (\<lambda>world. integrate_task world (ti_suffix env) irq)) (\<lambda>res.
     areturn (entry_outcome entry True (in_ok res) (in_status res) [] (Some res),
       if in_status res = ''lock_unavailable'' then Some ''lock_unavailable'' else None)))"

definition visit_entry :: "tick_env \<Rightarrow> tick_request \<Rightarrow> queue_row \<Rightarrow> (tick_outcome \<times> string option) run" where
  "visit_entry env rq entry =
     acatch
       (abind (aget (\<lambda>s. Inr (find (\<lambda>q. q_task_key q = q_task_key entry) (queue_for_repo (ws_db s) (tq_repo rq))))) (\<lambda>current.
        if current \<noteq> Some entry then areturn (entry_outcome entry False True ''skipped'' ''queue_entry_changed'' None, None)
        else
        abind (binding_error env rq (q_task_key entry)) (\<lambda>reason.
        case reason of
          Some r \<Rightarrow> areturn (entry_outcome entry False False ''blocked'' r None, None)
        | None \<Rightarrow> acatch (integrate_entry env rq entry) (entry_failed entry True))))
       (entry_failed entry False)"

fun drain_queue :: "tick_env \<Rightarrow> tick_request \<Rightarrow> queue_row list \<Rightarrow> (tick_outcome list \<times> string option) run" where
  "drain_queue env rq [] = areturn ([], None)"
| "drain_queue env rq (entry # entries) =
     abind (visit_entry env rq entry) (\<lambda>(outcome, stopped).
     case stopped of
       Some r \<Rightarrow> areturn ([outcome], Some r)
     | None \<Rightarrow> abind (drain_queue env rq entries) (\<lambda>(outcomes, reason). areturn (outcome # outcomes, reason)))"

section \<open>Tickets a dead run left\<close>

text \<open>The names of repositories a Ticket may be attributed to; a name that is no repository is skipped.\<close>

definition attributed_names :: "string option list \<Rightarrow> string option list" where
  "attributed_names names =
     List.map_filter (\<lambda>n. case n of
        None \<Rightarrow> Some None
      | Some v \<Rightarrow> if v = [] then Some None else (case normalize_repo v of Inl _ \<Rightarrow> None | Inr r \<Rightarrow> Some (Some r))) names"

definition integrating_ticket :: "tick_env \<Rightarrow> string \<Rightarrow> integration_db \<Rightarrow> task_row \<Rightarrow> (string \<times> json) option result" where
  "integrating_ticket env wanted ig task =
     (let key = t_key task; queue_repos = list_queue_repos ig in
     rbind (get_ticket (ti_home env) (ig_db ig) key) (\<lambda>ticket.
     rbind (get_pr_state ig key) (\<lambda>pr.
     let names = attributed_names [Option.bind ticket tk_github_repo, map_of queue_repos key] @ [repo_from_pr_url (col_text (col pr ''pr_url''))] in
     if Some wanted \<notin> set names then Inr None
     else
     rbind (get_integration_state ig key) (\<lambda>state.
     Inr (Some (key, JObj [(''task_key'', JStr key), (''status'', JStr (t_status task)), (''checkpoint'', col state ''last_integration_status''),
       (''queued'', JBool (key \<in> fst ` set queue_repos)), (''pr_number'', col pr ''pr_number''), (''pr_url'', col pr ''pr_url'')]))))))"

definition integrating_tickets :: "tick_env \<Rightarrow> tick_request \<Rightarrow> integration_db \<Rightarrow> (string \<times> json) list result" where
  "integrating_tickets env rq ig =
     rbind (normalize_repo (tq_repo rq)) (\<lambda>wanted.
     rbind (list_tasks (ig_db ig) None (Some INTEGRATING)) (\<lambda>tasks.
     rbind (map_ok (integrating_ticket env wanted ig) tasks) (\<lambda>found.
     Inr (sort_key fst (List.map_filter id found)))))"

text \<open>The owner of the request only names the holder in the lock's own record, which is outside the database.\<close>

record crash_phase =
  cp_ran :: bool
  cp_ok :: bool
  cp_status :: string
  cp_reports :: "crash_report list"

definition tick_crash_reconciliation ::
  "tick_env \<Rightarrow> tick_request \<Rightarrow> (string \<times> json) list \<Rightarrow> bool \<Rightarrow> crash_phase run" where
  "tick_crash_reconciliation env rq integrating confirmed =
     (case integrating of
        [] \<Rightarrow> areturn \<lparr>cp_ran = False, cp_ok = True, cp_status = ''not_needed'', cp_reports = []\<rparr>
      | (key, _) # _ \<Rightarrow>
          if \<not> confirmed then areturn \<lparr>cp_ran = False, cp_ok = True, cp_status = ''dry_run'', cp_reports = []\<rparr>
          else
          acatch
            (abind (at_world (ti_run env) (\<lambda>world. reconcile_repository world (ti_suffix env) (tq_repo rq) (tq_repo_path rq) key)) (\<lambda>reports.
             areturn (case reports of
               None \<Rightarrow> \<lparr>cp_ran = True, cp_ok = False, cp_status = ''lock_unavailable'', cp_reports = []\<rparr>
             | Some rs \<Rightarrow> \<lparr>cp_ran = True, cp_ok = True, cp_status = ''reconciled'', cp_reports = rs\<rparr>)))
            (\<lambda>_. areturn \<lparr>cp_ran = True, cp_ok = False, cp_status = ''error'', cp_reports = []\<rparr>))"

section \<open>The consumer phases\<close>

datatype phase_detail =
    PrOutcomes "pr_outcome list"
  | CleanupOutcomes "(string \<times> cleanup_result option) list"
  | FreshnessOutcomes "freshness_outcome list" "string list"
  | NotRun
  | Raised

record phase =
  ph_name :: string
  ph_ran :: bool
  ph_confirmed :: bool
  ph_ok :: bool
  ph_detail :: phase_detail

definition pr_outcomes_phase :: "tick_env \<Rightarrow> tick_request \<Rightarrow> (bool \<times> phase_detail) run" where
  "pr_outcomes_phase env rq =
     abind (at_world (ti_watch env) (\<lambda>world. on_db (poll_pr_outcomes world (tq_repo rq) None (tq_confirm_pr_poll rq)))) (\<lambda>outcomes.
     areturn (list_all (\<lambda>x. po_poll_failures x = None) outcomes, PrOutcomes outcomes))"

definition tick_cleanup_request :: "tick_request \<Rightarrow> string \<Rightarrow> cleanup_request" where
  "tick_cleanup_request rq task_key =
     \<lparr>cq_task_key = task_key, cq_repo = tq_repo rq, cq_repo_path = tq_repo_path rq, cq_target_branch = tq_target_branch rq,
      cq_remote = tq_remote rq, cq_confirm_cleanup = tq_confirm_cleanup rq, cq_confirm_cancelled_cleanup = False,
      cq_delete_remote_branch = False, cq_archive_evidence = True\<rparr>"

definition cleanup_candidate :: "tick_env \<Rightarrow> tick_request \<Rightarrow> string \<Rightarrow> (string \<times> cleanup_result option) run" where
  "cleanup_candidate env rq task_key =
     acatch
       (abind (aget (\<lambda>_. init_cleanup_request (ti_home env) (tick_cleanup_request rq task_key))) (\<lambda>crq.
        abind (at_world (ti_clean env) (\<lambda>world. run_integration_cleanup world crq)) (\<lambda>res.
        areturn (task_key, Some res))))
       (\<lambda>_. areturn (task_key, None))"

definition tick_cleanup_phase :: "tick_env \<Rightarrow> tick_request \<Rightarrow> (bool \<times> phase_detail) run" where
  "tick_cleanup_phase env rq =
     abind (aget (\<lambda>s. list_merged_unverified_pr_states (ws_db s) (tq_repo rq))) (\<lambda>states.
     abind (afor (cleanup_candidate env rq) (map fst states)) (\<lambda>outcomes.
     areturn (list_all (\<lambda>(_, res). case res of None \<Rightarrow> False | Some r \<Rightarrow> cu_ok r) outcomes, CleanupOutcomes outcomes)))"

definition freshness_phase :: "tick_env \<Rightarrow> tick_request \<Rightarrow> (bool \<times> phase_detail) run" where
  "freshness_phase env rq =
     abind (aget (\<lambda>s. list_open_pr_states (ws_db s) (tq_repo rq))) (\<lambda>states.
     abind (at_world (ti_watch env) (\<lambda>world. on_db (poll_target_freshness world (tq_repo rq) None (tq_confirm_freshness rq)))) (\<lambda>outcomes.
     let not_examined = filter (\<lambda>key. key \<notin> fo_task_key ` set outcomes) (map fst states) in
     areturn (not_examined = [], FreshnessOutcomes outcomes not_examined)))"

text \<open>The phases in their order; after one that raised, the others are only listed.\<close>

fun run_phases :: "bool \<Rightarrow> (string \<times> bool \<times> (bool \<times> phase_detail) run) list \<Rightarrow> (phase list \<times> bool) run" where
  "run_phases failed [] = areturn ([], failed)"
| "run_phases failed ((name, confirmed, m) # phases) =
     (if failed
      then abind (run_phases True phases) (\<lambda>(ps, f).
        areturn (\<lparr>ph_name = name, ph_ran = False, ph_confirmed = confirmed, ph_ok = False, ph_detail = NotRun\<rparr> # ps, f))
      else
        abind (acatch (abind m (\<lambda>x. areturn (Some x))) (\<lambda>_. areturn None)) (\<lambda>r.
        abind (run_phases (r = None) phases) (\<lambda>(ps, f).
        areturn (\<lparr>ph_name = name, ph_ran = True, ph_confirmed = confirmed, ph_ok = (case r of None \<Rightarrow> False | Some (ok, _) \<Rightarrow> ok),
          ph_detail = (case r of None \<Rightarrow> Raised | Some (_, d) \<Rightarrow> d)\<rparr> # ps, f))))"

definition run_consumer_phases :: "tick_env \<Rightarrow> tick_request \<Rightarrow> (phase list \<times> bool) run" where
  "run_consumer_phases env rq =
     run_phases False
       [(PHASE_PR_OUTCOMES, tq_confirm_pr_poll rq, pr_outcomes_phase env rq),
        (PHASE_CLEANUP, tq_confirm_cleanup rq, tick_cleanup_phase env rq),
        (PHASE_FRESHNESS, tq_confirm_freshness rq, freshness_phase env rq)]"

section \<open>Reports\<close>

definition ready_unqueued :: "tick_env \<Rightarrow> tick_request \<Rightarrow> integration_db \<Rightarrow> string list result" where
  "ready_unqueued env rq ig =
     rbind (normalize_repo (tq_repo rq)) (\<lambda>wanted.
     rbind (list_tickets (ti_home env) (ig_db ig) None (Some [READY_FOR_INTEGRATION]) None) (\<lambda>tickets.
     Inr (sort_key id (map tk_task_key (filter (\<lambda>t.
       (case tk_github_repo t of None \<Rightarrow> False | Some n \<Rightarrow> n \<noteq> [] \<and> normalize_repo n = Inr wanted) \<and>
       is_queued ig (tk_task_key t) = Inr False) tickets)))))"

definition merge_verified_not_completed :: "tick_env \<Rightarrow> tick_request \<Rightarrow> integration_db \<Rightarrow> string list result" where
  "merge_verified_not_completed env rq ig =
     rbind (normalize_repo (tq_repo rq)) (\<lambda>wanted.
     rbind (list_tickets (ti_home env) (ig_db ig) None (Some (filter (\<lambda>s. s \<noteq> COMPLETED) TASK_STATUSES)) None) (\<lambda>tickets.
     Inr (sort_key id (map tk_task_key (filter (\<lambda>t.
       json_truthy (Some (col (state_at ig (tk_task_key t)) ''merge_verified_at'')) \<and>
       json_truthy (Some (col (pr_state_at ig (tk_task_key t)) ''pr_merged'')) \<and>
       repo_from_pr_url (col_text (col (pr_state_at ig (tk_task_key t)) ''pr_url'')) = Some wanted) tickets)))))"

section \<open>The pass\<close>

record tick_result =
  tr_ok :: bool
  tr_status :: string
  tr_queued :: "queue_row list"
  tr_outcomes :: "tick_outcome list"
  tr_stopped_reason :: "string option"
  tr_remaining :: "string list"
  tr_integrating :: "(string \<times> json) list"
  tr_crash :: crash_phase
  tr_phases :: "phase list"
  tr_unqueued :: "string list"
  tr_uncompleted :: "string list"

definition tick_drain_result ::
  "tick_env \<Rightarrow> tick_request \<Rightarrow> bool \<Rightarrow> (string \<times> json) list \<Rightarrow> crash_phase \<Rightarrow> tick_result run" where
  "tick_drain_result env rq phase_error integrating crash =
     abind (aget (\<lambda>s. Inr (if phase_error then [] else queue_for_repo (ws_db s) (tq_repo rq)))) (\<lambda>entries.
     abind (drain_queue env rq entries) (\<lambda>(outcomes, stopped).
     abind (aget (\<lambda>s. Inr (queue_for_repo (ws_db s) (tq_repo rq)))) (\<lambda>remaining.
     areturn \<lparr>tr_ok = (list_all to_ok outcomes \<and> cp_ok crash),
       tr_status = (if stopped \<noteq> None then ''stopped'' else if tq_dry_run rq \<or> \<not> tq_confirm_integration rq then ''dry_run''
         else if remaining = [] then ''drained'' else ''partial''),
       tr_queued = entries, tr_outcomes = outcomes, tr_stopped_reason = stopped, tr_remaining = map q_task_key remaining,
       tr_integrating = integrating, tr_crash = crash, tr_phases = [], tr_unqueued = [], tr_uncompleted = []\<rparr>)))"

definition with_consumer_phases ::
  "tick_env \<Rightarrow> tick_request \<Rightarrow> phase list \<Rightarrow> bool \<Rightarrow> tick_result \<Rightarrow> tick_result run" where
  "with_consumer_phases env rq phases failed res =
     (let drain_ok = list_all to_ok (tr_outcomes res);
          all_phases = phases @ [\<lparr>ph_name = PHASE_DRAIN, ph_ran = \<not> failed,
            ph_confirmed = (\<not> tq_dry_run rq \<and> tq_confirm_integration rq), ph_ok = (drain_ok \<and> \<not> failed), ph_detail = NotRun\<rparr>] in
     abind (aget (\<lambda>s. ready_unqueued env rq (ws_db s))) (\<lambda>unqueued.
     abind (aget (\<lambda>s. merge_verified_not_completed env rq (ws_db s))) (\<lambda>uncompleted.
     areturn (res\<lparr>tr_ok := (list_all ph_ok all_phases \<and> unqueued = [] \<and> uncompleted = [] \<and> cp_ok (tr_crash res)),
       tr_status := (if failed then ''stopped'' else tr_status res),
       tr_stopped_reason := (case find (\<lambda>p. ph_detail p = Raised) phases of
         None \<Rightarrow> tr_stopped_reason res | Some p \<Rightarrow> Some (''phase_error:'' @ ph_name p)), tr_phases := all_phases,
       tr_unqueued := unqueued, tr_uncompleted := uncompleted\<rparr>))))"

definition run_integration_tick :: "tick_env \<Rightarrow> tick_request \<Rightarrow> tick_result run" where
  "run_integration_tick env rq =
     (if \<not> ti_db_is_file env \<or> \<not> ti_repo_is_dir env then araise ValueError
      else
     abind (aget (\<lambda>s. integrating_tickets env rq (ws_db s))) (\<lambda>integrating.
     abind (tick_crash_reconciliation env rq integrating (\<not> tq_dry_run rq \<and> tq_confirm_integration rq)) (\<lambda>crash.
     if \<not> tq_consumer_phases rq then tick_drain_result env rq False integrating crash
     else
     abind (run_consumer_phases env rq) (\<lambda>(phases, failed).
     abind (tick_drain_result env rq failed integrating crash) (\<lambda>res.
     with_consumer_phases env rq phases failed res)))))"

end
