(* ===== verification/Worktree_Safety.thy ===== *)
theory Worktree_Safety
  imports Ticket_Worktree Run_Facts
begin

text \<open>
  What ensuring a Ticket's worktree may do: it asks git and, only when nothing was found at the path and the
  branch does not exist, adds the worktree once. It never removes, resets or moves anything, and it leaves
  every table but the log and the Ticket's own worktree row alone.
\<close>

section \<open>Questions and answers\<close>

text \<open>The commands that only ask.\<close>

definition inquiry :: "string list \<Rightarrow> bool" where
  "inquiry argv \<longleftrightarrow>
     take 2 argv = [''git'', ''rev-parse''] \<or> take 2 argv = [''git'', ''show-ref''] \<or>
     argv = [''git'', ''worktree'', ''list'', ''--porcelain''] \<or> argv = [''git'', ''status'', ''--porcelain=v1'', ''-z'']"

text \<open>Git gave this answer, and the path was or was not there, at some point of the trace after \<open>base\<close>.\<close>

definition answered :: "worktree_env \<Rightarrow> string list list \<Rightarrow> string list list \<Rightarrow> path \<Rightarrow> string list \<Rightarrow> git_result \<Rightarrow> bool" where
  "answered env base trace cwd args r \<longleftrightarrow>
     (\<exists>pre post. trace = base @ pre @ (''git'' # args) # post \<and> ge_git (wv_git env) (base @ pre) cwd (''git'' # args) = Inr r)"

definition presence :: "worktree_env \<Rightarrow> string list list \<Rightarrow> string list list \<Rightarrow> path \<Rightarrow> bool \<Rightarrow> bool" where
  "presence env base trace p b \<longleftrightarrow> (\<exists>pre post. trace = base @ pre @ post \<and> wv_exists env (base @ pre) p = Inr b)"

lemma answered_append: "answered env base trace cwd args r \<Longrightarrow> answered env base (trace @ later) cwd args r"
  unfolding answered_def by (metis append.assoc append_Cons)

lemma presence_append: "presence env base trace p b \<Longrightarrow> presence env base (trace @ later) p b"
  unfolding presence_def by (metis append.assoc)

lemma trace_simps [simp]:
  "ws_trace (ran argv s) = ws_trace s @ [argv]" "ws_trace (save d s) = ws_trace s"
  by (simp_all add: ws_trace_def List.map_filter_def)

text \<open>What git listed at the Ticket's path.\<close>

definition listed :: "worktree_env \<Rightarrow> ticket_worktree \<Rightarrow> git_result \<Rightarrow> worktree_entry option" where
  "listed env ticket r =
     find (entry_at env (ge_resolve (wv_git env) (tw_worktree_path ticket))) (worktree_entries [] (py_splitlines (gr_stdout r)))"

definition listing :: "worktree_env \<Rightarrow> ticket_worktree \<Rightarrow> string list list \<Rightarrow> string list list \<Rightarrow> worktree_entry option \<Rightarrow> bool" where
  "listing env ticket base trace found \<longleftrightarrow>
     (\<exists>r. answered env base trace (tw_repo_path ticket) [''worktree'', ''list'', ''--porcelain''] r \<and> gr_returncode r = 0 \<and>
        listed env ticket r = found)"

text \<open>Git listed its worktrees and none of them is at the Ticket's path, where nothing exists.\<close>

definition seen_absent :: "worktree_env \<Rightarrow> ticket_worktree \<Rightarrow> string list list \<Rightarrow> string list list \<Rightarrow> bool" where
  "seen_absent env ticket base trace \<longleftrightarrow>
     listing env ticket base trace None \<and> presence env base trace (tw_worktree_path ticket) False"

text \<open>Git listed the worktree at the Ticket's path on the Ticket's branch, and the path exists.\<close>

definition seen_ready :: "worktree_env \<Rightarrow> ticket_worktree \<Rightarrow> string list list \<Rightarrow> string list list \<Rightarrow> bool" where
  "seen_ready env ticket base trace \<longleftrightarrow>
     (\<exists>entry. listing env ticket base trace (Some entry) \<and> map_of entry ''branch'' = Some (''refs/heads/'' @ tw_branch ticket)) \<and>
     presence env base trace (tw_worktree_path ticket) True"

lemma seen_append:
  "listing env ticket base trace found \<Longrightarrow> listing env ticket base (trace @ later) found"
  "seen_absent env ticket base trace \<Longrightarrow> seen_absent env ticket base (trace @ later)"
  "seen_ready env ticket base trace \<Longrightarrow> seen_ready env ticket base (trace @ later)"
  unfolding seen_absent_def seen_ready_def listing_def using answered_append presence_append by fast+

section \<open>What asking and recording leave alone\<close>

text \<open>
  Only the log and the worktree row of one Ticket change: events of this Ticket are appended, another Ticket's
  row is the same, and a lease keeps everything but the clock fields that the trigger on the log moves.
  Every other table of the database is as it was.
\<close>

definition rows_only :: "string \<Rightarrow> integration_db \<Rightarrow> integration_db \<Rightarrow> bool" where
  "rows_only key d d' \<longleftrightarrow>
     (\<exists>es ls ws. d' = d\<lparr>ig_db := (ig_db d)\<lparr>db_events := db_events (ig_db d) @ es, db_leases := ls, db_worktrees := ws\<rparr>\<rparr> \<and>
        list_all (\<lambda>e. ev_task_key e = py_strip key) es \<and> map lease_core ls = map lease_core (db_leases (ig_db d)) \<and>
        filter (\<lambda>w. w_task_key w \<noteq> key) ws = filter (\<lambda>w. w_task_key w \<noteq> key) (db_worktrees (ig_db d)))"

lemma rows_only_refl [simp]: "rows_only key d d"
  unfolding rows_only_def by (intro exI [of _ "[]"] exI [of _ "db_leases (ig_db d)"] exI [of _ "db_worktrees (ig_db d)"]) simp

lemma rows_only_trans: "rows_only key a b \<Longrightarrow> rows_only key b c \<Longrightarrow> rows_only key a c"
  unfolding rows_only_def
proof (elim exE conjE)
  fix es ls ws es' ls' ws'
  assume "b = a\<lparr>ig_db := (ig_db a)\<lparr>db_events := db_events (ig_db a) @ es, db_leases := ls, db_worktrees := ws\<rparr>\<rparr>"
    "c = b\<lparr>ig_db := (ig_db b)\<lparr>db_events := db_events (ig_db b) @ es', db_leases := ls', db_worktrees := ws'\<rparr>\<rparr>"
    "list_all (\<lambda>e. ev_task_key e = py_strip key) es" "list_all (\<lambda>e. ev_task_key e = py_strip key) es'"
    "map lease_core ls = map lease_core (db_leases (ig_db a))" "map lease_core ls' = map lease_core (db_leases (ig_db b))"
    "filter (\<lambda>w. w_task_key w \<noteq> key) ws = filter (\<lambda>w. w_task_key w \<noteq> key) (db_worktrees (ig_db a))"
    "filter (\<lambda>w. w_task_key w \<noteq> key) ws' = filter (\<lambda>w. w_task_key w \<noteq> key) (db_worktrees (ig_db b))"
  then show "\<exists>es ls ws. c = a\<lparr>ig_db := (ig_db a)\<lparr>db_events := db_events (ig_db a) @ es, db_leases := ls, db_worktrees := ws\<rparr>\<rparr> \<and>
        list_all (\<lambda>e. ev_task_key e = py_strip key) es \<and> map lease_core ls = map lease_core (db_leases (ig_db a)) \<and>
        filter (\<lambda>w. w_task_key w \<noteq> key) ws = filter (\<lambda>w. w_task_key w \<noteq> key) (db_worktrees (ig_db a))"
    by (intro exI [of _ "es @ es'"] exI [of _ ls'] exI [of _ ws']) simp
qed

lemma event_rows_only:
  assumes "record_task_event now key ty src payload (ig_db d) = Inr e"
  shows "rows_only key d (d\<lparr>ig_db := e\<rparr>) \<and> db_worktrees e = db_worktrees (ig_db d)"
proof -
  obtain k t sr where "insert_event k t sr (JObj payload) now (ig_db d) = Inr e"
    using assms unfolding record_task_event_def rbind_Inr_iff by blast
  from insert_event_events_only [OF this]
  obtain es ls where e: "e = (ig_db d)\<lparr>db_events := db_events (ig_db d) @ es, db_leases := ls\<rparr>"
    and ls: "map lease_core ls = map lease_core (db_leases (ig_db d))"
    unfolding events_only_def by blast
  have "list_all (\<lambda>x. ev_task_key x = py_strip key) es"
    using record_task_event_Inr [OF assms] by (simp add: e)
  then show ?thesis
    unfolding rows_only_def using ls
    by (auto simp: e intro!: exI [of _ es] exI [of _ ls] exI [of _ "db_worktrees (ig_db d)"])
qed

lemma filter_other_rows:
  "(\<And>w. w_task_key (f w) = w_task_key w) \<Longrightarrow>
     filter (\<lambda>w. w_task_key w \<noteq> k) (map_where (\<lambda>w. w_task_key w = k) f ws) = filter (\<lambda>w. w_task_key w \<noteq> k) ws"
  by (induction ws) (auto simp: map_where_def)

lemma upsert_rows_only:
  assumes "upsert_task_worktree now r (ig_db d) = Inr e"
  shows "rows_only (wr_task_key r) d (d\<lparr>ig_db := e\<rparr>)"
  unfolding rows_only_def
  using assms
  by (intro exI [of _ "[]"] exI [of _ "db_leases (ig_db d)"] exI [of _ "db_worktrees e"])
     (auto simp: upsert_task_worktree_def filter_other_rows split: if_splits)

locale ask_frame = frame_relation R for R :: "work_state \<Rightarrow> work_state \<Rightarrow> bool" +
  assumes asked: "inquiry argv \<Longrightarrow> R s (ran argv s)"
begin

lemma framed_ask: "inquiry (''git'' # args) \<Longrightarrow> framed (tw_git env args cwd)"
  by (simp add: framed_def tw_git_def asked)

lemma framed_inspect: "framed (inspect_ticket_worktree env ticket)"
  unfolding inspect_ticket_worktree_def registered_worktrees_def Let_def
  by (auto intro!: framed_rules framed_ask simp: inquiry_def split: option.split)

end

interpretation same_db: ask_frame "\<lambda>s s'. ws_db s' = ws_db s"
  by unfold_locales simp_all

locale worktree_frame = ask_frame R for R :: "work_state \<Rightarrow> work_state \<Rightarrow> bool" +
  fixes key :: string
  assumes logged: "\<lbrakk>rows_only key (ws_db s) d; db_worktrees (ig_db d) = db_worktrees (ig_db (ws_db s))\<rbrakk> \<Longrightarrow> R s (save d s)"
begin

lemma framed_event: "tw_task_key ticket = key \<Longrightarrow> framed (tw_record_event env ticket ty kind source extra)"
  unfolding framed_def tw_record_event_def on_db_save adb_def
  using event_rows_only [where key = key] by (auto simp: refl logged split: sum.split)

end

text \<open>Questions are asked; at most the log and the Ticket's row change, or the log alone.\<close>

definition quiet_rows :: "string \<Rightarrow> work_state \<Rightarrow> work_state \<Rightarrow> bool" where
  "quiet_rows key s s' \<longleftrightarrow>
     (\<exists>new. ws_trace s' = ws_trace s @ new \<and> list_all inquiry new) \<and> rows_only key (ws_db s) (ws_db s')"

definition quiet_log :: "string \<Rightarrow> work_state \<Rightarrow> work_state \<Rightarrow> bool" where
  "quiet_log key s s' \<longleftrightarrow> quiet_rows key s s' \<and> db_worktrees (ig_db (ws_db s')) = db_worktrees (ig_db (ws_db s))"

lemma quiet_rows_refl [simp]: "quiet_rows key s s"
  by (simp add: quiet_rows_def)

lemma quiet_rows_trans: "quiet_rows key s t \<Longrightarrow> quiet_rows key t u \<Longrightarrow> quiet_rows key s u"
  unfolding quiet_rows_def using rows_only_trans by (metis append.assoc list_all_append)

lemma quiet_rows_save: "rows_only key (ws_db s) d \<Longrightarrow> quiet_rows key s (save d s)"
  by (simp add: quiet_rows_def)

interpretation wq: worktree_frame "quiet_rows key" key for key
proof
  show "quiet_rows key s t \<Longrightarrow> quiet_rows key t u \<Longrightarrow> quiet_rows key s u" for s t u by (rule quiet_rows_trans)
  show "inquiry argv \<Longrightarrow> quiet_rows key s (ran argv s)" for argv s by (simp add: quiet_rows_def)
qed (simp_all add: quiet_rows_save)

interpretation wl: worktree_frame "quiet_log key" key for key
proof
  show "quiet_log key s t \<Longrightarrow> quiet_log key t u \<Longrightarrow> quiet_log key s u" for s t u
    unfolding quiet_log_def using quiet_rows_trans by metis
  show "inquiry argv \<Longrightarrow> quiet_log key s (ran argv s)" for argv s by (simp add: quiet_log_def quiet_rows_def)
qed (simp_all add: quiet_log_def quiet_rows_save)

section \<open>Inspecting\<close>

text \<open>A condition that later questions keep, and that knows where the trace started.\<close>

definition lasting :: "string list list \<Rightarrow> (work_state \<Rightarrow> bool) \<Rightarrow> bool" where
  "lasting base P \<longleftrightarrow> (\<forall>s argv. P s \<longrightarrow> inquiry argv \<longrightarrow> P (ran argv s)) \<and> (\<forall>s. P s \<longrightarrow> (\<exists>new. ws_trace s = base @ new))"

lemma lasting_ran: "lasting base P \<Longrightarrow> P s \<Longrightarrow> inquiry argv \<Longrightarrow> P (ran argv s)"
  by (auto simp: lasting_def)

lemma lasting_conj:
  assumes "lasting base P" "\<And>trace later. F trace \<Longrightarrow> F (trace @ later)"
  shows "lasting base (\<lambda>s. P s \<and> F (ws_trace s))"
  using assms by (simp add: lasting_def)

lemma ask_triple:
  assumes P: "lasting base P" and i: "inquiry (''git'' # args)"
  shows "triple P (tw_git env args cwd) (\<lambda>r s. P s \<and> answered env base (ws_trace s) cwd args r) P"
proof (rule tripleI)
  fix s s' r
  assume s: "P s" and run: "tw_git env args cwd s = (s', r)"
  have s': "s' = ran (''git'' # args) s" and r: "r = ge_git (wv_git env) (ws_trace s) cwd (''git'' # args)"
    using run by (auto simp: tw_git_def)
  obtain new where "ws_trace s = base @ new" using P s by (auto simp: lasting_def)
  moreover have "P s'" using lasting_ran [OF P s i] by (simp add: s')
  ultimately show "case r of Inl _ \<Rightarrow> P s' | Inr r \<Rightarrow> P s' \<and> answered env base (ws_trace s') cwd args r"
    using r unfolding answered_def by (auto simp: s' split: sum.split)
qed

lemma ask_keep:
  assumes "lasting base P" "inquiry (''git'' # args)" "\<And>s. P s \<Longrightarrow> E s"
  shows "triple P (tw_git env args cwd) (\<lambda>_. P) E"
  using ask_triple [OF assms(1,2)] by (rule triple_weaken) (simp_all add: assms(3))

lemma presence_triple:
  assumes P: "lasting base P" and E: "\<And>s. P s \<Longrightarrow> E s"
  shows "triple P (aget (\<lambda>s. wv_exists env (ws_trace s) p)) (\<lambda>b s. P s \<and> presence env base (ws_trace s) p b) E"
proof (rule triple_get)
  fix s b
  assume s: "P s" "wv_exists env (ws_trace s) p = Inr b"
  then obtain new where "ws_trace s = base @ new" using P by (auto simp: lasting_def)
  then show "P s \<and> presence env base (ws_trace s) p b" using s by (auto simp: presence_def)
qed (rule E)

lemma registered_triple:
  assumes P: "lasting base P"
  shows "triple P (registered_worktrees env (tw_repo_path ticket))
     (\<lambda>es s. P s \<and> (\<forall>entries. es = Some entries \<longrightarrow>
        listing env ticket base (ws_trace s) (find (entry_at env (ge_resolve (wv_git env) (tw_worktree_path ticket))) entries))) P"
  unfolding registered_worktrees_def
  by (rule triple_bind [OF ask_triple [OF P]]) (auto simp: inquiry_def listing_def listed_def intro!: triple_return)

text \<open>Git reported no change in the worktree.\<close>

definition seen_clean :: "worktree_env \<Rightarrow> ticket_worktree \<Rightarrow> string list list \<Rightarrow> string list list \<Rightarrow> bool" where
  "seen_clean env ticket base trace \<longleftrightarrow>
     (\<exists>r. answered env base trace (tw_worktree_path ticket) [''status'', ''--porcelain=v1'', ''-z''] r \<and> gr_returncode r = 0 \<and> gr_stdout r = [])"

lemma seen_clean_append: "seen_clean env ticket base trace \<Longrightarrow> seen_clean env ticket base (trace @ later)"
  unfolding seen_clean_def using answered_append by blast

text \<open>What an inspection reports was seen.\<close>

definition inspected ::
  "worktree_env \<Rightarrow> ticket_worktree \<Rightarrow> string list list \<Rightarrow> worktree_inspection \<Rightarrow> string list list \<Rightarrow> bool" where
  "inspected env ticket base i trace \<longleftrightarrow>
     (wi_state i = WORKTREE_ABSENT \<longrightarrow> seen_absent env ticket base trace) \<and>
     (wi_state i = WORKTREE_READY \<longrightarrow>
        seen_ready env ticket base trace \<and> (\<not> wi_dirty i \<longrightarrow> seen_clean env ticket base trace))"

lemma inspect_triple:
  assumes P: "lasting base P"
  shows "triple P (inspect_ticket_worktree env ticket) (\<lambda>i s. P s \<and> inspected env ticket base i (ws_trace s)) P"
proof -
  let ?L = "\<lambda>found s. P s \<and> listing env ticket base (ws_trace s) found"
  let ?M = "\<lambda>found b s. ?L found s \<and> presence env base (ws_trace s) (tw_worktree_path ticket) b"
  let ?Q = "\<lambda>i s. P s \<and> inspected env ticket base i (ws_trace s)"
  have keep: "lasting base (?L found)" "lasting base (?M found b)" for found b
    by (intro lasting_conj [OF P] lasting_conj [OF lasting_conj [OF P]] seen_append presence_append; assumption)+
  have stop: "triple P' (areturn mismatch) ?Q P" if "\<And>s. P' s \<Longrightarrow> P s" for P'
    by (rule triple_return) (simp add: mismatch_def inspected_def that)
  have ready: "triple (?M (Some entry) True) (abind (tw_git env [''status'', ''--porcelain=v1'', ''-z''] (tw_worktree_path ticket)) (\<lambda>status.
      if gr_returncode status \<noteq> 0 then areturn mismatch
      else abind (tw_git env [''rev-parse'', ''HEAD''] (tw_worktree_path ticket)) (\<lambda>head.
        areturn \<lparr>wi_state = WORKTREE_READY, wi_dirty = gr_stdout status \<noteq> [],
          wi_head_sha = (if gr_returncode head = 0 then Some (stripped_out head) else None)\<rparr>))) ?Q P"
    if b: "map_of entry ''branch'' = Some (''refs/heads/'' @ tw_branch ticket)" for entry
  proof -
    let ?S = "\<lambda>r s. ?M (Some entry) True s \<and> answered env base (ws_trace s) (tw_worktree_path ticket) [''status'', ''--porcelain=v1'', ''-z''] r"
    have S: "lasting base (?S r)" for r by (rule lasting_conj [OF keep(2)]) (rule answered_append)
    have ask: "triple (?M (Some entry) True) (tw_git env [''status'', ''--porcelain=v1'', ''-z''] (tw_worktree_path ticket)) ?S P"
      by (rule triple_weaken [OF ask_triple [OF keep(2)]]) (auto simp: inquiry_def)
    show ?thesis
      by (rule triple_bind [OF ask], intro triple_if stop, simp, rule triple_bind [OF ask_keep [OF S]], (simp_all add: inquiry_def)[2],
          rule triple_return, auto simp: inspected_def seen_ready_def seen_clean_def b)
  qed
  have present: "triple (?M found b) (if \<not> b then areturn (if found = None then \<lparr>wi_state = WORKTREE_ABSENT, wi_dirty = False, wi_head_sha = None\<rparr> else mismatch)
      else case found of None \<Rightarrow> areturn mismatch
      | Some entry \<Rightarrow>
          if map_of entry ''branch'' \<noteq> Some (''refs/heads/'' @ tw_branch ticket) then areturn mismatch
          else abind (tw_git env [''status'', ''--porcelain=v1'', ''-z''] (tw_worktree_path ticket)) (\<lambda>status.
            if gr_returncode status \<noteq> 0 then areturn mismatch
            else abind (tw_git env [''rev-parse'', ''HEAD''] (tw_worktree_path ticket)) (\<lambda>head.
              areturn \<lparr>wi_state = WORKTREE_READY, wi_dirty = gr_stdout status \<noteq> [],
                wi_head_sha = (if gr_returncode head = 0 then Some (stripped_out head) else None)\<rparr>))) ?Q P" for found b
  proof (cases b)
    case True
    then show ?thesis using ready by (auto split: option.split intro!: stop)
  next
    case False
    then show ?thesis by (auto simp: inspected_def seen_absent_def mismatch_def intro!: triple_return)
  qed
  show ?thesis
    unfolding inspect_ticket_worktree_def Let_def
    by (rule triple_bind [OF ask_keep [OF P]], (simp_all add: inquiry_def)[2],
        intro triple_if, rule stop, assumption, rule stop, assumption,
        rule triple_bind [OF registered_triple [OF P]], rule triple_option,
        rule stop, simp,
        rule triple_bind [OF triple_weaken [OF presence_triple [OF keep(1)]] present])
      auto
qed

section \<open>The recorded row\<close>

definition recorded :: "worktree_env \<Rightarrow> ticket_worktree \<Rightarrow> worktree_row list \<Rightarrow> bool" where
  "recorded env ticket rows \<longleftrightarrow>
     (\<exists>row w. find (\<lambda>w. w_task_key w = tw_task_key ticket) rows = Some row \<and> row_to_worktree (wv_home env) row = Inr w \<and>
        wr_worktree_path w = tw_worktree_path ticket \<and> wr_repo_path w = tw_repo_path ticket \<and> wr_branch w = py_strip (tw_branch ticket))"

text \<open>A Ticket as it is read from the database.\<close>

definition ticket_wf :: "ticket_worktree \<Rightarrow> bool" where
  "ticket_wf ticket \<longleftrightarrow>
     normalize_task_key (tw_task_key ticket) = Inr (tw_task_key ticket) \<and>
     path_normal (tw_repo_path ticket) \<and> is_absolute (tw_repo_path ticket) \<and>
     path_normal (tw_worktree_path ticket) \<and> is_absolute (tw_worktree_path ticket)"

lemma ticket_found_wf:
  assumes "ticket_worktree_in_connection home db key = Inr (Some ticket)"
  shows "ticket_wf ticket"
proof -
  obtain k t where k: "normalize_task_key key = Inr k" "get_task db k = Some t" "tw_task_key ticket = t_key t"
    and p: "require_absolute_path home (t_repo_path t) = Inr (tw_repo_path ticket)"
      "\<exists>wp. require_absolute_path home wp = Inr (tw_worktree_path ticket)"
  proof (cases "normalize_task_key key")
    case (Inr k)
    show thesis
    proof (cases "get_task db k")
      case (Some t)
      obtain p wp b where f: "t_prompt t = Some p" "t_worktree_path t = Some wp" "t_branch t = Some b"
        using assms by (cases "t_prompt t"; cases "t_worktree_path t"; cases "t_branch t")
          (simp_all add: ticket_worktree_in_connection_def Inr Some)
      show thesis
        by (rule that [OF Inr Some]) (use assms f in \<open>auto simp: ticket_worktree_in_connection_def Inr Some rbind_Inr_iff\<close>)
    qed (use assms Inr in \<open>simp add: ticket_worktree_in_connection_def\<close>)
  qed (use assms in \<open>simp add: ticket_worktree_in_connection_def\<close>)
  have norm: "require_absolute_path home q = Inr r \<Longrightarrow> path_normal r \<and> is_absolute r" for q r
    using expanduser_normal [OF parse_path_normal]
    by (auto simp: require_absolute_path_def ensure_absolute_path_def rbind_Inr_iff split: if_splits)
  show ?thesis
    using k p norm get_task_Some [OF k(2)] normalize_task_key_idem [OF k(1)] by (auto simp: ticket_wf_def)
qed

lemma absolute_idem: "path_normal p \<Longrightarrow> is_absolute p \<Longrightarrow> require_absolute home (parse_path (path_str p)) = Inr p"
  by (auto simp: parse_path_str require_absolute_def expanduser_def is_absolute_def split: list.split)

lemma active_status: "validate_task_worktree_status ''active'' = Inr ''active''"
  by code_simp

lemma upserted_row:
  assumes "upsert_task_worktree now r d = Inr e"
  shows "\<exists>row. find (\<lambda>w. w_task_key w = wr_task_key r) (db_worktrees e) = Some row \<and>
     w_task_key row = wr_task_key r \<and> w_repo_path row = path_str (wr_repo_path r) \<and>
     w_worktree_path row = path_str (wr_worktree_path r) \<and> w_branch row = wr_branch r \<and> w_status row = wr_status r"
proof (cases "find (\<lambda>w. w_task_key w = wr_task_key r) (db_worktrees d)")
  case None
  then have "\<not> list_ex (\<lambda>w. w_task_key w = wr_task_key r) (db_worktrees d)" by (auto simp: find_None_iff list_ex_iff)
  then show ?thesis using assms None by (auto simp: upsert_task_worktree_def find_append split: if_splits)
next
  case (Some w)
  then have "list_ex (\<lambda>w. w_task_key w = wr_task_key r) (db_worktrees d)" "w_task_key w = wr_task_key r"
    using find_Some_set by (fastforce simp: list_ex_iff)+
  then show ?thesis using assms Some by (auto simp: upsert_task_worktree_def find_map_where_same split: if_splits)
qed

lemma upsert_recorded:
  assumes wf: "ticket_wf ticket"
    and r: "init_worktree_record (wv_home env)
         \<lparr>wr_task_key = tw_task_key ticket, wr_repo_path = tw_repo_path ticket, wr_worktree_path = tw_worktree_path ticket,
          wr_branch = tw_branch ticket, wr_status = ''active'', wr_base_branch = Some (tw_base_branch ticket),
          wr_base_sha = base_sha, wr_created_at = None, wr_cleaned_at = None\<rparr> = Inr r"
    and e: "upsert_task_worktree now r d = Inr e"
  shows "recorded env ticket (db_worktrees e)" "wr_task_key r = tw_task_key ticket"
proof -
  have paths: "require_absolute (wv_home env) (tw_repo_path ticket) = Inr (tw_repo_path ticket)"
    "require_absolute (wv_home env) (tw_worktree_path ticket) = Inr (tw_worktree_path ticket)"
    using wf absolute_idem parse_path_str by (metis ticket_wf_def)+
  have f: "wr_task_key r = tw_task_key ticket" "wr_repo_path r = tw_repo_path ticket" "wr_worktree_path r = tw_worktree_path ticket"
    "wr_branch r = py_strip (tw_branch ticket)" "wr_status r = ''active''" "py_strip (tw_branch ticket) \<noteq> []"
    using r wf paths
    by (auto simp: init_worktree_record_def ticket_wf_def rbind_Inr_iff require_non_empty_Inr active_status)
  show "wr_task_key r = tw_task_key ticket" by (rule f)
  obtain row where row: "find (\<lambda>w. w_task_key w = tw_task_key ticket) (db_worktrees e) = Some row"
    "w_task_key row = tw_task_key ticket" "w_repo_path row = path_str (tw_repo_path ticket)"
    "w_worktree_path row = path_str (tw_worktree_path ticket)" "w_branch row = py_strip (tw_branch ticket)" "w_status row = ''active''"
    using upserted_row [OF e] unfolding f by blast
  show "recorded env ticket (db_worktrees e)"
    using row f(6) wf
    by (auto simp: recorded_def row_to_worktree_def init_worktree_record_def ticket_wf_def absolute_idem require_non_empty_def active_status Let_def)
qed

section \<open>Ensuring the worktree\<close>

text \<open>The worktree was added once, after nothing was seen at its path and git knew no such branch; the rest was asking.\<close>

definition added :: "worktree_env \<Rightarrow> ticket_worktree \<Rightarrow> string list list \<Rightarrow> string list list \<Rightarrow> bool" where
  "added env ticket base trace \<longleftrightarrow>
     (\<exists>pre start_point post r. trace = base @ pre @ (''git'' # worktree_add_args ticket start_point) # post \<and>
        list_all inquiry pre \<and> list_all inquiry post \<and> seen_absent env ticket base (base @ pre) \<and>
        answered env base (base @ pre) (tw_repo_path ticket) [''show-ref'', ''--verify'', ''--quiet'', ''refs/heads/'' @ tw_branch ticket] r \<and>
        gr_returncode r \<noteq> 0)"

text \<open>The Ticket's path, resolved, lies inside \<open>.worktrees\<close> of its resolved repository and is not the repository.\<close>

definition contained :: "worktree_env \<Rightarrow> ticket_worktree \<Rightarrow> bool" where
  "contained env ticket \<longleftrightarrow>
     (\<exists>wt repo. gov_resolve env (tw_worktree_path ticket) = Inr wt \<and> gov_resolve env (tw_repo_path ticket) = Inr repo \<and>
        wt \<noteq> repo \<and> path_inside wt (path_join repo (parse_path ''.worktrees'')))"

lemma contained_iff:
  "contained env ticket \<longleftrightarrow>
     assert_not_main_repo_write env (tw_worktree_path ticket) (tw_repo_path ticket) = Inr () \<and>
     assert_worktree_inside_repo_worktrees env (tw_worktree_path ticket) (tw_repo_path ticket) = Inr ()"
  by (auto simp: contained_def assert_not_main_repo_write_def assert_worktree_inside_repo_worktrees_def rbind_Inr_iff)

definition careful :: "worktree_env \<Rightarrow> ticket_worktree \<Rightarrow> work_state \<Rightarrow> work_state \<Rightarrow> bool" where
  "careful env ticket s s' \<longleftrightarrow>
     rows_only (tw_task_key ticket) (ws_db s) (ws_db s') \<and>
     ((\<exists>new. ws_trace s' = ws_trace s @ new \<and> list_all inquiry new) \<or>
      contained env ticket \<and> added env ticket (ws_trace s) (ws_trace s'))"

lemma added_append: "added env ticket base trace \<Longrightarrow> list_all inquiry later \<Longrightarrow> added env ticket base (trace @ later)"
  unfolding added_def
proof (elim exE conjE)
  fix pre start_point post r
  let ?add = "''git'' # worktree_add_args ticket start_point"
  assume t: "trace = base @ pre @ ?add # post" and i: "list_all inquiry post" "list_all inquiry later"
  have "trace @ later = base @ pre @ ?add # (post @ later)" "list_all inquiry (post @ later)" using i by (simp_all add: t)
  moreover assume "list_all inquiry pre" "seen_absent env ticket base (base @ pre)" "gr_returncode r \<noteq> 0"
    "answered env base (base @ pre) (tw_repo_path ticket) [''show-ref'', ''--verify'', ''--quiet'', ''refs/heads/'' @ tw_branch ticket] r"
  ultimately show "\<exists>pre start_point post r. trace @ later = base @ pre @ (''git'' # worktree_add_args ticket start_point) # post \<and>
        list_all inquiry pre \<and> list_all inquiry post \<and> seen_absent env ticket base (base @ pre) \<and>
        answered env base (base @ pre) (tw_repo_path ticket) [''show-ref'', ''--verify'', ''--quiet'', ''refs/heads/'' @ tw_branch ticket] r \<and>
        gr_returncode r \<noteq> 0" by (intro exI conjI)
qed

lemma careful_quiet: "careful env ticket s t \<Longrightarrow> quiet_rows (tw_task_key ticket) t u \<Longrightarrow> careful env ticket s u"
  unfolding careful_def quiet_rows_def
proof (elim conjE exE)
  fix later
  assume u: "ws_trace u = ws_trace t @ later" "list_all inquiry later"
    and rows: "rows_only (tw_task_key ticket) (ws_db s) (ws_db t)" "rows_only (tw_task_key ticket) (ws_db t) (ws_db u)"
    and t: "(\<exists>new. ws_trace t = ws_trace s @ new \<and> list_all inquiry new) \<or>
      contained env ticket \<and> added env ticket (ws_trace s) (ws_trace t)"
  then show "rows_only (tw_task_key ticket) (ws_db s) (ws_db u) \<and>
     ((\<exists>new. ws_trace u = ws_trace s @ new \<and> list_all inquiry new) \<or>
      contained env ticket \<and> added env ticket (ws_trace s) (ws_trace u))"
    using rows_only_trans [OF rows] added_append [OF _ u(2)] by auto
qed

lemma careful_base: "careful env ticket s t \<Longrightarrow> \<exists>new. ws_trace t = ws_trace s @ new"
  unfolding careful_def added_def by blast

text \<open>Careful so far, and the rows of all worktrees as they were.\<close>

definition untouched :: "worktree_env \<Rightarrow> ticket_worktree \<Rightarrow> work_state \<Rightarrow> work_state \<Rightarrow> bool" where
  "untouched env ticket s s' \<longleftrightarrow> careful env ticket s s' \<and> db_worktrees (ig_db (ws_db s')) = db_worktrees (ig_db (ws_db s))"

lemma untouched_careful: "untouched env ticket s t \<Longrightarrow> careful env ticket s t"
  by (simp add: untouched_def)

lemma untouched_quiet: "untouched env ticket s t \<Longrightarrow> quiet_log (tw_task_key ticket) t u \<Longrightarrow> untouched env ticket s u"
  unfolding untouched_def quiet_log_def using careful_quiet by metis

lemma lasting_untouched: "lasting (ws_trace s) (untouched env ticket s)"
  unfolding lasting_def using untouched_quiet wl.asked careful_base untouched_careful by blast

definition ensured :: "worktree_env \<Rightarrow> ticket_worktree \<Rightarrow> work_state \<Rightarrow> worktree_result \<Rightarrow> work_state \<Rightarrow> bool" where
  "ensured env ticket s res s' \<longleftrightarrow>
     (case wt_action res of
        ACTION_CREATED \<Rightarrow> recorded env ticket (db_worktrees (ig_db (ws_db s'))) \<and>
          (\<exists>start_point r. answered env (ws_trace s) (ws_trace s') (tw_repo_path ticket) (worktree_add_args ticket start_point) r \<and>
             gr_returncode r = 0)
      | ACTION_EXISTING \<Rightarrow> recorded env ticket (db_worktrees (ig_db (ws_db s'))) \<and> seen_ready env ticket (ws_trace s) (ws_trace s')
      | ACTION_REFUSED \<Rightarrow> db_worktrees (ig_db (ws_db s')) = db_worktrees (ig_db (ws_db s)))"

abbreviation ensures :: "worktree_env \<Rightarrow> ticket_worktree \<Rightarrow> work_state \<Rightarrow> (work_state \<Rightarrow> bool) \<Rightarrow> worktree_result run \<Rightarrow> bool" where
  "ensures env ticket s P m \<equiv> triple P m (\<lambda>res t. careful env ticket s t \<and> ensured env ticket s res t) (careful env ticket s)"

lemma refuse_triple: "ensures env ticket s (untouched env ticket s) (tw_refuse env ticket source)"
proof -
  have event: "triple (untouched env ticket s) (tw_record_event env ticket ty kind source extra) (\<lambda>_. untouched env ticket s) (untouched env ticket s)"
    for ty kind extra
    by (rule wl.framed_triple [OF wl.framed_event [OF refl]]) (rule untouched_quiet)
  have "triple (untouched env ticket s) (tw_refuse env ticket source)
      (\<lambda>res t. untouched env ticket s t \<and> wt_action res = ACTION_REFUSED) (untouched env ticket s)"
    unfolding tw_refuse_def by (rule triple_bind [OF event triple_return]) (simp add: tw_result_def)
  then show ?thesis by (rule triple_weaken) (auto simp: untouched_def ensured_def)
qed

text \<open>Recording keeps what the trace shows.\<close>

lemma upsert_triple:
  assumes wf: "ticket_wf ticket"
    and F: "\<And>s s'. \<lbrakk>F s; quiet_rows (tw_task_key ticket) s s'\<rbrakk> \<Longrightarrow> F s'"
  shows "triple F (tw_upsert env ticket base_sha) (\<lambda>_ s. F s \<and> recorded env ticket (db_worktrees (ig_db (ws_db s)))) F"
  unfolding tw_upsert_def
proof -
  let ?R = "\<lambda>r s. F s \<and> init_worktree_record (wv_home env)
         \<lparr>wr_task_key = tw_task_key ticket, wr_repo_path = tw_repo_path ticket, wr_worktree_path = tw_worktree_path ticket,
          wr_branch = tw_branch ticket, wr_status = ''active'', wr_base_branch = Some (tw_base_branch ticket),
          wr_base_sha = base_sha, wr_created_at = None, wr_cleaned_at = None\<rparr> = Inr r"
  have step: "triple (?R r) (on_db (adb (upsert_task_worktree (wv_now env) r)))
      (\<lambda>_ s. F s \<and> recorded env ticket (db_worktrees (ig_db (ws_db s)))) F" for r
  proof (rule triple_on_db)
    fix s d x
    assume s: "?R r s" and x: "adb (upsert_task_worktree (wv_now env) r) (ws_db s) = (d, x)"
    show "case x of Inl _ \<Rightarrow> F (save d s) | Inr _ \<Rightarrow> F (save d s) \<and> recorded env ticket (db_worktrees (ig_db (ws_db (save d s))))"
    proof (cases "upsert_task_worktree (wv_now env) r (ig_db (ws_db s))")
      case (Inl e)
      then show ?thesis using x s F [OF _ quiet_rows_save] by (auto simp: adb_def)
    next
      case (Inr e)
      note rec = upsert_recorded [OF wf conjunct2 [OF s] Inr]
      have "F (save d s)"
        using x s F [OF _ quiet_rows_save] upsert_rows_only [OF Inr] by (auto simp: adb_def Inr rec(2))
      then show ?thesis using x rec(1) by (auto simp: adb_def Inr)
    qed
  qed
  show "triple F (abind (aget (\<lambda>_. init_worktree_record (wv_home env)
         \<lparr>wr_task_key = tw_task_key ticket, wr_repo_path = tw_repo_path ticket, wr_worktree_path = tw_worktree_path ticket,
          wr_branch = tw_branch ticket, wr_status = ''active'', wr_base_branch = Some (tw_base_branch ticket),
          wr_base_sha = base_sha, wr_created_at = None, wr_cleaned_at = None\<rparr>)) (\<lambda>r. on_db (adb (upsert_task_worktree (wv_now env) r))))
      (\<lambda>_ s. F s \<and> recorded env ticket (db_worktrees (ig_db (ws_db s)))) F"
    by (rule triple_bind [OF triple_get step]) auto
qed

lemma recorded_event_triple:
  assumes F: "\<And>s s'. \<lbrakk>F s; quiet_rows (tw_task_key ticket) s s'\<rbrakk> \<Longrightarrow> F s'"
  shows "triple (\<lambda>s. F s \<and> recorded env ticket (db_worktrees (ig_db (ws_db s)))) (tw_record_event env ticket ty kind source extra)
     (\<lambda>_ s. F s \<and> recorded env ticket (db_worktrees (ig_db (ws_db s)))) (\<lambda>s. F s \<and> recorded env ticket (db_worktrees (ig_db (ws_db s))))"
  by (rule wl.framed_triple [OF wl.framed_event [where key = "tw_task_key ticket"]]) (auto simp: quiet_log_def F)

lemma row_branch_stripped: "row_to_worktree home row = Inr w \<Longrightarrow> py_strip (wr_branch w) = wr_branch w"
  by (auto simp: row_to_worktree_def init_worktree_record_def rbind_Inr_iff require_non_empty_Inr)

lemma record_row_triple:
  assumes wf: "ticket_wf ticket"
    and F: "\<And>s s'. \<lbrakk>F s; quiet_rows (tw_task_key ticket) s s'\<rbrakk> \<Longrightarrow> F s'"
  shows "triple F (record_row_if_needed env ticket base_sha source) (\<lambda>_ s. F s \<and> recorded env ticket (db_worktrees (ig_db (ws_db s)))) F"
proof -
  have found: "recorded env ticket rows"
    if "get_task_worktree (wv_home env) d (tw_task_key ticket) = Inr existing" "row_matches ticket existing" "rows = db_worktrees d" for d existing rows
    using that row_branch_stripped [of "wv_home env"]
    by (fastforce simp: get_task_worktree_def row_matches_def recorded_def rbind_Inr_iff split: option.splits)
  have read: "triple F (read_worktree_row env ticket)
      (\<lambda>existing s. F s \<and> (row_matches ticket existing \<longrightarrow> recorded env ticket (db_worktrees (ig_db (ws_db s))))) F"
    unfolding read_worktree_row_def using wf by (intro triple_get) (auto simp: ticket_wf_def intro: found)
  show ?thesis
    unfolding record_row_if_needed_def
    by (rule triple_bind [OF read], rule triple_if, rule triple_return, simp,
        rule triple_bind [OF triple_weaken [OF upsert_triple [OF wf F]] triple_weaken [OF recorded_event_triple [OF F]]]) auto
qed

lemma existing_triple:
  assumes wf: "ticket_wf ticket"
  shows "ensures env ticket s (\<lambda>t. untouched env ticket s t \<and> seen_ready env ticket (ws_trace s) (ws_trace t))
     (tw_existing env ticket source given)" (is "ensures _ _ _ ?P _")
proof -
  let ?F = "\<lambda>t. careful env ticket s t \<and> seen_ready env ticket (ws_trace s) (ws_trace t)"
  have F: "?F t \<Longrightarrow> quiet_rows (tw_task_key ticket) t u \<Longrightarrow> ?F u" for t u
    using careful_quiet seen_append(3) unfolding quiet_rows_def by metis
  have P: "lasting (ws_trace s) ?P" by (rule lasting_conj [OF lasting_untouched]) (rule seen_append(3))
  have look: "triple ?P (case given of None \<Rightarrow> inspect_ticket_worktree env ticket | Some i \<Rightarrow> areturn i) (\<lambda>_. ?P) (careful env ticket s)"
    by (rule triple_option) (auto intro: triple_return triple_weaken [OF inspect_triple [OF P]] simp: untouched_careful)
  have read: "triple ?P (read_worktree_row env ticket) (\<lambda>_. ?F) (careful env ticket s)"
    unfolding read_worktree_row_def by (rule triple_get) (simp_all add: untouched_careful)
  have row: "triple ?F (record_row_if_needed env ticket base_sha source)
      (\<lambda>_ t. ?F t \<and> recorded env ticket (db_worktrees (ig_db (ws_db t)))) (careful env ticket s)" for base_sha
    by (rule triple_weaken [OF record_row_triple [OF wf F]]) auto
  show ?thesis
    unfolding tw_existing_def
    by (rule triple_bind [OF look], rule triple_bind [OF read], rule triple_bind [OF row], rule triple_return)
       (simp add: ensured_def tw_result_def)
qed

lemma ready_or_triple:
  assumes wf: "ticket_wf ticket"
  shows "ensures env ticket s (untouched env ticket s) (ready_or env ticket source)"
  unfolding ready_or_def
  by (rule triple_bind [OF triple_weaken [OF inspect_triple [OF lasting_untouched]]], assumption, assumption, simp add: untouched_careful,
      rule triple_if, rule triple_weaken [OF existing_triple [OF wf]], simp_all add: inspected_def)
     (rule triple_weaken [OF refuse_triple], auto)

lemma create_worktree_triple:
  assumes wf: "ticket_wf ticket" and inside: "contained env ticket"
  shows "ensures env ticket s
     (\<lambda>t. (quiet_log (tw_task_key ticket) s t \<and> seen_absent env ticket (ws_trace s) (ws_trace t)) \<and>
        (\<exists>r. answered env (ws_trace s) (ws_trace t) (tw_repo_path ticket)
           [''show-ref'', ''--verify'', ''--quiet'', ''refs/heads/'' @ tw_branch ticket] r \<and> gr_returncode r \<noteq> 0))
     (create_ticket_worktree env ticket source)" (is "ensures _ _ _ ?P _")
proof -
  have "lasting (ws_trace s) (quiet_log (tw_task_key ticket) s)"
    unfolding lasting_def using wl.trans wl.asked by (metis quiet_log_def quiet_rows_def)
  then have P: "lasting (ws_trace s) ?P"
    by (intro lasting_conj) (auto intro: seen_append answered_append)
  have PU: "?P t \<Longrightarrow> untouched env ticket s t" for t
    by (auto simp: untouched_def careful_def quiet_log_def quiet_rows_def)
  have PC: "?P t \<Longrightarrow> careful env ticket s t" for t
    using PU untouched_careful by blast
  let ?C = "\<lambda>start_point r t. untouched env ticket s t \<and>
      answered env (ws_trace s) (ws_trace t) (tw_repo_path ticket) (worktree_add_args ticket start_point) r"
  have add: "triple ?P (tw_git env (worktree_add_args ticket start_point) (tw_repo_path ticket)) (?C start_point) (careful env ticket s)" for start_point
  proof (rule tripleI)
    fix t u r
    assume t: "?P t" and run: "tw_git env (worktree_add_args ticket start_point) (tw_repo_path ticket) t = (u, r)"
    let ?add = "''git'' # worktree_add_args ticket start_point"
    have u: "u = ran ?add t" and r: "r = ge_git (wv_git env) (ws_trace t) (tw_repo_path ticket) ?add"
      using run by (auto simp: tw_git_def)
    obtain new where new: "ws_trace t = ws_trace s @ new" "list_all inquiry new" using t by (auto simp: quiet_log_def quiet_rows_def)
    have "added env ticket (ws_trace s) (ws_trace u)"
      unfolding added_def using t new by (intro exI [of _ new] exI [of _ start_point] exI [of _ "[]"]) (auto simp: u)
    then have "untouched env ticket s u"
      using t inside by (auto simp: u untouched_def careful_def quiet_log_def quiet_rows_def)
    then show "case r of Inl _ \<Rightarrow> careful env ticket s u | Inr r \<Rightarrow> ?C start_point r u"
      using new r by (auto simp: u answered_def untouched_careful split: sum.split)
  qed
  have rec: "ensures env ticket s (\<lambda>t. ?C start_point r t)
      (abind (tw_upsert env ticket base_sha) (\<lambda>_.
       abind (tw_record_event env ticket ''worktree_recorded'' TICKET_WORKTREE_CREATED source extra) (\<lambda>_.
       areturn (tw_result ticket ACTION_CREATED False x y))))" if rc: "gr_returncode r = 0" for start_point r base_sha extra x y
  proof -
    let ?F = "\<lambda>t. careful env ticket s t \<and>
        answered env (ws_trace s) (ws_trace t) (tw_repo_path ticket) (worktree_add_args ticket start_point) r"
    have F: "?F t \<Longrightarrow> quiet_rows (tw_task_key ticket) t u \<Longrightarrow> ?F u" for t u
      using careful_quiet answered_append unfolding quiet_rows_def by metis
    let ?G = "\<lambda>t. ?F t \<and> recorded env ticket (db_worktrees (ig_db (ws_db t)))"
    have ups: "triple (?C start_point r) (tw_upsert env ticket base_sha) (\<lambda>_. ?G) (careful env ticket s)"
      by (rule triple_weaken [OF upsert_triple [OF wf F]]) (auto simp: untouched_careful)
    have event: "triple ?G (tw_record_event env ticket ''worktree_recorded'' TICKET_WORKTREE_CREATED source extra) (\<lambda>_. ?G) (careful env ticket s)"
      by (rule triple_weaken [OF recorded_event_triple [OF F]]) auto
    show ?thesis
      by (rule triple_bind [OF ups], rule triple_bind [OF event], rule triple_return) (use rc in \<open>auto simp: ensured_def tw_result_def\<close>)
  qed
  have mkdir: "triple ?P (aget (\<lambda>s. wv_mkdir env (ws_trace s) p)) (\<lambda>_. ?P) (careful env ticket s)" for p
    by (rule triple_get) (use PC in auto)
  have refuse: "ensures env ticket s ?P (tw_refuse env ticket source)"
    by (rule triple_weaken [OF refuse_triple]) (use PU in auto)
  have ready: "ensures env ticket s (?C start_point r) (ready_or env ticket source)" for start_point r
    by (rule triple_weaken [OF ready_or_triple [OF wf]]) auto
  show ?thesis
    unfolding create_ticket_worktree_def Let_def
    by (rule triple_bind [OF ask_keep [OF P _ PC]], simp add: inquiry_def, assumption,
        rule triple_bind [OF ask_keep [OF P _ PC]], simp add: inquiry_def, assumption,
        rule triple_if [OF refuse], rule triple_bind [OF mkdir], rule triple_bind [OF add], rule triple_if [OF ready rec], simp)
qed

lemma branch_triple:
  assumes P: "lasting base P"
  shows "triple P (tw_branch_exists env ticket)
     (\<lambda>taken s. P s \<and> (\<not> taken \<longrightarrow> (\<exists>r. answered env base (ws_trace s) (tw_repo_path ticket)
        [''show-ref'', ''--verify'', ''--quiet'', ''refs/heads/'' @ tw_branch ticket] r \<and> gr_returncode r \<noteq> 0))) P"
  unfolding tw_branch_exists_def
  by (rule triple_bind [OF ask_triple [OF P]], simp add: inquiry_def, rule triple_return, auto)

lemma contained_cases:
  assumes "rbind (assert_not_main_repo_write env (tw_worktree_path ticket) (tw_repo_path ticket))
     (\<lambda>_. assert_worktree_inside_repo_worktrees env (tw_worktree_path ticket) (tw_repo_path ticket)) = q"
  shows "q = Inr () \<longleftrightarrow> contained env ticket"
  using assms by (auto simp: contained_iff rbind_Inr_iff)

lemma ensure_for_triple:
  assumes wf: "ticket_wf ticket"
  shows "ensures env ticket s (\<lambda>t. t = s) (ensure_for env ticket source)"
proof -
  let ?A = "quiet_log (tw_task_key ticket) s"
  have A: "lasting (ws_trace s) ?A"
    unfolding lasting_def using wl.trans wl.asked by (metis quiet_log_def quiet_rows_def)
  have start: "?A s" by (simp add: quiet_log_def)
  have U: "?A t \<Longrightarrow> untouched env ticket s t" for t
    by (auto simp: untouched_def careful_def quiet_log_def quiet_rows_def)
  have C: "?A t \<Longrightarrow> careful env ticket s t" for t using U untouched_careful by blast
  have refuse: "ensures env ticket s ?A (tw_refuse env ticket source)"
    by (rule triple_weaken [OF refuse_triple]) (use U in auto)
  let ?I = "\<lambda>i t. ?A t \<and> inspected env ticket (ws_trace s) i (ws_trace t)"
  have look: "triple ?A (inspect_ticket_worktree env ticket) ?I (careful env ticket s)"
    by (rule triple_weaken [OF inspect_triple [OF A]]) (use C in auto)
  let ?B = "\<lambda>t. ?A t \<and> seen_absent env ticket (ws_trace s) (ws_trace t)"
  have B: "lasting (ws_trace s) ?B" by (rule lasting_conj [OF A]) (rule seen_append(2))
  have absent: "ensures env ticket s ?B (abind (tw_branch_exists env ticket) (\<lambda>taken.
      if taken then ready_or env ticket source else create_ticket_worktree env ticket source))" if "contained env ticket"
    by (rule triple_bind [OF triple_weaken [OF branch_triple [OF B]]], assumption, assumption, use C in blast,
        rule triple_if, rule triple_weaken [OF ready_or_triple [OF wf]], use U in blast, assumption, assumption,
        rule triple_weaken [OF create_worktree_triple [OF wf that]]) auto
  have ready: "ensures env ticket s (?I i) (tw_existing env ticket source (Some i))" if "wi_state i = WORKTREE_READY" for i
    by (rule triple_weaken [OF existing_triple [OF wf]]) (use U that in \<open>auto simp: inspected_def\<close>)
  have "ensures env ticket s ?A (ensure_for env ticket source)"
  proof (cases "contained env ticket")
    case True
    then have ok: "rbind (assert_not_main_repo_write env (tw_worktree_path ticket) (tw_repo_path ticket))
       (\<lambda>_. assert_worktree_inside_repo_worktrees env (tw_worktree_path ticket) (tw_repo_path ticket)) = Inr ()"
      by (simp add: contained_iff)
    have "ensures env ticket s (?I i) (case wi_state i of
            WORKTREE_MISMATCH \<Rightarrow> tw_refuse env ticket source
          | WORKTREE_READY \<Rightarrow> tw_existing env ticket source (Some i)
          | WORKTREE_ABSENT \<Rightarrow>
              abind (tw_branch_exists env ticket) (\<lambda>taken.
                if taken then ready_or env ticket source else create_ticket_worktree env ticket source))" for i
      using triple_weaken [OF refuse, of "?I i"] triple_weaken [OF absent [OF True], of "?I i"] ready [of i]
      by (cases "wi_state i") (simp_all add: inspected_def)
    then show ?thesis unfolding ensure_for_def ok by (simp add: triple_bind [OF look])
  next
    case False
    obtain e where no: "rbind (assert_not_main_repo_write env (tw_worktree_path ticket) (tw_repo_path ticket))
       (\<lambda>_. assert_worktree_inside_repo_worktrees env (tw_worktree_path ticket) (tw_repo_path ticket)) = Inl e"
      using False contained_cases by (metis (full_types) old.unit.exhaust sum.exhaust)
    show ?thesis unfolding ensure_for_def no using refuse C by (auto intro: triple_if triple_raise)
  qed
  then show ?thesis by (rule triple_weaken) (use start in auto)
qed

text \<open>
  C14. Ensuring a Ticket's worktree never removes, resets or moves anything, whatever git, the file system and
  other processes do in between and however the call ends. It only asks git; a worktree is added at most
  once, at the Ticket's path inside \<open>.worktrees\<close> of its repository and on its branch, and only after git listed
  no worktree at this path, the path did not exist and git knew no such branch. In the database only
  events of this Ticket are appended and its own worktree row may change (a lease at most in the clock fields that
  the trigger on the log moves); every other table and row is as it was. The result is true: \<open>created\<close> and \<open>existing\<close> leave the row of the Ticket's
  worktree recorded, and git reported the worktree added, or registered on the branch; a refusal leaves
  every row as it was.
\<close>

theorem ensure_worktree_careful:
  assumes found: "ticket_worktree_in_connection (wv_home env) (ig_db (ws_db s)) key = Inr (Some ticket)"
    and run: "ensure_ticket_worktree env key source s = (s', r)"
  shows "careful env ticket s s' \<and> (\<forall>res. r = Inr res \<longrightarrow> ensured env ticket s res s')"
proof -
  have "ensure_for env ticket source s = (s', r)"
    using run by (simp add: ensure_ticket_worktree_def abind_def aget_def found)
  from tripleD [OF ensure_for_triple [OF ticket_found_wf [OF found]] refl this] show ?thesis by (cases r) auto
qed

section \<open>Ensuring twice\<close>

lemma outside_refused:
  assumes "\<not> contained env ticket" "ensure_for env ticket source s = (s', Inr res)"
  shows "\<not> wt_ok res"
proof -
  obtain e where no: "rbind (assert_not_main_repo_write env (tw_worktree_path ticket) (tw_repo_path ticket))
     (\<lambda>_. assert_worktree_inside_repo_worktrees env (tw_worktree_path ticket) (tw_repo_path ticket)) = Inl e"
    using assms(1) contained_cases by (metis (full_types) old.unit.exhaust sum.exhaust)
  show ?thesis
    using assms(2) unfolding ensure_for_def no
    by (auto simp: tw_refuse_def abind_def areturn_def araise_def tw_result_def wt_ok_def split: if_splits prod.splits sum.splits)
qed

lemma ticket_found_again:
  assumes "rows_only key d d'"
  shows "ticket_worktree_in_connection home (ig_db d') k = ticket_worktree_in_connection home (ig_db d) k"
  using assms by (auto simp: rows_only_def ticket_worktree_in_connection_def get_task_def)

lemma recorded_existing:
  assumes rec: "recorded env ticket (db_worktrees (ig_db (ws_db s)))" and wf: "ticket_wf ticket"
    and branch: "py_strip (tw_branch ticket) = tw_branch ticket"
  shows "\<exists>res. tw_existing env ticket source (Some i) s = (s, Inr res) \<and> wt_action res = ACTION_EXISTING \<and>
     wt_dirty res = wi_dirty i \<and> wt_head_sha res = wi_head_sha i"
proof -
  obtain w where w: "read_worktree_row env ticket s = (s, Inr (Some w))" "row_matches ticket (Some w)"
    using rec wf branch
    by (auto simp: recorded_def read_worktree_row_def aget_def ticket_wf_def get_task_worktree_def row_matches_def)
  then show ?thesis
    by (simp add: tw_existing_def record_row_if_needed_def abind_def areturn_def tw_result_def)
qed

text \<open>
  C15. Ensuring is idempotent: after a call that created or confirmed the worktree, a further call that finds
  it registered on the Ticket's branch confirms it, clean or dirty, writes nothing at all to the database
  and executes nothing but that inspection.
\<close>

theorem ensure_worktree_idempotent:
  assumes found: "ticket_worktree_in_connection (wv_home env) (ig_db (ws_db s)) key = Inr (Some ticket)"
    and branch: "py_strip (tw_branch ticket) = tw_branch ticket"
    and run: "ensure_ticket_worktree env key source s = (s1, Inr res)" "wt_ok res"
    and again: "inspect_ticket_worktree env ticket s1 = (s2, Inr i)" "wi_state i = WORKTREE_READY"
  shows "\<exists>res2. ensure_ticket_worktree env key source' s1 = (s2, Inr res2) \<and> wt_action res2 = ACTION_EXISTING \<and>
     wt_dirty res2 = wi_dirty i \<and> wt_head_sha res2 = wi_head_sha i \<and> ws_db s2 = ws_db s1"
proof -
  note wf = ticket_found_wf [OF found]
  have for_run: "ensure_for env ticket source s = (s1, Inr res)"
    using run(1) by (simp add: ensure_ticket_worktree_def abind_def aget_def found)
  have post: "careful env ticket s s1" "ensured env ticket s res s1"
    using tripleD [OF ensure_for_triple [OF wf] refl for_run] by simp_all
  have rec: "recorded env ticket (db_worktrees (ig_db (ws_db s1)))"
    using post(2) run(2) by (auto simp: ensured_def wt_ok_def split: worktree_action.splits)
  have inside: "contained env ticket" using outside_refused [OF _ for_run] run(2) by blast
  have db: "ws_db s2 = ws_db s1" using same_db.framedD [OF same_db.framed_inspect again(1)] .
  have "ticket_worktree_in_connection (wv_home env) (ig_db (ws_db s1)) key = Inr (Some ticket)"
    using ticket_found_again found post(1) by (metis careful_def)
  then have "ensure_ticket_worktree env key source' s1 = ensure_for env ticket source' s1"
    by (simp add: ensure_ticket_worktree_def abind_def aget_def)
  also have "\<dots> = tw_existing env ticket source' (Some i) s2"
    using inside again by (simp add: ensure_for_def contained_iff abind_def)
  finally show ?thesis using recorded_existing [OF rec [folded db] wf branch] db by auto
qed

section \<open>A concrete Ticket\<close>

text \<open>A repository that knows the Ticket's worktree exactly after it was added.\<close>

definition example_worktree_env :: worktree_env where
  "example_worktree_env =
     (let add_seen = (\<lambda>trace. list_ex (\<lambda>argv. take 3 argv = [''git'', ''worktree'', ''add'']) trace) in
      \<lparr>wv_git =
         \<lparr>ge_git = (\<lambda>trace _ argv.
            Inr \<lparr>gr_returncode = (if take 2 argv = [''git'', ''show-ref''] \<and> \<not> add_seen trace then 1 else 0), gr_stdout =
              (if argv = [''git'', ''rev-parse'', ''--show-toplevel''] then ''/repo''
               else if take 2 argv = [''git'', ''worktree''] then
                 (if add_seen trace then ''worktree /repo/.worktrees/AT-1'' @ [char_of (10 :: nat)] @ ''branch refs/heads/task/AT-1'' else [])
               else if take 2 argv = [''git'', ''status''] then [] else ''abc123''), gr_stderr = []\<rparr>),
          ge_marker = (\<lambda>_ _ _. Inr False), ge_text = (\<lambda>_ _ _. []), ge_resolve = (\<lambda>p. p), ge_locked = False\<rparr>,
       wv_now = 9, wv_home = (\<lambda>_. None), wv_exists = (\<lambda>trace _. Inr (add_seen trace)), wv_mkdir = (\<lambda>_ _. Inr ())\<rparr>)"

definition example_ticket_start :: work_state where
  "example_ticket_start =
     \<lparr>ws_db = example_integration_db\<lparr>ig_db := example_db [(example_ticket ''AT-1'' ''created'')\<lparr>t_worktree_path := Some ''/repo/.worktrees/AT-1''\<rparr>]\<rparr>,
      ws_steps = []\<rparr>"

definition example_tw :: ticket_worktree where
  "example_tw =
     \<lparr>tw_task_key = ''AT-1'', tw_repo_path = parse_path ''/repo'', tw_worktree_path = parse_path ''/repo/.worktrees/AT-1'',
      tw_branch = ''task/AT-1'', tw_base_branch = ''main''\<rparr>"

definition example_ensured :: "work_state \<times> worktree_result result" where
  "example_ensured = ensure_ticket_worktree example_worktree_env ''AT-1'' ''runtime'' example_ticket_start"

lemma example_ticket_found:
  "ticket_worktree_in_connection (wv_home example_worktree_env) (ig_db (ws_db example_ticket_start)) ''AT-1'' = Inr (Some example_tw)"
  by code_simp

lemma example_created:
  "snd example_ensured = Inr (tw_result example_tw ACTION_CREATED False (Some ''abc123'') (Some ''abc123''))"
  by code_simp

theorem ensure_worktree_careful_witness:
  "careful example_worktree_env example_tw example_ticket_start (fst example_ensured) \<and>
   recorded example_worktree_env example_tw (db_worktrees (ig_db (ws_db (fst example_ensured))))"
proof -
  have "ensure_ticket_worktree example_worktree_env ''AT-1'' ''runtime'' example_ticket_start =
      (fst example_ensured, Inr (tw_result example_tw ACTION_CREATED False (Some ''abc123'') (Some ''abc123'')))"
    unfolding example_created [symmetric] by (simp add: example_ensured_def)
  from ensure_worktree_careful [OF example_ticket_found this] show ?thesis
    by (simp add: ensured_def tw_result_def)
qed

theorem ensure_worktree_idempotent_witness:
  "ws_db (fst (ensure_ticket_worktree example_worktree_env ''AT-1'' ''runtime'' (fst example_ensured))) = ws_db (fst example_ensured)"
proof -
  let ?i = "inspect_ticket_worktree example_worktree_env example_tw (fst example_ensured)"
  have run: "ensure_ticket_worktree example_worktree_env ''AT-1'' ''runtime'' example_ticket_start =
      (fst example_ensured, Inr (tw_result example_tw ACTION_CREATED False (Some ''abc123'') (Some ''abc123'')))"
    unfolding example_created [symmetric] by (simp add: example_ensured_def)
  have i: "snd ?i = Inr \<lparr>wi_state = WORKTREE_READY, wi_dirty = False, wi_head_sha = Some ''abc123''\<rparr>" by code_simp
  have look: "?i = (fst ?i, Inr \<lparr>wi_state = WORKTREE_READY, wi_dirty = False, wi_head_sha = Some ''abc123''\<rparr>)"
    unfolding i [symmetric] by simp
  have b: "py_strip (tw_branch example_tw) = tw_branch example_tw" by code_simp
  have ok: "wt_ok (tw_result example_tw ACTION_CREATED False (Some ''abc123'') (Some ''abc123''))" by (simp add: wt_ok_def tw_result_def)
  show ?thesis using ensure_worktree_idempotent [OF example_ticket_found b run ok look, of "''runtime''"] by auto
qed

end
