(* ===== verification/Cleanup_Safety.thy ===== *)
theory Cleanup_Safety
  imports Worktree_Safety Integration_Cleanup
begin

text \<open>
  What a cleanup may destroy, and when a Ticket is completed: the worktree and the branch are removed only
  with confirmation, after git proved the merge (or the Ticket was cancelled and this was confirmed
  separately), and the branch only at a tip that git proved published.
\<close>

section \<open>What git told\<close>

definition told :: "git_env \<Rightarrow> string list list \<Rightarrow> string list list \<Rightarrow> path \<Rightarrow> string list \<Rightarrow> git_result \<Rightarrow> bool" where
  "told env base trace cwd parts r \<longleftrightarrow>
     (\<exists>pre post. trace = base @ pre @ (''git'' # parts) # post \<and>
        ge_git env (base @ pre) cwd (managed_argv (ge_locked env) (''git'' # parts)) = Inr r)"

lemma told_append: "told env base trace cwd parts r \<Longrightarrow> told env base (trace @ later) cwd parts r"
  unfolding told_def by (metis append.assoc append_Cons)

text \<open>Git proved that a commit is in the history of a ref.\<close>

definition proved_in :: "git_env \<Rightarrow> string list list \<Rightarrow> string list list \<Rightarrow> path \<Rightarrow> string \<Rightarrow> string \<Rightarrow> bool" where
  "proved_in env base trace cwd commit ref \<longleftrightarrow>
     py_strip commit \<noteq> [] \<and>
     (\<exists>r. told env base trace cwd [''merge-base'', ''--is-ancestor'', py_strip commit, ref] r \<and> gr_returncode r = 0)"

lemma proved_append: "proved_in env base trace cwd commit ref \<Longrightarrow> proved_in env base (trace @ later) cwd commit ref"
  unfolding proved_in_def using told_append by blast

text \<open>Commands that remove nothing.\<close>

definition harmless :: "string list \<Rightarrow> bool" where
  "harmless argv \<longleftrightarrow> inquiry argv \<or> take 2 argv = [''git'', ''fetch''] \<or> take 3 argv = [''git'', ''merge-base'', ''--is-ancestor'']"

text \<open>A condition that harmless commands keep.\<close>

definition enduring :: "string list list \<Rightarrow> (work_state \<Rightarrow> bool) \<Rightarrow> bool" where
  "enduring base P \<longleftrightarrow> (\<forall>s argv. P s \<longrightarrow> harmless argv \<longrightarrow> P (ran argv s)) \<and> (\<forall>s. P s \<longrightarrow> (\<exists>new. ws_trace s = base @ new))"

lemma enduring_lasting: "enduring base P \<Longrightarrow> lasting base P"
  by (auto simp: enduring_def lasting_def harmless_def)

lemma enduring_conj:
  assumes "enduring base P" "\<And>trace later. F trace \<Longrightarrow> F (trace @ later)"
  shows "enduring base (\<lambda>s. P s \<and> F (ws_trace s))"
  using assms by (simp add: enduring_def)

lemma run_git_triple:
  assumes P: "enduring base P" and h: "harmless (''git'' # parts)"
  shows "triple P (run_git env cwd parts check None None) (\<lambda>r t. P t \<and> told env base (ws_trace t) cwd parts r) P"
proof (rule tripleI)
  fix s s' r
  assume s: "P s" and run: "run_git env cwd parts check None None s = (s', r)"
  obtain new where new: "ws_trace s = base @ new" using P s by (auto simp: enduring_def)
  have "P (ran (''git'' # parts) s)" using P s h by (simp add: enduring_def)
  moreover have "told env base (ws_trace (ran (''git'' # parts) s)) cwd parts x"
    if "ge_git env (ws_trace s) cwd (managed_argv (ge_locked env) (''git'' # parts)) = Inr x" for x
    unfolding told_def using that by (intro exI [of _ new] exI [of _ "[]"]) (simp add: new)
  ultimately show "case r of Inl _ \<Rightarrow> P s' | Inr r \<Rightarrow> P s' \<and> told env base (ws_trace s') cwd parts r"
    using run s unfolding run_git_def Let_def by (auto split: sum.splits if_splits)
qed

lemmas plain_triple = run_git_triple [where check = False, folded git_plain_def]
lemmas checked_triple = run_git_triple [where check = True, folded git_checked_def]

lemma history_triple:
  assumes P: "enduring base P"
  shows "triple P (commit_in_history env cwd commit ref) (\<lambda>b t. P t \<and> (b \<longrightarrow> proved_in env base (ws_trace t) cwd commit ref)) P"
  unfolding commit_in_history_def
  by (rule triple_if, rule triple_return, simp, rule triple_bind [OF plain_triple [OF P]], simp add: harmless_def, rule triple_return)
     (auto simp: proved_in_def)

lemma fetch_target_triple:
  assumes P: "enduring base P"
  shows "triple P (abind (fetch env cwd remote) (\<lambda>_. resolve_target_sha env cwd remote target)) (\<lambda>_. P) P"
proof -
  have f: "triple P (fetch env cwd remote) (\<lambda>_. P) P"
    unfolding fetch_def by (rule triple_weaken [OF checked_triple [OF P]]) (auto simp: harmless_def)
  have r: "triple P (git_checked env cwd [''rev-parse'', ref]) (\<lambda>_. P) P" for ref
    by (rule triple_weaken [OF checked_triple [OF P]]) (auto simp: harmless_def inquiry_def)
  show ?thesis
    unfolding resolve_target_sha_def by (rule triple_bind [OF f], rule triple_bind [OF r], rule triple_return)
qed

lemma verify_triple:
  assumes P: "enduring base P"
  shows "triple P (verify_merge env now rq)
     (\<lambda>v t. P t \<and> (mr_verified v \<longrightarrow> mv_pr_merged rq \<and>
        proved_in env base (ws_trace t) (mv_worktree_path rq) (merge_sha_of rq) (mv_remote rq @ ''/'' @ mv_target_branch rq))) P"
  unfolding verify_merge_def Let_def
  by (rule triple_if, rule triple_return, simp, rule triple_bind [OF triple_attempt [OF fetch_target_triple [OF P]]], assumption,
      rule triple_option, rule triple_return, simp, rule triple_bind [OF history_triple [OF P]], rule triple_return)
     auto

section \<open>What a cleanup may execute\<close>

definition cleanup_ticket :: "cleanup_request \<Rightarrow> worktree_record \<Rightarrow> ticket_worktree" where
  "cleanup_ticket rq worktree =
     \<lparr>tw_task_key = cq_task_key rq, tw_repo_path = cq_repo_path rq, tw_worktree_path = wr_worktree_path worktree,
      tw_branch = wr_branch worktree,
      tw_base_branch = (case wr_base_branch worktree of None \<Rightarrow> cq_target_branch rq | Some b \<Rightarrow> if b = [] then cq_target_branch rq else b)\<rparr>"

text \<open>The recorded target is a task worktree of the repository on an unprotected branch.\<close>

definition target_safe :: "cleanup_env \<Rightarrow> cleanup_request \<Rightarrow> worktree_record \<Rightarrow> bool" where
  "target_safe env rq worktree \<longleftrightarrow>
     ge_resolve (ce_git env) (wr_repo_path worktree) = ge_resolve (ce_git env) (cq_repo_path rq) \<and>
     normalize_branch_ref (Some (wr_branch worktree)) \<notin> set PROTECTED_BRANCHES \<and>
     normalize_branch_ref (Some (wr_branch worktree)) \<noteq> normalize_branch_ref (Some (cq_target_branch rq)) \<and>
     assert_worktree_inside_repo_worktrees (ce_world env) (wr_worktree_path worktree) (cq_repo_path rq) = Inr ()"

text \<open>Git saw the worktree absent, or registered on the recorded branch and clean.\<close>

definition target_seen :: "cleanup_env \<Rightarrow> cleanup_request \<Rightarrow> worktree_record \<Rightarrow> string list list \<Rightarrow> string list list \<Rightarrow> bool" where
  "target_seen env rq worktree base trace \<longleftrightarrow>
     (let ticket = cleanup_ticket rq worktree in
      seen_absent (ce_world env) ticket base trace \<or>
      seen_ready (ce_world env) ticket base trace \<and> seen_clean (ce_world env) ticket base trace)"

definition published :: "cleanup_env \<Rightarrow> cleanup_request \<Rightarrow> worktree_record \<Rightarrow> fields \<Rightarrow> string list list \<Rightarrow> string list list \<Rightarrow> string \<Rightarrow> bool" where
  "published env rq worktree pr base trace tip \<longleftrightarrow>
     list_ex (proved_in (ce_git env) base trace (cq_repo_path rq) tip) (published_refs rq worktree pr)"

lemma target_seen_append: "target_seen env rq wt base trace \<Longrightarrow> target_seen env rq wt base (trace @ later)"
  unfolding target_seen_def Let_def using seen_append(2,3) seen_clean_append by auto

lemma published_append: "published env rq wt pr base trace tip \<Longrightarrow> published env rq wt pr base (trace @ later) tip"
  unfolding published_def list_ex_iff by (meson proved_append)

definition target_checked ::
  "cleanup_env \<Rightarrow> cleanup_request \<Rightarrow> worktree_record \<Rightarrow> fields \<Rightarrow> string list list \<Rightarrow> string option \<Rightarrow> string list list \<Rightarrow> bool" where
  "target_checked env rq worktree pr base tip trace \<longleftrightarrow>
     target_safe env rq worktree \<and> target_seen env rq worktree base trace \<and>
     (\<forall>t. tip = Some t \<longrightarrow> published env rq worktree pr base trace t)"

lemma target_checked_append:
  "target_checked env rq wt pr base tip trace \<Longrightarrow> target_checked env rq wt pr base tip (trace @ later)"
  unfolding target_checked_def using target_seen_append published_append by auto

lemma any_history_triple:
  assumes P: "enduring base P"
  shows "triple P (in_any_history env cwd tip refs) (\<lambda>b t. P t \<and> (b \<longrightarrow> list_ex (proved_in env base (ws_trace t) cwd tip) refs)) P"
proof (induction refs)
  case Nil
  then show ?case by (auto intro!: triple_return)
next
  case (Cons ref refs)
  show ?case
    unfolding in_any_history.simps
    by (rule triple_bind [OF history_triple [OF P]], rule triple_if, rule triple_return, simp, rule triple_weaken [OF Cons.IH]) auto
qed

lemma target_triple:
  assumes P: "enduring base P"
  shows "triple P (cleanup_target env rq wt pr)
     (\<lambda>res t. P t \<and> (\<forall>tip. res = Some tip \<longrightarrow> target_checked env rq wt pr base tip (ws_trace t))) P" (is "triple P _ ?Q P")
proof -
  let ?ticket = "cleanup_ticket rq wt"
  let ?S = "\<lambda>t. P t \<and> target_seen env rq wt base (ws_trace t)"
  have S: "enduring base ?S" by (rule enduring_conj [OF P]) (rule target_seen_append)
  have stop: "triple P' (areturn None) ?Q P" if "\<And>s. P' s \<Longrightarrow> P s" for P'
    by (rule triple_return) (simp add: that)
  have look: "triple P (inspect_ticket_worktree (ce_world env) ?ticket)
      (\<lambda>i t. P t \<and> (wi_state i \<noteq> WORKTREE_MISMATCH \<longrightarrow> \<not> wi_dirty i \<longrightarrow> target_seen env rq wt base (ws_trace t))) P"
    by (rule triple_weaken [OF inspect_triple [OF enduring_lasting [OF P]]])
       (use worktree_state.exhaust in \<open>auto simp: inspected_def target_seen_def Let_def\<close>)
  have tip: "triple ?S (abind (git_plain (ce_git env) (cq_repo_path rq) [''rev-parse'', ''--verify'', ''--quiet'', ''refs/heads/'' @ wr_branch wt]) (\<lambda>resolved.
     if \<not> gr_ok resolved then areturn (if b then None else Some None)
     else
       let tip = stripped_out resolved in
       abind (in_any_history (ce_git env) (cq_repo_path rq) tip (published_refs rq wt pr)) (\<lambda>published.
       areturn (if published then Some (Some tip) else None)))) ?Q P" if safe: "target_safe env rq wt" for b
  proof -
    have ask: "triple ?S (git_plain (ce_git env) (cq_repo_path rq) [''rev-parse'', ''--verify'', ''--quiet'', ''refs/heads/'' @ wr_branch wt]) (\<lambda>_. ?S) P"
      by (rule triple_weaken [OF plain_triple [OF S]]) (auto simp: harmless_def inquiry_def)
    have any: "triple ?S (in_any_history (ce_git env) (cq_repo_path rq) t (published_refs rq wt pr))
        (\<lambda>b u. ?S u \<and> (b \<longrightarrow> published env rq wt pr base (ws_trace u) t)) P" for t
      by (rule triple_weaken [OF any_history_triple [OF S]]) (auto simp: published_def)
    show ?thesis
      unfolding Let_def
      by (rule triple_bind [OF ask], rule triple_if, rule triple_return, simp add: target_checked_def safe,
          rule triple_bind [OF any], rule triple_return, auto simp: target_checked_def safe)
  qed
  show ?thesis
  proof (cases "target_safe env rq wt")
    case True
    then have c: "ge_resolve (ce_git env) (wr_repo_path wt) = ge_resolve (ce_git env) (cq_repo_path rq)"
      "normalize_branch_ref (Some (wr_branch wt)) \<notin> set PROTECTED_BRANCHES"
      "normalize_branch_ref (Some (wr_branch wt)) \<noteq> normalize_branch_ref (Some (cq_target_branch rq))"
      "assert_worktree_inside_repo_worktrees (ce_world env) (wr_worktree_path wt) (cq_repo_path rq) = Inr ()"
      by (auto simp: target_safe_def)
    show ?thesis
      unfolding cleanup_target_def Let_def cleanup_ticket_def [symmetric]
      by (simp only: c if_False simp_thms sum.case de_Morgan_disj)
         (rule triple_bind [OF look], intro triple_if stop, simp, simp, rule triple_weaken [OF tip [OF True, unfolded Let_def]], auto)
  next
    case False
    then show ?thesis
      unfolding cleanup_target_def Let_def
      by (auto simp: target_safe_def intro!: stop triple_raise triple_if split: sum.split)
  qed
qed

section \<open>The history of a cleanup\<close>

text \<open>The confirmations, and the proof of the merge where it is needed.\<close>

definition merge_proved :: "cleanup_env \<Rightarrow> cleanup_request \<Rightarrow> worktree_record \<Rightarrow> fields \<Rightarrow> string list list \<Rightarrow> string list list \<Rightarrow> bool" where
  "merge_proved env rq worktree pr base trace \<longleftrightarrow>
     json_truthy (Some (col pr ''pr_merged'')) \<and>
     (\<exists>m. col_text (col pr ''merge_commit_sha'') = Some m \<and>
        list_ex (\<lambda>cwd. proved_in (ce_git env) base trace cwd m (cq_remote rq @ ''/'' @ cq_target_branch rq))
          [wr_worktree_path worktree, cq_repo_path rq])"

definition authorised ::
  "cleanup_env \<Rightarrow> cleanup_request \<Rightarrow> task_row \<Rightarrow> worktree_record \<Rightarrow> fields \<Rightarrow> string list list \<Rightarrow> string list list \<Rightarrow> bool" where
  "authorised env rq task worktree pr base trace \<longleftrightarrow>
     cq_confirm_cleanup rq \<and> \<not> cq_delete_remote_branch rq \<and>
     (if cancelled_route task pr then cq_confirm_cancelled_cleanup rq
      else can_transition (t_status task) COMPLETED \<and> merge_proved env rq worktree pr base trace)"

text \<open>The last command read the tip of the branch.\<close>

definition just_read :: "cleanup_env \<Rightarrow> cleanup_request \<Rightarrow> worktree_record \<Rightarrow> string list list \<Rightarrow> string \<Rightarrow> bool" where
  "just_read env rq worktree trace tip \<longleftrightarrow>
     (let parts = [''rev-parse'', ''--verify'', ''--quiet'', ''refs/heads/'' @ wr_branch worktree] in
      \<exists>pre r. trace = pre @ [''git'' # parts] \<and> gr_ok r \<and> stripped_out r = tip \<and>
        ge_git (ce_git env) pre (cq_repo_path rq) (managed_argv (ge_locked (ce_git env)) (''git'' # parts)) = Inr r)"

text \<open>What may be executed after a trace.\<close>

definition legit ::
  "cleanup_env \<Rightarrow> cleanup_request \<Rightarrow> task_row \<Rightarrow> worktree_record \<Rightarrow> fields \<Rightarrow> string list list \<Rightarrow> string list list \<Rightarrow> string list \<Rightarrow> bool" where
  "legit env rq task worktree pr base trace argv \<longleftrightarrow>
     harmless argv \<or>
     authorised env rq task worktree pr base trace \<and> target_safe env rq worktree \<and> target_seen env rq worktree base trace \<and>
     (argv = [''git'', ''worktree'', ''remove'', path_str (wr_worktree_path worktree)] \<or>
      argv = [''git'', ''branch'', ''-D'', wr_branch worktree] \<and>
        (\<exists>tip. just_read env rq worktree trace tip \<and> published env rq worktree pr base trace tip))"

definition lawful ::
  "cleanup_env \<Rightarrow> cleanup_request \<Rightarrow> task_row \<Rightarrow> worktree_record \<Rightarrow> fields \<Rightarrow> work_state \<Rightarrow> work_state \<Rightarrow> bool" where
  "lawful env rq task worktree pr s t \<longleftrightarrow>
     (\<exists>new. ws_trace t = ws_trace s @ new \<and>
        (\<forall>pre argv post. new = pre @ argv # post \<longrightarrow> legit env rq task worktree pr (ws_trace s) (ws_trace s @ pre) argv))"

lemma lawful_start [simp]: "lawful env rq task wt pr s s"
  by (simp add: lawful_def)

lemma lawful_save: "lawful env rq task wt pr s t \<Longrightarrow> lawful env rq task wt pr s (save d t)"
  by (simp add: lawful_def)

lemma lawful_ran:
  assumes "lawful env rq task wt pr s t" "legit env rq task wt pr (ws_trace s) (ws_trace t) argv"
  shows "lawful env rq task wt pr s (ran argv t)"
proof -
  obtain new where new: "ws_trace t = ws_trace s @ new"
    "\<And>pre argv post. new = pre @ argv # post \<Longrightarrow> legit env rq task wt pr (ws_trace s) (ws_trace s @ pre) argv"
    using assms(1) by (auto simp: lawful_def)
  have "legit env rq task wt pr (ws_trace s) (ws_trace s @ pre) x" if eq: "new @ [argv] = pre @ x # post" for pre x post
  proof (cases post rule: rev_cases)
    case Nil
    then show ?thesis using eq assms(2) new(1) by simp
  next
    case (snoc ys y)
    then show ?thesis using eq new(2) by simp
  qed
  then show ?thesis using new(1) by (auto simp: lawful_def intro!: exI [of _ "new @ [argv]"])
qed

lemma lawful_base: "lawful env rq task wt pr s t \<Longrightarrow> \<exists>new. ws_trace t = ws_trace s @ new"
  by (auto simp: lawful_def)

lemma harmless_legit: "harmless argv \<Longrightarrow> legit env rq task wt pr base trace argv"
  by (simp add: legit_def)

lemma lawful_enduring: "enduring (ws_trace s) (lawful env rq task wt pr s)"
  unfolding enduring_def by (simp add: lawful_ran harmless_legit lawful_base)

lemma authorised_append:
  "authorised env rq task wt pr base trace \<Longrightarrow> authorised env rq task wt pr base (trace @ later)"
  unfolding authorised_def merge_proved_def by (auto simp: proved_append)

text \<open>A cleanup that may remove: lawful so far, authorised, and its target checked.\<close>

definition cleared ::
  "cleanup_env \<Rightarrow> cleanup_request \<Rightarrow> task_row \<Rightarrow> worktree_record \<Rightarrow> fields \<Rightarrow> string option \<Rightarrow> work_state \<Rightarrow> work_state \<Rightarrow> bool" where
  "cleared env rq task worktree pr tip s t \<longleftrightarrow>
     lawful env rq task worktree pr s t \<and> authorised env rq task worktree pr (ws_trace s) (ws_trace t) \<and>
     target_checked env rq worktree pr (ws_trace s) tip (ws_trace t)"

lemma cleared_ran:
  "cleared env rq task wt pr tip s t \<Longrightarrow> legit env rq task wt pr (ws_trace s) (ws_trace t) argv \<Longrightarrow> cleared env rq task wt pr tip s (ran argv t)"
  unfolding cleared_def using lawful_ran authorised_append target_checked_append by simp

lemma cleared_save: "cleared env rq task wt pr tip s t \<Longrightarrow> cleared env rq task wt pr tip s (save d t)"
  unfolding cleared_def using lawful_save by simp

lemma cleared_enduring: "enduring (ws_trace s) (cleared env rq task wt pr tip s)"
  unfolding enduring_def using lawful_base by (auto simp: cleared_ran harmless_legit) (auto simp: cleared_def)

section \<open>Removing\<close>

text \<open>The worktree is not there, and git knew no such branch or deleted it.\<close>

definition gone_branch :: "cleanup_env \<Rightarrow> cleanup_request \<Rightarrow> worktree_record \<Rightarrow> string list list \<Rightarrow> string list list \<Rightarrow> bool" where
  "gone_branch env rq worktree base trace \<longleftrightarrow>
     (\<exists>r. told (ce_git env) base trace (cq_repo_path rq) [''rev-parse'', ''--verify'', ''--quiet'', ''refs/heads/'' @ wr_branch worktree] r \<and> \<not> gr_ok r) \<or>
     (\<exists>r. told (ce_git env) base trace (cq_repo_path rq) [''branch'', ''-D'', wr_branch worktree] r \<and> gr_ok r)"

definition gone :: "cleanup_env \<Rightarrow> cleanup_request \<Rightarrow> worktree_record \<Rightarrow> string list list \<Rightarrow> string list list \<Rightarrow> bool" where
  "gone env rq worktree base trace \<longleftrightarrow>
     presence (ce_world env) base trace (wr_worktree_path worktree) False \<and> gone_branch env rq worktree base trace"

text \<open>Cleared, with the statuses of all Tickets as they were.\<close>

definition idle :: "work_state \<Rightarrow> work_state \<Rightarrow> bool" where
  "idle s t \<longleftrightarrow> status_of (ws_db t) = status_of (ws_db s)"

definition ready_to_remove ::
  "cleanup_env \<Rightarrow> cleanup_request \<Rightarrow> task_row \<Rightarrow> worktree_record \<Rightarrow> fields \<Rightarrow> string option \<Rightarrow> work_state \<Rightarrow> work_state \<Rightarrow> bool" where
  "ready_to_remove env rq task worktree pr tip s t \<longleftrightarrow> cleared env rq task worktree pr tip s t \<and> idle s t"

lemma remover_ran:
  assumes "ready_to_remove env rq task wt pr tip s t" "legit env rq task wt pr (ws_trace s) (ws_trace t) argv"
  shows "ready_to_remove env rq task wt pr tip s (ran argv t)"
  using assms cleared_ran by (simp add: ready_to_remove_def idle_def)

lemma remover_enduring: "enduring (ws_trace s) (ready_to_remove env rq task wt pr tip s)"
  unfolding enduring_def using lawful_base
  by (auto simp: remover_ran harmless_legit) (auto simp: ready_to_remove_def cleared_def)

lemma remover_lasting: "lasting (ws_trace s) (ready_to_remove env rq task wt pr tip s)"
  by (rule enduring_lasting [OF remover_enduring])

text \<open>A command that may be executed here, and what git told.\<close>

lemma legit_git_triple:
  assumes P: "\<And>t. P t \<Longrightarrow> ready_to_remove env rq task wt pr tip s t \<and> legit env rq task wt pr (ws_trace s) (ws_trace t) (''git'' # parts)"
  shows "triple P (git_plain (ce_git env) cwd parts)
     (\<lambda>r t. ready_to_remove env rq task wt pr tip s t \<and> told (ce_git env) (ws_trace s) (ws_trace t) cwd parts r)
     (ready_to_remove env rq task wt pr tip s)"
proof (rule tripleI)
  fix t u r
  assume t: "P t" and run: "git_plain (ce_git env) cwd parts t = (u, r)"
  have R: "ready_to_remove env rq task wt pr tip s t" "ready_to_remove env rq task wt pr tip s (ran (''git'' # parts) t)"
    using P [OF t] remover_ran by blast+
  obtain new where new: "ws_trace t = ws_trace s @ new" using R(1) by (auto simp: ready_to_remove_def cleared_def lawful_def)
  have "told (ce_git env) (ws_trace s) (ws_trace (ran (''git'' # parts) t)) cwd parts x"
    if "ge_git (ce_git env) (ws_trace t) cwd (managed_argv (ge_locked (ce_git env)) (''git'' # parts)) = Inr x" for x
    unfolding told_def using that by (intro exI [of _ new] exI [of _ "[]"]) (simp add: new)
  then show "case r of Inl _ \<Rightarrow> ready_to_remove env rq task wt pr tip s u
      | Inr r \<Rightarrow> ready_to_remove env rq task wt pr tip s u \<and> told (ce_git env) (ws_trace s) (ws_trace u) cwd parts r"
    using run R unfolding git_plain_def run_git_def Let_def by (auto split: sum.splits if_splits)
qed

lemma remove_triple:
  "triple (ready_to_remove env rq task wt pr tip s) (remove_worktree env rq wt)
     (\<lambda>b t. ready_to_remove env rq task wt pr tip s t \<and>
        (b \<longrightarrow> presence (ce_world env) (ws_trace s) (ws_trace t) (wr_worktree_path wt) False))
     (ready_to_remove env rq task wt pr tip s)" (is "triple ?P _ ?Q ?P")
proof -
  have look: "triple ?P (aget (\<lambda>s. wv_exists (ce_world env) (ws_trace s) p))
      (\<lambda>b t. ?P t \<and> presence (ce_world env) (ws_trace s) (ws_trace t) p b) ?P" for p
    by (rule presence_triple [OF remover_lasting])
  have rm: "triple ?P (git_plain (ce_git env) (cq_repo_path rq) [''worktree'', ''remove'', path_str (wr_worktree_path wt)]) (\<lambda>_. ?P) ?P"
    by (rule triple_weaken [OF legit_git_triple [where P = ?P]])
       (auto simp: ready_to_remove_def cleared_def legit_def target_checked_def)
  have rest: "triple ?P (abind (git_plain (ce_git env) (cq_repo_path rq) [''worktree'', ''remove'', path_str (wr_worktree_path wt)]) (\<lambda>_.
      abind (aget (\<lambda>s. wv_exists (ce_world env) (ws_trace s) (wr_worktree_path wt))) (\<lambda>still. areturn (\<not> still)))) ?Q ?P"
    by (rule triple_bind [OF rm], rule triple_bind [OF look], rule triple_return) auto
  have "triple ?P (case assert_worktree_inside_repo_worktrees (ce_world env) (wr_worktree_path wt) (cq_repo_path rq) of
       Inl e \<Rightarrow> if e = ValueError then areturn False else araise e
     | Inr _ \<Rightarrow> abind (git_plain (ce_git env) (cq_repo_path rq) [''worktree'', ''remove'', path_str (wr_worktree_path wt)]) (\<lambda>_.
      abind (aget (\<lambda>s. wv_exists (ce_world env) (ws_trace s) (wr_worktree_path wt))) (\<lambda>still. areturn (\<not> still)))) ?Q ?P"
    using rest by (auto intro: triple_return triple_raise split: sum.split)
  then show ?thesis
    unfolding remove_worktree_def Let_def
    by (intro triple_bind [OF look] triple_if triple_return) (auto intro: triple_weaken)
qed

lemma delete_triple:
  "triple (\<lambda>t. ready_to_remove env rq task wt pr tip s t \<and> presence (ce_world env) (ws_trace s) (ws_trace t) (wr_worktree_path wt) False)
     (delete_local_branch env rq wt tip)
     (\<lambda>b t. ready_to_remove env rq task wt pr tip s t \<and> (b \<longrightarrow> gone env rq wt (ws_trace s) (ws_trace t)))
     (ready_to_remove env rq task wt pr tip s)" (is "triple ?A _ ?Q ?P")
proof -
  let ?parts = "[''rev-parse'', ''--verify'', ''--quiet'', ''refs/heads/'' @ wr_branch wt]"
  let ?told = "\<lambda>r t. told (ce_git env) (ws_trace s) (ws_trace t) (cq_repo_path rq) ?parts r"
  let ?away = "\<lambda>t. presence (ce_world env) (ws_trace s) (ws_trace t) (wr_worktree_path wt) False"
  have look: "triple ?A (git_plain (ce_git env) (cq_repo_path rq) ?parts)
      (\<lambda>r t. (?A t \<and> ?told r t) \<and> (gr_ok r \<longrightarrow> just_read env rq wt (ws_trace t) (stripped_out r))) ?P"
  proof (rule tripleI)
    fix t u r
    assume t: "?A t" and run: "git_plain (ce_git env) (cq_repo_path rq) ?parts t = (u, r)"
    have "enduring (ws_trace s) ?A" by (rule enduring_conj [OF remover_enduring]) (rule presence_append)
    note told = tripleD [OF plain_triple [OF this, of ?parts] t run]
    have "r = Inr x \<Longrightarrow> gr_ok x \<Longrightarrow> just_read env rq wt (ws_trace u) (stripped_out x)" for x
      using run by (auto simp: git_plain_def run_git_def Let_def just_read_def split: sum.splits if_splits)
    then show "case r of Inl _ \<Rightarrow> ?P u
        | Inr r \<Rightarrow> (?A u \<and> ?told r u) \<and> (gr_ok r \<longrightarrow> just_read env rq wt (ws_trace u) (stripped_out r))"
      using told by (cases r) (auto simp: harmless_def inquiry_def)
  qed
  have del: "triple (\<lambda>t. (?A t \<and> ?told r t) \<and> (gr_ok r \<longrightarrow> just_read env rq wt (ws_trace t) (stripped_out r)))
      (git_plain (ce_git env) (cq_repo_path rq) [''branch'', ''-D'', wr_branch wt])
      (\<lambda>d t. ?P t \<and> (gr_ok d \<longrightarrow> gone env rq wt (ws_trace s) (ws_trace t))) ?P"
    if r: "gr_ok r" "Some (stripped_out r) = tip" for r
  proof -
    let ?B = "\<lambda>t. (?A t \<and> ?told r t) \<and> (gr_ok r \<longrightarrow> just_read env rq wt (ws_trace t) (stripped_out r))"
    have "ready_to_remove env rq task wt pr tip s t \<and> legit env rq task wt pr (ws_trace s) (ws_trace t) [''git'', ''branch'', ''-D'', wr_branch wt]"
      if "?B t" for t
      using that r by (auto simp: legit_def ready_to_remove_def cleared_def target_checked_def)
    note run = legit_git_triple [of ?B, OF this]
    show ?thesis
    proof (rule tripleI)
      fix t u x
      assume t: "?B t" and run': "git_plain (ce_git env) (cq_repo_path rq) [''branch'', ''-D'', wr_branch wt] t = (u, x)"
      have "\<exists>later. ws_trace u = ws_trace t @ later"
        using run' by (auto simp: git_plain_def run_git_def Let_def split: sum.splits if_splits)
      then have "?away u" using t presence_append by (metis (no_types, lifting))
      then show "case x of Inl _ \<Rightarrow> ?P u | Inr d \<Rightarrow> ?P u \<and> (gr_ok d \<longrightarrow> gone env rq wt (ws_trace s) (ws_trace u))"
        using tripleD [OF run t run'] by (cases x) (auto simp: gone_def gone_branch_def)
    qed
  qed
  show ?thesis
    unfolding delete_local_branch_def Let_def
    by (rule triple_if, rule triple_return, simp, rule triple_bind [OF look], rule triple_if, rule triple_return,
        force simp: gone_def gone_branch_def, rule triple_if, rule triple_return, simp, rule triple_bind [OF del], simp, simp,
        rule triple_return, simp)
qed

section \<open>Recording\<close>

text \<open>No command and no change of a status.\<close>

definition still :: "work_state \<Rightarrow> work_state \<Rightarrow> bool" where
  "still t u \<longleftrightarrow> ws_trace u = ws_trace t \<and> status_of (ws_db u) = status_of (ws_db t)"

interpretation st: frame_relation still
  by unfold_locales (auto simp: still_def)

lemma still_db:
  "(\<And>d e. f d = Inr e \<Longrightarrow> db_tasks e = db_tasks d) \<Longrightarrow> st.framed (on_db (adb f))"
  unfolding st.framed_def on_db_save adb_def
  by (auto simp: still_def status_of_def get_task_def split: sum.split)

lemma still_tables:
  "(\<And>d e x. f d = Inr (e, x) \<Longrightarrow> ig_db e = ig_db d) \<Longrightarrow> st.framed (on_db (atx f))"
  "(\<And>d e. g d = Inr e \<Longrightarrow> ig_db e = ig_db d) \<Longrightarrow> st.framed (on_db (atx_unit g))"
  unfolding st.framed_def on_db_save atx_def atx_unit_def
  by (auto simp: still_def status_of_def split: sum.split)

lemma still_calls:
  "st.framed (cleanup_event env rq ty payload)" "st.framed (cleanup_state env rq new)" "st.framed (mark_cleaned env rq wt)"
  "st.framed (on_db (atx_unit (remove_from_queue key)))"
  "st.framed (on_db (adb (record_task_artifact home now key ty p)))"
proof -
  have "record_task_event now key ty src payload d = Inr e \<Longrightarrow> db_tasks e = db_tasks d" for now key ty src payload d e
    unfolding record_task_event_def rbind_Inr_iff using insert_event_events_only [THEN events_onlyD(1)] by blast
  then show "st.framed (cleanup_event env rq ty payload)" unfolding cleanup_event_def by (rule still_db)
  have "update_integration_state now key new d = Inr (e, x) \<Longrightarrow> ig_db e = ig_db d" for now key new d e x
    by (auto simp: update_integration_state_def rbind_Inr_iff Let_def split: if_splits)
  then show "st.framed (cleanup_state env rq new)"
    unfolding cleanup_state_def by (intro st.framed_bind st.framed_return still_tables(1))
  have "upsert_task_worktree now r d = Inr e \<Longrightarrow> db_tasks e = db_tasks d" for now r d e
    by (auto simp: upsert_task_worktree_def split: if_splits)
  then show "st.framed (mark_cleaned env rq wt)" unfolding mark_cleaned_def by (intro st.framed_bind st.framed_get still_db)
  show "st.framed (on_db (atx_unit (remove_from_queue key)))"
    by (rule still_tables(2)) (auto simp: remove_from_queue_def dequeue_def rbind_Inr_iff)
  show "st.framed (on_db (adb (record_task_artifact home now key ty p)))"
    by (rule still_db) (auto simp: record_task_artifact_def rbind_Inr_iff split: if_splits)
qed

text \<open>A preview leaves no trace in the database.\<close>

lemma cleanup_finish_triple:
  assumes P: "\<And>t u. cq_confirm_cleanup rq \<Longrightarrow> P t \<Longrightarrow> still t u \<Longrightarrow> P u"
  shows "triple P (cleanup_finish env rq task route ok status v c removed) (\<lambda>_. P) P"
proof (cases "cq_confirm_cleanup rq")
  case True
  have "st.framed (cleanup_finish env rq task route ok status v c removed)"
    unfolding cleanup_finish_def Let_def
    by (auto intro!: st.framed_bind st.framed_get st.framed_return still_calls split: option.split)
  then show ?thesis by (rule st.framed_triple) (rule P [OF True])
next
  case False
  have "fst (cleanup_finish env rq task route ok status v c removed t) = t" for t
    unfolding cleanup_finish_def abind_def aget_def areturn_def Let_def using False by (auto split: option.split)
  then show ?thesis by (intro tripleI) (auto split: sum.split, (metis fst_conv)+)
qed

text \<open>What a cleanup may have done when it ends.\<close>

definition cleanup_outcome ::
  "cleanup_env \<Rightarrow> cleanup_request \<Rightarrow> task_row \<Rightarrow> worktree_record \<Rightarrow> fields \<Rightarrow> work_state \<Rightarrow> work_state \<Rightarrow> bool" where
  "cleanup_outcome env rq task worktree pr s t \<longleftrightarrow>
     lawful env rq task worktree pr s t \<and>
     (cq_confirm_cleanup rq \<or> ws_db t = ws_db s) \<and>
     (\<forall>k. status_of (ws_db t) k = status_of (ws_db s) k \<or>
        k = cq_task_key rq \<and> status_of (ws_db t) k = Some COMPLETED \<and> \<not> cancelled_route task pr \<and>
        authorised env rq task worktree pr (ws_trace s) (ws_trace t) \<and> gone env rq worktree (ws_trace s) (ws_trace t))"

lemma outcome_still:
  "cq_confirm_cleanup rq \<Longrightarrow> cleanup_outcome env rq task wt pr s t \<Longrightarrow> still t u \<Longrightarrow> cleanup_outcome env rq task wt pr s u"
  by (simp add: cleanup_outcome_def lawful_def still_def)

lemma remover_outcome: "ready_to_remove env rq task wt pr tip s t \<Longrightarrow> cleanup_outcome env rq task wt pr s t"
  by (auto simp: ready_to_remove_def cleared_def authorised_def idle_def cleanup_outcome_def)

lemma remover_still: "ready_to_remove env rq task wt pr tip s t \<Longrightarrow> still t u \<Longrightarrow> ready_to_remove env rq task wt pr tip s u"
  by (simp add: ready_to_remove_def cleared_def lawful_def idle_def still_def)

lemma completed_valid: "validate_task_status COMPLETED = Inr COMPLETED"
  by code_simp

lemma status_write:
  assumes run: "update_task_status now key COMPLETED None src None (Some expected) (ig_db d) = Inr (e, x)"
  shows "status_of (d\<lparr>ig_db := e\<rparr>) k = status_of d k \<or> k = key \<and> status_of (d\<lparr>ig_db := e\<rparr>) k = Some COMPLETED"
proof -
  obtain w where w: "validate_task_status expected = Inr w"
    using run by (auto simp: update_task_status_def completed_valid rbind_Inr_iff)
  let ?p = "\<lambda>t. t_key t = key \<and> (Some w = None \<or> Some w = Some (t_status t))"
  obtain r d1 where d1: "update_tasks_status now ?p
        (\<lambda>t. t\<lparr>t_status := COMPLETED, t_blocked_reason := r, t_updated_at := now, t_last_synced_at := Some now\<rparr>) (ig_db d) = Inr d1"
    and ev: "\<exists>pl. insert_event key ''status_changed'' src pl now d1 = Inr e"
    using run unfolding update_task_status_def Let_def completed_valid w option.case rbind_Inr_iff
      if_raise_Inr sum.inject prod.inject
    by (elim exE conjE) (hypsubst, rule that, assumption, rule exI, assumption)
  let ?f = "\<lambda>t. t\<lparr>t_status := COMPLETED, t_blocked_reason := r, t_updated_at := now, t_last_synced_at := Some now\<rparr>"
  have "db_tasks e = map_where ?p ?f (db_tasks (ig_db d))"
    using ev insert_event_events_only [THEN events_onlyD(1)] d1 by (auto simp: update_tasks_status_Inr)
  then have "get_task e k = (if k = key then map_option (\<lambda>t. if w = t_status t then ?f t else t) (get_task (ig_db d) k) else get_task (ig_db d) k)"
    unfolding get_task_def by (simp add: find_map_where_cond)
  then show ?thesis
    by (cases "k = key"; cases "get_task (ig_db d) k"; cases "w = t_status (the (get_task (ig_db d) k))") (simp_all add: status_of_def)
qed

text \<open>Removing with permission.\<close>

lemma completing_triple:
  "triple (\<lambda>t. ready_to_remove env rq task wt pr tip s t \<and> \<not> cancelled_route task pr \<and> gone env rq wt (ws_trace s) (ws_trace t))
     (complete_ticket env rq task) (\<lambda>_. cleanup_outcome env rq task wt pr s) (cleanup_outcome env rq task wt pr s)" (is "triple ?A _ _ ?Q")
proof -
  have mark: "triple ?A (on_db (adb (\<lambda>d. rbind (update_task_status (ce_now env) (cq_task_key rq) COMPLETED None CLEANUP_SOURCE None
      (Some (t_status task)) d) (\<lambda>(d', _). Inr d')))) (\<lambda>_. ?Q) ?Q"
  proof (rule triple_on_db)
    fix t d r
    assume t: "?A t" and run: "adb (\<lambda>d. rbind (update_task_status (ce_now env) (cq_task_key rq) COMPLETED None CLEANUP_SOURCE None
      (Some (t_status task)) d) (\<lambda>(d', _). Inr d')) (ws_db t) = (d, r)"
    have "status_of d k = status_of (ws_db t) k \<or> k = cq_task_key rq \<and> status_of d k = Some COMPLETED" for k
      using run status_write [where d = "ws_db t" and key = "cq_task_key rq" and k = k]
      by (auto simp: adb_def rbind_Inr_iff split: sum.splits) blast+
    then have "?Q (save d t)"
      using t unfolding cleanup_outcome_def ready_to_remove_def cleared_def idle_def
      by (simp add: lawful_save) (auto simp: authorised_def)
    then show "case r of Inl _ \<Rightarrow> ?Q (save d t) | Inr _ \<Rightarrow> ?Q (save d t)" by (cases r) auto
  qed
  have "cq_confirm_cleanup rq \<or> (\<forall>t. \<not> ?A t)" by (auto simp: ready_to_remove_def cleared_def authorised_def)
  then show ?thesis
  proof
    assume c: "cq_confirm_cleanup rq"
    show ?thesis unfolding complete_ticket_def
      by (rule triple_bind [OF mark], rule st.framed_triple [OF still_calls(4)], rule outcome_still [OF c])
  qed (auto simp: triple_def)
qed

lemma perform_triple:
  assumes c: "complete_task \<Longrightarrow> \<not> cancelled_route task pr"
  shows "triple (ready_to_remove env rq task wt pr tip s) (perform_cleanup env rq task wt route v tip complete_task)
     (\<lambda>_. cleanup_outcome env rq task wt pr s) (cleanup_outcome env rq task wt pr s)" (is "triple ?P _ _ ?Q")
proof -
  let ?away = "\<lambda>t. presence (ce_world env) (ws_trace s) (ws_trace t) (wr_worktree_path wt) False"
  let ?D = "\<lambda>b t. ?P t \<and> (b \<longrightarrow> gone env rq wt (ws_trace s) (ws_trace t))"
  have PQ: "?P t \<Longrightarrow> ?Q t" for t by (rule remover_outcome)
  have rm: "triple ?P (remove_worktree env rq wt) (\<lambda>b t. ?P t \<and> (b \<longrightarrow> ?away t)) ?Q"
    by (rule triple_weaken [OF remove_triple], assumption, assumption, rule PQ)
  have del: "triple (\<lambda>t. ?P t \<and> (b \<longrightarrow> ?away t)) (if b then delete_local_branch env rq wt tip else areturn False) ?D ?Q" for b
    by (cases b) (auto intro!: triple_return triple_weaken [OF delete_triple] intro: PQ)
  have keep: "triple (?D b) m (\<lambda>_. ?D b) ?Q" if "st.framed m" for b and m :: "unit run"
  proof (rule triple_weaken [OF st.framed_triple [OF that]])
    show "?D b t \<Longrightarrow> still t u \<Longrightarrow> ?D b u" for t u using remover_still [of env rq task wt pr tip s t u] by (auto simp: still_def)
  qed (auto simp: PQ)
  have ends: "triple (?D b) (cleanup_finish env rq task route ok status v x removed) (\<lambda>_. ?Q) ?Q"
    "triple ?Q (cleanup_finish env rq task route ok status v x removed) (\<lambda>_. ?Q) ?Q" for b ok status x removed
    by (rule triple_weaken [OF cleanup_finish_triple [where P = ?Q]], auto simp: PQ intro: outcome_still)+
  have event: "triple ?Q (cleanup_event env rq ty payload) (\<lambda>_. ?Q) ?Q" if "cq_confirm_cleanup rq" for ty payload
    by (rule st.framed_triple [OF still_calls(1)]) (rule outcome_still [OF that])
  have fin: "triple (?D b) (awhen complete_task (complete_ticket env rq task)) (\<lambda>_. ?Q) ?Q" if b for b
    using c that by (cases complete_task) (auto simp: awhen_def PQ intro: triple_return intro!: triple_weaken [OF completing_triple])
  show ?thesis
  proof (cases "cq_confirm_cleanup rq")
    case True
    show ?thesis
      unfolding perform_cleanup_def Let_def
      by (rule triple_bind [OF rm], rule triple_bind [OF del], rule triple_bind [OF keep],
          rule st.framed_when [OF still_calls(3)], rule triple_if, rule ends(1),
          rule triple_bind [OF keep [OF still_calls(2)]], rule triple_bind [OF fin], simp,
          rule triple_bind [OF event [OF True]], rule ends(2))
  next
    case False
    then have "\<not> ?P t" for t by (auto simp: ready_to_remove_def cleared_def authorised_def)
    then show ?thesis by (simp add: triple_def)
  qed
qed

section \<open>The two routes\<close>

text \<open>Nothing was written and nothing was removed yet.\<close>

definition looking :: "cleanup_env \<Rightarrow> cleanup_request \<Rightarrow> task_row \<Rightarrow> worktree_record \<Rightarrow> fields \<Rightarrow> work_state \<Rightarrow> work_state \<Rightarrow> bool" where
  "looking env rq task worktree pr s t \<longleftrightarrow> lawful env rq task worktree pr s t \<and> ws_db t = ws_db s"

lemma looking_enduring: "enduring (ws_trace s) (looking env rq task wt pr s)"
  using lawful_enduring [of s env rq task wt pr] by (auto simp: enduring_def looking_def)

lemma looking_outcome: "looking env rq task wt pr s t \<Longrightarrow> cleanup_outcome env rq task wt pr s t"
  by (simp add: looking_def cleanup_outcome_def)

lemma cleanup_stop_triple:
  assumes "\<And>t. P t \<Longrightarrow> looking env rq task wt pr s t"
  shows "triple P (cleanup_finish env rq task route ok status v c removed) (\<lambda>_. cleanup_outcome env rq task wt pr s) (cleanup_outcome env rq task wt pr s)"
  by (rule triple_weaken [OF cleanup_finish_triple [where P = "cleanup_outcome env rq task wt pr s"]])
     (use assms looking_outcome outcome_still in blast)+

lemma checked_target_triple:
  assumes F: "\<And>trace later. F trace \<Longrightarrow> F (trace @ later)"
  shows "triple (\<lambda>t. looking env rq task wt pr s t \<and> F (ws_trace t)) (cleanup_target env rq wt pr)
     (\<lambda>res t. (looking env rq task wt pr s t \<and> F (ws_trace t)) \<and>
        (\<forall>tip. res = Some tip \<longrightarrow> target_checked env rq wt pr (ws_trace s) tip (ws_trace t)))
     (cleanup_outcome env rq task wt pr s)"
  by (rule triple_weaken [OF target_triple [OF enduring_conj [where F = F, OF looking_enduring F]]]) (auto simp: looking_outcome)

lemma proved_strip: "proved_in env base trace cwd (py_strip c) ref = proved_in env base trace cwd c ref"
  by (simp add: proved_in_def)

lemma merge_provedI:
  assumes "json_truthy (Some (col pr ''pr_merged''))"
    "proved_in (ce_git env) base trace (if there then wr_worktree_path wt else cq_repo_path rq)
       (py_strip (case col_text (col pr ''merge_commit_sha'') of None \<Rightarrow> [] | Some m \<Rightarrow> m)) (cq_remote rq @ ''/'' @ cq_target_branch rq)"
  shows "merge_proved env rq wt pr base trace"
proof (cases "col_text (col pr ''merge_commit_sha'')")
  case None
  have "py_strip [] = []" by code_simp
  then show ?thesis using assms(2) None by (simp add: proved_in_def)
next
  case (Some m)
  then show ?thesis using assms by (cases there) (simp_all add: merge_proved_def proved_strip)
qed

lemma cancelled_triple:
  assumes c: "cancelled_route task pr" "\<not> cq_delete_remote_branch rq"
  shows "triple (\<lambda>t. t = s) (cleanup_cancelled env rq task wt pr) (\<lambda>_. cleanup_outcome env rq task wt pr s) (cleanup_outcome env rq task wt pr s)"
proof -
  let ?L = "\<lambda>t. looking env rq task wt pr s t \<and> True"
  have "triple ?L (cleanup_cancelled env rq task wt pr) (\<lambda>_. cleanup_outcome env rq task wt pr s) (cleanup_outcome env rq task wt pr s)"
    unfolding cleanup_cancelled_def Let_def
  proof (rule triple_if [OF cleanup_stop_triple], simp, rule triple_bind [OF checked_target_triple], simp, rule triple_option [OF cleanup_stop_triple], simp,
      rule triple_if [OF cleanup_stop_triple], simp)
    fix target and tip :: "string option"
    assume ok: "\<not> \<not> cq_confirm_cancelled_cleanup rq" "target = Some tip" "\<not> \<not> cq_confirm_cleanup rq"
    show "triple (\<lambda>t. ?L t \<and> (\<forall>tip. target = Some tip \<longrightarrow> target_checked env rq wt pr (ws_trace s) tip (ws_trace t)))
        (perform_cleanup env rq task wt ''cancelled_unmerged'' None tip False)
        (\<lambda>_. cleanup_outcome env rq task wt pr s) (cleanup_outcome env rq task wt pr s)"
      by (rule triple_weaken [OF perform_triple])
         (use c ok in \<open>auto simp: ready_to_remove_def cleared_def looking_def idle_def authorised_def\<close>)
  qed
  then show ?thesis by (rule triple_weaken) (auto simp: looking_def)
qed

lemma merged_triple:
  assumes c: "\<not> cancelled_route task pr" "\<not> cq_delete_remote_branch rq" "can_transition (t_status task) COMPLETED"
  shows "triple (\<lambda>t. t = s) (cleanup_merged env rq task wt pr) (\<lambda>_. cleanup_outcome env rq task wt pr s) (cleanup_outcome env rq task wt pr s)"
    (is "triple _ _ _ ?Q")
proof -
  let ?L = "looking env rq task wt pr s"
  let ?V = "\<lambda>v t. ?L t \<and> (mr_verified v \<longrightarrow> merge_proved env rq wt pr (ws_trace s) (ws_trace t))"
  have there: "triple ?L (aget (\<lambda>s. ce_is_dir env (ws_trace s) p)) (\<lambda>_. ?L) ?Q" for p
    by (rule triple_get) (auto simp: looking_outcome)
  have verify: "triple ?L (verify_merge (ce_git env) (ce_now env)
       \<lparr>mv_task_key = cq_task_key rq, mv_worktree_path = (if there then wr_worktree_path wt else cq_repo_path rq),
        mv_remote = cq_remote rq, mv_target_branch = cq_target_branch rq, mv_pr_merged = json_truthy (Some (col pr ''pr_merged'')),
        mv_merge_commit_sha = col_text (col pr ''merge_commit_sha'')\<rparr>) ?V ?Q" for there
    by (rule triple_weaken [OF verify_triple [OF looking_enduring]])
       (auto simp: looking_outcome merge_sha_of_def intro: merge_provedI)
  have go: "triple (\<lambda>t. (?L t \<and> merge_proved env rq wt pr (ws_trace s) (ws_trace t)) \<and>
        (\<forall>tip. target = Some tip \<longrightarrow> target_checked env rq wt pr (ws_trace s) tip (ws_trace t)))
      (abind (cleanup_state env rq new) (\<lambda>_. abind (cleanup_event env rq ty payload) (\<lambda>_.
        perform_cleanup env rq task wt route v tip True))) (\<lambda>_. ?Q) ?Q"
    if "target = Some tip" "cq_confirm_cleanup rq" for target tip new ty payload route v
  proof -
    let ?R = "ready_to_remove env rq task wt pr tip s"
    have call: "triple ?R m (\<lambda>_. ?R) ?Q" if "st.framed m" for m :: "unit run"
      by (rule triple_weaken [OF st.framed_triple [where P = ?R, OF that]], erule remover_still, assumption)
         (simp_all add: remover_outcome)
    have "triple ?R (abind (cleanup_state env rq new) (\<lambda>_. abind (cleanup_event env rq ty payload) (\<lambda>_.
        perform_cleanup env rq task wt route v tip True))) (\<lambda>_. ?Q) ?Q"
      by (rule triple_bind [OF call [OF still_calls(2)]], rule triple_bind [OF call [OF still_calls(1)]], rule perform_triple) (rule c(1))
    then show ?thesis
      by (rule triple_weaken) (use that c in \<open>auto simp: ready_to_remove_def cleared_def looking_def idle_def authorised_def\<close>)
  qed
  have target: "triple (?V v) (cleanup_target env rq wt pr) (\<lambda>res t. (?L t \<and> merge_proved env rq wt pr (ws_trace s) (ws_trace t)) \<and>
        (\<forall>tip. res = Some tip \<longrightarrow> target_checked env rq wt pr (ws_trace s) tip (ws_trace t))) ?Q" if "mr_verified v" for v
    by (rule triple_weaken [OF checked_target_triple [where F = "merge_proved env rq wt pr (ws_trace s)"]])
       (use that in \<open>auto simp: merge_proved_def proved_append\<close>)
  have "triple ?L (cleanup_merged env rq task wt pr) (\<lambda>_. ?Q) ?Q"
    unfolding cleanup_merged_def Let_def
    by (rule triple_bind [OF there], rule triple_bind [OF verify], rule triple_if [OF cleanup_stop_triple], simp,
        rule triple_bind [OF target], simp, rule triple_option [OF cleanup_stop_triple], simp, rule triple_if [OF cleanup_stop_triple], simp,
        rule go, assumption, simp)
  then show ?thesis by (rule triple_weaken) (auto simp: looking_def)
qed

lemma cleanup_triple:
  assumes task: "get_task (ig_db (ws_db s)) (cq_task_key rq) = Some task"
    and wt: "get_task_worktree (wv_home (ce_world env)) (ig_db (ws_db s)) (cq_task_key rq) = Inr (Some wt)"
    and pr: "get_pr_state (ws_db s) (cq_task_key rq) = Inr pr"
  shows "triple (\<lambda>t. t = s) (run_integration_cleanup env rq) (\<lambda>_. cleanup_outcome env rq task wt pr s) (cleanup_outcome env rq task wt pr s)"
proof -
  let ?route = "if cancelled_route task pr then ''cancelled_unmerged'' else ''verified_merge''"
  let ?body = "if cq_delete_remote_branch rq \<or> \<not> cancelled_route task pr \<and> \<not> can_transition (t_status task) COMPLETED
     then cleanup_finish env rq task ?route False ''blocked'' None False nothing_removed
     else if cancelled_route task pr then cleanup_cancelled env rq task wt pr else cleanup_merged env rq task wt pr"
  have "triple (\<lambda>t. t = s) ?body (\<lambda>_. cleanup_outcome env rq task wt pr s) (cleanup_outcome env rq task wt pr s)"
    by (intro triple_if cleanup_stop_triple cancelled_triple merged_triple) (auto simp: looking_def)
  moreover have "run_integration_cleanup env rq s = ?body s"
    by (simp add: run_integration_cleanup_def abind_def aget_def task wt pr Let_def)
  ultimately show ?thesis by (simp add: triple_def)
qed

text \<open>
  C7. A cleanup destroys nothing that is not safe, whatever git, the file system and other processes do. Every
  command it executes only asks or fetches, except two: the removal, without force, of the recorded
  worktree, and the deletion of the recorded branch. Both happen only when cleanup was confirmed and
  either git proved in this very run that the merge commit reported by GitHub is in the target's history,
  or the Ticket is cancelled, unmerged and its cleanup was confirmed separately; and only when the path is
  inside \<open>.worktrees\<close> of the repository, the branch is neither protected nor the target, and git reported the
  worktree absent, or registered on this branch and clean. The branch is deleted only when git has just
  reported a tip that it proved to be in the PR head or in the remote task branch.
\<close>

theorem cleanup_destroys_only_published:
  assumes task: "get_task (ig_db (ws_db s)) (cq_task_key rq) = Some task"
    and wt: "get_task_worktree (wv_home (ce_world env)) (ig_db (ws_db s)) (cq_task_key rq) = Inr (Some wt)"
    and pr: "get_pr_state (ws_db s) (cq_task_key rq) = Inr pr"
    and run: "run_integration_cleanup env rq s = (s', r)"
  shows "\<exists>new. ws_trace s' = ws_trace s @ new \<and>
     (\<forall>pre argv post. new = pre @ argv # post \<longrightarrow> legit env rq task wt pr (ws_trace s) (ws_trace s @ pre) argv)"
  using tripleD [OF cleanup_triple [OF task wt pr] HOL.refl run] by (cases r) (auto simp: cleanup_outcome_def lawful_def)

text \<open>
  C8. Only a verified merge completes a Ticket: the only status a cleanup may change is that of its own
  Ticket, to completed, and then cleanup was confirmed, the Ticket was not a cancelled one, the transition
  table allows it, git proved the merge, the worktree was seen to be gone, and git did not know the branch or
  deleted it. An unconfirmed cleanup writes nothing to the database.
\<close>

theorem cleanup_completes_only_merged:
  assumes task: "get_task (ig_db (ws_db s)) (cq_task_key rq) = Some task"
    and wt: "get_task_worktree (wv_home (ce_world env)) (ig_db (ws_db s)) (cq_task_key rq) = Inr (Some wt)"
    and pr: "get_pr_state (ws_db s) (cq_task_key rq) = Inr pr"
    and run: "run_integration_cleanup env rq s = (s', r)"
  shows "(\<forall>k. status_of (ws_db s') k = status_of (ws_db s) k \<or>
       k = cq_task_key rq \<and> status_of (ws_db s') k = Some COMPLETED \<and> cq_confirm_cleanup rq \<and> \<not> cancelled_route task pr \<and>
       can_transition (t_status task) COMPLETED \<and> merge_proved env rq wt pr (ws_trace s) (ws_trace s') \<and>
       gone env rq wt (ws_trace s) (ws_trace s')) \<and>
     (cq_confirm_cleanup rq \<or> ws_db s' = ws_db s)"
  using tripleD [OF cleanup_triple [OF task wt pr] HOL.refl run]
  by (cases r) (auto simp: cleanup_outcome_def authorised_def)

section \<open>A concrete cleanup\<close>

text \<open>A merged Ticket with a clean worktree that goes away when git is asked to remove it.\<close>

definition example_cleanup_env :: cleanup_env where
  "example_cleanup_env =
     (let removed = (\<lambda>trace. list_ex (\<lambda>argv. take 3 argv = [''git'', ''worktree'', ''remove'']) trace) in
      \<lparr>ce_world =
        \<lparr>wv_git =
           \<lparr>ge_git = (\<lambda>trace _ argv.
              Inr \<lparr>gr_returncode = 0, gr_stdout =
                (if argv = [''git'', ''rev-parse'', ''--show-toplevel''] then ''/repo''
                 else if take 2 argv = [''git'', ''worktree''] then
                   ''worktree /repo/.worktrees/AT-1'' @ [char_of (10 :: nat)] @ ''branch refs/heads/task/AT-1''
                 else if take 2 argv = [''git'', ''status''] then [] else ''abc123''), gr_stderr = []\<rparr>),
            ge_marker = (\<lambda>_ _ _. Inr False), ge_text = (\<lambda>_ _ _. []), ge_resolve = (\<lambda>p. p), ge_locked = False\<rparr>,
         wv_now = 9, wv_home = (\<lambda>_. None), wv_exists = (\<lambda>trace _. Inr (\<not> removed trace)), wv_mkdir = (\<lambda>_ _. Inr ())\<rparr>,
       ce_is_dir = (\<lambda>_ _. Inr True), ce_write = (\<lambda>_. Inr ()), ce_suffix = ''x''\<rparr>)"

definition example_cleanup_request :: cleanup_request where
  "example_cleanup_request =
     \<lparr>cq_task_key = ''AT-1'', cq_repo = ''o/r'', cq_repo_path = parse_path ''/repo'', cq_target_branch = ''main'', cq_remote = ''origin'',
      cq_confirm_cleanup = True, cq_confirm_cancelled_cleanup = False, cq_delete_remote_branch = False, cq_archive_evidence = True\<rparr>"

definition example_merged :: work_state where
  "example_merged =
     \<lparr>ws_db = example_integration_db\<lparr>ig_db := (ig_db example_integration_db)\<lparr>db_worktrees :=
        [\<lparr>w_task_key = ''AT-1'', w_repo_path = ''/repo'', w_worktree_path = ''/repo/.worktrees/AT-1'', w_branch = ''task/AT-1'',
          w_base_branch = Some ''main'', w_base_sha = None, w_status = ''active'', w_created_at = 1, w_cleaned_at = None\<rparr>]\<rparr>,
        ig_pr := [\<lparr>prs_task_key = ''AT-1'', pr_fields = [(''pr_merged'', JInt 1), (''merge_commit_sha'', JStr ''m1'')]\<rparr>]\<rparr>,
      ws_steps = []\<rparr>"

definition example_cleanup :: "work_state \<times> cleanup_result result" where
  "example_cleanup = run_integration_cleanup example_cleanup_env example_cleanup_request example_merged"

definition example_cleanup_worktree :: worktree_record where
  "example_cleanup_worktree =
     \<lparr>wr_task_key = ''AT-1'', wr_repo_path = parse_path ''/repo'', wr_worktree_path = parse_path ''/repo/.worktrees/AT-1'',
      wr_branch = ''task/AT-1'', wr_status = ''active'', wr_base_branch = Some ''main'', wr_base_sha = None, wr_created_at = Some 1,
      wr_cleaned_at = None\<rparr>"

abbreviation example_pr :: fields where
  "example_pr \<equiv> pr_state_at (ws_db example_merged) ''AT-1''"

lemma example_cleanup_hyps:
  "get_task (ig_db (ws_db example_merged)) (cq_task_key example_cleanup_request) = Some (example_ticket ''AT-1'' ''ready_for_integration'')"
  "get_task_worktree (wv_home (ce_world example_cleanup_env)) (ig_db (ws_db example_merged)) (cq_task_key example_cleanup_request) =
     Inr (Some example_cleanup_worktree)"
  "get_pr_state (ws_db example_merged) (cq_task_key example_cleanup_request) = Inr example_pr"
  "run_integration_cleanup example_cleanup_env example_cleanup_request example_merged = (fst example_cleanup, snd example_cleanup)"
proof -
  show "run_integration_cleanup example_cleanup_env example_cleanup_request example_merged = (fst example_cleanup, snd example_cleanup)"
    by (simp add: example_cleanup_def)
qed code_simp+

lemma example_cleanup_trace:
  "ws_trace example_merged = []" "drop 11 (ws_trace (fst example_cleanup)) = [[''git'', ''branch'', ''-D'', ''task/AT-1'']]"
  "status_of (ws_db (fst example_cleanup)) ''AT-1'' \<noteq> status_of (ws_db example_merged) ''AT-1''"
  by code_simp+

theorem cleanup_destroys_only_published_witness:
  "legit example_cleanup_env example_cleanup_request (example_ticket ''AT-1'' ''ready_for_integration'') example_cleanup_worktree example_pr
     [] (take 11 (ws_trace (fst example_cleanup))) [''git'', ''branch'', ''-D'', ''task/AT-1'']"
proof -
  have "ws_trace (fst example_cleanup) = take 11 (ws_trace (fst example_cleanup)) @ [''git'', ''branch'', ''-D'', ''task/AT-1''] # []"
    using append_take_drop_id [of 11 "ws_trace (fst example_cleanup)"] by (simp only: example_cleanup_trace(2))
  then show ?thesis
    using cleanup_destroys_only_published [OF example_cleanup_hyps] unfolding example_cleanup_trace(1) append_Nil by blast
qed

theorem cleanup_completes_only_merged_witness:
  "status_of (ws_db (fst example_cleanup)) ''AT-1'' = Some COMPLETED \<and>
   merge_proved example_cleanup_env example_cleanup_request example_cleanup_worktree example_pr [] (ws_trace (fst example_cleanup)) \<and>
   gone example_cleanup_env example_cleanup_request example_cleanup_worktree [] (ws_trace (fst example_cleanup))"
  using cleanup_completes_only_merged [OF example_cleanup_hyps] example_cleanup_trace(3) unfolding example_cleanup_trace(1) by blast

end
