(* ===== verification/Command_Safety.thy ===== *)
theory Command_Safety
  imports Run_Safety Run_Example
begin

text \<open>
  Which commands an integration executes, whatever git and GitHub answer: the whole of \<open>integrate_task\<close>,
  with the reconciliation of other Tickets before it.
\<close>

section \<open>Permitted commands\<close>

definition forces :: "string \<Rightarrow> bool" where
  "forces p \<longleftrightarrow> p \<in> set FORCE_FLAGS \<or> starts_with ''--force-with-lease='' p"

text \<open>A git command with an allowed subcommand; a push only of the own branch, to \<open>origin\<close>, without force.\<close>

definition git_permitted :: "string \<Rightarrow> string \<Rightarrow> string list \<Rightarrow> bool" where
  "git_permitted branch base argv \<longleftrightarrow>
     (\<exists>sub rest. argv = ''git'' # sub # rest \<and> sub \<in> set ALLOWED_SUBCOMMANDS \<and>
        (if sub = ''push''
         then rest = [''origin'', py_strip branch] \<and>
              normalize_branch_ref (Some branch) \<notin> {''main'', ''master'', ''trunk'', ''HEAD'', normalize_branch_ref (Some base)} \<and>
              \<not> starts_with ''-'' (py_strip branch) \<and> \<not> starts_with ''+'' (py_strip branch) \<and> CHR '':'' \<notin> set (py_strip branch)
         else \<not> list_ex forces rest))"

text \<open>
  The PR that a PR state names. Reading and updating concern only this PR; a PR is created only when the
  state names none.
\<close>

definition names_pr :: "fields \<Rightarrow> int \<Rightarrow> bool" where
  "names_pr pr n \<longleftrightarrow> col pr ''pr_number'' \<noteq> JNull \<and> n = as_int (col pr ''pr_number'')"

definition permitted :: "string \<Rightarrow> string \<Rightarrow> string \<Rightarrow> string \<Rightarrow> fields \<Rightarrow> string list \<Rightarrow> bool" where
  "permitted gh_bin repo branch base pr argv \<longleftrightarrow>
     git_permitted branch base argv \<or>
     (\<exists>n. names_pr pr n \<and> argv = poll_pr_argv gh_bin repo n) \<or>
     (\<exists>n fs. names_pr pr n \<and> argv = update_pr_argv gh_bin repo n fs \<and> assert_gh_api_allowed argv repo = Inr ()) \<or>
     (\<exists>draft title body. col pr ''pr_number'' = JNull \<and>
        argv = create_pr_argv gh_bin repo draft base branch title body \<and> assert_not_a_merge_command argv = Inr ())"

definition obeys :: "(string list \<Rightarrow> bool) \<Rightarrow> work_state \<Rightarrow> work_state \<Rightarrow> bool" where
  "obeys p s s' \<longleftrightarrow> (\<exists>new. ws_steps s' = ws_steps s @ new \<and> (\<forall>argv. Ran argv \<in> set new \<longrightarrow> p argv))"

lemma obeys_step:
  "p argv \<Longrightarrow> obeys p s (ran argv s)" "obeys p s (save d s)"
  by (auto simp: obeys_def)

lemma checked_permitted:
  assumes "command_check parts None None = Inr ()" "take 1 parts \<noteq> [''push'']"
  shows "git_permitted branch base (''git'' # parts)"
proof (cases parts)
  case (Cons sub rest)
  have "sub \<in> set ALLOWED_SUBCOMMANDS" "sub \<noteq> ''push''" "reject_force_flags (''git'' # sub # rest) = Inr ()"
    using assms unfolding Cons by (auto simp: command_check_def split: if_splits)
  then show ?thesis
    unfolding git_permitted_def Cons by (auto simp: reject_force_flags_def forces_def list_ex_iff split: if_splits)
qed (use assms in \<open>simp add: command_check_def\<close>)

interpretation c: run_frame "obeys (permitted gh_bin repo branch base pr)" key repo gh_bin "names_pr pr" for gh_bin repo branch base pr key
proof unfold_locales
  show "obeys (permitted gh_bin repo branch base pr) s s" for s by (simp add: obeys_def)
  show "obeys (permitted gh_bin repo branch base pr) s u"
    if "obeys (permitted gh_bin repo branch base pr) s t" "obeys (permitted gh_bin repo branch base pr) t u" for s t u
    using that by (auto simp: obeys_def)
  show "obeys (permitted gh_bin repo branch base pr) s (ran (''git'' # parts) s)"
    if "command_check parts None None = Inr ()" "take 1 parts \<noteq> [''push'']" for parts s
    by (rule obeys_step(1)) (use checked_permitted [OF that] in \<open>simp add: permitted_def\<close>)
  show "obeys (permitted gh_bin repo branch base pr) s (save d s)" for s d by (rule obeys_step)
  show "obeys (permitted gh_bin repo branch base pr) s (ran argv s)"
    if "assert_gh_api_allowed argv repo = Inr ()" "names_pr pr n" "argv = poll_pr_argv gh_bin repo n \<or> argv = update_pr_argv gh_bin repo n fs" for argv s n fs
    by (rule obeys_step(1)) (use that in \<open>auto simp: permitted_def\<close>)
qed

section \<open>The phases\<close>

lemma push_allowed: "''push'' \<in> set ALLOWED_SUBCOMMANDS"
  by code_simp

lemma main_names:
  "normalize_branch_ref (Some ''main'') = ''main''" "normalize_branch_ref (Some ''master'') = ''master''"
  "normalize_branch_ref (Some ''trunk'') = ''trunk''"
  by code_simp+

lemma push_shape:
  assumes "build_push_command remote branch (Some base) False = Inr argv"
  shows "git_permitted branch base argv" "argv = ''git'' # drop 1 argv"
proof -
  have argv: "argv = [''git'', ''push'', py_strip remote, py_strip branch]"
    and ok: "assert_push_allowed argv (Some branch) (Some base) = Inr ()"
    using assms by (auto simp: build_push_command_def Let_def rbind_Inr_iff)
  show "argv = ''git'' # drop 1 argv" by (simp add: argv)
  let ?b = "py_strip branch"
  obtain b' where pushable: "assert_task_branch_pushable (Some branch) (Some base) = Inr b'"
    and rest: "py_strip remote = ''origin''" "\<not> starts_with ''-'' ?b" "\<not> starts_with ''+'' ?b" "CHR '':'' \<notin> set ?b"
      "normalize_branch_ref (Some ?b) \<notin> set (protected_names (Some base))" "normalize_branch_ref (Some ?b) = b'"
    using ok unfolding argv assert_push_allowed_def Let_def
    by (auto simp: rbind_Inr_iff ALLOWED_PUSH_REMOTE_def split: if_splits)
  have same: "normalize_branch_ref (Some ?b) = normalize_branch_ref (Some branch)"
    by (simp add: normalize_branch_ref_def)
  have "b' \<noteq> []" using pushable by (auto simp: assert_task_branch_pushable_def Let_def split: if_splits)
  then have "normalize_branch_ref (Some branch) \<notin> {''main'', ''master'', ''trunk'', ''HEAD'', normalize_branch_ref (Some base)}"
    using rest(5,6) unfolding same
    by (cases "py_strip base = []") (auto simp: protected_names_def PROTECTED_BRANCHES_def main_names normalize_branch_ref_def [of "Some base"])
  then show "git_permitted branch base argv"
    using rest push_allowed unfolding git_permitted_def argv by simp
qed

text \<open>Every transaction is allowed here.\<close>

lemma db_framed: "c.framed g r b t pr (on_db m)"
  by (simp add: c.framed_def on_db_save obeys_step(2))

lemma store_framed:
  "c.framed g r b t pr (run_status env src k x y)" "c.framed g r b t pr (run_state env k new)"
  unfolding run_status_def run_state_def by (rule db_framed, intro db_framed c.framed_rules)

lemma push_framed: "c.framed g r branch base pr (push_branch genv cwd remote branch (Some base))"
  unfolding c.framed_def
proof
  fix s
  show "obeys (permitted g r branch base pr) s (fst (push_branch genv cwd remote branch (Some base) s))"
  proof (cases "build_push_command remote branch (Some base) False")
    case (Inl e)
    then show ?thesis by (simp add: push_branch_def abind_def aget_def c.refl)
  next
    case (Inr argv)
    note shape = push_shape [OF Inr]
    have "c.framed g r branch base pr (run_git genv cwd (drop 1 argv) False (Some branch) (Some base))"
      using shape by (auto simp: c.framed_def run_git_def Let_def c.refl permitted_def intro!: obeys_step split: sum.split)
    then have "c.framed g r branch base pr (abind (run_git genv cwd (drop 1 argv) False (Some branch) (Some base))
        (\<lambda>x. if \<not> gr_ok x then araise IntegrationGitError else areturn argv))"
      by (intro c.framed_rules)
    then show ?thesis by (simp add: push_branch_def abind_def [of "aget _"] aget_def Inr c.framed_def)
  qed
qed

lemma permitted_create:
  "\<lbrakk>assert_not_a_merge_command (create_pr_argv g r draft base branch title body) = Inr (); col pr ''pr_number'' = JNull\<rbrakk> \<Longrightarrow>
     permitted g r branch base pr (create_pr_argv g r draft base branch title body)"
  unfolding permitted_def by blast

lemma create_framed:
  assumes "col pr ''pr_number'' = JNull"
  shows "c.framed g r branch base pr (create_pr (gh_runner env) g r draft base branch title body)"
proof -
  let ?argv = "create_pr_argv g r draft base branch title body"
  have "c.framed g r branch base pr (run_gh (gh_runner env) r ?argv)"
    unfolding c.framed_def run_gh_def abind_def aget_def gh_runner_def
    using assms by (auto simp: c.refl intro!: obeys_step permitted_create split: sum.split)
  then show ?thesis unfolding create_pr_def run_checked_def by (intro c.git_rules)
qed

lemmas run_framed = c.git_rules c.framed_git_calls c.framed_emit c.framed_artifact c.framed_resolve c.framed_run_one c.framed_finish [OF HOL.refl] db_framed store_framed push_framed

lemma validators_framed: "c.framed g r b t pr (run_integration_validators env key cwd dir specs h tg diff)"
  unfolding run_integration_validators_def Let_def
  by (intro run_framed c.framed_for)

lemma stop_framed: "c.framed g r b t pr (stop_for_decision env cx su au ex)"
  unfolding stop_for_decision_def by (intro run_framed)

lemma publish_framed:
  assumes cx: "rx_request cx = req" "rx_worktree cx = wt" and pr: "rx_pr_state cx = pr" "rx_mode cx = mode_of pr"
  shows "c.framed (ie_gh_bin env) (ir_repo req) (wr_branch wt) (ir_target_branch req) pr (publish env cx target sha changed ex)"
proof -
  have "c.framed (ie_gh_bin env) (ir_repo req) (wr_branch wt) (ir_target_branch req) pr (publish_pr env cx title body sha')"
    for title body sha'
    unfolding publish_pr_def Let_def cx pr
    by (intro run_framed create_framed c.framed_update_pr) (auto simp: mode_of_def names_pr_def split: if_splits)
  then show ?thesis
    unfolding publish_def Let_def complete_def cx by (intro run_framed stop_framed)
qed

lemma phase_framed:
  assumes cx: "rx_request cx = req" "rx_worktree cx = wt" "rx_pr_state cx = pr" "rx_mode cx = mode_of pr"
  shows "c.framed (ie_gh_bin env) (ir_repo req) (wr_branch wt) (ir_target_branch req) pr (guarded_git_phase env cx)"
proof -
  have tree: "c.framed (ie_gh_bin env) (ir_repo req) (wr_branch wt) (ir_target_branch req) pr (validate_tree env cx target ex)" for target ex
    unfolding validate_tree_def Let_def by (intro run_framed stop_framed validators_framed publish_framed [OF cx])
  have conflict: "c.framed (ie_gh_bin env) (ir_repo req) (wr_branch wt) (ir_target_branch req) pr (handle_conflict env cx target behind paths)"
    for target behind paths
    unfolding handle_conflict_def Let_def by (intro run_framed stop_framed tree)
  show ?thesis
    unfolding guarded_git_phase_def git_phase_def Let_def by (intro run_framed stop_framed tree conflict)
qed

lemma framed_sum: "\<lbrakk>\<And>x. c.framed g r b t pr (f x); \<And>y. c.framed g r b t pr (h y)\<rbrakk> \<Longrightarrow> c.framed g r b t pr (case v of Inl x \<Rightarrow> f x | Inr y \<Rightarrow> h y)"
  by (cases v) simp_all

lemma under_lock_framed:
  "c.framed (ie_gh_bin env) (ir_repo req) (wr_branch wt) (ir_target_branch req) pr (integrate_under_lock env req task wt (mode_of pr) pr)"
  unfolding integrate_under_lock_def Let_def by (intro run_framed framed_sum stop_framed phase_framed) simp_all

section \<open>The reconciliation and the entry\<close>

text \<open>Before the PR state is read under the lock, no transaction writes a PR row.\<close>

definition keeps_pr :: "(string list \<Rightarrow> bool) \<Rightarrow> work_state \<Rightarrow> work_state \<Rightarrow> bool" where
  "keeps_pr p s s' \<longleftrightarrow> obeys p s s' \<and> ig_pr (ws_db s') = ig_pr (ws_db s)"

interpretation k: git_frame "keeps_pr (permitted g r b t pr)" for g r b t pr
  by unfold_locales
     (auto simp: keeps_pr_def intro: c.refl c.trans c.git_ran)

lemma keeping_db: "(\<And>d. ig_pr (fst (m d)) = ig_pr d) \<Longrightarrow> k.framed g r b t pr (on_db m)"
  by (simp add: k.framed_def on_db_save keeps_pr_def obeys_step(2))

lemma update_integration_state_pr: "update_integration_state now k new d = Inr (d', x) \<Longrightarrow> ig_pr d' = ig_pr d"
  by (auto simp: update_integration_state_def update_state_rows_def ensure_state_row_def Let_def rbind_Inr_iff split: if_splits)

lemma keeping_store:
  "k.framed g r b t pr (run_status env src key x y)" "k.framed g r b t pr (run_emit env src key ty payload)"
  "k.framed g r b t pr (run_artifact env key ty path)" "k.framed g r b t pr (run_state env key new)"
  unfolding run_status_def run_emit_def run_artifact_def run_state_def
  by (intro k.framed_rules keeping_db; auto simp: adb_def atx_def dest: update_integration_state_pr split: sum.split)+

lemmas keeping = k.git_rules k.framed_git_calls keeping_store

lemma reconcile_framed: "k.framed g r b t pr (reconcile_integrating_tickets env repo clone suffix)"
proof -
  have abort: "k.framed g r b t pr (abort_unfinished env key)" for key
    unfolding abort_unfinished_def Let_def git_or_os_def by (intro keeping)
  have one: "k.framed g r b t pr (reconcile_one env repo suffix task q con)" for task q con
    unfolding reconcile_one_def Let_def by (intro keeping abort)
  have clone: "k.framed g r b t pr (attribution_clone env task)" for task
    unfolding attribution_clone_def Let_def git_or_os_def by (intro keeping)
  have "k.framed g r b t pr (reconcile_ticket env repo clone suffix qs task)" for qs task
    unfolding reconcile_ticket_def Let_def by (intro keeping one clone)
  then show ?thesis
    unfolding reconcile_integrating_tickets_def Let_def by (intro keeping k.framed_for)
qed

lemma acquire_framed: "k.framed g r b t pr (reconcile_on_acquire env repo key clone suffix)"
  unfolding reconcile_on_acquire_def
  by (intro keeping reconcile_framed keeping_db) (simp add: clear_integration_lock_def split: option.split)

lemma triple_finally:
  assumes "triple P m (\<lambda>_. I) I" "triple I f (\<lambda>_. I) I"
  shows "triple P (afinally m f) (\<lambda>_. I) I"
proof (rule tripleI)
  fix s s' r
  assume P: "P s" and run: "afinally m f s = (s', r)"
  obtain s1 r1 s2 r2 where m: "m s = (s1, r1)" "f s1 = (s2, r2)" by (metis surj_pair)
  have "I s1" using tripleD [OF assms(1) P m(1)] by (cases r1) auto
  then have "I s2" using tripleD [OF assms(2) _ m(2)] by (cases r2) auto
  then show "case r of Inl _ \<Rightarrow> I s' | Inr _ \<Rightarrow> I s'" using run by (auto simp: afinally_def m split: sum.splits)
qed

abbreviation may :: "integration_env \<Rightarrow> integration_request \<Rightarrow> worktree_record \<Rightarrow> fields \<Rightarrow> string list \<Rightarrow> bool" where
  "may env req wt \<equiv> permitted (ie_gh_bin env) (ir_repo req) (wr_branch wt) (ir_target_branch req)"

text \<open>The state read under the lock is the one at the start.\<close>

lemma locked_obeys:
  assumes pr: "get_pr_state (ws_db s0) (ir_task_key req) = Inr pr"
  shows "triple (keeps_pr (may env req wt pr) s0) (locked_integration env suffix req key clone task wt)
     (\<lambda>_. obeys (may env req wt pr) s0) (obeys (may env req wt pr) s0)"
proof -
  let ?p = "may env req wt pr"
  let ?K = "keeps_pr ?p s0" and ?O = "obeys ?p s0"
  have weak: "?K s \<Longrightarrow> ?O s" for s by (simp add: keeps_pr_def)
  have same: "get_pr_state (ws_db s) (ir_task_key req) = Inr pr" if "?K s" for s
    using that pr by (auto simp: keeps_pr_def get_pr_state_def pr_state_at_def pr_row_of_def rbind_Inr_iff)
  have journal: "k.framed (ie_gh_bin env) (ir_repo req) (wr_branch wt) (ir_target_branch req) pr
      (on_db (\<lambda>d. (fst (acquire_integration_lock (ie_now env) key (ir_owner req) d), Inr ())))"
    by (rule keeping_db) (simp add: acquire_integration_lock_def)
  have acquired: "triple ?K (reconcile_on_acquire env (ir_repo req) key clone suffix) (\<lambda>_. ?K) ?O"
    by (rule triple_weaken [OF k.framed_triple [OF acquire_framed, of ?K]]) (use k.trans weak in blast)+
  have written: "triple ?K (on_db (\<lambda>d. (fst (acquire_integration_lock (ie_now env) key (ir_owner req) d), Inr ()))) (\<lambda>_. ?K) ?O"
    by (rule triple_weaken [OF k.framed_triple [OF journal, of ?K]]) (use k.trans weak in blast)+
  have task: "triple ?K (aget f) (\<lambda>_. ?K) ?O" for f :: "work_state \<Rightarrow> task_row result"
    by (rule triple_get) (use weak in auto)
  have reads: "triple ?K (aget (\<lambda>s. get_pr_state (ws_db s) (ir_task_key req))) (\<lambda>x s. ?K s \<and> x = pr) ?O"
    by (rule triple_get) (use weak same in auto)
  have under: "triple ?O (integrate_under_lock env req task' wt (mode_of pr) pr) (\<lambda>_. ?O) ?O" for task'
    by (rule c.framed_triple [OF under_lock_framed]) (use c.trans in blast)
  have body: "triple (\<lambda>s. ?K s \<and> x = pr)
      (case entry_guard req task' (mode_of x) x of Some r \<Rightarrow> areturn r | None \<Rightarrow> integrate_under_lock env req task' wt (mode_of x) x)
      (\<lambda>_. ?O) ?O" for x task'
  proof (cases "x = pr")
    case True
    have "triple ?K (integrate_under_lock env req task' wt (mode_of pr) pr) (\<lambda>_. ?O) ?O"
      by (rule triple_weaken [OF under]) (use weak in auto)
    then show ?thesis
      using True weak by (auto intro!: triple_option triple_return)
  qed (simp add: triple_def)
  show ?thesis
    unfolding locked_integration_def release_row_def
    by (rule triple_finally, rule triple_bind [OF acquired], rule triple_bind [OF written], rule triple_bind [OF task],
        rule triple_bind [OF reads body], rule c.framed_triple [OF db_framed]) (use c.trans in blast)
qed

lemma holding_lock_bin: "ie_gh_bin (holding_lock env) = ie_gh_bin env"
  by (simp add: holding_lock_def)

text \<open>The part of \<open>integrate_task\<close> after the Ticket and its worktree were read.\<close>

lemma entry_framed:
  assumes F: "F = (\<lambda>task worktree.
       if \<not> ie_is_dir env (wr_worktree_path worktree) then araise IntegrationControllerError
       else
     abind (aget (\<lambda>s. get_pr_state (ws_db s) (ir_task_key req))) (\<lambda>pr.
     abind (aget (\<lambda>_. case repo_from_pr_url (col_text (col pr ''pr_url'')) of
         None \<Rightarrow> Inr False | Some r \<Rightarrow> rbind (normalize_repo (ir_repo req)) (\<lambda>n. Inr (r \<noteq> n)))) (\<lambda>foreign.
       let mode = mode_of pr; confirmed = (\<not> ir_dry_run req \<and> ir_confirm_integration req) in
       if foreign then areturn (simple_result req False ''blocked'' mode (t_status task) pr False)
       else
         case (entry_guard req task mode pr, confirmed \<and> t_status task = INTEGRATING) of
           (Some r, False) \<Rightarrow> areturn r
         | _ \<Rightarrow>
             if \<not> confirmed
             then areturn (simple_result req True ''dry_run'' mode (t_status task) pr (\<not> ir_confirm_integration req))
             else
     abind (git_common_dir (unlocked_git env) (wr_worktree_path worktree)) (\<lambda>clone.
     abind (aget (\<lambda>_. normalize_repo (ir_repo req))) (\<lambda>key.
     abind (aget (\<lambda>_. ie_lock env)) (\<lambda>acquired.
       if \<not> acquired then areturn (simple_result req False ''lock_unavailable'' mode (t_status task) pr False)
       else locked_integration (holding_lock env) suffix req key clone task worktree))))))"
  shows "get_pr_state (ws_db s0) (ir_task_key req) = Inr pr \<Longrightarrow> triple (keeps_pr (may env req wt pr) s0) (F task wt)
       (\<lambda>_. obeys (may env req wt pr) s0) (obeys (may env req wt pr) s0)"
    "ir_dry_run req \<or> \<not> ir_confirm_integration req \<or> get_pr_state (ws_db s) (ir_task_key req) = Inl e \<Longrightarrow> fst (F task wt s) = s"
    "integrate_task env suffix req =
       abind (aget (\<lambda>s. case get_task (ig_db (ws_db s)) (ir_task_key req) of
           None \<Rightarrow> Inl IntegrationControllerError | Some t \<Rightarrow> Inr t)) (\<lambda>task.
       abind (aget (\<lambda>s. rbind (get_task_worktree (ie_home env) (ig_db (ws_db s)) (ir_task_key req)) (\<lambda>w.
           case w of None \<Rightarrow> Inl IntegrationControllerError | Some wr \<Rightarrow> Inr wr))) (\<lambda>worktree. F task worktree))"
proof -
  show "triple (keeps_pr (may env req wt pr) s0) (F task wt) (\<lambda>_. obeys (may env req wt pr) s0) (obeys (may env req wt pr) s0)"
    if pr: "get_pr_state (ws_db s0) (ir_task_key req) = Inr pr"
  proof -
    let ?K = "keeps_pr (may env req wt pr) s0" and ?O = "obeys (may env req wt pr) s0"
    have weak: "?K s \<Longrightarrow> ?O s" for s by (simp add: keeps_pr_def)
    have read: "triple ?K (aget f) (\<lambda>_. ?K) ?O" for f :: "work_state \<Rightarrow> 'x result"
      by (rule triple_get) (use weak in auto)
    have leave: "triple ?K (areturn r) (\<lambda>_. ?O) ?O" for r :: integration_result
      by (rule triple_return) (rule weak)
    have common: "triple ?K (git_common_dir (unlocked_git env) cwd) (\<lambda>_. ?K) ?O" for cwd
      by (rule triple_weaken [OF k.framed_triple [OF k.framed_reading(10), of ?K]]) (use k.trans weak in blast)+
    note locked = locked_obeys [OF pr, of "holding_lock env", unfolded holding_lock_bin]
    have rest: "triple ?K (abind (git_common_dir (unlocked_git env) cwd) (\<lambda>clone.
       abind (aget (\<lambda>_. normalize_repo (ir_repo req))) (\<lambda>key. abind (aget (\<lambda>_. ie_lock env)) (\<lambda>acquired.
         if \<not> acquired then areturn r else locked_integration (holding_lock env) suffix req key clone task wt)))) (\<lambda>_. ?O) ?O" for cwd r
      by (rule triple_bind [OF common], rule triple_bind [OF read], rule triple_bind [OF read], rule triple_if, rule leave, rule locked)
    show ?thesis
      unfolding F Let_def
      by (rule triple_if, rule triple_raise, erule weak, rule triple_bind [OF read], rule triple_bind [OF read],
          intro triple_if leave) (auto split: option.split bool.split intro!: triple_if leave rest)
  qed
  show "fst (F task wt s) = s"
    if "ir_dry_run req \<or> \<not> ir_confirm_integration req \<or> get_pr_state (ws_db s) (ir_task_key req) = Inl e"
    using that unfolding F
    by (auto simp: abind_def aget_def areturn_def araise_def Let_def split: sum.split option.split bool.split)
qed (unfold integrate_task_def F, rule HOL.refl)

text \<open>
  C6. The git and \<open>gh\<close> commands of an integration. With everything it does before (reconciling Tickets of the
  repository) and whatever git, GitHub, resolver and validators answer, an integration of a Ticket gives git and
  \<open>gh\<close> only these commands: git with an allowed subcommand and no force flag; a push of exactly the Ticket's own
  branch to \<open>origin\<close>, never of \<open>main\<close>, \<open>master\<close>, \<open>trunk\<close>, \<open>HEAD\<close> or the target branch under any spelling;
  reading or updating exactly the PR that the Ticket's row names at the start, in the repository of the request;
  creating a PR of the own branch against the target branch, only when the row names none. Without confirmation
  it changes nothing and executes nothing. (The commands of the validators are the request's own and are not
  steps of the trace.)
\<close>

theorem integration_commands_permitted:
  assumes wt: "get_task_worktree (ie_home env) (ig_db (ws_db s)) (ir_task_key req) = Inr (Some wt)"
    and run: "integrate_task env suffix req s = (s', r)"
  shows "(\<exists>new. ws_steps s' = ws_steps s @ new \<and>
       (\<forall>argv. Ran argv \<in> set new \<longrightarrow> permitted (ie_gh_bin env) (ir_repo req) (wr_branch wt) (ir_target_branch req)
          (pr_state_at (ws_db s) (py_strip (ir_task_key req))) argv)) \<and>
     (ir_dry_run req \<or> \<not> ir_confirm_integration req \<longrightarrow> s' = s)"
proof -
  let ?p = "may env req wt (pr_state_at (ws_db s) (py_strip (ir_task_key req)))"
  let ?get = "get_pr_state (ws_db s) (ir_task_key req)"
  obtain F where F: "\<And>task pr. ?get = Inr pr \<Longrightarrow>
       triple (keeps_pr (may env req wt pr) s) (F task wt) (\<lambda>_. obeys (may env req wt pr) s) (obeys (may env req wt pr) s)"
    "\<And>task e. ir_dry_run req \<or> \<not> ir_confirm_integration req \<or> ?get = Inl e \<Longrightarrow> fst (F task wt s) = s"
    and eq: "integrate_task env suffix req =
       abind (aget (\<lambda>s. case get_task (ig_db (ws_db s)) (ir_task_key req) of
           None \<Rightarrow> Inl IntegrationControllerError | Some t \<Rightarrow> Inr t)) (\<lambda>task.
       abind (aget (\<lambda>s. rbind (get_task_worktree (ie_home env) (ig_db (ws_db s)) (ir_task_key req)) (\<lambda>w.
           case w of None \<Rightarrow> Inl IntegrationControllerError | Some wr \<Rightarrow> Inr wr))) (\<lambda>worktree. F task worktree))"
    by (rule that [OF entry_framed(1) [OF HOL.refl] entry_framed(2) [OF HOL.refl] entry_framed(3) [OF HOL.refl]])
  have "obeys ?p s (fst (F task wt s))" for task
  proof (cases ?get)
    case (Inl e)
    then show ?thesis using F(2) c.refl by metis
  next
    case (Inr pr)
    then have "pr = pr_state_at (ws_db s) (py_strip (ir_task_key req))"
      by (auto simp: get_pr_state_def rbind_Inr_iff normalize_task_key_Inr)
    then show ?thesis using tripleD [OF F(1) [OF Inr] k.refl prod.collapse [symmetric]] by (metis sum.case_eq_if)
  qed
  moreover have "s' = s \<or> (\<exists>task. s' = fst (F task wt s))"
    using run unfolding eq abind_def aget_def by (auto simp: wt split: option.splits) (metis fst_conv)
  ultimately show ?thesis using F(2) c.refl [of _ _ _ _ _ s] unfolding obeys_def by metis
qed

definition example_entry :: work_state where
  "example_entry =
     \<lparr>ws_db = example_integration_db\<lparr>ig_db := (ig_db example_integration_db)\<lparr>db_worktrees :=
        [\<lparr>w_task_key = ''AT-1'', w_repo_path = ''/r'', w_worktree_path = ''/w'', w_branch = ''taskflow/AT-1'',
          w_base_branch = Some ''main'', w_base_sha = None, w_status = ''active'', w_created_at = 1, w_cleaned_at = None\<rparr>]\<rparr>\<rparr>,
      ws_steps = []\<rparr>"

lemma example_entry_worktree:
  "get_task_worktree (ie_home example_run_env) (ig_db (ws_db example_entry)) (ir_task_key example_request) = Inr (Some example_worktree)"
  by code_simp

lemma example_request_normal: "py_strip (ir_task_key example_request) = ''AT-1''"
  by code_simp

lemma example_entry_steps: "ws_steps example_entry = []"
  by (simp add: example_entry_def)

theorem integration_commands_permitted_witness:
  "list_all (\<lambda>x. case x of Ran argv \<Rightarrow> permitted ''gh'' ''o/r'' ''taskflow/AT-1'' ''main'' (pr_state_at (ws_db example_entry) ''AT-1'') argv | Saved _ \<Rightarrow> True)
     (ws_steps (fst (integrate_task example_run_env (\<lambda>k. k) example_request example_entry)))"
  using integration_commands_permitted [OF example_entry_worktree, of "\<lambda>k. k", OF prod.collapse [symmetric]]
  unfolding example_request_normal
  by (auto simp: list_all_iff example_run_env_def example_entry_steps example_request_def example_worktree_def split: step.split)

end
