(* ===== verification/Tick_Safety.thy ===== *)
theory Tick_Safety
  imports Integration_Tick Cleanup_Safety Command_Safety
begin

text \<open>
  The pass over a repository as a whole: what it writes without confirmation (nothing), in which order it
  visits the queue, and which entries it hands to the controller.
\<close>

section \<open>Without confirmation\<close>

text \<open>The database stays as it is.\<close>

lemma same_db_world: "(\<And>w. same_db.framed (f w)) \<Longrightarrow> same_db.framed (at_world g f)"
  by (simp add: same_db.framed_def at_world_def)

lemma same_db_split:
  "(\<And>a b. p = (a, b) \<Longrightarrow> same_db.framed (f a b)) \<Longrightarrow> same_db.framed (case p of (a, b) \<Rightarrow> f a b)"
  "(v = None \<Longrightarrow> same_db.framed m) \<Longrightarrow> (\<And>x. v = Some x \<Longrightarrow> same_db.framed (h x)) \<Longrightarrow>
     same_db.framed (case v of None \<Rightarrow> m | Some x \<Rightarrow> h x)"
  "(\<And>x. u = Inl x \<Longrightarrow> same_db.framed (g x)) \<Longrightarrow> (\<And>y. u = Inr y \<Longrightarrow> same_db.framed (k y)) \<Longrightarrow>
     same_db.framed (case u of Inl x \<Rightarrow> g x | Inr y \<Rightarrow> k y)"
  by (simp_all split: prod.split option.split sum.split)

lemmas same_db_rules = same_db.framed_rules same_db_world same_db_split same_db.framed_inspect

lemma cleanup_preview:
  assumes "\<not> cq_confirm_cleanup rq"
  shows "same_db.framed (run_integration_cleanup env rq)"
  unfolding same_db.framed_def
proof
  fix s :: work_state
  let ?task = "get_task (ig_db (ws_db s)) (cq_task_key rq)"
  let ?wt = "get_task_worktree (wv_home (ce_world env)) (ig_db (ws_db s)) (cq_task_key rq)"
  let ?pr = "get_pr_state (ws_db s) (cq_task_key rq)"
  show "ws_db (fst (run_integration_cleanup env rq s)) = ws_db s"
  proof (cases "\<exists>task wt pr. ?task = Some task \<and> ?wt = Inr (Some wt) \<and> ?pr = Inr pr")
    case True
    then obtain task wt pr where f: "?task = Some task" "?wt = Inr (Some wt)" "?pr = Inr pr" by blast
    obtain s' r where run: "run_integration_cleanup env rq s = (s', r)" by (cases "run_integration_cleanup env rq s")
    have "cleanup_outcome env rq task wt pr s s'" using tripleD [OF cleanup_triple [OF f] HOL.refl run] by (cases r) auto
    then show ?thesis using assms by (simp add: run cleanup_outcome_def)
  next
    case False
    then show ?thesis
      by (cases ?task; cases ?wt; cases ?pr; cases "projr ?wt")
         (auto simp: run_integration_cleanup_def abind_def aget_def)
  qed
qed

lemma integrate_preview:
  assumes "ir_dry_run req \<or> \<not> ir_confirm_integration req"
  shows "same_db.framed (integrate_task env suffix req)"
  using assms unfolding same_db.framed_def integrate_task_def
  by (auto simp: abind_def aget_def areturn_def araise_def Let_def split: sum.split option.split bool.split)

lemma binding_same_db: "same_db.framed (binding_error env rq key)"
  unfolding binding_error_def bound_worktree_def by (intro same_db_rules)

text \<open>A value that does not depend on the state.\<close>

lemma same_db_pure: "(\<And>x. r = Inr x \<Longrightarrow> same_db.framed (f x)) \<Longrightarrow> same_db.framed (abind (aget (\<lambda>_. r)) f)"
  by (cases r) (simp_all add: same_db.framed_def abind_def aget_def)

lemma visit_preview:
  assumes "tq_dry_run rq \<or> \<not> tq_confirm_integration rq"
  shows "same_db.framed (visit_entry env rq entry)"
proof -
  have irq: "ir_dry_run irq \<or> \<not> ir_confirm_integration irq"
    if "init_integration_request (tick_integration rq key) = Inr irq" for key irq
    using that assms by (auto simp: init_integration_request_def tick_integration_def rbind_Inr_iff split: if_splits)
  have "same_db.framed (integrate_entry env rq entry)"
    unfolding integrate_entry_def by (rule same_db_pure, intro same_db_rules integrate_preview, erule irq)
  then show ?thesis
    unfolding visit_entry_def entry_failed_def by (intro same_db_rules binding_same_db)
qed

lemma drain_preview:
  assumes "tq_dry_run rq \<or> \<not> tq_confirm_integration rq"
  shows "same_db.framed (drain_queue env rq entries)"
  by (induction entries) (auto intro!: same_db_rules visit_preview [OF assms])

lemma crash_preview: "same_db.framed (tick_crash_reconciliation env rq integrating False)"
  unfolding tick_crash_reconciliation_def by (auto intro: same_db_rules split: list.split)

lemma poll_preview:
  "\<not> tq_confirm_pr_poll rq \<Longrightarrow> same_db.framed (pr_outcomes_phase env rq)"
  "\<not> tq_confirm_freshness rq \<Longrightarrow> same_db.framed (freshness_phase env rq)"
proof -
  have lift: "(\<And>d. fst (m d) = d) \<Longrightarrow> same_db.framed (on_db m)" for m :: "'a act"
    by (simp add: same_db.framed_def on_db_save)
  show "\<not> tq_confirm_pr_poll rq \<Longrightarrow> same_db.framed (pr_outcomes_phase env rq)"
    unfolding pr_outcomes_phase_def by (intro same_db_rules lift) (simp add: ticks_dry)
  show "\<not> tq_confirm_freshness rq \<Longrightarrow> same_db.framed (freshness_phase env rq)"
    unfolding freshness_phase_def Let_def by (intro same_db_rules lift) (simp add: ticks_dry)
qed

lemma cleanup_phase_preview:
  assumes "\<not> tq_confirm_cleanup rq"
  shows "same_db.framed (tick_cleanup_phase env rq)"
proof -
  have crq: "\<not> cq_confirm_cleanup crq" if "init_cleanup_request home (tick_cleanup_request rq key) = Inr crq" for home key crq
    using that assms by (auto simp: init_cleanup_request_def tick_cleanup_request_def rbind_Inr_iff split: if_splits)
  have "same_db.framed (cleanup_candidate env rq key)" for key
    unfolding cleanup_candidate_def
    by (rule same_db.framed_catch, rule same_db_pure, intro same_db_rules cleanup_preview, erule crq) (rule same_db.framed_return)
  then show ?thesis unfolding tick_cleanup_phase_def by (intro same_db_rules same_db.framed_for)
qed

lemma phases_preview:
  assumes "\<And>name confirmed m. (name, confirmed, m) \<in> set phases \<Longrightarrow> same_db.framed m"
  shows "same_db.framed (run_phases failed phases)"
  using assms
proof (induction failed phases rule: run_phases.induct)
  case (2 failed name confirmed m phases)
  then show ?case by (auto intro!: same_db_rules)
qed (auto intro: same_db_rules)

text \<open>
  C10. Every part of the pass is governed by its own confirmation and is a preview without it: unconfirmed, the
  poll of the pull requests, the cleanup, the poll of the targets, the reconciliation and the drain leave the
  database exactly as it was, also when they raise, and so does a pass without any confirmation.
\<close>

theorem tick_writes_only_confirmed:
  "(\<not> tq_confirm_pr_poll rq \<longrightarrow> ws_db (fst (pr_outcomes_phase env rq s)) = ws_db s) \<and>
   (\<not> tq_confirm_cleanup rq \<longrightarrow> ws_db (fst (tick_cleanup_phase env rq s)) = ws_db s) \<and>
   (\<not> tq_confirm_freshness rq \<longrightarrow> ws_db (fst (freshness_phase env rq s)) = ws_db s) \<and>
   (tq_dry_run rq \<or> \<not> tq_confirm_integration rq \<longrightarrow> ws_db (fst (drain_queue env rq entries s)) = ws_db s \<and>
      (\<not> tq_confirm_pr_poll rq \<and> \<not> tq_confirm_cleanup rq \<and> \<not> tq_confirm_freshness rq \<longrightarrow>
         ws_db (fst (run_integration_tick env rq s)) = ws_db s))"
proof -
  have "same_db.framed (run_integration_tick env rq)"
    if c: "tq_dry_run rq \<or> \<not> tq_confirm_integration rq" "\<not> tq_confirm_pr_poll rq" "\<not> tq_confirm_cleanup rq" "\<not> tq_confirm_freshness rq"
  proof -
    have d: "(\<not> tq_dry_run rq \<and> tq_confirm_integration rq) = False" using c(1) by blast
    have "same_db.framed (run_consumer_phases env rq)"
      unfolding run_consumer_phases_def
      by (rule phases_preview) (use c poll_preview cleanup_phase_preview in auto)
    then show ?thesis
      unfolding run_integration_tick_def tick_drain_result_def with_consumer_phases_def d Let_def
      by (intro same_db_rules crash_preview drain_preview [OF c(1)])
  qed
  then show ?thesis
    using poll_preview cleanup_phase_preview drain_preview unfolding same_db.framed_def by blast
qed

section \<open>The order of the drain\<close>

definition stops :: "tick_outcome \<Rightarrow> string option \<Rightarrow> bool" where
  "stops out stopped \<longleftrightarrow>
     (case stopped of
        None \<Rightarrow> to_status out \<noteq> ''lock_unavailable''
      | Some r \<Rightarrow> r = ''lock_unavailable'' \<and> to_status out = ''lock_unavailable'' \<and> to_controller_called out \<or>
          r = ''integration_error'' \<and> to_status out = ''error'')"

lemma visit_triple:
  "triple (\<lambda>_. True) (visit_entry env rq entry) (\<lambda>(out, stopped) _. to_task_key out = q_task_key entry \<and> stops out stopped) (\<lambda>_. False)"
    (is "triple ?T _ ?Q ?F")
proof -
  have any: "triple ?T m (\<lambda>_. ?T) ?T" for m :: "'x run" by (rule tripleI) (simp split: sum.split)
  have failed: "triple ?T (entry_failed entry called e) ?Q E" for called e E
    unfolding entry_failed_def by (rule triple_return) (simp add: entry_outcome_def stops_def)
  have integrate: "triple ?T (integrate_entry env rq entry) ?Q ?T"
    unfolding integrate_entry_def
    by (rule triple_bind [OF any], rule triple_bind [OF any], rule triple_return) (simp add: entry_outcome_def stops_def)
  show ?thesis
    unfolding visit_entry_def
    by (rule triple_catch [where D = ?T], rule triple_bind [OF any], rule triple_if, rule triple_return, simp add: entry_outcome_def stops_def,
        rule triple_bind [OF any], rule triple_option, rule triple_catch [OF integrate failed], rule triple_return,
        simp add: entry_outcome_def stops_def, rule failed)
qed

text \<open>The outcomes follow the entries; only the last one may stop the drain.\<close>

definition in_order :: "queue_row list \<Rightarrow> tick_outcome list \<Rightarrow> string option \<Rightarrow> bool" where
  "in_order entries outcomes stopped \<longleftrightarrow>
     map to_task_key outcomes = map q_task_key (take (length outcomes) entries) \<and>
     list_all (\<lambda>x. to_status x \<noteq> ''lock_unavailable'') (butlast outcomes) \<and>
     (if stopped = None then length outcomes = length entries else outcomes \<noteq> [] \<and> stops (last outcomes) stopped)"

lemma drain_triple:
  "triple (\<lambda>_. True) (drain_queue env rq entries) (\<lambda>(outcomes, stopped) _. in_order entries outcomes stopped) (\<lambda>_. False)"
proof (induction entries)
  case Nil
  then show ?case by (auto simp: in_order_def intro: triple_return)
next
  case (Cons entry entries)
  have rest: "triple (\<lambda>_. to_task_key out = q_task_key entry \<and> stops out None)
      (abind (drain_queue env rq entries) (\<lambda>(outcomes, reason). areturn (out # outcomes, reason)))
      (\<lambda>(outcomes, stopped) _. in_order (entry # entries) outcomes stopped) (\<lambda>_. False)" for out
  proof -
    have "triple (\<lambda>_. to_task_key out = q_task_key entry \<and> stops out None) (drain_queue env rq entries)
        (\<lambda>(outcomes, stopped) _. in_order (entry # entries) (out # outcomes) stopped) (\<lambda>_. False)"
    proof (rule tripleI)
      fix s s' r
      assume "to_task_key out = q_task_key entry \<and> stops out None" "drain_queue env rq entries s = (s', r)"
      then show "case r of Inl _ \<Rightarrow> False
          | Inr x \<Rightarrow> (case x of (outcomes, stopped) \<Rightarrow> \<lambda>_. in_order (entry # entries) (out # outcomes) stopped) s'"
        using tripleD [OF Cons.IH TrueI] by (cases r) (fastforce simp: in_order_def stops_def split: if_splits)+
    qed
    then show ?thesis by (rule triple_bind) (auto intro!: triple_return)
  qed
  show ?case
    unfolding drain_queue.simps
    by (rule triple_bind [OF visit_triple], rule triple_prod, rule triple_option)
       (auto intro!: triple_weaken [OF rest] triple_return simp: in_order_def)
qed

lemma drain_result_Inr:
  assumes "tick_drain_result env rq failed integrating crash s = (s', Inr res)"
  shows "tr_queued res = (if failed then [] else queue_for_repo (ws_db s) (tq_repo rq))"
    "in_order (tr_queued res) (tr_outcomes res) (tr_stopped_reason res)"
proof -
  let ?q = "if failed then [] else queue_for_repo (ws_db s) (tq_repo rq)"
  obtain t r where d: "drain_queue env rq ?q s = (t, r)" by (cases "drain_queue env rq ?q s")
  obtain x y where r: "r = Inr (x, y)" and o: "in_order ?q x y" using tripleD [OF drain_triple TrueI d] by (cases r) auto
  have "tr_queued res = ?q \<and> tr_outcomes res = x \<and> tr_stopped_reason res = y"
    using assms unfolding tick_drain_result_def abind_def aget_def areturn_def by (simp add: d r) auto
  then show "tr_queued res = ?q" "in_order (tr_queued res) (tr_outcomes res) (tr_stopped_reason res)" using o by simp_all
qed

lemma with_phases_Inr:
  assumes "with_consumer_phases env rq phases failed res0 s = (s', Inr res)"
  shows "tr_queued res = tr_queued res0" "tr_outcomes res = tr_outcomes res0" "set phases \<subseteq> set (tr_phases res)"
    "tr_stopped_reason res = (case find (\<lambda>p. ph_detail p = Raised) phases of
       None \<Rightarrow> tr_stopped_reason res0 | Some p \<Rightarrow> Some (''phase_error:'' @ ph_name p))"
  using assms unfolding with_consumer_phases_def Let_def abind_def aget_def areturn_def by (auto split: sum.splits)

lemma run_phases_failed:
  "run_phases failed0 ps s = (t, Inr (phases, True)) \<Longrightarrow> failed0 \<or> (\<exists>p \<in> set phases. ph_detail p = Raised)"
proof (induction failed0 ps arbitrary: s phases rule: run_phases.induct)
  case (2 failed0 name confirmed m ps)
  show ?case
  proof (cases failed0)
    case False
    let ?first = "acatch (abind m (\<lambda>x. areturn (Some x))) (\<lambda>_. areturn None)"
    obtain u r where m: "?first s = (u, r)" by (cases "?first s")
    obtain v q where n: "run_phases (projr r = None) ps u = (v, q)" by (cases "run_phases (projr r = None) ps u")
    show ?thesis
      using "2.prems" "2.IH"(2) [OF False] n False
      by (cases r; cases q) (fastforce simp: abind_def m areturn_def)+
  qed simp
qed (auto simp: areturn_def)

text \<open>The state whose queue the drain works off, and whether a phase before it raised.\<close>

definition before_drain :: "tick_env \<Rightarrow> tick_request \<Rightarrow> (string \<times> json) list \<Rightarrow> work_state \<Rightarrow> work_state \<times> bool" where
  "before_drain env rq integrating s =
     (let t = fst (tick_crash_reconciliation env rq integrating (\<not> tq_dry_run rq \<and> tq_confirm_integration rq) s) in
      if \<not> tq_consumer_phases rq then (t, False)
      else case run_consumer_phases env rq t of (u, Inl _) \<Rightarrow> (u, True) | (u, Inr (_, failed)) \<Rightarrow> (u, failed))"

lemma tick_Inr:
  assumes "run_integration_tick env rq s = (s', Inr res)"
  shows "\<exists>integrating t failed. integrating_tickets env rq (ws_db s) = Inr integrating \<and> before_drain env rq integrating s = (t, failed) \<and>
     tr_queued res = (if failed then [] else queue_for_repo (ws_db t) (tq_repo rq)) \<and>
     map to_task_key (tr_outcomes res) = map q_task_key (take (length (tr_outcomes res)) (tr_queued res)) \<and>
     list_all (\<lambda>x. to_status x \<noteq> ''lock_unavailable'') (butlast (tr_outcomes res)) \<and>
     (tr_stopped_reason res = None \<longrightarrow> length (tr_outcomes res) = length (tr_queued res)) \<and>
     (failed \<longrightarrow> tr_stopped_reason res \<noteq> None \<and> (\<exists>p \<in> set (tr_phases res). ph_detail p = Raised))"
proof -
  obtain integrating where i: "integrating_tickets env rq (ws_db s) = Inr integrating"
    using assms unfolding run_integration_tick_def abind_def aget_def araise_def by (auto split: if_splits sum.splits)
  let ?crash = "tick_crash_reconciliation env rq integrating (\<not> tq_dry_run rq \<and> tq_confirm_integration rq)"
  obtain t crash where t: "?crash s = (t, Inr crash)"
    using assms unfolding run_integration_tick_def abind_def aget_def araise_def
    by (auto simp: i split: if_splits sum.splits prod.splits)
  show ?thesis
  proof (cases "tq_consumer_phases rq")
    case False
    then have "tick_drain_result env rq False integrating crash t = (s', Inr res)"
      using assms unfolding run_integration_tick_def abind_def aget_def araise_def by (auto simp: i t split: if_splits)
    from drain_result_Inr [OF this] show ?thesis using False by (auto simp: i before_drain_def t in_order_def)
  next
    case True
    obtain u r where u: "run_consumer_phases env rq t = (u, r)" by (cases "run_consumer_phases env rq t")
    obtain phases failed where r: "r = Inr (phases, failed)"
      using assms True unfolding run_integration_tick_def abind_def aget_def araise_def
      by (cases r) (auto simp: i t u split: if_splits)
    obtain v res0 where d: "tick_drain_result env rq failed integrating crash u = (v, Inr res0)"
      and w: "with_consumer_phases env rq phases failed res0 v = (s', Inr res)"
      using assms True unfolding run_integration_tick_def abind_def aget_def araise_def
      by (auto simp: i t u r split: if_splits sum.splits prod.splits)
    have raised: "\<exists>p \<in> set phases. ph_detail p = Raised" if failed
    proof -
      have "failed = True" using that by simp
      from run_phases_failed [OF u [unfolded run_consumer_phases_def r this]] show ?thesis by simp
    qed
    then have "failed \<Longrightarrow> find (\<lambda>p. ph_detail p = Raised) phases \<noteq> None" by (auto simp: find_None_iff)
    then show ?thesis
      using True drain_result_Inr [OF d] with_phases_Inr [OF w] raised
      by (auto simp: i before_drain_def t u r in_order_def split: option.splits)
  qed
qed

text \<open>
  C11. A pass visits the queue in order. The queue is the one of the state after the reconciliation and the
  phases: the entries that the pass reports are exactly the rows of its repository there, by time of arrival and
  number, or none when a phase raised, and then the pass is stopped and lists this phase. The outcomes are one for each of
  a prefix of these entries, in that order; an unavailable lock ends the drain there, so only the last outcome
  can be such a one; and a pass that was not stopped has visited every entry. However an entry ends, the drain
  itself never raises.
\<close>

theorem tick_drains_in_order:
  assumes run: "run_integration_tick env rq s = (s', Inr res)"
  shows "(\<exists>integrating t failed. integrating_tickets env rq (ws_db s) = Inr integrating \<and> before_drain env rq integrating s = (t, failed) \<and>
       mset (tr_queued res) = mset (if failed then [] else filter (\<lambda>q. q_repo q = tq_repo rq) (ig_queue (ws_db t))) \<and>
       (failed \<longrightarrow> tr_stopped_reason res \<noteq> None \<and> (\<exists>p \<in> set (tr_phases res). ph_detail p = Raised))) \<and>
     sorted (map (\<lambda>q. (q_enqueued_at q, q_id q)) (tr_queued res)) \<and>
     map to_task_key (tr_outcomes res) = map q_task_key (take (length (tr_outcomes res)) (tr_queued res)) \<and>
     list_all (\<lambda>x. to_status x \<noteq> ''lock_unavailable'') (butlast (tr_outcomes res)) \<and>
     (tr_stopped_reason res = None \<longrightarrow> length (tr_outcomes res) = length (tr_queued res)) \<and>
     is_ok (snd (drain_queue env rq entries s))"
proof -
  have queue: "mset (queue_for_repo ig repo) = mset (filter (\<lambda>q. q_repo q = repo) (ig_queue ig))"
    "sorted (map (\<lambda>q. (q_enqueued_at q, q_id q)) (queue_for_repo ig repo))" for ig repo
    by (simp_all add: queue_for_repo_def list_queue_def)
  have "is_ok (snd (drain_queue env rq entries s))"
    using tripleD [OF drain_triple [of env rq entries] TrueI prod.collapse [symmetric], of s]
    by (cases "snd (drain_queue env rq entries s)") (simp_all add: is_ok_def)
  moreover obtain integrating t failed where i: "integrating_tickets env rq (ws_db s) = Inr integrating"
      "before_drain env rq integrating s = (t, failed)"
    and q: "tr_queued res = (if failed then [] else queue_for_repo (ws_db t) (tq_repo rq))"
    and o: "map to_task_key (tr_outcomes res) = map q_task_key (take (length (tr_outcomes res)) (tr_queued res))"
      "list_all (\<lambda>x. to_status x \<noteq> ''lock_unavailable'') (butlast (tr_outcomes res))"
      "tr_stopped_reason res = None \<longrightarrow> length (tr_outcomes res) = length (tr_queued res)"
      "failed \<longrightarrow> tr_stopped_reason res \<noteq> None \<and> (\<exists>p \<in> set (tr_phases res). ph_detail p = Raised)"
    using tick_Inr [OF run] by metis
  moreover have "mset (tr_queued res) = mset (if failed then [] else filter (\<lambda>q. q_repo q = tq_repo rq) (ig_queue (ws_db t)))"
    "sorted (map (\<lambda>q. (q_enqueued_at q, q_id q)) (tr_queued res))"
    unfolding q using queue by simp_all
  ultimately show ?thesis by (intro conjI exI [of _ integrating] exI [of _ t] exI [of _ failed])
qed

section \<open>What is handed to the controller\<close>

definition entry_ticket :: "string \<Rightarrow> ticket_record \<Rightarrow> ticket_worktree" where
  "entry_ticket key ticket =
     \<lparr>tw_task_key = key, tw_repo_path = tk_repo_path ticket, tw_worktree_path = tk_worktree_path ticket,
      tw_branch = tk_branch ticket, tw_base_branch = tk_base_branch ticket\<rparr>"

lemma bound_worktree_None:
  assumes run: "bound_worktree env key ticket s = (t, Inr None)"
  shows "\<exists>w. get_task_worktree (ti_home env) (ig_db (ws_db s)) key = Inr (Some w) \<and> worktree_bound env ticket w \<and>
     contained (ti_world env) (entry_ticket key ticket) \<and>
     seen_ready (ti_world env) (entry_ticket key ticket) (ws_trace s) (ws_trace t)"
proof -
  obtain w i where w: "get_task_worktree (ti_home env) (ig_db (ws_db s)) key = Inr (Some w)" "worktree_bound env ticket w"
    and c: "assert_not_main_repo_write (ti_world env) (tk_worktree_path ticket) (tk_repo_path ticket) = Inr ()"
      "assert_worktree_inside_repo_worktrees (ti_world env) (tk_worktree_path ticket) (tk_repo_path ticket) = Inr ()"
    and i: "inspect_ticket_worktree (ti_world env) (entry_ticket key ticket) s = (t, Inr i)" "wi_state i = WORKTREE_READY"
    using run unfolding bound_worktree_def abind_def aget_def areturn_def entry_ticket_def
    by (auto split: sum.splits option.splits if_splits prod.splits)
  have "lasting (ws_trace s) (\<lambda>t. \<exists>new. ws_trace t = ws_trace s @ new)" by (auto simp: lasting_def)
  from tripleD [OF inspect_triple [OF this] _ i(1)] have "inspected (ti_world env) (entry_ticket key ticket) (ws_trace s) i (ws_trace t)"
    by simp
  then show ?thesis using w c i(2) by (auto simp: inspected_def contained_iff entry_ticket_def)
qed

lemma binding_None:
  assumes run: "binding_error env rq key s = (t, Inr None)"
  shows "\<exists>ticket policy. get_ticket (ti_home env) (ig_db (ws_db s)) key = Inr (Some ticket) \<and>
     same_repo (tk_github_repo ticket) (tq_repo rq) = Inr True \<and>
     resolve_execution_policy (ti_policy env) (tk_repository ticket) None = Inr policy \<and>
     policy_validator_specs policy = Inr (tq_validator_specs rq) \<and>
     ge_resolve (wv_git (ti_world env)) (tk_repo_path ticket) = ge_resolve (wv_git (ti_world env)) (tq_repo_path rq) \<and>
     tk_base_branch ticket = tq_target_branch rq \<and> bound_worktree env key ticket s = (t, Inr None)"
proof -
  obtain ticket where k: "get_ticket (ti_home env) (ig_db (ws_db s)) key = Inr (Some ticket)"
    using run unfolding binding_error_def abind_def aget_def areturn_def by (auto split: sum.splits option.splits)
  have same: "same_repo (tk_github_repo ticket) (tq_repo rq) = Inr True"
    using run unfolding binding_error_def abind_def aget_def areturn_def by (auto simp: k split: sum.splits if_splits)
  obtain policy where p: "policy_or_code env (tk_repository ticket) = Inr (Inr policy)"
    using run unfolding binding_error_def abind_def aget_def areturn_def by (auto simp: k same split: sum.splits if_splits)
  have r: "resolve_execution_policy (ti_policy env) (tk_repository ticket) None = Inr policy"
    using p unfolding policy_or_code_def by (auto split: sum.splits exn.splits)
  have "policy_validator_specs policy = Inr (tq_validator_specs rq) \<and>
      ge_resolve (wv_git (ti_world env)) (tk_repo_path ticket) = ge_resolve (wv_git (ti_world env)) (tq_repo_path rq) \<and> tk_base_branch ticket = tq_target_branch rq \<and>
      bound_worktree env key ticket s = (t, Inr None)"
    using run unfolding binding_error_def abind_def aget_def areturn_def by (auto simp: k same p split: sum.splits if_splits)
  then show ?thesis using k same r by blast
qed

text \<open>Everything an entry has to satisfy before it is handed to the controller.\<close>

definition entry_bound :: "tick_env \<Rightarrow> tick_request \<Rightarrow> queue_row \<Rightarrow> work_state \<Rightarrow> bool" where
  "entry_bound env rq entry s \<longleftrightarrow>
     (let key = q_task_key entry; res = ge_resolve (wv_git (ti_world env)) in
      entry \<in> set (queue_for_repo (ws_db s) (tq_repo rq)) \<and>
      (\<exists>ticket policy w name repo. get_ticket (ti_home env) (ig_db (ws_db s)) key = Inr (Some ticket) \<and>
        tk_github_repo ticket = Some name \<and> normalize_repo name = Inr repo \<and> normalize_repo (tq_repo rq) = Inr repo \<and>
        tk_base_branch ticket = tq_target_branch rq \<and> res (tk_repo_path ticket) = res (tq_repo_path rq) \<and>
        resolve_execution_policy (ti_policy env) (tk_repository ticket) None = Inr policy \<and>
        policy_validator_specs policy = Inr (tq_validator_specs rq) \<and>
        get_task_worktree (ti_home env) (ig_db (ws_db s)) key = Inr (Some w) \<and> wr_status w = ''active'' \<and>
        res (wr_repo_path w) = res (tk_repo_path ticket) \<and> res (wr_worktree_path w) = res (tk_worktree_path ticket) \<and>
        wr_branch w = tk_branch ticket \<and> wr_base_branch w = Some (tk_base_branch ticket) \<and>
        contained (ti_world env) (entry_ticket key ticket) \<and>
        seen_ready (ti_world env) (entry_ticket key ticket) (ws_trace s) (ws_trace (fst (binding_error env rq key s)))))"

lemma same_repo_True:
  "same_repo name repo = Inr True \<Longrightarrow> \<exists>n r. name = Some n \<and> normalize_repo n = Inr r \<and> normalize_repo repo = Inr r"
  by (auto simp: same_repo_def rbind_Inr_iff split: option.splits if_splits)

lemma entry_bound_None:
  assumes "entry \<in> set (queue_for_repo (ws_db s) (tq_repo rq))" and b: "binding_error env rq (q_task_key entry) s = (t, Inr None)"
  shows "entry_bound env rq entry s"
proof -
  obtain ticket policy where t: "get_ticket (ti_home env) (ig_db (ws_db s)) (q_task_key entry) = Inr (Some ticket)"
    and same: "same_repo (tk_github_repo ticket) (tq_repo rq) = Inr True"
    and p: "resolve_execution_policy (ti_policy env) (tk_repository ticket) None = Inr policy"
      "policy_validator_specs policy = Inr (tq_validator_specs rq)"
      "ge_resolve (wv_git (ti_world env)) (tk_repo_path ticket) = ge_resolve (wv_git (ti_world env)) (tq_repo_path rq)"
      "tk_base_branch ticket = tq_target_branch rq"
    and w: "bound_worktree env (q_task_key entry) ticket s = (t, Inr None)"
    using binding_None [OF b] by blast
  obtain name repo where n: "tk_github_repo ticket = Some name" "normalize_repo name = Inr repo" "normalize_repo (tq_repo rq) = Inr repo"
    using same_repo_True [OF same] by blast
  show ?thesis
    using assms(1) t n p bound_worktree_None [OF w] unfolding entry_bound_def Let_def b fst_conv worktree_bound_def by blast
qed

text \<open>The world of the controller plays no part in the binding.\<close>

lemma env_run:
  "ti_world (env\<lparr>ti_run := run\<rparr>) = ti_world env" "ti_home (env\<lparr>ti_run := run\<rparr>) = ti_home env"
  "worktree_bound (env\<lparr>ti_run := run\<rparr>) = worktree_bound env" "policy_or_code (env\<lparr>ti_run := run\<rparr>) = policy_or_code env"
  by (simp_all add: ti_home_def worktree_bound_def policy_or_code_def fun_eq_iff)

lemma binding_error_run: "binding_error (env\<lparr>ti_run := run\<rparr>) rq key = binding_error env rq key"
  unfolding binding_error_def bound_worktree_def env_run by (rule refl)

lemma visit_unbound:
  assumes "\<not> entry_bound env rq entry s"
  shows "ws_db (fst (visit_entry env rq entry s)) = ws_db s \<and>
     visit_entry (env\<lparr>ti_run := run\<rparr>) rq entry s = visit_entry env rq entry s \<and>
     (\<exists>out stopped. snd (visit_entry env rq entry s) = Inr (out, stopped) \<and> \<not> to_controller_called out \<and> to_integration out = None)"
proof (cases "find (\<lambda>q. q_task_key q = q_task_key entry) (queue_for_repo (ws_db s) (tq_repo rq)) = Some entry")
  case True
  obtain t r where b: "binding_error env rq (q_task_key entry) s = (t, r)" by (cases "binding_error env rq (q_task_key entry) s")
  have "r \<noteq> Inr None" using assms entry_bound_None b find_Some_set [OF True] by blast
  moreover have "ws_db t = ws_db s" using same_db.framedD [OF binding_same_db b] .
  ultimately show ?thesis
    by (cases r; cases "projr r")
       (auto simp: visit_entry_def acatch_def abind_def aget_def areturn_def entry_outcome_def entry_failed_def True b binding_error_run)
qed (auto simp: visit_entry_def acatch_def abind_def aget_def areturn_def entry_outcome_def)

text \<open>
  C9. A pass hands a queue entry to the controller only when the entry is bound: it is unchanged in the queue of
  its repository; the Ticket exists, names this repository, its checkout and its target branch, its execution
  policy resolves and prescribes exactly the validators of the pass, and its recorded worktree is active, is the
  one of this Ticket (checkout, path, branch and base branch), lies inside \<open>.worktrees\<close>, and was just listed by git
  on the Ticket's branch. The visit of any other entry leaves the database as it is and has the same
  course and outcome whatever the controller would do, so the controller has no part in it.
\<close>

theorem tick_integrates_only_bound:
  "(let key = q_task_key entry; res = ge_resolve (wv_git (ti_world env)) in
    entry \<in> set (queue_for_repo (ws_db s) (tq_repo rq)) \<and>
    (\<exists>ticket policy w name repo. get_ticket (ti_home env) (ig_db (ws_db s)) key = Inr (Some ticket) \<and>
        tk_github_repo ticket = Some name \<and> normalize_repo name = Inr repo \<and> normalize_repo (tq_repo rq) = Inr repo \<and>
        tk_base_branch ticket = tq_target_branch rq \<and> res (tk_repo_path ticket) = res (tq_repo_path rq) \<and>
        resolve_execution_policy (ti_policy env) (tk_repository ticket) None = Inr policy \<and>
        policy_validator_specs policy = Inr (tq_validator_specs rq) \<and>
        get_task_worktree (ti_home env) (ig_db (ws_db s)) key = Inr (Some w) \<and> wr_status w = ''active'' \<and>
        res (wr_repo_path w) = res (tk_repo_path ticket) \<and> res (wr_worktree_path w) = res (tk_worktree_path ticket) \<and>
        wr_branch w = tk_branch ticket \<and> wr_base_branch w = Some (tk_base_branch ticket) \<and>
        contained (ti_world env) (entry_ticket key ticket) \<and>
        seen_ready (ti_world env) (entry_ticket key ticket) (ws_trace s) (ws_trace (fst (binding_error env rq key s))))) \<or>
   (\<forall>run. visit_entry (env\<lparr>ti_run := run\<rparr>) rq entry s = visit_entry env rq entry s) \<and>
   ws_db (fst (visit_entry env rq entry s)) = ws_db s \<and>
   (\<exists>out stopped. snd (visit_entry env rq entry s) = Inr (out, stopped) \<and> \<not> to_controller_called out \<and> to_integration out = None)"
  using visit_unbound [of env rq entry s] unfolding entry_bound_def by blast

section \<open>A concrete pass\<close>

text \<open>A preview of a pass: one Ticket waits, its worktree is listed and its policy prescribes the validator of the pass.\<close>

definition example_tick_env :: tick_env where
  "example_tick_env =
     \<lparr>ti_world = ce_world example_cleanup_env, ti_policy = example_policy_env example_argv, ti_run = (\<lambda>_. example_run_env),
      ti_watch = (\<lambda>_. example_watcher_env), ti_clean = (\<lambda>_. example_cleanup_env), ti_suffix = (\<lambda>k. k), ti_db_is_file = True,
      ti_repo_is_dir = True\<rparr>"

definition example_tick :: tick_request where
  "example_tick =
     \<lparr>tq_repo = ''o/r'', tq_repo_path = parse_path ''/repo'',
      tq_validator_specs = [\<lparr>vs_name = ''t'', vs_command = [''x''], vs_timeout_seconds = Some 9\<rparr>], tq_target_branch = ''main'',
      tq_remote = ''origin'', tq_dry_run = True, tq_confirm_integration = False, tq_owner = ''integration_tick'', tq_consumer_phases = True,
      tq_confirm_pr_poll = False, tq_confirm_cleanup = False, tq_confirm_freshness = False\<rparr>"

definition example_waiting :: work_state where
  "example_waiting =
     example_merged\<lparr>ws_db := (ws_db example_merged)\<lparr>ig_pr := [], ig_db := (ig_db (ws_db example_merged))\<lparr>db_tasks :=
       [(example_ticket ''AT-1'' ''ready_for_integration'')\<lparr>t_worktree_path := Some ''/repo/.worktrees/AT-1'', t_github_repo := Some ''o/r'',
          t_priority := Some ''high'',
          t_artifact_dir := Some ''/a'', t_ai_title_status := Some ''generated'', t_branch_slug_source := Some ''ai''\<rparr>]\<rparr>\<rparr>\<rparr>"

definition example_pass :: "work_state \<times> tick_result result" where
  "example_pass = run_integration_tick example_tick_env example_tick example_waiting"

definition example_drained :: "work_state \<times> tick_result result" where
  "example_drained = run_integration_tick example_tick_env (example_tick\<lparr>tq_consumer_phases := False\<rparr>) example_waiting"

abbreviation example_queued :: queue_row where
  "example_queued \<equiv> hd (ig_queue example_integration_db)"

lemma example_bound:
  "snd (binding_error example_tick_env example_tick (q_task_key example_queued) example_waiting) = Inr None"
  "find (\<lambda>q. q_task_key q = q_task_key example_queued) (queue_for_repo (ws_db example_waiting) (tq_repo example_tick)) = Some example_queued"
  by code_simp+

lemma example_integrating: "integrating_tickets example_tick_env example_tick (ws_db example_waiting) = Inr []"
  by code_simp

text \<open>A bound entry always reaches the controller, and a pass without phases always returns.\<close>

lemma visit_called:
  assumes "find (\<lambda>q. q_task_key q = q_task_key entry) (queue_for_repo (ws_db s) (tq_repo rq)) = Some entry"
    and "snd (binding_error env rq (q_task_key entry) s) = Inr None"
  obtains s' out stopped where "visit_entry env rq entry s = (s', Inr (out, stopped))" "to_controller_called out"
proof -
  obtain t where b: "binding_error env rq (q_task_key entry) s = (t, Inr None)" using assms(2) by (metis prod.collapse)
  obtain t' r where i: "integrate_entry env rq entry t = (t', r)" by (cases "integrate_entry env rq entry t")
  have called: "to_controller_called (fst x)" if "r = Inr x" for x
    using i that by (auto simp: integrate_entry_def entry_outcome_def abind_def aget_def areturn_def split: sum.splits prod.splits)
  have v: "visit_entry env rq entry s =
      (t', case r of Inr x \<Rightarrow> Inr x | Inl e \<Rightarrow> Inr (entry_outcome entry True False ''error'' [] None, Some ''integration_error''))"
    by (auto simp: visit_entry_def entry_failed_def acatch_def abind_def aget_def areturn_def assms(1) b i split: sum.splits)
  show ?thesis
  proof (cases r)
    case (Inl e)
    show ?thesis by (rule that [OF v [unfolded Inl, simplified]]) (simp add: entry_outcome_def)
  next
    case (Inr x)
    show ?thesis by (rule that [of t' "fst x" "snd x"]) (simp_all add: v Inr called)
  qed
qed

lemma drain_returns:
  assumes "ti_db_is_file env" "ti_repo_is_dir env" "\<not> tq_consumer_phases rq" "integrating_tickets env rq (ws_db s) = Inr []"
  obtains s' res where "run_integration_tick env rq s = (s', Inr res)" "tr_queued res = queue_for_repo (ws_db s) (tq_repo rq)"
proof -
  obtain t r where d: "drain_queue env rq (queue_for_repo (ws_db s) (tq_repo rq)) s = (t, r)"
    by (cases "drain_queue env rq (queue_for_repo (ws_db s) (tq_repo rq)) s")
  then obtain x y where "r = Inr (x, y)" using tripleD [OF drain_triple TrueI d] by (cases r) auto
  then show ?thesis
    using assms d that
    by (auto simp: run_integration_tick_def tick_crash_reconciliation_def tick_drain_result_def abind_def aget_def areturn_def)
qed

theorem tick_writes_only_confirmed_witness: "ws_db (fst example_pass) = ws_db example_waiting"
  using tick_writes_only_confirmed [of example_tick example_tick_env example_waiting "[]"]
  by (simp add: example_pass_def example_tick_def)

theorem tick_drains_in_order_witness:
  "is_ok (snd example_drained) \<and> hd (tr_queued (projr (snd example_drained))) = example_queued \<and>
   map to_task_key (tr_outcomes (projr (snd example_drained))) =
     map q_task_key (take (length (tr_outcomes (projr (snd example_drained)))) (tr_queued (projr (snd example_drained))))"
proof -
  let ?rq = "example_tick\<lparr>tq_consumer_phases := False\<rparr>"
  have i: "integrating_tickets example_tick_env ?rq (ws_db example_waiting) = Inr []"
    using example_integrating by (simp add: integrating_tickets_def)
  obtain s' res where run: "run_integration_tick example_tick_env ?rq example_waiting = (s', Inr res)"
    and q: "tr_queued res = queue_for_repo (ws_db example_waiting) (tq_repo ?rq)"
    by (rule drain_returns [OF _ _ _ i]) (auto simp: example_tick_env_def)
  have "hd (queue_for_repo (ws_db example_waiting) (tq_repo ?rq)) = example_queued" by code_simp
  then show ?thesis using tick_drains_in_order [OF run] by (simp add: example_drained_def run is_ok_def q)
qed

text \<open>The waiting entry of the example reaches the controller, so it is bound.\<close>

theorem tick_integrates_only_bound_witness:
  "example_queued \<in> set (queue_for_repo (ws_db example_waiting) (tq_repo example_tick)) \<and>
   (\<exists>ticket w. get_ticket (ti_home example_tick_env) (ig_db (ws_db example_waiting)) (q_task_key example_queued) = Inr (Some ticket) \<and>
      get_task_worktree (ti_home example_tick_env) (ig_db (ws_db example_waiting)) (q_task_key example_queued) = Inr (Some w) \<and>
      wr_status w = ''active'' \<and> wr_branch w = tk_branch ticket)"
proof -
  obtain s' out stopped where "visit_entry example_tick_env example_tick example_queued example_waiting = (s', Inr (out, stopped))"
    "to_controller_called out" by (rule visit_called [OF example_bound(2,1)])
  then show ?thesis
    using tick_integrates_only_bound [of example_queued example_tick_env example_waiting example_tick] unfolding Let_def by auto
qed

end
