(* ===== verification/Integration_Handoff.thy ===== *)
theory Integration_Handoff
  imports Integration_Run
begin

text \<open>
  \<open>integration_handoff.py\<close>: the one way from a finished implementation to the queue of its repository, and
  the Attempt that is bound to the entry it created. The explanations next to the reason codes are left out.
\<close>

section \<open>Vocabulary\<close>

definition TICKET_SUCCESS_STATUS :: string where "TICKET_SUCCESS_STATUS = ''ready_for_integration''"
definition COMPLETION_STATUS :: string where "COMPLETION_STATUS = TICKET_SUCCESS_STATUS"
definition HANDOFF_SOURCE :: string where "HANDOFF_SOURCE = ''integration_handoff''"
definition HANDOFF_EVENT :: string where "HANDOFF_EVENT = ''integration_queued''"
definition SUPERSEDED_EVENT :: string where "SUPERSEDED_EVENT = ''integration_producer_superseded''"
definition QUEUE_NAME :: string where "QUEUE_NAME = ''integration_queue''"
definition ENQUEUED :: string where "ENQUEUED = ''enqueued''"
definition ALREADY_QUEUED :: string where "ALREADY_QUEUED = ''already_queued''"
definition SKIPPED :: string where "SKIPPED = ''skipped''"
definition BINDING_PRODUCER_HANDOFF :: string where "BINDING_PRODUCER_HANDOFF = ''producer_handoff''"
definition BINDING_NONE :: string where "BINDING_NONE = ''none''"
definition REASON_BOUND :: string where "REASON_BOUND = ''bound_from_execution_handoff''"
definition REASON_NO_ENTRY :: string where "REASON_NO_ENTRY = ''no_queue_entry_for_repo''"
definition REASON_NO_HANDOFF :: string where "REASON_NO_HANDOFF = ''no_recorded_execution_handoff''"
definition REASON_NO_BINDING_IN_EVENT :: string where "REASON_NO_BINDING_IN_EVENT = ''queue_event_carries_no_producer_binding''"
definition REASON_ENTRY_MISMATCH :: string where "REASON_ENTRY_MISMATCH = ''queue_entry_not_recorded_by_latest_handoff''"
definition REASON_SUPERSEDED :: string where "REASON_SUPERSEDED = ''producer_superseded_by_later_attempt''"
definition REASON_NO_PRODUCER :: string where "REASON_NO_PRODUCER = ''handoff_recorded_no_producer_attempt''"
definition REASON_TASK_MISMATCH :: string where "REASON_TASK_MISMATCH = ''producer_attempt_task_mismatch''"
definition VERIFIED :: string where "VERIFIED = ''verified''"
definition VERIFY_MISMATCH :: string where "VERIFY_MISMATCH = ''mismatch''"
definition VERIFY_UNAVAILABLE :: string where "VERIFY_UNAVAILABLE = ''unavailable''"

record handoff_result =
  hr_task_key :: string
  hr_status :: string
  hr_repo :: "string option"
  hr_enqueued_at :: "timestamp option"
  hr_producer_attempt_id :: "string option"
  hr_producer_superseded :: bool

record producer_binding =
  pb_task_key :: string
  pb_kind :: string
  pb_reason_code :: string
  pb_attempt_id :: "string option"
  pb_repo :: "string option"
  pb_queue_sequence :: "nat option"
  pb_enqueued_at :: "timestamp option"
  pb_handoff_source :: "string option"
  pb_recorded_at :: "timestamp option"
  pb_task_identity_verified :: "string option"
  pb_detail :: "(string \<times> json) list"

definition pb_bound :: "producer_binding \<Rightarrow> bool" where
  "pb_bound b \<longleftrightarrow> pb_attempt_id b \<noteq> None"

definition jnum :: "int option \<Rightarrow> json" where
  "jnum v = (case v of None \<Rightarrow> JNull | Some n \<Rightarrow> JInt n)"

definition binding_to_dict :: "producer_binding \<Rightarrow> json" where
  "binding_to_dict b = JObj
     ([(''task_key'', JStr (pb_task_key b)), (''attempt_id'', jopt (pb_attempt_id b)), (''kind'', JStr (pb_kind b)),
       (''reason_code'', JStr (pb_reason_code b)), (''repo'', jopt (pb_repo b)),
       (''queue_sequence'', jnum (map_option int (pb_queue_sequence b))), (''enqueued_at'', jnum (pb_enqueued_at b)),
       (''handoff_source'', jopt (pb_handoff_source b)), (''recorded_at'', jnum (pb_recorded_at b)),
       (''task_identity_verified'', jopt (pb_task_identity_verified b))] @
      (if pb_detail b = [] then [] else [(''detail'', JObj (pb_detail b))]))"

section \<open>Reading the trail\<close>

text \<open>The last time the Ticket entered the status.\<close>

definition entered_status_at :: "db \<Rightarrow> string \<Rightarrow> string \<Rightarrow> timestamp option" where
  "entered_status_at db task_key status =
     fold (\<lambda>e stamp. if ev_type e = ''status_changed'' \<and> pget (ev_payload e) ''status'' = Some (JStr status)
             then Some (ev_created_at e) else stamp) (list_task_events db task_key) None"

definition entry_for :: "integration_db \<Rightarrow> string \<Rightarrow> string \<Rightarrow> queue_row option" where
  "entry_for ig task_key repo = find (\<lambda>q. q_task_key q = task_key) (queue_for_repo ig repo)"

definition is_json_object :: "json \<Rightarrow> bool" where
  "is_json_object v = (case v of JObj _ \<Rightarrow> True | _ \<Rightarrow> False)"

definition handoff_records :: "db \<Rightarrow> string \<Rightarrow> event_row list" where
  "handoff_records db task_key =
     filter (\<lambda>e. ev_type e \<in> {HANDOFF_EVENT, SUPERSEDED_EVENT} \<and> is_json_object (ev_payload e)) (list_task_events db task_key)"

section \<open>The handoff\<close>

text \<open>The producer on record for an entry, and whether this later finisher was already audited.\<close>

definition superseded_step :: "nat \<Rightarrow> string option \<Rightarrow> event_row \<Rightarrow> json option \<times> bool \<Rightarrow> json option \<times> bool" where
  "superseded_step sequence producer e acc =
     (if pget (ev_payload e) ''queue_sequence'' \<noteq> Some (JInt (int sequence)) then acc
      else if ev_type e = HANDOFF_EVENT then (pget (ev_payload e) ''producer_attempt_id'', False)
      else if pget (ev_payload e) ''observed_producer_attempt_id'' = map_option JStr producer then (fst acc, True)
      else acc)"

definition superseded_scan :: "db \<Rightarrow> string \<Rightarrow> nat \<Rightarrow> string option \<Rightarrow> json option \<times> bool" where
  "superseded_scan db task_key sequence producer =
     fold (superseded_step sequence producer) (handoff_records db task_key) (None, False)"

definition superseded_payload :: "string \<Rightarrow> queue_row \<Rightarrow> json \<Rightarrow> string option \<Rightarrow> (string \<times> json) list" where
  "superseded_payload task_key entry recorded producer =
     [(''task_key'', JStr task_key), (''repo'', JStr (q_repo entry)), (''queue'', JStr QUEUE_NAME),
      (''queue_sequence'', JInt (int (q_id entry))), (''enqueued_at'', JInt (q_enqueued_at entry)),
      (''recorded_producer_attempt_id'', recorded), (''observed_producer_attempt_id'', jopt producer),
      (''observed_producer_binding'', JStr (if producer \<noteq> None then BINDING_PRODUCER_HANDOFF else BINDING_NONE))]"

definition record_superseded_producer ::
  "timestamp \<Rightarrow> string \<Rightarrow> queue_row option \<Rightarrow> string \<Rightarrow> string option \<Rightarrow> bool act" where
  "record_superseded_producer now task_key entry source producer =
     (case entry of
        None \<Rightarrow> areturn False
      | Some q \<Rightarrow>
          abind (aget (\<lambda>s. Inr (superseded_scan (ig_db s) task_key (q_id q) producer))) (\<lambda>(recorded, already).
          case recorded of
            None \<Rightarrow> areturn False
          | Some r \<Rightarrow>
              if Some r = map_option JStr producer \<or> already then areturn False
              else
              abind (adb (record_task_event now task_key SUPERSEDED_EVENT source (superseded_payload task_key q r producer))) (\<lambda>_.
              areturn True)))"

definition handoff_payload :: "string \<Rightarrow> string \<Rightarrow> queue_row \<Rightarrow> string \<Rightarrow> string \<Rightarrow> string option \<Rightarrow> (string \<times> json) list" where
  "handoff_payload key repo entry priority task_status producer =
     [(''task_key'', JStr key), (''repo'', JStr repo), (''queue'', JStr QUEUE_NAME), (''queue_sequence'', JInt (int (q_id entry))),
      (''enqueued_at'', JInt (q_enqueued_at entry)), (''priority'', JStr priority), (''task_status'', JStr task_status),
      (''producer_attempt_id'', jopt producer),
      (''producer_attempt_binding'', JStr (if producer \<noteq> None then BINDING_PRODUCER_HANDOFF else BINDING_NONE))]"

definition handoff_skipped :: "string \<Rightarrow> handoff_result" where
  "handoff_skipped key =
     \<lparr>hr_task_key = key, hr_status = SKIPPED, hr_repo = None, hr_enqueued_at = None, hr_producer_attempt_id = None,
      hr_producer_superseded = False\<rparr>"

definition handoff_completed_implementation ::
  "(string \<Rightarrow> string option) \<Rightarrow> timestamp \<Rightarrow> string \<Rightarrow> string \<Rightarrow> string \<Rightarrow> string option \<Rightarrow> handoff_result act" where
  "handoff_completed_implementation home now task_key task_status source producer =
     abind (aget (\<lambda>_. normalize_task_key task_key)) (\<lambda>key.
     if task_status \<noteq> COMPLETION_STATUS then areturn (handoff_skipped key)
     else
     abind (aget (\<lambda>s. get_ticket home (ig_db s) key)) (\<lambda>found.
     case found of
       None \<Rightarrow> areturn (handoff_skipped key)
     | Some ticket \<Rightarrow>
         let repo = py_strip (case tk_github_repo ticket of None \<Rightarrow> [] | Some r \<Rightarrow> r) in
         if repo = [] then areturn (handoff_skipped key)
         else
     abind (aget (\<lambda>s. is_queued s key)) (\<lambda>waiting.
     if waiting then
       abind (aget (\<lambda>s. Inr (entry_for s key repo))) (\<lambda>existing.
       abind (record_superseded_producer now key existing source producer) (\<lambda>superseded.
       areturn \<lparr>hr_task_key = key, hr_status = ALREADY_QUEUED, hr_repo = Some repo, hr_enqueued_at = map_option q_enqueued_at existing,
         hr_producer_attempt_id = producer, hr_producer_superseded = superseded\<rparr>))
     else
       abind (atx (\<lambda>s. enqueue_for_integration now key repo (entered_status_at (ig_db s) key task_status) source (Some (tk_priority ticket)) s)) (\<lambda>entry.
       abind (adb (record_task_event now key HANDOFF_EVENT source
         (handoff_payload key repo entry (tk_priority ticket) task_status producer))) (\<lambda>_.
       areturn \<lparr>hr_task_key = key, hr_status = ENQUEUED, hr_repo = Some repo, hr_enqueued_at = Some (q_enqueued_at entry),
         hr_producer_attempt_id = producer, hr_producer_superseded = False\<rparr>)))))"

section \<open>The binding of an entry\<close>

text \<open>
  \<open>AttemptStore.get_attempt\<close> with the checks of \<open>AttemptRecord\<close>, and the identity of a task.
\<close>

definition get_attempt :: "(string \<Rightarrow> string option) \<Rightarrow> db \<Rightarrow> string \<Rightarrow> attempt_row option result" where
  "get_attempt home db attempt_id =
     (case find (\<lambda>a. a_id a = attempt_id) (db_attempts db) of
        None \<Rightarrow> Inr None
      | Some a \<Rightarrow>
          rbind (require_non_empty (a_id a)) (\<lambda>i.
          rbind (require_non_empty (a_task_id a)) (\<lambda>t.
          if a_number a < 1 then Inl ValueError
          else
          rbind (validate_attempt_status (a_status a)) (\<lambda>st.
          rbind (if truthy (a_worktree_path a) then rbind (require_absolute home (parse_path (the (a_worktree_path a)))) (\<lambda>_. Inr ()) else Inr ()) (\<lambda>_.
          rbind (if truthy (a_artifact_root a) then rbind (require_absolute home (parse_path (the (a_artifact_root a)))) (\<lambda>_. Inr ()) else Inr ()) (\<lambda>_.
          Inr (Some (a\<lparr>a_id := i, a_task_id := t, a_status := st\<rparr>))))))))"

definition get_task_identity :: "db \<Rightarrow> string \<Rightarrow> string option result" where
  "get_task_identity db task_key =
     rbind (normalize_task_key task_key) (\<lambda>key. Inr (Option.bind (get_task db key) t_task_id))"

definition verify_task_identity :: "(string \<Rightarrow> string option) \<Rightarrow> db \<Rightarrow> string \<Rightarrow> string \<Rightarrow> string \<times> (string \<times> json) list" where
  "verify_task_identity home db task_key attempt_id =
     (case (get_task_identity db task_key, get_attempt home db attempt_id) of
        (Inr identity, Inr (Some att)) \<Rightarrow>
          (case identity of
             None \<Rightarrow> (VERIFY_MISMATCH, [(''attempt_task_id'', JStr (a_task_id att)), (''ticket_task_id'', JNull),
               (''verification_detail'', JStr ''task has no Attempt identity of its own'')])
           | Some i \<Rightarrow>
               if a_task_id att \<noteq> i
               then (VERIFY_MISMATCH, [(''attempt_task_id'', JStr (a_task_id att)), (''ticket_task_id'', JStr i)])
               else (VERIFIED, [(''task_id'', JStr i)]))
      | (Inr _, Inr None) \<Rightarrow> (VERIFY_UNAVAILABLE, [(''verification_detail'', JStr ''attempt row not found'')])
      | _ \<Rightarrow> (VERIFY_UNAVAILABLE, [(''verification_error'', JNull)]))"

text \<open>The latest handoff and, if it was superseded after that, the last record of it.\<close>

definition binding_step :: "event_row \<Rightarrow> event_row option \<times> event_row option \<Rightarrow> event_row option \<times> event_row option" where
  "binding_step e acc =
     (if ev_type e = HANDOFF_EVENT then (Some e, None)
      else case fst acc of
             None \<Rightarrow> acc
           | Some h \<Rightarrow>
               if pget (ev_payload e) ''queue_sequence'' = pget (ev_payload h) ''queue_sequence'' then (Some h, Some e) else acc)"

definition binding_scan :: "db \<Rightarrow> string \<Rightarrow> event_row option \<times> event_row option" where
  "binding_scan db task_key = fold binding_step (handoff_records db task_key) (None, None)"

definition unbound :: "string \<Rightarrow> string \<Rightarrow> string \<Rightarrow> queue_row option \<Rightarrow> event_row option \<Rightarrow> producer_binding" where
  "unbound key repo code entry handoff =
     \<lparr>pb_task_key = key, pb_kind = BINDING_NONE, pb_reason_code = code, pb_attempt_id = None, pb_repo = Some repo,
      pb_queue_sequence = map_option q_id entry, pb_enqueued_at = map_option q_enqueued_at entry,
      pb_handoff_source = map_option ev_source handoff, pb_recorded_at = map_option ev_created_at handoff,
      pb_task_identity_verified = None, pb_detail = []\<rparr>"

definition mismatched :: "string \<Rightarrow> queue_row \<Rightarrow> json \<Rightarrow> (string \<times> json) list" where
  "mismatched key entry payload =
     List.map_filter (\<lambda>(name, observed).
         if pget payload name \<noteq> Some observed then Some (name, JList [case pget payload name of None \<Rightarrow> JNull | Some v \<Rightarrow> v, observed]) else None)
       [(''task_key'', JStr key), (''repo'', JStr (q_repo entry)), (''queue_sequence'', JInt (int (q_id entry))),
        (''enqueued_at'', JInt (q_enqueued_at entry))]"

definition superseded_detail :: "event_row \<Rightarrow> (string \<times> json) list" where
  "superseded_detail e =
     [(''recorded_producer_attempt_id'', case pget (ev_payload e) ''recorded_producer_attempt_id'' of None \<Rightarrow> JNull | Some v \<Rightarrow> v),
      (''observed_producer_attempt_id'', case pget (ev_payload e) ''observed_producer_attempt_id'' of None \<Rightarrow> JNull | Some v \<Rightarrow> v),
      (''observed_producer_binding'', case json_get (ev_payload e) ''observed_producer_binding'' of None \<Rightarrow> JStr BINDING_PRODUCER_HANDOFF | Some v \<Rightarrow> v),
      (''superseded_at'', JInt (ev_created_at e))]"

definition resolve_producer_attempt_binding ::
  "(string \<Rightarrow> string option) \<Rightarrow> integration_db \<Rightarrow> string \<Rightarrow> string \<Rightarrow> producer_binding result" where
  "resolve_producer_attempt_binding home ig task_key repo =
     rbind (normalize_task_key task_key) (\<lambda>key.
     Inr (case entry_for ig key repo of
        None \<Rightarrow> unbound key repo REASON_NO_ENTRY None None
      | Some entry \<Rightarrow>
          case binding_scan (ig_db ig) key of
            (None, _) \<Rightarrow> unbound key repo REASON_NO_HANDOFF (Some entry) None
          | (Some handoff, superseded) \<Rightarrow>
              let payload = ev_payload handoff; none = (\<lambda>code. unbound key repo code (Some entry) (Some handoff)) in
              if json_get payload ''queue_sequence'' = None then none REASON_NO_BINDING_IN_EVENT
              else if mismatched key entry payload \<noteq> []
              then (none REASON_ENTRY_MISMATCH)\<lparr>pb_detail := [(''mismatched'', JObj (mismatched key entry payload))]\<rparr>
              else case superseded of
                     Some e \<Rightarrow> (none REASON_SUPERSEDED)\<lparr>pb_detail := superseded_detail e\<rparr>
                   | None \<Rightarrow>
                       case pget payload ''producer_attempt_id'' of
                         None \<Rightarrow> none REASON_NO_PRODUCER
                       | Some v \<Rightarrow>
                           let attempt_id = py_str v; (verification, detail) = verify_task_identity home (ig_db ig) key attempt_id in
                           if verification = VERIFY_MISMATCH
                           then (none REASON_TASK_MISMATCH)\<lparr>pb_task_identity_verified := Some verification,
                             pb_detail := detail @ [(''rejected_attempt_id'', JStr attempt_id)]\<rparr>
                           else (none REASON_BOUND)\<lparr>pb_kind := BINDING_PRODUCER_HANDOFF, pb_attempt_id := Some attempt_id,
                             pb_repo := Some (q_repo entry), pb_task_identity_verified := Some verification, pb_detail := detail\<rparr>))"

end
