(* ===== verification/Handoff_Safety.thy ===== *)
theory Handoff_Safety
  imports Integration_Handoff Integration_Queue
begin

text \<open>
  The handoff and the binding fit together: an entry is bound to the Attempt that produced it exactly as long
  as no other run finished the same Ticket, and a binding never rests on anything but the record of this entry.
\<close>

section \<open>The two readings of the trail agree\<close>

lemma scans_agree:
  assumes "fold binding_step es (None, None) = (Some h, sp)" and "pget (ev_payload h) ''queue_sequence'' = Some (JInt (int n))"
  shows "fst (fold (superseded_step n p) es (None, False)) = pget (ev_payload h) ''producer_attempt_id'' \<and>
     (snd (fold (superseded_step n p) es (None, False)) \<longrightarrow> sp \<noteq> None)"
  using assms(1)
proof (induction es arbitrary: sp rule: rev_induct)
  case (snoc e es)
  obtain h0 sp0 where prev: "fold binding_step es (None, None) = (h0, sp0)" by (cases "fold binding_step es (None, None)")
  have step: "binding_step e (h0, sp0) = (Some h, sp)" using snoc.prems by (simp add: prev)
  show ?case
  proof (cases "ev_type e = HANDOFF_EVENT")
    case True
    then have "h = e" using step by (simp add: binding_step_def)
    then show ?thesis using True assms(2) by (simp add: superseded_step_def)
  next
    case False
    then have h: "h0 = Some h" and sp: "sp = (if pget (ev_payload e) ''queue_sequence'' = Some (JInt (int n)) then Some e else sp0)"
      using step assms(2) by (auto simp: binding_step_def split: option.splits if_splits)
    show ?thesis using snoc.IH [OF prev [unfolded h]] False sp by (auto simp: superseded_step_def)
  qed
qed simp

lemma entry_for_sorted:
  "entry_for ig key repo =
     (case sort_key (\<lambda>q. (q_enqueued_at q, q_id q)) (filter (\<lambda>q. q_repo q = repo \<and> q_task_key q = key) (ig_queue ig)) of
        [] \<Rightarrow> None | q # _ \<Rightarrow> Some q)"
proof -
  have find_hd: "find P xs = (case filter P xs of [] \<Rightarrow> None | x # _ \<Rightarrow> Some x)" for P and xs :: "queue_row list"
    by (induction xs) auto
  show ?thesis
    unfolding entry_for_def queue_for_repo_def list_queue_def find_hd filter_sort filter_filter by (simp add: conj_commute)
qed

lemma entry_for_Some: "entry_for ig key repo = Some q \<Longrightarrow> q \<in> set (ig_queue ig) \<and> q_task_key q = key \<and> q_repo q = repo"
  unfolding entry_for_def queue_for_repo_def list_queue_def using find_Some_set by fastforce

section \<open>An entry and its producer\<close>

text \<open>The entry's handoff is the latest one and names its producer; \<open>clean\<close> as long as nobody superseded it.\<close>

definition produced :: "integration_db \<Rightarrow> string \<Rightarrow> string \<Rightarrow> queue_row \<Rightarrow> string \<Rightarrow> bool \<Rightarrow> bool" where
  "produced ig key repo q a clean \<longleftrightarrow>
     entry_for ig key repo = Some q \<and>
     (\<exists>h sp. binding_scan (ig_db ig) key = (Some h, sp) \<and> mismatched key q (ev_payload h) = [] \<and>
        pget (ev_payload h) ''producer_attempt_id'' = Some (JStr a) \<and> (sp = None) = clean)"

lemma mismatched_Nil:
  "mismatched key q payload = [] \<longleftrightarrow>
     pget payload ''task_key'' = Some (JStr key) \<and> pget payload ''repo'' = Some (JStr (q_repo q)) \<and>
     pget payload ''queue_sequence'' = Some (JInt (int (q_id q))) \<and> pget payload ''enqueued_at'' = Some (JInt (q_enqueued_at q))"
  by (simp add: mismatched_def List.map_filter_def)

lemma pget_Some_get: "pget payload k = Some v \<Longrightarrow> json_get payload k \<noteq> None"
  by (auto simp: pget_def split: option.splits)

lemma resolve_produced:
  assumes p: "produced ig key repo q a clean" and key: "normalize_task_key task_key = Inr key"
  shows "\<exists>b. resolve_producer_attempt_binding home ig task_key repo = Inr b \<and> pb_queue_sequence b = Some (q_id q) \<and>
     pb_enqueued_at b = Some (q_enqueued_at q) \<and>
     pb_attempt_id b = (if clean \<and> fst (verify_task_identity home (ig_db ig) key a) \<noteq> VERIFY_MISMATCH then Some a else None)"
proof -
  obtain h sp where scan: "binding_scan (ig_db ig) key = (Some h, sp)" and m: "mismatched key q (ev_payload h) = []"
    and a: "pget (ev_payload h) ''producer_attempt_id'' = Some (JStr a)" and c: "(sp = None) = clean" and e: "entry_for ig key repo = Some q"
    using p by (auto simp: produced_def)
  have s: "json_get (ev_payload h) ''queue_sequence'' \<noteq> None" using m mismatched_Nil pget_Some_get by blast
  show ?thesis
    unfolding resolve_producer_attempt_binding_def using c
    by (cases sp) (auto simp: key e scan m a s Let_def unbound_def split: prod.split)
qed

section \<open>One more handoff\<close>

lemma append_event:
  assumes "record_task_event now key ty source payload db = Inr d" and key: "normalize_task_key key = Inr key"
    and ty: "validate_task_event_type ty = Inr ty"
  obtains e where "list_task_events d key = list_task_events db key @ [e]" "\<And>k. k \<noteq> key \<Longrightarrow> list_task_events d k = list_task_events db k"
    "ev_type e = ty" "ev_payload e = JObj payload" "events_only db d"
proof -
  obtain src where ins: "insert_event key ty src (JObj payload) now db = Inr d"
    using assms unfolding record_task_event_def by (auto simp: rbind_Inr_iff)
  show ?thesis
    by (rule that [OF _ _ _ _ insert_event_events_only [OF ins]]) (auto simp: list_task_events_def insert_event_log [OF ins])
qed

lemma handoff_event_types:
  "validate_task_event_type HANDOFF_EVENT = Inr HANDOFF_EVENT" "validate_task_event_type SUPERSEDED_EVENT = Inr SUPERSEDED_EVENT"
  "HANDOFF_EVENT \<noteq> SUPERSEDED_EVENT"
  by code_simp+

lemma records_append:
  "list_task_events d key = list_task_events db key @ [e] \<Longrightarrow> ev_type e \<in> {HANDOFF_EVENT, SUPERSEDED_EVENT} \<Longrightarrow>
     ev_payload e = JObj payload \<Longrightarrow> handoff_records d key = handoff_records db key @ [e]"
  by (simp add: handoff_records_def is_json_object_def)

text \<open>Whatever a handoff does, it touches the queue and the trail of its own Ticket only.\<close>

definition handoff_frame :: "string \<Rightarrow> integration_db \<Rightarrow> integration_db \<Rightarrow> bool" where
  "handoff_frame key ig ig' \<longleftrightarrow>
     db_tasks (ig_db ig') = db_tasks (ig_db ig) \<and> db_attempts (ig_db ig') = db_attempts (ig_db ig) \<and>
     (\<forall>k. k \<noteq> key \<longrightarrow> list_task_events (ig_db ig') k = list_task_events (ig_db ig) k) \<and>
     (ig_queue ig' = ig_queue ig \<or> (\<exists>entry. q_task_key entry = key \<and> ig_queue ig' = ig_queue ig @ [entry]))"

lemma handoff_frame_event:
  assumes "adb (record_task_event now key ty source payload) ig = (ig', r)" and "normalize_task_key key = Inr key"
  shows "handoff_frame key ig ig' \<and> ig_queue ig' = ig_queue ig"
proof (cases "record_task_event now key ty source payload (ig_db ig)")
  case (Inr d)
  then obtain ty' src where ins: "insert_event key ty' src (JObj payload) now (ig_db ig) = Inr d"
    using assms(2) unfolding record_task_event_def by (auto simp: rbind_Inr_iff)
  have "ig' = ig\<lparr>ig_db := d\<rparr>" using assms(1) Inr by (simp add: adb_def)
  then show ?thesis
    using events_onlyD(1,2) [OF insert_event_events_only [OF ins]]
    by (auto simp: handoff_frame_def list_task_events_def insert_event_log [OF ins])
qed (use assms in \<open>simp add: adb_def handoff_frame_def\<close>)

lemma enqueue_for_Inr:
  assumes "enqueue_for_integration now key repo stamp source priority ig = Inr (ig', entry)" and "normalize_task_key key = Inr key"
    and "\<not> queued ig key"
  shows "entry = \<lparr>q_id = Suc (ig_queue_seq ig), q_task_key = key, q_repo = repo, q_enqueued_at = (case stamp of None \<Rightarrow> now | Some t \<Rightarrow> t),
      q_source = source, q_priority = priority\<rparr> \<and>
    ig' = ig\<lparr>ig_queue := ig_queue ig @ [entry], ig_queue_seq := Suc (ig_queue_seq ig)\<rparr> \<and> entry_for ig' key repo = Some entry"
proof -
  obtain new where new: "new = \<lparr>q_id = Suc (ig_queue_seq ig), q_task_key = key, q_repo = repo,
      q_enqueued_at = (case stamp of None \<Rightarrow> now | Some t \<Rightarrow> t), q_source = source, q_priority = priority\<rparr>" by blast
  have ig': "ig' = ig\<lparr>ig_queue := ig_queue ig @ [new], ig_queue_seq := Suc (ig_queue_seq ig)\<rparr>" and e: "entry_for ig' key repo = Some entry"
    using assms unfolding enqueue_for_integration_def enqueue_def entry_for_def new
    by (auto simp: rbind_Inr_iff split: option.splits if_splits)
  have "entry \<in> set (ig_queue ig')" "q_task_key entry = key" using entry_for_Some [OF e] by auto
  moreover have "\<forall>q \<in> set (ig_queue ig). q_task_key q \<noteq> key" using assms(3) by (auto simp: queued_def list_ex_iff)
  ultimately have "entry = new" by (auto simp: ig')
  then show ?thesis using new ig' e by blast
qed

definition ticket_repo :: "ticket_record \<Rightarrow> string" where
  "ticket_repo ticket = py_strip (case tk_github_repo ticket of None \<Rightarrow> [] | Some r \<Rightarrow> r)"

lemma handoff_queued:
  assumes "normalize_task_key task_key = Inr key" "get_ticket home (ig_db ig) key = Inr (Some ticket)" "ticket_repo ticket \<noteq> []" "queued ig key"
  shows "fst (handoff_completed_implementation home now task_key COMPLETION_STATUS source p ig) =
     fst (record_superseded_producer now key (entry_for ig key (ticket_repo ticket)) source p ig)"
  using assms normalize_task_key_idem [OF assms(1)]
  by (auto simp: handoff_completed_implementation_def ticket_repo_def abind_def aget_def areturn_def is_queued_def Let_def split: prod.splits sum.splits)

lemma handoff_enqueues:
  assumes run: "handoff_completed_implementation home now task_key status source p ig = (ig', Inr r)" and st: "hr_status r = ENQUEUED"
  obtains key ticket entry d where "normalize_task_key task_key = Inr key" "hr_task_key r = key" "status = COMPLETION_STATUS"
    "get_ticket home (ig_db ig) key = Inr (Some ticket)" "ticket_repo ticket \<noteq> []" "hr_repo r = Some (ticket_repo ticket)"
    "entry = \<lparr>q_id = Suc (ig_queue_seq ig), q_task_key = key, q_repo = ticket_repo ticket,
       q_enqueued_at = (case entered_status_at (ig_db ig) key status of None \<Rightarrow> now | Some t \<Rightarrow> t), q_source = source,
       q_priority = Some (tk_priority ticket)\<rparr>" "hr_enqueued_at r = Some (q_enqueued_at entry)" "\<not> queued ig key"
    "record_task_event now key HANDOFF_EVENT source (handoff_payload key (ticket_repo ticket) entry (tk_priority ticket) status p) (ig_db ig) = Inr d"
    "ig' = ig\<lparr>ig_queue := ig_queue ig @ [entry], ig_queue_seq := Suc (ig_queue_seq ig), ig_db := d\<rparr>"
    "entry_for ig' key (ticket_repo ticket) = Some entry"
proof -
  have dist: "ENQUEUED \<noteq> SKIPPED" "ENQUEUED \<noteq> ALREADY_QUEUED" by (simp_all add: ENQUEUED_def SKIPPED_def ALREADY_QUEUED_def)
  obtain key ticket where key: "normalize_task_key task_key = Inr key" and c: "status = COMPLETION_STATUS"
    and t: "get_ticket home (ig_db ig) key = Inr (Some ticket)" and repo: "ticket_repo ticket \<noteq> []"
    using run st dist unfolding handoff_completed_implementation_def ticket_repo_def
    by (auto simp: abind_def aget_def areturn_def handoff_skipped_def Let_def split: sum.splits if_splits option.splits)
  have idem: "normalize_task_key key = Inr key" using normalize_task_key_idem [OF key] .
  have fresh: "\<not> queued ig key"
    using run st dist unfolding handoff_completed_implementation_def
    by (auto simp: key c t repo [unfolded ticket_repo_def] abind_def aget_def areturn_def is_queued_def idem Let_def split: sum.splits if_splits prod.splits)
  obtain ig1 entry d where e: "enqueue_for_integration now key (ticket_repo ticket) (entered_status_at (ig_db ig) key status) source (Some (tk_priority ticket)) ig = Inr (ig1, entry)"
    and d: "record_task_event now key HANDOFF_EVENT source (handoff_payload key (ticket_repo ticket) entry (tk_priority ticket) status p) (ig_db ig1) = Inr d"
    and ig': "ig' = ig1\<lparr>ig_db := d\<rparr>"
    and r: "hr_repo r = Some (ticket_repo ticket)" "hr_enqueued_at r = Some (q_enqueued_at entry)" "hr_task_key r = key"
    using run unfolding handoff_completed_implementation_def
    by (auto simp: key c t ticket_repo_def repo [unfolded ticket_repo_def] abind_def aget_def areturn_def is_queued_def idem fresh atx_def adb_def Let_def
        split: sum.splits if_splits prod.splits)
  note f = enqueue_for_Inr [OF e idem fresh]
  have "entry_for ig' key (ticket_repo ticket) = entry_for ig1 key (ticket_repo ticket)" by (simp add: ig' entry_for_sorted)
  then show ?thesis using that [OF key r(3) c t repo r(1) _ r(2) fresh] f d ig' by auto
qed

lemma handoff_framed:
  assumes key: "normalize_task_key task_key = Inr key"
  shows "handoff_frame key ig (fst (handoff_completed_implementation home now task_key status source p ig))"
proof -
  have idem: "normalize_task_key key = Inr key" using normalize_task_key_idem [OF key] .
  have keep: "handoff_frame key ig ig" for ig by (simp add: handoff_frame_def)
  show ?thesis
  proof (cases "status = COMPLETION_STATUS \<and> (\<exists>ticket. get_ticket home (ig_db ig) key = Inr (Some ticket) \<and> ticket_repo ticket \<noteq> [])")
    case False
    then show ?thesis
      by (auto simp: handoff_completed_implementation_def key ticket_repo_def abind_def aget_def areturn_def keep Let_def split: sum.split option.split)
  next
    case True
    then obtain ticket where c: "status = COMPLETION_STATUS" and t: "get_ticket home (ig_db ig) key = Inr (Some ticket)"
      and repo: "ticket_repo ticket \<noteq> []" by blast
    show ?thesis
    proof (cases "queued ig key")
      case True
      show ?thesis
        unfolding c handoff_queued [OF key t repo True] record_superseded_producer_def
        by (auto simp: abind_def aget_def areturn_def keep split: option.split prod.split sum.split dest: handoff_frame_event [OF _ idem])
    next
      case False
      show ?thesis
      proof (cases "enqueue_for_integration now key (ticket_repo ticket) (entered_status_at (ig_db ig) key status) source (Some (tk_priority ticket)) ig")
        case (Inl e)
        then show ?thesis
          by (simp add: handoff_completed_implementation_def key t c ticket_repo_def repo [unfolded ticket_repo_def] abind_def aget_def
              is_queued_def idem False atx_def keep Let_def)
      next
        case (Inr x)
        obtain ig1 entry where x: "x = (ig1, entry)" by (cases x)
        obtain ig2 u where ev: "adb (record_task_event now key HANDOFF_EVENT source
            (handoff_payload key (ticket_repo ticket) entry (tk_priority ticket) status p)) ig1 = (ig2, u)" by force
        have "fst (handoff_completed_implementation home now task_key status source p ig) = ig2"
          using Inr ev by (auto simp: handoff_completed_implementation_def key t c x ticket_repo_def repo [unfolded ticket_repo_def] abind_def aget_def
              areturn_def is_queued_def idem False atx_def Let_def split: sum.split)
        then show ?thesis
          using enqueue_for_Inr [OF Inr [unfolded x] idem False] handoff_frame_event [OF ev idem] by (auto simp: handoff_frame_def)
      qed
    qed
  qed
qed

lemma produced_other:
  assumes p: "produced ig key repo q a clean" and f: "handoff_frame key' ig ig'" and "key' \<noteq> key"
  shows "produced ig' key repo q a clean"
proof -
  have "filter (\<lambda>q. q_repo q = repo \<and> q_task_key q = key) (ig_queue ig') = filter (\<lambda>q. q_repo q = repo \<and> q_task_key q = key) (ig_queue ig)"
    using f assms(3) by (auto simp: handoff_frame_def)
  moreover have "binding_scan (ig_db ig') key = binding_scan (ig_db ig) key"
    using f assms(3) by (auto simp: handoff_frame_def binding_scan_def handoff_records_def)
  ultimately show ?thesis using p by (simp add: produced_def entry_for_sorted)
qed

lemma produced_same:
  assumes p: "produced ig key repo q a clean" and key: "normalize_task_key task_key = Inr key"
    and t: "get_ticket home (ig_db ig) key = Inr (Some ticket)" "ticket_repo ticket = repo" "repo \<noteq> []" and src: "py_strip source \<noteq> []"
  shows "produced (fst (handoff_completed_implementation home now task_key COMPLETION_STATUS source fin ig)) key repo q a (clean \<and> fin = Some a)"
proof -
  have idem: "normalize_task_key key = Inr key" using normalize_task_key_idem [OF key] .
  obtain h sp where e: "entry_for ig key repo = Some q" and scan: "binding_scan (ig_db ig) key = (Some h, sp)"
    and m: "mismatched key q (ev_payload h) = []" and a: "pget (ev_payload h) ''producer_attempt_id'' = Some (JStr a)" and c: "(sp = None) = clean"
    using p by (auto simp: produced_def)
  have seq: "pget (ev_payload h) ''queue_sequence'' = Some (JInt (int (q_id q)))" using m by (simp add: mismatched_Nil)
  obtain already where s: "superseded_scan (ig_db ig) key (q_id q) fin = (Some (JStr a), already)" and al: "already \<Longrightarrow> sp \<noteq> None"
    using scans_agree [OF scan [unfolded binding_scan_def] seq, of fin] a
    by (cases "superseded_scan (ig_db ig) key (q_id q) fin") (auto simp: superseded_scan_def)
  have "queued ig key" using entry_for_Some [OF e] by (auto simp: queued_def list_ex_iff)
  note out = handoff_queued [OF key t(1) _ this, unfolded t(2), OF t(3), of now source fin, unfolded e]
  show ?thesis
  proof (cases "fin = Some a \<or> already")
    case True
    then have "fst (record_superseded_producer now key (Some q) source fin ig) = ig"
      by (auto simp: record_superseded_producer_def abind_def aget_def areturn_def s)
    moreover have "clean \<and> fin = Some a \<longleftrightarrow> clean" using True al c by blast
    ultimately show ?thesis using p by (simp add: out)
  next
    case False
    let ?pl = "superseded_payload key q (JStr a) fin"
    have "get_task (ig_db ig) key \<noteq> None"
      using t(1) idem by (auto simp: get_ticket_def get_task_def find_None_iff_ball split: option.splits dest!: find_Some_set)
    moreover have "executor_start_ok (ig_db ig) key SUPERSEDED_EVENT (JObj ?pl) now" by (simp add: executor_start_ok_def SUPERSEDED_EVENT_def)
    ultimately have "\<exists>d. record_task_event now key SUPERSEDED_EVENT source ?pl (ig_db ig) = Inr d"
      using src unfolding record_task_event_def
      by (simp add: idem handoff_event_types require_non_empty_def insert_event_def)
    then obtain d where d: "record_task_event now key SUPERSEDED_EVENT source ?pl (ig_db ig) = Inr d" ..
    obtain ev where ev: "list_task_events d key = list_task_events (ig_db ig) key @ [ev]" "ev_type ev = SUPERSEDED_EVENT" "ev_payload ev = JObj ?pl"
      by (rule append_event [OF d idem handoff_event_types(2)])
    have other: "Some (JStr a) \<noteq> map_option JStr fin" using False by (cases fin) auto
    have after: "fst (record_superseded_producer now key (Some q) source fin ig) = ig\<lparr>ig_db := d\<rparr>"
      using False d other by (simp add: record_superseded_producer_def abind_def aget_def areturn_def adb_def s)
    have "pget (JObj ?pl) ''queue_sequence'' = Some (JInt (int (q_id q)))" by (simp add: superseded_payload_def pget_def)
    then have "binding_step ev (Some h, sp) = (Some h, Some ev)" using handoff_event_types(3) by (simp add: binding_step_def ev seq)
    then have "binding_scan d key = (Some h, Some ev)"
      using scan records_append [OF ev(1) _ ev(3)] ev(2) by (simp add: binding_scan_def)
    moreover have "entry_for (ig\<lparr>ig_db := d\<rparr>) key repo = Some q" using e by (simp add: entry_for_sorted)
    ultimately show ?thesis using m a False by (simp add: produced_def out after)
  qed
qed

section \<open>Histories of handoffs\<close>

datatype handoff_op = Handoff timestamp string string string "string option"

fun run_handoffs :: "(string \<Rightarrow> string option) \<Rightarrow> handoff_op list \<Rightarrow> integration_db \<Rightarrow> integration_db" where
  "run_handoffs home [] ig = ig"
| "run_handoffs home (Handoff now task_key status source p # ops) ig =
     run_handoffs home ops (fst (handoff_completed_implementation home now task_key status source p ig))"

text \<open>A run that is not of the finished Ticket, or is of its producer.\<close>

fun agrees :: "string \<Rightarrow> string \<Rightarrow> handoff_op \<Rightarrow> bool" where
  "agrees key a (Handoff now task_key status source p) \<longleftrightarrow>
     normalize_task_key task_key \<noteq> Inr key \<or> status \<noteq> COMPLETION_STATUS \<or> p = Some a"

fun audited :: "handoff_op \<Rightarrow> bool" where
  "audited (Handoff now task_key status source p) \<longleftrightarrow> py_strip source \<noteq> []"

lemma run_handoffs_produced:
  assumes "produced ig key repo q a clean" "get_ticket home (ig_db ig) key = Inr (Some ticket)" "ticket_repo ticket = repo" "repo \<noteq> []"
    "list_all audited ops"
  shows "produced (run_handoffs home ops ig) key repo q a (clean \<and> list_all (agrees key a) ops) \<and>
     db_tasks (ig_db (run_handoffs home ops ig)) = db_tasks (ig_db ig) \<and> db_attempts (ig_db (run_handoffs home ops ig)) = db_attempts (ig_db ig)"
  using assms
proof (induction ops arbitrary: ig clean)
  case (Cons x ops)
  obtain now task_key status source p where x: "x = Handoff now task_key status source p" by (cases x)
  let ?ig = "fst (handoff_completed_implementation home now task_key status source p ig)"
  have step: "produced ?ig key repo q a (clean \<and> agrees key a x) \<and> db_tasks (ig_db ?ig) = db_tasks (ig_db ig) \<and>
      db_attempts (ig_db ?ig) = db_attempts (ig_db ig)"
  proof (cases "normalize_task_key task_key")
    case (Inl e)
    then have "?ig = ig" by (simp add: handoff_completed_implementation_def abind_def aget_def)
    then show ?thesis using Cons.prems(1) Inl by (simp add: x)
  next
    case (Inr k)
    note f = handoff_framed [OF Inr, of ig home now status source p]
    have "produced ?ig key repo q a (clean \<and> agrees key a x)"
    proof (cases "k = key \<and> status = COMPLETION_STATUS")
      case True
      then show ?thesis using produced_same [OF Cons.prems(1) _ Cons.prems(2-4), of task_key source now p] Inr Cons.prems(5) by (simp add: x)
    next
      case False
      have "?ig = ig" if "status \<noteq> COMPLETION_STATUS"
        using that by (simp add: handoff_completed_implementation_def abind_def aget_def areturn_def Inr)
      then show ?thesis using produced_other [OF Cons.prems(1) f] Cons.prems(1) Inr False by (cases "k = key") (auto simp: x)
    qed
    then show ?thesis using f by (simp add: handoff_frame_def)
  qed
  then have "get_ticket home (ig_db ?ig) key = Inr (Some ticket)" using Cons.prems(2) by (simp add: get_ticket_def)
  from Cons.IH [OF conjunct1 [OF step] this Cons.prems(3,4)] Cons.prems(5) step show ?case by (simp add: x conj_assoc)
qed simp

lemma verify_identity_cong:
  "\<lbrakk>db_tasks d = db_tasks d'; db_attempts d = db_attempts d'\<rbrakk> \<Longrightarrow> verify_task_identity home d = verify_task_identity home d'"
  by (intro ext) (simp add: verify_task_identity_def get_task_identity_def get_attempt_def get_task_def)

text \<open>
  C12. A handoff that enqueues places the Ticket once, at the time it entered its success status, and whatever
  handoffs of whichever Tickets follow while it waits, its entry resolves to the Attempt that produced it if and
  only if every later run that finished the same Ticket was that Attempt (and the Attempt is not one of another
  task): no run inherits the work of another, and no status of any Ticket changes.
\<close>

theorem handoff_binds_producer:
  assumes run: "handoff_completed_implementation home now task_key status source (Some a) ig = (ig1, Inr r)"
    and new: "hr_status r = ENQUEUED" and ops: "list_all audited ops"
  shows "\<exists>b. resolve_producer_attempt_binding home (run_handoffs home ops ig1) task_key (the (hr_repo r)) = Inr b \<and>
     pb_queue_sequence b = Some (Suc (ig_queue_seq ig)) \<and>
     pb_enqueued_at b = Some (case entered_status_at (ig_db ig) (hr_task_key r) status of None \<Rightarrow> now | Some t \<Rightarrow> t) \<and>
     pb_attempt_id b = (if list_all (agrees (hr_task_key r) a) ops \<and>
       fst (verify_task_identity home (ig_db ig) (hr_task_key r) a) \<noteq> VERIFY_MISMATCH then Some a else None) \<and>
     db_tasks (ig_db (run_handoffs home ops ig1)) = db_tasks (ig_db ig)"
proof -
  let ?ig = "run_handoffs home ops ig1"
  obtain key ticket entry d where key: "normalize_task_key task_key = Inr key" "hr_task_key r = key"
    and t: "get_ticket home (ig_db ig) key = Inr (Some ticket)" "ticket_repo ticket \<noteq> []" "hr_repo r = Some (ticket_repo ticket)"
    and entry: "entry = \<lparr>q_id = Suc (ig_queue_seq ig), q_task_key = key, q_repo = ticket_repo ticket,
       q_enqueued_at = (case entered_status_at (ig_db ig) key status of None \<Rightarrow> now | Some t \<Rightarrow> t), q_source = source,
       q_priority = Some (tk_priority ticket)\<rparr>"
    and d: "record_task_event now key HANDOFF_EVENT source (handoff_payload key (ticket_repo ticket) entry (tk_priority ticket) status (Some a)) (ig_db ig) = Inr d"
    and ig1: "ig1 = ig\<lparr>ig_queue := ig_queue ig @ [entry], ig_queue_seq := Suc (ig_queue_seq ig), ig_db := d\<rparr>"
    and e: "entry_for ig1 key (ticket_repo ticket) = Some entry"
    by (rule handoff_enqueues [OF run new])
  obtain ev where ev: "list_task_events d key = list_task_events (ig_db ig) key @ [ev]" "ev_type ev = HANDOFF_EVENT"
      "ev_payload ev = JObj (handoff_payload key (ticket_repo ticket) entry (tk_priority ticket) status (Some a))" and only: "events_only (ig_db ig) d"
    by (rule append_event [OF d normalize_task_key_idem [OF key(1)] handoff_event_types(1)])
  have "binding_scan d key = (Some ev, None)"
    using records_append [OF ev(1) _ ev(3)] ev(2) by (simp add: binding_scan_def binding_step_def)
  then have start: "produced ig1 key (ticket_repo ticket) entry a True"
    using e by (simp add: produced_def ig1 ev mismatched_Nil handoff_payload_def pget_def jopt_def entry)
  have "get_ticket home (ig_db ig1) key = Inr (Some ticket)" using t(1) events_onlyD(1) [OF only] by (simp add: get_ticket_def ig1)
  note all = run_handoffs_produced [OF start this HOL.refl t(2) ops]
  have p: "produced ?ig key (ticket_repo ticket) entry a (list_all (agrees key a) ops)" using all by simp
  have tasks: "db_tasks (ig_db ?ig) = db_tasks (ig_db ig)" "db_attempts (ig_db ?ig) = db_attempts (ig_db ig)"
    using all events_onlyD(1,2) [OF only] by (auto simp: ig1)
  show ?thesis
    using resolve_produced [OF p key(1), of home] verify_identity_cong [OF tasks, of home] tasks(1) by (auto simp: key(2) t(3) entry)
qed

section \<open>Soundness of a binding\<close>

lemma binding_scan_latest:
  "fold binding_step es (None, None) = (Some h, sp) \<Longrightarrow>
     \<exists>pre post. es = pre @ h # post \<and> ev_type h = HANDOFF_EVENT \<and> list_all (\<lambda>e. ev_type e \<noteq> HANDOFF_EVENT) post \<and>
       (sp = None \<longrightarrow> list_all (\<lambda>e. pget (ev_payload e) ''queue_sequence'' \<noteq> pget (ev_payload h) ''queue_sequence'') post)"
proof (induction es arbitrary: sp rule: rev_induct)
  case (snoc e es)
  obtain h0 sp0 where prev: "fold binding_step es (None, None) = (h0, sp0)" by (cases "fold binding_step es (None, None)")
  have step: "binding_step e (h0, sp0) = (Some h, sp)" using snoc.prems by (simp add: prev)
  show ?case
  proof (cases "ev_type e = HANDOFF_EVENT")
    case True
    then show ?thesis using step by (intro exI [of _ es] exI [of _ "[]"]) (auto simp: binding_step_def)
  next
    case False
    then have h: "h0 = Some h" and sp: "sp = (if pget (ev_payload e) ''queue_sequence'' = pget (ev_payload h) ''queue_sequence'' then Some e else sp0)"
      using step by (auto simp: binding_step_def split: option.splits if_splits)
    obtain pre post where "es = pre @ h # post" "ev_type h = HANDOFF_EVENT" "list_all (\<lambda>e. ev_type e \<noteq> HANDOFF_EVENT) post"
      "sp0 = None \<longrightarrow> list_all (\<lambda>e. pget (ev_payload e) ''queue_sequence'' \<noteq> pget (ev_payload h) ''queue_sequence'') post"
      using snoc.IH [OF prev [unfolded h]] by blast
    then show ?thesis using False sp by (intro exI [of _ pre] exI [of _ "post @ [e]"]) (auto split: if_splits)
  qed
qed simp

lemma verify_not_mismatch:
  assumes "fst (verify_task_identity home db key a) \<noteq> VERIFY_MISMATCH" and "normalize_task_key key = Inr key"
    and "get_attempt home db a = Inr (Some att)"
  shows "get_task_identity db key = Inr (Some (a_task_id att))"
proof -
  have "VERIFIED \<noteq> VERIFY_MISMATCH" by (simp add: VERIFIED_def VERIFY_MISMATCH_def)
  then show ?thesis using assms unfolding verify_task_identity_def by (auto simp: get_task_identity_def split: option.splits if_splits)
qed

text \<open>
  C13. Whatever is in the database, a queue entry resolves to an Attempt only on the record of this very entry:
  the entry is live in the queue of the repository, the latest handoff of the Ticket names the Ticket, the
  repository, the sequence number and the time of exactly this entry and that Attempt, nothing recorded after
  it supersedes it, and the Attempt, where its row exists, belongs to the task of the Ticket.
\<close>

theorem producer_binding_sound:
  assumes run: "resolve_producer_attempt_binding home ig task_key repo = Inr b" and bound: "pb_attempt_id b = Some a"
  shows "\<exists>key entry pre h post v. normalize_task_key task_key = Inr key \<and> entry \<in> set (ig_queue ig) \<and> q_task_key entry = key \<and> q_repo entry = repo \<and>
     handoff_records (ig_db ig) key = pre @ h # post \<and> ev_type h = HANDOFF_EVENT \<and>
     pget (ev_payload h) ''task_key'' = Some (JStr key) \<and> pget (ev_payload h) ''repo'' = Some (JStr repo) \<and>
     pget (ev_payload h) ''queue_sequence'' = Some (JInt (int (q_id entry))) \<and> pget (ev_payload h) ''enqueued_at'' = Some (JInt (q_enqueued_at entry)) \<and>
     pget (ev_payload h) ''producer_attempt_id'' = Some v \<and> py_str v = a \<and>
     list_all (\<lambda>e. ev_type e \<noteq> HANDOFF_EVENT \<and> pget (ev_payload e) ''queue_sequence'' \<noteq> Some (JInt (int (q_id entry)))) post \<and>
     (\<forall>att. get_attempt home (ig_db ig) a = Inr (Some att) \<longrightarrow> get_task_identity (ig_db ig) key = Inr (Some (a_task_id att)))"
proof -
  obtain key where key: "normalize_task_key task_key = Inr key"
    using run unfolding resolve_producer_attempt_binding_def by (auto simp: rbind_Inr_iff)
  obtain entry where entry: "entry_for ig key repo = Some entry"
    using run bound unfolding resolve_producer_attempt_binding_def by (auto simp: key unbound_def split: option.splits)
  obtain h sp where scan: "binding_scan (ig_db ig) key = (Some h, sp)"
    using run bound unfolding resolve_producer_attempt_binding_def
    by (cases "binding_scan (ig_db ig) key") (auto simp: key entry unbound_def split: option.splits)
  have m: "mismatched key entry (ev_payload h) = []" and sp: "sp = None"
    using run bound unfolding resolve_producer_attempt_binding_def
    by (auto simp: key entry scan unbound_def Let_def split: option.splits if_splits)
  obtain v where v: "pget (ev_payload h) ''producer_attempt_id'' = Some v" and a: "py_str v = a"
      and ok: "fst (verify_task_identity home (ig_db ig) key a) \<noteq> VERIFY_MISMATCH"
    using run bound unfolding resolve_producer_attempt_binding_def
    by (auto simp: key entry scan m sp unbound_def Let_def split: option.splits if_splits prod.splits)
  have names: "pget (ev_payload h) ''task_key'' = Some (JStr key)" "pget (ev_payload h) ''repo'' = Some (JStr (q_repo entry))"
    "pget (ev_payload h) ''queue_sequence'' = Some (JInt (int (q_id entry)))" "pget (ev_payload h) ''enqueued_at'' = Some (JInt (q_enqueued_at entry))"
    using m by (simp_all add: mismatched_Nil)
  obtain pre post where "handoff_records (ig_db ig) key = pre @ h # post" "ev_type h = HANDOFF_EVENT"
      "list_all (\<lambda>e. ev_type e \<noteq> HANDOFF_EVENT) post"
      "list_all (\<lambda>e. pget (ev_payload e) ''queue_sequence'' \<noteq> Some (JInt (int (q_id entry)))) post"
    using binding_scan_latest [OF scan [unfolded binding_scan_def]] sp names(3) by auto
  then show ?thesis
    using key entry_for_Some [OF entry] names v a verify_not_mismatch [OF ok normalize_task_key_idem [OF key]]
    by (intro exI [of _ key] exI [of _ entry] exI [of _ pre] exI [of _ h] exI [of _ post] exI [of _ v]) (auto simp: list_all_iff)
qed

section \<open>A concrete handoff\<close>

text \<open>AT-1 finished at 7; the run of Attempt a1 hands it off at 20.\<close>

definition example_finished :: integration_db where
  "example_finished =
     example_integration_db\<lparr>ig_queue := [], ig_db := (example_db
       [(example_ticket ''AT-1'' ''ready_for_integration'')\<lparr>t_worktree_path := Some ''/repo/.worktrees/AT-1'', t_github_repo := Some ''o/r'',
          t_priority := Some ''high'', t_artifact_dir := Some ''/a'', t_ai_title_status := Some ''generated'',
          t_branch_slug_source := Some ''ai''\<rparr>])\<lparr>db_events :=
       [\<lparr>ev_id = 1, ev_task_key = ''AT-1'', ev_type = ''status_changed'', ev_source = ''dispatcher'',
         ev_payload = JObj [(''status'', JStr ''ready_for_integration'')], ev_created_at = 7\<rparr>]\<rparr>\<rparr>"

definition example_handoff :: "integration_db \<times> handoff_result result" where
  "example_handoff =
     handoff_completed_implementation (\<lambda>_. None) 20 ''AT-1'' COMPLETION_STATUS HANDOFF_SOURCE (Some ''a1'') example_finished"

definition example_later :: "handoff_op list" where
  "example_later = [Handoff 30 ''AT-1'' COMPLETION_STATUS HANDOFF_SOURCE (Some ''a1''), Handoff 40 ''AT-1'' COMPLETION_STATUS HANDOFF_SOURCE None]"

definition example_handed :: handoff_result where
  "example_handed =
     \<lparr>hr_task_key = ''AT-1'', hr_status = ENQUEUED, hr_repo = Some ''o/r'', hr_enqueued_at = Some 7, hr_producer_attempt_id = Some ''a1'',
      hr_producer_superseded = False\<rparr>"

lemma example_handoff_run: "snd example_handoff = Inr example_handed"
  by code_simp

lemma example_handoff_state:
  "handoff_completed_implementation (\<lambda>_. None) 20 ''AT-1'' COMPLETION_STATUS HANDOFF_SOURCE (Some ''a1'') example_finished =
     (fst example_handoff, Inr example_handed)"
  unfolding example_handoff_run [symmetric] by (simp add: example_handoff_def)

theorem handoff_binds_producer_witness:
  "\<exists>b. resolve_producer_attempt_binding (\<lambda>_. None) (run_handoffs (\<lambda>_. None) example_later (fst example_handoff)) ''AT-1'' ''o/r'' = Inr b \<and>
     pb_attempt_id b = None \<and> pb_queue_sequence b = Some 2"
proof -
  have "list_all audited example_later" "\<not> list_all (agrees ''AT-1'' ''a1'') example_later" "ig_queue_seq example_finished = 1" by code_simp+
  then show ?thesis
    using handoff_binds_producer [OF example_handoff_state, of example_later] by (auto simp: example_handed_def)
qed

theorem producer_binding_sound_witness:
  "\<exists>entry h. entry \<in> set (ig_queue (fst example_handoff)) \<and> h \<in> set (handoff_records (ig_db (fst example_handoff)) ''AT-1'') \<and>
     pget (ev_payload h) ''queue_sequence'' = Some (JInt (int (q_id entry))) \<and> q_task_key entry = ''AT-1''"
proof -
  let ?b = "resolve_producer_attempt_binding (\<lambda>_. None) (fst example_handoff) ''AT-1'' ''o/r''"
  have "map_sum id pb_attempt_id ?b = Inr (Some ''a1'')" by code_simp
  then obtain b where b: "?b = Inr b" "pb_attempt_id b = Some ''a1''" by (cases ?b) auto
  have "normalize_task_key ''AT-1'' = Inr ''AT-1''" by code_simp
  then show ?thesis using producer_binding_sound [OF b] by fastforce
qed

end
