(* ===== verification/Spec2Isabelle.thy ===== *)
theory Spec2Isabelle
  imports Auto_Retry Watcher_Safety GitHub_Safety Crash_Safety Tick_Safety Handoff_Safety
begin

text \<open>
  Agent Taskflow is a control plane for coding agents. Tickets are rows of a SQLite database; a runtime claims
  a Ticket, runs an external executor in the Ticket's own git worktree and records the outcome; an integration
  side rebases or merges the finished branch onto its target, runs validators, publishes a pull request,
  watches it and, after a verified merge, cleans up. This development models that core (\<open>src/agent_taskflow\<close>)
  and proves what makes it trustworthy: who may start a Ticket, that a Ticket has one owner, what a run may
  execute, that a crash publishes nothing twice, and that nothing unpublished is ever removed.

  \<^bold>\<open>How the parts interact.\<close> Creating a Ticket (\<open>ticket_creation.py\<close>, \<open>ticket_store.py\<close>) inserts a row with a
  derived key, branch and worktree path. Dependencies (\<open>ticket_dependencies.py\<close>), controls
  (\<open>lifecycle_control.py\<close>), the capacity limit (\<open>runtime_capacity.py\<close>) and the execution policy
  (\<open>execution_policy.py\<close>) decide which Tickets are ready (\<open>ready_queue.py\<close>); the worktree is ensured
  (\<open>ticket_worktree.py\<close>) and the Ticket is claimed (\<open>runtime_admission.py\<close>), which creates its Attempt and
  lease. A stopped Ticket is retried by its owner (\<open>ticket_retry.py\<close>) or automatically
  (\<open>ticket_auto_retry.py\<close>). A finished Ticket is handed off (\<open>integration_handoff.py\<close>) to its repository's queue
  (\<open>integration_queue.py\<close>) and waits for the
  controller (\<open>integration_controller.py\<close>), which first reconciles what a dead run left behind
  (\<open>integration_crash_reconciliation.py\<close>). The watcher (\<open>integration_watcher.py\<close>, \<open>pr_feedback.py\<close>) follows the
  pull request, and the cleanup (\<open>integration_cleanup.py\<close>) ends the Ticket; one pass over a repository
  (\<open>integration_tick.py\<close>) drives all four.

  \<^bold>\<open>Theories and sources.\<close>
  \<^item> \<open>Prelude\<close>: exceptions, results, the Python string fragment, JSON payloads, lists used as tables.
  \<^item> \<open>Status_Vocab\<close>: \<open>models.py\<close>, \<open>ticket_models.py\<close>, \<open>ticket_lifecycle.py\<close> and the other vocabularies.
  \<^item> \<open>Ticket_Metadata\<close>: \<open>tasks.py\<close>, \<open>worktree.py\<close>, \<open>artifacts.py\<close>, \<open>ticket_metadata.py\<close>: keys, paths, branch names.
  \<^item> \<open>Database\<close>: the tables of \<open>store.py\<close> and the schema modules as lists of records, with the constraints and
    triggers that the modelled statements meet.
  \<^item> \<open>Dependencies\<close>, \<open>Runtime_Control\<close>, \<open>Runtime_Capacity\<close>, \<open>Execution_Policy\<close>: the modules named above, with
    \<open>concurrency_gate.py\<close>.
  \<^item> \<open>Runtime_Admission\<close> (claim, heartbeat, release, reaper), \<open>Runtime_Ownership\<close> (its invariant and the
    interface of an exclusive lock), \<open>Runtime_Claim\<close>, \<open>Runtime_Reaper\<close>, \<open>Runtime_Safety\<close> (its properties).
  \<^item> \<open>Ticket_Store\<close>, \<open>Ready_Queue\<close>, \<open>Task_Mirror\<close> (\<open>store.py\<close>), \<open>Ticket_Retry\<close>, \<open>Auto_Retry\<close>.
  \<^item> \<open>Integration_Store\<close>, \<open>Integration_Queue\<close>, \<open>PR_State\<close>: \<open>integration_schema.py\<close>, \<open>integration_store.py\<close>,
    \<open>integration_queue.py\<close>.
  \<^item> \<open>Integration_Action\<close>: programs of several transactions, and the interface of frames (what a program leaves
    alone) that the later theories instantiate.
  \<^item> \<open>GitHub_Adapter\<close>, \<open>GitHub_Safety\<close>: \<open>github_pr_adapter.py\<close>. \<open>Git_Ops\<close>: \<open>integration_git.py\<close>.
  \<^item> \<open>Integration_Watcher\<close>, \<open>Watcher_Safety\<close>: \<open>integration_watcher.py\<close>, \<open>pr_feedback.py\<close>.
  \<^item> \<open>Integration_Run\<close>, \<open>Integration_Controller\<close>, \<open>Crash_Reconciliation\<close>: \<open>integration_controller.py\<close>,
    \<open>integration_validators.py\<close>, \<open>integration_conflict_resolver.py\<close>, \<open>reviewer_hints.py\<close>,
    \<open>integration_crash_reconciliation.py\<close>.
  \<^item> \<open>Run_Facts\<close> (triples for programs that may raise), \<open>Run_Frame\<close>, \<open>Run_History\<close>, \<open>Run_Safety\<close>, \<open>Run_Example\<close>,
    \<open>Crash_Safety\<close>, \<open>Command_Safety\<close>: the properties of a run and of the reconciliation after it.
  \<^item> \<open>Ticket_Worktree\<close>, \<open>Worktree_Safety\<close>: \<open>ticket_worktree.py\<close>, \<open>governance.py\<close>.
  \<^item> \<open>Integration_Cleanup\<close>, \<open>Cleanup_Safety\<close>: \<open>merge_verification.py\<close>, \<open>integration_cleanup.py\<close>.
  \<^item> \<open>Integration_Handoff\<close>, \<open>Handoff_Safety\<close>: \<open>integration_handoff.py\<close>.
  \<^item> \<open>Integration_Tick\<close>, \<open>Tick_Safety\<close>: \<open>integration_tick.py\<close>, which composes the integration side.

  Definitions keep the names of the Python functions where they are free (a leading underscore is dropped; a
  prefix such as \<open>tw_\<close> or \<open>cleanup_\<close> tells methods of the same name apart). A dataclass is a record with a
  prefix per class, its \<open>__post_init__\<close> a definition \<open>init_...\<close>.

  \<^bold>\<open>State and effects.\<close> The runtime side works on one record of tables, \<open>db\<close>; an operation inside one SQL
  transaction returns the new tables or the exception that rolls it back. The integration side commits
  between its steps, so its programs map a state to the state they leave and to a result or an exception
  (\<open>Integration_Action\<close>); the state of a run (\<open>work_state\<close>) is the database with the sequence of commands
  executed and databases committed, so that every prefix is a point where the process may die. Git, GitHub,
  validators, the conflict resolver and the file system are functions of the commands executed before, and the
  properties hold for all of them.

  \<^bold>\<open>What the groups of lemmas show.\<close> Runtime: the ownership invariant is kept by every history of operations, a
  lease is handed over only after release or expiry, the capacity limit holds, claims are refused only for a
  stated cause, the reaper finishes and closes exactly the expired leases and their Attempts, the limit is raised only on evidence. Dependencies: no history builds
  a cycle, the iterative cycle search agrees with reachability, the maintenance pass releases or stops exactly
  the Tickets that are due.
  Policies, gate and controls: exactness of the decisions. Tickets: creation round trip, creation errors,
  retries once and bounded. Integration: the queue is served by time stamps; the PR fields read back as written; the watcher
  makes single moves of the transition table and only with its own Tickets; a run never leaves a Ticket in
  integrating, publishes only what every validator passed, gives git and \<open>gh\<close> only permitted commands (those of
  the validators are the request's own and leave no step), and what it left at a crash is never
  published twice. Worktrees: ensuring one never destroys work and is idempotent. Cleanup: only published work is removed and only a proved merge completes a Ticket. Tick: the queue is visited in order,
  only bound entries reach the controller, and every phase writes only when confirmed. Handoff: an entry is bound
  to the Attempt that produced it, and to no other.

  \<^bold>\<open>Conventions.\<close> Time stamps are whole seconds (\<open>int\<close>), as the program writes them; text order of the stamps
  and numeric order agree. Characters are code points below 256. Messages and exception texts, which are only
  printed, are dropped; payloads of events are kept as JSON. A NULL payload is the empty object. The database is
  the fully migrated one, so that \<open>init_db\<close> and the migration checks change nothing. Parameters stand for what
  is outside the sources: home directories, the parsed project registry, hashes, ids and tokens, git, \<open>gh\<close>,
  the JSON parser, file reads and writes, the file lock, the conflict resolver, validators and the
  evidence directory (the producer binding is one for the run; its definition is in \<open>Integration_Handoff\<close>).

  \<^bold>\<open>Bounds.\<close> No definition uses fuel and every function is total. Python's loops over lists are structural
  recursions; the \<open>while\<close> loops (the cycle search of the dependencies, the scans of \<open>gh\<close> arguments, of argv
  placeholders and of texts) have termination proofs, the cycle search because every further step visits a
  task it has not seen. Integers are unbounded in the program and in the model.

  \<^bold>\<open>Not modelled.\<close> The HTTP API and the command line (request parsing and printing over the modelled stores);
  executors, executor launch and worktree diffing, the dispatcher and the approved-task runner (control of
  external processes); advisory reviews, recommendations, evidence files, ledgers, observability and the
  concurrency rehearsal (reports and files around the stores); the earlier proposal and confirmation path of the
  scheduler and its execution-engine adapters (not used by Tickets); schema migrations (DDL); the
  file lock itself, whose outcome is an argument; issue ingestion;
  the title suggestion by an external adapter; scripts. The manifest lists them with their files.
\<close>

end
